(* ===== verification/Adt_Prelude.thy ===== *)
theory Adt_Prelude
  imports Main "HOL-Library.Sublist" "HOL-Library.AList" "HOL-Library.Code_Target_Numeral"
begin

text \<open>
  Shared vocabulary of the development.

  \<^item> Strings. A JavaScript string is a sequence of code units; the development works over
    \<^typ>\<open>string\<close>, that is over the code units 0 to 255 (Latin-1), and gives the exact
    behaviour of the string methods the sources call on that alphabet: \<^verbatim>\<open>trim\<close>,
    \<^verbatim>\<open>toLowerCase\<close>, \<^verbatim>\<open>split\<close>, \<^verbatim>\<open>join\<close>, \<^verbatim>\<open>replace\<close> with a character-class run, and the
    UTF-8 length of \<^verbatim>\<open>Buffer.byteLength\<close>.
  \<^item> Effects. An asynchronous method that may throw and that changes state is a function
    \<^typ>\<open>'s \<Rightarrow> ('e + 'a) \<times> 's\<close>: the state at the throw point is kept, as it is in the code.
    \<open>ret\<close>, \<open>throw\<close>, \<open>bnd\<close>, \<open>handle\<close> and \<open>guardE\<close> are return, throw, sequencing,
    try/catch and the early throw.
  \<^item> \<open>eff_inv\<close> collects the inversion rules that take a finished run of a composed effect
    apart; \<open>js_simps\<close> the evaluation rules of the string methods.
\<close>

named_theorems eff_inv "inversion of finished effectful computations"
named_theorems eff_def "definitions of the effect combinators"
named_theorems js_simps "evaluation rules for the string methods"

section \<open>Definitions\<close>

subsection \<open>Effects with errors\<close>

type_synonym ('s, 'e, 'a) eff = "'s \<Rightarrow> ('e + 'a) \<times> 's"

definition ret :: "'a \<Rightarrow> ('s, 'e, 'a) eff" where
  [eff_def]: "ret x s = (Inr x, s)"

definition throw :: "'e \<Rightarrow> ('s, 'e, 'a) eff" where
  [eff_def]: "throw e s = (Inl e, s)"

definition bnd :: "('s, 'e, 'a) eff \<Rightarrow> ('a \<Rightarrow> ('s, 'e, 'b) eff) \<Rightarrow> ('s, 'e, 'b) eff" where
  [eff_def]: "bnd m f s = (case m s of (Inl e, t) \<Rightarrow> (Inl e, t) | (Inr x, t) \<Rightarrow> f x t)"

definition handle :: "('s, 'e, 'a) eff \<Rightarrow> ('e \<Rightarrow> ('s, 'e, 'a) eff) \<Rightarrow> ('s, 'e, 'a) eff" where
  [eff_def]: "handle m h s = (case m s of (Inl e, t) \<Rightarrow> h e t | (Inr x, t) \<Rightarrow> (Inr x, t))"

text \<open>\<^verbatim>\<open>try { m } finally { f }\<close>: an error of \<open>f\<close> replaces the outcome of \<open>m\<close>.\<close>

definition finallyE :: "('s, 'e, 'a) eff \<Rightarrow> ('s, 'e, unit) eff \<Rightarrow> ('s, 'e, 'a) eff" where
  [eff_def]: "finallyE m f s =
     (case m s of (r, t) \<Rightarrow> (case f t of (Inl e, u) \<Rightarrow> (Inl e, u) | (Inr _, u) \<Rightarrow> (r, u)))"

definition guardE :: "bool \<Rightarrow> 'e \<Rightarrow> ('s, 'e, unit) eff" where
  [eff_def]: "guardE b e s = (if b then (Inr (), s) else (Inl e, s))"

definition ofSum :: "'e + 'a \<Rightarrow> ('s, 'e, 'a) eff" where
  [eff_def]: "ofSum r s = (r, s)"

definition getS :: "('s \<Rightarrow> 'a) \<Rightarrow> ('s, 'e, 'a) eff" where
  [eff_def]: "getS f s = (Inr (f s), s)"

definition modS :: "('s \<Rightarrow> 's) \<Rightarrow> ('s, 'e, unit) eff" where
  [eff_def]: "modS f s = (Inr (), f s)"

text \<open>The left-to-right run of an effectful mapper over an array.\<close>

fun mapE :: "('a \<Rightarrow> ('s, 'e, 'b) eff) \<Rightarrow> 'a list \<Rightarrow> ('s, 'e, 'b list) eff" where
  "mapE f [] = ret []"
| "mapE f (x # xs) = bnd (f x) (\<lambda>y. bnd (mapE f xs) (\<lambda>ys. ret (y # ys)))"

text \<open>Pure fallible code: sequencing and array mapping on sums.\<close>

definition bindR :: "'e + 'a \<Rightarrow> ('a \<Rightarrow> 'e + 'b) \<Rightarrow> 'e + 'b" where
  "bindR r f = (case r of Inl e \<Rightarrow> Inl e | Inr x \<Rightarrow> f x)"

fun mapR :: "('a \<Rightarrow> 'e + 'b) \<Rightarrow> 'a list \<Rightarrow> 'e + 'b list" where
  "mapR f [] = Inr []"
| "mapR f (x # xs) = bindR (f x) (\<lambda>y. bindR (mapR f xs) (\<lambda>ys. Inr (y # ys)))"

definition is_ok :: "'e + 'a \<Rightarrow> bool" where
  "is_ok r = (case r of Inl _ \<Rightarrow> False | Inr _ \<Rightarrow> True)"

subsection \<open>Characters and strings\<close>

definition code :: "char \<Rightarrow> nat" where
  "code c = of_char c"

text \<open>White space of \<^verbatim>\<open>trim\<close> and of the class \<^verbatim>\<open>\s\<close>, on Latin-1.\<close>

definition js_ws :: "char \<Rightarrow> bool" where
  "js_ws c = (code c \<in> {9, 10, 11, 12, 13, 32, 160})"

definition lower_alpha :: "char \<Rightarrow> bool" where
  "lower_alpha c = (97 \<le> code c \<and> code c \<le> 122)"

definition upper_alpha :: "char \<Rightarrow> bool" where
  "upper_alpha c = (65 \<le> code c \<and> code c \<le> 90)"

definition digit :: "char \<Rightarrow> bool" where
  "digit c = (48 \<le> code c \<and> code c \<le> 57)"

definition lower_alnum :: "char \<Rightarrow> bool" where
  "lower_alnum c = (lower_alpha c \<or> digit c)"

definition alnum :: "char \<Rightarrow> bool" where
  "alnum c = (lower_alpha c \<or> upper_alpha c \<or> digit c)"

definition hex_lower :: "char \<Rightarrow> bool" where
  "hex_lower c = (digit c \<or> (97 \<le> code c \<and> code c \<le> 102))"

definition hex_any :: "char \<Rightarrow> bool" where
  "hex_any c = (hex_lower c \<or> (65 \<le> code c \<and> code c \<le> 70))"

text \<open>
  Lower-casing on Latin-1: the ASCII capitals and the capitals 192 to 222 except the
  multiplication sign 215 move by 32; every other code unit is its own lower case.
\<close>

definition js_lower_char :: "char \<Rightarrow> char" where
  "js_lower_char c =
     (if upper_alpha c \<or> (192 \<le> code c \<and> code c \<le> 222 \<and> code c \<noteq> 215)
      then char_of (code c + 32) else c)"

definition js_lower :: "string \<Rightarrow> string" where
  "js_lower s = map js_lower_char s"

definition js_trim_start :: "string \<Rightarrow> string" where
  "js_trim_start s = dropWhile js_ws s"

definition strip_end :: "('a \<Rightarrow> bool) \<Rightarrow> 'a list \<Rightarrow> 'a list" where
  "strip_end P s = rev (dropWhile P (rev s))"

definition strip :: "('a \<Rightarrow> bool) \<Rightarrow> 'a list \<Rightarrow> 'a list" where
  "strip P s = strip_end P (dropWhile P s)"

definition js_trim :: "string \<Rightarrow> string" where
  "js_trim s = strip js_ws s"

text \<open>\<^verbatim>\<open>s.split(c)\<close> for a one-character separator, and \<^verbatim>\<open>xs.join(sep)\<close>.\<close>

fun js_split :: "'a \<Rightarrow> 'a list \<Rightarrow> 'a list list" where
  "js_split c [] = [[]]"
| "js_split c (x # xs) =
     (if x = c then [] # js_split c xs
      else (case js_split c xs of [] \<Rightarrow> [[x]] | w # ws \<Rightarrow> (x # w) # ws))"

fun js_join :: "'a list \<Rightarrow> 'a list list \<Rightarrow> 'a list" where
  "js_join sep [] = []"
| "js_join sep [w] = w"
| "js_join sep (w # v # ws) = w @ sep @ js_join sep (v # ws)"

text \<open>\<^verbatim>\<open>s.replace(/[P]+/g, r)\<close>: every maximal run of characters in \<open>P\<close> becomes \<open>r\<close>.\<close>

function replace_runs :: "('a \<Rightarrow> bool) \<Rightarrow> 'a list \<Rightarrow> 'a list \<Rightarrow> 'a list" where
  "replace_runs P r [] = []"
| "replace_runs P r (c # cs) =
     (if P c then r @ replace_runs P r (dropWhile P cs) else c # replace_runs P r cs)"
  by pat_completeness auto
termination
  by (relation "measure (\<lambda>(P, r, s). length s)") (auto simp: length_dropWhile_le le_imp_less_Suc)

text \<open>\<^verbatim>\<open>Buffer.byteLength(s, "utf8")\<close>: one byte below 128, two bytes from 128 to 255.\<close>

definition utf8_length :: "string \<Rightarrow> nat" where
  "utf8_length s = sum_list (map (\<lambda>c. if code c < 128 then 1 else 2) s)"

text \<open>The identifier pattern \<^verbatim>\<open>/^[a-z0-9]+(?:-[a-z0-9]+)*$/\<close> shared by the whole program.\<close>

definition slug_pattern :: "string \<Rightarrow> bool" where
  "slug_pattern s = list_all (\<lambda>w. w \<noteq> [] \<and> list_all lower_alnum w) (js_split (CHR ''-'') s)"

text \<open>\<^verbatim>\<open>Array.from(new Set(xs))\<close>: first occurrences, in order.\<close>

fun dedup_onto :: "'a list \<Rightarrow> 'a list \<Rightarrow> 'a list" where
  "dedup_onto acc [] = acc"
| "dedup_onto acc (x # xs) = dedup_onto (if x \<in> set acc then acc else acc @ [x]) xs"

definition js_dedup :: "'a list \<Rightarrow> 'a list" where
  "js_dedup xs = dedup_onto [] xs"

text \<open>\<^verbatim>\<open>xs.at(-1)\<close> and \<^verbatim>\<open>xs.find(p)\<close>.\<close>

definition js_last :: "'a list \<Rightarrow> 'a option" where
  "js_last xs = (if xs = [] then None else Some (last xs))"

definition js_find :: "('a \<Rightarrow> bool) \<Rightarrow> 'a list \<Rightarrow> 'a option" where
  "js_find P xs = List.find P xs"

text \<open>\<^verbatim>\<open>xs.sort(cmp)\<close>: the stable sort by a comparator, as an insertion sort.\<close>

fun insert_by :: "('a \<Rightarrow> 'a \<Rightarrow> int) \<Rightarrow> 'a \<Rightarrow> 'a list \<Rightarrow> 'a list" where
  "insert_by cmp x [] = [x]"
| "insert_by cmp x (y # ys) = (if cmp x y \<le> 0 then x # y # ys else y # insert_by cmp x ys)"

fun js_sort_by :: "('a \<Rightarrow> 'a \<Rightarrow> int) \<Rightarrow> 'a list \<Rightarrow> 'a list" where
  "js_sort_by cmp [] = []"
| "js_sort_by cmp (x # xs) = insert_by cmp x (js_sort_by cmp xs)"

text \<open>The default order of \<^verbatim>\<open>sort()\<close> on strings: by code units.\<close>

fun string_less :: "string \<Rightarrow> string \<Rightarrow> bool" where
  "string_less [] [] = False"
| "string_less [] (b # bs) = True"
| "string_less (a # as) [] = False"
| "string_less (a # as) (b # bs) = (code a < code b \<or> (a = b \<and> string_less as bs))"

definition string_order :: "string \<Rightarrow> string \<Rightarrow> int" where
  "string_order a b = (if string_less a b then -1 else if a = b then 0 else 1)"

text \<open>JavaScript truthiness of an optional string: present and non-empty.\<close>

definition truthy :: "string option \<Rightarrow> bool" where
  "truthy v = (case v of None \<Rightarrow> False | Some s \<Rightarrow> s \<noteq> [])"

text \<open>\<^verbatim>\<open>Number.isSafeInteger\<close> on an integral number.\<close>

definition safe_integer :: "int \<Rightarrow> bool" where
  "safe_integer n = (\<bar>n\<bar> \<le> 9007199254740991)"

section \<open>Lemmas\<close>

subsection \<open>Inverting effects\<close>

lemma ret_eq [simp, eff_inv]: "(ret x s = (r, t)) \<longleftrightarrow> r = Inr x \<and> t = s"
  by (auto simp: ret_def)

lemma throw_eq [simp, eff_inv]: "(throw e s = (r, t)) \<longleftrightarrow> r = Inl e \<and> t = s"
  by (auto simp: throw_def)

lemma guardE_eq [simp, eff_inv]:
  "(guardE b e s = (r, t)) \<longleftrightarrow> t = s \<and> r = (if b then Inr () else Inl e)"
  by (auto simp: guardE_def)

lemma ofSum_eq [simp, eff_inv]: "(ofSum v s = (r, t)) \<longleftrightarrow> v = r \<and> t = s"
  by (auto simp: ofSum_def)

lemma getS_eq [simp, eff_inv]: "(getS f s = (r, t)) \<longleftrightarrow> r = Inr (f s) \<and> t = s"
  by (auto simp: getS_def)

lemma modS_eq [simp, eff_inv]: "(modS f s = (r, t)) \<longleftrightarrow> r = Inr () \<and> t = f s"
  by (auto simp: modS_def)

lemma bnd_Inr [eff_inv]:
  "(bnd m f s = (Inr y, t)) \<longleftrightarrow> (\<exists>x u. m s = (Inr x, u) \<and> f x u = (Inr y, t))"
  by (auto simp: bnd_def split: prod.splits sum.splits)

lemma bnd_Inl [eff_inv]:
  "(bnd m f s = (Inl e, t)) \<longleftrightarrow>
     m s = (Inl e, t) \<or> (\<exists>x u. m s = (Inr x, u) \<and> f x u = (Inl e, t))"
  by (auto simp: bnd_def split: prod.splits sum.splits)

lemma bnd_eq:
  "(bnd m f s = (r, t)) \<longleftrightarrow>
     (\<exists>e. m s = (Inl e, t) \<and> r = Inl e) \<or> (\<exists>x u. m s = (Inr x, u) \<and> f x u = (r, t))"
  by (auto simp: bnd_def split: prod.splits sum.splits)

lemma bnd_ret [simp]: "bnd (ret x) f = f x"
  by (rule ext) (simp add: eff_def)

lemma bnd_throw [simp]: "bnd (throw e) f = throw e"
  by (rule ext) (simp add: eff_def)

lemma bnd_ofSum_Inr [simp]: "bnd (ofSum (Inr x)) f = f x"
  by (rule ext) (simp add: eff_def)

lemma bnd_guardE_True [simp]: "bnd (guardE True e) f = f ()"
  by (rule ext) (simp add: eff_def)

lemma bnd_guardE_False [simp]: "bnd (guardE False e) f = throw e"
  by (rule ext) (simp add: eff_def)

lemma bnd_assoc: "bnd (bnd m f) g = bnd m (\<lambda>x. bnd (f x) g)"
  by (rule ext) (auto simp: eff_def split: prod.splits sum.splits)

text \<open>An effect that only reads: whatever it returns, the state is the old one.\<close>

definition reads :: "('s, 'e, 'a) eff \<Rightarrow> bool" where
  "reads m \<longleftrightarrow> (\<forall>s. snd (m s) = s)"

lemma readsD: "reads m \<Longrightarrow> m s = (r, t) \<Longrightarrow> t = s"
  by (auto simp: reads_def dest: spec[of _ s])

subsection \<open>Fallible mapping\<close>

lemma bindR_simps [simp]:
  "bindR (Inl e) f = Inl e" "bindR (Inr x) f = f x"
  by (simp_all add: bindR_def)

lemma bindR_Inr: "(bindR r f = Inr y) \<longleftrightarrow> (\<exists>x. r = Inr x \<and> f x = Inr y)"
  by (cases r) auto

lemma bindR_Inl: "(bindR r f = Inl e) \<longleftrightarrow> r = Inl e \<or> (\<exists>x. r = Inr x \<and> f x = Inl e)"
  by (cases r) auto

lemma is_ok_simps [simp]: "is_ok (Inr x)" "\<not> is_ok (Inl e)"
  by (simp_all add: is_ok_def)

lemma is_ok_iff: "is_ok r \<longleftrightarrow> (\<exists>x. r = Inr x)"
  by (cases r) auto

lemma mapR_Inr: "(mapR f xs = Inr ys) \<longleftrightarrow> list_all2 (\<lambda>x y. f x = Inr y) xs ys"
  by (induction xs arbitrary: ys) (auto simp: bindR_Inr list_all2_Cons1)

lemma mapR_Inr_nth:
  "mapR f xs = Inr ys \<Longrightarrow> i < length xs \<Longrightarrow> f (xs ! i) = Inr (ys ! i)"
  by (simp add: mapR_Inr list_all2_conv_all_nth)

lemma mapR_Inr_length: "mapR f xs = Inr ys \<Longrightarrow> length ys = length xs"
  by (simp add: mapR_Inr list_all2_lengthD)

lemma mapR_Inr_in: "mapR f xs = Inr ys \<Longrightarrow> y \<in> set ys \<Longrightarrow> \<exists>x \<in> set xs. f x = Inr y"
  unfolding mapR_Inr by (induction rule: list_all2_induct) auto

subsection \<open>Stripping and trimming\<close>

lemma strip_end_Nil [simp]: "strip_end P [] = []"
  by (simp add: strip_end_def)

lemma strip_end_snoc: "strip_end P (xs @ [x]) = (if P x then strip_end P xs else xs @ [x])"
  by (simp add: strip_end_def)

lemma strip_end_eq_Nil: "strip_end P xs = [] \<longleftrightarrow> (\<forall>x \<in> set xs. P x)"
  by (auto simp: strip_end_def)

lemma strip_end_last: "strip_end P xs \<noteq> [] \<Longrightarrow> \<not> P (last (strip_end P xs))"
  by (simp add: strip_end_def last_rev hd_dropWhile)

lemma strip_end_prefix: "prefix (strip_end P xs) xs"
proof -
  have "suffix (dropWhile P (rev xs)) (rev xs)"
    by (rule suffix_dropWhile)
  then show ?thesis
    by (simp add: strip_end_def suffix_to_prefix)
qed

lemma strip_end_idem [simp]: "strip_end P (strip_end P xs) = strip_end P xs"
  by (cases "strip_end P xs = []")
     (auto simp: strip_end_def dropWhile_eq_self_iff hd_dropWhile)

lemma prefix_hd: "prefix xs ys \<Longrightarrow> xs \<noteq> [] \<Longrightarrow> hd xs = hd ys"
  by (auto simp: prefix_def)

lemma strip_end_hd: "strip_end P xs \<noteq> [] \<Longrightarrow> hd (strip_end P xs) = hd xs"
  by (rule prefix_hd [OF strip_end_prefix])

lemma set_strip_end: "set (strip_end P xs) \<subseteq> set xs"
  by (meson set_mono_prefix strip_end_prefix)

lemma length_strip_end: "length (strip_end P xs) \<le> length xs"
  by (rule prefix_length_le [OF strip_end_prefix])

lemma strip_hd: "strip P xs \<noteq> [] \<Longrightarrow> \<not> P (hd (strip P xs))"
  by (metis hd_dropWhile strip_def strip_end_Nil strip_end_hd)

lemma strip_last: "strip P xs \<noteq> [] \<Longrightarrow> \<not> P (last (strip P xs))"
  by (simp add: strip_def strip_end_last)

lemma set_strip: "set (strip P xs) \<subseteq> set xs"
  by (metis set_dropWhileD set_strip_end strip_def subset_code(1) subsetD)

lemma strip_idem [simp]: "strip P (strip P xs) = strip P xs"
proof (cases "strip P xs = []")
  case True
  then show ?thesis by (simp add: strip_def)
next
  case False
  then have "dropWhile P (strip P xs) = strip P xs"
    by (simp add: dropWhile_eq_self_iff strip_hd)
  then show ?thesis by (simp add: strip_def)
qed

lemma strip_eq_Nil: "strip P xs = [] \<longleftrightarrow> (\<forall>x \<in> set xs. P x)"
  unfolding strip_def strip_end_eq_Nil
  by (metis dropWhile_eq_Nil_conv hd_dropWhile list.set_sel(1) set_dropWhileD)

lemma js_trim_idem [simp]: "js_trim (js_trim s) = js_trim s"
  by (simp add: js_trim_def)

lemma js_trim_Nil [simp]: "js_trim [] = []"
  by (simp add: js_trim_def strip_def)

subsection \<open>Splitting and joining\<close>

lemma js_split_not_Nil [simp]: "js_split c s \<noteq> []"
  by (induction s) (auto split: list.splits)

lemma js_split_no_sep: "w \<in> set (js_split c s) \<Longrightarrow> c \<notin> set w"
  by (induction s arbitrary: w) (auto split: list.splits if_splits)

lemma js_join_Cons: "ws \<noteq> [] \<Longrightarrow> js_join sep (w # ws) = w @ sep @ js_join sep ws"
  by (cases ws) auto

lemma js_join_Cons_hd: "js_join sep ((x # w) # ws) = x # js_join sep (w # ws)"
  by (cases ws) auto

text \<open>Splitting loses nothing: joining the pieces gives the string back.\<close>

lemma js_join_split [simp]: "js_join [c] (js_split c s) = s"
proof (induction s)
  case Nil
  then show ?case by simp
next
  case (Cons x xs)
  show ?case
  proof (cases "js_split c xs")
    case Nil
    then show ?thesis by simp
  next
    case (Cons w ws)
    with Cons.IH show ?thesis
      by (auto simp: js_join_Cons_hd js_join_Cons)
  qed
qed

lemma js_split_append_sep: "c \<notin> set w \<Longrightarrow> js_split c (w @ c # s) = w # js_split c s"
  by (induction w) auto

lemma js_split_plain: "c \<notin> set w \<Longrightarrow> js_split c w = [w]"
  by (induction w) auto

lemma js_split_join:
  "ws \<noteq> [] \<Longrightarrow> \<forall>w \<in> set ws. c \<notin> set w \<Longrightarrow> js_split c (js_join [c] ws) = ws"
proof (induction ws)
  case Nil
  then show ?case by simp
next
  case (Cons w ws)
  then show ?case
    by (cases ws) (auto simp: js_split_plain js_split_append_sep)
qed

subsection \<open>Deduplication\<close>

lemma set_dedup_onto: "set (dedup_onto acc xs) = set acc \<union> set xs"
  by (induction acc xs rule: dedup_onto.induct) auto

lemma distinct_dedup_onto: "distinct acc \<Longrightarrow> distinct (dedup_onto acc xs)"
  by (induction acc xs rule: dedup_onto.induct) auto

lemma dedup_onto_distinct:
  "distinct (acc @ xs) \<Longrightarrow> dedup_onto acc xs = acc @ xs"
  by (induction acc xs rule: dedup_onto.induct) auto

lemma set_js_dedup [simp]: "set (js_dedup xs) = set xs"
  by (simp add: js_dedup_def set_dedup_onto)

lemma distinct_js_dedup [simp]: "distinct (js_dedup xs)"
  by (simp add: js_dedup_def distinct_dedup_onto)

lemma js_dedup_distinct: "distinct xs \<Longrightarrow> js_dedup xs = xs"
  by (simp add: js_dedup_def dedup_onto_distinct)

lemma js_dedup_idem [simp]: "js_dedup (js_dedup xs) = js_dedup xs"
  by (simp add: js_dedup_distinct)

subsection \<open>Array search\<close>

lemma js_find_Some: "js_find P xs = Some x \<Longrightarrow> x \<in> set xs \<and> P x"
  by (auto simp: js_find_def find_Some_iff)

lemma js_find_None: "js_find P xs = None \<longleftrightarrow> (\<forall>x \<in> set xs. \<not> P x)"
  by (auto simp: js_find_def find_None_iff)

lemma js_find_unique:
  "x \<in> set xs \<Longrightarrow> P x \<Longrightarrow> (\<And>y. y \<in> set xs \<Longrightarrow> P y \<Longrightarrow> y = x) \<Longrightarrow> js_find P xs = Some x"
  by (metis js_find_None js_find_Some option.exhaust)

lemma js_last_snoc [simp]: "js_last (xs @ [x]) = Some x"
  by (simp add: js_last_def)

lemma js_last_Nil [simp]: "js_last [] = None"
  by (simp add: js_last_def)

lemma js_last_Some: "js_last xs = Some x \<Longrightarrow> x \<in> set xs"
  by (auto simp: js_last_def split: if_splits)

subsection \<open>The identifier pattern\<close>

lemma code_hyphen [simp]: "code (CHR ''-'') = 45"
  by (simp add: code_def)

lemma lower_alnum_not_hyphen: "lower_alnum c \<Longrightarrow> c \<noteq> CHR ''-''"
  by (auto simp: lower_alnum_def lower_alpha_def digit_def)

text \<open>No two neighbouring characters are both the separator.\<close>

definition no_double :: "'a \<Rightarrow> 'a list \<Rightarrow> bool" where
  "no_double d s \<longleftrightarrow> successively (\<lambda>x y. x \<noteq> d \<or> y \<noteq> d) s"

lemma no_double_Nil [simp]: "no_double d []"
  by (simp add: no_double_def)

lemma no_double_Cons:
  "no_double d (x # xs) \<longleftrightarrow> (xs = [] \<or> x \<noteq> d \<or> hd xs \<noteq> d) \<and> no_double d xs"
  by (cases xs) (auto simp: no_double_def)

lemma no_double_prefix: "prefix xs ys \<Longrightarrow> no_double d ys \<Longrightarrow> no_double d xs"
  by (auto simp: no_double_def prefix_def successively_append_iff)

lemma no_double_suffix: "suffix xs ys \<Longrightarrow> no_double d ys \<Longrightarrow> no_double d xs"
  by (auto simp: no_double_def suffix_def successively_append_iff)

lemma js_split_hd_Nil: "hd (js_split d s) = [] \<longleftrightarrow> s = [] \<or> hd s = d"
  by (cases s) (auto split: list.splits)

lemma split_pieces_tl:
  "(\<forall>w \<in> set (tl (js_split d s)). w \<noteq> []) \<longleftrightarrow>
     s = [] \<or> (last s \<noteq> d \<and> no_double d s)"
proof (induction s)
  case Nil
  then show ?case by simp
next
  case (Cons x xs)
  have pieces: "(\<forall>w \<in> set (js_split d xs). w \<noteq> []) \<longleftrightarrow>
      hd (js_split d xs) \<noteq> [] \<and> (\<forall>w \<in> set (tl (js_split d xs)). w \<noteq> [])"
    by (cases "js_split d xs") auto
  have rest: "tl (js_split d (x # xs)) = (if x = d then js_split d xs else tl (js_split d xs))"
    by (auto split: list.split)
  show ?case
    unfolding rest using Cons.IH pieces js_split_hd_Nil [of d xs]
    by (auto simp: no_double_Cons)
qed

lemma split_pieces_nonempty:
  "(\<forall>w \<in> set (js_split d s). w \<noteq> []) \<longleftrightarrow>
     s \<noteq> [] \<and> hd s \<noteq> d \<and> last s \<noteq> d \<and> no_double d s"
proof -
  have "(\<forall>w \<in> set (js_split d s). w \<noteq> []) \<longleftrightarrow>
      hd (js_split d s) \<noteq> [] \<and> (\<forall>w \<in> set (tl (js_split d s)). w \<noteq> [])"
    by (cases "js_split d s") auto
  then show ?thesis
    unfolding js_split_hd_Nil split_pieces_tl by auto
qed

lemma in_js_split: "(\<exists>w \<in> set (js_split d s). x \<in> set w) \<longleftrightarrow> x \<in> set s \<and> x \<noteq> d"
  by (induction s) (auto split: list.split)

lemma set_js_split: "set s - {d} = \<Union> (set ` set (js_split d s))"
  using in_js_split [of d s] by auto

lemma slug_pattern_iff:
  "slug_pattern s \<longleftrightarrow>
     s \<noteq> [] \<and> hd s \<noteq> CHR ''-'' \<and> last s \<noteq> CHR ''-'' \<and> no_double (CHR ''-'') s
     \<and> (\<forall>c \<in> set s. lower_alnum c \<or> c = CHR ''-'')"
proof -
  have "slug_pattern s \<longleftrightarrow>
      (\<forall>w \<in> set (js_split (CHR ''-'') s). w \<noteq> [])
      \<and> (\<forall>w \<in> set (js_split (CHR ''-'') s). \<forall>c \<in> set w. lower_alnum c)"
    by (auto simp: slug_pattern_def list_all_iff)
  also have "(\<forall>w \<in> set (js_split (CHR ''-'') s). \<forall>c \<in> set w. lower_alnum c) \<longleftrightarrow>
      (\<forall>c \<in> set s - {CHR ''-''}. lower_alnum c)"
    unfolding set_js_split by blast
  finally show ?thesis
    unfolding split_pieces_nonempty by auto
qed

lemma slug_pattern_not_Nil: "slug_pattern s \<Longrightarrow> s \<noteq> []"
  by (simp add: slug_pattern_iff)

subsection \<open>Replacing runs\<close>

declare replace_runs.simps [simp del]

lemma replace_runs_Nil [simp]: "replace_runs P r [] = []"
  by (simp add: replace_runs.simps)

lemma set_replace_runs:
  "c \<in> set (replace_runs P r s) \<Longrightarrow> c \<in> set r \<or> (c \<in> set s \<and> \<not> P c)"
proof (induction P r s rule: replace_runs.induct)
  case (1 P r)
  then show ?case by simp
next
  case (2 P r x xs)
  then show ?case
    by (auto simp: replace_runs.simps(2) dest: set_dropWhileD split: if_splits)
qed

lemma replace_runs_hd:
  "\<not> P (hd s) \<Longrightarrow> s \<noteq> [] \<Longrightarrow> hd (replace_runs P r s) = hd s \<and> replace_runs P r s \<noteq> []"
  by (cases s) (auto simp: replace_runs.simps)

lemma no_double_replace_runs:
  assumes "P d"
  shows "no_double d (replace_runs P [d] s)"
  using assms
proof (induction P "[d]" s rule: replace_runs.induct)
  case (1 P)
  then show ?case by simp
next
  case (2 P x xs)
  show ?case
  proof (cases "P x")
    case True
    have "no_double d (replace_runs P [d] (dropWhile P xs))"
      using 2 True by simp
    moreover have "hd (replace_runs P [d] (dropWhile P xs)) \<noteq> d"
      if "replace_runs P [d] (dropWhile P xs) \<noteq> []"
    proof -
      have "dropWhile P xs \<noteq> []" using that by (metis replace_runs_Nil)
      then have "\<not> P (hd (dropWhile P xs))" by (rule hd_dropWhile)
      then have "hd (replace_runs P [d] (dropWhile P xs)) = hd (dropWhile P xs)"
        using \<open>dropWhile P xs \<noteq> []\<close> replace_runs_hd by blast
      with \<open>\<not> P (hd (dropWhile P xs))\<close> \<open>P d\<close> show ?thesis by auto
    qed
    ultimately show ?thesis
      using True by (auto simp: replace_runs.simps no_double_Cons)
  next
    case False
    with 2 show ?thesis
      by (auto simp: replace_runs.simps(2) no_double_Cons)
  qed
qed

text \<open>A run of length one is left alone, so collapsing a collapsed string changes nothing.\<close>

lemma replace_runs_no_double:
  "no_double d s \<Longrightarrow> replace_runs (\<lambda>c. c = d) [d] s = s"
proof (induction s)
  case Nil
  then show ?case by simp
next
  case (Cons x xs)
  then have IH: "replace_runs (\<lambda>c. c = d) [d] xs = xs"
    by (simp add: no_double_Cons)
  have "dropWhile (\<lambda>c. c = d) xs = xs" if "x = d"
    using that Cons.prems by (auto simp: no_double_Cons dropWhile_eq_self_iff)
  with IH show ?case
    by (auto simp: replace_runs.simps)
qed

subsection \<open>Truthiness\<close>

lemma truthy_simps [simp]: "\<not> truthy None" "truthy (Some s) = (s \<noteq> [])"
  by (simp_all add: truthy_def)

lemma truthy_iff: "truthy v \<longleftrightarrow> (\<exists>s. v = Some s \<and> s \<noteq> [])"
  by (cases v) auto

subsection \<open>Sorting\<close>

lemma set_insert_by [simp]: "set (insert_by cmp x xs) = insert x (set xs)"
  by (induction xs) auto

lemma set_js_sort_by [simp]: "set (js_sort_by cmp xs) = set xs"
  by (induction xs) auto

lemma length_insert_by [simp]: "length (insert_by cmp x xs) = Suc (length xs)"
  by (induction xs) auto

lemma length_js_sort_by [simp]: "length (js_sort_by cmp xs) = length xs"
  by (induction xs) auto

lemma distinct_map_insert_by [simp]:
  "distinct (map f (insert_by cmp x xs)) \<longleftrightarrow> distinct (map f (x # xs))"
  by (induction xs) auto

lemma distinct_map_js_sort_by [simp]: "distinct (map f (js_sort_by cmp xs)) \<longleftrightarrow> distinct (map f xs)"
  by (induction xs) auto

subsection \<open>Sequential runs\<close>

lemma mapE_Inr_length: "mapE f xs s = (Inr ys, t) \<Longrightarrow> length ys = length xs"
  by (induction xs arbitrary: s ys) (auto simp: bnd_Inr)

text \<open>Every result of a completed run was produced by a call on its own element.\<close>

lemma mapE_Inr_in:
  "mapE f xs s = (Inr ys, t) \<Longrightarrow> list_all2 (\<lambda>x y. \<exists>u v. f x u = (Inr y, v)) xs ys"
  by (induction xs arbitrary: s ys) (auto simp: bnd_Inr)

end
