(* ===== verification/Concurrent_Map.thy ===== *)
theory Concurrent_Map
  imports Adt_Prelude
begin

text \<open>
  \<^verbatim>\<open>mapWithConcurrency\<close> of \<^verbatim>\<open>lib/artifact-repository.ts\<close> as a step relation: a pool of workers that
  take the next index, await the mapper and store its result. A step is one worker's move, so
  every interleaving of the awaits is a sequence of steps. The mapper is a relation between
  an index and an outcome, because it may depend on the network.

  The lemmas show that the number of calls in flight is bounded, that no index is taken twice,
  that every schedule ends after a bounded number of steps and cannot get stuck earlier, and that
  a pool which ends without a rejection has one result per input, in input order.
\<close>

section \<open>Definitions\<close>

datatype worker = Idle | Awaiting nat | Finished | Rejected

record ('e, 'b) pool =
  pool_next :: nat
  pool_workers :: "worker list"
  pool_results :: "'b option list"
  pool_error :: "'e option"

definition pool_start :: "nat \<Rightarrow> nat \<Rightarrow> ('e, 'b) pool" where
  "pool_start n concurrency =
     \<lparr>pool_next = 0, pool_workers = replicate (min concurrency n) Idle,
      pool_results = replicate n None, pool_error = None\<rparr>"

text \<open>
  The moves of worker \<open>w\<close> over \<open>n\<close> values: take an index, leave the loop, store a result, or
  throw. The first rejection is the one the caller sees; the other workers go on.
\<close>

inductive pool_step ::
  "nat \<Rightarrow> (nat \<Rightarrow> 'e + 'b \<Rightarrow> bool) \<Rightarrow> ('e, 'b) pool \<Rightarrow> ('e, 'b) pool \<Rightarrow> bool"
  for n and mapper where
  take_index: "\<lbrakk>w < length (pool_workers s); pool_workers s ! w = Idle; pool_next s < n\<rbrakk> \<Longrightarrow>
     pool_step n mapper s (s\<lparr>pool_workers := (pool_workers s)[w := Awaiting (pool_next s)],
                             pool_next := pool_next s + 1\<rparr>)"
| leave_loop: "\<lbrakk>w < length (pool_workers s); pool_workers s ! w = Idle; n \<le> pool_next s\<rbrakk> \<Longrightarrow>
     pool_step n mapper s (s\<lparr>pool_workers := (pool_workers s)[w := Finished]\<rparr>)"
| store_result: "\<lbrakk>w < length (pool_workers s); pool_workers s ! w = Awaiting i; mapper i (Inr y)\<rbrakk> \<Longrightarrow>
     pool_step n mapper s (s\<lparr>pool_workers := (pool_workers s)[w := Idle],
                             pool_results := (pool_results s)[i := Some y]\<rparr>)"
| reject: "\<lbrakk>w < length (pool_workers s); pool_workers s ! w = Awaiting i; mapper i (Inl e)\<rbrakk> \<Longrightarrow>
     pool_step n mapper s (s\<lparr>pool_workers := (pool_workers s)[w := Rejected],
                             pool_error := (case pool_error s of None \<Rightarrow> Some e | Some e' \<Rightarrow> Some e')\<rparr>)"

inductive_cases pool_stepE: "pool_step n mapper s t"

text \<open>What the awaited \<^verbatim>\<open>Promise.all\<close> settles with: nothing yet, the rejection, or the array.\<close>

definition pool_outcome :: "('e, 'b) pool \<Rightarrow> ('e + 'b option list) option" where
  "pool_outcome s =
     (case pool_error s of
        Some e \<Rightarrow> Some (Inl e)
      | None \<Rightarrow> if list_all (\<lambda>w. w = Finished) (pool_workers s) then Some (Inr (pool_results s)) else None)"

definition in_flight :: "('e, 'b) pool \<Rightarrow> nat" where
  "in_flight s = length (filter (\<lambda>w. \<exists>i. w = Awaiting i) (pool_workers s))"

definition indices :: "('e, 'b) pool \<Rightarrow> nat list" where
  "indices s = concat (map (\<lambda>w. case w of Awaiting i \<Rightarrow> [i] | _ \<Rightarrow> []) (pool_workers s))"

text \<open>Moves left: an index costs a take and a settle, a worker one more to leave.\<close>

definition worker_cost :: "worker \<Rightarrow> nat" where
  "worker_cost w = (case w of Idle \<Rightarrow> 1 | Awaiting _ \<Rightarrow> 2 | _ \<Rightarrow> 0)"

definition pool_cost :: "nat \<Rightarrow> ('e, 'b) pool \<Rightarrow> nat" where
  "pool_cost n s = 2 * (n - pool_next s) + sum_list (map worker_cost (pool_workers s))"

section \<open>Lemmas\<close>

subsection \<open>Progress\<close>

lemma sum_list_map_update:
  fixes f :: "'a \<Rightarrow> nat"
  shows "k < length xs \<Longrightarrow> sum_list (map f (xs[k := x])) + f (xs ! k) = sum_list (map f xs) + f x"
proof (induction xs arbitrary: k)
  case (Cons a xs)
  then show ?case by (cases k) auto
qed simp

lemma pool_step_cost:
  assumes "pool_step n mapper s t"
  shows "pool_cost n t < pool_cost n s"
  using assms
proof (cases rule: pool_step.cases)
  case (take_index w)
  then show ?thesis
    using sum_list_map_update [of w "pool_workers s" worker_cost "Awaiting (pool_next s)"]
    by (simp add: pool_cost_def worker_cost_def)
next
  case (leave_loop w)
  then show ?thesis
    using sum_list_map_update [of w "pool_workers s" worker_cost Finished]
    by (simp add: pool_cost_def worker_cost_def)
next
  case (store_result w i y)
  then show ?thesis
    using sum_list_map_update [of w "pool_workers s" worker_cost Idle]
    by (simp add: pool_cost_def worker_cost_def)
next
  case (reject w i e)
  then show ?thesis
    using sum_list_map_update [of w "pool_workers s" worker_cost Rejected]
    by (simp add: pool_cost_def worker_cost_def)
qed

lemma pool_start_cost: "pool_cost n (pool_start n c) = 2 * n + min c n"
  by (simp add: pool_cost_def pool_start_def worker_cost_def sum_list_replicate)

lemma pool_steps_bounded: "(pool_step n mapper ^^ k) s t \<Longrightarrow> k + pool_cost n t \<le> pool_cost n s"
proof (induction k arbitrary: t)
  case (Suc k)
  then obtain u where "(pool_step n mapper ^^ k) s u" "pool_step n mapper u t" by auto
  with Suc.IH [of u] pool_step_cost [of n mapper u t] show ?case by linarith
qed simp

text \<open>As long as some worker has not settled, a step is possible when the mapper always settles.\<close>

lemma pool_step_exists:
  assumes "\<not> list_all (\<lambda>w. w = Finished \<or> w = Rejected) (pool_workers s)"
    and total: "\<And>i. \<exists>r. mapper i r"
  shows "\<exists>t. pool_step n mapper s t"
proof -
  obtain w where w: "w < length (pool_workers s)" "pool_workers s ! w \<noteq> Finished" "pool_workers s ! w \<noteq> Rejected"
    using assms(1) by (auto simp: list_all_length)
  show ?thesis
  proof (cases "pool_workers s ! w")
    case Idle
    with w show ?thesis
      by (cases "pool_next s < n") (blast intro: take_index leave_loop dest: leI)+
  next
    case (Awaiting i)
    obtain r where "mapper i r" using total by blast
    with w Awaiting show ?thesis by (cases r) (blast intro: store_result reject)+
  qed (use w in auto)
qed

subsection \<open>The invariant\<close>

text \<open>
  The indices below \<open>pool_next\<close> are exactly those in flight, stored or lost to a rejection; the ones
  in flight are distinct and not stored; every stored result is an outcome of its own index.
\<close>

definition shape_inv :: "nat \<Rightarrow> nat \<Rightarrow> ('e, 'b) pool \<Rightarrow> bool" where
  "shape_inv n c s \<longleftrightarrow>
     length (pool_results s) = n \<and> length (pool_workers s) = min c n \<and> pool_next s \<le> n"

definition awaits :: "('e, 'b) pool \<Rightarrow> nat \<Rightarrow> nat \<Rightarrow> bool" where
  "awaits s w i \<longleftrightarrow> w < length (pool_workers s) \<and> pool_workers s ! w = Awaiting i"

definition await_inv :: "('e, 'b) pool \<Rightarrow> bool" where
  "await_inv s \<longleftrightarrow>
     (\<forall>w i. awaits s w i \<longrightarrow> i < pool_next s \<and> pool_results s ! i = None)
     \<and> (\<forall>w v i. awaits s w i \<longrightarrow> awaits s v i \<longrightarrow> w = v)"

definition stored_inv :: "nat \<Rightarrow> (nat \<Rightarrow> 'e + 'b \<Rightarrow> bool) \<Rightarrow> ('e, 'b) pool \<Rightarrow> bool" where
  "stored_inv n mapper s \<longleftrightarrow>
     (\<forall>i < n. \<forall>y. pool_results s ! i = Some y \<longrightarrow> i < pool_next s \<and> mapper i (Inr y))"

definition covered_inv :: "('e, 'b) pool \<Rightarrow> bool" where
  "covered_inv s \<longleftrightarrow>
     (pool_error s = None \<longrightarrow>
        (\<forall>i < pool_next s. pool_results s ! i \<noteq> None \<or> (\<exists>w. awaits s w i)))"

definition error_inv :: "nat \<Rightarrow> (nat \<Rightarrow> 'e + 'b \<Rightarrow> bool) \<Rightarrow> ('e, 'b) pool \<Rightarrow> bool" where
  "error_inv n mapper s \<longleftrightarrow> (\<forall>e. pool_error s = Some e \<longrightarrow> (\<exists>i < n. mapper i (Inl e)))"

definition finished_inv :: "nat \<Rightarrow> ('e, 'b) pool \<Rightarrow> bool" where
  "finished_inv n s \<longleftrightarrow> (Finished \<in> set (pool_workers s) \<longrightarrow> pool_next s = n)"

definition pool_inv :: "nat \<Rightarrow> (nat \<Rightarrow> 'e + 'b \<Rightarrow> bool) \<Rightarrow> nat \<Rightarrow> ('e, 'b) pool \<Rightarrow> bool" where
  "pool_inv n mapper c s \<longleftrightarrow>
     shape_inv n c s \<and> await_inv s \<and> stored_inv n mapper s \<and> covered_inv s
     \<and> error_inv n mapper s \<and> finished_inv n s"

lemmas pool_inv_defs = pool_inv_def shape_inv_def await_inv_def stored_inv_def covered_inv_def
  error_inv_def finished_inv_def

lemma pool_inv_start: "pool_inv n mapper c (pool_start n c)"
  by (auto simp: pool_inv_defs pool_start_def awaits_def)

lemma set_update_mono: "x \<in> set (xs[k := y]) \<Longrightarrow> x = y \<or> x \<in> set xs"
  by (meson insertE set_update_subset_insert subsetD)

text \<open>Which indices are awaited after worker \<open>w\<close> changed.\<close>

lemma awaits_update:
  "pool_workers t = (pool_workers s)[w := x] \<Longrightarrow> w < length (pool_workers s) \<Longrightarrow>
     awaits t v i \<longleftrightarrow> (if v = w then x = Awaiting i else awaits s v i)"
  by (auto simp: awaits_def nth_list_update)

lemma pool_inv_take:
  assumes inv: "pool_inv n mapper c s" and w: "w < length (pool_workers s)" "pool_workers s ! w = Idle"
    and nxt: "pool_next s < n"
    and t: "pool_workers t = (pool_workers s)[w := Awaiting (pool_next s)]" "pool_next t = Suc (pool_next s)"
      "pool_results t = pool_results s" "pool_error t = pool_error s"
  shows "pool_inv n mapper c t"
proof -
  have aw: "awaits t v i \<longleftrightarrow> (if v = w then i = pool_next s else awaits s v i)" for v i
    using awaits_update [OF t(1) w(1), of v i] by auto
  have none: "pool_results s ! pool_next s = None"
    using inv nxt by (cases "pool_results s ! pool_next s") (auto simp: pool_inv_defs)
  have free: "\<not> awaits s w i" for i using w by (simp add: awaits_def)
  have "covered_inv t"
    unfolding covered_inv_def t(2-4)
  proof (intro impI allI)
    fix i assume "pool_error s = None" "i < Suc (pool_next s)"
    then consider "i = pool_next s" | "pool_results s ! i \<noteq> None" | v where "awaits s v i"
      using inv by (auto simp: pool_inv_def covered_inv_def less_Suc_eq)
    then show "pool_results s ! i \<noteq> None \<or> (\<exists>w. awaits t w i)"
      using free aw by cases metis+
  qed
  moreover have "await_inv t"
    using inv none by (auto simp: pool_inv_def await_inv_def aw t less_Suc_eq split: if_splits)
  moreover have "finished_inv n t"
    using inv nxt by (auto simp: pool_inv_def finished_inv_def t dest: set_update_mono)
  ultimately show ?thesis
    using inv nxt by (auto simp: pool_inv_def shape_inv_def stored_inv_def error_inv_def t)
qed

lemma pool_inv_leave:
  assumes inv: "pool_inv n mapper c s" and w: "w < length (pool_workers s)" "pool_workers s ! w = Idle"
    and nxt: "n \<le> pool_next s"
    and t: "pool_workers t = (pool_workers s)[w := Finished]" "pool_next t = pool_next s"
      "pool_results t = pool_results s" "pool_error t = pool_error s"
  shows "pool_inv n mapper c t"
proof -
  have aw: "awaits t = awaits s"
    using w by (auto simp: fun_eq_iff awaits_def t nth_list_update)
  show ?thesis
    using inv nxt
    by (auto simp: pool_inv_def shape_inv_def await_inv_def stored_inv_def covered_inv_def error_inv_def
        finished_inv_def aw t)
qed

lemma pool_inv_store:
  assumes inv: "pool_inv n mapper c s" and w: "w < length (pool_workers s)" "pool_workers s ! w = Awaiting i"
    and y: "mapper i (Inr y)"
    and t: "pool_workers t = (pool_workers s)[w := Idle]" "pool_next t = pool_next s"
      "pool_results t = (pool_results s)[i := Some y]" "pool_error t = pool_error s"
  shows "pool_inv n mapper c t"
proof -
  have here: "awaits s w i" using w by (simp add: awaits_def)
  have aw: "awaits t v k \<longleftrightarrow> v \<noteq> w \<and> awaits s v k" for v k
    using awaits_update [OF t(1) w(1), of v k] by auto
  have i: "i < pool_next s" "pool_next s \<le> n" "length (pool_results s) = n"
    and uniq: "\<And>v k. awaits s v k \<Longrightarrow> k = i \<Longrightarrow> v = w"
    using inv here by (auto simp: pool_inv_def await_inv_def shape_inv_def)
  have other: "awaits t v k \<longleftrightarrow> k \<noteq> i \<and> awaits s v k" for v k
  proof -
    have "v = w \<Longrightarrow> awaits s v k \<Longrightarrow> k = i" using w by (simp add: awaits_def)
    with aw uniq show ?thesis by blast
  qed
  have "await_inv t"
    using inv i by (auto simp: pool_inv_def await_inv_def other t)
  moreover have "covered_inv t"
    using inv i by (auto simp: pool_inv_def covered_inv_def other t nth_list_update)
  moreover have "stored_inv n mapper t"
    using inv i y by (auto simp: pool_inv_def stored_inv_def t nth_list_update)
  moreover have "finished_inv n t"
    using inv by (auto simp: pool_inv_def finished_inv_def t dest: set_update_mono)
  ultimately show ?thesis
    using inv by (simp add: pool_inv_def shape_inv_def error_inv_def t)
qed

lemma pool_inv_reject:
  assumes inv: "pool_inv n mapper c s" and w: "w < length (pool_workers s)" "pool_workers s ! w = Awaiting i"
    and e: "mapper i (Inl e)"
    and t: "pool_workers t = (pool_workers s)[w := Rejected]" "pool_next t = pool_next s"
      "pool_results t = pool_results s"
      "pool_error t = (case pool_error s of None \<Rightarrow> Some e | Some e' \<Rightarrow> Some e')"
  shows "pool_inv n mapper c t"
proof -
  have aw: "awaits t v k \<longleftrightarrow> v \<noteq> w \<and> awaits s v k" for v k
    using awaits_update [OF t(1) w(1), of v k] by auto
  have "awaits s w i" using w by (simp add: awaits_def)
  then have i: "i < n" using inv by (fastforce simp: pool_inv_def shape_inv_def await_inv_def)
  have "error_inv n mapper t"
    using inv e i by (auto simp: pool_inv_def error_inv_def t split: option.splits)
  moreover have "finished_inv n t"
    using inv by (auto simp: pool_inv_def finished_inv_def t dest: set_update_mono)
  moreover have "covered_inv t"
    by (auto simp: covered_inv_def t split: option.splits)
  moreover have "await_inv t"
    using inv by (auto simp: pool_inv_def await_inv_def aw t)
  ultimately show ?thesis
    using inv by (simp add: pool_inv_def shape_inv_def stored_inv_def t)
qed

lemma pool_inv_step: "pool_step n mapper s t \<Longrightarrow> pool_inv n mapper c s \<Longrightarrow> pool_inv n mapper c t"
  by (erule pool_stepE)
     (erule (2) pool_inv_take pool_inv_leave pool_inv_store pool_inv_reject; simp)+

lemma pool_inv_reachable: "(pool_step n mapper)\<^sup>*\<^sup>* (pool_start n c) s \<Longrightarrow> pool_inv n mapper c s"
  by (induction rule: rtranclp_induct) (auto intro: pool_inv_start pool_inv_step)

lemma in_flight_bound: "pool_inv n mapper c s \<Longrightarrow> in_flight s \<le> min c n"
  unfolding pool_inv_def shape_inv_def in_flight_def by (metis length_filter_le)

lemma pool_inv_complete:
  assumes inv: "pool_inv n mapper c s" and "0 < c" and out: "pool_outcome s = Some (Inr ys)"
  shows "length ys = n \<and> (\<forall>i < n. \<exists>y. ys ! i = Some y \<and> mapper i (Inr y))"
proof -
  have err: "pool_error s = None" and fin: "\<forall>w \<in> set (pool_workers s). w = Finished" and ys: "ys = pool_results s"
    using out by (auto simp: pool_outcome_def list_all_iff split: option.splits if_splits)
  have len: "length (pool_results s) = n" and wl: "length (pool_workers s) = min c n"
    using inv by (simp_all add: pool_inv_defs)
  have next_n: "pool_next s = n" if "0 < n"
  proof -
    have "pool_workers s \<noteq> []" using wl that \<open>0 < c\<close> by auto
    with fin have "Finished \<in> set (pool_workers s)" by (metis list.set_sel(1))
    with inv show ?thesis by (simp add: pool_inv_defs)
  qed
  have "\<exists>y. pool_results s ! i = Some y \<and> mapper i (Inr y)" if i: "i < n" for i
  proof -
    have "pool_results s ! i \<noteq> None \<or> (\<exists>w. awaits s w i)"
      using inv err next_n i by (simp add: pool_inv_defs)
    moreover have "\<not> awaits s w i" for w
      using fin nth_mem [of w "pool_workers s"] unfolding awaits_def by force
    ultimately show ?thesis using inv i by (auto simp: pool_inv_defs)
  qed
  with ys len show ?thesis by simp
qed

section \<open>Properties\<close>

text \<open>C20. Whatever the schedule, a concurrent map that settles without a rejection returns one result
  per input and each result is an outcome of the mapper on the input at its own position; at every
  moment at most \<open>concurrency\<close> mapper calls are awaited.\<close>

theorem concurrent_map_results:
  assumes "(pool_step n mapper)\<^sup>*\<^sup>* (pool_start n concurrency) s" and "0 < concurrency"
  shows "in_flight s \<le> min concurrency n
    \<and> (\<forall>ys. pool_outcome s = Some (Inr ys) \<longrightarrow>
         length ys = n \<and> (\<forall>i < n. \<exists>y. ys ! i = Some y \<and> mapper i (Inr y)))"
  using in_flight_bound [OF pool_inv_reachable [OF assms(1)]]
    pool_inv_complete [OF pool_inv_reachable [OF assms(1)] assms(2)] by blast

text \<open>A schedule over two inputs in which the second call settles first.\<close>

definition two_pool :: "nat \<Rightarrow> worker list \<Rightarrow> nat option list \<Rightarrow> (nat, nat) pool" where
  "two_pool n ws rs = \<lparr>pool_next = n, pool_workers = ws, pool_results = rs, pool_error = None\<rparr>"

lemma two_pool_step:
  "w < length ws \<Longrightarrow> ws ! w = Idle \<Longrightarrow> n < 2 \<Longrightarrow> pool_step 2 f (two_pool n ws rs) (two_pool (n + 1) (ws[w := Awaiting n]) rs)"
  "w < length ws \<Longrightarrow> ws ! w = Idle \<Longrightarrow> 2 \<le> n \<Longrightarrow> pool_step 2 f (two_pool n ws rs) (two_pool n (ws[w := Finished]) rs)"
  "w < length ws \<Longrightarrow> ws ! w = Awaiting i \<Longrightarrow> f i (Inr y) \<Longrightarrow>
     pool_step 2 f (two_pool n ws rs) (two_pool n (ws[w := Idle]) (rs[i := Some y]))"
  using pool_step.take_index [of w "two_pool n ws rs" 2 f] pool_step.leave_loop [of w "two_pool n ws rs" 2 f]
    pool_step.store_result [of w "two_pool n ws rs" i f y 2] by (simp_all add: two_pool_def)

theorem concurrent_map_results_witness:
  "let s = two_pool 2 [Finished, Finished] [Some 10, Some 11]; f = (\<lambda>i r. r = (Inr (10 + i) :: nat + nat))
   in (pool_step 2 f)\<^sup>*\<^sup>* (pool_start 2 4) s \<and> pool_outcome s = Some (Inr [Some 10, Some 11])
      \<and> (\<forall>i < 2. \<exists>y. [Some 10, Some 11] ! i = Some y \<and> f i (Inr y))
      \<and> in_flight (two_pool 2 [Awaiting 0, Awaiting 1] [None, None]) = min 4 2"
proof -
  define f where "f = (\<lambda>i r. r = (Inr (10 + i) :: nat + nat))"
  let ?s = "two_pool 2 [Finished, Finished] [Some 10, Some 11]"
  have start: "pool_start 2 4 = two_pool 0 [Idle, Idle] [None, None]"
    by (simp add: pool_start_def two_pool_def numeral_2_eq_2)
  have steps: "pool_step 2 f (two_pool 0 [Idle, Idle] [None, None]) (two_pool 1 [Awaiting 0, Idle] [None, None])"
    "pool_step 2 f (two_pool 1 [Awaiting 0, Idle] [None, None]) (two_pool 2 [Awaiting 0, Awaiting 1] [None, None])"
    "pool_step 2 f (two_pool 2 [Awaiting 0, Awaiting 1] [None, None]) (two_pool 2 [Awaiting 0, Idle] [None, Some 11])"
    "pool_step 2 f (two_pool 2 [Awaiting 0, Idle] [None, Some 11]) (two_pool 2 [Idle, Idle] [Some 10, Some 11])"
    "pool_step 2 f (two_pool 2 [Idle, Idle] [Some 10, Some 11]) (two_pool 2 [Idle, Finished] [Some 10, Some 11])"
    "pool_step 2 f (two_pool 2 [Idle, Finished] [Some 10, Some 11]) ?s"
    using two_pool_step(1) [of 0 "[Idle, Idle]" 0 f "[None, None]"] two_pool_step(1) [of 1 "[Awaiting 0, Idle]" 1 f "[None, None]"]
      two_pool_step(3) [of 1 "[Awaiting 0, Awaiting 1]" 1 f 11 2 "[None, None]"]
      two_pool_step(3) [of 0 "[Awaiting 0, Idle]" 0 f 10 2 "[None, Some 11]"]
      two_pool_step(2) [of 1 "[Idle, Idle]" 2 f "[Some 10, Some 11]"] two_pool_step(2) [of 0 "[Idle, Finished]" 2 f "[Some 10, Some 11]"]
    by (simp_all add: f_def eval_nat_numeral)
  have run: "(pool_step 2 f)\<^sup>*\<^sup>* (pool_start 2 4) ?s"
    unfolding start
    by (rule converse_rtranclp_into_rtranclp, rule steps)+ (rule rtranclp.rtrancl_refl)
  have out: "pool_outcome ?s = Some (Inr [Some 10, Some 11])" by (simp add: pool_outcome_def two_pool_def)
  moreover have "in_flight (two_pool 2 [Awaiting 0, Awaiting 1] [None, None]) = min 4 2" by (simp add: in_flight_def two_pool_def)
  ultimately show ?thesis
    using concurrent_map_results [OF run zero_less_numeral] run unfolding Let_def f_def [symmetric] by blast
qed

text \<open>Every schedule of a concurrent map ends: it has at most two moves per input and one per
  worker, and until every worker has settled some move is possible, provided the mapper
  settles on every input.\<close>

theorem concurrent_map_terminates:
  assumes "(pool_step n mapper ^^ k) (pool_start n concurrency) s" and "\<And>i. \<exists>r. mapper i r"
  shows "k \<le> 2 * n + min concurrency n
    \<and> (list_all (\<lambda>w. w = Finished \<or> w = Rejected) (pool_workers s) \<or> (\<exists>t. pool_step n mapper s t))"
  using pool_steps_bounded [OF assms(1)] pool_step_exists [of s mapper n] assms(2)
  unfolding pool_start_cost by auto

theorem concurrent_map_terminates_witness:
  "\<exists>t. pool_step 5 (\<lambda>i r. r = (Inr i :: nat + nat)) (pool_start 5 4) t"
  using concurrent_map_terminates [of 0 5 "\<lambda>i r. r = (Inr i :: nat + nat)" 4 "pool_start 5 4"]
  by (auto simp: pool_start_def list_all_iff)

end
