(* ===== verification/Js_Values.thy ===== *)
theory Js_Values
  imports Adt_Prelude
begin

text \<open>
  The values and library functions of the language that several components share: dynamic
  values (decoded JSON and YAML), property access, regular expressions over character
  classes, \<^verbatim>\<open>encodeURIComponent\<close>, hexadecimal rendering of bytes and
  \<^verbatim>\<open>Date.prototype.toISOString\<close>.

  A regular expression is a value of \<open>rx\<close>, matched by backtracking in continuation style:
  the matcher knows the character before the current position, so anchors and word
  boundaries are tests on that position. \<open>rx_match_split\<close> shows that a match consumes a
  prefix of the text that is in the language of the expression at that place, and that every
  such prefix is found.
\<close>

section \<open>Definitions\<close>

subsection \<open>Dynamic values\<close>

text \<open>\<open>JDate\<close> is a \<^verbatim>\<open>Date\<close> object (milliseconds), which YAML front matter can hold.\<close>

datatype js_value =
    JNull
  | JBool bool
  | JNum int
  | JStr string
  | JDate int
  | JArr "js_value list"
  | JObj "(string \<times> js_value) list"

text \<open>
  \<^verbatim>\<open>v[key]\<close>: \<open>None\<close> is \<^verbatim>\<open>undefined\<close>. A repeated key keeps its last value, as an object
  literal or \<^verbatim>\<open>JSON.parse\<close> does.
\<close>

definition js_get :: "js_value \<Rightarrow> string \<Rightarrow> js_value option" where
  "js_get v k = (case v of JObj kvs \<Rightarrow> map_of (rev kvs) k | _ \<Rightarrow> None)"

definition js_str :: "js_value option \<Rightarrow> string option" where
  "js_str v = (case v of Some (JStr s) \<Rightarrow> Some s | _ \<Rightarrow> None)"

definition js_num :: "js_value option \<Rightarrow> int option" where
  "js_num v = (case v of Some (JNum n) \<Rightarrow> Some n | _ \<Rightarrow> None)"

definition js_is_object :: "js_value \<Rightarrow> bool" where
  "js_is_object v = (case v of JObj _ \<Rightarrow> True | _ \<Rightarrow> False)"

definition js_keys :: "js_value \<Rightarrow> string list" where
  "js_keys v = (case v of JObj kvs \<Rightarrow> js_dedup (map fst kvs) | _ \<Rightarrow> [])"

text \<open>\<^verbatim>\<open>String(v)\<close>; a \<^verbatim>\<open>Date\<close> prints in the local time zone and is shown by its milliseconds here.\<close>

fun show_nat :: "nat \<Rightarrow> string" where
  "show_nat n = (if n < 10 then [char_of (48 + n)] else show_nat (n div 10) @ [char_of (48 + n mod 10)])"

declare show_nat.simps [simp del]

definition show_int :: "int \<Rightarrow> string" where
  "show_int n = (if n < 0 then CHR ''-'' # show_nat (nat (- n)) else show_nat (nat n))"

fun js_String :: "js_value \<Rightarrow> string" where
  "js_String JNull = ''null''"
| "js_String (JBool b) = (if b then ''true'' else ''false'')"
| "js_String (JNum n) = show_int n"
| "js_String (JStr s) = s"
| "js_String (JDate ms) = show_int ms"
| "js_String (JArr vs) = js_join '','' (map (\<lambda>v. if v = JNull then [] else js_String v) vs)"
| "js_String (JObj kvs) = ''[object Object]''"

definition js_String_opt :: "js_value option \<Rightarrow> string" where
  "js_String_opt v = (case v of None \<Rightarrow> ''undefined'' | Some x \<Rightarrow> js_String x)"

subsection \<open>Regular expressions\<close>

datatype rx =
    REps
  | RChar "char \<Rightarrow> bool"
  | RSeq rx rx
  | RAlt rx rx
  | RRep "char \<Rightarrow> bool" nat
  | RUpTo "char \<Rightarrow> bool" nat
  | RBound
  | RBegin
  | REnd

type_synonym rx_cont = "char option \<Rightarrow> string \<Rightarrow> bool"

text \<open>The class \<^verbatim>\<open>\w\<close>, and \<^verbatim>\<open>\b\<close> between two neighbouring positions.\<close>

definition word_char :: "char \<Rightarrow> bool" where
  "word_char c = (alnum c \<or> c = CHR ''_'')"

definition at_boundary :: "char option \<Rightarrow> string \<Rightarrow> bool" where
  "at_boundary p s =
     ((case p of None \<Rightarrow> False | Some c \<Rightarrow> word_char c) \<noteq>
      (case s of [] \<Rightarrow> False | c # _ \<Rightarrow> word_char c))"

text \<open>\<open>[P]*\<close>, then at least \<open>n\<close> of them (\<open>[P]{n,}\<close>), and at most \<open>n\<close> (\<open>[P]{0,n}\<close>).\<close>

fun star_match :: "(char \<Rightarrow> bool) \<Rightarrow> rx_cont \<Rightarrow> rx_cont" where
  "star_match P k p [] = k p []"
| "star_match P k p (c # cs) = ((P c \<and> star_match P k (Some c) cs) \<or> k p (c # cs))"

fun rep_match :: "(char \<Rightarrow> bool) \<Rightarrow> nat \<Rightarrow> rx_cont \<Rightarrow> rx_cont" where
  "rep_match P 0 k p s = star_match P k p s"
| "rep_match P (Suc n) k p [] = False"
| "rep_match P (Suc n) k p (c # cs) = (P c \<and> rep_match P n k (Some c) cs)"

fun upto_match :: "(char \<Rightarrow> bool) \<Rightarrow> nat \<Rightarrow> rx_cont \<Rightarrow> rx_cont" where
  "upto_match P 0 k p s = k p s"
| "upto_match P (Suc n) k p [] = k p []"
| "upto_match P (Suc n) k p (c # cs) =
     ((P c \<and> upto_match P n k (Some c) cs) \<or> k p (c # cs))"

lemma rep_match_code [code]:
  "rep_match P n k p s =
     (if n = 0 then star_match P k p s
      else case s of [] \<Rightarrow> False | c # cs \<Rightarrow> P c \<and> rep_match P (n - 1) k (Some c) cs)"
  by (cases n; cases s) simp_all

lemma upto_match_code [code]:
  "upto_match P n k p s =
     (if n = 0 then k p s
      else case s of [] \<Rightarrow> k p [] | c # cs \<Rightarrow> (P c \<and> upto_match P (n - 1) k (Some c) cs) \<or> k p s)"
  by (cases n; cases s) simp_all

primrec rx_match :: "rx \<Rightarrow> rx_cont \<Rightarrow> rx_cont" where
  "rx_match REps k p s = k p s"
| "rx_match (RChar P) k p s = (case s of [] \<Rightarrow> False | c # cs \<Rightarrow> P c \<and> k (Some c) cs)"
| "rx_match (RSeq a b) k p s = rx_match a (rx_match b k) p s"
| "rx_match (RAlt a b) k p s = (rx_match a k p s \<or> rx_match b k p s)"
| "rx_match (RRep P n) k p s = rep_match P n k p s"
| "rx_match (RUpTo P n) k p s = upto_match P n k p s"
| "rx_match RBound k p s = (at_boundary p s \<and> k p s)"
| "rx_match RBegin k p s = (p = None \<and> k p s)"
| "rx_match REnd k p s = (s = [] \<and> k p s)"

text \<open>\<^verbatim>\<open>r.test(s)\<close>: a match starting at some position.\<close>

fun rx_search :: "rx \<Rightarrow> rx_cont" where
  "rx_search r p [] = rx_match r (\<lambda>_ _. True) p []"
| "rx_search r p (c # cs) = (rx_match r (\<lambda>_ _. True) p (c # cs) \<or> rx_search r (Some c) cs)"

definition rx_test :: "rx \<Rightarrow> string \<Rightarrow> bool" where
  "rx_test r s = rx_search r None s"

text \<open>Literal text, literal text under the flag \<^verbatim>\<open>i\<close>, sequences, alternatives, options.\<close>

definition same_fold :: "char \<Rightarrow> char \<Rightarrow> bool" where
  "same_fold a b = (js_lower_char a = js_lower_char b)"

fun rlit :: "string \<Rightarrow> rx" where
  "rlit [] = REps"
| "rlit (c # cs) = RSeq (RChar (\<lambda>x. x = c)) (rlit cs)"

fun rlit_i :: "string \<Rightarrow> rx" where
  "rlit_i [] = REps"
| "rlit_i (c # cs) = RSeq (RChar (same_fold c)) (rlit_i cs)"

fun rseq :: "rx list \<Rightarrow> rx" where
  "rseq [] = REps"
| "rseq (r # rs) = RSeq r (rseq rs)"

fun ralt :: "rx \<Rightarrow> rx list \<Rightarrow> rx" where
  "ralt r [] = r"
| "ralt r (q # qs) = RAlt r (ralt q qs)"

definition ropt :: "rx \<Rightarrow> rx" where
  "ropt r = RAlt r REps"

text \<open>\<^verbatim>\<open>^[P]{m,n}$\<close>, the shape of most validators: every character in \<open>P\<close>, the length in bounds.\<close>

definition all_chars :: "(char \<Rightarrow> bool) \<Rightarrow> nat \<Rightarrow> nat \<Rightarrow> string \<Rightarrow> bool" where
  "all_chars P m n s = (m \<le> length s \<and> length s \<le> n \<and> list_all P s)"

subsection \<open>Bytes, hexadecimal and URI components\<close>

definition hex_digit :: "nat \<Rightarrow> char" where
  "hex_digit n = (if n < 10 then char_of (48 + n) else char_of (87 + n))"

definition hex_digit_upper :: "nat \<Rightarrow> char" where
  "hex_digit_upper n = (if n < 10 then char_of (48 + n) else char_of (55 + n))"

text \<open>\<^verbatim>\<open>byte.toString(16).padStart(2, "0")\<close> for a byte.\<close>

definition hex_byte :: "nat \<Rightarrow> string" where
  "hex_byte b = [hex_digit (b div 16 mod 16), hex_digit (b mod 16)]"

definition hex_bytes :: "nat list \<Rightarrow> string" where
  "hex_bytes bs = concat (map hex_byte bs)"

definition utf8_bytes :: "char \<Rightarrow> nat list" where
  "utf8_bytes c =
     (if code c < 128 then [code c] else [192 + code c div 64, 128 + code c mod 64])"

definition uri_unreserved :: "char \<Rightarrow> bool" where
  "uri_unreserved c = (alnum c \<or> c \<in> set ''-_.!~*'' \<or> code c \<in> {39, 40, 41})"

definition percent_byte :: "nat \<Rightarrow> string" where
  "percent_byte b = [CHR ''%'', hex_digit_upper (b div 16 mod 16), hex_digit_upper (b mod 16)]"

definition encodeURIComponent :: "string \<Rightarrow> string" where
  "encodeURIComponent s =
     concat (map (\<lambda>c. if uri_unreserved c then [c] else concat (map percent_byte (utf8_bytes c))) s)"

subsection \<open>Dates\<close>

text \<open>
  \<^verbatim>\<open>new Date(ms).toISOString()\<close> for the years 0 to 9999: civil date from the day number
  (days since 1970-01-01), then zero-padded fields. For other years the method prints an
  expanded year, which is not used by the program.
\<close>

definition civil_of_day :: "int \<Rightarrow> int \<times> int \<times> int" where
  "civil_of_day day =
     (let z = day + 719468;
          era = z div 146097;
          doe = z - era * 146097;
          yoe = (doe - doe div 1460 + doe div 36524 - doe div 146096) div 365;
          doy = doe - (365 * yoe + yoe div 4 - yoe div 100);
          mp = (5 * doy + 2) div 153;
          d = doy - (153 * mp + 2) div 5 + 1;
          m = (if mp < 10 then mp + 3 else mp - 9);
          y = yoe + era * 400 + (if m \<le> 2 then 1 else 0)
      in (y, m, d))"

fun pad_digits :: "nat \<Rightarrow> nat \<Rightarrow> string" where
  "pad_digits 0 n = []"
| "pad_digits (Suc k) n = pad_digits k (n div 10) @ [char_of (48 + n mod 10)]"

definition toISOString :: "int \<Rightarrow> string" where
  "toISOString ms =
     (let day = ms div 86400000; rest = nat (ms mod 86400000);
          (y, m, d) = civil_of_day day
      in pad_digits 4 (nat y) @ ''-'' @ pad_digits 2 (nat m) @ ''-'' @ pad_digits 2 (nat d)
         @ ''T'' @ pad_digits 2 (rest div 3600000) @ '':''
         @ pad_digits 2 (rest div 60000 mod 60) @ '':''
         @ pad_digits 2 (rest div 1000 mod 60) @ ''.''
         @ pad_digits 3 (rest mod 1000) @ ''Z'')"

section \<open>Lemmas\<close>

subsection \<open>What a match means\<close>

text \<open>The character before a position, after consuming \<open>u\<close> from a place preceded by \<open>p\<close>.\<close>

definition before :: "char option \<Rightarrow> string \<Rightarrow> char option" where
  "before p u = (if u = [] then p else Some (last u))"

lemma before_Nil [simp]: "before p [] = p"
  by (simp add: before_def)

lemma before_Cons: "before p (c # u) = before (Some c) u"
  by (simp add: before_def)

lemma before_append: "before p (u @ v) = before (before p u) v"
  by (simp add: before_def)

text \<open>The language of an expression at a position: \<open>in_lang r p u v\<close> says that \<open>r\<close> can consume
  \<open>u\<close> between the character \<open>p\<close> and the remaining text \<open>v\<close>.\<close>

primrec in_lang :: "rx \<Rightarrow> char option \<Rightarrow> string \<Rightarrow> string \<Rightarrow> bool" where
  "in_lang REps p u v = (u = [])"
| "in_lang (RChar P) p u v = (\<exists>c. u = [c] \<and> P c)"
| "in_lang (RSeq a b) p u v =
     (\<exists>x y. u = x @ y \<and> in_lang a p x (y @ v) \<and> in_lang b (before p x) y v)"
| "in_lang (RAlt a b) p u v = (in_lang a p u v \<or> in_lang b p u v)"
| "in_lang (RRep P n) p u v = (n \<le> length u \<and> list_all P u)"
| "in_lang (RUpTo P n) p u v = (length u \<le> n \<and> list_all P u)"
| "in_lang RBound p u v = (u = [] \<and> at_boundary p v)"
| "in_lang RBegin p u v = (u = [] \<and> p = None)"
| "in_lang REnd p u v = (u = [] \<and> v = [])"

lemma star_match_iff:
  "star_match P k p s \<longleftrightarrow> (\<exists>u v. s = u @ v \<and> list_all P u \<and> k (before p u) v)"
proof (induction P k p s rule: star_match.induct)
  case (1 P k p)
  then show ?case by simp
next
  case (2 P k p c cs)
  show ?case
  proof
    assume "star_match P k p (c # cs)"
    then consider "P c" "star_match P k (Some c) cs" | "k p (c # cs)" by auto
    then show "\<exists>u v. c # cs = u @ v \<and> list_all P u \<and> k (before p u) v"
    proof cases
      case 1
      with 2 obtain u v where "cs = u @ v" "list_all P (c # u)" "k (before (Some c) u) v"
        by auto
      then show ?thesis
        by (intro exI[of _ "c # u"] exI[of _ v]) (simp add: before_Cons)
    next
      case 2
      then show ?thesis by (intro exI[of _ "[]"] exI[of _ "c # cs"]) simp
    qed
  next
    assume "\<exists>u v. c # cs = u @ v \<and> list_all P u \<and> k (before p u) v"
    then obtain u v where uv: "c # cs = u @ v" "list_all P u" "k (before p u) v" by blast
    then show "star_match P k p (c # cs)"
      using 2 by (cases u) (auto simp: before_Cons)
  qed
qed

lemma rep_match_iff:
  "rep_match P n k p s \<longleftrightarrow>
     (\<exists>u v. s = u @ v \<and> n \<le> length u \<and> list_all P u \<and> k (before p u) v)"
proof (induction P n k p s rule: rep_match.induct)
  case (1 P k p s)
  then show ?case by (simp add: star_match_iff)
next
  case (2 P n k p)
  then show ?case by simp
next
  case (3 P n k p c cs)
  show ?case
  proof
    assume "rep_match P (Suc n) k p (c # cs)"
    with 3 obtain u v where "cs = u @ v" "n \<le> length u" "list_all P (c # u)" "k (before (Some c) u) v"
      by auto
    then show "\<exists>u v. c # cs = u @ v \<and> Suc n \<le> length u \<and> list_all P u \<and> k (before p u) v"
      by (intro exI[of _ "c # u"] exI[of _ v]) (simp add: before_Cons)
  next
    assume "\<exists>u v. c # cs = u @ v \<and> Suc n \<le> length u \<and> list_all P u \<and> k (before p u) v"
    then obtain u v where uv: "c # cs = u @ v" "Suc n \<le> length u" "list_all P u" "k (before p u) v"
      by blast
    then show "rep_match P (Suc n) k p (c # cs)"
      using 3 by (cases u) (auto simp: before_Cons)
  qed
qed

lemma upto_match_iff:
  "upto_match P n k p s \<longleftrightarrow>
     (\<exists>u v. s = u @ v \<and> length u \<le> n \<and> list_all P u \<and> k (before p u) v)"
proof (induction P n k p s rule: upto_match.induct)
  case (1 P k p s)
  then show ?case by simp
next
  case (2 P n k p)
  then show ?case by simp
next
  case (3 P n k p c cs)
  show ?case
  proof
    assume "upto_match P (Suc n) k p (c # cs)"
    then consider "P c" "upto_match P n k (Some c) cs" | "k p (c # cs)" by auto
    then show "\<exists>u v. c # cs = u @ v \<and> length u \<le> Suc n \<and> list_all P u \<and> k (before p u) v"
    proof cases
      case 1
      with 3 obtain u v where "cs = u @ v" "length u \<le> n" "list_all P (c # u)" "k (before (Some c) u) v"
        by auto
      then show ?thesis
        by (intro exI[of _ "c # u"] exI[of _ v]) (simp add: before_Cons)
    next
      case 2
      then show ?thesis by (intro exI[of _ "[]"] exI[of _ "c # cs"]) simp
    qed
  next
    assume "\<exists>u v. c # cs = u @ v \<and> length u \<le> Suc n \<and> list_all P u \<and> k (before p u) v"
    then obtain u v where uv: "c # cs = u @ v" "length u \<le> Suc n" "list_all P u" "k (before p u) v"
      by blast
    then show "upto_match P (Suc n) k p (c # cs)"
      using 3 by (cases u) (auto simp: before_Cons)
  qed
qed

text \<open>The matcher is sound and complete for the language.\<close>

lemma rx_match_split:
  "rx_match r k p s \<longleftrightarrow> (\<exists>u v. s = u @ v \<and> in_lang r p u v \<and> k (before p u) v)"
proof (induction r arbitrary: k p s)
  case (RChar P)
  show ?case
  proof (cases s)
    case (Cons a list)
    have "(\<exists>u v. a # list = u @ v \<and> (\<exists>c. u = [c] \<and> P c) \<and> k (before p u) v) \<longleftrightarrow>
        P a \<and> k (Some a) list"
      by (metis append_Cons append_Nil before_Cons before_Nil list.inject)
    with Cons show ?thesis by simp
  qed simp
next
  case (RSeq a b)
  have "rx_match (RSeq a b) k p s \<longleftrightarrow>
      (\<exists>x w. s = x @ w \<and> in_lang a p x w \<and>
         (\<exists>y v. w = y @ v \<and> in_lang b (before p x) y v \<and> k (before (before p x) y) v))"
    by (simp add: RSeq.IH)
  also have "\<dots> \<longleftrightarrow> (\<exists>u v. s = u @ v \<and> in_lang (RSeq a b) p u v \<and> k (before p u) v)"
    by (auto simp: before_append) (metis append_assoc before_append)+
  finally show ?case .
next
  case (RAlt a b)
  then show ?case by auto
next
  case (RRep P n)
  then show ?case by (auto simp: rep_match_iff)
next
  case (RUpTo P n)
  then show ?case by (auto simp: upto_match_iff)
qed auto

lemma rx_search_iff:
  "rx_search r p s \<longleftrightarrow> (\<exists>w u v. s = w @ u @ v \<and> in_lang r (before p w) u v)"
proof (induction r p s rule: rx_search.induct)
  case (1 r p)
  then show ?case by (auto simp: rx_match_split)
next
  case (2 r p c cs)
  have "rx_search r p (c # cs) \<longleftrightarrow>
      (\<exists>u v. c # cs = u @ v \<and> in_lang r p u v) \<or>
      (\<exists>w u v. cs = w @ u @ v \<and> in_lang r (before (Some c) w) u v)"
    by (simp add: 2 rx_match_split)
  also have "\<dots> \<longleftrightarrow> (\<exists>w u v. c # cs = w @ u @ v \<and> in_lang r (before p w) u v)"
    (is "?l \<longleftrightarrow> ?r")
  proof
    assume ?l
    then show ?r
    proof
      assume "\<exists>u v. c # cs = u @ v \<and> in_lang r p u v"
      then show ?r by (metis append_Nil before_Nil)
    next
      assume "\<exists>w u v. cs = w @ u @ v \<and> in_lang r (before (Some c) w) u v"
      then show ?r by (metis append_Cons before_Cons)
    qed
  next
    assume ?r
    then obtain w u v where *: "c # cs = w @ u @ v" "in_lang r (before p w) u v" by blast
    then show ?l by (cases w) (auto simp: before_Cons)
  qed
  finally show ?case .
qed

lemma rx_test_iff:
  "rx_test r s \<longleftrightarrow> (\<exists>w u v. s = w @ u @ v \<and> in_lang r (before None w) u v)"
  by (simp add: rx_test_def rx_search_iff)

lemma in_lang_RChar_seq:
  "in_lang (RSeq (RChar P) b) p u v \<longleftrightarrow>
     (\<exists>c cs. u = c # cs \<and> P c \<and> in_lang b (Some c) cs v)"
proof
  assume "\<exists>c cs. u = c # cs \<and> P c \<and> in_lang b (Some c) cs v"
  then obtain c cs where "u = [c] @ cs" "P c" "in_lang b (before p [c]) cs v"
    by (auto simp: before_Cons)
  then show "in_lang (RSeq (RChar P) b) p u v" unfolding in_lang.simps by blast
qed (auto simp: before_Cons)

lemma in_lang_rlit: "in_lang (rlit w) p u v \<longleftrightarrow> u = w"
  by (induction w arbitrary: p u) (auto simp: in_lang_RChar_seq simp del: in_lang.simps(3))

lemma in_lang_rlit_i: "in_lang (rlit_i w) p u v \<longleftrightarrow> map js_lower_char u = map js_lower_char w"
proof (induction w arbitrary: p u)
  case Nil
  then show ?case by simp
next
  case (Cons c w)
  then show ?case
    by (cases u) (auto simp: in_lang_RChar_seq same_fold_def simp del: in_lang.simps(3))
qed

text \<open>A literal is found exactly when it occurs.\<close>

lemma rx_test_rlit: "rx_test (rlit w) s \<longleftrightarrow> sublist w s"
  by (auto simp: rx_test_iff in_lang_rlit sublist_def)

subsection \<open>Digits, hexadecimal and dates\<close>

lemma length_pad_digits [simp]: "length (pad_digits k n) = k"
  by (induction k arbitrary: n) auto

lemma code_char_of: "n < 256 \<Longrightarrow> code (char_of n) = n"
  by (simp add: code_def)

lemma pad_digits_digit: "c \<in> set (pad_digits k n) \<Longrightarrow> digit c"
  by (induction k arbitrary: n) (auto simp: digit_def code_char_of)

lemma hex_digit_lower: "n < 16 \<Longrightarrow> hex_lower (hex_digit n)"
  by (auto simp: hex_digit_def hex_lower_def digit_def code_char_of)

lemma hex_lower_alnum: "hex_lower c \<Longrightarrow> lower_alnum c"
  by (auto simp: hex_lower_def lower_alnum_def lower_alpha_def)

lemma digit_lower_alnum: "digit c \<Longrightarrow> lower_alnum c"
  by (simp add: lower_alnum_def)

lemma length_hex_bytes: "length (hex_bytes bs) = 2 * length bs"
  by (induction bs) (auto simp: hex_bytes_def hex_byte_def)

lemma hex_bytes_lower: "c \<in> set (hex_bytes bs) \<Longrightarrow> hex_lower c"
  by (auto simp: hex_bytes_def hex_byte_def hex_digit_lower)

lemma length_toISOString: "length (toISOString ms) = 24"
  by (simp add: toISOString_def Let_def split: prod.split)

text \<open>The timestamp with its punctuation: fixed columns of digits.\<close>

lemma toISOString_shape:
  "\<exists>y m d hh mm ss f. toISOString ms =
      y @ ''-'' @ m @ ''-'' @ d @ ''T'' @ hh @ '':'' @ mm @ '':'' @ ss @ ''.'' @ f @ ''Z''
    \<and> length y = 4 \<and> length m = 2 \<and> length d = 2 \<and> length hh = 2 \<and> length mm = 2
    \<and> length ss = 2 \<and> length f = 3
    \<and> (\<forall>c \<in> set (y @ m @ d @ hh @ mm @ ss @ f). digit c)"
proof -
  obtain y m d where ymd: "civil_of_day (ms div 86400000) = (y, m, d)"
    by (metis prod_cases3)
  show ?thesis
    unfolding toISOString_def Let_def ymd prod.case
    by (intro exI conjI, rule refl) (auto dest: pad_digits_digit)
qed

section \<open>Numbers as texts\<close>

definition value_of :: "string \<Rightarrow> nat" where
  "value_of s = foldl (\<lambda>n c. 10 * n + (code c - 48)) 0 s"

lemma value_show: "value_of (show_nat n) = n"
proof (induction n rule: less_induct)
  case (less n)
  show ?case
  proof (cases "n < 10")
    case True
    then show ?thesis by (subst show_nat.simps) (simp add: value_of_def code_def)
  next
    case False
    with less [of "n div 10"] show ?thesis
      by (subst show_nat.simps) (simp add: value_of_def code_def)
  qed
qed

lemma show_nat_inject: "show_nat m = show_nat n \<Longrightarrow> m = n"
  by (metis value_show)

lemma show_nat_digits: "c \<in> set (show_nat n) \<Longrightarrow> digit c"
proof (induction n rule: show_nat.induct)
  case (1 n)
  then show ?case by (subst (asm) (2) show_nat.simps) (auto simp: digit_def code_def split: if_split_asm)
qed

lemma show_int_chars: "c \<in> set (show_int n) \<Longrightarrow> digit c \<or> c = CHR ''-''"
  by (auto simp: show_int_def dest: show_nat_digits split: if_split_asm)

lemma show_int_inject:
  assumes "show_int m = show_int n"
  shows "m = n"
proof -
  have "CHR ''-'' \<notin> set (show_nat k)" for k by (auto simp: digit_def code_def dest: show_nat_digits)
  then have "hd (show_nat k) \<noteq> CHR ''-''" for k by (metis list.set_sel(1) show_nat.simps append_is_Nil_conv not_Cons_self2 list.distinct(1))
  then show ?thesis using assms by (auto simp: show_int_def dest: show_nat_inject split: if_split_asm) (metis list.sel(1))+
qed

end
