(* ===== verification/Repository_Layout.thy ===== *)
theory Repository_Layout
  imports Js_Values
begin

text \<open>
  The artifact repository's path contract and the identifiers derived from names:
  \<^verbatim>\<open>lib/repository-layout.ts\<close>, \<^verbatim>\<open>lib/artifact-id.ts\<close>, \<^verbatim>\<open>lib/definition-id.ts\<close> and the path validator
  of \<^verbatim>\<open>lib/artifact-contract.ts\<close>.

  The lemmas show that a write target is always a supported, listable path, that it
  determines the artifact's type and identifier, that a classified path cannot leave its
  artifact directory when it is resolved, and that names become well-formed identifiers.
  The cut of \<open>slugify\<close> at 80 characters may leave a trailing hyphen, which
  \<open>definitionIdFromName\<close> repairs and \<open>slugify\<close> does not.
\<close>

section \<open>Definitions\<close>

subsection \<open>Paths\<close>

abbreviation slash :: char where "slash \<equiv> CHR ''/''"
abbreviation hyphen :: char where "hyphen \<equiv> CHR ''-''"

abbreviation backslash :: char where "backslash \<equiv> CHR 0x5C"

definition ARTIFACT_DIRECTORIES :: "string list" where
  "ARTIFACT_DIRECTORIES = [''prompts'', ''snippets'', ''templates'', ''app-ideas'']"

text \<open>\<^verbatim>\<open>value.replace(/\\/g, "/")\<close> and the removal of leading, or leading and trailing, slashes.\<close>

definition forward_slashes :: "string \<Rightarrow> string" where
  "forward_slashes s = map (\<lambda>c. if c = backslash then slash else c) s"

definition drop_leading_slashes :: "string \<Rightarrow> string" where
  "drop_leading_slashes s = dropWhile (\<lambda>c. c = slash) s"

definition trimSlashes :: "string \<Rightarrow> string" where
  "trimSlashes s = strip (\<lambda>c. c = slash) s"

definition safe_segment :: "string \<Rightarrow> bool" where
  "safe_segment w = (w \<noteq> [] \<and> w \<noteq> ''.'' \<and> w \<noteq> ''..'')"

definition safeSegments :: "string \<Rightarrow> string list option" where
  "safeSegments value =
     (let normalized = drop_leading_slashes (forward_slashes value);
          segments = js_split slash normalized
      in if length segments > 1 \<and> list_all safe_segment segments then Some segments else None)"

definition safeRootSegments :: "string \<Rightarrow> string list option" where
  "safeRootSegments value =
     (let normalized = trimSlashes (forward_slashes value);
          segments = js_split slash normalized
      in if normalized \<noteq> [] \<and> list_all safe_segment segments then Some segments else None)"

definition normalizeRepositoryRoot :: "string \<Rightarrow> string option" where
  "normalizeRepositoryRoot value = map_option (js_join [slash]) (safeRootSegments value)"

datatype layout = Canonical

definition classifyArtifactPath :: "string \<Rightarrow> layout option" where
  "classifyArtifactPath filePath =
     (case safeSegments filePath of
        None \<Rightarrow> None
      | Some segments \<Rightarrow>
          if hd segments \<in> set ARTIFACT_DIRECTORIES then Some Canonical else None)"

definition isSupportedArtifactPath :: "string \<Rightarrow> bool" where
  "isSupportedArtifactPath filePath =
     (classifyArtifactPath filePath \<noteq> None \<and> suffix ''.md'' (forward_slashes filePath))"

datatype artifact_type = Prompt | Snippet | Template | AppIdea

fun artifactTypeDirectories :: "artifact_type \<Rightarrow> string" where
  "artifactTypeDirectories Prompt = ''prompts''"
| "artifactTypeDirectories Snippet = ''snippets''"
| "artifactTypeDirectories Template = ''templates''"
| "artifactTypeDirectories AppIdea = ''app-ideas''"

definition canonicalArtifactWritePath :: "artifact_type \<Rightarrow> string \<Rightarrow> string option" where
  "canonicalArtifactWritePath ty i =
     (if \<not> slug_pattern i then None
      else Some (artifactTypeDirectories ty @ [slash] @ i @ ''.md''))"

definition isSupportedArtifactMutationPath :: "string \<Rightarrow> bool" where
  "isSupportedArtifactMutationPath filePath = isSupportedArtifactPath filePath"

definition isArtifactMarkdownCandidate :: "string \<Rightarrow> bool" where
  "isArtifactMarkdownCandidate filePath =
     (let normalized = drop_leading_slashes (forward_slashes filePath)
      in suffix ''.md'' normalized
         \<and> list_ex (\<lambda>directory. prefix (directory @ [slash]) normalized) ARTIFACT_DIRECTORIES)"

text \<open>\<^verbatim>\<open>validateArtifactPath\<close>: \<open>None\<close> for a valid path, the message otherwise. The root is empty, so
  its prefix test always holds.\<close>

definition validateArtifactPath :: "string \<Rightarrow> string option" where
  "validateArtifactPath filePath =
     (let root = ''''; normalized = drop_leading_slashes (forward_slashes filePath);
          pre = (if root \<noteq> [] then root @ [slash] else [])
      in if \<not> prefix pre normalized
         then Some ''Markdown artifacts must be stored under the configured artifact root.''
         else let relative = drop (length pre) normalized
              in if relative = [] \<or> \<not> list_all safe_segment (js_split slash relative)
                 then Some ''Markdown artifact paths must not contain empty or traversal segments.''
                 else if hd (js_split slash relative) \<notin> set ARTIFACT_DIRECTORIES
                 then Some (''Markdown artifacts must be stored under one of: ''
                            @ js_join '', '' ARTIFACT_DIRECTORIES @ ''.'')
                 else None)"

subsection \<open>Identifiers from names\<close>

definition not_slug_char :: "char \<Rightarrow> bool" where
  "not_slug_char c = (\<not> lower_alnum c)"

text \<open>
  \<^verbatim>\<open>slugify\<close>: the pattern \<^verbatim>\<open>/(^-|-$)+/g\<close> removes one hyphen at each end, all there can be after
  the runs have been collapsed.
\<close>

definition drop_one_leading :: "char \<Rightarrow> string \<Rightarrow> string" where
  "drop_one_leading d s = (case s of [] \<Rightarrow> [] | c # cs \<Rightarrow> if c = d then cs else s)"

definition drop_one_trailing :: "char \<Rightarrow> string \<Rightarrow> string" where
  "drop_one_trailing d s = (if s \<noteq> [] \<and> last s = d then butlast s else s)"

definition slugify :: "string \<Rightarrow> string" where
  "slugify value =
     take 80 (drop_one_trailing hyphen (drop_one_leading hyphen
       (replace_runs not_slug_char [hyphen] (js_lower value))))"

definition DEFINITION_ID_MAX_LENGTH :: nat where
  "DEFINITION_ID_MAX_LENGTH = 80"

definition definitionIdFromName :: "string \<Rightarrow> string" where
  "definitionIdFromName name =
     strip_end (\<lambda>c. c = hyphen)
       (take DEFINITION_ID_MAX_LENGTH
         (strip (\<lambda>c. c = hyphen)
           (replace_runs (\<lambda>c. c = hyphen) [hyphen]
             (replace_runs not_slug_char [hyphen] (js_lower (js_trim name))))))"

record definition_id_draft =
  dd_name :: string
  dd_id :: string
  dd_idOverridden :: bool

datatype definition_id_draft_action = DraftName string | DraftId string

fun definitionIdDraftReducer ::
  "definition_id_draft \<Rightarrow> definition_id_draft_action \<Rightarrow> definition_id_draft" where
  "definitionIdDraftReducer state (DraftId value) = state\<lparr>dd_id := value, dd_idOverridden := True\<rparr>"
| "definitionIdDraftReducer state (DraftName value) =
     state\<lparr>dd_name := value,
           dd_id := (if dd_idOverridden state then dd_id state else definitionIdFromName value)\<rparr>"

text \<open>Lexical resolution of a path against a directory: \<^verbatim>\<open>.\<close> and empty segments stay, \<^verbatim>\<open>..\<close> goes
  up, \<open>None\<close> when it would leave the directory the resolution started in.\<close>

fun resolve_onto :: "string list \<Rightarrow> string list \<Rightarrow> string list option" where
  "resolve_onto acc [] = Some (rev acc)"
| "resolve_onto acc (w # ws) =
     (if w = [] \<or> w = ''.'' then resolve_onto acc ws
      else if w = ''..'' then (case acc of [] \<Rightarrow> None | _ # up \<Rightarrow> resolve_onto up ws)
      else resolve_onto (w # acc) ws)"

definition resolve_path :: "string \<Rightarrow> string list option" where
  "resolve_path p = resolve_onto [] (js_split slash (drop_leading_slashes (forward_slashes p)))"

section \<open>Lemmas\<close>

subsection \<open>Write targets\<close>

lemma slug_char_cases: "slug_pattern i \<Longrightarrow> c \<in> set i \<Longrightarrow> lower_alnum c \<or> c = hyphen"
  by (auto simp: slug_pattern_iff)

lemma slug_char_not_special:
  assumes "slug_pattern i"
  shows "slash \<notin> set i" and "backslash \<notin> set i" and "CHR ''.'' \<notin> set i"
proof -
  have *: "code c \<noteq> 46 \<and> code c \<noteq> 47 \<and> code c \<noteq> 92" if "c \<in> set i" for c
    using slug_char_cases [OF assms that]
    by (auto simp: lower_alnum_def lower_alpha_def digit_def)
  show "slash \<notin> set i" using * [of slash] by (auto simp: code_def)
  show "backslash \<notin> set i" using * [of backslash] by (auto simp: code_def)
  show "CHR ''.'' \<notin> set i" using * [of "CHR ''.''"] by (auto simp: code_def)
qed

lemma directory_in_list: "artifactTypeDirectories ty \<in> set ARTIFACT_DIRECTORIES"
  by (cases ty) (simp_all add: ARTIFACT_DIRECTORIES_def)

lemma directory_plain:
  "slash \<notin> set (artifactTypeDirectories ty)" "backslash \<notin> set (artifactTypeDirectories ty)"
  "artifactTypeDirectories ty \<noteq> []" "safe_segment (artifactTypeDirectories ty)"
  "hd (artifactTypeDirectories ty) \<noteq> slash"
  by (cases ty; simp add: safe_segment_def)+

lemma directory_inj: "artifactTypeDirectories a = artifactTypeDirectories b \<longleftrightarrow> a = b"
  by (cases a; cases b) simp_all

lemma forward_slashes_id: "backslash \<notin> set s \<Longrightarrow> forward_slashes s = s"
  by (induction s) (auto simp: forward_slashes_def)

lemma drop_leading_slashes_id: "s \<noteq> [] \<Longrightarrow> hd s \<noteq> slash \<Longrightarrow> drop_leading_slashes s = s"
  by (cases s) (auto simp: drop_leading_slashes_def)

text \<open>A write path in the normal form every validator computes, and its two segments.\<close>

lemma write_path_normal:
  assumes "canonicalArtifactWritePath ty i = Some p"
  shows "forward_slashes p = p" "drop_leading_slashes p = p"
    "js_split slash p = [artifactTypeDirectories ty, i @ ''.md'']"
    "list_all safe_segment (js_split slash p)"
    "slug_pattern i" "p = artifactTypeDirectories ty @ slash # i @ ''.md''"
proof -
  show slug: "slug_pattern i" and p: "p = artifactTypeDirectories ty @ slash # i @ ''.md''"
    using assms by (auto simp: canonicalArtifactWritePath_def split: if_splits)
  note plain = slug_char_not_special [OF slug] directory_plain
  show "forward_slashes p = p"
    unfolding p by (rule forward_slashes_id) (use plain in auto)
  show "drop_leading_slashes p = p"
    unfolding p by (rule drop_leading_slashes_id) (use plain in auto)
  show split: "js_split slash p = [artifactTypeDirectories ty, i @ ''.md'']"
    unfolding p using plain by (simp add: js_split_append_sep js_split_plain)
  have "safe_segment (i @ ''.md'')"
    using slug_pattern_not_Nil [OF slug]
    by (cases i rule: rev_cases) (auto simp: safe_segment_def append_eq_Cons_conv)
  then show "list_all safe_segment (js_split slash p)"
    unfolding split using plain by simp
qed

lemma write_path_classified:
  "canonicalArtifactWritePath ty i = Some p \<Longrightarrow> classifyArtifactPath p = Some Canonical"
  using directory_in_list [of ty] write_path_normal [of ty i p]
  by (simp add: classifyArtifactPath_def safeSegments_def)

lemma write_path_md: "canonicalArtifactWritePath ty i = Some p \<Longrightarrow> suffix ''.md'' p"
  using write_path_normal(6) [of ty i p] by (auto simp: suffix_def)

lemma write_path_supported:
  "canonicalArtifactWritePath ty i = Some p \<Longrightarrow> isSupportedArtifactPath p"
  by (simp add: isSupportedArtifactPath_def write_path_classified write_path_md write_path_normal(1))

lemma write_path_candidate:
  assumes "canonicalArtifactWritePath ty i = Some p"
  shows "isArtifactMarkdownCandidate p"
proof -
  have "prefix (artifactTypeDirectories ty @ [slash]) p"
    using write_path_normal(6) [OF assms] by (auto simp: prefix_def)
  with directory_in_list [of ty] show ?thesis
    by (auto simp: isArtifactMarkdownCandidate_def Let_def list_ex_iff write_path_md [OF assms]
        write_path_normal(1,2) [OF assms])
qed

lemma write_path_valid:
  "canonicalArtifactWritePath ty i = Some p \<Longrightarrow> validateArtifactPath p = None"
  using directory_in_list [of ty] write_path_normal [of ty i p] directory_plain(3) [of ty]
  by (simp add: validateArtifactPath_def Let_def)

lemma write_path_inj:
  assumes "canonicalArtifactWritePath a i = Some p" and "canonicalArtifactWritePath b j = Some p"
  shows "a = b \<and> i = j"
  using write_path_normal(3) [OF assms(1)] write_path_normal(3) [OF assms(2)]
  by (simp add: directory_inj)

subsection \<open>Traversal\<close>

lemma resolve_safe:
  "list_all safe_segment ws \<Longrightarrow> resolve_onto acc ws = Some (rev acc @ ws)"
  by (induction ws arbitrary: acc) (auto simp: safe_segment_def)

lemma classify_segments:
  assumes "classifyArtifactPath p = Some l"
  obtains d ws where "js_split slash (drop_leading_slashes (forward_slashes p)) = d # ws"
    and "ws \<noteq> []" and "d \<in> set ARTIFACT_DIRECTORIES" and "list_all safe_segment (d # ws)"
proof -
  let ?segs = "js_split slash (drop_leading_slashes (forward_slashes p))"
  have *: "length ?segs > 1" "list_all safe_segment ?segs" "hd ?segs \<in> set ARTIFACT_DIRECTORIES"
    using assms by (auto simp: classifyArtifactPath_def safeSegments_def Let_def split: if_splits)
  then obtain d ws where "?segs = d # ws" "ws \<noteq> []"
    by (cases ?segs) auto
  with * that show thesis by auto
qed

lemma classify_resolves:
  assumes "classifyArtifactPath p = Some l"
  shows "\<exists>d ws. resolve_path p = Some (d # ws) \<and> d \<in> set ARTIFACT_DIRECTORIES \<and> ws \<noteq> []"
  using classify_segments [OF assms]
  by (metis append_Nil resolve_path_def resolve_safe rev.simps(1))

text \<open>The two validators agree on every path with more than one segment.\<close>

lemma classify_iff_validate:
  "classifyArtifactPath p \<noteq> None \<longleftrightarrow>
     validateArtifactPath p = None
     \<and> 1 < length (js_split slash (drop_leading_slashes (forward_slashes p)))"
proof -
  let ?n = "drop_leading_slashes (forward_slashes p)"
  have "?n = [] \<Longrightarrow> \<not> list_all safe_segment (js_split slash ?n)"
    by (simp add: safe_segment_def)
  then show ?thesis
    by (auto simp: classifyArtifactPath_def safeSegments_def validateArtifactPath_def Let_def)
qed

lemma supported_is_candidate:
  assumes "isSupportedArtifactPath p"
  shows "isArtifactMarkdownCandidate p"
proof -
  let ?n = "drop_leading_slashes (forward_slashes p)"
  obtain l where l: "classifyArtifactPath p = Some l" and md: "suffix ''.md'' (forward_slashes p)"
    using assms by (auto simp: isSupportedArtifactPath_def)
  obtain d ws where segs: "js_split slash ?n = d # ws" "ws \<noteq> []" "d \<in> set ARTIFACT_DIRECTORIES"
    using classify_segments [OF l] by metis
  have n: "?n = d @ slash # js_join [slash] ws"
    using js_join_split [of slash ?n] segs by (simp add: js_join_Cons)
  obtain u where u: "forward_slashes p = u @ ''.md''"
    using md by (auto simp: suffix_def)
  have "suffix ''.md'' ?n"
    unfolding drop_leading_slashes_def u dropWhile_append by (auto simp: suffix_def)
  moreover have "prefix (d @ [slash]) ?n"
    unfolding n by (simp add: prefix_def)
  ultimately show ?thesis
    using segs(3) by (auto simp: isArtifactMarkdownCandidate_def Let_def list_ex_iff)
qed

subsection \<open>Names to identifiers\<close>

lemma not_slug_hyphen: "not_slug_char hyphen"
  by (simp add: not_slug_char_def lower_alnum_def lower_alpha_def digit_def)

lemma collapsed_chars:
  "c \<in> set (replace_runs not_slug_char [hyphen] s) \<Longrightarrow> lower_alnum c \<or> c = hyphen"
  using set_replace_runs by (fastforce simp: not_slug_char_def)

lemma collapsed_no_double: "no_double hyphen (replace_runs not_slug_char [hyphen] s)"
  by (rule no_double_replace_runs) (rule not_slug_hyphen)

lemma strip_sublist_no_double: "no_double d s \<Longrightarrow> no_double d (strip P s)"
  unfolding strip_def
  by (meson no_double_prefix no_double_suffix strip_end_prefix suffix_dropWhile)

lemma take_set: "c \<in> set (take n s) \<Longrightarrow> c \<in> set s"
  by (rule in_set_takeD)

lemma strip_end_take_slug:
  assumes nd: "no_double hyphen s" and hd: "s \<noteq> [] \<Longrightarrow> hd s \<noteq> hyphen"
    and cs: "\<And>c. c \<in> set s \<Longrightarrow> lower_alnum c \<or> c = hyphen"
  shows "strip_end (\<lambda>c. c = hyphen) (take n s) = [] \<or>
         slug_pattern (strip_end (\<lambda>c. c = hyphen) (take n s))"
proof (cases "strip_end (\<lambda>c. c = hyphen) (take n s) = []")
  case False
  let ?t = "strip_end (\<lambda>c. c = hyphen) (take n s)"
  have pre: "prefix ?t s"
    by (rule prefix_order.trans [OF strip_end_prefix take_is_prefix])
  have "s \<noteq> []" using False by auto
  then have "hd ?t \<noteq> hyphen"
    using prefix_hd [OF pre False] hd by simp
  moreover have "last ?t \<noteq> hyphen"
    using strip_end_last [OF False] by simp
  moreover have "no_double hyphen ?t"
    by (rule no_double_prefix [OF pre nd])
  moreover have "\<forall>c \<in> set ?t. lower_alnum c \<or> c = hyphen"
    using cs set_mono_prefix [OF pre] by auto
  ultimately show ?thesis
    using False by (simp add: slug_pattern_iff)
qed simp

lemma definitionIdFromName_wf:
  "definitionIdFromName name = [] \<or> slug_pattern (definitionIdFromName name)"
proof -
  let ?r = "replace_runs not_slug_char [hyphen] (js_lower (js_trim name))"
  let ?s = "strip (\<lambda>c. c = hyphen) ?r"
  have r: "replace_runs (\<lambda>c. c = hyphen) [hyphen] ?r = ?r"
    by (rule replace_runs_no_double) (rule collapsed_no_double)
  have "strip_end (\<lambda>c. c = hyphen) (take 80 ?s) = [] \<or>
        slug_pattern (strip_end (\<lambda>c. c = hyphen) (take 80 ?s))"
  proof (rule strip_end_take_slug)
    show "no_double hyphen ?s"
      by (rule strip_sublist_no_double) (rule collapsed_no_double)
    show "?s \<noteq> [] \<Longrightarrow> hd ?s \<noteq> hyphen"
      using strip_hd [of "\<lambda>c. c = hyphen" ?r] by simp
    show "\<And>c. c \<in> set ?s \<Longrightarrow> lower_alnum c \<or> c = hyphen"
      using set_strip collapsed_chars by fastforce
  qed
  then show ?thesis
    by (simp add: definitionIdFromName_def DEFINITION_ID_MAX_LENGTH_def r)
qed

lemma definitionIdFromName_length: "length (definitionIdFromName name) \<le> 80"
  unfolding definitionIdFromName_def DEFINITION_ID_MAX_LENGTH_def
  by (rule order.trans [OF length_strip_end]) simp

text \<open>A name that already is an identifier keeps it.\<close>

lemma js_lower_char_lower_alnum: "lower_alnum c \<Longrightarrow> js_lower_char c = c"
  by (auto simp: js_lower_char_def lower_alnum_def lower_alpha_def digit_def upper_alpha_def)

lemma js_lower_slug: "slug_pattern i \<Longrightarrow> js_lower i = i"
proof -
  assume "slug_pattern i"
  moreover have "js_lower_char hyphen = hyphen"
    by (simp add: js_lower_char_def upper_alpha_def)
  ultimately have "js_lower_char c = c" if "c \<in> set i" for c
    using slug_char_cases [OF _ that] js_lower_char_lower_alnum by metis
  then show ?thesis by (simp add: js_lower_def map_idI)
qed

lemma slug_char_not_ws: "lower_alnum c \<or> c = hyphen \<Longrightarrow> \<not> js_ws c"
  by (auto simp: js_ws_def lower_alnum_def lower_alpha_def digit_def)

lemma strip_id: "s \<noteq> [] \<Longrightarrow> \<not> P (hd s) \<Longrightarrow> \<not> P (last s) \<Longrightarrow> strip P s = s"
proof -
  assume "s \<noteq> []" "\<not> P (hd s)" "\<not> P (last s)"
  then have "dropWhile P s = s" "dropWhile P (rev s) = rev s"
    by (auto simp: dropWhile_eq_self_iff hd_rev)
  then show ?thesis by (simp add: strip_def strip_end_def)
qed

lemma strip_end_id: "s \<noteq> [] \<Longrightarrow> \<not> P (last s) \<Longrightarrow> strip_end P s = s"
  by (cases s rule: rev_cases) (auto simp: strip_end_def)

lemma slug_tail_kept:
  "no_double hyphen (hyphen # xs) \<Longrightarrow> (\<And>c. c \<in> set xs \<Longrightarrow> lower_alnum c \<or> c = hyphen) \<Longrightarrow>
     dropWhile not_slug_char xs = xs"
  by (cases xs) (auto simp: no_double_Cons not_slug_char_def)

lemma replace_runs_slug:
  "no_double hyphen s \<Longrightarrow> (\<And>c. c \<in> set s \<Longrightarrow> lower_alnum c \<or> c = hyphen) \<Longrightarrow>
     replace_runs not_slug_char [hyphen] s = s"
proof (induction s)
  case Nil
  then show ?case by simp
next
  case (Cons x xs)
  have IH: "replace_runs not_slug_char [hyphen] xs = xs"
    using Cons by (auto simp: no_double_Cons)
  show ?case
  proof (cases "x = hyphen")
    case True
    then have "dropWhile not_slug_char xs = xs"
      using Cons.prems slug_tail_kept by auto
    with True IH show ?thesis
      using not_slug_hyphen by (simp add: replace_runs.simps(2))
  next
    case False
    then have "\<not> not_slug_char x"
      using Cons.prems(2) [of x] by (auto simp: not_slug_char_def)
    with IH show ?thesis by (simp add: replace_runs.simps(2))
  qed
qed

lemma definitionIdFromName_fixed:
  assumes slug: "slug_pattern i" and len: "length i \<le> 80"
  shows "definitionIdFromName i = i"
proof -
  have wf: "i \<noteq> []" "hd i \<noteq> hyphen" "last i \<noteq> hyphen" "no_double hyphen i"
    "\<And>c. c \<in> set i \<Longrightarrow> lower_alnum c \<or> c = hyphen"
    using slug by (auto simp: slug_pattern_iff)
  have "\<not> js_ws c" if "c \<in> set i" for c
    using slug_char_not_ws [OF wf(5) [OF that]] .
  then have "js_trim i = i"
    unfolding js_trim_def using strip_id [of i js_ws] wf(1) by simp
  then show ?thesis
    using wf len
    by (simp add: definitionIdFromName_def DEFINITION_ID_MAX_LENGTH_def js_lower_slug [OF slug]
        replace_runs_slug replace_runs_no_double strip_id strip_end_id)
qed

lemma slugify_shape:
  "slugify v = [] \<or> slug_pattern (slugify v) \<or> (length (slugify v) = 80 \<and> last (slugify v) = hyphen)"
proof -
  let ?r = "replace_runs not_slug_char [hyphen] (js_lower v)"
  let ?s = "drop_one_trailing hyphen (drop_one_leading hyphen ?r)"
  have nd: "no_double hyphen ?r" by (rule collapsed_no_double)
  have suf: "suffix (drop_one_leading hyphen ?r) ?r"
    by (auto simp: drop_one_leading_def suffix_def split: list.splits)
  have pre: "prefix ?s (drop_one_leading hyphen ?r)"
    by (auto simp: drop_one_trailing_def prefix_def intro: append_butlast_last_id [symmetric])
  have nd1: "no_double hyphen (drop_one_leading hyphen ?r)"
    by (rule no_double_suffix [OF suf nd])
  have nds: "no_double hyphen ?s" by (rule no_double_prefix [OF pre nd1])
  have hd1: "hd (drop_one_leading hyphen ?r) \<noteq> hyphen" if "drop_one_leading hyphen ?r \<noteq> []"
    using that nd by (cases ?r) (auto simp: drop_one_leading_def no_double_Cons)
  have hds: "hd ?s \<noteq> hyphen" if "?s \<noteq> []"
    using prefix_hd [OF pre that] hd1 pre that by (metis prefix_Nil)
  have lasts: "last ?s \<noteq> hyphen" if "?s \<noteq> []"
    using that nd1
    by (cases "drop_one_leading hyphen ?r" rule: rev_cases)
       (auto simp: drop_one_trailing_def no_double_def successively_append_iff)
  have cs: "lower_alnum c \<or> c = hyphen" if "c \<in> set ?s" for c
    using that set_mono_prefix [OF pre] set_mono_suffix [OF suf] collapsed_chars by blast
  have slug: "slug_pattern (take 80 ?s)" if ne: "take 80 ?s \<noteq> []" and "last (take 80 ?s) \<noteq> hyphen"
    using that hds no_double_prefix [OF take_is_prefix nds, of 80] cs
    by (auto simp: slug_pattern_iff dest: in_set_takeD)
  have "length ?s \<ge> 80" if "take 80 ?s \<noteq> []" "last (take 80 ?s) = hyphen"
    using that lasts by (cases "length ?s \<ge> 80") auto
  with slug show ?thesis
    unfolding slugify_def by (metis length_take min.absorb2)
qed

section \<open>Properties\<close>

text \<open>The path a new artifact is written to is accepted by every reader and validator of the
  repository layout, resolves to its file directly inside the directory of its type, and
  determines the type and the identifier it was computed from.\<close>

theorem write_path_contract:
  assumes "canonicalArtifactWritePath ty i = Some p"
  shows "isSupportedArtifactPath p \<and> isArtifactMarkdownCandidate p \<and> validateArtifactPath p = None
    \<and> resolve_path p = Some [artifactTypeDirectories ty, i @ ''.md'']
    \<and> (\<forall>ty' i'. canonicalArtifactWritePath ty' i' = Some p \<longrightarrow> ty' = ty \<and> i' = i)"
proof -
  have "resolve_path p = Some [artifactTypeDirectories ty, i @ ''.md'']"
    using write_path_normal [OF assms] resolve_safe [of "js_split slash p" "[]"]
    by (simp add: resolve_path_def)
  with assms show ?thesis
    by (auto intro: write_path_supported write_path_candidate write_path_valid dest: write_path_inj)
qed

theorem write_path_contract_witness:
  "canonicalArtifactWritePath Prompt ''code-review'' = Some ''prompts/code-review.md''
   \<and> isSupportedArtifactPath ''prompts/code-review.md''"
proof -
  have *: "canonicalArtifactWritePath Prompt ''code-review'' = Some ''prompts/code-review.md''"
    by code_simp
  show ?thesis by (rule conjI [OF * conjunct1 [OF write_path_contract [OF *]]])
qed

text \<open>A path the layout classifies as canonical cannot escape: after resolving every segment it
  still lies strictly below one of the four artifact directories, also when it is written with
  backslashes, leading slashes or dots. Such a path is exactly one that the path validator of the
  file contract accepts and that has more than one segment.\<close>

theorem classified_path_confined:
  "(classifyArtifactPath p = None \<or>
     (\<exists>d ws. resolve_path p = Some (d # ws) \<and> d \<in> set ARTIFACT_DIRECTORIES \<and> ws \<noteq> []))
   \<and> (classifyArtifactPath p \<noteq> None \<longleftrightarrow>
        validateArtifactPath p = None
        \<and> 1 < length (js_split slash (drop_leading_slashes (forward_slashes p))))"
  using classify_resolves [of p] classify_iff_validate [of p] by (cases "classifyArtifactPath p") auto

text \<open>The identifier derived from a definition's name is empty or a lower-case slug of at most 80
  characters, and deriving it again changes nothing.\<close>

theorem definition_id_contract:
  "(definitionIdFromName name = [] \<or> slug_pattern (definitionIdFromName name))
   \<and> length (definitionIdFromName name) \<le> 80
   \<and> definitionIdFromName (definitionIdFromName name) = definitionIdFromName name"
proof -
  have "definitionIdFromName [] = []" by code_simp
  then show ?thesis
    using definitionIdFromName_wf [of name] definitionIdFromName_length [of name]
      definitionIdFromName_fixed [of "definitionIdFromName name"] by auto
qed

end
