(* ===== verification/Artifact_Contract.thy ===== *)
theory Artifact_Contract
  imports Repository_Layout
begin

text \<open>
  The artifact file contract of \<^verbatim>\<open>lib/artifact-contract.ts\<close>: front-matter validation and
  normalisation, serialisation, parsing, excerpts and the uniqueness of identifiers.

  The Markdown/YAML reader and writer (gray-matter) and zod's ISO-datetime test are third
  party: they are the fields of the record \<open>md_lib\<close>, an argument of every definition that
  calls them. A front matter document is a dynamic value; \<open>artifactFrontMatterSchema\<close> is the
  schema of the source, field by field.
\<close>

section \<open>Definitions\<close>

record matter_file =
  mf_matter :: string
  mf_data :: js_value
  mf_content :: string

record md_lib =
  lib_matter :: "string \<Rightarrow> matter_file option"
  lib_stringify :: "string \<Rightarrow> js_value \<Rightarrow> string"
  lib_datetime :: "string \<Rightarrow> bool"

definition DEFAULT_ARTIFACT_BRANCH :: string where
  "DEFAULT_ARTIFACT_BRANCH = ''main''"

definition DEFAULT_ARTIFACT_ROOT :: string where
  "DEFAULT_ARTIFACT_ROOT = ''canonical-root-v1''"

definition MAX_SERIALIZED_ARTIFACT_BYTES :: nat where
  "MAX_SERIALIZED_ARTIFACT_BYTES = 1024 * 1024"

datatype created_at = CreatedText string | CreatedDate int

record artifact_metadata =
  art_id :: string
  art_title :: string
  art_description :: string
  art_type :: artifact_type
  art_tags :: "string list"
  art_aliases :: "string list"
  art_sourceId :: "string option"
  art_createdAt :: "created_at option"

record artifact = artifact_metadata +
  art_body :: string
  art_excerpt :: string
  art_path :: string

datatype parse_code = InvalidFrontMatter | InvalidMetadata | InvalidBody

datatype contract_error =
    ZodError
  | ArtifactMarkdownParseError parse_code
  | DuplicateArtifactId string string string

subsection \<open>The front-matter schema\<close>

fun artifactTypeSchema :: "string \<Rightarrow> artifact_type option" where
  "artifactTypeSchema s =
     (if s = ''prompt'' then Some Prompt else if s = ''snippet'' then Some Snippet
      else if s = ''template'' then Some Template else if s = ''app-idea'' then Some AppIdea
      else None)"

fun artifact_type_name :: "artifact_type \<Rightarrow> string" where
  "artifact_type_name Prompt = ''prompt''"
| "artifact_type_name Snippet = ''snippet''"
| "artifact_type_name Template = ''template''"
| "artifact_type_name AppIdea = ''app-idea''"

text \<open>\<^verbatim>\<open>z.string().trim().min(1)\<close>, \<^verbatim>\<open>z.array(z.string())\<close>.\<close>

definition z_trimmed :: "js_value option \<Rightarrow> string option" where
  "z_trimmed v =
     (case v of Some (JStr s) \<Rightarrow> (if js_trim s = [] then None else Some (js_trim s)) | _ \<Rightarrow> None)"

fun z_strings :: "js_value list \<Rightarrow> string list option" where
  "z_strings [] = Some []"
| "z_strings (JStr s # vs) = map_option (Cons s) (z_strings vs)"
| "z_strings (_ # vs) = None"

definition z_string_array :: "js_value option \<Rightarrow> string list option" where
  "z_string_array v =
     (case v of None \<Rightarrow> Some [] | Some (JArr vs) \<Rightarrow> z_strings vs | _ \<Rightarrow> None)"

definition z_description :: "js_value option \<Rightarrow> string option" where
  "z_description v =
     (case v of None \<Rightarrow> Some '''' | Some (JStr s) \<Rightarrow> (if length s \<le> 2000 then Some s else None)
      | _ \<Rightarrow> None)"

definition z_type :: "js_value option \<Rightarrow> artifact_type option" where
  "z_type v = (case v of Some (JStr s) \<Rightarrow> artifactTypeSchema s | _ \<Rightarrow> None)"

text \<open>An optional field: the outer \<open>None\<close> is a validation failure, \<open>Some None\<close> an absent field.\<close>

definition z_optional :: "('v option \<Rightarrow> 'a option) \<Rightarrow> 'v option \<Rightarrow> 'a option option" where
  "z_optional p v = (case v of None \<Rightarrow> Some None | Some _ \<Rightarrow> map_option Some (p v))"

definition z_createdAt :: "md_lib \<Rightarrow> js_value option \<Rightarrow> created_at option" where
  "z_createdAt lib v =
     (case v of Some (JStr s) \<Rightarrow> (if lib_datetime lib s then Some (CreatedText s) else None)
      | Some (JDate d) \<Rightarrow> Some (CreatedDate d) | _ \<Rightarrow> None)"

definition artifactFrontMatterSchema :: "md_lib \<Rightarrow> js_value \<Rightarrow> artifact_metadata option" where
  "artifactFrontMatterSchema lib v =
     (if \<not> js_is_object v then None
      else case (z_trimmed (js_get v ''id''), z_trimmed (js_get v ''title''),
                 z_description (js_get v ''description''), z_type (js_get v ''type''),
                 z_string_array (js_get v ''tags''), z_string_array (js_get v ''aliases''),
                 z_optional z_trimmed (js_get v ''sourceId''),
                 z_optional (z_createdAt lib) (js_get v ''createdAt''),
                 js_get v ''status'') of
        (Some i, Some t, Some d, Some ty, Some ts, Some als, Some src, Some cr, None) \<Rightarrow>
          Some \<lparr>art_id = i, art_title = t, art_description = d, art_type = ty, art_tags = ts,
                art_aliases = als, art_sourceId = src, art_createdAt = cr\<rparr>
      | _ \<Rightarrow> None)"

subsection \<open>Normalisation, excerpts and serialisation\<close>

definition normalizeList :: "string list \<Rightarrow> string list" where
  "normalizeList values = js_dedup (filter (\<lambda>s. s \<noteq> []) (map js_trim values))"

definition iso_created :: "created_at option \<Rightarrow> created_at option" where
  "iso_created c =
     (case c of Some (CreatedDate d) \<Rightarrow> Some (CreatedText (toISOString d)) | _ \<Rightarrow> c)"

definition normal_metadata :: "artifact_metadata \<Rightarrow> artifact_metadata" where
  "normal_metadata m =
     m\<lparr>art_tags := normalizeList (art_tags m), art_aliases := normalizeList (art_aliases m),
       art_createdAt := iso_created (art_createdAt m)\<rparr>"

definition normalizeArtifactMetadata :: "md_lib \<Rightarrow> js_value \<Rightarrow> contract_error + artifact_metadata" where
  "normalizeArtifactMetadata lib input =
     (case artifactFrontMatterSchema lib input of
        None \<Rightarrow> Inl ZodError | Some data \<Rightarrow> Inr (normal_metadata data))"

definition toExcerpt :: "string \<Rightarrow> string" where
  "toExcerpt body = take 180 (js_trim (replace_runs js_ws '' '' body))"

fun created_value :: "created_at \<Rightarrow> js_value" where
  "created_value (CreatedText s) = JStr s"
| "created_value (CreatedDate d) = JDate d"

text \<open>The object the writer receives: fixed key order, the optional keys only when truthy.\<close>

definition truthy_created :: "created_at option \<Rightarrow> bool" where
  "truthy_created c = (case c of None \<Rightarrow> False | Some (CreatedText s) \<Rightarrow> s \<noteq> [] | Some (CreatedDate _) \<Rightarrow> True)"

definition metadata_value :: "artifact_metadata \<Rightarrow> js_value" where
  "metadata_value m =
     JObj ([(''id'', JStr (art_id m)), (''title'', JStr (art_title m)),
            (''description'', JStr (art_description m)),
            (''type'', JStr (artifact_type_name (art_type m))),
            (''tags'', JArr (map JStr (art_tags m))), (''aliases'', JArr (map JStr (art_aliases m)))]
           @ (if truthy (art_sourceId m) then [(''sourceId'', JStr (the (art_sourceId m)))] else [])
           @ (if truthy_created (art_createdAt m)
              then [(''createdAt'', created_value (the (art_createdAt m)))] else []))"

definition parseArtifactMarkdown :: "md_lib \<Rightarrow> string \<Rightarrow> string \<Rightarrow> contract_error + artifact" where
  "parseArtifactMarkdown lib raw filePath =
     (case lib_matter lib raw of
        None \<Rightarrow> Inl (ArtifactMarkdownParseError InvalidFrontMatter)
      | Some parsed \<Rightarrow>
          if js_trim (mf_matter parsed) = [] then Inl (ArtifactMarkdownParseError InvalidFrontMatter)
          else if filePath \<noteq> ''artifact.md'' \<and> classifyArtifactPath filePath = None
          then Inl (ArtifactMarkdownParseError InvalidMetadata)
          else (case artifactFrontMatterSchema lib (mf_data parsed) of
                  None \<Rightarrow> Inl (ArtifactMarkdownParseError InvalidMetadata)
                | Some data \<Rightarrow>
                    Inr (artifact_metadata.extend (normal_metadata data)
                          \<lparr>art_body = js_trim (mf_content parsed),
                           art_excerpt = toExcerpt (mf_content parsed), art_path = filePath\<rparr>)))"

text \<open>\<^verbatim>\<open>serializeArtifactMarkdown\<close> re-parses what it wrote and throws if that fails.\<close>

definition serializeArtifactMarkdown :: "md_lib \<Rightarrow> js_value \<Rightarrow> string \<Rightarrow> contract_error + string" where
  "serializeArtifactMarkdown lib metadata body =
     bindR (normalizeArtifactMetadata lib metadata) (\<lambda>data.
       let markdown = lib_stringify lib (js_trim body @ [CHR 0x0A]) (metadata_value data)
       in bindR (parseArtifactMarkdown lib markdown ''artifact.md'') (\<lambda>_. Inr markdown))"

definition formatArtifactDiagnostic :: "string \<Rightarrow> string \<Rightarrow> string" where
  "formatArtifactDiagnostic file reason = file @ '': '' @ reason"

text \<open>\<^verbatim>\<open>validateUniqueArtifactIds\<close>: the map \<open>seen\<close> grows along the list; a previous path counts only
  when it is a non-empty string.\<close>

fun validate_unique_from :: "(string \<rightharpoonup> string) \<Rightarrow> (string \<times> string) list \<Rightarrow> contract_error + unit" where
  "validate_unique_from seen [] = Inr ()"
| "validate_unique_from seen ((i, p) # rest) =
     (if truthy (seen i) then Inl (DuplicateArtifactId i p (the (seen i)))
      else validate_unique_from (seen(i \<mapsto> p)) rest)"

definition validateUniqueArtifactIds :: "artifact list \<Rightarrow> contract_error + unit" where
  "validateUniqueArtifactIds artifacts =
     validate_unique_from Map.empty (map (\<lambda>a. (art_id a, art_path a)) artifacts)"

section \<open>Lemmas\<close>

subsection \<open>Normal forms\<close>

lemma normalizeList_distinct: "distinct (normalizeList xs)"
  by (simp add: normalizeList_def)

lemma normalizeList_elem: "s \<in> set (normalizeList xs) \<Longrightarrow> s \<noteq> [] \<and> js_trim s = s"
  by (auto simp: normalizeList_def)

lemma normalizeList_idem: "normalizeList (normalizeList xs) = normalizeList xs"
proof -
  have "map js_trim (normalizeList xs) = normalizeList xs"
    by (rule map_idI) (use normalizeList_elem in blast)
  moreover have "filter (\<lambda>s. s \<noteq> []) (normalizeList xs) = normalizeList xs"
    by (rule filter_True) (use normalizeList_elem in blast)
  ultimately show ?thesis
    using js_dedup_distinct [OF normalizeList_distinct] unfolding normalizeList_def [of "normalizeList xs"]
    by simp
qed

lemma iso_created_idem [simp]: "iso_created (iso_created c) = iso_created c"
  by (auto simp: iso_created_def split: option.splits created_at.splits)

lemma normal_metadata_idem [simp]: "normal_metadata (normal_metadata m) = normal_metadata m"
  by (simp add: normal_metadata_def normalizeList_idem)

text \<open>What the schema establishes, and what of it survives normalisation.\<close>

definition metadata_wf :: "md_lib \<Rightarrow> artifact_metadata \<Rightarrow> bool" where
  "metadata_wf lib m \<longleftrightarrow>
     art_id m \<noteq> [] \<and> js_trim (art_id m) = art_id m
     \<and> art_title m \<noteq> [] \<and> js_trim (art_title m) = art_title m
     \<and> length (art_description m) \<le> 2000
     \<and> (\<forall>s. art_sourceId m = Some s \<longrightarrow> s \<noteq> [] \<and> js_trim s = s)
     \<and> (\<forall>s. art_createdAt m = Some (CreatedText s) \<longrightarrow> lib_datetime lib s)"

lemma z_trimmed_Some: "z_trimmed v = Some s \<Longrightarrow> s \<noteq> [] \<and> js_trim s = s"
  by (auto simp: z_trimmed_def split: option.splits js_value.splits if_splits)

lemma z_description_Some: "z_description v = Some s \<Longrightarrow> length s \<le> 2000"
  by (auto simp: z_description_def split: option.splits js_value.splits if_splits)

lemma z_optional_Some: "z_optional p v = Some (Some x) \<Longrightarrow> p v = Some x"
  by (auto simp: z_optional_def split: option.splits)

lemma z_createdAt_text: "z_createdAt lib v = Some (CreatedText s) \<Longrightarrow> lib_datetime lib s"
  by (auto simp: z_createdAt_def split: option.splits js_value.splits if_splits)

lemma z_optional_trimmed:
  "z_optional z_trimmed v = Some (Some s) \<Longrightarrow> s \<noteq> [] \<and> js_trim s = s"
  by (drule z_optional_Some) (rule z_trimmed_Some)

lemma z_optional_created:
  "z_optional (z_createdAt lib) v = Some (Some (CreatedText s)) \<Longrightarrow> lib_datetime lib s"
  by (drule z_optional_Some) (rule z_createdAt_text)

lemma schema_wf: "artifactFrontMatterSchema lib v = Some m \<Longrightarrow> metadata_wf lib m"
  by (auto simp: artifactFrontMatterSchema_def metadata_wf_def
      dest: z_trimmed_Some z_description_Some z_optional_trimmed z_optional_created
      split: option.splits if_splits)

lemma schema_no_status:
  "artifactFrontMatterSchema lib v = Some m \<Longrightarrow> js_get v ''status'' = None"
  by (auto simp: artifactFrontMatterSchema_def split: option.splits if_splits)

lemma normal_metadata_wf:
  "metadata_wf lib m \<Longrightarrow> (\<And>d. lib_datetime lib (toISOString d)) \<Longrightarrow>
     metadata_wf lib (normal_metadata m)"
  by (auto simp: metadata_wf_def normal_metadata_def iso_created_def
      split: option.splits created_at.splits)

subsection \<open>Round trip\<close>

lemma z_strings_map [simp]: "z_strings (map JStr xs) = Some xs"
  by (induction xs) auto

lemma artifactTypeSchema_name [simp]: "artifactTypeSchema (artifact_type_name t) = Some t"
  by (cases t) simp_all

lemma metadata_value_get:
  "js_get (metadata_value m) ''id'' = Some (JStr (art_id m))"
  "js_get (metadata_value m) ''title'' = Some (JStr (art_title m))"
  "js_get (metadata_value m) ''description'' = Some (JStr (art_description m))"
  "js_get (metadata_value m) ''type'' = Some (JStr (artifact_type_name (art_type m)))"
  "js_get (metadata_value m) ''tags'' = Some (JArr (map JStr (art_tags m)))"
  "js_get (metadata_value m) ''aliases'' = Some (JArr (map JStr (art_aliases m)))"
  "js_get (metadata_value m) ''sourceId'' =
     (if truthy (art_sourceId m) then Some (JStr (the (art_sourceId m))) else None)"
  "js_get (metadata_value m) ''createdAt'' =
     (if truthy_created (art_createdAt m) then Some (created_value (the (art_createdAt m))) else None)"
  "js_get (metadata_value m) ''status'' = None"
  by (simp_all add: js_get_def metadata_value_def)

text \<open>A well-formed record survives the schema unchanged, provided no created text is empty.\<close>

lemma schema_metadata_value:
  assumes wf: "metadata_wf lib m" and ne: "art_createdAt m \<noteq> Some (CreatedText [])"
  shows "artifactFrontMatterSchema lib (metadata_value m) = Some m"
proof -
  have src: "z_optional z_trimmed (js_get (metadata_value m) ''sourceId'') = Some (art_sourceId m)"
    using wf by (cases "art_sourceId m")
      (auto simp: metadata_value_get z_optional_def z_trimmed_def metadata_wf_def)
  have cr: "z_optional (z_createdAt lib) (js_get (metadata_value m) ''createdAt'') = Some (art_createdAt m)"
  proof (cases "art_createdAt m")
    case None
    then show ?thesis by (simp add: metadata_value_get z_optional_def truthy_created_def)
  next
    case (Some c)
    with wf ne show ?thesis
      by (cases c) (auto simp: metadata_value_get z_optional_def truthy_created_def z_createdAt_def metadata_wf_def)
  qed
  have "js_is_object (metadata_value m)"
    by (simp add: metadata_value_def js_is_object_def)
  with src cr wf show ?thesis
    by (simp add: artifactFrontMatterSchema_def metadata_value_get(1-6,9) z_trimmed_def z_description_def
        z_type_def z_string_array_def metadata_wf_def del: artifactTypeSchema.simps)
qed

subsection \<open>Excerpts\<close>

lemma length_toExcerpt: "length (toExcerpt body) \<le> 180"
  by (simp add: toExcerpt_def)

text \<open>After collapsing, the only white space left is the single blank.\<close>

lemma ws_space: "js_ws (CHR '' '')"
  by (simp add: js_ws_def code_def)

lemma toExcerpt_ws: "c \<in> set (toExcerpt body) \<Longrightarrow> js_ws c \<Longrightarrow> c = CHR '' ''"
  unfolding toExcerpt_def js_trim_def
  using set_replace_runs [of c js_ws "'' ''" body] set_strip [of js_ws "replace_runs js_ws '' '' body"]
  by (auto dest: in_set_takeD)

lemma toExcerpt_single_blanks: "no_double (CHR '' '') (toExcerpt body)"
  unfolding toExcerpt_def js_trim_def
  by (rule no_double_prefix [OF take_is_prefix])
     (rule strip_sublist_no_double, rule no_double_replace_runs, rule ws_space)

subsection \<open>Parsing\<close>

lemma parse_cases:
  assumes "parseArtifactMarkdown lib raw p = Inr a"
  obtains f data where "lib_matter lib raw = Some f" "js_trim (mf_matter f) \<noteq> []"
    "p = ''artifact.md'' \<or> classifyArtifactPath p \<noteq> None"
    "artifactFrontMatterSchema lib (mf_data f) = Some data"
    "a = artifact_metadata.extend (normal_metadata data)
          \<lparr>art_body = js_trim (mf_content f), art_excerpt = toExcerpt (mf_content f), art_path = p\<rparr>"
  using assms that by (auto simp: parseArtifactMarkdown_def split: option.splits if_splits)

lemma parse_path: "parseArtifactMarkdown lib raw p = Inr a \<Longrightarrow> art_path a = p"
  by (erule parse_cases) (simp add: artifact_metadata.defs normal_metadata_def)

text \<open>The path is only recorded: where both paths are admitted, the parses agree otherwise.\<close>

lemma parse_any_path:
  assumes "parseArtifactMarkdown lib raw ''artifact.md'' = Inr a" and "classifyArtifactPath p \<noteq> None"
  shows "parseArtifactMarkdown lib raw p = Inr (a\<lparr>art_path := p\<rparr>)"
  using assms(1)
proof (rule parse_cases)
  fix f data
  assume "lib_matter lib raw = Some f" "js_trim (mf_matter f) \<noteq> []"
    "artifactFrontMatterSchema lib (mf_data f) = Some data"
    "a = artifact_metadata.extend (normal_metadata data)
          \<lparr>art_body = js_trim (mf_content f), art_excerpt = toExcerpt (mf_content f), art_path = ''artifact.md''\<rparr>"
  with assms(2) show ?thesis
    by (auto simp: parseArtifactMarkdown_def artifact_metadata.defs)
qed

subsection \<open>Unique identifiers\<close>

lemma validate_unique_from_iff:
  "(\<forall>(i, p) \<in> set xs. p \<noteq> []) \<Longrightarrow> (\<forall>i p. seen i = Some p \<longrightarrow> p \<noteq> []) \<Longrightarrow>
     validate_unique_from seen xs = Inr () \<longleftrightarrow>
       distinct (map fst xs) \<and> (\<forall>i \<in> set (map fst xs). seen i = None)"
proof (induction seen xs rule: validate_unique_from.induct)
  case (1 seen)
  then show ?case by simp
next
  case (2 seen i p rest)
  show ?case
  proof (cases "seen i")
    case None
    have "validate_unique_from (seen(i \<mapsto> p)) rest = Inr () \<longleftrightarrow>
        distinct (map fst rest) \<and> (\<forall>j \<in> set (map fst rest). (seen(i \<mapsto> p)) j = None)"
      by (rule "2.IH") (use None "2.prems" in auto)
    then show ?thesis using None by auto
  next
    case (Some q)
    then show ?thesis using "2.prems" by auto
  qed
qed

lemma validateUniqueArtifactIds_iff:
  assumes "\<forall>a \<in> set artifacts. art_path a \<noteq> []"
  shows "is_ok (validateUniqueArtifactIds artifacts) \<longleftrightarrow> distinct (map art_id artifacts)"
proof -
  have "is_ok (validateUniqueArtifactIds artifacts) \<longleftrightarrow>
      validate_unique_from Map.empty (map (\<lambda>a. (art_id a, art_path a)) artifacts) = Inr ()"
    by (auto simp: validateUniqueArtifactIds_def is_ok_iff)
  also have "\<dots> \<longleftrightarrow> distinct (map art_id artifacts)"
    using assms by (subst validate_unique_from_iff) (auto simp: comp_def)
  finally show ?thesis .
qed

end
