(* ===== verification/Github_App.thy ===== *)
theory Github_App
  imports Js_Values
begin

text \<open>
  The GitHub App client of \<^verbatim>\<open>lib/github-app.ts\<close>: the HTTP vocabulary every GitHub component
  shares, base64url and DER encoding, the private-key reader, App tokens (JWT), plain JSON
  requests and the minting of restricted installation tokens.

  The network is a parameter: a \<open>'w fetcher\<close> answers a request and changes an unknown world
  \<open>'w\<close>. The record \<open>net\<close> keeps, beside that world, the requests sent so far, so that the
  lemmas can speak of what goes out. The signing and digest primitives of Web Crypto are
  arguments of the definitions that use them.
\<close>

section \<open>Definitions\<close>

subsection \<open>HTTP\<close>

record http_request =
  rq_method :: string
  rq_url :: string
  rq_headers :: "(string \<times> string) list"
  rq_body :: "js_value option"

text \<open>Reading a response body: the stream fails, the text is not JSON, or a value.\<close>

datatype body_read = BodyStreamError | BodyNotJson | BodyJson js_value

record http_response =
  rs_status :: nat
  rs_retryAfter :: "string option"
  rs_body :: body_read

datatype fetch_outcome = FetchRejected | FetchResponse http_response

type_synonym 'w fetcher = "http_request \<Rightarrow> 'w \<Rightarrow> fetch_outcome \<times> 'w"

record 'w net =
  net_world :: 'w
  net_sent :: "http_request list"

definition response_ok :: "http_response \<Rightarrow> bool" where
  "response_ok r = (200 \<le> rs_status r \<and> rs_status r \<le> 299)"

definition do_fetch :: "'w fetcher \<Rightarrow> http_request \<Rightarrow> (('w, 'x) net_scheme, 'e, fetch_outcome) eff" where
  "do_fetch fetch rq s =
     (let (outcome, w) = fetch rq (net_world s)
      in (Inr outcome, s\<lparr>net_world := w, net_sent := net_sent s @ [rq]\<rparr>))"

subsection \<open>Configuration and credentials\<close>

record github_app_config =
  cfg_appId :: string
  cfg_clientId :: string
  cfg_clientSecret :: string
  cfg_privateKey :: string
  cfg_owner :: string
  cfg_repo :: string
  cfg_branch :: string
  cfg_rootPath :: string
  cfg_allowedLogins :: "string list"

datatype capability = CapRead | CapWrite | CapPullRequests

datatype installation_failure =
    AuthenticationFailed | InstallationMissing | CapabilityRequestRejected | RateLimited
  | TemporarilyUnavailable | MalformedResponse | RequestFailed

record repository_credential =
  cred_token :: string
  cred_contents :: "string option"
  cred_pullRequests :: "string option"
  cred_expiresAt :: "string option"

text \<open>
  What this module throws: an HTTP failure with its status, a rejected fetch or unreadable
  body (no status), an installation-credential failure, or the value-free configuration
  error of an unusable private key.
\<close>

datatype github_error =
    HttpStatus nat
  | NetworkError
  | InstallationCredentialError installation_failure capability "nat option"
  | InvalidPrivateKey

text \<open>\<^verbatim>\<open>(error as { status?: number }).status\<close>.\<close>

fun error_status :: "github_error \<Rightarrow> nat option" where
  "error_status (HttpStatus n) = Some n"
| "error_status NetworkError = None"
| "error_status (InstallationCredentialError f c n) = n"
| "error_status InvalidPrivateKey = None"

subsection \<open>Base64 and DER\<close>

definition b64_char :: "nat \<Rightarrow> char" where
  "b64_char n =
     (if n < 26 then char_of (65 + n) else if n < 52 then char_of (71 + n)
      else if n < 62 then char_of (n - 4) else if n = 62 then CHR ''+'' else CHR ''/'')"

fun btoa :: "nat list \<Rightarrow> string" where
  "btoa [] = []"
| "btoa [a] = [b64_char (a div 4), b64_char (a mod 4 * 16), CHR ''='', CHR ''='']"
| "btoa [a, b] = [b64_char (a div 4), b64_char (a mod 4 * 16 + b div 16), b64_char (b mod 16 * 4), CHR ''='']"
| "btoa (a # b # c # rest) =
     [b64_char (a div 4), b64_char (a mod 4 * 16 + b div 16), b64_char (b mod 16 * 4 + c div 64),
      b64_char (c mod 64)] @ btoa rest"

definition base64Url :: "nat list \<Rightarrow> string" where
  "base64Url bytes =
     strip_end (\<lambda>c. c = CHR ''='')
       (map (\<lambda>c. if c = CHR ''/'' then CHR ''_'' else c)
         (map (\<lambda>c. if c = CHR ''+'' then CHR ''-'' else c) (btoa bytes)))"

text \<open>The big-endian bytes of a length: the loop shifts an unsigned 32-bit value.\<close>

fun length_bytes :: "nat \<Rightarrow> nat list" where
  "length_bytes v = (if v = 0 then [] else length_bytes (v div 256) @ [v mod 256])"

declare length_bytes.simps [simp del]

definition derLength :: "nat \<Rightarrow> nat list" where
  "derLength n =
     (if n < 128 then [n] else let bytes = length_bytes n in (128 + length bytes) # bytes)"

definition der :: "nat \<Rightarrow> nat list \<Rightarrow> nat list" where
  "der tag content = tag # derLength (length content) @ content"

definition rsa_algorithm :: "nat list" where
  "rsa_algorithm = [48, 13, 6, 9, 42, 134, 72, 134, 247, 13, 1, 1, 1, 5, 0]"

definition pkcs1ToPkcs8 :: "nat list \<Rightarrow> nat list" where
  "pkcs1ToPkcs8 pkcs1 = der 48 ([2, 1, 0] @ rsa_algorithm @ der 4 pkcs1)"

subsection \<open>The private key\<close>

definition pem_char :: "char \<Rightarrow> bool" where
  "pem_char c = (alnum c \<or> c \<in> set ''+/='' \<or> code c = 10 \<or> code c = 13)"

definition b64_data_char :: "char \<Rightarrow> bool" where
  "b64_data_char c = (alnum c \<or> c = CHR ''+'' \<or> c = CHR ''/'')"

text \<open>Canonical padded base64: quartets, the last one with up to two padding characters.\<close>

fun canonical_base64 :: "string \<Rightarrow> bool" where
  "canonical_base64 (a # b # c # d # rest) =
     (b64_data_char a \<and> b64_data_char b
      \<and> (if rest = []
         then (b64_data_char c \<and> b64_data_char d) \<or> (b64_data_char c \<and> d = CHR ''='')
              \<or> (c = CHR ''='' \<and> d = CHR ''='')
         else b64_data_char c \<and> b64_data_char d \<and> canonical_base64 rest))"
| "canonical_base64 s = (s = [])"

definition b64_value :: "char \<Rightarrow> nat" where
  "b64_value c =
     (if upper_alpha c then code c - 65 else if lower_alpha c then code c - 71
      else if digit c then code c + 4 else if c = CHR ''+'' then 62 else 63)"

text \<open>\<^verbatim>\<open>atob\<close> on canonical base64.\<close>

fun atob :: "string \<Rightarrow> nat list" where
  "atob (a # b # c # d # rest) =
     (if c = CHR ''='' then [b64_value a * 4 + b64_value b div 16]
      else if d = CHR ''='' then
        [b64_value a * 4 + b64_value b div 16, b64_value b mod 16 * 16 + b64_value c div 4]
      else [b64_value a * 4 + b64_value b div 16, b64_value b mod 16 * 16 + b64_value c div 4,
            b64_value c mod 4 * 64 + b64_value d] @ atob rest)"
| "atob _ = []"

text \<open>
  The text between the armour lines of one label: the line break after the header and before
  the footer is \<^verbatim>\<open>\n\<close> or \<^verbatim>\<open>\r\n\<close>, the payload in between is non-empty and in the class.
\<close>

definition pem_payload :: "string \<Rightarrow> string \<Rightarrow> string option" where
  "pem_payload label text =
     (let open_line = ''-----BEGIN '' @ label @ ''-----'';
          close_line = ''-----END '' @ label @ ''-----'';
          inner = drop (length open_line) (take (length text - length close_line) text);
          after = (if prefix [CHR 0x0D, CHR 0x0A] inner then drop 2 inner else drop 1 inner);
          payload = butlast after
      in if prefix open_line text \<and> suffix close_line text
            \<and> length open_line + length close_line \<le> length text
            \<and> (prefix [CHR 0x0A] inner \<or> prefix [CHR 0x0D, CHR 0x0A] inner)
            \<and> after \<noteq> [] \<and> last after = CHR 0x0A \<and> payload \<noteq> [] \<and> list_all pem_char payload
         then Some (filter (\<lambda>c. \<not> js_ws c) payload) else None)"

definition parsePrivateKeyPem :: "string \<Rightarrow> github_error + nat list" where
  "parsePrivateKeyPem pem =
     (let trimmed = js_trim pem;
          decode = (\<lambda>payload. if payload = [] \<or> \<not> canonical_base64 payload then Inl InvalidPrivateKey
                              else if atob payload = [] then Inl InvalidPrivateKey
                              else Inr (atob payload))
      in case pem_payload ''PRIVATE KEY'' trimmed of
           Some payload \<Rightarrow> decode payload
         | None \<Rightarrow>
             (case pem_payload ''RSA PRIVATE KEY'' trimmed of
                Some payload \<Rightarrow> bindR (decode payload) (\<lambda>bytes. Inr (pkcs1ToPkcs8 bytes))
              | None \<Rightarrow> Inl InvalidPrivateKey))"

text \<open>\<^verbatim>\<open>importKey\<close> is a parameter: \<open>None\<close> when the runtime rejects the PKCS#8 bytes.\<close>

definition validateGitHubAppPrivateKey :: "(nat list \<Rightarrow> 'k option) \<Rightarrow> string \<Rightarrow> github_error + 'k" where
  "validateGitHubAppPrivateKey importKey pem =
     bindR (parsePrivateKeyPem pem) (\<lambda>bytes.
       case importKey bytes of None \<Rightarrow> Inl InvalidPrivateKey | Some key \<Rightarrow> Inr key)"

definition ascii_bytes :: "string \<Rightarrow> nat list" where
  "ascii_bytes s = concat (map utf8_bytes s)"

definition createPkceChallenge :: "(nat list \<Rightarrow> nat list) \<Rightarrow> string \<Rightarrow> string" where
  "createPkceChallenge sha256 verifier = base64Url (sha256 (ascii_bytes verifier))"

definition dquote :: string where
  "dquote = [CHR 0x22]"

definition json_field :: "string \<Rightarrow> string \<Rightarrow> string" where
  "json_field k v = dquote @ k @ dquote @ '':'' @ v"

text \<open>The App id is printed as the JSON string of plain text; it is a decimal number or a client id.\<close>

definition jwt_payload :: "string \<Rightarrow> int \<Rightarrow> string" where
  "jwt_payload appId now =
     ''{'' @ json_field ''iat'' (show_int (now - 60)) @ '','' @ json_field ''exp'' (show_int (now + 540))
     @ '','' @ json_field ''iss'' (dquote @ appId @ dquote) @ ''}''"

definition jwt_header :: string where
  "jwt_header = ''{'' @ json_field ''alg'' (dquote @ ''RS256'' @ dquote) @ '',''
     @ json_field ''typ'' (dquote @ ''JWT'' @ dquote) @ ''}''"

definition createGitHubAppJwt ::
  "(nat list \<Rightarrow> 'k option) \<Rightarrow> ('k \<Rightarrow> nat list \<Rightarrow> nat list) \<Rightarrow> string \<Rightarrow> string \<Rightarrow> int \<Rightarrow> github_error + string" where
  "createGitHubAppJwt importKey sign appId pem now =
     bindR (validateGitHubAppPrivateKey importKey pem) (\<lambda>key.
       let input = base64Url (ascii_bytes jwt_header) @ ''.'' @ base64Url (ascii_bytes (jwt_payload appId now))
       in Inr (input @ ''.'' @ base64Url (sign key (ascii_bytes input))))"

subsection \<open>Requests\<close>

definition githubApiBaseUrl :: string where
  "githubApiBaseUrl = ''https://api.github.com''"

definition githubHeaders :: "string option \<Rightarrow> (string \<times> string) list" where
  "githubHeaders token =
     [(''accept'', ''application/vnd.github+json'')]
     @ (if truthy token then [(''authorization'', ''Bearer '' @ the token)] else [])
     @ [(''user-agent'', ''artifact-dev-toolkit''), (''x-github-api-version'', ''2022-11-28'')]"

definition github_json_result :: "fetch_outcome \<Rightarrow> github_error + js_value" where
  "github_json_result outcome =
     (case outcome of
        FetchRejected \<Rightarrow> Inl NetworkError
      | FetchResponse r \<Rightarrow>
          if \<not> response_ok r then Inl (HttpStatus (rs_status r))
          else (case rs_body r of BodyJson v \<Rightarrow> Inr v | _ \<Rightarrow> Inl NetworkError))"

definition githubJson_app ::
  "'w fetcher \<Rightarrow> string \<Rightarrow> (string \<times> string) list \<Rightarrow> (('w, 'x) net_scheme, github_error, js_value) eff" where
  "githubJson_app fetch url headers =
     bnd (do_fetch fetch \<lparr>rq_method = ''GET'', rq_url = url, rq_headers = headers, rq_body = None\<rparr>)
       (\<lambda>outcome. ofSum (github_json_result outcome))"

definition repo_url :: "string \<Rightarrow> string \<Rightarrow> string" where
  "repo_url owner repo = githubApiBaseUrl @ ''/repos/'' @ encodeURIComponent owner @ ''/'' @ encodeURIComponent repo"

definition getConfiguredRepository ::
  "'w fetcher \<Rightarrow> github_app_config \<Rightarrow> string \<Rightarrow> (('w, 'x) net_scheme, github_error, js_value) eff" where
  "getConfiguredRepository fetch config token =
     githubJson_app fetch (repo_url (cfg_owner config) (cfg_repo config)) (githubHeaders (Some token))"

definition getRepositoryInstallation ::
  "'w fetcher \<Rightarrow> github_app_config \<Rightarrow> string \<Rightarrow> (('w, 'x) net_scheme, github_error, js_value) eff" where
  "getRepositoryInstallation fetch config appJwt =
     githubJson_app fetch (repo_url (cfg_owner config) (cfg_repo config) @ ''/installation'')
       (githubHeaders (Some appJwt))"

datatype restriction = RepositoryIds "int list" | RepositoryNames "string list"

fun restriction_field :: "restriction \<Rightarrow> string \<times> js_value" where
  "restriction_field (RepositoryIds ns) = (''repository_ids'', JArr (map JNum ns))"
| "restriction_field (RepositoryNames ns) = (''repositories'', JArr (map JStr ns))"

fun capability_permissions :: "capability \<Rightarrow> js_value" where
  "capability_permissions CapRead = JObj [(''contents'', JStr ''read'')]"
| "capability_permissions CapWrite = JObj [(''contents'', JStr ''write'')]"
| "capability_permissions CapPullRequests = JObj [(''pull_requests'', JStr ''write'')]"

definition installation_failure_of :: "nat \<Rightarrow> installation_failure" where
  "installation_failure_of status =
     (if status = 401 then AuthenticationFailed
      else if status = 403 \<or> status = 404 then InstallationMissing
      else if status = 422 then CapabilityRequestRejected
      else if status = 429 then RateLimited
      else if status \<ge> 500 then TemporarilyUnavailable else RequestFailed)"

definition nonempty_str :: "js_value option \<Rightarrow> string option" where
  "nonempty_str v = (case js_str v of Some s \<Rightarrow> (if s \<noteq> [] then Some s else None) | None \<Rightarrow> None)"

definition mint_request :: "int \<Rightarrow> restriction \<Rightarrow> string \<Rightarrow> capability \<Rightarrow> http_request" where
  "mint_request installationId restriction appJwt capability =
     \<lparr>rq_method = ''POST'',
      rq_url = githubApiBaseUrl @ ''/app/installations/'' @ show_int installationId @ ''/access_tokens'',
      rq_headers = githubHeaders (Some appJwt) @ [(''content-type'', ''application/json'')],
      rq_body = Some (JObj [restriction_field restriction,
                            (''permissions'', capability_permissions capability)])\<rparr>"

definition mint_result :: "capability \<Rightarrow> fetch_outcome \<Rightarrow> github_error + repository_credential" where
  "mint_result capability outcome =
     (case outcome of
        FetchRejected \<Rightarrow> Inl (InstallationCredentialError TemporarilyUnavailable capability None)
      | FetchResponse r \<Rightarrow>
          let malformed = InstallationCredentialError MalformedResponse capability (Some (rs_status r))
          in if \<not> response_ok r
             then Inl (InstallationCredentialError (installation_failure_of (rs_status r)) capability
                         (Some (rs_status r)))
             else (case rs_body r of
                     BodyJson payload \<Rightarrow>
                       (case js_str (js_get payload ''token'') of
                          None \<Rightarrow> Inl malformed
                        | Some token \<Rightarrow>
                            if js_trim token = [] then Inl malformed
                            else let permissions = (case js_get payload ''permissions'' of
                                                      Some p \<Rightarrow> p | None \<Rightarrow> JNull)
                                 in Inr \<lparr>cred_token = token,
                                         cred_contents = nonempty_str (js_get permissions ''contents''),
                                         cred_pullRequests = nonempty_str (js_get permissions ''pull_requests''),
                                         cred_expiresAt = nonempty_str (js_get payload ''expires_at'')\<rparr>)
                   | _ \<Rightarrow> Inl malformed))"

definition mintRestrictedInstallationToken ::
  "'w fetcher \<Rightarrow> int \<Rightarrow> restriction \<Rightarrow> string \<Rightarrow> capability \<Rightarrow>
     (('w, 'x) net_scheme, github_error, repository_credential) eff" where
  "mintRestrictedInstallationToken fetch installationId restriction appJwt capability =
     bnd (do_fetch fetch (mint_request installationId restriction appJwt capability))
       (\<lambda>outcome. ofSum (mint_result capability outcome))"

definition mintInstallationToken ::
  "'w fetcher \<Rightarrow> int \<Rightarrow> int \<Rightarrow> string \<Rightarrow> capability \<Rightarrow>
     (('w, 'x) net_scheme, github_error, repository_credential) eff" where
  "mintInstallationToken fetch installationId repositoryId appJwt capability =
     mintRestrictedInstallationToken fetch installationId (RepositoryIds [repositoryId]) appJwt capability"

definition mintInstallationTokenForRepositoryName ::
  "'w fetcher \<Rightarrow> int \<Rightarrow> string \<Rightarrow> string \<Rightarrow> capability \<Rightarrow>
     (('w, 'x) net_scheme, github_error, repository_credential) eff" where
  "mintInstallationTokenForRepositoryName fetch installationId repository appJwt capability =
     mintRestrictedInstallationToken fetch installationId (RepositoryNames [repository]) appJwt capability"

section \<open>Lemmas\<close>

lemma do_fetch_inv [eff_inv]:
  "(do_fetch fetch rq s = (r, t)) \<longleftrightarrow>
     (\<exists>outcome w. fetch rq (net_world s) = (outcome, w) \<and> r = Inr outcome
        \<and> t = s\<lparr>net_world := w, net_sent := net_sent s @ [rq]\<rparr>)"
  by (auto simp: do_fetch_def split: prod.splits)

subsection \<open>DER lengths\<close>

text \<open>The value a big-endian byte string denotes, and a reader of DER lengths.\<close>

definition be_value :: "nat list \<Rightarrow> nat" where
  "be_value bs = foldl (\<lambda>acc b. acc * 256 + b) 0 bs"

definition read_der_length :: "nat list \<Rightarrow> (nat \<times> nat list) option" where
  "read_der_length bs =
     (case bs of [] \<Rightarrow> None
      | b # rest \<Rightarrow> if b < 128 then Some (b, rest)
                    else if b - 128 \<le> length rest
                    then Some (be_value (take (b - 128) rest), drop (b - 128) rest) else None)"

lemma be_value_snoc [simp]: "be_value (bs @ [b]) = be_value bs * 256 + b"
  by (simp add: be_value_def)

lemma be_value_length_bytes: "be_value (length_bytes n) = n"
proof (induction n rule: length_bytes.induct)
  case (1 v)
  then show ?case
    by (cases "v = 0") (simp_all add: length_bytes.simps [of v] length_bytes.simps [of 0] be_value_def [of "[]"])
qed

lemma length_bytes_byte: "b \<in> set (length_bytes n) \<Longrightarrow> b < 256"
proof (induction n rule: length_bytes.induct)
  case (1 v)
  then show ?case
    by (cases "v = 0") (auto simp: length_bytes.simps [of v] length_bytes.simps [of 0])
qed

lemma length_length_bytes: "n < 256 ^ k \<Longrightarrow> length (length_bytes n) \<le> k"
proof (induction k arbitrary: n)
  case 0
  then show ?case by (simp add: length_bytes.simps)
next
  case (Suc k)
  then have "n div 256 < 256 ^ k" by (simp add: less_mult_imp_div_less mult.commute)
  then have "length (length_bytes (n div 256)) \<le> k" by (rule Suc.IH)
  then show ?case by (subst length_bytes.simps) simp
qed

lemma read_derLength:
  "read_der_length (derLength n @ rest) = Some (n, rest)"
proof (cases "n < 128")
  case True
  then show ?thesis by (simp add: derLength_def read_der_length_def)
next
  case False
  then show ?thesis
    by (simp add: derLength_def read_der_length_def Let_def be_value_length_bytes)
qed

lemma derLength_bytes: "n < 2 ^ 32 \<Longrightarrow> b \<in> set (derLength n) \<Longrightarrow> b < 256"
  using length_length_bytes [of n 4]
  by (auto simp: derLength_def Let_def dest: length_bytes_byte split: if_splits)

text \<open>Reading one DER element back: tag, length, content.\<close>

definition read_der :: "nat list \<Rightarrow> (nat \<times> nat list \<times> nat list) option" where
  "read_der bs =
     (case bs of [] \<Rightarrow> None
      | tag # rest \<Rightarrow>
          (case read_der_length rest of None \<Rightarrow> None
           | Some (n, body) \<Rightarrow> if n \<le> length body then Some (tag, take n body, drop n body) else None))"

lemma read_der_der: "read_der (der tag content @ rest) = Some (tag, content, rest)"
  by (simp add: read_der_def der_def read_derLength)

lemma pkcs8_wraps_key:
  "\<exists>body. read_der (pkcs1ToPkcs8 key) = Some (48, body, [])
     \<and> take 3 body = [2, 1, 0] \<and> take 15 (drop 3 body) = rsa_algorithm
     \<and> read_der (drop 18 body) = Some (4, key, [])"
proof -
  let ?body = "[2, 1, 0] @ rsa_algorithm @ der 4 key"
  have "read_der (pkcs1ToPkcs8 key) = Some (48, ?body, [])"
    using read_der_der [of 48 ?body "[]"] by (simp add: pkcs1ToPkcs8_def)
  moreover have "read_der (drop 18 ?body) = Some (4, key, [])"
    using read_der_der [of 4 key "[]"] by (simp add: rsa_algorithm_def)
  ultimately show ?thesis
    by (intro exI [of _ ?body]) (simp add: rsa_algorithm_def)
qed

subsection \<open>Base64url\<close>

definition b64url_char :: "char \<Rightarrow> bool" where
  "b64url_char c \<longleftrightarrow> alnum c \<or> c = CHR ''-'' \<or> c = CHR ''_''"

definition b64_text_char :: "char \<Rightarrow> bool" where
  "b64_text_char c \<longleftrightarrow> alnum c \<or> c = CHR ''+'' \<or> c = CHR ''/'' \<or> c = CHR ''=''"

lemma b64_char_class: "n < 64 \<Longrightarrow> b64_text_char (b64_char n)"
proof -
  assume "n < 64"
  then consider "n < 26" | "26 \<le> n" "n < 52" | "52 \<le> n" "n < 62" | "n = 62" | "n = 63" by linarith
  then have "alnum (b64_char n) \<or> b64_char n = CHR ''+'' \<or> b64_char n = CHR ''/''"
  proof cases
    case 3
    then have "code (char_of (n - 4)) = n - 4" by (simp add: code_char_of)
    with 3 have "digit (char_of (n - 4))" unfolding digit_def by linarith
    with 3 show ?thesis by (simp add: b64_char_def alnum_def)
  qed (simp_all add: b64_char_def alnum_def upper_alpha_def lower_alpha_def code_char_of)
  then show ?thesis by (auto simp: b64_text_char_def)
qed

lemma b64_text_pad [simp]: "b64_text_char (CHR ''='')"
  by (simp add: b64_text_char_def)

lemma sextet_bounds:
  fixes a b :: nat
  assumes "a < 256" "b < 256"
  shows "a div 4 < 64" "a mod 4 * 16 < 64" "a mod 4 * 16 + b div 16 < 64" "a mod 16 * 4 < 64"
    "a mod 16 * 4 + b div 64 < 64" "a mod 64 < 64"
  using assms by linarith+

lemma btoa_chars: "\<forall>b \<in> set bs. b < 256 \<Longrightarrow> list_all b64_text_char (btoa bs)"
proof (induction bs rule: btoa.induct)
  case (4 a b c rest)
  then have "a < 256" "b < 256" "c < 256" by simp_all
  note sextet_bounds [OF this(1) this(1)] sextet_bounds [OF this(1) this(2)] sextet_bounds [OF this(2) this(3)]
    sextet_bounds [OF this(3) this(3)]
  with 4 show ?case by (simp add: b64_char_class)
next
  case (3 a b)
  then have "a < 256" "b < 256" by simp_all
  note sextet_bounds [OF this(1) this(1)] sextet_bounds [OF this] sextet_bounds [OF this(2) this(2)]
  then show ?case by (simp add: b64_char_class)
next
  case (2 a)
  then have "a < 256" by simp
  note sextet_bounds [OF this this]
  then show ?case by (simp add: b64_char_class)
qed simp

text \<open>The padding is at the end only, and there are at most two characters of it.\<close>

lemma length_btoa: "length (btoa bs) = 4 * ((length bs + 2) div 3)"
proof (induction bs rule: btoa.induct)
  case (4 a b c rest)
  have "(length (a # b # c # rest) + 2) div 3 = Suc ((length rest + 2) div 3)"
    by simp
  with 4 show ?case by simp
qed simp_all

subsection \<open>Restricted tokens\<close>

text \<open>Minting sends exactly one request, whatever comes back, and asks only for the capability.\<close>

lemma mint_sends:
  "mintRestrictedInstallationToken fetch i restr jwt cap s = (r, t) \<Longrightarrow>
     net_sent t = net_sent s @ [mint_request i restr jwt cap]"
  by (auto simp: mintRestrictedInstallationToken_def bnd_eq do_fetch_inv)

lemma mint_result_nonblank: "mint_result cap o' = Inr c \<Longrightarrow> js_trim (cred_token c) \<noteq> []"
  by (auto simp: mint_result_def Let_def split: fetch_outcome.splits body_read.splits option.splits if_splits)

lemma mint_result_capability:
  "mint_result cap o' = Inl e \<Longrightarrow> \<exists>f n. e = InstallationCredentialError f cap n"
  by (auto simp: mint_result_def Let_def split: fetch_outcome.splits body_read.splits option.splits if_splits)

lemma mint_token_nonblank:
  "mintRestrictedInstallationToken fetch i restr jwt cap s = (Inr c, t) \<Longrightarrow>
     js_trim (cred_token c) \<noteq> []"
  by (auto simp: mintRestrictedInstallationToken_def bnd_eq do_fetch_inv dest: mint_result_nonblank)

lemma mint_error_capability:
  "mintRestrictedInstallationToken fetch i restr jwt cap s = (Inl e, t) \<Longrightarrow>
     \<exists>f n. e = InstallationCredentialError f cap n"
  by (auto simp: mintRestrictedInstallationToken_def bnd_eq do_fetch_inv dest: mint_result_capability)

section \<open>Properties\<close>

text \<open>The PKCS#8 document built around a PKCS#1 key is well-formed DER of any length: a reader of
  DER elements finds the outer sequence with nothing left over, the version and the RSA algorithm
  identifier, and in the octet string exactly the key that was wrapped.\<close>

theorem pkcs8_round_trip:
  "\<exists>body. read_der (pkcs1ToPkcs8 key) = Some (48, body, [])
     \<and> take 3 body = [2, 1, 0] \<and> take 15 (drop 3 body) = rsa_algorithm
     \<and> read_der (drop 18 body) = Some (4, key, [])"
  by (rule pkcs8_wraps_key)

text \<open>Minting an installation token sends exactly one request, for the given installation and
  restricted to the given repository and capability, whatever the network does; a token that is
  returned is not blank, and every failure names the capability that was asked for.\<close>

theorem mint_restricted_token:
  "mintInstallationToken fetch installation repository jwt cap s = (r, t) \<Longrightarrow>
     net_sent t = net_sent s @ [mint_request installation (RepositoryIds [repository]) jwt cap]
     \<and> (\<forall>c. r = Inr c \<longrightarrow> js_trim (cred_token c) \<noteq> [])
     \<and> (\<forall>e. r = Inl e \<longrightarrow> (\<exists>f n. e = InstallationCredentialError f cap n))"
  unfolding mintInstallationToken_def
  by (auto dest: mint_sends mint_token_nonblank mint_error_capability)

definition token_fetcher :: "unit fetcher" where
  "token_fetcher rq w =
     (FetchResponse \<lparr>rs_status = 201, rs_retryAfter = None,
        rs_body = BodyJson (JObj [(''token'', JStr ''ghs-demo''),
                                  (''permissions'', JObj [(''contents'', JStr ''read'')])])\<rparr>, w)"

theorem mint_restricted_token_witness:
  "\<exists>c t. mintInstallationToken token_fetcher 7 42 ''jwt'' CapRead \<lparr>net_world = (), net_sent = []\<rparr> = (Inr c, t)
     \<and> js_trim (cred_token c) \<noteq> []
     \<and> net_sent t = [mint_request 7 (RepositoryIds [42]) ''jwt'' CapRead]"
proof -
  obtain r t where run: "mintInstallationToken token_fetcher 7 42 ''jwt'' CapRead
      \<lparr>net_world = (), net_sent = []\<rparr> = (r, t)" by (cases "mintInstallationToken token_fetcher 7 42 ''jwt'' CapRead
      \<lparr>net_world = (), net_sent = []\<rparr>")
  then have "is_ok r"
    by (auto simp: mintInstallationToken_def mintRestrictedInstallationToken_def bnd_def do_fetch_def
        token_fetcher_def ofSum_def mint_result_def response_ok_def js_get_def js_str_def js_trim_def strip_def
        strip_end_def js_ws_def code_def)
  then obtain c where "r = Inr c" by (auto simp: is_ok_iff)
  with mint_restricted_token [OF run] run show ?thesis by simp
qed

end
