(* ===== verification/Artifact_Writes.thy ===== *)
theory Artifact_Writes
  imports Artifact_Contract Github_App
begin

text \<open>
  The part of \<^verbatim>\<open>lib/artifact-repository.ts\<close> that decides whether and what to write, before any
  request is made: the error classes, the secret scanner, \<open>prepareArtifactWrite\<close>, the check of
  the immutable fields of an update and \<open>prepareVariation\<close>.

  The lemmas show that prepared content is small, free of the scanner's secret patterns,
  addressed by a valid write path and readable again there; that an accepted update keeps
  identity and provenance; and in which cases a variation gets a writable identifier.
\<close>

section \<open>Definitions\<close>

subsection \<open>Errors\<close>

datatype blob_code = UnsupportedEncoding | BlobTooLarge | BlobUnavailable

text \<open>\<open>PlainError\<close> is an \<^verbatim>\<open>Error\<close> of no class of its own; \<open>ProviderFailure\<close> is what the credential
  provider was rejected with.\<close>

datatype repo_error =
    ArtifactRepositoryConfigurationError
  | ArtifactRepositoryUnavailableError "nat option"
  | ArtifactRepositoryAccessError
  | ArtifactRepositoryNotFoundError
  | ArtifactBranchNotFoundError
  | ArtifactRepositoryContentError
  | ArtifactBlobDiagnosticError blob_code
  | ArtifactWriteValidationError
  | ArtifactWriteTooLargeError
  | ArtifactSecretRejectedError
  | ArtifactDuplicateError
  | ArtifactWriteConflictError
  | ArtifactWritePermissionError
  | ArtifactWriteAuthenticationError
  | ArtifactNotFoundError
  | ArtifactWriteResponseError
  | ContractFailure contract_error
  | ProviderFailure github_error
  | PlainError

definition lift_contract :: "contract_error + 'a \<Rightarrow> repo_error + 'a" where
  "lift_contract r = (case r of Inl e \<Rightarrow> Inl (ContractFailure e) | Inr x \<Rightarrow> Inr x)"

subsection \<open>Secrets\<close>

definition secret_value_char :: "char \<Rightarrow> bool" where
  "secret_value_char c = (alnum c \<or> c \<in> set ''_./+=-'')"

definition quote_char :: "char \<Rightarrow> bool" where
  "quote_char c = (code c = 34 \<or> code c = 39)"

definition secretPatterns :: "rx list" where
  "secretPatterns =
     [rseq [rlit_i ''-----BEGIN '',
            ropt (ralt (rlit_i ''RSA '') [rlit_i ''DSA '', rlit_i ''EC '', rlit_i ''OPENSSH '', rlit_i ''PGP '']),
            rlit_i ''PRIVATE KEY-----''],
      rseq [RBound,
            ralt (rseq [rlit_i ''api'', RUpTo (\<lambda>c. c = CHR ''_'' \<or> c = CHR ''-'') 1, rlit_i ''key''])
                 [rlit_i ''token'', rlit_i ''secret'', rlit_i ''password''],
            RBound, RRep js_ws 0, RChar (\<lambda>c. c = CHR '':'' \<or> c = CHR ''=''), RRep js_ws 0,
            RUpTo quote_char 1, RRep secret_value_char 16],
      rseq [RBound, rlit ''gh'', RChar (\<lambda>c. c \<in> set ''pousr''), rlit ''_'', RRep word_char 36, RBound],
      rseq [RBound, rlit ''github_pat_'', RRep word_char 22, rlit ''_'', RRep word_char 59, RBound],
      rseq [RBound, rlit ''sk-'', RRep alnum 20, RBound]]"

definition assertNoSecrets :: "string \<Rightarrow> repo_error + unit" where
  "assertNoSecrets value =
     (if list_ex (\<lambda>pattern. rx_test pattern value) secretPatterns
      then Inl ArtifactSecretRejectedError else Inr ())"

subsection \<open>Preparing a write\<close>

text \<open>A metadata record as the object it is at run time: the optional keys are present exactly when
  they have a value.\<close>

definition metadata_object :: "('x) artifact_metadata_scheme \<Rightarrow> js_value" where
  "metadata_object m =
     JObj ([(''id'', JStr (art_id m)), (''title'', JStr (art_title m)),
            (''description'', JStr (art_description m)),
            (''type'', JStr (artifact_type_name (art_type m))),
            (''tags'', JArr (map JStr (art_tags m))), (''aliases'', JArr (map JStr (art_aliases m)))]
           @ (case art_sourceId m of None \<Rightarrow> [] | Some s \<Rightarrow> [(''sourceId'', JStr s)])
           @ (case art_createdAt m of None \<Rightarrow> [] | Some c \<Rightarrow> [(''createdAt'', created_value c)]))"

definition prepare_body :: "md_lib \<Rightarrow> js_value \<Rightarrow> string \<Rightarrow> repo_error + artifact_metadata \<times> string" where
  "prepare_body lib metadataInput body =
     bindR (case normalizeArtifactMetadata lib metadataInput of Inl e \<Rightarrow> Inl (ContractFailure e) | Inr m \<Rightarrow> Inr m)
       (\<lambda>metadata.
          if \<not> slug_pattern (art_id metadata) then Inl ArtifactWriteValidationError
          else if js_trim body = [] then Inl ArtifactWriteValidationError
          else bindR (case serializeArtifactMarkdown lib (metadata_object metadata) body of
                        Inl e \<Rightarrow> Inl (ContractFailure e) | Inr t \<Rightarrow> Inr t)
                 (\<lambda>markdown.
                    if MAX_SERIALIZED_ARTIFACT_BYTES < utf8_length markdown then Inl ArtifactWriteTooLargeError
                    else bindR (assertNoSecrets markdown) (\<lambda>_. Inr (metadata, markdown))))"

definition prepareArtifactWrite :: "md_lib \<Rightarrow> js_value \<Rightarrow> string \<Rightarrow> repo_error + artifact_metadata \<times> string" where
  "prepareArtifactWrite lib metadataInput body =
     (case prepare_body lib metadataInput body of
        Inr r \<Rightarrow> Inr r
      | Inl e \<Rightarrow>
          if e \<in> {ArtifactSecretRejectedError, ArtifactWriteValidationError, ArtifactWriteTooLargeError}
          then Inl e else Inl ArtifactWriteValidationError)"

text \<open>\<^verbatim>\<open>String(value ?? "")\<close> on a creation time; how a \<^verbatim>\<open>Date\<close> prints depends on the local time zone and is
  the argument \<open>date_text\<close>.\<close>

definition created_string :: "(int \<Rightarrow> string) \<Rightarrow> created_at option \<Rightarrow> string" where
  "created_string date_text c =
     (case c of None \<Rightarrow> [] | Some (CreatedText s) \<Rightarrow> s | Some (CreatedDate d) \<Rightarrow> date_text d)"

definition validateImmutableArtifactMetadata ::
  "md_lib \<Rightarrow> (int \<Rightarrow> string) \<Rightarrow> artifact \<Rightarrow> js_value \<Rightarrow> repo_error + artifact_metadata" where
  "validateImmutableArtifactMetadata lib date_text stored submitted =
     (case normalizeArtifactMetadata lib submitted of
        Inl e \<Rightarrow> Inl (ContractFailure e)
      | Inr metadata \<Rightarrow>
          if art_id metadata \<noteq> art_id stored \<or> art_type metadata \<noteq> art_type stored
             \<or> art_sourceId metadata \<noteq> art_sourceId stored
             \<or> created_string date_text (art_createdAt metadata) \<noteq> created_string date_text (art_createdAt stored)
          then Inl ArtifactWriteValidationError else Inr metadata)"

subsection \<open>Variations\<close>

definition variation_title :: "artifact \<Rightarrow> string option \<Rightarrow> string" where
  "variation_title source title =
     (case title of Some t \<Rightarrow> (if js_trim t \<noteq> [] then js_trim t else art_title source @ '' Variation'')
      | None \<Rightarrow> art_title source @ '' Variation'')"

definition variation_base :: "artifact \<Rightarrow> string \<Rightarrow> string" where
  "variation_base source vt =
     (if slugify vt \<noteq> [] then slugify vt else slugify (art_id source @ '' variation''))"

definition variation_stamp :: "string \<Rightarrow> string" where
  "variation_stamp timestamp =
     take 10 timestamp @ ''-'' @ filter (\<lambda>c. c \<noteq> CHR '':'') (take 8 (drop 11 timestamp))"

definition prepareVariation ::
  "artifact \<Rightarrow> string option \<Rightarrow> int \<Rightarrow> nat list \<Rightarrow> repo_error + string \<times> artifact_metadata" where
  "prepareVariation source title now randomBytes =
     (let timestamp = toISOString now;
          variationTitle = variation_title source title;
          idBase = variation_base source variationTitle
      in if idBase = [] then Inl ArtifactWriteValidationError
         else let suffix = hex_bytes randomBytes
              in if \<not> all_chars hex_lower 8 8 suffix then Inl ArtifactWriteValidationError
                 else let i = idBase @ ''-'' @ variation_stamp timestamp @ ''-'' @ suffix
                      in Inr (i, \<lparr>art_id = i, art_title = variationTitle,
                                  art_description = art_description source, art_type = art_type source,
                                  art_tags = js_dedup (art_tags source @ [''variation'']),
                                  art_aliases = art_aliases source, art_sourceId = Some (art_id source),
                                  art_createdAt = Some (CreatedText timestamp)\<rparr>))"

section \<open>Lemmas\<close>

lemma lift_contract_Inr [simp]: "lift_contract r = Inr x \<longleftrightarrow> r = Inr x"
  by (auto simp: lift_contract_def split: sum.splits)

subsection \<open>Prepared content\<close>

lemma assertNoSecrets_ok:
  "assertNoSecrets t = Inr u \<longleftrightarrow> (\<forall>r \<in> set secretPatterns. \<not> rx_test r t)"
  by (auto simp: assertNoSecrets_def list_ex_iff)

lemma prepareArtifactWrite_Inr:
  "prepareArtifactWrite lib v b = Inr r \<longleftrightarrow> prepare_body lib v b = Inr r"
  by (auto simp: prepareArtifactWrite_def split: sum.splits if_splits)

lemma prepareArtifactWrite_Inl:
  "prepareArtifactWrite lib v b = Inl e \<Longrightarrow>
     e \<in> {ArtifactSecretRejectedError, ArtifactWriteValidationError, ArtifactWriteTooLargeError}"
  by (auto simp: prepareArtifactWrite_def split: sum.splits if_splits)

lemma prepareArtifactWrite_cases:
  assumes "prepareArtifactWrite lib v b = Inr (m, t)"
  obtains "normalizeArtifactMetadata lib v = Inr m" "slug_pattern (art_id m)" "js_trim b \<noteq> []"
    "serializeArtifactMarkdown lib (metadata_object m) b = Inr t"
    "utf8_length t \<le> MAX_SERIALIZED_ARTIFACT_BYTES" "\<forall>r \<in> set secretPatterns. \<not> rx_test r t"
proof -
  have *: "prepare_body lib v b = Inr (m, t)"
    using assms by (simp add: prepareArtifactWrite_Inr)
  show thesis
    by (rule that; use * in \<open>auto simp: prepare_body_def bindR_Inr assertNoSecrets_ok not_less split: sum.splits if_splits\<close>)
qed

text \<open>A creation time that passed the schema is not the empty text.\<close>

lemma metadata_object_value:
  assumes "metadata_wf lib m" and "art_createdAt m \<noteq> Some (CreatedText [])"
  shows "metadata_object m = metadata_value m"
  using assms
  by (auto simp: metadata_object_def metadata_value_def metadata_wf_def truthy_def truthy_created_def
      split: option.splits created_at.splits)

lemma normalize_wf:
  assumes "normalizeArtifactMetadata lib v = Inr m" and "\<And>d. lib_datetime lib (toISOString d)"
  shows "metadata_wf lib m" "normal_metadata m = m"
  using assms
  by (auto simp: normalizeArtifactMetadata_def split: option.splits dest!: schema_wf intro: normal_metadata_wf)

lemma normalize_created_nonempty:
  assumes "normalizeArtifactMetadata lib v = Inr m" and "\<not> lib_datetime lib []"
  shows "art_createdAt m \<noteq> Some (CreatedText [])"
proof -
  obtain d where d: "artifactFrontMatterSchema lib v = Some d" "m = normal_metadata d"
    using assms(1) by (auto simp: normalizeArtifactMetadata_def split: option.splits)
  have "toISOString x \<noteq> []" for x
    using length_toISOString [of x] by (metis list.size(3) zero_neq_numeral)
  with d schema_wf [OF d(1)] assms(2) show ?thesis
    by (auto simp: normal_metadata_def iso_created_def metadata_wf_def split: option.splits created_at.splits)
qed

text \<open>Normalised metadata goes through the schema and the normaliser unchanged.\<close>

lemma normalize_fixed:
  assumes n: "normalizeArtifactMetadata lib v = Inr m"
    and iso: "\<And>d. lib_datetime lib (toISOString d)" and ne: "\<not> lib_datetime lib []"
  shows "normalizeArtifactMetadata lib (metadata_object m) = Inr m"
    and "artifactFrontMatterSchema lib (metadata_value m) = Some m"
proof -
  note wf = normalize_wf [OF n iso] and cr = normalize_created_nonempty [OF n ne]
  show *: "artifactFrontMatterSchema lib (metadata_value m) = Some m"
    by (rule schema_metadata_value [OF wf(1) cr])
  then show "normalizeArtifactMetadata lib (metadata_object m) = Inr m"
    by (simp add: metadata_object_value [OF wf(1) cr] normalizeArtifactMetadata_def wf(2))
qed

text \<open>What was serialised can be read at the path it will be written to.\<close>

lemma prepared_readable:
  assumes "prepareArtifactWrite lib v b = Inr (m, t)"
  shows "\<exists>p a. canonicalArtifactWritePath (art_type m) (art_id m) = Some p
           \<and> parseArtifactMarkdown lib t p = Inr a \<and> art_path a = p"
  using assms
proof (rule prepareArtifactWrite_cases)
  assume slug: "slug_pattern (art_id m)"
    and ser: "serializeArtifactMarkdown lib (metadata_object m) b = Inr t"
  obtain p where p: "canonicalArtifactWritePath (art_type m) (art_id m) = Some p"
    using slug by (simp add: canonicalArtifactWritePath_def)
  obtain a where "parseArtifactMarkdown lib t ''artifact.md'' = Inr a"
    using ser by (auto simp: serializeArtifactMarkdown_def bindR_Inr Let_def)
  then have "parseArtifactMarkdown lib t p = Inr (a\<lparr>art_path := p\<rparr>)"
    by (rule parse_any_path) (simp add: write_path_classified [OF p])
  with p show ?thesis by auto
qed

text \<open>
  The documented behaviour of the Markdown writer and reader that a round trip relies on, for
  one document: the front matter comes back as written, the content up to surrounding space.
\<close>

definition stringify_law :: "md_lib \<Rightarrow> string \<Rightarrow> js_value \<Rightarrow> bool" where
  "stringify_law lib content v =
     (case lib_matter lib (lib_stringify lib content v) of
        None \<Rightarrow> False
      | Some f \<Rightarrow> js_trim (mf_matter f) \<noteq> [] \<and> mf_data f = v \<and> js_trim (mf_content f) = js_trim content)"

lemma js_trim_newline [simp]: "js_trim (js_trim b @ [CHR 0x0A]) = js_trim b"
proof -
  have ws: "js_ws (CHR 0x0A)" by (simp add: js_ws_def code_def)
  show ?thesis
  proof (cases "js_trim b = []")
    case True
    then show ?thesis using ws by (simp add: js_trim_def strip_def)
  next
    case False
    then have "\<not> js_ws (hd (js_trim b))" by (simp add: js_trim_def strip_hd)
    with False have "dropWhile js_ws (js_trim b @ [CHR 0x0A]) = js_trim b @ [CHR 0x0A]"
      by (cases "js_trim b") auto
    then show ?thesis
      using ws js_trim_idem [of b] False
      by (simp add: js_trim_def strip_def strip_end_snoc)
  qed
qed

lemma prepared_round_trip:
  assumes prep: "prepareArtifactWrite lib v b = Inr (m, t)"
    and iso: "\<And>d. lib_datetime lib (toISOString d)" and ne: "\<not> lib_datetime lib []"
    and law: "stringify_law lib (js_trim b @ [CHR 0x0A]) (metadata_value m)"
    and p: "canonicalArtifactWritePath (art_type m) (art_id m) = Some p"
  shows "\<exists>a. parseArtifactMarkdown lib t p = Inr a \<and> artifact_metadata.truncate a = m
           \<and> art_body a = js_trim b \<and> art_path a = p"
  using prep
proof (rule prepareArtifactWrite_cases)
  assume n: "normalizeArtifactMetadata lib v = Inr m"
    and ser: "serializeArtifactMarkdown lib (metadata_object m) b = Inr t"
  have t: "t = lib_stringify lib (js_trim b @ [CHR 0x0A]) (metadata_value m)"
    using ser by (auto simp: serializeArtifactMarkdown_def normalize_fixed(1) [OF n iso ne] Let_def bindR_Inr)
  obtain f where f: "lib_matter lib t = Some f" "js_trim (mf_matter f) \<noteq> []" "mf_data f = metadata_value m"
      "js_trim (mf_content f) = js_trim b"
    using law by (auto simp: stringify_law_def t split: option.splits)
  have "parseArtifactMarkdown lib t p =
      Inr (artifact_metadata.extend m
             \<lparr>art_body = js_trim b, art_excerpt = toExcerpt (mf_content f), art_path = p\<rparr>)"
    using f write_path_classified [OF p]
    by (simp add: parseArtifactMarkdown_def normalize_fixed(2) [OF n iso ne] normalize_wf(2) [OF n iso])
  then show ?thesis
    by (simp add: artifact_metadata.defs)
qed

subsection \<open>Immutable fields\<close>

lemma validateImmutable_ok:
  assumes "validateImmutableArtifactMetadata lib dt stored v = Inr m"
  shows "art_id m = art_id stored" "art_type m = art_type stored" "art_sourceId m = art_sourceId stored"
    "created_string dt (art_createdAt m) = created_string dt (art_createdAt stored)"
    "normalizeArtifactMetadata lib v = Inr m"
  using assms by (auto simp: validateImmutableArtifactMetadata_def split: sum.splits if_splits)

subsection \<open>Variations\<close>

lemma js_split_sep_append: "js_split c (a @ c # b) = js_split c a @ js_split c b"
  by (induction a) (auto split: list.splits simp: append_eq_Cons_conv)

lemma slug_pattern_hyphen: "slug_pattern (a @ hyphen # b) \<longleftrightarrow> slug_pattern a \<and> slug_pattern b"
  by (simp add: slug_pattern_def js_split_sep_append)

lemma slug_pattern_plain: "s \<noteq> [] \<Longrightarrow> \<forall>c \<in> set s. lower_alnum c \<Longrightarrow> slug_pattern s"
proof -
  assume ne: "s \<noteq> []" and s: "\<forall>c \<in> set s. lower_alnum c"
  have "\<not> lower_alnum hyphen" by (simp add: lower_alnum_def lower_alpha_def digit_def code_def)
  with s have "hyphen \<notin> set s" by blast
  with ne s show "slug_pattern s" by (simp add: slug_pattern_def js_split_plain list_all_iff)
qed

lemma digits_not_colon: "\<forall>c \<in> set s. digit c \<Longrightarrow> filter (\<lambda>c. c \<noteq> CHR '':'') s = s"
  by (rule filter_True) (auto simp: digit_def code_def)

lemma variation_stamp_slug: "slug_pattern (variation_stamp (toISOString now))"
proof -
  obtain y m d hh mm ss f where iso: "toISOString now =
      y @ ''-'' @ m @ ''-'' @ d @ ''T'' @ hh @ '':'' @ mm @ '':'' @ ss @ ''.'' @ f @ ''Z''"
    and len: "length y = 4" "length m = 2" "length d = 2" "length hh = 2" "length mm = 2" "length ss = 2"
    and dig: "\<forall>c \<in> set (y @ m @ d @ hh @ mm @ ss @ f). digit c"
    using toISOString_shape [of now] by blast
  have "take 10 (toISOString now) = y @ ''-'' @ m @ ''-'' @ d"
    by (simp add: iso len)
  moreover have "take 8 (drop 11 (toISOString now)) = hh @ '':'' @ mm @ '':'' @ ss"
    by (simp add: iso len)
  ultimately have "variation_stamp (toISOString now) = y @ hyphen # m @ hyphen # d @ hyphen # (hh @ mm @ ss)"
    using dig by (simp add: variation_stamp_def digits_not_colon)
  moreover have "slug_pattern w" if "w \<in> {y, m, d, hh @ mm @ ss}" for w
    by (rule slug_pattern_plain; use that dig len in \<open>auto intro: digit_lower_alnum\<close>)
  ultimately show ?thesis by (simp add: slug_pattern_hyphen)
qed

lemma hex_suffix_slug: "all_chars hex_lower 8 8 s \<Longrightarrow> slug_pattern s"
  by (rule slug_pattern_plain) (auto simp: all_chars_def list_all_iff intro: hex_lower_alnum)

lemma variation_base_slug:
  "variation_base source vt \<noteq> [] \<Longrightarrow>
     slug_pattern (variation_base source vt) \<longleftrightarrow> last (variation_base source vt) \<noteq> hyphen"
  using slugify_shape [of vt] slugify_shape [of "art_id source @ '' variation''"]
  by (auto simp: variation_base_def slug_pattern_iff)

lemma prepareVariation_cases:
  assumes "prepareVariation source title now bytes = Inr (i, m)"
  obtains "variation_base source (variation_title source title) \<noteq> []" "all_chars hex_lower 8 8 (hex_bytes bytes)"
    "i = variation_base source (variation_title source title) @ hyphen # variation_stamp (toISOString now)
           @ hyphen # hex_bytes bytes"
    "art_id m = i" "art_type m = art_type source" "art_sourceId m = Some (art_id source)"
    "art_createdAt m = Some (CreatedText (toISOString now))" "''variation'' \<in> set (art_tags m)"
    "art_title m = variation_title source title" "art_tags m = js_dedup (art_tags source @ [''variation''])"
  using assms by (auto simp: prepareVariation_def Let_def split: if_splits)

lemma variation_writable:
  assumes "prepareVariation source title now bytes = Inr (i, m)"
  shows "canonicalArtifactWritePath (art_type m) i \<noteq> None \<longleftrightarrow>
           last (variation_base source (variation_title source title)) \<noteq> hyphen"
  using assms
  by (rule prepareVariation_cases)
     (simp add: canonicalArtifactWritePath_def slug_pattern_hyphen variation_stamp_slug hex_suffix_slug
        variation_base_slug)

lemma length_variation_stamp: "length (variation_stamp (toISOString now)) \<le> 19"
proof -
  have "length (filter P (take 8 xs)) \<le> 8" for P and xs :: string
    by (rule order.trans [OF length_filter_le]) simp
  from this [of "\<lambda>c. c \<noteq> CHR '':''" "drop 11 (toISOString now)"] show ?thesis
    by (simp add: variation_stamp_def)
qed

section \<open>Properties\<close>

text \<open>A Markdown library for one document, on which the properties are exercised.\<close>

definition demo_metadata :: artifact_metadata where
  "demo_metadata =
     \<lparr>art_id = ''note'', art_title = ''Note'', art_description = '''', art_type = Prompt, art_tags = [''a''],
      art_aliases = [], art_sourceId = None, art_createdAt = None\<rparr>"

definition demo_lib :: md_lib where
  "demo_lib =
     \<lparr>lib_matter = (\<lambda>raw. Some \<lparr>mf_matter = ''id: note'', mf_data = metadata_value demo_metadata,
                                mf_content = ''Hello''\<rparr>),
      lib_stringify = (\<lambda>content v. ''---'' @ content),
      lib_datetime = (\<lambda>s. length s = 24)\<rparr>"

lemma demo_prepared:
  "prepareArtifactWrite demo_lib (metadata_object demo_metadata) ''Hello'' =
     Inr (demo_metadata, ''---Hello'' @ [CHR 0x0A])"
  by code_simp

text \<open>C10. What \<open>prepareArtifactWrite\<close> lets through is at most 1 MiB of UTF-8, matches none of the secret
  patterns, has a valid write path, and can be read back at that path; a refusal is always one
  of the three write errors.\<close>

theorem prepared_write_safe:
  "(\<forall>m t. prepareArtifactWrite lib v b = Inr (m, t) \<longrightarrow>
      utf8_length t \<le> 1048576 \<and> (\<forall>r \<in> set secretPatterns. \<not> rx_test r t)
      \<and> (\<exists>p a. canonicalArtifactWritePath (art_type m) (art_id m) = Some p
              \<and> parseArtifactMarkdown lib t p = Inr a \<and> art_path a = p))
   \<and> (\<forall>e. prepareArtifactWrite lib v b = Inl e \<longrightarrow>
      e \<in> {ArtifactSecretRejectedError, ArtifactWriteValidationError, ArtifactWriteTooLargeError})"
proof (intro conjI allI impI)
  fix m t assume prep: "prepareArtifactWrite lib v b = Inr (m, t)"
  show "utf8_length t \<le> 1048576" "\<forall>r \<in> set secretPatterns. \<not> rx_test r t"
    by (rule prepareArtifactWrite_cases [OF prep]; simp add: MAX_SERIALIZED_ARTIFACT_BYTES_def)+
  show "\<exists>p a. canonicalArtifactWritePath (art_type m) (art_id m) = Some p
              \<and> parseArtifactMarkdown lib t p = Inr a \<and> art_path a = p"
    by (rule prepared_readable [OF prep])
qed (rule prepareArtifactWrite_Inl)

theorem prepared_write_safe_witness:
  "list_all (\<lambda>r. \<not> rx_test r (''---Hello'' @ [CHR 0x0A])) secretPatterns"
  unfolding list_all_iff
  using prepared_write_safe [of demo_lib "metadata_object demo_metadata" "''Hello''"] demo_prepared by blast

text \<open>C39. Under the documented behaviour of the Markdown library for the document at hand (the front
  matter comes back as written, the content up to surrounding space) and of its date test, what is
  written is what is read: the file at the canonical path parses to exactly the prepared metadata
  and the trimmed body.\<close>

theorem prepared_write_round_trip:
  assumes "prepareArtifactWrite lib v b = Inr (m, t)"
    and "\<And>d. lib_datetime lib (toISOString d)" and "\<not> lib_datetime lib []"
    and "stringify_law lib (js_trim b @ [CHR 0x0A]) (metadata_value m)"
    and "canonicalArtifactWritePath (art_type m) (art_id m) = Some p"
  shows "\<exists>a. parseArtifactMarkdown lib t p = Inr a \<and> artifact_metadata.truncate a = m
           \<and> art_body a = js_trim b \<and> art_path a = p"
  using assms by (rule prepared_round_trip)

theorem prepared_write_round_trip_witness:
  "\<exists>a. parseArtifactMarkdown demo_lib (''---Hello'' @ [CHR 0x0A]) ''prompts/note.md'' = Inr a
     \<and> artifact_metadata.truncate a = demo_metadata \<and> art_body a = ''Hello'' \<and> art_path a = ''prompts/note.md''"
proof -
  have iso: "lib_datetime demo_lib (toISOString d)" for d
    by (simp add: demo_lib_def length_toISOString)
  have ne: "\<not> lib_datetime demo_lib []" by (simp add: demo_lib_def)
  have law: "stringify_law demo_lib (js_trim ''Hello'' @ [CHR 0x0A]) (metadata_value demo_metadata)"
    by (simp add: stringify_law_def demo_lib_def, code_simp)
  have path: "canonicalArtifactWritePath (art_type demo_metadata) (art_id demo_metadata) = Some ''prompts/note.md''"
    by code_simp
  have trim: "js_trim ''Hello'' = ''Hello''" by code_simp
  show ?thesis
    by (rule prepared_write_round_trip [OF demo_prepared iso ne law path, unfolded trim])
qed

text \<open>A variation keeps its source's type and records where it came from and when; its identifier
  has at most 109 characters; and it has a write path exactly when the slug of its title does not
  end in a hyphen. \<open>slugify\<close> trims hyphens before it cuts at 80 characters, so a long title can make it
  end in one: the witness is such a title, whose variation is refused.\<close>

theorem variation_identifier:
  assumes "prepareVariation source title now bytes = Inr (i, m)"
  shows "(canonicalArtifactWritePath (art_type m) i \<noteq> None \<longleftrightarrow>
            last (variation_base source (variation_title source title)) \<noteq> hyphen)
    \<and> art_id m = i \<and> length i \<le> 109 \<and> art_type m = art_type source
    \<and> art_sourceId m = Some (art_id source) \<and> art_createdAt m = Some (CreatedText (toISOString now))
    \<and> set (art_tags m) = insert ''variation'' (set (art_tags source))"
proof -
  have base: "length (variation_base source vt) \<le> 80" for vt
    by (simp add: variation_base_def slugify_def)
  show ?thesis
  proof (rule prepareVariation_cases [OF assms])
    assume suffix: "all_chars hex_lower 8 8 (hex_bytes bytes)"
      and i: "i = variation_base source (variation_title source title)
                @ hyphen # variation_stamp (toISOString now) @ hyphen # hex_bytes bytes"
      and m: "art_id m = i" "art_type m = art_type source" "art_sourceId m = Some (art_id source)"
        "art_createdAt m = Some (CreatedText (toISOString now))"
        "art_tags m = js_dedup (art_tags source @ [''variation''])"
    have "length i \<le> 109"
      using base [of "variation_title source title"] length_variation_stamp [of now] suffix
      by (simp add: i all_chars_def)
    with variation_writable [OF assms] m show ?thesis by simp
  qed
qed

definition demo_source :: artifact where
  "demo_source =
     artifact_metadata.extend demo_metadata \<lparr>art_body = ''Hello'', art_excerpt = ''Hello'', art_path = ''prompts/note.md''\<rparr>"

theorem variation_identifier_witness:
  "\<exists>i m. prepareVariation demo_source (Some (replicate 79 (CHR ''a'') @ '' b'')) 0 [1, 2, 3, 4] = Inr (i, m)
     \<and> canonicalArtifactWritePath (art_type m) i = None"
proof -
  have ok: "is_ok (prepareVariation demo_source (Some (replicate 79 (CHR ''a'') @ '' b'')) 0 [1, 2, 3, 4])"
    by code_simp
  have "last (variation_base demo_source (variation_title demo_source (Some (replicate 79 (CHR ''a'') @ '' b'')))) = hyphen"
    by code_simp
  with ok show ?thesis
    using variation_identifier [of demo_source "Some (replicate 79 (CHR ''a'') @ '' b'')" 0 "[1, 2, 3, 4]"]
    unfolding is_ok_iff by fastforce
qed

end
