(* ===== verification/Github_Repository.thy ===== *)
theory Github_Repository
  imports Artifact_Writes Complex_Main
begin

text \<open>
  The class \<^verbatim>\<open>GitHubArtifactRepository\<close> of \<^verbatim>\<open>lib/artifact-repository.ts\<close>: reading the tree and blobs of a
  branch with bounded retries, the catalogue and its diagnosis, and the create, update, delete and
  variation operations.

  The class instance's configuration is the record \<open>gh_env\<close>. It holds what comes from outside: the
  fetch implementation, the credential provider, the collation of \<^verbatim>\<open>localeCompare\<close>, the reading of a
  \<^verbatim>\<open>retry-after\<close> header in milliseconds (\<open>None\<close> when it is not a finite number), UTF-8 decoding of
  bytes, zod's URL test and the Markdown library. Its mutable state is \<open>gh\<close>: the credential
  promises (settled promises are kept, rejected ones too), the waits and the log lines, on top of
  the network. The pool of four blob workers is modelled in \<^verbatim>\<open>Concurrent_Map\<close>; the operations here
  run the mapper in input order, one of its schedules. An array element of the tree response that is
  not an object is read as an entry without fields.
\<close>

section \<open>Definitions\<close>

definition githubMaxAttempts :: nat where
  "githubMaxAttempts = 3"

definition githubMaximumRetryDelayMs :: rat where
  "githubMaximumRetryDelayMs = 5000"

record tree_entry =
  te_path :: "string option"
  te_type :: "string option"
  te_sha :: "string option"
  te_size :: "int option"

record 'w gh_env =
  ge_owner :: string
  ge_repo :: string
  ge_branch :: string
  ge_fetch :: "'w fetcher"
  ge_provider :: "capability \<Rightarrow> 'w \<Rightarrow> (github_error + repository_credential) \<times> 'w"
  ge_retryAfter :: "string \<Rightarrow> rat option"
  ge_utf8 :: "nat list \<Rightarrow> string"
  ge_isUrl :: "string \<Rightarrow> bool"
  ge_locale :: "string \<Rightarrow> string \<Rightarrow> int"
  ge_dateText :: "int \<Rightarrow> string"
  ge_lib :: md_lib

datatype gh_operation = TreeOperation | BlobOperation

datatype gh_log =
    LogTreeLoaded nat nat
  | LogArtifactsLoaded nat
  | LogRetry gh_operation "string option" "nat option" nat
  | LogFailure gh_operation "string option" "nat option" nat

record 'w gh = "'w net" +
  gh_credentials :: "capability \<Rightarrow> (repo_error + string) option"
  gh_sleeps :: "rat list"
  gh_logs :: "gh_log list"

type_synonym ('w, 'a) gh_eff = "('w gh, repo_error, 'a) eff"

definition log_line :: "gh_log \<Rightarrow> ('w, unit) gh_eff" where
  "log_line l = modS (\<lambda>s. s\<lparr>gh_logs := gh_logs s @ [l]\<rparr>)"

definition sleep :: "rat \<Rightarrow> ('w, unit) gh_eff" where
  "sleep ms = modS (\<lambda>s. s\<lparr>gh_sleeps := gh_sleeps s @ [ms]\<rparr>)"

subsection \<open>Credentials\<close>

text \<open>\<^verbatim>\<open>(error as { status?: number }).status\<close> on what the credential promise can reject with.\<close>

fun repo_error_status :: "repo_error \<Rightarrow> nat option" where
  "repo_error_status (ProviderFailure e) = error_status e"
| "repo_error_status (ArtifactRepositoryUnavailableError n) = n"
| "repo_error_status _ = None"

definition contents_allowed :: "capability \<Rightarrow> repository_credential \<Rightarrow> bool" where
  "contents_allowed capability c =
     (if capability = CapRead then cred_contents c \<in> {Some ''read'', Some ''write''}
      else cred_contents c = Some ''write'')"

definition credential_result :: "capability \<Rightarrow> github_error + repository_credential \<Rightarrow> repo_error + string" where
  "credential_result capability r =
     (case r of
        Inl e \<Rightarrow> Inl (ProviderFailure e)
      | Inr c \<Rightarrow>
          if contents_allowed capability c then Inr (cred_token c)
          else if capability = CapWrite then Inl ArtifactWritePermissionError
          else Inl ArtifactRepositoryAccessError)"

definition credential :: "'w gh_env \<Rightarrow> capability \<Rightarrow> ('w, string) gh_eff" where
  "credential env capability s =
     (case gh_credentials s capability of
        Some r \<Rightarrow> (r, s)
      | None \<Rightarrow>
          let (outcome, w) = ge_provider env capability (net_world s);
              r = credential_result capability outcome
          in (r, s\<lparr>net_world := w, gh_credentials := (gh_credentials s)(capability \<mapsto> r)\<rparr>))"

definition unavailable_status :: "nat option \<Rightarrow> bool" where
  "unavailable_status st = (case st of None \<Rightarrow> True | Some n \<Rightarrow> n = 429 \<or> 500 \<le> n)"

definition read_credential_error :: "repo_error \<Rightarrow> repo_error" where
  "read_credential_error e =
     (if e = ArtifactWritePermissionError \<or> e = ArtifactRepositoryAccessError then e
      else let st = repo_error_status e
           in if unavailable_status st then ArtifactRepositoryUnavailableError st
              else if st \<in> {Some 401, Some 403, Some 404} then ArtifactRepositoryAccessError
              else ArtifactRepositoryConfigurationError)"

definition write_credential_error :: "repo_error \<Rightarrow> repo_error" where
  "write_credential_error e =
     (if e = ArtifactWritePermissionError then e
      else let st = repo_error_status e
           in if st \<in> {Some 401, Some 403, Some 404} then ArtifactWriteAuthenticationError
              else if unavailable_status st then ArtifactRepositoryUnavailableError st
              else ArtifactRepositoryConfigurationError)"

definition writeCredential :: "'w gh_env \<Rightarrow> ('w, string) gh_eff" where
  "writeCredential env = handle (credential env CapWrite) (\<lambda>e. throw (write_credential_error e))"

subsection \<open>Requests with retries\<close>

definition githubUrl :: "'w gh_env \<Rightarrow> string \<Rightarrow> string" where
  "githubUrl env pathname =
     githubApiBaseUrl @ ''/repos/'' @ encodeURIComponent (ge_owner env) @ ''/''
     @ encodeURIComponent (ge_repo env) @ pathname"

definition retryDelay :: "'w gh_env \<Rightarrow> string option \<Rightarrow> nat \<Rightarrow> rat" where
  "retryDelay env header attempt =
     (let backoff = min githubMaximumRetryDelayMs (100 * 2 ^ (attempt - 1))
      in if truthy header
         then (case ge_retryAfter env (the header) of
                 Some ms \<Rightarrow> min githubMaximumRetryDelayMs (max 0 ms)
               | None \<Rightarrow> backoff)
         else backoff)"

datatype not_found = NotFoundBranch | NotFoundContent | NotFoundRepository

text \<open>What one attempt decides: the value, an error that ends the loop, or a retry with the status to
  log and the response's \<^verbatim>\<open>retry-after\<close> header.\<close>

datatype verdict = Answer js_value | Stop repo_error | Again "nat option" "string option"

definition stop_error :: "string \<Rightarrow> gh_operation \<Rightarrow> string option \<Rightarrow> not_found \<Rightarrow> nat \<Rightarrow> repo_error" where
  "stop_error url operation filePath notFound status =
     (if status = 401 \<or> status = 403 then ArtifactRepositoryAccessError
      else if status = 404 \<and> rx_test (rlit ''/git/ref/heads/'') url then ArtifactBranchNotFoundError
      else if status = 404 \<and> operation = BlobOperation \<and> truthy filePath
      then ArtifactBlobDiagnosticError BlobUnavailable
      else if status = 404 \<and> notFound = NotFoundBranch then ArtifactBranchNotFoundError
      else if status = 404 \<and> notFound = NotFoundRepository then ArtifactRepositoryNotFoundError
      else ArtifactRepositoryContentError)"

definition attempt_verdict ::
  "string \<Rightarrow> gh_operation \<Rightarrow> string option \<Rightarrow> not_found \<Rightarrow> fetch_outcome \<Rightarrow> verdict" where
  "attempt_verdict url operation filePath notFound outcome =
     (case outcome of
        FetchRejected \<Rightarrow> Again None None
      | FetchResponse r \<Rightarrow>
          if response_ok r
          then (case rs_body r of
                  BodyJson v \<Rightarrow> Answer v
                | BodyStreamError \<Rightarrow> Again None None
                | BodyNotJson \<Rightarrow> Stop ArtifactRepositoryContentError)
          else if rs_status r = 429 \<or> (500 \<le> rs_status r \<and> rs_status r \<le> 599)
          then Again (Some (rs_status r)) (rs_retryAfter r)
          else Stop (stop_error url operation filePath notFound (rs_status r)))"

definition json_request :: "string \<Rightarrow> string \<Rightarrow> http_request" where
  "json_request url token =
     \<lparr>rq_method = ''GET'', rq_url = url,
      rq_headers = [(''accept'', ''application/vnd.github+json''), (''authorization'', ''Bearer '' @ token),
                    (''user-agent'', ''artifact-dev-toolkit''), (''x-github-api-version'', ''2022-11-28'')],
      rq_body = None\<rparr>"

text \<open>The loop over \<^verbatim>\<open>attempt = 1, ..., githubMaxAttempts\<close>; \<open>left\<close> counts the attempts still allowed.\<close>

fun attempt_loop ::
  "'w gh_env \<Rightarrow> string \<Rightarrow> gh_operation \<Rightarrow> string option \<Rightarrow> not_found \<Rightarrow> string \<Rightarrow> nat \<Rightarrow> ('w, js_value) gh_eff" where
  "attempt_loop env url operation filePath notFound token 0 = throw (ArtifactRepositoryUnavailableError None)"
| "attempt_loop env url operation filePath notFound token (Suc left) =
     (let attempt = githubMaxAttempts - left
      in bnd (do_fetch (ge_fetch env) (json_request url token)) (\<lambda>outcome.
           case attempt_verdict url operation filePath notFound outcome of
             Answer v \<Rightarrow> ret v
           | Stop e \<Rightarrow> throw e
           | Again status header \<Rightarrow>
               if attempt < githubMaxAttempts
               then bnd (log_line (LogRetry operation filePath status (attempt + 1))) (\<lambda>_.
                    bnd (sleep (retryDelay env header attempt)) (\<lambda>_.
                    attempt_loop env url operation filePath notFound token left))
               else bnd (log_line (LogFailure operation filePath status attempt)) (\<lambda>_.
                    throw (ArtifactRepositoryUnavailableError status))))"

definition githubJson ::
  "'w gh_env \<Rightarrow> string \<Rightarrow> gh_operation \<Rightarrow> string option \<Rightarrow> capability \<Rightarrow> not_found \<Rightarrow> ('w, js_value) gh_eff" where
  "githubJson env url operation filePath capability notFound =
     bnd (handle (credential env capability) (\<lambda>e. throw (read_credential_error e))) (\<lambda>token.
       attempt_loop env url operation filePath notFound token githubMaxAttempts)"

subsection \<open>Trees and blobs\<close>

fun js_truthy :: "js_value option \<Rightarrow> bool" where
  "js_truthy None = False"
| "js_truthy (Some JNull) = False"
| "js_truthy (Some (JBool b)) = b"
| "js_truthy (Some (JNum n)) = (n \<noteq> 0)"
| "js_truthy (Some (JStr s)) = (s \<noteq> [])"
| "js_truthy (Some _) = True"

definition tree_entry_of :: "js_value \<Rightarrow> tree_entry" where
  "tree_entry_of v =
     \<lparr>te_path = js_str (js_get v ''path''), te_type = js_str (js_get v ''type''),
      te_sha = js_str (js_get v ''sha''), te_size = js_num (js_get v ''size'')\<rparr>"

definition tree_result :: "js_value \<Rightarrow> repo_error + tree_entry list" where
  "tree_result v =
     (case js_get v ''tree'' of
        Some (JArr es) \<Rightarrow>
          if js_truthy (js_get v ''truncated'') then Inl PlainError else Inr (map tree_entry_of es)
      | _ \<Rightarrow> Inl PlainError)"

definition fetchTree :: "'w gh_env \<Rightarrow> capability \<Rightarrow> string option \<Rightarrow> ('w, tree_entry list) gh_eff" where
  "fetchTree env capability revOpt =
     (let revision = (case revOpt of None \<Rightarrow> ge_branch env | Some r \<Rightarrow> r)
      in bnd (githubJson env (githubUrl env (''/git/trees/'' @ encodeURIComponent revision @ ''?recursive=1''))
                TreeOperation None capability
                (if revision = ge_branch env then NotFoundBranch else NotFoundContent))
           (\<lambda>v. ofSum (tree_result v)))"

text \<open>\<^verbatim>\<open>Buffer.from(text, "base64")\<close>: both alphabets, other characters skipped, up to the padding.\<close>

definition b64_any_char :: "char \<Rightarrow> bool" where
  "b64_any_char c = (b64_data_char c \<or> c = CHR ''-'' \<or> c = CHR ''_'')"

definition b64_any_value :: "char \<Rightarrow> nat" where
  "b64_any_value c = (if c = CHR ''-'' then 62 else if c = CHR ''_'' then 63 else b64_value c)"

fun sextets_bytes :: "nat list \<Rightarrow> nat list" where
  "sextets_bytes (a # b # c # d # rest) =
     [a * 4 + b div 16, b mod 16 * 16 + c div 4, c mod 4 * 64 + d] @ sextets_bytes rest"
| "sextets_bytes [a, b, c] = [a * 4 + b div 16, b mod 16 * 16 + c div 4]"
| "sextets_bytes [a, b] = [a * 4 + b div 16]"
| "sextets_bytes [a] = []"
| "sextets_bytes [] = []"

definition buffer_from_base64 :: "string \<Rightarrow> nat list" where
  "buffer_from_base64 s =
     sextets_bytes (map b64_any_value (filter b64_any_char (takeWhile (\<lambda>c. c \<noteq> CHR ''='') s)))"

definition blob_result :: "'w gh_env \<Rightarrow> js_value \<Rightarrow> repo_error + string" where
  "blob_result env v =
     (let too_large = (\<lambda>n. int MAX_SERIALIZED_ARTIFACT_BYTES < n)
      in if (case js_num (js_get v ''size'') of Some n \<Rightarrow> too_large n | None \<Rightarrow> False)
         then Inl (ArtifactBlobDiagnosticError BlobTooLarge)
         else (case (js_str (js_get v ''encoding''), js_str (js_get v ''content'')) of
                 (Some encoding, Some content) \<Rightarrow>
                   if encoding \<noteq> ''base64'' then Inl (ArtifactBlobDiagnosticError UnsupportedEncoding)
                   else let decoded = buffer_from_base64 (filter (\<lambda>c. \<not> js_ws c) content)
                        in if too_large (int (length decoded))
                           then Inl (ArtifactBlobDiagnosticError BlobTooLarge)
                           else Inr (ge_utf8 env decoded)
               | _ \<Rightarrow> Inl (ArtifactBlobDiagnosticError UnsupportedEncoding)))"

definition fetchBlob :: "'w gh_env \<Rightarrow> string \<Rightarrow> string \<Rightarrow> capability \<Rightarrow> ('w, string) gh_eff" where
  "fetchBlob env sha filePath capability =
     bnd (githubJson env (githubUrl env (''/git/blobs/'' @ encodeURIComponent sha)) BlobOperation
            (Some filePath) capability NotFoundContent)
       (\<lambda>v. ofSum (blob_result env v))"

subsection \<open>Reading artifacts\<close>

definition candidate_entry :: "tree_entry \<Rightarrow> bool" where
  "candidate_entry e =
     (te_type e = Some ''blob''
      \<and> (case te_path e of Some p \<Rightarrow> isArtifactMarkdownCandidate p | None \<Rightarrow> False))"

definition parse_failure :: "contract_error \<Rightarrow> repo_error" where
  "parse_failure e =
     (case e of ArtifactMarkdownParseError _ \<Rightarrow> ArtifactRepositoryContentError | _ \<Rightarrow> ContractFailure e)"

definition parse_raw :: "'w gh_env \<Rightarrow> string \<Rightarrow> string \<Rightarrow> repo_error + artifact" where
  "parse_raw env filePath raw =
     (case parseArtifactMarkdown (ge_lib env) raw filePath of Inl e \<Rightarrow> Inl (parse_failure e) | Inr a \<Rightarrow> Inr a)"

definition check_unique :: "artifact list \<Rightarrow> repo_error + unit" where
  "check_unique artifacts =
     (case validateUniqueArtifactIds artifacts of Inl e \<Rightarrow> Inl (ContractFailure e) | Inr u \<Rightarrow> Inr u)"

definition tree_artifact :: "'w gh_env \<Rightarrow> capability \<Rightarrow> tree_entry \<Rightarrow> ('w, artifact) gh_eff" where
  "tree_artifact env capability file =
     (if \<not> truthy (te_path file) \<or> \<not> truthy (te_sha file) then throw ArtifactRepositoryContentError
      else if classifyArtifactPath (the (te_path file)) = None then throw ArtifactRepositoryContentError
      else bnd (fetchBlob env (the (te_sha file)) (the (te_path file)) capability) (\<lambda>raw.
           ofSum (parse_raw env (the (te_path file)) raw)))"

definition artifactsFromTree :: "'w gh_env \<Rightarrow> tree_entry list \<Rightarrow> capability \<Rightarrow> ('w, artifact list) gh_eff" where
  "artifactsFromTree env tree capability =
     bnd (mapE (tree_artifact env capability) (filter candidate_entry tree)) (\<lambda>artifacts.
     bnd (ofSum (check_unique artifacts)) (\<lambda>_. ret artifacts))"

definition by_title :: "'w gh_env \<Rightarrow> artifact \<Rightarrow> artifact \<Rightarrow> int" where
  "by_title env a b = ge_locale env (art_title a) (art_title b)"

definition list_artifact :: "'w gh_env \<Rightarrow> tree_entry \<Rightarrow> ('w, artifact) gh_eff" where
  "list_artifact env file =
     (if \<not> truthy (te_sha file) then throw PlainError
      else bnd (fetchBlob env (the (te_sha file)) (the (te_path file)) CapRead) (\<lambda>raw.
           ofSum (parse_raw env (the (te_path file)) raw)))"

definition list_artifacts :: "'w gh_env \<Rightarrow> ('w, artifact list) gh_eff" where
  "list_artifacts env =
     bnd (fetchTree env CapRead None) (\<lambda>tree.
       let files = js_sort_by (\<lambda>a b. ge_locale env (the (te_path a)) (the (te_path b)))
                     (filter candidate_entry tree)
       in bnd (log_line (LogTreeLoaded (length tree) (length files))) (\<lambda>_.
          if \<not> list_all (\<lambda>file. isSupportedArtifactPath (the (te_path file))) files
          then throw ArtifactRepositoryContentError
          else bnd (mapE (list_artifact env) files) (\<lambda>artifacts.
               bnd (ofSum (check_unique artifacts)) (\<lambda>_.
               bnd (log_line (LogArtifactsLoaded (length artifacts))) (\<lambda>_.
               ret (js_sort_by (by_title env) artifacts))))))"

definition findById :: "'w gh_env \<Rightarrow> string \<Rightarrow> ('w, artifact option) gh_eff" where
  "findById env i = bnd (list_artifacts env) (\<lambda>artifacts. ret (js_find (\<lambda>a. art_id a = i) artifacts))"

definition blob_entry :: "tree_entry list \<Rightarrow> string \<Rightarrow> tree_entry option" where
  "blob_entry tree p = js_find (\<lambda>e. te_type e = Some ''blob'' \<and> te_path e = Some p) tree"

definition entry_sha :: "tree_entry list \<Rightarrow> string \<Rightarrow> string option" where
  "entry_sha tree p = (case blob_entry tree p of None \<Rightarrow> None | Some e \<Rightarrow> te_sha e)"

definition findByIdWithRevision :: "'w gh_env \<Rightarrow> string \<Rightarrow> ('w, (artifact \<times> string) option) gh_eff" where
  "findByIdWithRevision env i =
     bnd (fetchTree env CapRead None) (\<lambda>tree.
     bnd (artifactsFromTree env tree CapRead) (\<lambda>artifacts.
       case js_find (\<lambda>a. art_id a = i) artifacts of
         None \<Rightarrow> ret None
       | Some artifact \<Rightarrow>
           (case entry_sha tree (art_path artifact) of
              None \<Rightarrow> throw ArtifactRepositoryContentError
            | Some sha \<Rightarrow> if js_trim sha = [] then throw ArtifactRepositoryContentError
                          else ret (Some (artifact, sha)))))"

text \<open>\<^verbatim>\<open>/^[a-f0-9]{7,64}$/i\<close>.\<close>

definition revision_pattern :: "string \<Rightarrow> bool" where
  "revision_pattern s = all_chars hex_any 7 64 s"

definition branch_result :: "js_value \<Rightarrow> repo_error + string" where
  "branch_result v =
     (case js_get v ''object'' of
        Some ob \<Rightarrow>
          (case js_str (js_get ob ''sha'') of
             Some sha \<Rightarrow> if revision_pattern sha then Inr sha else Inl ArtifactRepositoryContentError
           | None \<Rightarrow> Inl ArtifactRepositoryContentError)
      | None \<Rightarrow> Inl ArtifactRepositoryContentError)"

definition resolveBranch :: "'w gh_env \<Rightarrow> capability \<Rightarrow> ('w, string) gh_eff" where
  "resolveBranch env capability =
     bnd (githubJson env (githubUrl env (''/git/ref/heads/'' @ encodeURIComponent (ge_branch env)))
            TreeOperation None capability NotFoundContent)
       (\<lambda>v. ofSum (branch_result v))"

definition getBaseRevision :: "'w gh_env \<Rightarrow> ('w, string) gh_eff" where
  "getBaseRevision env = resolveBranch env CapRead"

record repository_catalogue =
  cat_artifacts :: "artifact list"
  cat_revision :: string
  cat_fileShas :: "string \<rightharpoonup> string"

fun file_shas :: "tree_entry list \<Rightarrow> (string \<rightharpoonup> string) \<Rightarrow> artifact list \<Rightarrow> repo_error + (string \<rightharpoonup> string)" where
  "file_shas tree acc [] = Inr acc"
| "file_shas tree acc (a # as) =
     (case entry_sha tree (art_path a) of
        None \<Rightarrow> Inl ArtifactRepositoryContentError
      | Some sha \<Rightarrow> if \<not> revision_pattern sha then Inl ArtifactRepositoryContentError
                    else file_shas tree (acc(art_id a \<mapsto> sha)) as)"

definition loadCatalogue :: "'w gh_env \<Rightarrow> string option \<Rightarrow> ('w, repository_catalogue) gh_eff" where
  "loadCatalogue env revOpt =
     bnd (case revOpt of Some r \<Rightarrow> ret r | None \<Rightarrow> getBaseRevision env) (\<lambda>revision.
     bnd (fetchTree env CapRead (Some revision)) (\<lambda>tree.
     bnd (artifactsFromTree env tree CapRead) (\<lambda>artifacts.
     bnd (ofSum (file_shas tree Map.empty artifacts)) (\<lambda>shas.
     ret \<lparr>cat_artifacts = js_sort_by (by_title env) artifacts, cat_revision = revision,
          cat_fileShas = shas\<rparr>))))"

subsection \<open>Diagnosis\<close>

datatype diagnostic_code =
    InvalidPathCode | UnsupportedEncodingCode | BlobTooLargeCode | MissingBlobShaCode | BlobUnavailableCode
  | InvalidFrontMatterCode | InvalidMetadataCode | InvalidBodyCode | DuplicateIdCode

record diagnostic =
  di_path :: string
  di_code :: diagnostic_code

text \<open>The mapper's result: the entry's index with the artifact or the error.\<close>

type_synonym diagnosed = "nat \<times> (diagnostic + artifact)"

record validation_report =
  rep_revision :: string
  rep_validCount :: int
  rep_invalidCount :: nat
  rep_errors :: "diagnostic list"
  rep_omittedErrorCount :: nat

fun blob_diagnostic_code :: "blob_code \<Rightarrow> diagnostic_code" where
  "blob_diagnostic_code UnsupportedEncoding = UnsupportedEncodingCode"
| "blob_diagnostic_code BlobTooLarge = BlobTooLargeCode"
| "blob_diagnostic_code BlobUnavailable = BlobUnavailableCode"

fun parse_diagnostic_code :: "parse_code \<Rightarrow> diagnostic_code" where
  "parse_diagnostic_code InvalidFrontMatter = InvalidFrontMatterCode"
| "parse_diagnostic_code InvalidMetadata = InvalidMetadataCode"
| "parse_diagnostic_code InvalidBody = InvalidBodyCode"

text \<open>The \<^verbatim>\<open>catch\<close> of the mapper: \<open>None\<close> rethrows.\<close>

definition caught_code :: "repo_error \<Rightarrow> diagnostic_code option" where
  "caught_code e =
     (case e of
        ArtifactRepositoryUnavailableError _ \<Rightarrow> None
      | ArtifactRepositoryAccessError \<Rightarrow> None
      | ArtifactBlobDiagnosticError c \<Rightarrow> Some (blob_diagnostic_code c)
      | ContractFailure (ArtifactMarkdownParseError c) \<Rightarrow> Some (parse_diagnostic_code c)
      | _ \<Rightarrow> Some InvalidMetadataCode)"

definition parse_contract :: "'w gh_env \<Rightarrow> string \<Rightarrow> string \<Rightarrow> repo_error + artifact" where
  "parse_contract env filePath raw =
     (case parseArtifactMarkdown (ge_lib env) raw filePath of Inl e \<Rightarrow> Inl (ContractFailure e) | Inr a \<Rightarrow> Inr a)"

definition diagnose_entry :: "'w gh_env \<Rightarrow> nat \<times> tree_entry \<Rightarrow> ('w, diagnosed) gh_eff" where
  "diagnose_entry env = (\<lambda>(entryIndex, file).
     let safePath = (case te_path file of
                       Some p \<Rightarrow> (if isSupportedArtifactPath p then p else ''[unsafe repository path]'')
                     | None \<Rightarrow> ''[unsafe repository path]'');
         failed = (\<lambda>c. ret (entryIndex, Inl \<lparr>di_path = safePath, di_code = c\<rparr>))
     in if prefix ''['' safePath then failed InvalidPathCode
        else if \<not> (case te_sha file of Some sha \<Rightarrow> revision_pattern sha | None \<Rightarrow> False)
        then failed MissingBlobShaCode
        else if (case te_size file of Some n \<Rightarrow> int MAX_SERIALIZED_ARTIFACT_BYTES < n | None \<Rightarrow> False)
        then failed BlobTooLargeCode
        else handle (bnd (fetchBlob env (the (te_sha file)) safePath CapRead) (\<lambda>raw.
                     bnd (ofSum (parse_contract env safePath raw)) (\<lambda>artifact.
                     ret (entryIndex, Inr artifact))))
               (\<lambda>e. case caught_code e of None \<Rightarrow> throw e | Some c \<Rightarrow> failed c))"

definition valid_results :: "diagnosed list \<Rightarrow> (nat \<times> artifact) list" where
  "valid_results results = concat (map (\<lambda>(k, r). case r of Inl _ \<Rightarrow> [] | Inr a \<Rightarrow> [(k, a)]) results)"

definition error_results :: "diagnosed list \<Rightarrow> (nat \<times> diagnostic) list" where
  "error_results results = concat (map (\<lambda>(k, r). case r of Inl d \<Rightarrow> [(k, d)] | Inr _ \<Rightarrow> []) results)"

text \<open>The groups of the map \<^verbatim>\<open>byId\<close>, in the order its keys were first set, that have more than one
  member.\<close>

definition duplicate_groups :: "(nat \<times> artifact) list \<Rightarrow> (nat \<times> artifact) list list" where
  "duplicate_groups valid =
     filter (\<lambda>g. 1 < length g)
       (map (\<lambda>i. filter (\<lambda>(k, a). art_id a = i) valid) (js_dedup (map (art_id \<circ> snd) valid)))"

definition duplicate_diagnostics :: "(nat \<times> artifact) list \<Rightarrow> (nat \<times> diagnostic) list" where
  "duplicate_diagnostics valid =
     map (\<lambda>(k, a). (k, \<lparr>di_path = art_path a, di_code = DuplicateIdCode\<rparr>)) (concat (duplicate_groups valid))"

definition validation_report_of :: "string \<Rightarrow> diagnosed list \<Rightarrow> validation_report" where
  "validation_report_of revision results =
     (let valid = valid_results results;
          diagnostics = error_results results @ duplicate_diagnostics valid;
          invalidEntries = js_dedup (map fst diagnostics);
          errors = map snd (take 50 diagnostics)
      in \<lparr>rep_revision = revision,
          rep_validCount = int (length valid)
                             - int (length (filter (\<lambda>(k, a). k \<in> set invalidEntries) valid)),
          rep_invalidCount = length invalidEntries,
          rep_errors = errors,
          rep_omittedErrorCount = length diagnostics - length errors\<rparr>)"

definition diagnoseCatalogue :: "'w gh_env \<Rightarrow> string option \<Rightarrow> ('w, validation_report) gh_eff" where
  "diagnoseCatalogue env revOpt =
     bnd (case revOpt of Some r \<Rightarrow> ret r | None \<Rightarrow> getBaseRevision env) (\<lambda>revision.
     bnd (fetchTree env CapRead (Some revision)) (\<lambda>tree.
     bnd (mapE (diagnose_entry env) (enumerate 0 (filter candidate_entry tree))) (\<lambda>results.
     ret (validation_report_of revision results))))"

subsection \<open>Writing\<close>

text \<open>\<^verbatim>\<open>/^[A-Za-z0-9-]+$/\<close>.\<close>

definition actor_pattern :: "string \<Rightarrow> bool" where
  "actor_pattern s = (s \<noteq> [] \<and> list_all (\<lambda>c. alnum c \<or> c = CHR ''-'') s)"

definition contents_url :: "'w gh_env \<Rightarrow> string \<Rightarrow> string" where
  "contents_url env filePath =
     githubUrl env (''/contents/'' @ js_join ''/'' (map encodeURIComponent (js_split slash filePath)))"

definition write_headers :: "string \<Rightarrow> (string \<times> string) list" where
  "write_headers token =
     [(''accept'', ''application/vnd.github+json''), (''authorization'', ''Bearer '' @ token),
      (''content-type'', ''application/json''), (''user-agent'', ''artifact-dev-toolkit''),
      (''x-github-api-version'', ''2022-11-28'')]"

record write_result =
  wr_artifactId :: string
  wr_path :: string
  wr_fileSha :: string
  wr_commitSha :: string
  wr_commitUrl :: string
  wr_repositoryRevision :: string

record delete_result =
  dr_artifactId :: string
  dr_path :: string
  dr_commitSha :: string
  dr_commitUrl :: string
  dr_repositoryRevision :: string

definition put_request :: "'w gh_env \<Rightarrow> string \<Rightarrow> string \<Rightarrow> string \<Rightarrow> string \<Rightarrow> string option \<Rightarrow> http_request" where
  "put_request env token filePath markdown message sha =
     \<lparr>rq_method = ''PUT'', rq_url = contents_url env filePath, rq_headers = write_headers token,
      rq_body = Some (JObj ([(''message'', JStr message), (''content'', JStr (btoa (ascii_bytes markdown))),
                             (''branch'', JStr (ge_branch env))]
                            @ (if truthy sha then [(''sha'', JStr (the sha))] else [])))\<rparr>"

definition z_min1 :: "js_value option \<Rightarrow> string option" where
  "z_min1 v = (case js_str v of Some s \<Rightarrow> (if s = [] then None else Some s) | None \<Rightarrow> None)"

definition z_url :: "'w gh_env \<Rightarrow> js_value option \<Rightarrow> string option" where
  "z_url env v = (case js_str v of Some s \<Rightarrow> (if ge_isUrl env s then Some s else None) | None \<Rightarrow> None)"

text \<open>\<^verbatim>\<open>z.object({ sha: z.string().min(1), html_url: z.string().url() })\<close> under the key \<^verbatim>\<open>commit\<close>.\<close>

definition commit_schema :: "'w gh_env \<Rightarrow> js_value \<Rightarrow> (string \<times> string) option" where
  "commit_schema env v =
     (case js_get v ''commit'' of
        None \<Rightarrow> None
      | Some c \<Rightarrow> (case (z_min1 (js_get c ''sha''), z_url env (js_get c ''html_url'')) of
                    (Some sha, Some url) \<Rightarrow> Some (sha, url) | _ \<Rightarrow> None))"

definition content_schema :: "js_value \<Rightarrow> (string \<times> string) option" where
  "content_schema v =
     (case js_get v ''content'' of
        None \<Rightarrow> None
      | Some c \<Rightarrow> (case (js_str (js_get c ''path''), z_min1 (js_get c ''sha'')) of
                    (Some p, Some sha) \<Rightarrow> Some (p, sha) | _ \<Rightarrow> None))"

definition put_failure :: "string option \<Rightarrow> nat \<Rightarrow> repo_error" where
  "put_failure sha status =
     (if status = 401 then ArtifactWriteAuthenticationError
      else if status = 403 then ArtifactWritePermissionError
      else if status = 409 \<or> status = 422
      then (if truthy sha then ArtifactWriteConflictError else ArtifactDuplicateError)
      else if status = 429 \<or> 500 \<le> status then ArtifactRepositoryUnavailableError (Some status)
      else ArtifactWriteResponseError)"

definition put_response ::
  "'w gh_env \<Rightarrow> string \<Rightarrow> string \<Rightarrow> string option \<Rightarrow> fetch_outcome \<Rightarrow> repo_error + write_result" where
  "put_response env filePath artifactId sha outcome =
     (case outcome of
        FetchRejected \<Rightarrow> Inl (ArtifactRepositoryUnavailableError None)
      | FetchResponse r \<Rightarrow>
          if \<not> response_ok r then Inl (put_failure sha (rs_status r))
          else (case rs_body r of
                  BodyJson v \<Rightarrow>
                    (case (content_schema v, commit_schema env v) of
                       (Some (p, fileSha), Some (commitSha, url)) \<Rightarrow>
                         if p \<noteq> filePath then Inl ArtifactWriteResponseError
                         else Inr \<lparr>wr_artifactId = artifactId, wr_path = filePath, wr_fileSha = fileSha,
                                   wr_commitSha = commitSha, wr_commitUrl = url,
                                   wr_repositoryRevision = commitSha\<rparr>
                     | _ \<Rightarrow> Inl ArtifactWriteResponseError)
                | _ \<Rightarrow> Inl ArtifactWriteResponseError))"

definition writeContents ::
  "'w gh_env \<Rightarrow> string \<Rightarrow> string \<Rightarrow> string \<Rightarrow> string \<Rightarrow> string option \<Rightarrow> ('w, write_result) gh_eff" where
  "writeContents env filePath artifactId markdown message sha =
     bnd (writeCredential env) (\<lambda>token.
     bnd (do_fetch (ge_fetch env) (put_request env token filePath markdown message sha)) (\<lambda>outcome.
     ofSum (put_response env filePath artifactId sha outcome)))"

definition artifactPath :: "artifact_metadata \<Rightarrow> repo_error + string" where
  "artifactPath metadata =
     (case canonicalArtifactWritePath (art_type metadata) (art_id metadata) of
        None \<Rightarrow> Inl ArtifactWriteValidationError | Some p \<Rightarrow> Inr p)"

definition createValidatedArtifactAtPath ::
  "'w gh_env \<Rightarrow> artifact_metadata \<times> string \<Rightarrow> string \<Rightarrow> string \<Rightarrow> ('w, write_result) gh_eff" where
  "createValidatedArtifactAtPath env prepared path message =
     (case prepared of (metadata, markdown) \<Rightarrow>
        bnd (guardE (canonicalArtifactWritePath (art_type metadata) (art_id metadata) = Some path)
               ArtifactWriteValidationError) (\<lambda>_.
        bnd (fetchTree env CapWrite None) (\<lambda>tree.
        bnd (guardE (\<not> list_ex (\<lambda>e. te_type e = Some ''blob'' \<and> te_path e = Some path) tree)
               ArtifactDuplicateError) (\<lambda>_.
        bnd (artifactsFromTree env tree CapWrite) (\<lambda>artifacts.
        bnd (guardE (\<not> list_ex (\<lambda>a. art_id a = art_id metadata) artifacts) ArtifactDuplicateError) (\<lambda>_.
        writeContents env path (art_id metadata) markdown message None))))))"

definition requested_by :: "string \<Rightarrow> string" where
  "requested_by login = '' (requested by @'' @ login @ '')''"

definition create_artifact :: "'w gh_env \<Rightarrow> js_value \<Rightarrow> string \<Rightarrow> string \<Rightarrow> ('w, write_result) gh_eff" where
  "create_artifact env metadata body actorLogin =
     bnd (guardE (actor_pattern actorLogin) ArtifactWriteValidationError) (\<lambda>_.
     bnd (ofSum (prepareArtifactWrite (ge_lib env) metadata body)) (\<lambda>prepared.
     bnd (ofSum (artifactPath (fst prepared))) (\<lambda>path.
     createValidatedArtifactAtPath env prepared path
       (''Create artifact '' @ art_id (fst prepared) @ requested_by actorLogin))))"

record update_input =
  ui_id :: string
  ui_metadata :: js_value
  ui_body :: string
  ui_currentFileSha :: string
  ui_actorLogin :: string

definition update_artifact :: "'w gh_env \<Rightarrow> update_input \<Rightarrow> ('w, write_result) gh_eff" where
  "update_artifact env input =
     bnd (guardE (actor_pattern (ui_actorLogin input)) ArtifactWriteValidationError) (\<lambda>_.
     bnd (ofSum (prepareArtifactWrite (ge_lib env) (ui_metadata input) (ui_body input))) (\<lambda>(metadata, markdown).
     bnd (guardE (art_id metadata = ui_id input \<and> js_trim (ui_currentFileSha input) \<noteq> [])
            ArtifactWriteValidationError) (\<lambda>_.
     bnd (fetchTree env CapWrite None) (\<lambda>tree.
     bnd (artifactsFromTree env tree CapWrite) (\<lambda>artifacts.
       case js_find (\<lambda>a. art_id a = ui_id input) artifacts of
         None \<Rightarrow> throw ArtifactNotFoundError
       | Some artifact \<Rightarrow>
           bnd (guardE (truthy (entry_sha tree (art_path artifact))) ArtifactWriteResponseError) (\<lambda>_.
           bnd (guardE (entry_sha tree (art_path artifact) = Some (ui_currentFileSha input))
                  ArtifactWriteConflictError) (\<lambda>_.
           bnd (guardE (isSupportedArtifactMutationPath (art_path artifact)) ArtifactRepositoryContentError) (\<lambda>_.
           bnd (ofSum (validateImmutableArtifactMetadata (ge_lib env) (ge_dateText env) artifact
                         (metadata_object metadata))) (\<lambda>_.
           writeContents env (art_path artifact) (art_id metadata) markdown
             (''Update artifact '' @ art_id metadata @ requested_by (ui_actorLogin input))
             (Some (ui_currentFileSha input)))))))))))"

record delete_input =
  dl_id :: string
  dl_currentFileSha :: string
  dl_actorLogin :: string

definition resolveDeletion :: "'w gh_env \<Rightarrow> delete_input \<Rightarrow> capability \<Rightarrow> ('w, artifact) gh_eff" where
  "resolveDeletion env input capability =
     bnd (guardE (actor_pattern (dl_actorLogin input) \<and> js_trim (dl_currentFileSha input) \<noteq> [])
            ArtifactWriteValidationError) (\<lambda>_.
     bnd (fetchTree env capability None) (\<lambda>tree.
     bnd (artifactsFromTree env tree capability) (\<lambda>artifacts.
       case js_find (\<lambda>a. art_id a = dl_id input) artifacts of
         None \<Rightarrow> throw ArtifactNotFoundError
       | Some artifact \<Rightarrow>
           bnd (guardE (isSupportedArtifactMutationPath (art_path artifact)) ArtifactRepositoryContentError) (\<lambda>_.
           bnd (guardE (truthy (entry_sha tree (art_path artifact))) ArtifactRepositoryContentError) (\<lambda>_.
           bnd (guardE (entry_sha tree (art_path artifact) = Some (dl_currentFileSha input))
                  ArtifactWriteConflictError) (\<lambda>_.
           ret artifact))))))"

definition delete_request :: "'w gh_env \<Rightarrow> string \<Rightarrow> string \<Rightarrow> delete_input \<Rightarrow> http_request" where
  "delete_request env token filePath input =
     \<lparr>rq_method = ''DELETE'', rq_url = contents_url env filePath, rq_headers = write_headers token,
      rq_body = Some (JObj [(''message'', JStr (''Delete artifact '' @ dl_id input @ requested_by (dl_actorLogin input))),
                            (''sha'', JStr (dl_currentFileSha input)), (''branch'', JStr (ge_branch env))])\<rparr>"

definition delete_failure :: "nat \<Rightarrow> repo_error" where
  "delete_failure status =
     (if status = 401 then ArtifactWriteAuthenticationError
      else if status = 403 then ArtifactWritePermissionError
      else if status = 404 \<or> status = 409 \<or> status = 422 then ArtifactWriteConflictError
      else if status = 429 \<or> 500 \<le> status then ArtifactRepositoryUnavailableError (Some status)
      else ArtifactWriteResponseError)"

definition delete_response ::
  "'w gh_env \<Rightarrow> string \<Rightarrow> delete_input \<Rightarrow> fetch_outcome \<Rightarrow> repo_error + delete_result" where
  "delete_response env filePath input outcome =
     (case outcome of
        FetchRejected \<Rightarrow> Inl (ArtifactRepositoryUnavailableError None)
      | FetchResponse r \<Rightarrow>
          if \<not> response_ok r then Inl (delete_failure (rs_status r))
          else (case rs_body r of
                  BodyJson v \<Rightarrow>
                    (case (js_get v ''content'', commit_schema env v) of
                       (Some JNull, Some (commitSha, url)) \<Rightarrow>
                         if \<not> prefix ''https://github.com/'' url then Inl ArtifactWriteResponseError
                         else Inr \<lparr>dr_artifactId = dl_id input, dr_path = filePath, dr_commitSha = commitSha,
                                   dr_commitUrl = url, dr_repositoryRevision = commitSha\<rparr>
                     | _ \<Rightarrow> Inl ArtifactWriteResponseError)
                | _ \<Rightarrow> Inl ArtifactWriteResponseError))"

definition deleteContents :: "'w gh_env \<Rightarrow> string \<Rightarrow> delete_input \<Rightarrow> ('w, delete_result) gh_eff" where
  "deleteContents env filePath input =
     bnd (writeCredential env) (\<lambda>token.
     bnd (do_fetch (ge_fetch env) (delete_request env token filePath input)) (\<lambda>outcome.
     ofSum (delete_response env filePath input outcome)))"

definition delete_artifact :: "'w gh_env \<Rightarrow> delete_input \<Rightarrow> ('w, delete_result) gh_eff" where
  "delete_artifact env input =
     bnd (resolveDeletion env input CapWrite) (\<lambda>artifact. deleteContents env (art_path artifact) input)"

text \<open>The clock and the random bytes of a variation are arguments.\<close>

definition createVariation ::
  "'w gh_env \<Rightarrow> artifact \<Rightarrow> string \<Rightarrow> string option \<Rightarrow> string \<Rightarrow> int \<Rightarrow> nat list \<Rightarrow> ('w, string \<times> write_result) gh_eff" where
  "createVariation env source body title actorLogin now randomBytes =
     bnd (guardE (actor_pattern actorLogin) ArtifactWriteValidationError) (\<lambda>_.
     bnd (ofSum (prepareVariation source title now randomBytes)) (\<lambda>(i, metadata).
       case canonicalArtifactWritePath (art_type metadata) i of
         None \<Rightarrow> throw ArtifactWriteValidationError
       | Some path \<Rightarrow>
           bnd (ofSum (prepareArtifactWrite (ge_lib env) (metadata_object metadata) (js_trim body))) (\<lambda>prepared.
           bnd (createValidatedArtifactAtPath env prepared path
                  (''Create variation '' @ i @ '' from '' @ art_id source @ requested_by actorLogin)) (\<lambda>result.
           ret (i, result)))))"

end
