(* ===== verification/Effect_Logic.thy ===== *)
theory Effect_Logic
  imports Adt_Prelude
begin

text \<open>
  Reasoning about effectful operations.

  \<^item> \<open>always R m\<close>: every run of \<open>m\<close>, whether it returns or throws, relates the state before with the state after.
    The locale \<open>preorder_history\<close> proves once that the combinators respect a reflexive and transitive relation.
  \<^item> \<open>triple P m Q E\<close>: from a state with \<open>P\<close>, a run that returns \<open>x\<close> ends with \<open>Q x\<close> and a run that throws \<open>e\<close>
    ends with \<open>E e\<close>. The rules \<open>triple_rules\<close> follow the combinators; a loop takes an invariant that speaks about
    the elements still to be visited.
\<close>

named_theorems triple_rules "rules of the triples, by combinator"

section \<open>Histories\<close>

definition always :: "('s \<Rightarrow> 's \<Rightarrow> bool) \<Rightarrow> ('s, 'e, 'a) eff \<Rightarrow> bool" where
  "always R m \<longleftrightarrow> (\<forall>s r t. m s = (r, t) \<longrightarrow> R s t)"

lemma alwaysD: "always R m \<Longrightarrow> m s = (r, t) \<Longrightarrow> R s t"
  by (auto simp: always_def)

locale preorder_history =
  fixes R :: "'s \<Rightarrow> 's \<Rightarrow> bool"
  assumes refl: "R s s"
    and trans: "R s t \<Longrightarrow> R t u \<Longrightarrow> R s u"
begin

lemma always_pure [simp, intro]:
  "always R (ret x)" "always R (throw e)" "always R (ofSum v)" "always R (guardE b e)"
  by (auto simp: always_def refl)

lemma always_bnd [intro]:
  assumes "always R m" and "\<And>x. always R (f x)"
  shows "always R (bnd m f)"
  unfolding always_def
proof (intro allI impI)
  fix s r t
  assume "bnd m f s = (r, t)"
  then consider e where "m s = (Inl e, t)" | x u where "m s = (Inr x, u)" "f x u = (r, t)"
    unfolding bnd_eq by blast
  then show "R s t"
  proof cases
    case 1
    with assms(1) show ?thesis by (rule alwaysD)
  next
    case 2
    with assms show ?thesis by (blast intro: trans dest: alwaysD)
  qed
qed

lemma always_handle [intro]:
  assumes "always R m" and "\<And>e. always R (h e)"
  shows "always R (handle m h)"
  unfolding always_def
proof (intro allI impI)
  fix s r t
  assume run: "handle m h s = (r, t)"
  obtain r1 u where m: "m s = (r1, u)" by (cases "m s")
  have su: "R s u" by (rule alwaysD [OF assms(1) m])
  show "R s t"
  proof (cases r1)
    case (Inl e)
    with run m have "h e u = (r, t)" by (simp add: handle_def)
    then have "R u t" by (rule alwaysD [OF assms(2)])
    with su show ?thesis by (rule trans)
  next
    case (Inr x)
    with run m su show ?thesis by (simp add: handle_def)
  qed
qed

lemma always_mapE [intro]: "(\<And>x. always R (f x)) \<Longrightarrow> always R (mapE f xs)"
  by (induction xs) auto

lemma always_finallyE [intro]:
  assumes "always R m" and "always R f"
  shows "always R (finallyE m f)"
  unfolding always_def
proof (intro allI impI)
  fix s r t
  assume run: "finallyE m f s = (r, t)"
  obtain r1 u where m: "m s = (r1, u)" by (cases "m s")
  obtain r2 v where f: "f u = (r2, v)" by (cases "f u")
  from run m f have "t = v" by (auto simp: finallyE_def split: sum.splits)
  with alwaysD [OF assms(1) m] alwaysD [OF assms(2) f] show "R s t" by (auto intro: trans)
qed

lemma always_getS [simp, intro]: "always R (getS f)"
  by (auto simp: always_def refl)

lemma always_modS: "(\<And>s. R s (f s)) \<Longrightarrow> always R (modS f)"
  by (auto simp: always_def)

end

section \<open>Triples\<close>

definition triple ::
  "('s \<Rightarrow> bool) \<Rightarrow> ('s, 'e, 'a) eff \<Rightarrow> ('a \<Rightarrow> 's \<Rightarrow> bool) \<Rightarrow> ('e \<Rightarrow> 's \<Rightarrow> bool) \<Rightarrow> bool" where
  "triple P m Q E \<longleftrightarrow> (\<forall>s. P s \<longrightarrow> (case m s of (Inl e, t) \<Rightarrow> E e t | (Inr x, t) \<Rightarrow> Q x t))"

lemma tripleI:
  "(\<And>s x t. P s \<Longrightarrow> m s = (Inr x, t) \<Longrightarrow> Q x t) \<Longrightarrow> (\<And>s e t. P s \<Longrightarrow> m s = (Inl e, t) \<Longrightarrow> E e t) \<Longrightarrow> triple P m Q E"
  by (auto simp: triple_def split: prod.splits sum.splits)

lemma tripleD:
  assumes "triple P m Q E" and "P s"
  shows "m s = (Inr x, t) \<Longrightarrow> Q x t" and "m s = (Inl e, t) \<Longrightarrow> E e t"
  using assms by (auto simp: triple_def split: prod.splits sum.splits)

lemma triple_conseq:
  assumes "triple P' m Q' E'" and "\<And>s. P s \<Longrightarrow> P' s" and "\<And>x s. Q' x s \<Longrightarrow> Q x s" and "\<And>e s. E' e s \<Longrightarrow> E e s"
  shows "triple P m Q E"
  using assms by (fastforce simp: triple_def split: prod.splits sum.splits)

lemma triple_ret [triple_rules]: "(\<And>s. P s \<Longrightarrow> Q x s) \<Longrightarrow> triple P (ret x) Q E"
  by (auto simp: triple_def ret_def)

lemma triple_throw [triple_rules]: "(\<And>s. P s \<Longrightarrow> E e s) \<Longrightarrow> triple P (throw e) Q E"
  by (auto simp: triple_def throw_def)

lemma triple_guardE [triple_rules]:
  "(\<And>s. P s \<Longrightarrow> b \<Longrightarrow> Q () s) \<Longrightarrow> (\<And>s. P s \<Longrightarrow> \<not> b \<Longrightarrow> E e s) \<Longrightarrow> triple P (guardE b e) Q E"
  by (auto simp: triple_def guardE_def)

lemma triple_getS [triple_rules]: "(\<And>s. P s \<Longrightarrow> Q (f s) s) \<Longrightarrow> triple P (getS f) Q E"
  by (auto simp: triple_def getS_def)

lemma triple_modS [triple_rules]: "(\<And>s. P s \<Longrightarrow> Q () (f s)) \<Longrightarrow> triple P (modS f) Q E"
  by (auto simp: triple_def modS_def)

lemma triple_ofSum [triple_rules]:
  "(\<And>s x. P s \<Longrightarrow> r = Inr x \<Longrightarrow> Q x s) \<Longrightarrow> (\<And>s e. P s \<Longrightarrow> r = Inl e \<Longrightarrow> E e s) \<Longrightarrow> triple P (ofSum r) Q E"
  by (cases r) (auto simp: triple_def ofSum_def)

lemma triple_bnd:
  assumes "triple P m R E" and "\<And>x. triple (R x) (f x) Q E"
  shows "triple P (bnd m f) Q E"
  using assms by (fastforce simp: triple_def bnd_def split: prod.splits sum.splits)

lemma triple_handle:
  assumes "triple P m Q R" and "\<And>e. triple (R e) (h e) Q E"
  shows "triple P (handle m h) Q E"
  using assms by (fastforce simp: triple_def handle_def split: prod.splits sum.splits)

lemma triple_finallyE:
  assumes "triple P m Q1 E1" and "\<And>x. triple (Q1 x) f (\<lambda>_. Q x) E" and "\<And>e. triple (E1 e) f (\<lambda>_. E e) E"
  shows "triple P (finallyE m f) Q E"
  using assms by (fastforce simp: triple_def finallyE_def split: prod.splits sum.splits)

lemma triple_if [triple_rules]:
  "(b \<Longrightarrow> triple P m Q E) \<Longrightarrow> (\<not> b \<Longrightarrow> triple P n Q E) \<Longrightarrow> triple P (if b then m else n) Q E"
  by simp

lemma triple_pre: "(\<And>s. P s \<Longrightarrow> b) \<Longrightarrow> (b \<Longrightarrow> triple P m Q E) \<Longrightarrow> triple P m Q E"
  by (auto simp: triple_def)

lemma triple_pure: "(b \<Longrightarrow> triple P m Q E) \<Longrightarrow> triple (\<lambda>s. P s \<and> b) m Q E"
  by (auto simp: triple_def)

text \<open>One step of a sequence, whose result has a property that the rest may use.\<close>

lemma triple_step:
  assumes "triple P m (\<lambda>x v. P' v \<and> q x) (\<lambda>_. E')" and "\<And>e v. E' v \<Longrightarrow> E e v" and "\<And>x. q x \<Longrightarrow> triple P' (f x) Q E"
  shows "triple P (bnd m f) Q E"
proof (rule triple_bnd)
  show "triple P m (\<lambda>x v. P' v \<and> q x) E" by (rule triple_conseq [OF assms(1)]) (simp_all add: assms(2))
  show "triple (\<lambda>v. P' v \<and> q x) (f x) Q E" for x by (rule triple_pure) (rule assms(3))
qed

text \<open>A loop over an array: the invariant of the elements still to come.\<close>

lemma triple_mapE:
  assumes "\<And>x xs. triple (I (x # xs)) (f x) (\<lambda>_. I xs) E"
  shows "triple (I xs) (mapE f xs) (\<lambda>_. I []) E"
proof (induction xs)
  case Nil
  show ?case by (simp add: triple_ret)
next
  case (Cons x xs)
  show ?case
    by (auto intro!: triple_bnd [OF assms] triple_bnd [OF Cons.IH] triple_ret)
qed

text \<open>A history gives a triple.\<close>

lemma triple_always:
  assumes "always R m" and "\<And>s t. P s \<Longrightarrow> R s t \<Longrightarrow> P' t"
  shows "triple P m (\<lambda>_. P') (\<lambda>_. P')"
  using assms by (fastforce simp: triple_def always_def split: prod.splits sum.splits)

lemma triple_conj:
  assumes "triple P m Q E" and "triple P' m Q' E'"
  shows "triple (\<lambda>s. P s \<and> P' s) m (\<lambda>x s. Q x s \<and> Q' x s) (\<lambda>e s. E e s \<and> E' e s)"
  using assms by (fastforce simp: triple_def split: prod.splits sum.splits)

end
