(* ===== verification/Github_Requests.thy ===== *)
theory Github_Requests
  imports Github_Repository Effect_Logic
begin

text \<open>
  What the GitHub repository client sends, waits and remembers.

  A locale \<open>history\<close> extends \<open>preorder_history\<close>; it fixes a reflexive and transitive relation between the state before and after an
  operation and proves once that every combinator and every reading operation respects it, given
  that the primitive steps do. Its interpretations: only GET requests go out (\<open>reads\<close>), every wait
  lies between zero and five seconds (\<open>waits\<close>), and settled credentials stay settled
  (\<open>creds\<close>). On top of them, \<open>one_write\<close> describes an operation that ends with at most
  one write request, and the facts that hold when it is sent.
\<close>

section \<open>Histories\<close>

text \<open>The client's reading operations respect a history that its primitive steps respect.\<close>

locale history = preorder_history R for R :: "'w gh \<Rightarrow> 'w gh \<Rightarrow> bool" +
  fixes env :: "'w gh_env"
  assumes fetching: "rq_method q = ''GET'' \<Longrightarrow> always R (do_fetch (ge_fetch env) q :: ('w, fetch_outcome) gh_eff)"
    and logging: "always R (log_line l)"
    and sleeping: "0 \<le> d \<Longrightarrow> d \<le> 5000 \<Longrightarrow> always R (sleep d)"
    and crediting: "always R (credential env c)"
begin

lemma retryDelay_bounds: "0 \<le> retryDelay env h n" "retryDelay env h n \<le> 5000"
  by (auto simp: retryDelay_def githubMaximumRetryDelayMs_def Let_def split: option.splits)

lemma always_verdict:
  assumes "\<And>st h. always R (g st h)"
  shows "always R (case v of Answer x \<Rightarrow> ret x | Stop e \<Rightarrow> throw e | Again st h \<Rightarrow> g st h)"
  using assms by (cases v) auto

lemma always_attempt_loop: "always R (attempt_loop env url op fp nf token n)"
proof (induction n)
  case (Suc n)
  have "always R (do_fetch (ge_fetch env) (json_request url token) :: ('w, fetch_outcome) gh_eff)"
    by (rule fetching) (simp add: json_request_def)
  moreover have "always R (sleep (retryDelay env h k))" for h k
    by (rule sleeping) (rule retryDelay_bounds)+
  ultimately show ?case
    unfolding attempt_loop.simps Let_def
    by (intro always_bnd always_verdict) (auto intro!: always_bnd logging Suc)
qed auto

lemma always_githubJson: "always R (githubJson env url op fp c nf)"
  unfolding githubJson_def by (intro always_bnd always_handle crediting always_attempt_loop) auto

lemma always_fetchTree: "always R (fetchTree env c rv)"
  unfolding fetchTree_def Let_def by (intro always_bnd always_githubJson) auto

lemma always_fetchBlob: "always R (fetchBlob env sha fp c)"
  unfolding fetchBlob_def by (intro always_bnd always_githubJson) auto

lemma always_artifactsFromTree: "always R (artifactsFromTree env tree c)"
  unfolding artifactsFromTree_def tree_artifact_def
  by (auto intro!: always_bnd always_mapE always_fetchBlob)

lemma always_list_artifacts: "always R (list_artifacts env)"
  unfolding list_artifacts_def list_artifact_def Let_def
  by (auto intro!: always_bnd always_mapE always_fetchBlob always_fetchTree logging)

lemma always_findById: "always R (findById env i)"
  unfolding findById_def by (auto intro!: always_bnd always_list_artifacts)

lemma always_option:
  "always R m \<Longrightarrow> (\<And>x. always R (f x)) \<Longrightarrow> always R (case v of None \<Rightarrow> m | Some x \<Rightarrow> f x)"
  by (cases v) auto

lemma always_findByIdWithRevision: "always R (findByIdWithRevision env i)"
  unfolding findByIdWithRevision_def
  by (auto intro!: always_bnd always_fetchTree always_artifactsFromTree always_option)

lemma always_getBaseRevision: "always R (getBaseRevision env)"
  unfolding getBaseRevision_def resolveBranch_def by (auto intro!: always_bnd always_githubJson)

lemma always_loadCatalogue: "always R (loadCatalogue env rv)"
  unfolding loadCatalogue_def
  by (auto intro!: always_bnd always_getBaseRevision always_fetchTree always_artifactsFromTree always_option)

lemma always_diagnoseCatalogue: "always R (diagnoseCatalogue env rv)"
  unfolding diagnoseCatalogue_def diagnose_entry_def Let_def
  by (auto intro!: always_bnd always_handle always_mapE always_getBaseRevision always_fetchTree
      always_fetchBlob always_option split: prod.splits)

lemma always_writeCredential: "always R (writeCredential env)"
  unfolding writeCredential_def by (intro always_handle crediting) auto

lemma always_resolveDeletion: "always R (resolveDeletion env input c)"
  unfolding resolveDeletion_def
  by (auto intro!: always_bnd always_fetchTree always_artifactsFromTree always_option)

end

subsection \<open>Requests, waits and credentials\<close>

text \<open>The client's steps touch disjoint parts of its state.\<close>

lemma credential_sent: "credential env c s = (r, t) \<Longrightarrow> net_sent t = net_sent s \<and> gh_sleeps t = gh_sleeps s"
  by (auto simp: credential_def Let_def split: option.splits prod.splits)

lemma credential_settled:
  "credential env c s = (r, t) \<Longrightarrow> gh_credentials t c = Some r \<and> (\<forall>k v. gh_credentials s k = Some v \<longrightarrow> gh_credentials t k = Some v)"
  by (auto simp: credential_def Let_def split: option.splits prod.splits if_splits)

definition only_gets :: "'w gh \<Rightarrow> 'w gh \<Rightarrow> bool" where
  "only_gets s t \<longleftrightarrow> (\<exists>qs. net_sent t = net_sent s @ qs \<and> (\<forall>q \<in> set qs. rq_method q = ''GET''))"

definition short_waits :: "'w gh \<Rightarrow> 'w gh \<Rightarrow> bool" where
  "short_waits s t \<longleftrightarrow> (\<exists>ds. gh_sleeps t = gh_sleeps s @ ds \<and> (\<forall>d \<in> set ds. 0 \<le> d \<and> d \<le> 5000))"

definition settled :: "'w gh \<Rightarrow> 'w gh \<Rightarrow> bool" where
  "settled s t \<longleftrightarrow> (\<forall>c v. gh_credentials s c = Some v \<longrightarrow> gh_credentials t c = Some v)"

interpretation reads: history only_gets env for env :: "'w gh_env"
proof
  show "only_gets s s" for s :: "'w gh" by (simp add: only_gets_def)
  show "only_gets s u" if st: "only_gets s t" and tu: "only_gets t u" for s t u :: "'w gh"
  proof -
    obtain xs ys where "net_sent t = net_sent s @ xs" "net_sent u = net_sent t @ ys"
      "\<forall>q \<in> set xs. rq_method q = ''GET''" "\<forall>q \<in> set ys. rq_method q = ''GET''"
      using st tu unfolding only_gets_def by blast
    then show ?thesis unfolding only_gets_def by (intro exI [of _ "xs @ ys"]) auto
  qed
  show "always only_gets (credential env c)" for c
    by (auto simp: always_def only_gets_def dest: credential_sent)
qed (auto simp: always_def only_gets_def do_fetch_inv log_line_def sleep_def)

interpretation waits: history short_waits env for env :: "'w gh_env"
proof
  show "short_waits s s" for s :: "'w gh" by (simp add: short_waits_def)
  show "short_waits s u" if st: "short_waits s t" and tu: "short_waits t u" for s t u :: "'w gh"
  proof -
    obtain xs ys where "gh_sleeps t = gh_sleeps s @ xs" "gh_sleeps u = gh_sleeps t @ ys"
      "\<forall>d \<in> set xs. 0 \<le> d \<and> d \<le> 5000" "\<forall>d \<in> set ys. 0 \<le> d \<and> d \<le> 5000"
      using st tu unfolding short_waits_def by blast
    then show ?thesis unfolding short_waits_def by (intro exI [of _ "xs @ ys"]) auto
  qed
  show "always short_waits (credential env c)" for c
    by (auto simp: always_def short_waits_def dest: credential_sent)
qed (auto simp: always_def short_waits_def do_fetch_inv log_line_def sleep_def)

interpretation creds: history settled env for env :: "'w gh_env"
  by unfold_locales
     (auto simp: always_def settled_def do_fetch_inv log_line_def sleep_def dest: credential_settled)

section \<open>Retries\<close>

text \<open>The verdicts of a scripted network: the world is the list of outcomes still to come.\<close>

definition scripted :: "fetch_outcome list fetcher" where
  "scripted q w = (case w of [] \<Rightarrow> (FetchRejected, []) | x # xs \<Rightarrow> (x, xs))"

fun final_verdict :: "(fetch_outcome \<Rightarrow> verdict) \<Rightarrow> fetch_outcome list \<Rightarrow> repo_error + js_value" where
  "final_verdict f [] = Inl (ArtifactRepositoryUnavailableError None)"
| "final_verdict f (x # xs) =
     (case f x of
        Answer v \<Rightarrow> Inr v
      | Stop e \<Rightarrow> Inl e
      | Again st _ \<Rightarrow> if xs = [] then Inl (ArtifactRepositoryUnavailableError st) else final_verdict f xs)"

text \<open>One round of the loop, with the fetch carried out.\<close>

lemma attempt_loop_Suc:
  fixes left :: nat
  assumes "ge_fetch env (json_request url token) (net_world s) = (x, w)"
  defines "u \<equiv> s\<lparr>net_world := w, net_sent := net_sent s @ [json_request url token]\<rparr>"
    and "n \<equiv> githubMaxAttempts - left"
  shows "attempt_loop env url op fp nf token (Suc left) s =
     (case attempt_verdict url op fp nf x of
        Answer v \<Rightarrow> (Inr v, u)
      | Stop e \<Rightarrow> (Inl e, u)
      | Again st h \<Rightarrow>
          if n < githubMaxAttempts
          then attempt_loop env url op fp nf token left
                 (u\<lparr>gh_logs := gh_logs u @ [LogRetry op fp st (n + 1)],
                    gh_sleeps := gh_sleeps u @ [retryDelay env h n]\<rparr>)
          else (Inl (ArtifactRepositoryUnavailableError st), u\<lparr>gh_logs := gh_logs u @ [LogFailure op fp st n]\<rparr>))"
  using assms
  by (auto simp: bnd_def do_fetch_def Let_def log_line_def sleep_def modS_def throw_def ret_def
      split: verdict.splits)

text \<open>With three scripted outcomes the loop returns the first verdict that is not a retry, and the
  third failure otherwise.\<close>

lemma attempt_loop_scripted:
  assumes "ge_fetch env = scripted" and "left \<le> githubMaxAttempts" and "length ws = left" and "net_world s = ws @ rest"
  shows "fst (attempt_loop env url op fp nf token left s) =
     final_verdict (attempt_verdict url op fp nf) ws"
  using assms(2-)
proof (induction left arbitrary: ws s)
  case 0
  then show ?case by (simp add: throw_def)
next
  case (Suc left)
  then obtain x xs where ws: "ws = x # xs" and xs: "length xs = left" by (cases ws) auto
  have f: "ge_fetch env (json_request url token) (net_world s) = (x, xs @ rest)"
    using Suc.prems ws assms(1) by (simp add: scripted_def)
  have last: "githubMaxAttempts - left < githubMaxAttempts \<longleftrightarrow> xs \<noteq> []"
    using xs Suc.prems by auto
  show ?case
    using Suc.IH [of xs] Suc.prems xs
    by (auto simp: attempt_loop_Suc [OF f] ws last simp del: attempt_loop.simps split: verdict.splits)
qed

text \<open>At most three identical requests, and one wait fewer than requests.\<close>

lemma attempt_loop_requests:
  assumes "attempt_loop env url op fp nf token left s = (r, t)" and "left \<le> githubMaxAttempts"
  shows "\<exists>n \<le> left. (0 < left \<longrightarrow> 0 < n) \<and> net_sent t = net_sent s @ replicate n (json_request url token)
           \<and> length (gh_sleeps t) = length (gh_sleeps s) + (n - 1)"
  using assms
proof (induction left arbitrary: s)
  case 0
  then show ?case by auto
next
  case (Suc left)
  let ?q = "json_request url token"
  obtain x w where x: "ge_fetch env ?q (net_world s) = (x, w)" by (cases "ge_fetch env ?q (net_world s)")
  note step = attempt_loop_Suc [OF x, of op fp nf left]
  show ?case
  proof (cases "left = 0 \<or> (\<forall>st h. attempt_verdict url op fp nf x \<noteq> Again st h)")
    case True
    then show ?thesis
      using Suc.prems
      by (intro exI [of _ 1]) (auto simp: step simp del: attempt_loop.simps split: verdict.splits)
  next
    case False
    then obtain st h where again: "attempt_verdict url op fp nf x = Again st h" and "0 < left" by auto
    let ?v = "s\<lparr>net_world := w, net_sent := net_sent s @ [?q],
                gh_logs := gh_logs s @ [LogRetry op fp st (githubMaxAttempts - left + 1)],
                gh_sleeps := gh_sleeps s @ [retryDelay env h (githubMaxAttempts - left)]\<rparr>"
    have "attempt_loop env url op fp nf token left ?v = (r, t)"
      using Suc.prems \<open>0 < left\<close> by (simp add: step again del: attempt_loop.simps)
    from Suc.IH [OF this] obtain n where "n \<le> left" "0 < n" "net_sent t = net_sent ?v @ replicate n ?q"
        "length (gh_sleeps t) = length (gh_sleeps ?v) + (n - 1)"
      using Suc.prems(2) \<open>0 < left\<close> by auto
    then show ?thesis by (intro exI [of _ "Suc n"]) auto
  qed
qed

lemma githubJson_requests:
  assumes "githubJson env url op fp c nf s = (r, t)"
  shows "\<exists>token n ds. n \<le> 3 \<and> net_sent t = net_sent s @ replicate n (json_request url token)
           \<and> gh_sleeps t = gh_sleeps s @ ds \<and> length ds = n - 1 \<and> (\<forall>d \<in> set ds. 0 \<le> d \<and> d \<le> 5000)"
proof -
  let ?c = "handle (credential env c) (\<lambda>e. throw (read_credential_error e))"
  have quiet: "net_sent u = net_sent s \<and> gh_sleeps u = gh_sleeps s" if "?c s = (r', u)" for r' u
    using that by (auto simp: handle_def split: prod.splits sum.splits dest: credential_sent)
  obtain ds where ds: "gh_sleeps t = gh_sleeps s @ ds" "\<forall>d \<in> set ds. 0 \<le> d \<and> d \<le> 5000"
    using alwaysD [OF waits.always_githubJson assms] by (auto simp: short_waits_def)
  from assms consider e where "?c s = (Inl e, t)"
    | token u where "?c s = (Inr token, u)" "attempt_loop env url op fp nf token githubMaxAttempts u = (r, t)"
    unfolding githubJson_def bnd_eq by blast
  then show ?thesis
  proof cases
    case 1
    with quiet ds show ?thesis by (intro exI [of _ undefined] exI [of _ 0] exI [of _ ds]) auto
  next
    case 2
    from attempt_loop_requests [OF 2(2)] obtain n where "n \<le> 3"
        "net_sent t = net_sent u @ replicate n (json_request url token)"
        "length (gh_sleeps t) = length (gh_sleeps u) + (n - 1)"
      by (auto simp: githubMaxAttempts_def)
    with quiet [OF 2(1)] ds show ?thesis
      by (intro exI [of _ token] exI [of _ n] exI [of _ ds]) auto
  qed
qed

section \<open>Properties\<close>

text \<open>C18. A JSON read sends at most three requests, all identical, waits one time fewer than it sends, and
  every wait lies between zero and five seconds, whatever \<^verbatim>\<open>retry-after\<close> header the server sends.\<close>

theorem retries_bounded:
  assumes "githubJson env url op fp c nf s = (r, t)"
  shows "\<exists>token n ds. n \<le> 3 \<and> net_sent t = net_sent s @ replicate n (json_request url token)
           \<and> gh_sleeps t = gh_sleeps s @ ds \<and> length ds = n - 1 \<and> (\<forall>d \<in> set ds. 0 \<le> d \<and> d \<le> 5000)"
  using assms by (rule githubJson_requests)

text \<open>An environment whose network replays a list of outcomes and whose provider grants write access.\<close>

definition demo_env :: "fetch_outcome list gh_env" where
  "demo_env =
     \<lparr>ge_owner = ''o'', ge_repo = ''r'', ge_branch = ''main'', ge_fetch = scripted,
      ge_provider = (\<lambda>c w. (Inr \<lparr>cred_token = ''tok'', cred_contents = Some ''write'',
                                 cred_pullRequests = None, cred_expiresAt = None\<rparr>, w)),
      ge_retryAfter = (\<lambda>h. None), ge_utf8 = map char_of, ge_isUrl = (\<lambda>u. True),
      ge_locale = (\<lambda>a b. 0), ge_dateText = (\<lambda>d. []), ge_lib = demo_lib\<rparr>"

definition demo_state :: "fetch_outcome list \<Rightarrow> fetch_outcome list gh" where
  "demo_state outcomes =
     \<lparr>net_world = outcomes, net_sent = [], gh_credentials = (\<lambda>c. None), gh_sleeps = [], gh_logs = []\<rparr>"

theorem retries_bounded_witness:
  "\<exists>token n. n \<le> 3 \<and> net_sent (snd (githubJson demo_env ''u'' TreeOperation None CapRead NotFoundBranch
     (demo_state []))) = replicate n (json_request ''u'' token)"
proof -
  let ?run = "githubJson demo_env ''u'' TreeOperation None CapRead NotFoundBranch (demo_state [])"
  have "?run = (fst ?run, snd ?run)" by simp
  from retries_bounded [OF this] show ?thesis by (auto simp: demo_state_def)
qed

text \<open>The retry loop returns the first answer or final error among its three attempts, and the status of
  the third failure when all three are retryable, for every sequence of network outcomes.\<close>

theorem retry_result:
  assumes "ge_fetch env = scripted" and "length ws = 3" and "net_world s = ws @ rest"
  shows "fst (attempt_loop env url op fp nf token githubMaxAttempts s) =
           final_verdict (attempt_verdict url op fp nf) ws"
  using assms by (intro attempt_loop_scripted) (simp_all add: githubMaxAttempts_def)

theorem retry_result_witness:
  "fst (attempt_loop demo_env ''u'' TreeOperation None NotFoundBranch ''tok'' githubMaxAttempts
     (demo_state [FetchRejected,
        FetchResponse \<lparr>rs_status = 503, rs_retryAfter = None, rs_body = BodyNotJson\<rparr>,
        FetchResponse \<lparr>rs_status = 200, rs_retryAfter = None, rs_body = BodyJson JNull\<rparr>])) = Inr JNull"
proof -
  let ?ws = "[FetchRejected,
        FetchResponse \<lparr>rs_status = 503, rs_retryAfter = None, rs_body = BodyNotJson\<rparr>,
        FetchResponse \<lparr>rs_status = 200, rs_retryAfter = None, rs_body = BodyJson JNull\<rparr>]"
  have "final_verdict (attempt_verdict ''u'' TreeOperation None NotFoundBranch) ?ws = Inr JNull"
    by (simp add: attempt_verdict_def response_ok_def)
  then show ?thesis
    using retry_result [of demo_env ?ws "demo_state ?ws" "[]"] by (simp add: demo_env_def demo_state_def)
qed

text \<open>Listing, looking up, resolving the branch, loading the catalogue and diagnosing it only ever send GET
  requests, and leave every credential that was obtained before as it was.\<close>

theorem reads_do_not_write:
  "always (\<lambda>s t. only_gets s t \<and> settled s t) (list_artifacts env)
   \<and> always (\<lambda>s t. only_gets s t \<and> settled s t) (findById env i)
   \<and> always (\<lambda>s t. only_gets s t \<and> settled s t) (findByIdWithRevision env i)
   \<and> always (\<lambda>s t. only_gets s t \<and> settled s t) (getBaseRevision env)
   \<and> always (\<lambda>s t. only_gets s t \<and> settled s t) (loadCatalogue env rv)
   \<and> always (\<lambda>s t. only_gets s t \<and> settled s t) (diagnoseCatalogue env rv)"
  by (intro conjI; unfold always_def, intro allI impI conjI)
     (blast intro: alwaysD [OF reads.always_list_artifacts] alwaysD [OF creds.always_list_artifacts]
        alwaysD [OF reads.always_findById] alwaysD [OF creds.always_findById]
        alwaysD [OF reads.always_findByIdWithRevision] alwaysD [OF creds.always_findByIdWithRevision]
        alwaysD [OF reads.always_getBaseRevision] alwaysD [OF creds.always_getBaseRevision]
        alwaysD [OF reads.always_loadCatalogue] alwaysD [OF creds.always_loadCatalogue]
        alwaysD [OF reads.always_diagnoseCatalogue] alwaysD [OF creds.always_diagnoseCatalogue])+

end
