(* ===== verification/Artifact_Store.thy ===== *)
theory Artifact_Store
  imports Artifact_Contract
begin

text \<open>
  The contract of \<^verbatim>\<open>interface ArtifactRepository\<close> that its readers rely on, as a locale: a list of
  artifacts with unique identifiers at supported paths, and a lookup that searches that list. It
  is interpreted on the GitHub and on the file implementation.
\<close>

locale artifact_store =
  fixes list_op :: "('s, 'e, artifact list) eff"
    and find_op :: "string \<Rightarrow> ('s, 'e, artifact option) eff"
  assumes list_unique: "list_op s = (Inr as, t) \<Longrightarrow> distinct (map art_id as)"
    and list_supported: "list_op s = (Inr as, t) \<Longrightarrow> a \<in> set as \<Longrightarrow> isSupportedArtifactPath (art_path a)"
    and find_searches: "find_op i = bnd list_op (\<lambda>as. ret (js_find (\<lambda>a. art_id a = i) as))"
begin

lemma find_unique:
  assumes "find_op i s = (Inr r, t)"
  shows "\<exists>as. list_op s = (Inr as, t) \<and> (\<forall>a. r = Some a \<longleftrightarrow> a \<in> set as \<and> art_id a = i)
           \<and> (r = None \<longleftrightarrow> i \<notin> set (map art_id as))"
proof -
  obtain as where as: "list_op s = (Inr as, t)" and r: "r = js_find (\<lambda>a. art_id a = i) as"
    using assms by (auto simp: find_searches bnd_Inr)
  note dist = list_unique [OF as]
  have none: "r = None \<longleftrightarrow> i \<notin> set (map art_id as)"
    unfolding r js_find_def find_None_iff by auto
  have "r = Some a \<longleftrightarrow> a \<in> set as \<and> art_id a = i" for a
  proof
    assume "r = Some a"
    then show "a \<in> set as \<and> art_id a = i" unfolding r js_find_def by (auto simp: find_Some_iff)
  next
    assume a: "a \<in> set as \<and> art_id a = i"
    then have "r \<noteq> None" using none by auto
    then obtain b where b: "r = Some b" by auto
    then have "b \<in> set as" "art_id b = i" unfolding r js_find_def by (auto simp: find_Some_iff)
    with a dist have "b = a" by (metis distinct_map inj_onD)
    with b show "r = Some a" by simp
  qed
  with as none show ?thesis by blast
qed

lemma find_error: "find_op i s = (Inl e, t) \<longleftrightarrow> list_op s = (Inl e, t)"
  by (auto simp: find_searches bnd_Inl)

end

end
