(* ===== verification/Github_Writes.thy ===== *)
theory Github_Writes
  imports Github_Requests Artifact_Store
begin

text \<open>
  What the GitHub repository client guarantees about its results and its writes: lists have
  unique identifiers and supported paths, catalogues carry one revision per artifact, a diagnosis
  counts every candidate file exactly once, the stored content decodes to what was prepared, and a
  write is the last request of its operation, sent only after the checks of that operation held on the
  tree the operation has just read.
\<close>

section \<open>Operations that end with a write\<close>

text \<open>An operation that reads, and then in some state \<open>u\<close> sends at most one more request \<open>q\<close> with \<open>W u q\<close>, as the last one.\<close>

definition one_write :: "('w gh \<Rightarrow> http_request \<Rightarrow> bool) \<Rightarrow> ('w, 'a) gh_eff \<Rightarrow> 'w gh \<Rightarrow> bool" where
  "one_write W m s \<longleftrightarrow>
     (\<forall>r t. m s = (r, t) \<longrightarrow>
        (\<exists>u gets. net_sent u = net_sent s @ gets \<and> (\<forall>q \<in> set gets. rq_method q = ''GET'')
           \<and> (net_sent t = net_sent u \<and> (\<exists>e. r = Inl e) \<or> (\<exists>q. net_sent t = net_sent u @ [q] \<and> W u q))))"

lemma one_writeD:
  assumes "one_write W m s" and "m s = (r, t)"
  obtains u gets where "net_sent u = net_sent s @ gets" "\<forall>q \<in> set gets. rq_method q = ''GET''"
    "net_sent t = net_sent u \<and> (\<exists>e. r = Inl e) \<or> (\<exists>q. net_sent t = net_sent u @ [q] \<and> W u q)"
  using assms(1) [unfolded one_write_def, rule_format, OF assms(2)] by (elim exE conjE) (rule that)

lemma one_write_throw [simp, intro]: "one_write W (throw e) s"
  unfolding one_write_def by (intro allI impI exI [of _ s] exI [of _ "[]"]) simp

lemma one_write_bnd:
  assumes m: "always only_gets m" and f: "\<And>x u. m s = (Inr x, u) \<Longrightarrow> one_write W (f x) u"
  shows "one_write W (bnd m f) s"
  unfolding one_write_def
proof (intro allI impI)
  fix r t
  assume run: "bnd m f s = (r, t)"
  then consider e where "m s = (Inl e, t)" "r = Inl e" | x u where "m s = (Inr x, u)" "f x u = (r, t)"
    unfolding bnd_eq by blast
  then show "\<exists>u gets. net_sent u = net_sent s @ gets \<and> (\<forall>q \<in> set gets. rq_method q = ''GET'')
           \<and> (net_sent t = net_sent u \<and> (\<exists>e. r = Inl e) \<or> (\<exists>q. net_sent t = net_sent u @ [q] \<and> W u q))"
  proof cases
    case 1
    obtain xs where "net_sent t = net_sent s @ xs" "\<forall>q \<in> set xs. rq_method q = ''GET''"
      using alwaysD [OF m 1(1)] by (auto simp: only_gets_def)
    with 1 show ?thesis by (intro exI [of _ t] exI [of _ xs]) simp
  next
    case 2
    obtain xs where xs: "net_sent u = net_sent s @ xs" "\<forall>q \<in> set xs. rq_method q = ''GET''"
      using alwaysD [OF m 2(1)] by (auto simp: only_gets_def)
    from one_writeD [OF f [OF 2(1)] 2(2)] obtain v gets where
      "net_sent v = net_sent u @ gets" "\<forall>q \<in> set gets. rq_method q = ''GET''"
      "net_sent t = net_sent v \<and> (\<exists>e. r = Inl e) \<or> (\<exists>q. net_sent t = net_sent v @ [q] \<and> W v q)" .
    with xs show ?thesis by (intro exI [of _ v] exI [of _ "xs @ gets"]) auto
  qed
qed

lemma one_write_bnd_guard:
  "(b \<Longrightarrow> one_write W (f ()) s) \<Longrightarrow> one_write W (bnd (guardE b e) f) s"
  by (cases b) auto

lemma one_write_bnd_sum:
  "(\<And>x. v = Inr x \<Longrightarrow> one_write W (f x) s) \<Longrightarrow> one_write W (bnd (ofSum v) f) s"
  by (rule one_write_bnd) auto

lemma one_write_request:
  assumes "\<And>token u. writeCredential env s = (Inr token, u) \<Longrightarrow> W u (q token)"
  shows "one_write W (bnd (writeCredential env) (\<lambda>token.
           bnd (do_fetch (ge_fetch env) (q token)) (\<lambda>outcome. ofSum (g outcome)))) s"
proof (rule one_write_bnd [OF reads.always_writeCredential])
  fix token u
  assume "writeCredential env s = (Inr token, u)"
  then show "one_write W (bnd (do_fetch (ge_fetch env) (q token)) (\<lambda>outcome. ofSum (g outcome))) u"
    unfolding one_write_def
    by (intro allI impI exI [of _ u] exI [of _ "[]"]) (auto simp: bnd_eq do_fetch_inv assms)
qed

lemma one_write_writeContents:
  "(\<And>token u. writeCredential env s = (Inr token, u) \<Longrightarrow> W u (put_request env token fp md msg sha)) \<Longrightarrow>
     one_write W (writeContents env fp i md msg sha) s"
  unfolding writeContents_def by (rule one_write_request)

lemma one_write_deleteContents:
  "(\<And>token u. writeCredential env s = (Inr token, u) \<Longrightarrow> W u (delete_request env token fp input)) \<Longrightarrow>
     one_write W (deleteContents env fp input) s"
  unfolding deleteContents_def by (rule one_write_request)

lemmas one_write_reads =
  one_write_bnd [OF reads.always_fetchTree] one_write_bnd [OF reads.always_artifactsFromTree]

subsection \<open>Create, update and delete\<close>

text \<open>The reads of an operation that started in state \<open>s\<close> and is about to write in state \<open>t\<close>: the tree, its artifacts and the
  credential, one after the other.\<close>

definition read_before ::
  "'w gh_env \<Rightarrow> 'w gh \<Rightarrow> tree_entry list \<Rightarrow> artifact list \<Rightarrow> string \<Rightarrow> 'w gh \<Rightarrow> bool" where
  "read_before env s tree artifacts token t \<longleftrightarrow>
     (\<exists>u v. fetchTree env CapWrite None s = (Inr tree, u) \<and> artifactsFromTree env tree CapWrite u = (Inr artifacts, v)
        \<and> writeCredential env v = (Inr token, t))"

text \<open>The conditions under which a new file is written: its canonical path is free in the tree the operation read, and no
  artifact of that tree has the identifier.\<close>

definition fresh_write ::
  "'w gh_env \<Rightarrow> 'w gh \<Rightarrow> artifact_metadata \<Rightarrow> string \<Rightarrow> string \<Rightarrow> 'w gh \<Rightarrow> http_request \<Rightarrow> bool" where
  "fresh_write env s metadata markdown message t q \<longleftrightarrow>
     (\<exists>token p tree artifacts.
        q = put_request env token p markdown message None
        \<and> canonicalArtifactWritePath (art_type metadata) (art_id metadata) = Some p
        \<and> read_before env s tree artifacts token t
        \<and> (\<forall>e \<in> set tree. te_type e = Some ''blob'' \<longrightarrow> te_path e \<noteq> Some p)
        \<and> (\<forall>a \<in> set artifacts. art_id a \<noteq> art_id metadata))"

lemma one_write_createValidated:
  "one_write (fresh_write env s m md msg) (createValidatedArtifactAtPath env (m, md) p msg) s"
  unfolding createValidatedArtifactAtPath_def prod.case
proof (intro one_write_bnd_guard one_write_reads one_write_writeContents)
  fix tree u artifacts v token t
  assume path: "canonicalArtifactWritePath (art_type m) (art_id m) = Some p"
    and reads: "fetchTree env CapWrite None s = (Inr tree, u)" "artifactsFromTree env tree CapWrite u = (Inr artifacts, v)"
      "writeCredential env v = (Inr token, t)"
    and free: "\<not> list_ex (\<lambda>e. te_type e = Some ''blob'' \<and> te_path e = Some p) tree"
    and ids: "\<not> list_ex (\<lambda>a. art_id a = art_id m) artifacts"
  from reads have before: "read_before env s tree artifacts token t" unfolding read_before_def by blast
  show "fresh_write env s m md msg t (put_request env token p md msg None)"
    unfolding fresh_write_def
    by (intro exI conjI, rule refl, rule path, rule before) (use free ids in \<open>auto simp: list_ex_iff\<close>)
qed

lemma one_write_mono: "one_write W m s \<Longrightarrow> (\<And>u q. W u q \<Longrightarrow> W' u q) \<Longrightarrow> one_write W' m s"
  unfolding one_write_def by meson

lemma one_write_create:
  "one_write (\<lambda>t q. \<exists>m md. prepareArtifactWrite (ge_lib env) meta body = Inr (m, md)
       \<and> fresh_write env s m md (''Create artifact '' @ art_id m @ requested_by login) t q)
     (create_artifact env meta body login) s"
  unfolding create_artifact_def
proof (intro one_write_bnd_guard one_write_bnd_sum)
  fix prepared p
  assume prep: "prepareArtifactWrite (ge_lib env) meta body = Inr prepared"
  obtain m md where pm: "prepared = (m, md)" by (cases prepared)
  show "one_write (\<lambda>t q. \<exists>m md. prepareArtifactWrite (ge_lib env) meta body = Inr (m, md)
       \<and> fresh_write env s m md (''Create artifact '' @ art_id m @ requested_by login) t q)
     (createValidatedArtifactAtPath env prepared p
        (''Create artifact '' @ art_id (fst prepared) @ requested_by login)) s"
    unfolding pm fst_conv by (rule one_write_mono [OF one_write_createValidated]) (use prep pm in blast)
qed

text \<open>The conditions of an update: the stored artifact has the identifier, the caller's file revision
  is the stored one, and identity, type, source and creation time are kept.\<close>

definition checked_update :: "'w gh_env \<Rightarrow> update_input \<Rightarrow> 'w gh \<Rightarrow> 'w gh \<Rightarrow> http_request \<Rightarrow> bool" where
  "checked_update env input s t q \<longleftrightarrow>
     (\<exists>token m md tree artifacts a.
        prepareArtifactWrite (ge_lib env) (ui_metadata input) (ui_body input) = Inr (m, md)
        \<and> q = put_request env token (art_path a) md
               (''Update artifact '' @ ui_id input @ requested_by (ui_actorLogin input))
               (Some (ui_currentFileSha input))
        \<and> read_before env s tree artifacts token t
        \<and> a \<in> set artifacts \<and> art_id a = ui_id input \<and> art_id m = ui_id input
        \<and> entry_sha tree (art_path a) = Some (ui_currentFileSha input)
        \<and> isSupportedArtifactPath (art_path a)
        \<and> is_ok (validateImmutableArtifactMetadata (ge_lib env) (ge_dateText env) a (metadata_object m)))"

lemma one_write_option:
  "one_write W m s \<Longrightarrow> (\<And>x. v = Some x \<Longrightarrow> one_write W (f x) s) \<Longrightarrow>
     one_write W (case v of None \<Rightarrow> m | Some x \<Rightarrow> f x) s"
  by (cases v) auto

lemma one_write_update: "one_write (checked_update env input s) (update_artifact env input) s"
  unfolding update_artifact_def
proof (intro one_write_bnd_guard one_write_bnd_sum, split prod.split, intro allI impI
    one_write_bnd_guard one_write_bnd_sum one_write_reads one_write_option one_write_throw one_write_writeContents)
  fix x m md tree u artifacts v a z token t
  assume prep: "prepareArtifactWrite (ge_lib env) (ui_metadata input) (ui_body input) = Inr x" and x: "x = (m, md)"
    and ids: "art_id m = ui_id input \<and> js_trim (ui_currentFileSha input) \<noteq> []"
    and reads: "fetchTree env CapWrite None s = (Inr tree, u)" "artifactsFromTree env tree CapWrite u = (Inr artifacts, v)"
      "writeCredential env v = (Inr token, t)"
    and found: "js_find (\<lambda>a. art_id a = ui_id input) artifacts = Some a"
    and sha: "entry_sha tree (art_path a) = Some (ui_currentFileSha input)"
    and path: "isSupportedArtifactMutationPath (art_path a)"
    and imm: "validateImmutableArtifactMetadata (ge_lib env) (ge_dateText env) a (metadata_object m) = Inr z"
  from reads have before: "read_before env s tree artifacts token t" unfolding read_before_def by blast
  show "checked_update env input s t
     (put_request env token (art_path a) md
       (''Update artifact '' @ art_id m @ requested_by (ui_actorLogin input)) (Some (ui_currentFileSha input)))"
    unfolding checked_update_def
    by (intro exI conjI, rule prep [unfolded x], simp add: ids, rule before)
       (use js_find_Some [OF found] ids sha path imm in \<open>auto simp: isSupportedArtifactMutationPath_def\<close>)
qed

definition checked_delete :: "'w gh_env \<Rightarrow> delete_input \<Rightarrow> 'w gh \<Rightarrow> 'w gh \<Rightarrow> http_request \<Rightarrow> bool" where
  "checked_delete env input s t q \<longleftrightarrow>
     (\<exists>token tree artifacts a.
        q = delete_request env token (art_path a) input
        \<and> read_before env s tree artifacts token t
        \<and> a \<in> set artifacts \<and> art_id a = dl_id input
        \<and> entry_sha tree (art_path a) = Some (dl_currentFileSha input)
        \<and> isSupportedArtifactPath (art_path a))"

lemma resolveDeletion_Inr:
  assumes "resolveDeletion env input CapWrite s = (Inr a, v)" and "writeCredential env v = (Inr token, t)"
  shows "checked_delete env input s t (delete_request env token (art_path a) input)"
proof -
  obtain tree u artifacts where
    "fetchTree env CapWrite None s = (Inr tree, u)" "artifactsFromTree env tree CapWrite u = (Inr artifacts, v)"
    "js_find (\<lambda>a. art_id a = dl_id input) artifacts = Some a"
    "entry_sha tree (art_path a) = Some (dl_currentFileSha input)" "isSupportedArtifactMutationPath (art_path a)"
    using assms(1)
    by (auto simp: resolveDeletion_def bnd_Inr isSupportedArtifactMutationPath_def split: option.splits if_splits)
  with assms(2) show ?thesis
    unfolding checked_delete_def read_before_def isSupportedArtifactMutationPath_def by (blast dest: js_find_Some)
qed

lemma one_write_delete: "one_write (checked_delete env input s) (delete_artifact env input) s"
  unfolding delete_artifact_def
  by (intro one_write_bnd [OF reads.always_resolveDeletion] one_write_deleteContents)
     (rule resolveDeletion_Inr)

section \<open>What is read\<close>

subsection \<open>Lists and catalogues\<close>

lemma parse_raw_path: "parse_raw env p raw = Inr a \<Longrightarrow> art_path a = p"
  by (auto simp: parse_raw_def parse_path split: sum.splits)

lemma list_all2_map_eq: "list_all2 (\<lambda>x y. g y = f x) xs ys \<longleftrightarrow> map g ys = map f xs"
  by (auto simp: list_all2_conv_all_nth list_eq_iff_nth_eq)

lemma mapE_paths:
  assumes "\<And>x s y t. f x s = (Inr y, t) \<Longrightarrow> art_path y = the (te_path x)" and "mapE f xs s = (Inr ys, t)"
  shows "map art_path ys = map (the \<circ> te_path) xs"
proof -
  have "list_all2 (\<lambda>x y. art_path y = the (te_path x)) xs ys"
    using mapE_Inr_in [OF assms(2)] by (rule list_all2_mono) (blast intro: assms(1))
  then show ?thesis by (simp add: list_all2_map_eq comp_def)
qed

lemma tree_artifact_path: "tree_artifact env c x s = (Inr a, t) \<Longrightarrow> art_path a = the (te_path x)"
  by (auto simp: tree_artifact_def bnd_Inr parse_raw_path split: if_splits dest: parse_raw_path)

lemma list_artifact_path: "list_artifact env x s = (Inr a, t) \<Longrightarrow> art_path a = the (te_path x)"
  by (auto simp: list_artifact_def bnd_Inr split: if_splits dest: parse_raw_path)

lemma candidate_nonempty: "candidate_entry e \<Longrightarrow> the (te_path e) \<noteq> []"
  by (auto simp: candidate_entry_def isArtifactMarkdownCandidate_def Let_def drop_leading_slashes_def
      forward_slashes_def split: option.splits)

lemma check_unique_distinct:
  assumes "check_unique as = Inr u" and "\<forall>a \<in> set as. art_path a \<noteq> []"
  shows "distinct (map art_id as)"
  using assms(1) validateUniqueArtifactIds_iff [OF assms(2)]
  by (auto simp: check_unique_def split: sum.splits)

lemma artifactsFromTree_Inr:
  assumes "artifactsFromTree env tree c s = (Inr as, t)"
  shows "map art_path as = map (the \<circ> te_path) (filter candidate_entry tree)" and "distinct (map art_id as)"
proof -
  from assms obtain u where run: "mapE (tree_artifact env c) (filter candidate_entry tree) s = (Inr as, u)"
      and uniq: "check_unique as = Inr ()"
    by (auto simp: artifactsFromTree_def bnd_Inr)
  show paths: "map art_path as = map (the \<circ> te_path) (filter candidate_entry tree)"
    by (rule mapE_paths [OF tree_artifact_path run])
  have "art_path a \<noteq> []" if "a \<in> set as" for a
  proof -
    have "art_path a \<in> set (map (the \<circ> te_path) (filter candidate_entry tree))"
      unfolding paths [symmetric] using that by simp
    then obtain e where "candidate_entry e" "art_path a = the (te_path e)" by auto
    then show ?thesis using candidate_nonempty [of e] by simp
  qed
  then show "distinct (map art_id as)" by (intro check_unique_distinct [OF uniq]) blast
qed

lemma list_artifacts_Inr:
  assumes "list_artifacts env s = (Inr as, t)"
  obtains tree u where "fetchTree env CapRead None s = (Inr tree, u)"
    "set (map art_path as) = set (map (the \<circ> te_path) (filter candidate_entry tree))"
    "length as = length (filter candidate_entry tree)"
    "distinct (map art_id as)" "\<forall>a \<in> set as. isSupportedArtifactPath (art_path a)"
proof -
  from assms obtain tree u v w bs where tree: "fetchTree env CapRead None s = (Inr tree, u)"
    and sup: "\<forall>e \<in> set tree. candidate_entry e \<longrightarrow> isSupportedArtifactPath (the (te_path e))"
    and run: "mapE (list_artifact env) (js_sort_by (\<lambda>a b. ge_locale env (the (te_path a)) (the (te_path b)))
                     (filter candidate_entry tree)) v = (Inr bs, w)"
    and uniq: "check_unique bs = Inr ()" and as: "as = js_sort_by (by_title env) bs"
    by (auto simp: list_artifacts_def bnd_Inr Let_def list_all_iff split: if_splits)
  have paths: "map art_path bs = map (the \<circ> te_path)
      (js_sort_by (\<lambda>a b. ge_locale env (the (te_path a)) (the (te_path b))) (filter candidate_entry tree))"
    by (rule mapE_paths [OF _ run]) (rule list_artifact_path)
  have set_paths: "set (map art_path bs) = set (map (the \<circ> te_path) (filter candidate_entry tree))"
    using arg_cong [OF paths, of set] by simp
  have good: "art_path a \<noteq> [] \<and> isSupportedArtifactPath (art_path a)" if "a \<in> set bs" for a
  proof -
    have "art_path a \<in> set (map (the \<circ> te_path) (filter candidate_entry tree))"
      unfolding set_paths [symmetric] using that by simp
    then obtain e where "e \<in> set tree" "candidate_entry e" "art_path a = the (te_path e)" by auto
    then show ?thesis using candidate_nonempty [of e] sup by simp
  qed
  have "length bs = length (filter candidate_entry tree)"
    using mapE_Inr_length [OF run] by simp
  moreover have "distinct (map art_id bs)"
    by (rule check_unique_distinct [OF uniq]) (use good in blast)
  ultimately show thesis
    using that [OF tree] set_paths good unfolding as by simp
qed

lemma file_shas_Inr:
  "file_shas tree acc as = Inr m \<Longrightarrow> distinct (map art_id as) \<Longrightarrow>
     dom m = dom acc \<union> set (map art_id as)
     \<and> (\<forall>a \<in> set as. m (art_id a) = entry_sha tree (art_path a) \<and> (\<exists>sha. entry_sha tree (art_path a) = Some sha \<and> revision_pattern sha))
     \<and> (\<forall>i. i \<notin> set (map art_id as) \<longrightarrow> m i = acc i)"
proof (induction tree acc as rule: file_shas.induct)
  case (1 tree acc)
  then show ?case by simp
next
  case (2 tree acc a as)
  then obtain sha where sha: "entry_sha tree (art_path a) = Some sha" "revision_pattern sha"
      and rest: "file_shas tree (acc(art_id a \<mapsto> sha)) as = Inr m"
    by (auto split: option.splits if_splits)
  have IH: "dom m = dom (acc(art_id a \<mapsto> sha)) \<union> set (map art_id as)
     \<and> (\<forall>a \<in> set as. m (art_id a) = entry_sha tree (art_path a) \<and> (\<exists>sha. entry_sha tree (art_path a) = Some sha \<and> revision_pattern sha))
     \<and> (\<forall>i. i \<notin> set (map art_id as) \<longrightarrow> m i = (acc(art_id a \<mapsto> sha)) i)"
    using "2.IH" [OF sha(1) _ rest] sha "2.prems"(2) by (auto simp: fun_upd_def simp del: dom_fun_upd)
  then have here: "m (art_id a) = Some sha" using "2.prems"(2) by simp
  have dm: "dom m = dom acc \<union> set (map art_id (a # as))"
    using conjunct1 [OF IH] by simp
  have outside: "m i = acc i" if "i \<notin> set (map art_id (a # as))" for i
    using IH that by simp
  show ?case
    using dm outside here sha conjunct1 [OF conjunct2 [OF IH]] by (intro conjI) auto
qed

lemma loadCatalogue_Inr:
  assumes "loadCatalogue env rv s = (Inr cat, t)"
  obtains tree u v where "fetchTree env CapRead (Some (cat_revision cat)) u = (Inr tree, v)"
    "distinct (map art_id (cat_artifacts cat))" "dom (cat_fileShas cat) = set (map art_id (cat_artifacts cat))"
    "\<forall>a \<in> set (cat_artifacts cat). cat_fileShas cat (art_id a) = entry_sha tree (art_path a)"
    "\<forall>r. rv = Some r \<longrightarrow> cat_revision cat = r"
    "set (map art_path (cat_artifacts cat)) = set (map (the \<circ> te_path) (filter candidate_entry tree))"
proof -
  from assms obtain r u tree v as w shas where
      r: "(case rv of Some r \<Rightarrow> ret r | None \<Rightarrow> getBaseRevision env) s = (Inr r, u)"
    and tree: "fetchTree env CapRead (Some r) u = (Inr tree, v)"
    and as: "artifactsFromTree env tree CapRead v = (Inr as, w)" and shas: "file_shas tree Map.empty as = Inr shas"
    and cat: "cat = \<lparr>cat_artifacts = js_sort_by (by_title env) as, cat_revision = r, cat_fileShas = shas\<rparr>"
    unfolding loadCatalogue_def bnd_Inr by (auto split del: option.split)
  note facts = artifactsFromTree_Inr [OF as]
  note shas' = file_shas_Inr [OF shas facts(2)]
  have "set (map art_path as) = set (map (the \<circ> te_path) (filter candidate_entry tree))"
    unfolding facts(1) ..
  moreover have "\<forall>r'. rv = Some r' \<longrightarrow> r = r'" using r by auto
  moreover have "set (map art_path (js_sort_by (by_title env) as)) = set (map art_path as)"
      "set (map art_id (js_sort_by (by_title env) as)) = set (map art_id as)" by simp_all
  ultimately show thesis
    by (intro that [of u tree v]) (use tree facts(2) shas' in \<open>simp_all add: cat del: set_map\<close>)
qed

subsection \<open>The diagnosis\<close>

lemma split_results:
  "length (valid_results results) + length (error_results results) = length results"
  by (induction results) (auto simp: valid_results_def error_results_def split: sum.splits)

lemma result_indices:
  "set (map fst (valid_results results)) \<subseteq> set (map fst results)"
  "set (map fst (error_results results)) \<subseteq> set (map fst results)"
  by (auto simp: valid_results_def error_results_def split: sum.splits) force+

lemma results_Cons:
  "valid_results ((k, r) # results) = (case r of Inl _ \<Rightarrow> [] | Inr a \<Rightarrow> [(k, a)]) @ valid_results results"
  "error_results ((k, r) # results) = (case r of Inl d \<Rightarrow> [(k, d)] | Inr _ \<Rightarrow> []) @ error_results results"
  by (auto simp: valid_results_def error_results_def)

lemma result_indices_distinct:
  "distinct (map fst results) \<Longrightarrow>
     distinct (map fst (valid_results results)) \<and> distinct (map fst (error_results results))
     \<and> set (map fst (valid_results results)) \<inter> set (map fst (error_results results)) = {}"
proof (induction results)
  case (Cons x results)
  obtain k r where x: "x = (k, r)" by (cases x)
  have "k \<notin> set (map fst (valid_results results))" "k \<notin> set (map fst (error_results results))"
    using Cons.prems result_indices [of results] x by auto
  with Cons show ?case by (simp add: x results_Cons split: sum.splits)
qed (simp add: valid_results_def error_results_def)

lemma duplicate_indices: "set (map fst (duplicate_diagnostics valid)) \<subseteq> set (map fst valid)"
  by (auto simp: duplicate_diagnostics_def duplicate_groups_def) force

lemma validation_report_counts:
  fixes revision :: string
  assumes dist: "distinct (map fst results)"
  defines "rep \<equiv> validation_report_of revision results"
  shows "rep_validCount rep + int (rep_invalidCount rep) = int (length results)"
proof -
  let ?valid = "valid_results results" and ?errs = "error_results results"
  let ?V = "set (map fst ?valid)" and ?E = "set (map fst ?errs)"
  let ?D = "set (map fst (duplicate_diagnostics ?valid))"
  have idx: "distinct (map fst ?valid)" "distinct (map fst ?errs)" "?V \<inter> ?E = {}"
    using result_indices_distinct [OF dist] by blast+
  have D: "?D \<subseteq> ?V" by (rule duplicate_indices)
  let ?inv = "js_dedup (map fst (?errs @ duplicate_diagnostics ?valid))"
  have inv_set: "set ?inv = ?E \<union> ?D" by simp
  have rep: "rep_validCount rep = int (length ?valid) - int (length (filter (\<lambda>(k, a). k \<in> set ?inv) ?valid))"
    "rep_invalidCount rep = length ?inv"
    by (simp_all add: rep_def validation_report_of_def Let_def image_Un)
  have inv: "length ?inv = card (?E \<union> ?D)"
    using distinct_card [of ?inv] unfolding inv_set by simp
  have "distinct (map fst (filter (\<lambda>(k, a). k \<in> set ?inv) ?valid))"
    using idx(1) by (rule distinct_map_filter)
  then have "length (filter (\<lambda>(k, a). k \<in> set ?inv) ?valid)
      = card (set (map fst (filter (\<lambda>(k, a). k \<in> set ?inv) ?valid)))"
    by (metis distinct_card length_map)
  also have "set (map fst (filter (\<lambda>(k, a). k \<in> set ?inv) ?valid)) = ?V \<inter> (?E \<union> ?D)"
    unfolding inv_set by force
  also have "\<dots> = ?D" using D idx(3) by blast
  finally have vc: "length (filter (\<lambda>(k, a). k \<in> set ?inv) ?valid) = card ?D" .
  have "card (?E \<union> ?D) = card ?E + card ?D"
    by (rule card_Un_disjoint) (use D idx(3) in auto)
  moreover have "card ?E = length ?errs"
    using distinct_card [OF idx(2)] by simp
  ultimately have "rep_validCount rep + int (rep_invalidCount rep) = int (length ?valid) + int (length ?errs)"
    unfolding rep inv vc by linarith
  then show ?thesis using split_results [of results] by linarith
qed

lemma diagnose_entry_index: "diagnose_entry env x s = (Inr y, t) \<Longrightarrow> fst y = fst x"
  by (auto simp: diagnose_entry_def Let_def handle_def bnd_Inr split: prod.splits if_splits option.splits sum.splits)

lemma diagnosed_indices: "mapE (diagnose_entry env) xs s = (Inr ys, t) \<Longrightarrow> map fst ys = map fst xs"
  by (induction xs arbitrary: s ys) (auto simp: bnd_Inr dest: diagnose_entry_index)

subsection \<open>Stored content\<close>

lemma b64_char_code:
  "n < 26 \<Longrightarrow> code (b64_char n) = 65 + n" "26 \<le> n \<Longrightarrow> n < 52 \<Longrightarrow> code (b64_char n) = 71 + n"
  "52 \<le> n \<Longrightarrow> n < 62 \<Longrightarrow> code (b64_char n) = n - 4" "code (b64_char 62) = 43" "code (b64_char 63) = 47"
  by (simp_all add: b64_char_def code_char_of) (simp_all add: code_def)

lemma code_inj: "code c = code d \<longleftrightarrow> c = d"
  by (simp add: code_def)

lemma b64_char_data: "n < 64 \<Longrightarrow> b64_data_char (b64_char n)"
proof -
  assume "n < 64"
  then consider "n < 26" | "26 \<le> n" "n < 52" | "52 \<le> n" "n < 62" | "n = 62" | "n = 63" by linarith
  then show ?thesis
  proof cases
    case 3
    then have "digit (b64_char n)" unfolding digit_def b64_char_code(3) [OF 3] by linarith
    then show ?thesis by (simp add: b64_data_char_def alnum_def)
  qed (simp_all add: b64_data_char_def alnum_def upper_alpha_def lower_alpha_def b64_char_code, simp_all add: b64_char_def)
qed

lemma b64_value_char: "n < 64 \<Longrightarrow> b64_value (b64_char n) = n"
proof -
  assume "n < 64"
  then consider "n < 26" | "26 \<le> n" "n < 52" | "52 \<le> n" "n < 62" | "n = 62" | "n = 63" by linarith
  then show ?thesis
  proof cases
    case 3
    have "\<not> upper_alpha (b64_char n)" "\<not> lower_alpha (b64_char n)" "digit (b64_char n)"
      unfolding upper_alpha_def lower_alpha_def digit_def b64_char_code(3) [OF 3] using 3 by linarith+
    with 3 b64_char_code(3) [OF 3] show ?thesis by (simp add: b64_value_def)
  next
    case 5
    then show ?thesis
      by (simp add: b64_value_def upper_alpha_def lower_alpha_def digit_def b64_char_code) (simp add: b64_char_def)
  qed (simp_all add: b64_value_def upper_alpha_def lower_alpha_def digit_def b64_char_code, simp add: b64_char_def)
qed

lemma b64_data_special: "b64_data_char c \<Longrightarrow> c \<noteq> CHR ''='' \<and> c \<noteq> CHR ''-'' \<and> c \<noteq> CHR ''_'' \<and> \<not> js_ws c"
  by (auto simp: b64_data_char_def alnum_def upper_alpha_def lower_alpha_def digit_def js_ws_def code_def)

lemma b64_char_facts:
  assumes "n < 64"
  shows "b64_char n \<noteq> CHR ''=''" "b64_any_char (b64_char n)" "b64_any_value (b64_char n) = n"
  using b64_char_data [OF assms] b64_data_special [of "b64_char n"] b64_value_char [OF assms]
  by (auto simp: b64_any_char_def b64_any_value_def)

lemma buffer_from_base64_quad:
  assumes "a < 64" "b < 64" "c < 64" "d < 64"
  shows "buffer_from_base64 (b64_char a # b64_char b # b64_char c # b64_char d # rest) =
     [a * 4 + b div 16, b mod 16 * 16 + c div 4, c mod 4 * 64 + d] @ buffer_from_base64 rest"
  by (simp add: buffer_from_base64_def b64_char_facts assms)

lemma sextet_inverse:
  fixes a b c :: nat
  assumes "a < 256" "b < 256" "c < 256"
  shows "a div 4 * 4 + (a mod 4 * 16 + b div 16) div 16 = a"
    "(a mod 4 * 16 + b div 16) mod 16 * 16 + (b mod 16 * 4 + c div 64) div 4 = b"
    "(b mod 16 * 4 + c div 64) mod 4 * 64 + c mod 64 = c"
    "a div 4 * 4 + a mod 4 * 16 div 16 = a"
    "(a mod 4 * 16 + b div 16) mod 16 * 16 + b mod 16 * 4 div 4 = b"
proof -
  have small: "b div 16 < 16" "c div 64 < 4" using assms by (simp_all add: less_mult_imp_div_less)
  have carry: "(x * 16 + y) div 16 = x" "(x * 16 + y) mod 16 = y" if "y < 16" for x y :: nat
    using that by simp_all
  have carry4: "(x * 4 + y) div 4 = x" "(x * 4 + y) mod 4 = y" if "y < 4" for x y :: nat
    using that by simp_all
  note carries = carry [OF small(1)] carry4 [OF small(2)]
  show "a div 4 * 4 + (a mod 4 * 16 + b div 16) div 16 = a" unfolding carries by (rule div_mult_mod_eq)
  show "(a mod 4 * 16 + b div 16) mod 16 * 16 + (b mod 16 * 4 + c div 64) div 4 = b"
    unfolding carries by (rule div_mult_mod_eq)
  show "(b mod 16 * 4 + c div 64) mod 4 * 64 + c mod 64 = c" unfolding carries by (rule div_mult_mod_eq)
  show "a div 4 * 4 + a mod 4 * 16 div 16 = a" by simp
  show "(a mod 4 * 16 + b div 16) mod 16 * 16 + b mod 16 * 4 div 4 = b" unfolding carries by simp
qed

lemma buffer_from_base64_btoa: "\<forall>b \<in> set bs. b < 256 \<Longrightarrow> buffer_from_base64 (btoa bs) = bs"
proof (induction bs rule: btoa.induct)
  case 1
  then show ?case by (simp add: buffer_from_base64_def)
next
  case (2 a)
  then have a: "a < 256" by simp
  note sextet_bounds [OF a a]
  then show ?case
    using sextet_inverse [OF a a a] by (simp add: buffer_from_base64_def b64_char_facts)
next
  case (3 a b)
  then have ab: "a < 256" "b < 256" by simp_all
  note sextet_bounds [OF ab] sextet_bounds [OF ab(2) ab(2)]
  then show ?case
    using sextet_inverse [OF ab ab(2)] by (simp add: buffer_from_base64_def b64_char_facts)
next
  case (4 a b c rest)
  then have abc: "a < 256" "b < 256" "c < 256" by simp_all
  note bounds = sextet_bounds [OF abc(1,2)] sextet_bounds [OF abc(2,3)] sextet_bounds [OF abc(3,3)]
  have "buffer_from_base64 (btoa (a # b # c # rest)) =
      [a div 4 * 4 + (a mod 4 * 16 + b div 16) div 16,
       (a mod 4 * 16 + b div 16) mod 16 * 16 + (b mod 16 * 4 + c div 64) div 4,
       (b mod 16 * 4 + c div 64) mod 4 * 64 + c mod 64] @ buffer_from_base64 (btoa rest)"
    using buffer_from_base64_quad [OF bounds(1,3) bounds(11) bounds(18), of "btoa rest"] by simp
  then show ?case
    unfolding sextet_inverse [OF abc] using 4 by simp
qed

lemma b64_text_not_ws: "b64_text_char c \<Longrightarrow> \<not> js_ws c"
proof -
  assume "b64_text_char c"
  then consider "alnum c" | "code c = 43" | "code c = 47" | "code c = 61"
    unfolding b64_text_char_def by (auto simp: code_def)
  moreover have "48 \<le> code c \<and> code c \<le> 122" if "alnum c"
    using that unfolding alnum_def upper_alpha_def lower_alpha_def digit_def by linarith
  ultimately show "\<not> js_ws c" by cases (auto simp: js_ws_def)
qed

lemma btoa_no_ws: "\<forall>b \<in> set bs. b < 256 \<Longrightarrow> filter (\<lambda>c. \<not> js_ws c) (btoa bs) = btoa bs"
proof (rule filter_True)
  assume "\<forall>b \<in> set bs. b < 256"
  then have "\<forall>c \<in> set (btoa bs). b64_text_char c" using btoa_chars by (simp add: list_all_iff)
  then show "\<forall>c \<in> set (btoa bs). \<not> js_ws c" using b64_text_not_ws by blast
qed

lemma utf8_byte_bound: "b \<in> set (utf8_bytes c) \<Longrightarrow> b < 256"
proof -
  assume b: "b \<in> set (utf8_bytes c)"
  have "code c div 64 < 4" by (rule less_mult_imp_div_less) (simp add: code_def)
  moreover have "code c mod 64 < 64" by simp
  ultimately have "192 + code c div 64 < 256" "128 + code c mod 64 < 256" by linarith+
  with b show "b < 256" by (auto simp: utf8_bytes_def split: if_splits)
qed

lemma ascii_bytes_bound: "b \<in> set (ascii_bytes s) \<Longrightarrow> b < 256"
  by (auto simp: ascii_bytes_def dest: utf8_byte_bound)

lemma length_ascii_bytes: "length (ascii_bytes s) = utf8_length s"
  by (induction s) (auto simp: ascii_bytes_def utf8_length_def utf8_bytes_def)

text \<open>A blob that holds the base64 text of a markdown document within the size limit, with any line
  breaks, is read as that document.\<close>

lemma blob_result_content:
  assumes "js_str (js_get v ''encoding'') = Some ''base64''" and "js_str (js_get v ''content'') = Some content"
    and "filter (\<lambda>c. \<not> js_ws c) content = btoa (ascii_bytes markdown)"
    and "utf8_length markdown \<le> MAX_SERIALIZED_ARTIFACT_BYTES"
    and "\<forall>n. js_num (js_get v ''size'') = Some n \<longrightarrow> n \<le> int MAX_SERIALIZED_ARTIFACT_BYTES"
  shows "blob_result env v = Inr (ge_utf8 env (ascii_bytes markdown))"
proof -
  have dec: "buffer_from_base64 (btoa (ascii_bytes markdown)) = ascii_bytes markdown"
    by (rule buffer_from_base64_btoa) (simp add: ascii_bytes_bound)
  have "\<not> (case js_num (js_get v ''size'') of Some n \<Rightarrow> int MAX_SERIALIZED_ARTIFACT_BYTES < n | None \<Rightarrow> False)"
    using assms(5) by (auto split: option.splits)
  with assms(1,2,4) dec show ?thesis
    by (simp add: blob_result_def assms(3) length_ascii_bytes)
qed

section \<open>Properties\<close>

interpretation github_store: artifact_store "list_artifacts env" "findById env" for env :: "'w gh_env"
  by unfold_locales (auto simp: findById_def elim: list_artifacts_Inr)

text \<open>A repository with one artifact, and the requests of one update of it.\<close>

definition demo_tree :: js_value where
  "demo_tree = JObj [(''tree'', JArr [JObj [(''path'', JStr ''prompts/note.md''), (''type'', JStr ''blob''),
                                           (''sha'', JStr ''abcdef1'')]])]"

definition ok_json :: "js_value \<Rightarrow> fetch_outcome" where
  "ok_json v = FetchResponse \<lparr>rs_status = 200, rs_retryAfter = None, rs_body = BodyJson v\<rparr>"

definition demo_outcomes :: "fetch_outcome list" where
  "demo_outcomes =
     [ok_json demo_tree, ok_json (JObj [(''encoding'', JStr ''base64''), (''content'', JStr ''SGVsbG8='')]),
      ok_json (JObj [(''content'', JObj [(''path'', JStr ''prompts/note.md''), (''sha'', JStr ''abcdef2'')]),
                     (''commit'', JObj [(''sha'', JStr ''c1''), (''html_url'', JStr ''https://github.com/o/r'')])])]"

definition demo_update :: update_input where
  "demo_update =
     \<lparr>ui_id = ''note'', ui_metadata = metadata_object demo_metadata, ui_body = ''Hello'',
      ui_currentFileSha = ''abcdef1'', ui_actorLogin = ''octo''\<rparr>"

text \<open>C1. An update sends at most one write, as its last request; if it succeeds it did send it. The write
  carries the prepared document, the caller's file revision and the stored path, and is sent in the state this run reached
  by reading the tree, its artifacts and the credential from the state it started in, and only when in that very tree the
  artifact of the identifier exists at a supported path, its file still has the caller's revision, and identifier, type, source
  and creation time are those of the stored artifact.\<close>

theorem update_writes_once: "one_write (checked_update env input s) (update_artifact env input) s"
  by (rule one_write_update)

text \<open>Such an update does happen: the run below reads the tree and the blob and then writes.\<close>

lemma update_example:
  "map rq_method (net_sent (snd (update_artifact demo_env demo_update (demo_state demo_outcomes)))) = [''GET'', ''GET'', ''PUT'']
   \<and> is_ok (fst (update_artifact demo_env demo_update (demo_state demo_outcomes)))"
  by code_simp

text \<open>C19. A create sends at most one write, as its last request and without a file revision, to the canonical
  path of the prepared metadata, in the state this run reached by reading the tree, its artifacts and the credential, and only
  when that very tree has no file at the path and no artifact with the identifier; if it succeeds it did send it.\<close>

theorem create_writes_once:
  "one_write (\<lambda>t q. \<exists>m md. prepareArtifactWrite (ge_lib env) metadata body = Inr (m, md)
       \<and> fresh_write env s m md (''Create artifact '' @ art_id m @ requested_by login) t q)
     (create_artifact env metadata body login) s"
  by (rule one_write_create)

text \<open>C40. A delete sends at most one DELETE, as its last request, with the caller's file revision, and only
  when that is the revision the artifact of the identifier has in the tree that this run has read before, and its path is
  supported; if it succeeds it did send it.\<close>

theorem delete_writes_once: "one_write (checked_delete env input s) (delete_artifact env input) s"
  by (rule one_write_delete)

text \<open>A lookup by identifier returns exactly the artifact of the list with that identifier: identifiers
  are unique in the list, every listed path is supported, and the lookup finds nothing only when the list
  has no such artifact.\<close>

theorem github_lookup:
  assumes "findById env i s = (Inr r, t)"
  shows "\<exists>as. list_artifacts env s = (Inr as, t) \<and> distinct (map art_id as)
           \<and> list_all (\<lambda>a. isSupportedArtifactPath (art_path a)) as
           \<and> (\<forall>a. r = Some a \<longleftrightarrow> a \<in> set as \<and> art_id a = i)
           \<and> (r = None \<longleftrightarrow> i \<notin> set (map art_id as))"
proof -
  obtain as where as: "list_artifacts env s = (Inr as, t)"
    and find: "\<forall>a. r = Some a \<longleftrightarrow> a \<in> set as \<and> art_id a = i" "r = None \<longleftrightarrow> i \<notin> set (map art_id as)"
    using github_store.find_unique [OF assms] by blast
  have "list_all (\<lambda>a. isSupportedArtifactPath (art_path a)) as"
    using github_store.list_supported [OF as] by (simp add: list_all_iff)
  with as find github_store.list_unique [OF as] show ?thesis by blast
qed

theorem github_lookup_witness:
  "\<exists>r t as. findById demo_env ''note'' (demo_state demo_outcomes) = (Inr r, t)
     \<and> list_artifacts demo_env (demo_state demo_outcomes) = (Inr as, t) \<and> distinct (map art_id as)"
proof -
  have "is_ok (fst (findById demo_env ''note'' (demo_state demo_outcomes)))" by code_simp
  then obtain r t where run: "findById demo_env ''note'' (demo_state demo_outcomes) = (Inr r, t)"
    unfolding is_ok_iff by (metis prod.collapse)
  from github_lookup [OF run] run show ?thesis by blast
qed

text \<open>A loaded catalogue is consistent: unique identifiers, exactly one file revision per artifact, each
  the revision of that artifact's file in the tree of the catalogue's revision, which is the requested
  one when one is requested.\<close>

theorem catalogue_consistent:
  assumes "loadCatalogue env rv s = (Inr cat, t)"
  shows "distinct (map art_id (cat_artifacts cat))
    \<and> dom (cat_fileShas cat) = set (map art_id (cat_artifacts cat))
    \<and> (rv = None \<or> rv = Some (cat_revision cat))
    \<and> (\<exists>tree u v. fetchTree env CapRead (Some (cat_revision cat)) u = (Inr tree, v)
        \<and> (\<forall>a \<in> set (cat_artifacts cat). cat_fileShas cat (art_id a) = entry_sha tree (art_path a))
        \<and> set (map art_path (cat_artifacts cat)) = set (map (the \<circ> te_path) (filter candidate_entry tree)))"
  using assms
proof (rule loadCatalogue_Inr)
  fix tree u v
  assume facts: "fetchTree env CapRead (Some (cat_revision cat)) u = (Inr tree, v)"
    "distinct (map art_id (cat_artifacts cat))" "dom (cat_fileShas cat) = set (map art_id (cat_artifacts cat))"
    "\<forall>a \<in> set (cat_artifacts cat). cat_fileShas cat (art_id a) = entry_sha tree (art_path a)"
    "set (map art_path (cat_artifacts cat)) = set (map (the \<circ> te_path) (filter candidate_entry tree))"
    and rev: "\<forall>r. rv = Some r \<longrightarrow> cat_revision cat = r"
  from rev have "rv = None \<or> rv = Some (cat_revision cat)" by (cases rv) auto
  with facts show ?thesis by blast
qed

theorem catalogue_consistent_witness:
  "\<exists>cat t. loadCatalogue demo_env (Some ''abcdef1'') (demo_state demo_outcomes) = (Inr cat, t)
     \<and> distinct (map art_id (cat_artifacts cat))"
proof -
  have "is_ok (fst (loadCatalogue demo_env (Some ''abcdef1'') (demo_state demo_outcomes)))" by code_simp
  then obtain cat t where run: "loadCatalogue demo_env (Some ''abcdef1'') (demo_state demo_outcomes) = (Inr cat, t)"
    unfolding is_ok_iff by (metis prod.collapse)
  from catalogue_consistent [OF run] run show ?thesis by blast
qed

text \<open>A diagnosis counts every candidate file exactly once, as valid or as invalid, and lists at most
  fifty errors.\<close>

theorem diagnosis_counts:
  assumes "diagnoseCatalogue env rv s = (Inr rep, t)"
  shows "\<exists>tree u v. fetchTree env CapRead (Some (rep_revision rep)) u = (Inr tree, v)
    \<and> rep_validCount rep + int (rep_invalidCount rep) = int (length (filter candidate_entry tree))
    \<and> length (rep_errors rep) \<le> 50"
proof -
  from assms obtain r u tree v results w where
      tree: "fetchTree env CapRead (Some r) u = (Inr tree, v)"
    and run: "mapE (diagnose_entry env) (enumerate 0 (filter candidate_entry tree)) v = (Inr results, w)"
    and rep: "rep = validation_report_of r results"
    unfolding diagnoseCatalogue_def bnd_Inr by (auto split del: option.split)
  have "map fst results = map fst (enumerate 0 (filter candidate_entry tree))"
    by (rule diagnosed_indices [OF run])
  then have "distinct (map fst results)" by simp
  from validation_report_counts [OF this, of r] mapE_Inr_length [OF run]
  have "rep_validCount rep + int (rep_invalidCount rep) = int (length (filter candidate_entry tree))"
    unfolding rep by simp
  moreover have "rep_revision rep = r" "length (rep_errors rep) \<le> 50"
    by (simp_all add: rep validation_report_of_def Let_def)
  ultimately show ?thesis using tree by blast
qed

theorem diagnosis_counts_witness:
  "\<exists>rep t. diagnoseCatalogue demo_env (Some ''abcdef1'') (demo_state demo_outcomes) = (Inr rep, t)
     \<and> length (rep_errors rep) \<le> 50"
proof -
  have "is_ok (fst (diagnoseCatalogue demo_env (Some ''abcdef1'') (demo_state demo_outcomes)))" by code_simp
  then obtain rep t where run: "diagnoseCatalogue demo_env (Some ''abcdef1'') (demo_state demo_outcomes) = (Inr rep, t)"
    unfolding is_ok_iff by (metis prod.collapse)
  from diagnosis_counts [OF run] run show ?thesis by blast
qed

text \<open>The content a write sends is the content a read returns: a blob holding the base64 text of the
  document, with any line breaks GitHub inserts, is decoded to exactly that document, given a UTF-8 decoder
  that reads it back.\<close>

theorem stored_content_round_trip:
  assumes "js_str (js_get v ''encoding'') = Some ''base64''" and "js_str (js_get v ''content'') = Some content"
    and "filter (\<lambda>c. \<not> js_ws c) content = btoa (ascii_bytes markdown)"
    and "utf8_length markdown \<le> MAX_SERIALIZED_ARTIFACT_BYTES" and "js_get v ''size'' = None"
    and "ge_utf8 env (ascii_bytes markdown) = markdown"
  shows "blob_result env v = Inr markdown"
  using blob_result_content [OF assms(1-4), of env] assms(5,6) by (simp add: js_num_def)

theorem stored_content_round_trip_witness:
  "blob_result demo_env (JObj [(''encoding'', JStr ''base64''), (''content'', JStr (''SGVs'' @ [CHR 0x0A] @ ''bG8=''))])
     = Inr ''Hello''"
  by (rule stored_content_round_trip) (code_simp+)

end
