(* ===== verification/File_Repository.thy ===== *)
theory File_Repository
  imports Artifact_Store Artifact_Writes
begin

text \<open>
  The class \<^verbatim>\<open>FileArtifactRepository\<close> of \<^verbatim>\<open>lib/artifact-repository.ts\<close> and the choice of the backend.

  The state is the file tree below the repository directory. A directory keeps its entries in the
  order \<^verbatim>\<open>readdir\<close> returns them; an entry is a regular file with its text, a directory, or
  something else (which the walk skips). Paths are relative to the repository directory. The
  collation of \<^verbatim>\<open>localeCompare\<close> is an argument.
\<close>

section \<open>Definitions\<close>

datatype fs_node = FsFile string | FsDir "(string \<times> fs_node) list" | FsOther

type_synonym fs = "(string \<times> fs_node) list"

subsection \<open>The directory walk\<close>

fun walk_entries :: "string \<Rightarrow> (string \<times> fs_node) list \<Rightarrow> (string \<times> string) list" where
  "walk_entries dir [] = []"
| "walk_entries dir ((name, FsDir entries) # rest) =
     walk_entries (dir @ ''/'' @ name) entries @ walk_entries dir rest"
| "walk_entries dir ((name, FsFile content) # rest) =
     (if suffix ''.md'' name then [(dir @ ''/'' @ name, content)] else []) @ walk_entries dir rest"
| "walk_entries dir ((name, FsOther) # rest) = walk_entries dir rest"

text \<open>A missing directory is empty; anything that is not a directory makes \<^verbatim>\<open>readdir\<close> fail.\<close>

definition walkMarkdownFiles :: "string \<Rightarrow> fs_node option \<Rightarrow> repo_error + (string \<times> string) list" where
  "walkMarkdownFiles dir node =
     (case node of
        None \<Rightarrow> Inr []
      | Some (FsDir entries) \<Rightarrow> Inr (walk_entries dir entries)
      | Some _ \<Rightarrow> Inl PlainError)"

definition file_artifact :: "md_lib \<Rightarrow> string \<times> string \<Rightarrow> repo_error + artifact" where
  "file_artifact lib file =
     (case file of (displayPath, raw) \<Rightarrow>
        if \<not> isSupportedArtifactPath displayPath then Inl PlainError
        else (case parseArtifactMarkdown lib raw displayPath of
                Inl e \<Rightarrow> Inl (ContractFailure e) | Inr a \<Rightarrow> Inr a))"

definition file_list_result ::
  "md_lib \<Rightarrow> (string \<Rightarrow> string \<Rightarrow> int) \<Rightarrow> fs \<Rightarrow> repo_error + artifact list" where
  "file_list_result lib locale fs =
     bindR (mapR (\<lambda>d. walkMarkdownFiles d (map_of fs d)) ARTIFACT_DIRECTORIES) (\<lambda>nested.
     bindR (mapR (file_artifact lib) (concat nested)) (\<lambda>artifacts.
     bindR (lift_contract (validateUniqueArtifactIds artifacts)) (\<lambda>_.
     Inr (js_sort_by (\<lambda>a b. locale (art_title a) (art_title b)) artifacts))))"

definition file_list :: "md_lib \<Rightarrow> (string \<Rightarrow> string \<Rightarrow> int) \<Rightarrow> (fs, repo_error, artifact list) eff" where
  "file_list lib locale fs = (file_list_result lib locale fs, fs)"

definition file_findById ::
  "md_lib \<Rightarrow> (string \<Rightarrow> string \<Rightarrow> int) \<Rightarrow> string \<Rightarrow> (fs, repo_error, artifact option) eff" where
  "file_findById lib locale i =
     bnd (file_list lib locale) (\<lambda>artifacts. ret (js_find (\<lambda>a. art_id a = i) artifacts))"

text \<open>The operations that need GitHub revisions or direct writes.\<close>

definition file_unsupported :: "(fs, repo_error, 'a) eff" where
  "file_unsupported = throw ArtifactRepositoryConfigurationError"

subsection \<open>Writing a variation\<close>

datatype fs_error = FsExists | FsNotDirectory

text \<open>\<^verbatim>\<open>mkdir(dirname, { recursive: true })\<close> followed by \<^verbatim>\<open>writeFile(path, text, { flag: "wx" })\<close>.\<close>

fun fs_put :: "string list \<Rightarrow> string \<Rightarrow> fs \<Rightarrow> fs_error + fs" where
  "fs_put [] content entries = Inl FsNotDirectory"
| "fs_put [name] content entries =
     (if map_of entries name \<noteq> None then Inl FsExists else Inr (entries @ [(name, FsFile content)]))"
| "fs_put (d # e # ds) content entries =
     (case map_of entries d of
        None \<Rightarrow> (case fs_put (e # ds) content [] of
                  Inl err \<Rightarrow> Inl err | Inr sub \<Rightarrow> Inr (entries @ [(d, FsDir sub)]))
      | Some (FsDir sub) \<Rightarrow> (case fs_put (e # ds) content sub of
                  Inl err \<Rightarrow> Inl err | Inr sub' \<Rightarrow> Inr (AList.update d (FsDir sub') entries))
      | Some _ \<Rightarrow> Inl FsNotDirectory)"

fun fs_read :: "string list \<Rightarrow> fs \<Rightarrow> string option" where
  "fs_read [] entries = None"
| "fs_read [name] entries = (case map_of entries name of Some (FsFile t) \<Rightarrow> Some t | _ \<Rightarrow> None)"
| "fs_read (d # e # ds) entries =
     (case map_of entries d of Some (FsDir sub) \<Rightarrow> fs_read (e # ds) sub | _ \<Rightarrow> None)"

definition write_new_file :: "string \<Rightarrow> string \<Rightarrow> (fs, repo_error, unit) eff" where
  "write_new_file target markdown fs =
     (case fs_put (js_split slash target) markdown fs of
        Inl FsExists \<Rightarrow> (Inl ArtifactDuplicateError, fs)
      | Inl FsNotDirectory \<Rightarrow> (Inl PlainError, fs)
      | Inr fs' \<Rightarrow> (Inr (), fs'))"

definition variation_target :: "artifact_type \<Rightarrow> string \<Rightarrow> repo_error + string" where
  "variation_target ty i =
     (case canonicalArtifactWritePath ty i of None \<Rightarrow> Inl ArtifactWriteValidationError | Some p \<Rightarrow> Inr p)"

definition file_createVariation ::
  "md_lib \<Rightarrow> (string \<Rightarrow> string \<Rightarrow> int) \<Rightarrow> artifact \<Rightarrow> string \<Rightarrow> string option \<Rightarrow> int \<Rightarrow> nat list \<Rightarrow>
     (fs, repo_error, string \<times> string) eff" where
  "file_createVariation lib locale source body title now randomBytes =
     bnd (ofSum (prepareVariation source title now randomBytes)) (\<lambda>(i, metadata).
     bnd (ofSum (prepareArtifactWrite lib (metadata_object metadata) (js_trim body))) (\<lambda>(_, markdown).
     bnd (ofSum (variation_target (art_type metadata) i)) (\<lambda>target.
     bnd (file_list lib locale) (\<lambda>artifacts.
     bnd (guardE (\<not> list_ex (\<lambda>a. art_id a = i \<or> art_path a = target) artifacts)
            ArtifactDuplicateError) (\<lambda>_.
     bnd (write_new_file target markdown) (\<lambda>_.
     ret (i, target)))))))"

subsection \<open>The backend\<close>

datatype backend = FileBackend | GithubBackend

definition getArtifactRepositoryBackend :: "string option \<Rightarrow> string option \<Rightarrow> repo_error + backend" where
  "getArtifactRepositoryBackend value nodeEnv =
     (if value = Some ''github'' then Inr GithubBackend
      else if value = Some ''file'' \<and> nodeEnv \<noteq> Some ''production'' then Inr FileBackend
      else if value = Some ''file'' then Inl ArtifactRepositoryConfigurationError
      else if \<not> truthy value \<and> nodeEnv \<noteq> Some ''production'' then Inr FileBackend
      else Inl ArtifactRepositoryConfigurationError)"

record repository_access =
  ra_owner :: string
  ra_repo :: string
  ra_repositoryId :: int

text \<open>The repository a request gets: the file store, or GitHub with owner, name and branch.\<close>

datatype repository_choice = UseFiles | UseGithub string string string

definition createArtifactRepository ::
  "string option \<Rightarrow> string option \<Rightarrow> string option \<Rightarrow> string option \<Rightarrow> string option \<Rightarrow> repository_access \<Rightarrow>
     repo_error + repository_choice" where
  "createArtifactRepository value nodeEnv envOwner envRepo envBranch access =
     bindR (getArtifactRepositoryBackend value nodeEnv) (\<lambda>backend.
       if backend = FileBackend then Inr UseFiles
       else let branch = (case envBranch of None \<Rightarrow> DEFAULT_ARTIFACT_BRANCH | Some b \<Rightarrow> b)
            in if \<not> truthy envOwner \<or> \<not> truthy envRepo \<or> branch = []
               then Inl ArtifactRepositoryConfigurationError
               else if js_lower (ra_owner access) \<noteq> js_lower (the envOwner)
                       \<or> js_lower (ra_repo access) \<noteq> js_lower (the envRepo)
                       \<or> \<not> safe_integer (ra_repositoryId access)
               then Inl ArtifactRepositoryConfigurationError
               else Inr (UseGithub (ra_owner access) (ra_repo access) branch))"

section \<open>Lemmas\<close>

lemma file_artifact_Inr:
  "file_artifact lib f = Inr a \<Longrightarrow> art_path a = fst f \<and> isSupportedArtifactPath (art_path a)"
  by (auto simp: file_artifact_def parse_path split: prod.splits if_splits sum.splits)

lemma supported_nonempty: "isSupportedArtifactPath p \<Longrightarrow> p \<noteq> []"
  by (auto simp: isSupportedArtifactPath_def forward_slashes_def)

lemma file_list_Inr:
  assumes "file_list lib loc fs = (Inr as, t)"
  shows "t = fs" "distinct (map art_id as)" "\<forall>a \<in> set as. isSupportedArtifactPath (art_path a)"
proof -
  show "t = fs" using assms by (simp add: file_list_def)
  obtain files bs where bs: "mapR (file_artifact lib) files = Inr bs"
    and uniq: "is_ok (validateUniqueArtifactIds bs)"
    and as: "as = js_sort_by (\<lambda>a b. loc (art_title a) (art_title b)) bs"
    using assms by (auto simp: file_list_def file_list_result_def bindR_Inr)
  have sup: "isSupportedArtifactPath (art_path a)" if "a \<in> set bs" for a
    using mapR_Inr_in [OF bs that] file_artifact_Inr by blast
  then have "\<forall>a \<in> set bs. art_path a \<noteq> []" using supported_nonempty by blast
  from validateUniqueArtifactIds_iff [OF this] uniq show "distinct (map art_id as)" by (simp add: as)
  show "\<forall>a \<in> set as. isSupportedArtifactPath (art_path a)" using sup by (simp add: as)
qed

interpretation file_store: artifact_store "file_list lib loc" "file_findById lib loc"
  by unfold_locales (auto simp: file_findById_def dest: file_list_Inr)

subsection \<open>Writing\<close>

lemma map_of_update: "map_of (AList.update k v xs) i = (if i = k then Some v else map_of xs i)"
  by (simp add: update_conv)

lemma fs_put_read:
  assumes "fs_put p content entries = Inr entries'"
  shows "fs_read p entries' = Some content" and "fs_read p entries = None"
  using assms
proof (induction p content entries arbitrary: entries' rule: fs_put.induct)
  case (3 d e ds content entries)
  {
    case 1
    then show ?case
      using "3.IH"(1) "3.IH"(3) by (auto simp: map_of_update map_add_def split: option.splits sum.splits fs_node.splits)
  next
    case 2
    then show ?case
      using "3.IH"(2) "3.IH"(4) by (auto split: option.splits sum.splits fs_node.splits)
  }
qed (auto split: if_splits option.splits simp: map_add_def)

lemma fs_read_Nil [simp]: "fs_read q [] = None"
  by (induction q "[] :: fs" rule: fs_read.induct) auto

lemma fs_put_other:
  assumes "fs_put p content entries = Inr entries'" and "q \<noteq> p"
  shows "fs_read q entries' = fs_read q entries"
  using assms
proof (induction p content entries arbitrary: entries' q rule: fs_put.induct)
  case (1 content entries)
  then show ?case by simp
next
  case (2 name content entries)
  then show ?case
    by (cases "(q, entries)" rule: fs_read.cases) (auto simp: map_add_def split: if_splits option.splits)
next
  case (3 d e ds content entries)
  consider (new) sub where "map_of entries d = None" "fs_put (e # ds) content [] = Inr sub"
      "entries' = entries @ [(d, FsDir sub)]"
    | (old) sub sub' where "map_of entries d = Some (FsDir sub)" "fs_put (e # ds) content sub = Inr sub'"
      "entries' = AList.update d (FsDir sub') entries"
    using "3.prems"(1) by (auto split: option.splits sum.splits fs_node.splits)
  then show ?case
  proof cases
    case new
    have "fs_read r sub = None" if "r \<noteq> e # ds" for r
      using "3.IH"(1) [OF new(1) new(2) that] by simp
    with new "3.prems"(2) show ?thesis
      by (cases "(q, entries)" rule: fs_read.cases) (auto simp: map_add_def split: option.splits)
  next
    case old
    have "fs_read r sub' = fs_read r sub" if "r \<noteq> e # ds" for r
      using "3.IH"(2) [OF old(1) _ old(2) that] by simp
    with old "3.prems"(2) show ?thesis
      by (cases "(q, entries)" rule: fs_read.cases) (auto simp: map_of_update split: option.splits fs_node.splits)
  qed
qed

lemma write_new_file_Inr:
  "write_new_file target md fs = (Inr u, fs') \<longleftrightarrow> fs_put (js_split slash target) md fs = Inr fs'"
  by (auto simp: write_new_file_def split: sum.splits fs_error.splits)

lemma write_new_file_Inl: "write_new_file target md fs = (Inl e, fs') \<Longrightarrow> fs' = fs"
  by (auto simp: write_new_file_def split: sum.splits fs_error.splits)

lemma file_createVariation_Inr:
  assumes "file_createVariation lib loc source body title now bytes fs = (Inr (i, target), fs')"
  obtains m md t artifacts where "prepareVariation source title now bytes = Inr (i, m)"
    "prepareArtifactWrite lib (metadata_object m) (js_trim body) = Inr (t, md)"
    "canonicalArtifactWritePath (art_type m) i = Some target"
    "file_list lib loc fs = (Inr artifacts, fs)" "\<forall>a \<in> set artifacts. art_id a \<noteq> i \<and> art_path a \<noteq> target"
    "fs_put (js_split slash target) md fs = Inr fs'"
  using assms that
  by (auto simp: file_createVariation_def variation_target_def bnd_Inr write_new_file_Inr list_ex_iff
      file_list_def split: option.splits prod.splits if_splits)

lemma file_createVariation_Inl:
  assumes "file_createVariation lib loc source body title now bytes fs = (Inl e, fs')"
  shows "fs' = fs"
  using assms
  by (auto simp: file_createVariation_def bnd_Inl file_list_def write_new_file_Inl
      split: prod.splits if_splits)

section \<open>Properties\<close>

text \<open>Creating a variation in the file store either leaves every file as it was (on any error) or adds
  exactly one file, at the canonical path of the variation, where there was none: the file holds the
  prepared document, no listed artifact had its identifier or path, and every other file is
  unchanged.\<close>

theorem file_variation_adds_one_file:
  assumes "file_createVariation lib loc source body title now bytes fs = (r, fs')"
  shows "(\<exists>e. r = Inl e \<and> fs' = fs) \<or>
    (\<exists>i m t md target artifacts. r = Inr (i, target)
       \<and> prepareVariation source title now bytes = Inr (i, m)
       \<and> prepareArtifactWrite lib (metadata_object m) (js_trim body) = Inr (t, md)
       \<and> canonicalArtifactWritePath (art_type m) i = Some target
       \<and> file_list lib loc fs = (Inr artifacts, fs) \<and> i \<notin> set (map art_id artifacts)
       \<and> target \<notin> set (map art_path artifacts)
       \<and> fs_read (js_split slash target) fs = None \<and> fs_read (js_split slash target) fs' = Some md
       \<and> (\<forall>q. q \<noteq> js_split slash target \<longrightarrow> fs_read q fs' = fs_read q fs))"
proof (cases r)
  case (Inl e)
  with assms show ?thesis by (auto dest: file_createVariation_Inl)
next
  case (Inr x)
  obtain i target where x: "x = (i, target)" by (cases x)
  show ?thesis
    by (rule file_createVariation_Inr [OF assms [unfolded Inr x]])
       (use Inr x in \<open>fastforce dest: fs_put_read fs_put_other\<close>)
qed

theorem file_variation_adds_one_file_witness:
  "\<exists>fs' md. file_createVariation demo_lib (\<lambda>a b. 0) demo_source ''Hello'' None 0 [1, 2, 3, 4] [] =
       (Inr (''note-variation-1970-01-01-000000-01020304'', ''prompts/note-variation-1970-01-01-000000-01020304.md''), fs')
     \<and> fs_read [''prompts'', ''note-variation-1970-01-01-000000-01020304.md''] fs' = Some md"
proof -
  let ?run = "file_createVariation demo_lib (\<lambda>a b. 0) demo_source ''Hello'' None 0 [1, 2, 3, 4] []"
  have "fst ?run = Inr (''note-variation-1970-01-01-000000-01020304'', ''prompts/note-variation-1970-01-01-000000-01020304.md'')"
    by code_simp
  then obtain fs' where run: "?run = (Inr (''note-variation-1970-01-01-000000-01020304'',
      ''prompts/note-variation-1970-01-01-000000-01020304.md''), fs')"
    by (metis prod.collapse)
  have "js_split slash ''prompts/note-variation-1970-01-01-000000-01020304.md'' =
      [''prompts'', ''note-variation-1970-01-01-000000-01020304.md'']" by code_simp
  with file_variation_adds_one_file [OF run] run show ?thesis by auto
qed

text \<open>In the file store, too, a lookup returns exactly the artifact of the list with that identifier.\<close>

theorem file_lookup:
  assumes "file_findById lib loc i fs = (Inr r, t)"
  shows "\<exists>as. file_list lib loc fs = (Inr as, t) \<and> distinct (map art_id as)
           \<and> (\<forall>a. r = Some a \<longleftrightarrow> a \<in> set as \<and> art_id a = i) \<and> (r = None \<longleftrightarrow> i \<notin> set (map art_id as))"
  using file_store.find_unique [OF assms] file_store.list_unique by blast

theorem file_lookup_witness:
  "\<exists>r as. file_findById demo_lib (\<lambda>a b. 0) ''note'' [(''prompts'', FsDir [(''note.md'', FsFile ''x'')])] =
      (Inr r, [(''prompts'', FsDir [(''note.md'', FsFile ''x'')])])
     \<and> file_list demo_lib (\<lambda>a b. 0) [(''prompts'', FsDir [(''note.md'', FsFile ''x'')])] =
         (Inr as, [(''prompts'', FsDir [(''note.md'', FsFile ''x'')])]) \<and> distinct (map art_id as)"
proof -
  let ?fs = "[(''prompts'', FsDir [(''note.md'', FsFile ''x'')])]"
  have "is_ok (fst (file_findById demo_lib (\<lambda>a b. 0) ''note'' ?fs))" by code_simp
  then obtain r t where run: "file_findById demo_lib (\<lambda>a b. 0) ''note'' ?fs = (Inr r, t)"
    unfolding is_ok_iff by (metis prod.collapse)
  then have "t = ?fs" by (auto simp: file_findById_def bnd_Inr file_list_def)
  with file_lookup [OF run] run show ?thesis by auto
qed

end
