(* ===== verification/Auth_Core.thy ===== *)
theory Auth_Core
  imports Github_App
begin

text \<open>
  \<^verbatim>\<open>lib/auth-core.ts\<close>: cookie names and options, random tokens, the constant-time comparison, the
  validation of return targets, of GitHub identities and of stored sessions; with the functions of
  the platform that \<open>safeReturnTo\<close> is built on: \<^verbatim>\<open>decodeURIComponent\<close> and the path part of the WHATWG
  \<^verbatim>\<open>URL\<close> parser for a path-absolute input.

  \<open>decodeURIComponent\<close> is given on the Latin-1 alphabet of the development; an escape sequence that
  decodes to a code point above 255 is answered like a malformed one. The host parser is not
  modelled: whether an authority denotes the application's own origin is the argument \<open>own_host\<close>.
\<close>

unbundle bit_operations_syntax

section \<open>Definitions\<close>

subsection \<open>Cookies and tokens\<close>

record cookie_names =
  cn_session :: string
  cn_state :: string
  cn_returnTo :: string
  cn_pkce :: string

definition productionNames :: cookie_names where
  "productionNames =
     \<lparr>cn_session = ''__Host-adt_session'', cn_state = ''__Host-adt_oauth_state'',
      cn_returnTo = ''__Host-adt_oauth_return'', cn_pkce = ''__Host-adt_pkce_verifier''\<rparr>"

definition developmentNames :: cookie_names where
  "developmentNames =
     \<lparr>cn_session = ''adt_session'', cn_state = ''adt_oauth_state'',
      cn_returnTo = ''adt_oauth_return'', cn_pkce = ''adt_pkce_verifier''\<rparr>"

definition cookieNames :: "string option \<Rightarrow> cookie_names" where
  "cookieNames nodeEnv = (if nodeEnv = Some ''production'' then productionNames else developmentNames)"

record auth_cookie =
  ck_httpOnly :: bool
  ck_secure :: bool
  ck_sameSite :: string
  ck_path :: string
  ck_maxAge :: int

definition cookieOptions :: "int \<Rightarrow> string option \<Rightarrow> auth_cookie" where
  "cookieOptions maxAge nodeEnv =
     \<lparr>ck_httpOnly = True, ck_secure = (nodeEnv = Some ''production''), ck_sameSite = ''lax'', ck_path = ''/'',
      ck_maxAge = maxAge\<rparr>"

definition sessionTtlSeconds :: int where
  "sessionTtlSeconds = 60 * 60 * 8"

definition oauthStateTtlSeconds :: int where
  "oauthStateTtlSeconds = 60 * 10"

text \<open>The bytes come from the platform's random source.\<close>

definition randomToken :: "nat list \<Rightarrow> string" where
  "randomToken bytes = hex_bytes bytes"

fun xor_chars :: "nat \<Rightarrow> string \<Rightarrow> string \<Rightarrow> nat" where
  "xor_chars result (a # as) (b # bs) = xor_chars (result OR (code a XOR code b)) as bs"
| "xor_chars result _ _ = result"

definition constantTimeEqual :: "string option \<Rightarrow> string option \<Rightarrow> bool" where
  "constantTimeEqual left right =
     (if \<not> truthy left \<or> \<not> truthy right \<or> length (the left) \<noteq> length (the right) then False
      else xor_chars 0 (the left) (the right) = 0)"

subsection \<open>Return targets\<close>

definition hex_value :: "char \<Rightarrow> nat option" where
  "hex_value c =
     (if digit c then Some (code c - 48)
      else if 97 \<le> code c \<and> code c \<le> 102 then Some (code c - 87)
      else if 65 \<le> code c \<and> code c \<le> 70 then Some (code c - 55) else None)"

definition escaped_byte :: "char \<Rightarrow> char \<Rightarrow> nat option" where
  "escaped_byte a b =
     (case (hex_value a, hex_value b) of (Some x, Some y) \<Rightarrow> Some (16 * x + y) | _ \<Rightarrow> None)"

text \<open>The continuation byte of a two-byte sequence, and the text after it.\<close>

definition continuation :: "string \<Rightarrow> (nat \<times> string) option" where
  "continuation s =
     (case s of
        p # a # b # rest \<Rightarrow>
          if p = CHR ''%'' then
            (case escaped_byte a b of
               Some y \<Rightarrow> if 128 \<le> y \<and> y < 192 then Some (y - 128, rest) else None
             | None \<Rightarrow> None)
          else None
      | _ \<Rightarrow> None)"

lemma continuation_shorter [termination_simp]: "continuation s = Some (y, rest) \<Longrightarrow> length rest < length s"
  by (auto simp: continuation_def split: list.splits if_splits option.splits)

fun decodeURIComponent :: "string \<Rightarrow> string option" where
  "decodeURIComponent [] = Some []"
| "decodeURIComponent (c # cs) =
     (if c \<noteq> CHR ''%'' then map_option (Cons c) (decodeURIComponent cs)
      else (case cs of
              a # b # rest \<Rightarrow>
                (case escaped_byte a b of
                   None \<Rightarrow> None
                 | Some x \<Rightarrow>
                     if x < 128 then map_option (Cons (char_of x)) (decodeURIComponent rest)
                     else if x = 194 \<or> x = 195 then
                       (case continuation rest of
                          None \<Rightarrow> None
                        | Some (y, rest') \<Rightarrow>
                            map_option (Cons (char_of ((x - 192) * 64 + y))) (decodeURIComponent rest'))
                     else None)
            | _ \<Rightarrow> None))"

text \<open>Percent-encoding of one code unit when it is in a set.\<close>

definition url_encode :: "(char \<Rightarrow> bool) \<Rightarrow> string \<Rightarrow> string" where
  "url_encode enc s =
     concat (map (\<lambda>c. if enc c then concat (map percent_byte (utf8_bytes c)) else [c]) s)"

definition c0_or_high :: "char \<Rightarrow> bool" where
  "c0_or_high c = (code c < 32 \<or> 126 < code c)"

definition query_set :: "char \<Rightarrow> bool" where
  "query_set c = (c0_or_high c \<or> code c \<in> {32, 34, 35, 60, 62, 39})"

definition path_set :: "char \<Rightarrow> bool" where
  "path_set c = (c0_or_high c \<or> code c \<in> {32, 34, 35, 60, 62, 63, 94, 96, 123, 125})"

definition fragment_set :: "char \<Rightarrow> bool" where
  "fragment_set c = (c0_or_high c \<or> code c \<in> {32, 34, 60, 62, 96})"

definition single_dot :: "string \<Rightarrow> bool" where
  "single_dot s = (js_lower s \<in> {''.'', ''%2e''})"

definition double_dot :: "string \<Rightarrow> bool" where
  "double_dot s = (js_lower s \<in> {''..'', ''.%2e'', ''%2e.'', ''%2e%2e''})"

text \<open>The path state over the segments, with the path so far in reverse.\<close>

fun url_segments :: "string list \<Rightarrow> string list \<Rightarrow> string list" where
  "url_segments acc [] = rev acc"
| "url_segments acc [s] =
     (if double_dot s then rev ([] # tl acc) else if single_dot s then rev ([] # acc) else rev (s # acc))"
| "url_segments acc (s # t # rest) =
     (if double_dot s then url_segments (tl acc) (t # rest)
      else if single_dot s then url_segments acc (t # rest)
      else url_segments (s # acc) (t # rest))"

definition path_end :: "char \<Rightarrow> bool" where
  "path_end c = (c = CHR ''?'' \<or> c = CHR ''#'')"

definition url_pathname :: "string \<Rightarrow> string" where
  "url_pathname s =
     concat (map (Cons (CHR ''/''))
       (url_segments [] (map (url_encode path_set) (js_split (CHR ''/'') (drop 1 (takeWhile (\<lambda>c. \<not> path_end c) s))))))"

definition url_search :: "string \<Rightarrow> string" where
  "url_search s =
     (let rest = dropWhile (\<lambda>c. \<not> path_end c) s;
          query = url_encode query_set (takeWhile (\<lambda>c. c \<noteq> CHR ''#'') (drop 1 rest))
      in if rest \<noteq> [] \<and> hd rest = CHR ''?'' \<and> query \<noteq> [] then CHR ''?'' # query else [])"

definition url_hash :: "string \<Rightarrow> string" where
  "url_hash s =
     (let fragment = url_encode fragment_set (drop 1 (dropWhile (\<lambda>c. c \<noteq> CHR ''#'') s))
      in if fragment = [] then [] else CHR ''#'' # fragment)"

text \<open>What the parser removes before it starts: control characters and blanks at the ends, tabs and line
  breaks anywhere.\<close>

definition url_clean :: "string \<Rightarrow> string" where
  "url_clean s = filter (\<lambda>c. code c \<notin> {9, 10, 13}) (strip (\<lambda>c. code c \<le> 32) s)"

text \<open>The text from the path on: the whole input, or what follows an authority of the own origin.\<close>

definition url_local :: "(string \<Rightarrow> bool) \<Rightarrow> string \<Rightarrow> string option" where
  "url_local own_host s =
     (if prefix ''//'' s
      then let rest = dropWhile (\<lambda>c. c = CHR ''/'') s;
               authority = takeWhile (\<lambda>c. \<not> path_end c \<and> c \<noteq> CHR ''/'') rest
           in if own_host authority
              then Some (let after = drop (length authority) rest
                         in if prefix ''/'' after then after else CHR ''/'' # after)
              else None
      else Some s)"

definition safeReturnTo :: "(string \<Rightarrow> bool) \<Rightarrow> string option \<Rightarrow> string" where
  "safeReturnTo own_host value =
     (if \<not> truthy value then ''/''
      else case decodeURIComponent (the value) of
        None \<Rightarrow> ''/''
      | Some decoded \<Rightarrow>
          if \<not> prefix ''/'' decoded \<or> prefix ''//'' decoded then ''/''
          else if CHR 0x5C \<in> set decoded \<or> CHR 0x00 \<in> set decoded then ''/''
          else if prefix ''/auth/'' decoded \<or> prefix ''/sign-in'' decoded then ''/''
          else (case url_local own_host (url_clean decoded) of
                  None \<Rightarrow> ''/''
                | Some s \<Rightarrow> url_pathname s @ url_search s @ url_hash s))"

subsection \<open>Identities and sessions\<close>

record github_user =
  gu_id :: int
  gu_login :: string
  gu_name :: "string option"
  gu_avatarUrl :: "string option"

definition js_nonempty :: "js_value option \<Rightarrow> string option" where
  "js_nonempty v = (case js_str v of Some s \<Rightarrow> (if s = [] then None else Some s) | None \<Rightarrow> None)"

definition js_safe_int :: "js_value option \<Rightarrow> int option" where
  "js_safe_int v = (case js_num v of Some n \<Rightarrow> (if safe_integer n then Some n else None) | None \<Rightarrow> None)"

text \<open>\<open>None\<close> is the error \<^verbatim>\<open>github_identity_failed\<close>.\<close>

definition validateGitHubUser :: "js_value \<Rightarrow> github_user option" where
  "validateGitHubUser value =
     (case (js_safe_int (js_get value ''id''), js_nonempty (js_get value ''login'')) of
        (Some i, Some login) \<Rightarrow>
          Some \<lparr>gu_id = i, gu_login = login, gu_name = js_nonempty (js_get value ''name''),
                gu_avatarUrl = js_nonempty (js_get value ''avatar_url'')\<rparr>
      | _ \<Rightarrow> None)"

datatype auth_state = Authorized | Denied

datatype denial_reason = DenyConfiguration | DenyAllowlist | DenyAppAccess | DenyUserAccess | DenyTemporary

record repository_authorization =
  au_state :: auth_state
  au_denialReason :: "denial_reason option"
  au_owner :: string
  au_repo :: string
  au_repositoryId :: "int option"
  au_installationId :: "int option"
  au_login :: string
  au_githubId :: int
  au_checkedAt :: int

record session_record =
  se_id :: string
  se_githubId :: int
  se_login :: string
  se_name :: "string option"
  se_avatarUrl :: "string option"
  se_expiresAt :: int
  se_createdAt :: "int option"
  se_revokedAt :: "int option"
  se_authorization :: repository_authorization
  se_encryptedUserAccessToken :: "string option"
  se_userAccessTokenExpiresAt :: "int option"
  se_tokenIv :: "string option"

fun auth_state_name :: "auth_state \<Rightarrow> string" where
  "auth_state_name Authorized = ''authorized''"
| "auth_state_name Denied = ''denied''"

fun denial_reason_name :: "denial_reason \<Rightarrow> string" where
  "denial_reason_name DenyConfiguration = ''configuration''"
| "denial_reason_name DenyAllowlist = ''allowlist''"
| "denial_reason_name DenyAppAccess = ''app_access''"
| "denial_reason_name DenyUserAccess = ''user_access''"
| "denial_reason_name DenyTemporary = ''temporary_unavailable''"

definition opt_field :: "string \<Rightarrow> ('a \<Rightarrow> js_value) \<Rightarrow> 'a option \<Rightarrow> (string \<times> js_value) list" where
  "opt_field k f v = (case v of None \<Rightarrow> [] | Some x \<Rightarrow> [(k, f x)])"

definition authorization_object :: "repository_authorization \<Rightarrow> js_value" where
  "authorization_object a =
     JObj ([(''state'', JStr (auth_state_name (au_state a)))]
           @ opt_field ''denialReason'' (JStr \<circ> denial_reason_name) (au_denialReason a)
           @ [(''owner'', JStr (au_owner a)), (''repo'', JStr (au_repo a))]
           @ opt_field ''repositoryId'' JNum (au_repositoryId a)
           @ opt_field ''installationId'' JNum (au_installationId a)
           @ [(''login'', JStr (au_login a)), (''githubId'', JNum (au_githubId a)), (''checkedAt'', JNum (au_checkedAt a))])"

text \<open>\<^verbatim>\<open>serializeSession\<close>: the object that is written; \<^verbatim>\<open>undefined\<close> members are left out.\<close>

definition serializeSession :: "session_record \<Rightarrow> js_value" where
  "serializeSession s =
     JObj ([(''id'', JStr (se_id s)), (''githubId'', JNum (se_githubId s)), (''login'', JStr (se_login s))]
           @ opt_field ''name'' JStr (se_name s) @ opt_field ''avatarUrl'' JStr (se_avatarUrl s)
           @ opt_field ''createdAt'' JNum (se_createdAt s) @ [(''expiresAt'', JNum (se_expiresAt s))]
           @ opt_field ''revokedAt'' JNum (se_revokedAt s)
           @ [(''repositoryAuthorization'', authorization_object (se_authorization s))]
           @ opt_field ''encryptedUserAccessToken'' JStr (se_encryptedUserAccessToken s)
           @ opt_field ''userAccessTokenExpiresAt'' JNum (se_userAccessTokenExpiresAt s)
           @ opt_field ''tokenIv'' JStr (se_tokenIv s))"

text \<open>\<^verbatim>\<open>parseSession\<close> on the decoded object: whether it is accepted. The accepted value is the object
  itself.\<close>

definition parseSession :: "js_value \<Rightarrow> int \<Rightarrow> js_value option" where
  "parseSession parsed now =
     (if js_nonempty (js_get parsed ''id'') = None then None
      else if js_safe_int (js_get parsed ''githubId'') = None then None
      else if js_nonempty (js_get parsed ''login'') = None then None
      else if (case js_num (js_get parsed ''expiresAt'') of None \<Rightarrow> True | Some e \<Rightarrow> e \<le> now) then None
      else (case js_get parsed ''repositoryAuthorization'' of
              Some (JObj kvs) \<Rightarrow>
                let authorization = JObj kvs
                in if js_nonempty (js_get authorization ''owner'') = None then None
                   else if js_nonempty (js_get authorization ''repo'') = None then None
                   else if js_nonempty (js_get authorization ''login'') = None then None
                   else if js_str (js_get authorization ''state'') \<notin> {Some ''authorized'', Some ''denied''} then None
                   else if js_safe_int (js_get authorization ''githubId'') = None then None
                   else if js_num (js_get authorization ''checkedAt'') = None then None
                   else Some parsed
            | _ \<Rightarrow> None))"

section \<open>Lemmas\<close>

subsection \<open>Comparison\<close>

lemma xor_eq_0: "(a :: nat) XOR b = 0 \<longleftrightarrow> a = b"
proof
  assume "a XOR b = 0"
  then have "bit a n = bit b n" for n
    by (metis bit_0_eq bit_xor_iff bot_apply bot_bool_def)
  then show "a = b" by (simp add: bit_eq_iff)
qed simp

lemma xor_chars_zero:
  "length l = length r \<Longrightarrow> xor_chars acc l r = 0 \<longleftrightarrow> acc = 0 \<and> l = r"
  by (induction acc l r rule: xor_chars.induct) (auto simp: or_eq_0_iff xor_eq_0 code_def)

lemma constantTimeEqual_iff:
  "constantTimeEqual l r \<longleftrightarrow> l = r \<and> truthy l"
  by (auto simp: constantTimeEqual_def truthy_def xor_chars_zero split: option.splits)

subsection \<open>Return targets\<close>

lemma url_segments_nonempty: "ss \<noteq> [] \<Longrightarrow> url_segments acc ss \<noteq> []"
  by (induction acc ss rule: url_segments.induct) auto

lemma url_pathname_slash: "\<exists>rest. url_pathname s = CHR ''/'' # rest"
proof -
  have "url_segments [] (map (url_encode path_set)
      (js_split (CHR ''/'') (drop 1 (takeWhile (\<lambda>c. \<not> path_end c) s)))) \<noteq> []"
    by (rule url_segments_nonempty) (metis js_split_not_Nil list.map_disc_iff)
  then show ?thesis
    by (cases "url_segments [] (map (url_encode path_set)
      (js_split (CHR ''/'') (drop 1 (takeWhile (\<lambda>c. \<not> path_end c) s))))") (auto simp: url_pathname_def)
qed

lemma safeReturnTo_slash: "\<exists>rest. safeReturnTo own v = CHR ''/'' # rest"
  using url_pathname_slash
  by (auto simp: safeReturnTo_def split: option.splits) (metis append_Cons)

text \<open>When no segment is a dot segment the path is rebuilt as it was.\<close>

definition no_dots :: "string list \<Rightarrow> bool" where
  "no_dots ss = list_all (\<lambda>s. \<not> single_dot s \<and> \<not> double_dot s) ss"

lemma url_segments_no_dots: "no_dots ss \<Longrightarrow> url_segments acc ss = rev acc @ ss"
  by (induction acc ss rule: url_segments.induct) (auto simp: no_dots_def)

definition url_path_segments :: "string \<Rightarrow> string list" where
  "url_path_segments s =
     map (url_encode path_set) (js_split (CHR ''/'') (drop 1 (takeWhile (\<lambda>c. \<not> path_end c) s)))"

lemma url_encode_Nil: "url_encode enc s = [] \<longleftrightarrow> s = []"
proof -
  have "\<exists>c' rest. (if enc c then concat (map percent_byte (utf8_bytes c)) else [c]) = c' # rest" for c
    by (simp add: utf8_bytes_def percent_byte_def)
  then show ?thesis
    by (cases s) (auto simp del: concat_eq_Nil_conv simp: url_encode_def, metis append_is_Nil_conv list.distinct(1))
qed

lemma url_search_hash: "url_search s @ url_hash s \<noteq> [] \<Longrightarrow> hd (url_search s @ url_hash s) \<noteq> CHR ''/''"
  by (auto simp: url_search_def url_hash_def Let_def)

lemma concat_slashes_double:
  assumes "ss \<noteq> []" and "r \<noteq> [] \<Longrightarrow> hd r \<noteq> CHR ''/''"
  shows "prefix ''//'' (concat (map (Cons (CHR ''/'')) ss) @ r) \<longleftrightarrow>
           (hd ss = [] \<and> 1 < length ss) \<or> (hd ss \<noteq> [] \<and> hd (hd ss) = CHR ''/'')"
proof -
  obtain s ss' where ss: "ss = s # ss'" using assms(1) by (cases ss) auto
  show ?thesis
  proof (cases s)
    case Nil
    then show ?thesis using assms(2) by (cases ss'; cases r) (auto simp: ss)
  next
    case (Cons c cs)
    then show ?thesis by (auto simp: ss)
  qed
qed

lemma url_encode_hd: "s \<noteq> [] \<Longrightarrow> hd s \<noteq> CHR ''/'' \<Longrightarrow> hd (url_encode enc s) \<noteq> CHR ''/''"
  by (cases s) (auto simp: url_encode_def utf8_bytes_def percent_byte_def)

lemma url_pathname_local:
  assumes dots: "no_dots (url_path_segments s)" and one: "prefix ''/'' s" and two: "\<not> prefix ''//'' s"
  shows "\<not> prefix ''//'' (url_pathname s @ url_search s @ url_hash s)"
proof -
  let ?p = "drop 1 (takeWhile (\<lambda>c. \<not> path_end c) s)"
  let ?ss = "url_path_segments s"
  have path: "url_pathname s = concat (map (Cons (CHR ''/'')) ?ss)"
    using url_segments_no_dots [OF dots, of "[]"] by (simp add: url_pathname_def url_path_segments_def)
  have ne: "?ss \<noteq> []" by (simp add: url_path_segments_def)
  have hd_split: "hd ?ss = url_encode path_set (hd (js_split (CHR ''/'') ?p))"
    by (simp add: url_path_segments_def hd_map)
  have no_slash: "?p = [] \<or> hd ?p \<noteq> CHR ''/''"
    using one two by (cases s; cases "tl s") (auto simp: path_end_def)
  have "\<not> (hd ?ss = [] \<and> 1 < length ?ss)"
  proof
    assume "hd ?ss = [] \<and> 1 < length ?ss"
    then have "hd (js_split (CHR ''/'') ?p) = []" and len: "1 < length (js_split (CHR ''/'') ?p)"
      unfolding hd_split url_encode_Nil by (simp_all add: url_path_segments_def)
    then have "?p = []" using no_slash by (auto simp: js_split_hd_Nil)
    with len show False by simp
  qed
  moreover have "hd (hd ?ss) \<noteq> CHR ''/''" if "hd ?ss \<noteq> []"
  proof -
    let ?w = "hd (js_split (CHR ''/'') ?p)"
    have w: "?w \<noteq> []" using that unfolding hd_split url_encode_Nil .
    have "CHR ''/'' \<notin> set ?w" by (rule js_split_no_sep [of _ _ ?p]) simp
    with w have "hd ?w \<noteq> CHR ''/''" by (metis list.set_sel(1))
    with w show ?thesis unfolding hd_split by (rule url_encode_hd)
  qed
  ultimately show ?thesis
    unfolding path using concat_slashes_double [OF ne url_search_hash] by blast
qed

lemma url_clean_plain:
  assumes "\<forall>c \<in> set d. code c \<notin> {9, 10, 13}" and "prefix ''/'' d" and "\<not> prefix ''//'' d"
  shows "prefix ''/'' (url_clean d) \<and> \<not> prefix ''//'' (url_clean d)"
proof -
  obtain rest where d: "d = CHR ''/'' # rest" using assms(2) by (auto simp: prefix_def)
  let ?low = "\<lambda>c. code c \<le> 32"
  have slash: "\<not> ?low (CHR ''/'')" by (simp add: code_def)
  have strip: "strip ?low d = strip_end ?low d" using slash by (simp add: strip_def d)
  have "set (strip_end ?low d) \<subseteq> set d" by (rule set_strip_end)
  then have "url_clean d = strip_end ?low d"
    unfolding url_clean_def strip using assms(1) by (intro filter_True) blast
  moreover have pre: "prefix (strip_end ?low d) d" by (rule strip_end_prefix)
  moreover have "strip_end ?low d \<noteq> []" using slash by (simp add: strip_end_eq_Nil d)
  moreover have "hd (strip_end ?low d) = CHR ''/''"
    using strip_end_hd [of ?low d] \<open>strip_end ?low d \<noteq> []\<close> by (simp add: d)
  moreover have "\<not> prefix ''//'' (strip_end ?low d)"
    using assms(3) pre by (blast intro: prefix_order.trans)
  ultimately show ?thesis
    by (cases "strip_end ?low d") auto
qed

lemma prefix_slash_only: "\<not> prefix ''//'' ''/''" by simp

section \<open>Properties\<close>

text \<open>The comparison of tokens decides equality of non-empty strings: it accepts exactly when both are
  present, non-empty and the same.\<close>

theorem constant_time_equal_correct: "constantTimeEqual l r \<longleftrightarrow> l = r \<and> truthy l"
  by (rule constantTimeEqual_iff)

text \<open>A return target whose path has no dot segments and no tab or line break stays on the site: the
  result starts with one slash and not with two. Every result starts with a slash.\<close>

theorem safe_return_to_local:
  assumes "decodeURIComponent v = Some d" and "\<forall>c \<in> set d. code c \<notin> {9, 10, 13}"
    and "no_dots (url_path_segments (url_clean d))"
  shows "prefix ''/'' (safeReturnTo own (Some v)) \<and> \<not> prefix ''//'' (safeReturnTo own (Some v))"
proof
  show "prefix ''/'' (safeReturnTo own (Some v))"
    using safeReturnTo_slash [of own "Some v"] by (auto simp: prefix_def)
  show "\<not> prefix ''//'' (safeReturnTo own (Some v))"
  proof (cases "safeReturnTo own (Some v) = ''/''")
    case False
    then have d: "prefix ''/'' d" "\<not> prefix ''//'' d"
      using assms(1) by (auto simp: safeReturnTo_def split: if_splits option.splits)
    note clean = url_clean_plain [OF assms(2) d]
    then have "url_local own (url_clean d) = Some (url_clean d)" by (simp add: url_local_def)
    with False assms(1) have "safeReturnTo own (Some v) =
        url_pathname (url_clean d) @ url_search (url_clean d) @ url_hash (url_clean d)"
      by (auto simp: safeReturnTo_def split: if_splits)
    with url_pathname_local [OF assms(3)] clean show ?thesis by simp
  qed simp
qed

theorem safe_return_to_local_witness:
  "\<not> prefix ''//'' (safeReturnTo (\<lambda>h. False) (Some ''/artifacts/a.b?x=1''))"
proof -
  have "decodeURIComponent ''/artifacts/a.b?x=1'' = Some ''/artifacts/a.b?x=1''" by code_simp
  moreover have "\<forall>c \<in> set ''/artifacts/a.b?x=1''. code c \<notin> {9, 10, 13}" by code_simp
  moreover have "no_dots (url_path_segments (url_clean ''/artifacts/a.b?x=1''))" by code_simp
  ultimately show ?thesis by (rule conjunct2 [OF safe_return_to_local])
qed

text \<open>A dot segment defeats the check: the parser removes it after the test for a double slash, so a
  target that names another host comes out. The value is checked three times on the way through
  sign-in (in the start route, when the cookie is set and when it is read); an escape that each
  pass decodes once survives all three, and the final result is the protocol-relative address of another
  host.\<close>

theorem safe_return_to_open_redirect:
  "safeReturnTo own (Some ''/.//evil.example'') = ''//evil.example''
   \<and> safeReturnTo own (Some (safeReturnTo own (Some (safeReturnTo own (Some ''/%2525252e//evil.example'')))))
       = ''//evil.example''"
proof -
  have local: "url_local own s = Some s" if "\<not> prefix ''//'' s" for s
    using that by (simp add: url_local_def)
  have step: "safeReturnTo own (Some v) = url_pathname (url_clean d) @ url_search (url_clean d) @ url_hash (url_clean d)"
    if "v \<noteq> []" "decodeURIComponent v = Some d" "prefix ''/'' d" "\<not> prefix ''//'' d" "CHR 0x5C \<notin> set d"
      "CHR 0x00 \<notin> set d" "\<not> prefix ''/auth/'' d" "\<not> prefix ''/sign-in'' d" "\<not> prefix ''//'' (url_clean d)" for v d
    using that by (simp add: safeReturnTo_def truthy_def local)
  have 1: "safeReturnTo own (Some ''/.//evil.example'') = ''//evil.example''"
    by (subst step [of _ "''/.//evil.example''"]) (code_simp+)
  have 2: "safeReturnTo own (Some ''/%25252e//evil.example'') = ''/%252e//evil.example''"
    by (subst step [of _ "''/%252e//evil.example''"]) (code_simp+)
  have 3: "safeReturnTo own (Some ''/%252e//evil.example'') = ''//evil.example''"
    by (subst step [of _ "''/%2e//evil.example''"]) (code_simp+)
  have 4: "safeReturnTo own (Some ''/%2525252e//evil.example'') = ''/%25252e//evil.example''"
    by (subst step [of _ "''/%25252e//evil.example''"]) (code_simp+)
  show ?thesis unfolding 4 2 3 using 1 by simp
qed

end
