(* ===== verification/Session_Store.thy ===== *)
theory Session_Store
  imports Auth_Core
begin

text \<open>
  \<^verbatim>\<open>lib/auth-session-store.ts\<close>: the table \<^verbatim>\<open>auth_sessions\<close> and the four statements that touch it. The table
  is a finite map from the stored identifier, the primary key, to a row. The stored identifier is
  the HMAC of the session identifier under the session secret; the HMAC is the argument \<open>hmac\<close>.

  The locale \<open>session_store\<close> states what the rest of the program relies on: an inserted session is found
  until it expires or is revoked, an update keeps it alive but cannot revive it, and operations on
  one stored identifier do not touch another. \<open>store_step\<close> is the table's history: any sequence of the
  three writing statements, with any arguments.
\<close>

section \<open>Definitions\<close>

record session_row =
  rw_githubId :: int
  rw_login :: string
  rw_name :: "string option"
  rw_avatarUrl :: "string option"
  rw_expiresAt :: int
  rw_createdAt :: int
  rw_revokedAt :: "int option"
  rw_authorizationState :: auth_state
  rw_denialReason :: "denial_reason option"
  rw_repositoryOwner :: string
  rw_repositoryName :: string
  rw_repositoryId :: "int option"
  rw_installationId :: "int option"
  rw_authorizationCheckedAt :: int
  rw_encryptedUserAccessToken :: "string option"
  rw_userAccessTokenExpiresAt :: "int option"
  rw_tokenIv :: "string option"

type_synonym session_db = "string \<rightharpoonup> session_row"

datatype store_error = UniqueConstraint | ActiveSessionUpdateFailed

definition hashSessionId :: "(string \<Rightarrow> string \<Rightarrow> nat list) \<Rightarrow> string \<Rightarrow> string \<Rightarrow> string" where
  "hashSessionId hmac i secret = hex_bytes (hmac secret i)"

definition row_session :: "string \<Rightarrow> session_row \<Rightarrow> session_record" where
  "row_session i r =
     \<lparr>se_id = i, se_githubId = rw_githubId r, se_login = rw_login r, se_name = rw_name r,
      se_avatarUrl = rw_avatarUrl r, se_expiresAt = rw_expiresAt r, se_createdAt = Some (rw_createdAt r),
      se_revokedAt = rw_revokedAt r,
      se_authorization =
        \<lparr>au_state = rw_authorizationState r, au_denialReason = rw_denialReason r,
         au_owner = rw_repositoryOwner r, au_repo = rw_repositoryName r, au_repositoryId = rw_repositoryId r,
         au_installationId = rw_installationId r, au_login = rw_login r, au_githubId = rw_githubId r,
         au_checkedAt = rw_authorizationCheckedAt r\<rparr>,
      se_encryptedUserAccessToken = rw_encryptedUserAccessToken r,
      se_userAccessTokenExpiresAt = rw_userAccessTokenExpiresAt r, se_tokenIv = rw_tokenIv r\<rparr>"

text \<open>The session is written out and parsed again; the parser decides whether it is accepted, and the
  accepted object has the fields that were written.\<close>

definition rowToSession :: "string \<Rightarrow> session_row \<Rightarrow> int \<Rightarrow> session_record option" where
  "rowToSession i r now =
     (case parseSession (serializeSession (row_session i r)) now of
        None \<Rightarrow> None | Some _ \<Rightarrow> Some (row_session i r))"

definition new_row :: "session_record \<Rightarrow> int \<Rightarrow> session_row" where
  "new_row session now =
     (let auth = se_authorization session
      in \<lparr>rw_githubId = se_githubId session, rw_login = se_login session, rw_name = se_name session,
          rw_avatarUrl = se_avatarUrl session, rw_expiresAt = se_expiresAt session,
          rw_createdAt = (case se_createdAt session of Some t \<Rightarrow> t | None \<Rightarrow> now), rw_revokedAt = None,
          rw_authorizationState = au_state auth, rw_denialReason = au_denialReason auth,
          rw_repositoryOwner = au_owner auth, rw_repositoryName = au_repo auth,
          rw_repositoryId = au_repositoryId auth, rw_installationId = au_installationId auth,
          rw_authorizationCheckedAt = au_checkedAt auth,
          rw_encryptedUserAccessToken = se_encryptedUserAccessToken session,
          rw_userAccessTokenExpiresAt = se_userAccessTokenExpiresAt session, rw_tokenIv = se_tokenIv session\<rparr>)"

definition insertSession ::
  "(string \<Rightarrow> string \<Rightarrow> nat list) \<Rightarrow> string \<Rightarrow> session_record \<Rightarrow> int \<Rightarrow> (session_db, store_error, string) eff" where
  "insertSession hmac secret session now db =
     (let storedId = hashSessionId hmac (se_id session) secret
      in if db storedId \<noteq> None then (Inl UniqueConstraint, db)
         else (Inr storedId, db(storedId \<mapsto> new_row session now)))"

definition authorized_row :: "session_record \<Rightarrow> session_row \<Rightarrow> session_row" where
  "authorized_row session r =
     (let auth = se_authorization session
      in r\<lparr>rw_authorizationState := au_state auth, rw_denialReason := au_denialReason auth,
           rw_repositoryOwner := au_owner auth, rw_repositoryName := au_repo auth,
           rw_repositoryId := au_repositoryId auth, rw_installationId := au_installationId auth,
           rw_authorizationCheckedAt := au_checkedAt auth,
           rw_encryptedUserAccessToken := se_encryptedUserAccessToken session,
           rw_userAccessTokenExpiresAt := se_userAccessTokenExpiresAt session, rw_tokenIv := se_tokenIv session\<rparr>)"

definition updateSessionAuthorization ::
  "(string \<Rightarrow> string \<Rightarrow> nat list) \<Rightarrow> string \<Rightarrow> session_record \<Rightarrow> (session_db, store_error, unit) eff" where
  "updateSessionAuthorization hmac secret session db =
     (let storedId = hashSessionId hmac (se_id session) secret
      in case db storedId of
           None \<Rightarrow> (Inl ActiveSessionUpdateFailed, db)
         | Some r \<Rightarrow>
             if rw_revokedAt r \<noteq> None then (Inl ActiveSessionUpdateFailed, db)
             else (Inr (), db(storedId \<mapsto> authorized_row session r)))"

definition findSession ::
  "(string \<Rightarrow> string \<Rightarrow> nat list) \<Rightarrow> string \<Rightarrow> session_db \<Rightarrow> string \<Rightarrow> int \<Rightarrow> session_record option" where
  "findSession hmac secret db i now =
     (case db (hashSessionId hmac i secret) of
        None \<Rightarrow> None
      | Some r \<Rightarrow> if rw_revokedAt r \<noteq> None \<or> rw_expiresAt r \<le> now then None else rowToSession i r now)"

definition revokeSessionId ::
  "(string \<Rightarrow> string \<Rightarrow> nat list) \<Rightarrow> string \<Rightarrow> string \<Rightarrow> int \<Rightarrow> (session_db, store_error, string) eff" where
  "revokeSessionId hmac secret i now db =
     (let storedId = hashSessionId hmac i secret
      in (Inr storedId,
          case db storedId of
            None \<Rightarrow> db
          | Some r \<Rightarrow> if rw_revokedAt r \<noteq> None then db else db(storedId \<mapsto> r\<lparr>rw_revokedAt := Some now\<rparr>)))"

text \<open>One writing statement, with any arguments.\<close>

inductive store_step :: "(string \<Rightarrow> string \<Rightarrow> nat list) \<Rightarrow> string \<Rightarrow> session_db \<Rightarrow> session_db \<Rightarrow> bool"
  for hmac secret where
  insert_statement: "store_step hmac secret db (snd (insertSession hmac secret s now db))"
| update_statement: "store_step hmac secret db (snd (updateSessionAuthorization hmac secret s db))"
| revoke_statement: "store_step hmac secret db (snd (revokeSessionId hmac secret i now db))"

inductive_cases store_stepE: "store_step hmac secret db db'"

section \<open>The contract of a session store\<close>

locale session_store =
  fixes key :: "string \<Rightarrow> string"
    and insert_op :: "session_record \<Rightarrow> int \<Rightarrow> 'd \<Rightarrow> ('e + string) \<times> 'd"
    and update_op :: "session_record \<Rightarrow> 'd \<Rightarrow> ('e + unit) \<times> 'd"
    and revoke_op :: "string \<Rightarrow> int \<Rightarrow> 'd \<Rightarrow> ('e + string) \<times> 'd"
    and find_op :: "'d \<Rightarrow> string \<Rightarrow> int \<Rightarrow> session_record option"
    and revoked :: "'d \<Rightarrow> string \<Rightarrow> bool"
  assumes revoke_revokes: "find_op d i t = Some s \<Longrightarrow> revoked (snd (revoke_op i now d)) (key i)"
    and revoked_gone: "revoked d (key i) \<Longrightarrow> find_op d i now = None"
    and insert_keeps: "revoked d k \<Longrightarrow> revoked (snd (insert_op s now d)) k"
    and update_keeps: "revoked d k \<Longrightarrow> revoked (snd (update_op s d)) k"
    and revoke_keeps: "revoked d k \<Longrightarrow> revoked (snd (revoke_op i now d)) k"
    and update_revoked: "revoked d (key (se_id s)) \<Longrightarrow> \<exists>e. fst (update_op s d) = Inl e"
    and find_identity: "find_op d i now = Some s \<Longrightarrow> se_id s = i \<and> now < se_expiresAt s"
begin

text \<open>A history of writes is any relation whose steps are the three writing operations.\<close>

lemma revoked_forever:
  assumes "R\<^sup>*\<^sup>* d d'"
    and steps: "\<And>a b. R a b \<Longrightarrow> (\<exists>s now. b = snd (insert_op s now a)) \<or> (\<exists>s. b = snd (update_op s a))
                   \<or> (\<exists>i now. b = snd (revoke_op i now a))"
    and "revoked d k"
  shows "revoked d' k"
  using assms(1,3)
proof (induction rule: rtranclp_induct)
  case (step b c)
  then show ?case using steps [OF step.hyps(2)] insert_keeps update_keeps revoke_keeps by blast
qed

lemma revocation_final:
  assumes found: "find_op d i t = Some s" and history: "R\<^sup>*\<^sup>* (snd (revoke_op i now d)) d'"
    and steps: "\<And>a b. R a b \<Longrightarrow> (\<exists>s now. b = snd (insert_op s now a)) \<or> (\<exists>s. b = snd (update_op s a))
                   \<or> (\<exists>i now. b = snd (revoke_op i now a))"
  shows "find_op d' i later = None" and "se_id s' = i \<Longrightarrow> \<exists>e. fst (update_op s' d') = Inl e"
proof -
  have *: "revoked d' (key i)"
    by (rule revoked_forever [OF history steps revoke_revokes [OF found]])
  then show "find_op d' i later = None" by (rule revoked_gone)
  show "\<exists>e. fst (update_op s' d') = Inl e" if "se_id s' = i"
    using * that by (intro update_revoked) simp
qed

end

section \<open>Lemmas\<close>

definition row_revoked :: "session_db \<Rightarrow> string \<Rightarrow> bool" where
  "row_revoked db k = (case db k of None \<Rightarrow> False | Some r \<Rightarrow> rw_revokedAt r \<noteq> None)"

lemma rowToSession_Some: "rowToSession i r now = Some s \<Longrightarrow> s = row_session i r"
  by (auto simp: rowToSession_def split: option.splits)

interpretation d1_sessions: session_store "\<lambda>i. hashSessionId hmac i secret" "insertSession hmac secret"
  "updateSessionAuthorization hmac secret" "revokeSessionId hmac secret" "findSession hmac secret" row_revoked
  for hmac secret
proof
  fix d i t s now k
  show "findSession hmac secret d i t = Some s \<Longrightarrow>
      row_revoked (snd (revokeSessionId hmac secret i now d)) (hashSessionId hmac i secret)"
    by (auto simp: findSession_def revokeSessionId_def row_revoked_def Let_def split: option.splits)
  show "row_revoked d (hashSessionId hmac i secret) \<Longrightarrow> findSession hmac secret d i now = None"
    by (auto simp: findSession_def row_revoked_def split: option.splits)
  show "row_revoked d k \<Longrightarrow> row_revoked (snd (insertSession hmac secret s now d)) k"
    by (auto simp: insertSession_def row_revoked_def Let_def split: option.splits)
  show "row_revoked d k \<Longrightarrow> row_revoked (snd (updateSessionAuthorization hmac secret s d)) k"
    by (auto simp: updateSessionAuthorization_def row_revoked_def Let_def split: option.splits)
  show "row_revoked d k \<Longrightarrow> row_revoked (snd (revokeSessionId hmac secret i now d)) k"
    by (auto simp: revokeSessionId_def row_revoked_def Let_def split: option.splits)
  show "row_revoked d (hashSessionId hmac (se_id s) secret) \<Longrightarrow>
      \<exists>e. fst (updateSessionAuthorization hmac secret s d) = Inl e"
    by (auto simp: updateSessionAuthorization_def row_revoked_def Let_def split: option.splits)
  show "findSession hmac secret d i now = Some s \<Longrightarrow> se_id s = i \<and> now < se_expiresAt s"
    by (auto simp: findSession_def row_session_def split: option.splits if_splits dest!: rowToSession_Some)
qed

text \<open>The sessions the program creates: non-empty names, a safe GitHub id, and the authorization made out
  for the same account.\<close>

definition session_wf :: "session_record \<Rightarrow> bool" where
  "session_wf s =
     (se_id s \<noteq> [] \<and> safe_integer (se_githubId s) \<and> se_login s \<noteq> []
      \<and> au_owner (se_authorization s) \<noteq> [] \<and> au_repo (se_authorization s) \<noteq> []
      \<and> au_login (se_authorization s) = se_login s \<and> au_githubId (se_authorization s) = se_githubId s)"

lemma auth_state_name_cases: "auth_state_name a = ''authorized'' \<or> auth_state_name a = ''denied''"
  by (cases a) auto

lemma js_get_opt_skip:
  "k \<noteq> k' \<Longrightarrow> map_of (opt_field k f v) k' = None"
  by (auto simp: opt_field_def split: option.splits)

lemma session_parses:
  assumes "session_wf s" and "now < se_expiresAt s"
  shows "parseSession (serializeSession s) now \<noteq> None"
proof -
  let ?v = "serializeSession s" and ?a = "authorization_object (se_authorization s)"
  have top: "js_get ?v ''id'' = Some (JStr (se_id s))" "js_get ?v ''githubId'' = Some (JNum (se_githubId s))"
    "js_get ?v ''login'' = Some (JStr (se_login s))" "js_get ?v ''expiresAt'' = Some (JNum (se_expiresAt s))"
    "js_get ?v ''repositoryAuthorization'' = Some ?a"
    by (simp_all add: serializeSession_def js_get_def opt_field_def map_add_def split: option.splits)
  have auth: "js_get ?a ''owner'' = Some (JStr (au_owner (se_authorization s)))"
    "js_get ?a ''repo'' = Some (JStr (au_repo (se_authorization s)))"
    "js_get ?a ''login'' = Some (JStr (au_login (se_authorization s)))"
    "js_get ?a ''state'' = Some (JStr (auth_state_name (au_state (se_authorization s))))"
    "js_get ?a ''githubId'' = Some (JNum (au_githubId (se_authorization s)))"
    "js_get ?a ''checkedAt'' = Some (JNum (au_checkedAt (se_authorization s)))"
    by (simp_all add: authorization_object_def js_get_def opt_field_def map_add_def split: option.splits)
  obtain kvs where kvs: "?a = JObj kvs" by (simp add: authorization_object_def)
  show ?thesis
    using assms auth_state_name_cases [of "au_state (se_authorization s)"]
    by (auto simp: parseSession_def top auth [unfolded kvs] kvs js_nonempty_def js_safe_int_def js_str_def js_num_def
        session_wf_def Let_def)
qed

lemma insert_then_find:
  assumes wf: "session_wf s" and live: "later < se_expiresAt s"
    and ins: "insertSession hmac secret s now db = (Inr k, db')"
  shows "findSession hmac secret db' (se_id s) later =
           Some (s\<lparr>se_createdAt := Some (case se_createdAt s of Some t \<Rightarrow> t | None \<Rightarrow> now), se_revokedAt := None\<rparr>)"
proof -
  have k: "k = hashSessionId hmac (se_id s) secret" and db': "db' = db(k \<mapsto> new_row s now)"
    using ins by (auto simp: insertSession_def Let_def split: if_splits)
  have same: "row_session (se_id s) (new_row s now) =
      s\<lparr>se_createdAt := Some (case se_createdAt s of Some t \<Rightarrow> t | None \<Rightarrow> now), se_revokedAt := None\<rparr>" (is "_ = ?s")
    using wf by (simp add: row_session_def new_row_def Let_def session_wf_def)
  have "parseSession (serializeSession ?s) later \<noteq> None"
    by (rule session_parses) (use wf live in \<open>simp_all add: session_wf_def\<close>)
  then show ?thesis
    using live by (auto simp: findSession_def db' k rowToSession_def same) (simp_all add: new_row_def Let_def)
qed

lemma store_step_kinds:
  "store_step hmac secret a b \<Longrightarrow>
     (\<exists>s now. b = snd (insertSession hmac secret s now a)) \<or> (\<exists>s. b = snd (updateSessionAuthorization hmac secret s a))
     \<or> (\<exists>i now. b = snd (revokeSessionId hmac secret i now a))"
  by (erule store_stepE) auto

section \<open>Properties\<close>

definition demo_session :: session_record where
  "demo_session =
     \<lparr>se_id = ''s1'', se_githubId = 7, se_login = ''octo'', se_name = None, se_avatarUrl = None, se_expiresAt = 1000,
      se_createdAt = Some 5, se_revokedAt = None,
      se_authorization = \<lparr>au_state = Authorized, au_denialReason = None, au_owner = ''o'', au_repo = ''r'',
         au_repositoryId = Some 1, au_installationId = Some 2, au_login = ''octo'', au_githubId = 7, au_checkedAt = 5\<rparr>,
      se_encryptedUserAccessToken = None, se_userAccessTokenExpiresAt = None, se_tokenIv = None\<rparr>"

definition demo_hmac :: "string \<Rightarrow> string \<Rightarrow> nat list" where
  "demo_hmac secret i = map code i"

text \<open>C9. Revocation is final: once a live session has been revoked, no later sequence of inserts, updates and
  revocations, with any arguments and under the same secret, makes it visible again, and every attempt to
  update its authorization fails.\<close>

theorem revocation_is_final:
  assumes "findSession hmac secret db i t = Some s"
    and "(store_step hmac secret)\<^sup>*\<^sup>* (snd (revokeSessionId hmac secret i now db)) db'"
  shows "findSession hmac secret db' i later = None
    \<and> (\<forall>s'. se_id s' = i \<longrightarrow> (\<exists>e. fst (updateSessionAuthorization hmac secret s' db') = Inl e))"
  using d1_sessions.revocation_final [OF assms store_step_kinds] by blast

theorem revocation_is_final_witness:
  "\<exists>db. findSession demo_hmac ''k'' db ''s1'' 10 = Some demo_session
     \<and> findSession demo_hmac ''k'' (snd (revokeSessionId demo_hmac ''k'' ''s1'' 20 db)) ''s1'' 10 = None"
proof -
  let ?db = "snd (insertSession demo_hmac ''k'' demo_session 5 Map.empty)"
  have found: "findSession demo_hmac ''k'' ?db ''s1'' 10 = Some demo_session" by code_simp
  show ?thesis
    using revocation_is_final [OF found rtranclp.rtrancl_refl, of 20 10] found by blast
qed

text \<open>A well-formed session that was inserted is found with all its fields, under the same secret and
  identifier, at every moment before it expires.\<close>

theorem inserted_session_found:
  assumes "session_wf s" and "later < se_expiresAt s" and "insertSession hmac secret s now db = (Inr k, db')"
  shows "findSession hmac secret db' (se_id s) later =
           Some (s\<lparr>se_createdAt := Some (case se_createdAt s of Some t \<Rightarrow> t | None \<Rightarrow> now), se_revokedAt := None\<rparr>)"
  using assms by (rule insert_then_find)

theorem inserted_session_found_witness:
  "findSession demo_hmac ''k'' (snd (insertSession demo_hmac ''k'' demo_session 5 Map.empty)) ''s1'' 10 \<noteq> None"
proof -
  obtain k db' where ins: "insertSession demo_hmac ''k'' demo_session 5 Map.empty = (Inr k, db')"
    by (simp add: insertSession_def Let_def)
  have "session_wf demo_session" by code_simp
  then have "findSession demo_hmac ''k'' db' (se_id demo_session) 10 \<noteq> None"
    using inserted_session_found [OF _ _ ins, of 10] by (simp add: demo_session_def)
  then show ?thesis by (simp add: ins) (simp add: demo_session_def)
qed

end
