(* ===== verification/Auth_Configuration.thy ===== *)
theory Auth_Configuration
  imports File_Repository Session_Store
begin

text \<open>
  \<^verbatim>\<open>lib/auth-configuration.ts\<close> and \<^verbatim>\<open>lib/public-repository-configuration.ts\<close>: the settings sign-in needs,
  read from the environment (a finite map), the validation of the token encryption key and of the
  session secret, and the non-secret repository settings that stored authorizations are compared with.
\<close>

section \<open>Definitions\<close>

type_synonym environment = "string \<rightharpoonup> string"

text \<open>The value-free configuration error; a missing configuration carries the sorted names.\<close>

datatype auth_configuration_error =
    MissingConfiguration "string list"
  | InvalidSessionSecret
  | InvalidEncryptionKeyFormat
  | InvalidEncryptionKeyLength
  | InvalidRepositoryBackend
  | InvalidPrivateKeyConfiguration

definition env_value :: "environment \<Rightarrow> string \<Rightarrow> string" where
  "env_value env name = (case env name of None \<Rightarrow> [] | Some v \<Rightarrow> js_trim v)"

text \<open>The values, trimmed; the names are looked up in the result of \<^verbatim>\<open>Object.fromEntries\<close>.\<close>

definition requireAuthenticationValues :: "environment \<Rightarrow> string list \<Rightarrow> auth_configuration_error + (string \<Rightarrow> string)" where
  "requireAuthenticationValues env names =
     (let missingNames = filter (\<lambda>name. env_value env name = []) names
      in if missingNames \<noteq> [] then Inl (MissingConfiguration (js_sort_by string_order missingNames))
         else Inr (env_value env))"

definition getOAuthStartConfig :: "environment \<Rightarrow> auth_configuration_error + string" where
  "getOAuthStartConfig env =
     bindR (requireAuthenticationValues env [''GITHUB_APP_CLIENT_ID'']) (\<lambda>values.
     Inr (values ''GITHUB_APP_CLIENT_ID''))"

definition getOAuthExchangeConfig :: "environment \<Rightarrow> auth_configuration_error + string \<times> string" where
  "getOAuthExchangeConfig env =
     bindR (requireAuthenticationValues env [''GITHUB_APP_CLIENT_ID'', ''GITHUB_APP_CLIENT_SECRET'']) (\<lambda>values.
     Inr (values ''GITHUB_APP_CLIENT_ID'', values ''GITHUB_APP_CLIENT_SECRET''))"

definition quote_end :: "string \<Rightarrow> bool" where
  "quote_end s = (s \<noteq> [] \<and> (quote_char (hd s) \<or> quote_char (last s)))"

definition validateTokenEncryptionKey :: "string \<Rightarrow> auth_configuration_error + nat list" where
  "validateTokenEncryptionKey value =
     (let normalized = js_trim value
      in if normalized = [] \<or> quote_end normalized then Inl InvalidEncryptionKeyFormat
         else if \<not> canonical_base64 normalized then Inl InvalidEncryptionKeyFormat
         else if length (atob normalized) \<noteq> 32 then Inl InvalidEncryptionKeyLength
         else Inr (atob normalized))"

record session_security =
  ss_sessionSecret :: string
  ss_tokenEncryptionKey :: string

definition getSessionSecurityConfig :: "environment \<Rightarrow> auth_configuration_error + session_security" where
  "getSessionSecurityConfig env =
     bindR (requireAuthenticationValues env [''SESSION_SECRET'', ''GITHUB_TOKEN_ENCRYPTION_KEY'']) (\<lambda>values.
       if length (values ''SESSION_SECRET'') < 32 then Inl InvalidSessionSecret
       else bindR (validateTokenEncryptionKey (values ''GITHUB_TOKEN_ENCRYPTION_KEY'')) (\<lambda>_.
            Inr \<lparr>ss_sessionSecret = values ''SESSION_SECRET'',
                 ss_tokenEncryptionKey = values ''GITHUB_TOKEN_ENCRYPTION_KEY''\<rparr>))"

definition readiness_names :: "string list" where
  "readiness_names =
     [''ARTIFACT_REPOSITORY'', ''GITHUB_APP_ID'', ''GITHUB_APP_CLIENT_ID'', ''GITHUB_APP_CLIENT_SECRET'',
      ''GITHUB_APP_PRIVATE_KEY'', ''GITHUB_TOKEN_ENCRYPTION_KEY'', ''GITHUB_ARTIFACT_REPOSITORY_OWNER'',
      ''GITHUB_ARTIFACT_REPOSITORY_NAME'', ''SESSION_SECRET'']"

definition validateProductionAuthReadiness ::
  "(nat list \<Rightarrow> 'k option) \<Rightarrow> environment \<Rightarrow> auth_configuration_error + string" where
  "validateProductionAuthReadiness importKey env =
     bindR (requireAuthenticationValues env readiness_names) (\<lambda>values.
       if values ''ARTIFACT_REPOSITORY'' \<noteq> ''github'' then Inl InvalidRepositoryBackend
       else bindR (getOAuthExchangeConfig env) (\<lambda>_.
            bindR (getSessionSecurityConfig env) (\<lambda>_.
            bindR (case validateGitHubAppPrivateKey importKey (values ''GITHUB_APP_PRIVATE_KEY'') of
                     Inl _ \<Rightarrow> Inl InvalidPrivateKeyConfiguration | Inr k \<Rightarrow> Inr k) (\<lambda>_.
            getOAuthStartConfig env))))"

subsection \<open>Public settings\<close>

datatype public_backend = PublicGithub | PublicFile | PublicInvalid

record public_configuration =
  pc_backend :: public_backend
  pc_owner :: "string option"
  pc_repository :: "string option"
  pc_branch :: string
  pc_root :: string
  pc_identityValid :: bool

definition normalized_value :: "string option \<Rightarrow> string option" where
  "normalized_value v =
     (case v of None \<Rightarrow> None | Some s \<Rightarrow> (if js_trim s = [] then None else Some (js_trim s)))"

definition getPublicRepositoryConfiguration :: "environment \<Rightarrow> public_configuration" where
  "getPublicRepositoryConfiguration env =
     (let backend = (case getArtifactRepositoryBackend (env ''ARTIFACT_REPOSITORY'') (env ''NODE_ENV'') of
                       Inl _ \<Rightarrow> PublicInvalid
                     | Inr FileBackend \<Rightarrow> PublicFile | Inr GithubBackend \<Rightarrow> PublicGithub);
          owner = normalized_value (env ''GITHUB_ARTIFACT_REPOSITORY_OWNER'');
          repository = normalized_value (env ''GITHUB_ARTIFACT_REPOSITORY_NAME'');
          branch = (case normalized_value (env ''GITHUB_ARTIFACT_REPOSITORY_BRANCH'') of
                      Some b \<Rightarrow> b | None \<Rightarrow> ''main'')
      in \<lparr>pc_backend = backend, pc_owner = owner, pc_repository = repository, pc_branch = branch,
          pc_root = DEFAULT_ARTIFACT_ROOT,
          pc_identityValid = (backend = PublicFile
             \<or> (backend = PublicGithub \<and> owner \<noteq> None \<and> repository \<noteq> None))\<rparr>)"

text \<open>\<open>None\<close> is the answer \<^verbatim>\<open>unknown\<close>.\<close>

definition storedRepositoryMatchesPublicConfiguration ::
  "string \<Rightarrow> string \<Rightarrow> public_configuration \<Rightarrow> bool option" where
  "storedRepositoryMatchesPublicConfiguration owner repo config =
     (case (pc_owner config, pc_repository config) of
        (Some o', Some r') \<Rightarrow> Some (js_lower owner = js_lower o' \<and> js_lower repo = js_lower r')
      | _ \<Rightarrow> None)"

section \<open>Lemmas\<close>

lemma requireAuthenticationValues_Inr:
  "requireAuthenticationValues env names = Inr values \<longleftrightarrow>
     values = env_value env \<and> (\<forall>n \<in> set names. env_value env n \<noteq> [])"
  by (auto simp: requireAuthenticationValues_def Let_def filter_empty_conv)

lemma requireAuthenticationValues_Inl:
  "requireAuthenticationValues env names = Inl e \<Longrightarrow>
     \<exists>missing. e = MissingConfiguration missing \<and> set missing = {n \<in> set names. env_value env n = []}
       \<and> missing \<noteq> []"
  by (auto simp: requireAuthenticationValues_def Let_def split: if_splits)
     (metis length_0_conv length_js_sort_by)

lemma validateTokenEncryptionKey_Inr:
  "validateTokenEncryptionKey v = Inr bytes \<Longrightarrow>
     length bytes = 32 \<and> canonical_base64 (js_trim v) \<and> bytes = atob (js_trim v)"
  by (auto simp: validateTokenEncryptionKey_def Let_def split: if_splits)

section \<open>Properties\<close>

text \<open>A session security configuration that is accepted has a session secret of at least 32 characters and an
  encryption key that is canonical base64 of exactly 32 bytes; a refusal for missing values names exactly
  the settings that are absent or blank.\<close>

theorem session_security_validated:
  "(\<forall>c. getSessionSecurityConfig env = Inr c \<longrightarrow>
      32 \<le> length (ss_sessionSecret c)
      \<and> (\<exists>bytes. validateTokenEncryptionKey (ss_tokenEncryptionKey c) = Inr bytes \<and> length bytes = 32
            \<and> canonical_base64 (js_trim (ss_tokenEncryptionKey c))))
   \<and> (\<forall>names. getSessionSecurityConfig env = Inl (MissingConfiguration names) \<longrightarrow>
      set names = {n \<in> {''SESSION_SECRET'', ''GITHUB_TOKEN_ENCRYPTION_KEY''}. env_value env n = []})"
proof (intro conjI allI impI)
  fix c assume "getSessionSecurityConfig env = Inr c"
  then obtain bytes where "32 \<le> length (ss_sessionSecret c)" "validateTokenEncryptionKey (ss_tokenEncryptionKey c) = Inr bytes"
    by (auto simp: getSessionSecurityConfig_def bindR_Inr not_less split: if_splits)
  with validateTokenEncryptionKey_Inr show "32 \<le> length (ss_sessionSecret c)"
    "\<exists>bytes. validateTokenEncryptionKey (ss_tokenEncryptionKey c) = Inr bytes \<and> length bytes = 32
            \<and> canonical_base64 (js_trim (ss_tokenEncryptionKey c))" by blast+
next
  fix names assume "getSessionSecurityConfig env = Inl (MissingConfiguration names)"
  then have "requireAuthenticationValues env [''SESSION_SECRET'', ''GITHUB_TOKEN_ENCRYPTION_KEY''] = Inl (MissingConfiguration names)"
    by (auto simp: getSessionSecurityConfig_def bindR_Inl validateTokenEncryptionKey_def Let_def split: if_splits)
  from requireAuthenticationValues_Inl [OF this]
  show "set names = {n \<in> {''SESSION_SECRET'', ''GITHUB_TOKEN_ENCRYPTION_KEY''}. env_value env n = []}" by auto
qed

theorem session_security_validated_witness:
  "\<exists>c. getSessionSecurityConfig [''SESSION_SECRET'' \<mapsto> replicate 40 (CHR ''s''),
          ''GITHUB_TOKEN_ENCRYPTION_KEY'' \<mapsto> replicate 42 (CHR ''A'') @ ''A=''] = Inr c
     \<and> 32 \<le> length (ss_sessionSecret c)"
proof -
  let ?env = "[''SESSION_SECRET'' \<mapsto> replicate 40 (CHR ''s''),
          ''GITHUB_TOKEN_ENCRYPTION_KEY'' \<mapsto> replicate 42 (CHR ''A'') @ ''A='']"
  have "is_ok (getSessionSecurityConfig ?env)" by code_simp
  then obtain c where "getSessionSecurityConfig ?env = Inr c" by (auto simp: is_ok_iff)
  with session_security_validated [of ?env] show ?thesis by blast
qed

end
