(* ===== verification/Auth_Flow.thy ===== *)
theory Auth_Flow
  imports Repository_Authorization
begin

text \<open>
  \<^verbatim>\<open>lib/auth.ts\<close> and \<^verbatim>\<open>lib/oauth-route-handlers.ts\<close>: the OAuth exchange, the creation, lookup and
  destruction of sessions, and the resolution of repository access for a request.

  The state of a request is the network, the session table and the cookie jar. What comes from
  outside is the record \<open>auth_env\<close>: the process environment, the fetch implementation, Web Crypto
  (HMAC, AES-GCM, key import, signature, SHA-256), UTF-8 decoding and the host parser of
  \<open>safeReturnTo\<close>. The clock and fresh random bytes are arguments. A binding that is missing or a statement
  that the database refuses for reasons of its own is not modelled; an update that changes no row is
  the failure of the store. \<^verbatim>\<open>atob\<close> is used on stored text only; text that is not canonical base64 is
  refused.
\<close>

section \<open>Definitions\<close>

record 'w auth_env =
  ae_env :: environment
  ae_fetch :: "'w fetcher"
  ae_hmac :: "string \<Rightarrow> string \<Rightarrow> nat list"
  ae_encrypt :: "nat list \<Rightarrow> nat list \<Rightarrow> nat list \<Rightarrow> nat list"
  ae_decrypt :: "nat list \<Rightarrow> nat list \<Rightarrow> nat list \<Rightarrow> nat list option"
  ae_utf8 :: "nat list \<Rightarrow> string"
  ae_importKey :: "nat list \<Rightarrow> nat option"
  ae_sign :: "nat \<Rightarrow> nat list \<Rightarrow> nat list"
  ae_sha256 :: "nat list \<Rightarrow> nat list"
  ae_ownHost :: "string \<Rightarrow> bool"

record 'w auth_world = "'w net" +
  aw_db :: session_db
  aw_cookies :: "string \<rightharpoonup> string"

datatype oauth_category = TokenExchange | IdentityLookup

datatype auth_error =
    AuthConfiguration auth_configuration_error
  | AuthStore store_error
  | AuthNetwork
  | MissingUserToken
  | TokenUnreadable
  | OAuthFlowFailed oauth_category

type_synonym ('w, 'a) auth_eff = "('w auth_world, auth_error, 'a) eff"

definition cfg :: "auth_configuration_error + 'a \<Rightarrow> ('w, 'a) auth_eff" where
  "cfg r = ofSum (case r of Inl e \<Rightarrow> Inl (AuthConfiguration e) | Inr x \<Rightarrow> Inr x)"

definition on_db :: "(session_db, store_error, 'a) eff \<Rightarrow> ('w, 'a) auth_eff" where
  "on_db m s =
     (case m (aw_db s) of
        (Inl e, db) \<Rightarrow> (Inl (AuthStore e), s\<lparr>aw_db := db\<rparr>)
      | (Inr x, db) \<Rightarrow> (Inr x, s\<lparr>aw_db := db\<rparr>))"

subsection \<open>Configuration and the session table\<close>

definition getAuthConfig :: "environment \<Rightarrow> auth_configuration_error + (string \<times> string) \<times> session_security" where
  "getAuthConfig env =
     bindR (getOAuthExchangeConfig env) (\<lambda>exchange.
     bindR (getSessionSecurityConfig env) (\<lambda>security. Inr (exchange, security)))"

definition session_secret :: "'w auth_env \<Rightarrow> ('w, string) auth_eff" where
  "session_secret env = bnd (cfg (getAuthConfig (ae_env env))) (\<lambda>c. ret (ss_sessionSecret (snd c)))"

definition storeSession :: "'w auth_env \<Rightarrow> session_record \<Rightarrow> int \<Rightarrow> ('w, string) auth_eff" where
  "storeSession env session now =
     bnd (session_secret env) (\<lambda>secret. on_db (insertSession (ae_hmac env) secret session now))"

definition loadSession :: "'w auth_env \<Rightarrow> string \<Rightarrow> int \<Rightarrow> ('w, session_record option) auth_eff" where
  "loadSession env i now =
     bnd (session_secret env) (\<lambda>secret. getS (\<lambda>s. findSession (ae_hmac env) secret (aw_db s) i now))"

definition revokeSession :: "'w auth_env \<Rightarrow> string \<Rightarrow> int \<Rightarrow> ('w, string) auth_eff" where
  "revokeSession env i now =
     bnd (session_secret env) (\<lambda>secret. on_db (revokeSessionId (ae_hmac env) secret i now))"

definition persistAuthorization :: "'w auth_env \<Rightarrow> session_record \<Rightarrow> ('w, unit) auth_eff" where
  "persistAuthorization env session =
     bnd (session_secret env) (\<lambda>secret. on_db (updateSessionAuthorization (ae_hmac env) secret session))"

subsection \<open>The stored user token\<close>

definition token_key :: "'w auth_env \<Rightarrow> auth_configuration_error + nat list" where
  "token_key env =
     bindR (getAuthConfig (ae_env env)) (\<lambda>c. validateTokenEncryptionKey (ss_tokenEncryptionKey (snd c)))"

definition encryptUserAccessToken ::
  "'w auth_env \<Rightarrow> nat list \<Rightarrow> string \<Rightarrow> auth_configuration_error + string \<times> string" where
  "encryptUserAccessToken env iv token =
     bindR (token_key env) (\<lambda>key. Inr (btoa (ae_encrypt env key iv (ascii_bytes token)), btoa iv))"

definition decryptUserAccessToken :: "'w auth_env \<Rightarrow> session_record \<Rightarrow> auth_error + string" where
  "decryptUserAccessToken env session =
     (if \<not> truthy (se_encryptedUserAccessToken session) \<or> \<not> truthy (se_tokenIv session) then Inl MissingUserToken
      else if \<not> canonical_base64 (the (se_encryptedUserAccessToken session))
              \<or> \<not> canonical_base64 (the (se_tokenIv session)) then Inl TokenUnreadable
      else (case token_key env of
              Inl e \<Rightarrow> Inl (AuthConfiguration e)
            | Inr key \<Rightarrow>
                (case ae_decrypt env key (atob (the (se_tokenIv session)))
                        (atob (the (se_encryptedUserAccessToken session))) of
                   None \<Rightarrow> Inl TokenUnreadable
                 | Some plain \<Rightarrow> Inr (ae_utf8 env plain))))"

subsection \<open>Sign-in\<close>

definition names_of :: "'w auth_env \<Rightarrow> cookie_names" where
  "names_of env = cookieNames (ae_env env ''NODE_ENV'')"

definition set_cookie :: "string \<Rightarrow> string \<Rightarrow> ('w, unit) auth_eff" where
  "set_cookie name value = modS (\<lambda>s. s\<lparr>aw_cookies := (aw_cookies s)(name \<mapsto> value)\<rparr>)"

definition delete_cookie :: "string \<Rightarrow> ('w, unit) auth_eff" where
  "delete_cookie name = modS (\<lambda>s. s\<lparr>aw_cookies := (aw_cookies s)(name := None)\<rparr>)"

text \<open>The query parameters of the authorization URL, in order.\<close>

definition createOAuthStart ::
  "'w auth_env \<Rightarrow> string option \<Rightarrow> nat list \<Rightarrow> nat list \<Rightarrow> ('w, (string \<times> string) list) auth_eff" where
  "createOAuthStart env returnTo stateBytes verifierBytes =
     bnd (cfg (validateProductionAuthReadiness (ae_importKey env) (ae_env env))) (\<lambda>clientId.
       let state = randomToken stateBytes; verifier = randomToken verifierBytes;
           challenge = createPkceChallenge (ae_sha256 env) verifier
       in bnd (set_cookie (cn_state (names_of env)) state) (\<lambda>_.
          bnd (set_cookie (cn_returnTo (names_of env)) (safeReturnTo (ae_ownHost env) returnTo)) (\<lambda>_.
          bnd (set_cookie (cn_pkce (names_of env)) verifier) (\<lambda>_.
          ret [(''client_id'', clientId), (''state'', state), (''code_challenge'', challenge),
               (''code_challenge_method'', ''S256'')]))))"

record oauth_state =
  os_valid :: bool
  os_returnTo :: string
  os_pkceVerifier :: "string option"

definition consumeOAuthState :: "'w auth_env \<Rightarrow> string option \<Rightarrow> ('w, oauth_state) auth_eff" where
  "consumeOAuthState env state =
     (let names = names_of env
      in bnd (getS (\<lambda>s. aw_cookies s (cn_state names))) (\<lambda>expected.
         bnd (getS (\<lambda>s. safeReturnTo (ae_ownHost env) (aw_cookies s (cn_returnTo names)))) (\<lambda>returnTo.
         bnd (delete_cookie (cn_state names)) (\<lambda>_.
         bnd (getS (\<lambda>s. aw_cookies s (cn_pkce names))) (\<lambda>verifier.
         bnd (delete_cookie (cn_returnTo names)) (\<lambda>_.
         bnd (delete_cookie (cn_pkce names)) (\<lambda>_.
         ret \<lparr>os_valid = (constantTimeEqual state expected \<and> truthy verifier), os_returnTo = returnTo,
              os_pkceVerifier = verifier\<rparr>)))))))"

definition token_payload :: "fetch_outcome \<Rightarrow> auth_error + js_value" where
  "token_payload outcome =
     (case outcome of
        FetchRejected \<Rightarrow> Inl AuthNetwork
      | FetchResponse r \<Rightarrow>
          if \<not> response_ok r then Inl (OAuthFlowFailed TokenExchange)
          else (case rs_body r of
                  BodyJson v \<Rightarrow>
                    (case js_nonempty (js_get v ''access_token'') of
                       None \<Rightarrow> Inl (OAuthFlowFailed TokenExchange) | Some _ \<Rightarrow> Inr v)
                | _ \<Rightarrow> Inl AuthNetwork))"

definition user_payload :: "fetch_outcome \<Rightarrow> auth_error + github_user" where
  "user_payload outcome =
     (case outcome of
        FetchRejected \<Rightarrow> Inl AuthNetwork
      | FetchResponse r \<Rightarrow>
          if \<not> response_ok r then Inl (OAuthFlowFailed IdentityLookup)
          else (case rs_body r of
                  BodyJson v \<Rightarrow> (case validateGitHubUser v of
                                  None \<Rightarrow> Inl (OAuthFlowFailed IdentityLookup) | Some u \<Rightarrow> Inr u)
                | _ \<Rightarrow> Inl (OAuthFlowFailed IdentityLookup)))"

definition token_request :: "string \<times> string \<Rightarrow> string \<Rightarrow> string \<Rightarrow> http_request" where
  "token_request client authCode verifier =
     \<lparr>rq_method = ''POST'', rq_url = ''https://github.com/login/oauth/access_token'',
      rq_headers = [(''accept'', ''application/json''), (''content-type'', ''application/json'')],
      rq_body = Some (JObj [(''client_id'', JStr (fst client)), (''client_secret'', JStr (snd client)),
                            (''code'', JStr authCode), (''code_verifier'', JStr verifier)])\<rparr>"

definition user_request :: "string \<Rightarrow> http_request" where
  "user_request token =
     \<lparr>rq_method = ''GET'', rq_url = ''https://api.github.com/user'',
      rq_headers = [(''authorization'', ''Bearer '' @ token), (''accept'', ''application/vnd.github+json''),
                    (''user-agent'', ''artifact-dev-toolkit'')], rq_body = None\<rparr>"

definition verify_lifted ::
  "'w auth_env \<Rightarrow> github_app_config \<Rightarrow> github_user \<Rightarrow> string \<Rightarrow> int \<Rightarrow> ('w, authorization_status) auth_eff" where
  "verify_lifted env config user token now s =
     (case verifyRepositoryAuthorization (ae_importKey env) (ae_sign env) (ae_fetch env) config user token now s of
        (Inl _, t) \<Rightarrow> (Inl (AuthConfiguration InvalidPrivateKeyConfiguration), t)
      | (Inr x, t) \<Rightarrow> (Inr x, t))"

record exchange_result =
  xr_user :: github_user
  xr_authorization :: authorization_status
  xr_token :: string
  xr_tokenExpiresAt :: int

definition exchangeGitHubCode :: "'w auth_env \<Rightarrow> string \<Rightarrow> string \<Rightarrow> int \<Rightarrow> ('w, exchange_result) auth_eff" where
  "exchangeGitHubCode env authCode verifier now =
     bnd (cfg (getAuthConfig (ae_env env))) (\<lambda>auth.
     bnd (cfg (getRepositoryAuthorizationConfig (ae_env env))) (\<lambda>config.
     bnd (do_fetch (ae_fetch env) (token_request (fst auth) authCode verifier)) (\<lambda>o1.
     bnd (ofSum (token_payload o1)) (\<lambda>payload.
       let token = the (js_nonempty (js_get payload ''access_token''));
           seconds = (case js_num (js_get payload ''expires_in'') of Some n \<Rightarrow> n | None \<Rightarrow> 28800);
           expires = now + max 1 seconds * 1000
       in bnd (do_fetch (ae_fetch env) (user_request token)) (\<lambda>o2.
          bnd (ofSum (user_payload o2)) (\<lambda>user.
          bnd (verify_lifted env config user token now) (\<lambda>status.
          ret \<lparr>xr_user = user, xr_authorization = status, xr_token = token, xr_tokenExpiresAt = expires\<rparr>)))))))"

definition session_authorization ::
  "github_user \<Rightarrow> authorization_status \<Rightarrow> github_app_config \<Rightarrow> int \<Rightarrow> repository_authorization" where
  "session_authorization user status config now =
     (case status of
        AuthOk c \<Rightarrow> createRepositoryAuthorizationRecord c (ac_checkedAt c)
      | AuthDenied reason \<Rightarrow> createDeniedAuthorizationRecord (gu_id user) (gu_login user) reason config now)"

definition createSession ::
  "'w auth_env \<Rightarrow> github_user \<Rightarrow> authorization_status \<Rightarrow> string option \<Rightarrow> int \<Rightarrow> int \<Rightarrow> nat list \<Rightarrow> nat list \<Rightarrow>
     ('w, session_record) auth_eff" where
  "createSession env user status token tokenExpiresAt now idBytes ivBytes =
     bnd (cfg (getRepositoryAuthorizationConfig (ae_env env))) (\<lambda>config.
       let retain = shouldRetainUserToken status
       in bnd (if retain \<and> truthy token
               then bnd (cfg (encryptUserAccessToken env ivBytes (the token))) (\<lambda>(c, iv). ret (Some c, Some iv))
               else ret (None, None)) (\<lambda>(enc, iv).
          let expiresAt = min (now + sessionTtlSeconds * 1000) tokenExpiresAt;
              session = \<lparr>se_id = randomToken idBytes, se_githubId = gu_id user, se_login = gu_login user,
                         se_name = gu_name user, se_avatarUrl = gu_avatarUrl user, se_expiresAt = expiresAt,
                         se_createdAt = Some now, se_revokedAt = None,
                         se_authorization = session_authorization user status config now,
                         se_encryptedUserAccessToken = enc,
                         se_userAccessTokenExpiresAt = (if retain then Some tokenExpiresAt else None),
                         se_tokenIv = iv\<rparr>
          in bnd (storeSession env session now) (\<lambda>_.
             bnd (set_cookie (cn_session (names_of env)) (se_id session)) (\<lambda>_.
             ret session))))"

subsection \<open>Requests\<close>

definition getSession :: "'w auth_env \<Rightarrow> int \<Rightarrow> ('w, session_record option) auth_eff" where
  "getSession env now =
     bnd (getS (\<lambda>s. aw_cookies s (cn_session (names_of env)))) (\<lambda>i.
       if \<not> truthy i then ret None else loadSession env (the i) now)"

definition destroySession :: "'w auth_env \<Rightarrow> int \<Rightarrow> ('w, unit) auth_eff" where
  "destroySession env now =
     bnd (getS (\<lambda>s. aw_cookies s (cn_session (names_of env)))) (\<lambda>i.
     bnd (if truthy i then bnd (revokeSession env (the i) now) (\<lambda>_. ret ()) else ret ()) (\<lambda>_.
     delete_cookie (cn_session (names_of env))))"

datatype access_outcome =
    AccessGranted session_record access_context bool
  | AccessFailed session_record denial_reason bool
  | Reauthenticate session_record

definition token_usable :: "session_record \<Rightarrow> int \<Rightarrow> bool" where
  "token_usable session now =
     (truthy (se_encryptedUserAccessToken session) \<and> truthy (se_tokenIv session)
      \<and> (case se_userAccessTokenExpiresAt session of None \<Rightarrow> False | Some t \<Rightarrow> t \<noteq> 0 \<and> now < t))"

definition safe_id :: "int option \<Rightarrow> bool" where
  "safe_id v = (case v of None \<Rightarrow> False | Some n \<Rightarrow> safe_integer n)"

text \<open>Storing the changed session: any error is answered as a temporary failure.\<close>

definition persist_or ::
  "'w auth_env \<Rightarrow> session_record \<Rightarrow> access_outcome \<Rightarrow> access_outcome \<Rightarrow> ('w, access_outcome) auth_eff" where
  "persist_or env session failed outcome =
     handle (bnd (persistAuthorization env session) (\<lambda>_. ret outcome)) (\<lambda>_. ret failed)"

definition refresh_access ::
  "'w auth_env \<Rightarrow> github_app_config \<Rightarrow> session_record \<Rightarrow> string \<Rightarrow> int \<Rightarrow> ('w, access_outcome) auth_eff" where
  "refresh_access env config session token now =
     bnd (verify_lifted env config
            \<lparr>gu_id = se_githubId session, gu_login = se_login session, gu_name = None, gu_avatarUrl = None\<rparr> token now) (\<lambda>status.
       case status of
         AuthOk c \<Rightarrow>
           let session' = session\<lparr>se_authorization := createRepositoryAuthorizationRecord c now\<rparr>
           in persist_or env session' (AccessFailed session' DenyTemporary True) (AccessGranted session' c True)
       | AuthDenied reason \<Rightarrow>
           let session' = session\<lparr>se_authorization :=
                 createDeniedAuthorizationRecord (se_githubId session) (se_login session) reason config now\<rparr>
           in persist_or env session' (AccessFailed session' DenyTemporary True) (AccessFailed session' reason True))"

definition resolveRepositoryAccess :: "'w auth_env \<Rightarrow> session_record \<Rightarrow> int \<Rightarrow> ('w, access_outcome) auth_eff" where
  "resolveRepositoryAccess env session now =
     bnd (cfg (getRepositoryAuthorizationConfig (ae_env env))) (\<lambda>config.
       let auth = se_authorization session;
           stale = authorizationRequiresRevalidation auth now
       in if \<not> storedAuthorizationMatchesConfig session config then
            (let session' = session\<lparr>se_authorization :=
                   createDeniedAuthorizationRecord (se_githubId session) (se_login session) DenyConfiguration config now\<rparr>
             in persist_or env session' (AccessFailed session' DenyTemporary False)
                  (AccessFailed session' DenyConfiguration False))
          else if \<not> stale \<and> (au_state auth \<noteq> Authorized \<or> \<not> safe_id (au_repositoryId auth) \<or> \<not> safe_id (au_installationId auth))
          then ret (AccessFailed session (case au_denialReason auth of Some r \<Rightarrow> r | None \<Rightarrow> DenyConfiguration) False)
          else if stale then
            (if \<not> token_usable session now
             then bnd (revokeSession env (se_id session) now) (\<lambda>_. ret (Reauthenticate session))
             else (case decryptUserAccessToken env session of
                     Inl _ \<Rightarrow> bnd (revokeSession env (se_id session) now) (\<lambda>_. ret (Reauthenticate session))
                   | Inr token \<Rightarrow> refresh_access env config session token now))
          else ret (AccessGranted session
                 \<lparr>ac_owner = au_owner auth, ac_repo = au_repo auth, ac_login = js_lower (se_login session),
                  ac_githubId = se_githubId session, ac_repositoryId = au_repositoryId auth,
                  ac_installationId = au_installationId auth, ac_checkedAt = au_checkedAt auth\<rparr> False))"

text \<open>What a page or an API route does with a request: a redirect, a JSON refusal with its status, or the
  session and its access.\<close>

datatype gate =
    SignInRedirect | AccessDeniedRedirect | JsonRefusal nat
  | GateOpen session_record access_context
  | SessionOnly session_record

definition requireAuth :: "'w auth_env \<Rightarrow> int \<Rightarrow> ('w, gate) auth_eff" where
  "requireAuth env now =
     bnd (getSession env now) (\<lambda>r. ret (case r of None \<Rightarrow> SignInRedirect | Some s \<Rightarrow> SessionOnly s))"

definition requireRepositoryAccess :: "'w auth_env \<Rightarrow> int \<Rightarrow> ('w, gate) auth_eff" where
  "requireRepositoryAccess env now =
     bnd (getSession env now) (\<lambda>r.
       case r of
         None \<Rightarrow> ret SignInRedirect
       | Some session \<Rightarrow>
           bnd (resolveRepositoryAccess env session now) (\<lambda>result.
             ret (case result of
                    Reauthenticate _ \<Rightarrow> SignInRedirect
                  | AccessFailed _ _ _ \<Rightarrow> AccessDeniedRedirect
                  | AccessGranted s a _ \<Rightarrow> GateOpen s a)))"

definition requireApiRepositoryAccess :: "'w auth_env \<Rightarrow> int \<Rightarrow> ('w, gate) auth_eff" where
  "requireApiRepositoryAccess env now =
     bnd (getSession env now) (\<lambda>r.
       case r of
         None \<Rightarrow> ret (JsonRefusal 401)
       | Some session \<Rightarrow>
           bnd (resolveRepositoryAccess env session now) (\<lambda>result.
             ret (case result of
                    AccessGranted s a _ \<Rightarrow> GateOpen s a
                  | AccessFailed _ reason _ \<Rightarrow> JsonRefusal (authorizationDeniedStatus reason)
                  | Reauthenticate _ \<Rightarrow> JsonRefusal 401)))"

definition positive_id :: "int option \<Rightarrow> bool" where
  "positive_id v = (case v of None \<Rightarrow> False | Some n \<Rightarrow> safe_integer n \<and> 0 < n)"

definition diagnostics_allowed :: "environment \<Rightarrow> session_record \<Rightarrow> bool" where
  "diagnostics_allowed env session =
     (let auth = se_authorization session
      in au_state auth = Authorized \<and> positive_id (au_repositoryId auth) \<and> positive_id (au_installationId auth)
         \<and> au_githubId auth = se_githubId session \<and> js_lower (au_login auth) = js_lower (se_login session)
         \<and> storedRepositoryMatchesPublicConfiguration (au_owner auth) (au_repo auth)
              (getPublicRepositoryConfiguration env) \<noteq> Some False)"

definition requireDiagnosticsAccess :: "'w auth_env \<Rightarrow> int \<Rightarrow> ('w, gate) auth_eff" where
  "requireDiagnosticsAccess env now =
     bnd (getSession env now) (\<lambda>r.
       ret (case r of
              None \<Rightarrow> SignInRedirect
            | Some session \<Rightarrow> if diagnostics_allowed (ae_env env) session then SessionOnly session else AccessDeniedRedirect))"

definition requireApiDiagnosticsAccess :: "'w auth_env \<Rightarrow> int \<Rightarrow> ('w, gate) auth_eff" where
  "requireApiDiagnosticsAccess env now =
     bnd (getSession env now) (\<lambda>r.
       ret (case r of
              None \<Rightarrow> JsonRefusal 401
            | Some session \<Rightarrow> if diagnostics_allowed (ae_env env) session then SessionOnly session else JsonRefusal 403))"

subsection \<open>The callback route\<close>

datatype oauth_error_code =
    OAuthDenied | OAuthInvalidState | OAuthMissingCode | OAuthExchangeFailed | OAuthIdentityFailed
  | OAuthSessionFailed | OAuthConfiguration | OAuthStartFailed

text \<open>The redirect's target: the sign-in page with an error, the access-denied page, or a local path.\<close>

datatype callback_target = ToSignIn oauth_error_code | ToAccessDenied | ToPath string

record callback_request =
  cb_state :: "string option"
  cb_hasError :: bool
  cb_code :: "string option"

definition session_error_code :: "auth_error \<Rightarrow> oauth_error_code" where
  "session_error_code e = (case e of AuthConfiguration _ \<Rightarrow> OAuthConfiguration | _ \<Rightarrow> OAuthSessionFailed)"

definition exchange_error_code :: "auth_error \<Rightarrow> oauth_error_code" where
  "exchange_error_code e =
     (case e of
        AuthConfiguration _ \<Rightarrow> OAuthConfiguration
      | OAuthFlowFailed IdentityLookup \<Rightarrow> OAuthIdentityFailed
      | _ \<Rightarrow> OAuthExchangeFailed)"

definition state_error_code :: "auth_error \<Rightarrow> oauth_error_code" where
  "state_error_code e = (case e of AuthConfiguration _ \<Rightarrow> OAuthConfiguration | _ \<Rightarrow> OAuthExchangeFailed)"

definition recover :: "('s, 'e, 'a) eff \<Rightarrow> ('e \<Rightarrow> 'a) \<Rightarrow> ('s, 'e, 'a) eff" where
  "recover m f = handle m (\<lambda>e. ret (f e))"

definition finish_session ::
  "'w auth_env \<Rightarrow> oauth_state \<Rightarrow> exchange_result \<Rightarrow> int \<Rightarrow> nat list \<Rightarrow> nat list \<Rightarrow> ('w, callback_target) auth_eff" where
  "finish_session env state x now idBytes ivBytes =
     recover (bnd (createSession env (xr_user x) (xr_authorization x) (Some (xr_token x)) (xr_tokenExpiresAt x)
                     now idBytes ivBytes) (\<lambda>_.
                ret (case xr_authorization x of AuthOk _ \<Rightarrow> ToPath (os_returnTo state) | AuthDenied _ \<Rightarrow> ToAccessDenied)))
       (\<lambda>e. ToSignIn (session_error_code e))"

definition callbackRoute ::
  "'w auth_env \<Rightarrow> callback_request \<Rightarrow> int \<Rightarrow> nat list \<Rightarrow> nat list \<Rightarrow> ('w, callback_target) auth_eff" where
  "callbackRoute env request now idBytes ivBytes =
     recover (bnd (consumeOAuthState env (cb_state request)) (\<lambda>state.
       if \<not> os_valid state then ret (ToSignIn OAuthInvalidState)
       else if cb_hasError request then ret (ToSignIn OAuthDenied)
       else if \<not> truthy (cb_code request) then ret (ToSignIn OAuthMissingCode)
       else recover (bnd (exchangeGitHubCode env (the (cb_code request)) (the (os_pkceVerifier state)) now) (\<lambda>x.
                     finish_session env state x now idBytes ivBytes))
              (\<lambda>e. ToSignIn (exchange_error_code e))))
       (\<lambda>e. ToSignIn (state_error_code e))"

text \<open>The start route: the authorization parameters, or the sign-in page with the error and the target to
  keep.\<close>

definition startRoute ::
  "'w auth_env \<Rightarrow> string option \<Rightarrow> nat list \<Rightarrow> nat list \<Rightarrow>
     ('w, (oauth_error_code \<times> string option) + (string \<times> string) list) auth_eff" where
  "startRoute env returnParam stateBytes verifierBytes =
     (let returnTo = safeReturnTo (ae_ownHost env) returnParam
      in recover (bnd (createOAuthStart env (Some returnTo) stateBytes verifierBytes) (\<lambda>ps. ret (Inr ps)))
           (\<lambda>e. Inl ((case e of AuthConfiguration _ \<Rightarrow> OAuthConfiguration | _ \<Rightarrow> OAuthStartFailed),
                     if returnTo = ''/'' then None else Some returnTo)))"

section \<open>Lemmas\<close>

lemma cfg_Inr [simp]: "cfg r s = (Inr x, t) \<longleftrightarrow> r = Inr x \<and> t = s"
  by (cases r) (auto simp: cfg_def)

lemma cfg_Inl [simp]: "cfg r s = (Inl e, t) \<longleftrightarrow> (\<exists>c. r = Inl c \<and> e = AuthConfiguration c) \<and> t = s"
  by (cases r) (auto simp: cfg_def)

lemma on_db_Inr: "on_db m s = (Inr x, t) \<longleftrightarrow> (\<exists>db. m (aw_db s) = (Inr x, db) \<and> t = s\<lparr>aw_db := db\<rparr>)"
  by (auto simp: on_db_def split: prod.splits sum.splits)

lemma session_secret_Inr:
  "session_secret env s = (Inr secret, t) \<longleftrightarrow>
     (\<exists>c. getAuthConfig (ae_env env) = Inr c \<and> secret = ss_sessionSecret (snd c)) \<and> t = s"
  by (auto simp: session_secret_def bnd_Inr)

text \<open>The stored row of a session, under the configured secret.\<close>

definition stored_row :: "'w auth_env \<Rightarrow> 'w auth_world \<Rightarrow> string \<Rightarrow> session_row option" where
  "stored_row env s i =
     (case getAuthConfig (ae_env env) of
        Inl _ \<Rightarrow> None
      | Inr c \<Rightarrow> aw_db s (hashSessionId (ae_hmac env) i (ss_sessionSecret (snd c))))"

lemma persistAuthorization_Inr:
  assumes "persistAuthorization env session s = (Inr u, t)"
  shows "\<exists>r. stored_row env s (se_id session) = Some r \<and> rw_revokedAt r = None
           \<and> stored_row env t (se_id session) = Some (authorized_row session r)"
  using assms
  by (auto simp: persistAuthorization_def bnd_Inr session_secret_Inr on_db_Inr updateSessionAuthorization_def
      stored_row_def Let_def split: option.splits if_splits)

lemma persist_or_Inr:
  "persist_or env session failed outcome s = (Inr x, t) \<Longrightarrow>
     x = failed \<or> (x = outcome \<and> persistAuthorization env session s = (Inr (), t))"
  by (auto simp: persist_or_def handle_Inr bnd_Inr)

lemma verify_lifted_ok:
  assumes "verify_lifted env config user token now s = (Inr status, t)"
  shows "verifyRepositoryAuthorization (ae_importKey env) (ae_sign env) (ae_fetch env) config user token now s = (Inr status, t)"
  using assms by (auto simp: verify_lifted_def split: prod.splits sum.splits)

lemma refresh_granted:
  assumes "refresh_access env config session token now s = (Inr (AccessGranted session' c r), t)"
  shows "r \<and> session' = session\<lparr>se_authorization := createRepositoryAuthorizationRecord c now\<rparr>
    \<and> (\<exists>u. verifyRepositoryAuthorization (ae_importKey env) (ae_sign env) (ae_fetch env) config
           \<lparr>gu_id = se_githubId session, gu_login = se_login session, gu_name = None, gu_avatarUrl = None\<rparr> token now s
           = (Inr (AuthOk c), u) \<and> persistAuthorization env session' u = (Inr (), t))"
proof -
  obtain status u where st: "verify_lifted env config
      \<lparr>gu_id = se_githubId session, gu_login = se_login session, gu_name = None, gu_avatarUrl = None\<rparr> token now s = (Inr status, u)"
    and rest: "(case status of
         AuthOk c \<Rightarrow>
           let session' = session\<lparr>se_authorization := createRepositoryAuthorizationRecord c now\<rparr>
           in persist_or env session' (AccessFailed session' DenyTemporary True) (AccessGranted session' c True)
       | AuthDenied reason \<Rightarrow>
           let session' = session\<lparr>se_authorization :=
                 createDeniedAuthorizationRecord (se_githubId session) (se_login session) reason config now\<rparr>
           in persist_or env session' (AccessFailed session' DenyTemporary True) (AccessFailed session' reason True)) u
      = (Inr (AccessGranted session' c r), t)"
    using assms unfolding refresh_access_def bnd_Inr by blast
  show ?thesis
  proof (cases status)
    case (AuthOk c')
    with rest have "persist_or env (session\<lparr>se_authorization := createRepositoryAuthorizationRecord c' now\<rparr>)
        (AccessFailed (session\<lparr>se_authorization := createRepositoryAuthorizationRecord c' now\<rparr>) DenyTemporary True)
        (AccessGranted (session\<lparr>se_authorization := createRepositoryAuthorizationRecord c' now\<rparr>) c' True) u
        = (Inr (AccessGranted session' c r), t)" by (simp add: Let_def)
    from persist_or_Inr [OF this] verify_lifted_ok [OF st] AuthOk show ?thesis by auto
  next
    case (AuthDenied reason)
    with rest show ?thesis by (auto simp: Let_def dest!: persist_or_Inr)
  qed
qed

lemma refresh_keeps_session:
  assumes "refresh_access env config session token now s = (Inr x, t)"
  shows "x \<noteq> Reauthenticate session'"
proof -
  obtain status u where rest: "(case status of
         AuthOk c \<Rightarrow>
           let session' = session\<lparr>se_authorization := createRepositoryAuthorizationRecord c now\<rparr>
           in persist_or env session' (AccessFailed session' DenyTemporary True) (AccessGranted session' c True)
       | AuthDenied reason \<Rightarrow>
           let session' = session\<lparr>se_authorization :=
                 createDeniedAuthorizationRecord (se_githubId session) (se_login session) reason config now\<rparr>
           in persist_or env session' (AccessFailed session' DenyTemporary True) (AccessFailed session' reason True)) u
      = (Inr x, t)"
    using assms unfolding refresh_access_def bnd_Inr by blast
  then show ?thesis by (cases status) (auto simp: Let_def dest!: persist_or_Inr)
qed

lemma resolve_cases:
  assumes "resolveRepositoryAccess env session now s = (Inr x, t)"
  obtains config where "getRepositoryAuthorizationConfig (ae_env env) = Inr config"
    "\<not> storedAuthorizationMatchesConfig session config" "\<exists>s' d. x = AccessFailed s' d False"
  | config d where "getRepositoryAuthorizationConfig (ae_env env) = Inr config" "x = AccessFailed session d False" "t = s"
  | config u where "getRepositoryAuthorizationConfig (ae_env env) = Inr config" "x = Reauthenticate session"
    "revokeSession env (se_id session) now s = (Inr u, t)"
  | config token where "getRepositoryAuthorizationConfig (ae_env env) = Inr config"
    "storedAuthorizationMatchesConfig session config" "refresh_access env config session token now s = (Inr x, t)"
  | config c where "getRepositoryAuthorizationConfig (ae_env env) = Inr config"
    "storedAuthorizationMatchesConfig session config" "\<not> authorizationRequiresRevalidation (se_authorization session) now"
    "au_state (se_authorization session) = Authorized" "x = AccessGranted session c False" "t = s"
    "ac_githubId c = se_githubId session" "ac_owner c = au_owner (se_authorization session)"
    "ac_repo c = au_repo (se_authorization session)"
proof -
  obtain config where config: "getRepositoryAuthorizationConfig (ae_env env) = Inr config"
    using assms by (auto simp: resolveRepositoryAccess_def bnd_Inr)
  note run = assms [unfolded resolveRepositoryAccess_def bnd_Inr cfg_Inr, simplified config, simplified]
  show thesis
  proof (cases "storedAuthorizationMatchesConfig session config")
    case False
    with run config that(1) show thesis by (auto simp: Let_def dest!: persist_or_Inr)
  next
    case matches: True
    show thesis
    proof (cases "authorizationRequiresRevalidation (se_authorization session) now")
      case True
      show thesis
      proof (cases "token_usable session now")
        case False
        with run matches True config that(3) show thesis by (auto simp: Let_def bnd_Inr)
      next
        case usable: True
        show thesis
        proof (cases "decryptUserAccessToken env session")
          case (Inl e)
          with usable run matches True config that(3) show thesis by (auto simp: Let_def bnd_Inr)
        next
          case (Inr token)
          with usable run matches True config that(4) show thesis by (auto simp: Let_def)
        qed
      qed
    next
      case False
      with run matches config that(2,5) show thesis by (auto simp: Let_def split: if_splits)
    qed
  qed
qed

lemma revoked_not_found:
  assumes "revokeSession env i now s = (Inr u, t)" and "getAuthConfig (ae_env env) = Inr c"
  shows "findSession (ae_hmac env) (ss_sessionSecret (snd c)) (aw_db t) i later = None"
  using assms
  by (auto simp: revokeSession_def bnd_Inr session_secret_Inr on_db_Inr revokeSessionId_def findSession_def Let_def
      split: option.splits)

subsection \<open>The callback\<close>

lemma consume_eq:
  "consumeOAuthState env state s =
     (Inr \<lparr>os_valid = (constantTimeEqual state (aw_cookies s (cn_state (names_of env)))
                       \<and> truthy (aw_cookies s (cn_pkce (names_of env)))),
           os_returnTo = safeReturnTo (ae_ownHost env) (aw_cookies s (cn_returnTo (names_of env))),
           os_pkceVerifier = aw_cookies s (cn_pkce (names_of env))\<rparr>,
      s\<lparr>aw_cookies := (aw_cookies s)(cn_state (names_of env) := None, cn_returnTo (names_of env) := None,
                                     cn_pkce (names_of env) := None)\<rparr>)"
  by (auto simp: consumeOAuthState_def Let_def bnd_def getS_def delete_cookie_def modS_def ret_def names_of_def
      cookieNames_def productionNames_def developmentNames_def)

lemma recover_total: "\<exists>x. fst (recover m f s) = Inr x"
  by (auto simp: recover_def handle_def ret_def split: prod.splits sum.splits)

lemma recover_value:
  "recover m f s = (r, t) \<Longrightarrow> \<exists>x. r = Inr x"
  using recover_total [of m f s] by (auto)

lemma createSession_Inr:
  assumes "createSession env user status token texp now idb ivb s = (Inr session, t)"
  shows "se_expiresAt session \<le> now + 28800000" "se_expiresAt session \<le> texp" "se_id session = randomToken idb"
    "se_encryptedUserAccessToken session \<noteq> None \<Longrightarrow> shouldRetainUserToken status"
    "aw_cookies t (cn_session (names_of env)) = Some (se_id session)"
    "stored_row env t (se_id session) = Some (new_row session now)"
    "au_state (se_authorization session) = Authorized \<longleftrightarrow> (\<exists>c. status = AuthOk c)"
proof -
  let ?retain = "shouldRetainUserToken status"
  obtain config enc iv u secret k db where
    session: "session = \<lparr>se_id = randomToken idb, se_githubId = gu_id user, se_login = gu_login user,
       se_name = gu_name user, se_avatarUrl = gu_avatarUrl user,
       se_expiresAt = min (now + sessionTtlSeconds * 1000) texp, se_createdAt = Some now, se_revokedAt = None,
       se_authorization = session_authorization user status config now, se_encryptedUserAccessToken = enc,
       se_userAccessTokenExpiresAt = (if ?retain then Some texp else None), se_tokenIv = iv\<rparr>"
    and enc: "enc \<noteq> None \<longrightarrow> ?retain"
    and store: "storeSession env session now s = (Inr k, u)"
    and t: "t = u\<lparr>aw_cookies := (aw_cookies u)(cn_session (names_of env) \<mapsto> se_id session)\<rparr>"
    using assms
    by (auto simp: createSession_def bnd_Inr Let_def set_cookie_def split: if_splits prod.splits)
  from session enc show "se_expiresAt session \<le> now + 28800000" "se_expiresAt session \<le> texp"
    "se_id session = randomToken idb" "se_encryptedUserAccessToken session \<noteq> None \<Longrightarrow> ?retain"
    "au_state (se_authorization session) = Authorized \<longleftrightarrow> (\<exists>c. status = AuthOk c)"
    by (auto simp: sessionTtlSeconds_def session_authorization_def createRepositoryAuthorizationRecord_def
        createDeniedAuthorizationRecord_def split: authorization_status.splits)
  show "aw_cookies t (cn_session (names_of env)) = Some (se_id session)" by (simp add: t)
  show "stored_row env t (se_id session) = Some (new_row session now)"
    using store
    by (auto simp: storeSession_def bnd_Inr session_secret_Inr on_db_Inr insertSession_def stored_row_def t Let_def
        split: if_splits)
qed

section \<open>Properties\<close>

text \<open>C2. Access to the repository is granted only on a current authorization: the session's stored decision is
  positive, made out for the session's own account and the configured repository, and less than seven
  minutes old. If it was not refreshed, nothing was sent or stored; if it was, GitHub has just confirmed it
  and it has been written to a session row that is not revoked.\<close>

theorem access_needs_current_authorization:
  assumes "resolveRepositoryAccess env session now s = (Inr (AccessGranted session' c refreshed), t)"
  shows "\<exists>config. getRepositoryAuthorizationConfig (ae_env env) = Inr config
    \<and> au_state (se_authorization session') = Authorized
    \<and> storedAuthorizationMatchesConfig session' config
    \<and> now - au_checkedAt (se_authorization session') < 420000
    \<and> ac_githubId c = se_githubId session
    \<and> (\<not> refreshed \<longrightarrow> session' = session \<and> t = s)
    \<and> (refreshed \<longrightarrow>
         (\<exists>token u. verifyRepositoryAuthorization (ae_importKey env) (ae_sign env) (ae_fetch env) config
             \<lparr>gu_id = se_githubId session, gu_login = se_login session, gu_name = None, gu_avatarUrl = None\<rparr> token now s
             = (Inr (AuthOk c), u))
         \<and> (\<exists>r. stored_row env t (se_id session) = Some r \<and> rw_authorizationState r = Authorized \<and> rw_revokedAt r = None))"
  using assms
proof (rule resolve_cases)
  fix config token
  assume config: "getRepositoryAuthorizationConfig (ae_env env) = Inr config"
    and run: "refresh_access env config session token now s = (Inr (AccessGranted session' c refreshed), t)"
  note facts = refresh_granted [OF run]
  then obtain u where v: "verifyRepositoryAuthorization (ae_importKey env) (ae_sign env) (ae_fetch env) config
           \<lparr>gu_id = se_githubId session, gu_login = se_login session, gu_name = None, gu_avatarUrl = None\<rparr> token now s
           = (Inr (AuthOk c), u)" and p: "persistAuthorization env session' u = (Inr (), t)" by blast
  have c: "ac_owner c = cfg_owner config" "ac_repo c = cfg_repo config" "ac_login c = se_login session"
    "ac_githubId c = se_githubId session"
    using v by (rule verify_AuthOk, simp)+
  from persistAuthorization_Inr [OF p] facts
  have "\<exists>r. stored_row env t (se_id session) = Some r \<and> rw_authorizationState r = Authorized \<and> rw_revokedAt r = None"
    by (auto simp: authorized_row_def createRepositoryAuthorizationRecord_def Let_def)
  with config facts c v show ?thesis
    by (auto simp: createRepositoryAuthorizationRecord_def storedAuthorizationMatchesConfig_def Let_def)
next
  fix config c'
  assume "getRepositoryAuthorizationConfig (ae_env env) = Inr config" "storedAuthorizationMatchesConfig session config"
    "\<not> authorizationRequiresRevalidation (se_authorization session) now"
    "au_state (se_authorization session) = Authorized" "AccessGranted session' c refreshed = AccessGranted session c' False"
    "t = s" "ac_githubId c' = se_githubId session"
  then show ?thesis
    by (auto simp: authorizationRequiresRevalidation_def authorizationFreshnessMs_def)
qed auto

definition demo_environment :: environment where
  "demo_environment =
     [''GITHUB_APP_ID'' \<mapsto> ''1'', ''GITHUB_APP_CLIENT_ID'' \<mapsto> ''c'', ''GITHUB_APP_CLIENT_SECRET'' \<mapsto> ''x'',
      ''GITHUB_APP_PRIVATE_KEY'' \<mapsto> demo_pem, ''GITHUB_TOKEN_ENCRYPTION_KEY'' \<mapsto> replicate 42 (CHR ''A'') @ ''A='',
      ''GITHUB_ARTIFACT_REPOSITORY_OWNER'' \<mapsto> ''o'', ''GITHUB_ARTIFACT_REPOSITORY_NAME'' \<mapsto> ''r'',
      ''SESSION_SECRET'' \<mapsto> replicate 40 (CHR ''s'')]"

definition demo_auth_env :: "unit auth_env" where
  "demo_auth_env =
     \<lparr>ae_env = demo_environment, ae_fetch = repository_fetcher, ae_hmac = demo_hmac, ae_encrypt = (\<lambda>k iv bs. bs),
      ae_decrypt = (\<lambda>k iv bs. Some bs), ae_utf8 = map char_of, ae_importKey = (\<lambda>k. Some 0), ae_sign = (\<lambda>k bs. [1]),
      ae_sha256 = (\<lambda>bs. [1]), ae_ownHost = (\<lambda>h. False)\<rparr>"

definition demo_world :: "unit auth_world" where
  "demo_world =
     \<lparr>net_world = (), net_sent = [], aw_db = snd (insertSession demo_hmac (replicate 40 (CHR ''s'')) demo_session 5 Map.empty),
      aw_cookies = [''adt_session'' \<mapsto> ''s1'', ''adt_oauth_state'' \<mapsto> ''st'', ''adt_pkce_verifier'' \<mapsto> ''pk'']\<rparr>"

definition access_granted :: "auth_error + access_outcome \<Rightarrow> bool" where
  "access_granted r = (case r of Inr (AccessGranted s c b) \<Rightarrow> True | _ \<Rightarrow> False)"

theorem access_needs_current_authorization_witness:
  "\<exists>session c b t. resolveRepositoryAccess demo_auth_env demo_session 100 demo_world = (Inr (AccessGranted session c b), t)
     \<and> ac_githubId c = 7"
proof -
  have "access_granted (fst (resolveRepositoryAccess demo_auth_env demo_session 100 demo_world))" by code_simp
  then obtain session c b t where run: "resolveRepositoryAccess demo_auth_env demo_session 100 demo_world =
      (Inr (AccessGranted session c b), t)"
    by (cases "resolveRepositoryAccess demo_auth_env demo_session 100 demo_world")
       (auto simp: access_granted_def split: sum.splits access_outcome.splits)
  with access_needs_current_authorization [OF run] show ?thesis by (auto simp: demo_session_def)
qed

text \<open>A session that must sign in again is gone: whenever the resolution of access asks for a new sign-in, the
  session can no longer be found, at any later time.\<close>

theorem reauthentication_revokes:
  assumes "resolveRepositoryAccess env session now s = (Inr (Reauthenticate session'), t)"
    and "getAuthConfig (ae_env env) = Inr c"
  shows "findSession (ae_hmac env) (ss_sessionSecret (snd c)) (aw_db t) (se_id session) later = None"
  using assms(1)
  by (rule resolve_cases) (auto dest: refresh_keeps_session revoked_not_found [OF _ assms(2)])

definition must_reauthenticate :: "auth_error + access_outcome \<Rightarrow> bool" where
  "must_reauthenticate r = (case r of Inr (Reauthenticate s) \<Rightarrow> True | _ \<Rightarrow> False)"

theorem reauthentication_revokes_witness:
  "\<exists>secret (t :: unit auth_world). findSession demo_hmac secret (aw_db demo_world) ''s1'' 100 \<noteq> None
     \<and> findSession demo_hmac secret (aw_db t) ''s1'' 100 = None"
proof -
  have "must_reauthenticate (fst (resolveRepositoryAccess demo_auth_env demo_session 500000 demo_world))" by code_simp
  then obtain s' t where run: "resolveRepositoryAccess demo_auth_env demo_session 500000 demo_world = (Inr (Reauthenticate s'), t)"
    by (cases "resolveRepositoryAccess demo_auth_env demo_session 500000 demo_world")
       (auto simp: must_reauthenticate_def split: sum.splits access_outcome.splits)
  have "is_ok (getAuthConfig (ae_env demo_auth_env))" by code_simp
  then obtain c where c: "getAuthConfig (ae_env demo_auth_env) = Inr c" by (auto simp: is_ok_iff)
  have "(case getAuthConfig (ae_env demo_auth_env) of Inl e \<Rightarrow> False
     | Inr c \<Rightarrow> findSession demo_hmac (ss_sessionSecret (snd c)) (aw_db demo_world) ''s1'' 100 \<noteq> None)" by code_simp
  then have before: "findSession demo_hmac (ss_sessionSecret (snd c)) (aw_db demo_world) ''s1'' 100 \<noteq> None"
    by (simp add: c del: not_None_eq)
  have names: "se_id demo_session = ''s1''" "ae_hmac demo_auth_env = demo_hmac"
    by (simp_all add: demo_session_def demo_auth_env_def)
  show ?thesis
    by (rule exI [of _ "ss_sessionSecret (snd c)"], rule exI [of _ t], rule conjI [OF before])
       (rule reauthentication_revokes [OF run c, of 100, unfolded names])
qed

text \<open>C38. The OAuth state is checked and used once: a callback is valid exactly when its state equals the
  non-empty one in the cookie and a verifier is there; the three cookies are gone afterwards, so that every
  later callback of that browser is invalid.\<close>

theorem oauth_state_single_use:
  "\<exists>first t second u.
     consumeOAuthState env state s = (Inr first, t) \<and> consumeOAuthState env state' t = (Inr second, u)
     \<and> (os_valid first \<longleftrightarrow> truthy state \<and> aw_cookies s (cn_state (names_of env)) = state
          \<and> truthy (aw_cookies s (cn_pkce (names_of env))))
     \<and> \<not> os_valid second"
  by (auto simp: consume_eq constantTimeEqual_iff names_of_def cookieNames_def productionNames_def
      developmentNames_def truthy_def)

text \<open>C22. A callback without a valid state does nothing but clear the cookies: no request is sent, no session is
  created, and the browser is sent back to the sign-in page.\<close>

theorem callback_requires_state:
  assumes "\<not> constantTimeEqual (cb_state request) (aw_cookies s (cn_state (names_of env)))
     \<or> \<not> truthy (aw_cookies s (cn_pkce (names_of env)))"
  shows "\<exists>t. callbackRoute env request now idBytes ivBytes s = (Inr (ToSignIn OAuthInvalidState), t)
    \<and> net_sent t = net_sent s \<and> aw_db t = aw_db s"
  using assms
  by (auto simp: callbackRoute_def recover_def handle_def bnd_def consume_eq ret_def)

theorem callback_requires_state_witness:
  "\<exists>t. callbackRoute demo_auth_env \<lparr>cb_state = Some ''other'', cb_hasError = False, cb_code = Some ''c''\<rparr> 100 [1] [2] demo_world
     = (Inr (ToSignIn OAuthInvalidState), t) \<and> net_sent t = []"
proof -
  have "\<not> constantTimeEqual (Some ''other'') (aw_cookies demo_world (cn_state (names_of demo_auth_env)))" by code_simp
  with callback_requires_state [of "\<lparr>cb_state = Some ''other'', cb_hasError = False, cb_code = Some ''c''\<rparr>" demo_world
      demo_auth_env 100 "[1]" "[2]"]
  show ?thesis by (auto simp: demo_world_def)
qed

text \<open>A new session lives at most eight hours and not longer than the user's token; it is stored and its
  identifier is in the cookie; it is authorized exactly when the check succeeded; and the user's token is kept,
  encrypted, only if the check succeeded or could not be completed.\<close>

theorem created_session_bounded:
  assumes "createSession env user status token tokenExpiresAt now idBytes ivBytes s = (Inr session, t)"
  shows "se_expiresAt session \<le> now + 28800000 \<and> se_expiresAt session \<le> tokenExpiresAt
    \<and> stored_row env t (se_id session) = Some (new_row session now)
    \<and> aw_cookies t (cn_session (names_of env)) = Some (se_id session)
    \<and> (au_state (se_authorization session) = Authorized \<longleftrightarrow> (\<exists>c. status = AuthOk c))
    \<and> (se_encryptedUserAccessToken session \<noteq> None \<longrightarrow> shouldRetainUserToken status)"
  using createSession_Inr [OF assms] by blast

theorem created_session_bounded_witness:
  "\<exists>session t. createSession demo_auth_env demo_user (AuthDenied DenyAllowlist) (Some ''tok'') 1000 5 [1, 2] [3] demo_world
       = (Inr session, t) \<and> se_expiresAt session \<le> 1000 \<and> se_encryptedUserAccessToken session = None"
proof -
  let ?run = "createSession demo_auth_env demo_user (AuthDenied DenyAllowlist) (Some ''tok'') 1000 5 [1, 2] [3] demo_world"
  have "is_ok (fst ?run)" by code_simp
  then obtain session t where run: "?run = (Inr session, t)" by (cases ?run) (auto simp: is_ok_iff)
  from created_session_bounded [OF run] run show ?thesis by (auto simp: shouldRetainUserToken_def)
qed

end
