(* ===== verification/Change_Policy.thy ===== *)
theory Change_Policy
  imports Js_Values
begin

text \<open>
  The policy that decides what a change of the repository triggers.

  \<^item> \<^verbatim>\<open>scripts/change-policy.mjs\<close>: which paths are documentation, governance or low-sensitivity.
  \<^item> \<^verbatim>\<open>lib/deployment-component-impact.js\<close>: which paths are inputs of the Worker, of the Runtime, Runner and
    Adrian images, and which are known at all.
  \<^item> \<^verbatim>\<open>scripts/classify-changes.mjs\<close>: \<open>classifyChanges\<close>, the outputs of the classification job.
  \<^item> \<^verbatim>\<open>scripts/auto-merge-eligibility.mjs\<close> and \<^verbatim>\<open>scripts/auto-merge-orchestration.mjs\<close>: when a pull request
    may be merged without review.
  \<^item> \<^verbatim>\<open>scripts/evaluate-deployment-freshness.mjs\<close>: when a queued deployment is still current.

  The lemmas relate the policies with each other: what may be merged automatically is never sensitive, and
  the two places that compute the impact of a change agree.
\<close>

section \<open>Definitions\<close>

subsection \<open>Paths\<close>

definition line_end :: "char \<Rightarrow> bool" where
  "line_end c = (code c \<in> {10, 13})"

text \<open>The regular expression \<^verbatim>\<open>/^w.+$/\<close> with a literal start.\<close>

definition starts_and_more :: "string \<Rightarrow> string \<Rightarrow> bool" where
  "starts_and_more w p = (prefix w p \<and> drop (length w) p \<noteq> [] \<and> \<not> list_ex line_end (drop (length w) p))"

text \<open>The regular expression \<^verbatim>\<open>/^a[^/]+b$/\<close> with literal ends.\<close>

definition one_segment :: "string \<Rightarrow> string \<Rightarrow> string \<Rightarrow> bool" where
  "one_segment a b p =
     (prefix a p \<and> suffix b p \<and> length a + length b < length p
      \<and> CHR ''/'' \<notin> set (take (length p - length a - length b) (drop (length a) p)))"

definition normalizePath :: "string option \<Rightarrow> string" where
  "normalizePath path =
     (let p = (case path of None \<Rightarrow> [] | Some p \<Rightarrow> p)
      in if prefix ''./'' p then drop 2 p else p)"

abbreviation norm :: "string \<Rightarrow> string" where
  "norm p \<equiv> normalizePath (Some p)"

definition isCanonicalFeaturePath :: "string \<Rightarrow> bool" where
  "isCanonicalFeaturePath path = one_segment ''requests/features/'' ''.json'' (norm path)"

definition isGovernancePath :: "string \<Rightarrow> bool" where
  "isGovernancePath path =
     (let p = norm path
      in p = ''AGENTS.md'' \<or> suffix ''/AGENTS.md'' p \<or> prefix ''.agents/'' p)"

definition isWorkflowAutomationPath :: "string \<Rightarrow> bool" where
  "isWorkflowAutomationPath path =
     (let p = norm path in prefix ''.github/workflows/'' p \<or> prefix ''.github/actions/'' p)"

definition documentation_rest :: "string \<Rightarrow> bool" where
  "documentation_rest p =
     (prefix ''docs/'' p \<or> prefix ''specs/'' p \<or> prefix ''prompts/'' p \<or> prefix ''requests/'' p
      \<or> p = ''README.md'' \<or> one_segment '''' ''.md'' p \<or> p = ''adt-runtime/README.md'' \<or> prefix ''adt-runtime/docs/'' p
      \<or> p = ''codex-runner/README.md'' \<or> prefix ''codex-runner/docs/'' p)"

definition isDocumentationOrRequestPath :: "string \<Rightarrow> bool" where
  "isDocumentationOrRequestPath path = (let p = norm path in isGovernancePath p \<or> documentation_rest p)"

definition isCiCdGuardrailTestPath :: "string \<Rightarrow> bool" where
  "isCiCdGuardrailTestPath path =
     (norm path \<in> {''test/auto-merge-eligibility.test.mjs'', ''test/auto-merge-orchestration.test.mjs'',
        ''test/change-classification.test.mjs'', ''test/deployment-freshness.test.mjs'',
        ''test/deployment-workflow.test.mjs'', ''test/adt-runtime-publication.test.mjs'',
        ''test/codex-runner-publish-workflow.test.mjs'', ''test/adrian-provenance.test.mjs'',
        ''test/adrian-publication-plan.test.mjs'', ''test/adrian-publication-workflow.test.mjs'',
        ''test/adrian-smoke-script.test.mjs'', ''test/integration/workflow-runtime-integration.test.mjs''})"

definition isOrdinaryDocumentationOrRequestPath :: "string \<Rightarrow> bool" where
  "isOrdinaryDocumentationOrRequestPath path =
     (let p = norm path in if isGovernancePath p then False else documentation_rest p)"

definition asset_extensions :: "string list" where
  "asset_extensions =
     [''.avif'', ''.gif'', ''.ico'', ''.jpg'', ''.jpeg'', ''.png'', ''.webp'', ''.woff'', ''.woff2'', ''.ttf'', ''.otf'']"

definition isStaticAssetPath :: "string \<Rightarrow> bool" where
  "isStaticAssetPath path =
     (let p = norm path in prefix ''public/'' p \<and> list_ex (\<lambda>e. suffix e (js_lower p)) asset_extensions)"

definition isStyleOnlyPath :: "string \<Rightarrow> bool" where
  "isStyleOnlyPath path =
     (let p = norm path
      in (prefix ''app/'' p \<or> prefix ''components/'' p \<or> prefix ''styles/'' p) \<and> suffix ''.css'' (js_lower p))"

definition isLowSensitivityAutoMergePath :: "string \<Rightarrow> bool" where
  "isLowSensitivityAutoMergePath path =
     (let p = norm path in isOrdinaryDocumentationOrRequestPath p \<or> isStaticAssetPath p \<or> isStyleOnlyPath p)"

definition requiresManualReviewPath :: "string \<Rightarrow> bool" where
  "requiresManualReviewPath path = (\<not> isLowSensitivityAutoMergePath path)"

subsection \<open>Inputs of the deployed components\<close>

definition rootAppBuildFiles :: "string list" where
  "rootAppBuildFiles =
     [''package.json'', ''package-lock.json'', ''wrangler.jsonc'', ''tsconfig.json'', ''cloudflare-worker.ts'', ''.nvmrc'',
      ''.npmrc'', ''postcss.config.mjs'', ''postcss.config.js'', ''tailwind.config.js'', ''tailwind.config.ts'',
      ''tailwind.config.mjs'']"

definition rootVerificationExtras :: "string list" where
  "rootVerificationExtras = [''.node-version'', ''cloudflare-env.d.ts'', ''next-env.d.ts'', ''eslint.config.mjs'']"

definition sharedAppRunnerFiles :: "string list" where
  "sharedAppRunnerFiles = [''codex-runner/release.json'']"

definition sharedAppRuntimeFiles :: "string list" where
  "sharedAppRuntimeFiles = [''adt-runtime/release.json'']"

definition runtimeImageFiles :: "string list" where
  "runtimeImageFiles =
     [''adt-runtime/Dockerfile'', ''adt-runtime/package.json'', ''adt-runtime/package-lock.json'',
      ''adt-runtime/tsconfig.json'', ''adt-runtime/release.json'']"

definition runnerImageFiles :: "string list" where
  "runnerImageFiles =
     [''codex-runner/Dockerfile'', ''codex-runner/package.json'', ''codex-runner/package-lock.json'',
      ''codex-runner/tsconfig.json'', ''codex-runner/release.json'', ''codex-runner/gai.conf'',
      ''codex-runner/git-askpass.sh'']"

definition adrianImageFiles :: "string list" where
  "adrianImageFiles = [''third_party/adrian-upstream.json'', ''adrian/Dockerfile'']"

definition impact_documentation :: "string \<Rightarrow> bool" where
  "impact_documentation path =
     (let p = norm path
      in p = ''AGENTS.md'' \<or> suffix ''/AGENTS.md'' p \<or> prefix ''.agents/'' p
         \<or> prefix ''docs/'' p \<or> prefix ''specs/'' p \<or> prefix ''prompts/'' p \<or> prefix ''requests/'' p
         \<or> p = ''README.md'' \<or> one_segment '''' ''.md'' p \<or> p = ''adt-runtime/README.md'' \<or> prefix ''adt-runtime/docs/'' p
         \<or> p = ''codex-runner/README.md'' \<or> prefix ''codex-runner/docs/'' p)"

definition isAppBuildPath :: "string \<Rightarrow> bool" where
  "isAppBuildPath path =
     (let p = norm path
      in prefix ''app/'' p \<or> prefix ''components/'' p \<or> prefix ''lib/'' p \<or> prefix ''public/'' p
         \<or> p \<in> set rootAppBuildFiles \<or> p \<in> set sharedAppRunnerFiles \<or> p \<in> set sharedAppRuntimeFiles
         \<or> starts_and_more ''next.config.'' p \<or> starts_and_more ''open-next.config.'' p
         \<or> starts_and_more ''postcss.config.'' p \<or> starts_and_more ''tailwind.config.'' p)"

definition isRuntimeImagePath :: "string \<Rightarrow> bool" where
  "isRuntimeImagePath path = (let p = norm path in prefix ''adt-runtime/src/'' p \<or> p \<in> set runtimeImageFiles)"

definition isRunnerImagePath :: "string \<Rightarrow> bool" where
  "isRunnerImagePath path = (let p = norm path in prefix ''codex-runner/src/'' p \<or> p \<in> set runnerImageFiles)"

definition isAdrianImagePath :: "string \<Rightarrow> bool" where
  "isAdrianImagePath path = (let p = norm path in prefix ''third_party/adrian/'' p \<or> p \<in> set adrianImageFiles)"

definition isKnownDeploymentClassificationPath :: "string \<Rightarrow> bool" where
  "isKnownDeploymentClassificationPath path =
     (let p = norm path
      in impact_documentation p \<or> p = ''.gitignore'' \<or> p = ''.gitkeep'' \<or> p \<in> set rootVerificationExtras
         \<or> isAppBuildPath p \<or> prefix ''migrations/'' p \<or> prefix ''.github/'' p \<or> prefix ''scripts/'' p
         \<or> prefix ''test/'' p \<or> prefix ''test-fixtures/'' p \<or> prefix ''adt-runtime/'' p \<or> prefix ''codex-runner/'' p
         \<or> prefix ''adrian/'' p \<or> prefix ''third_party/adrian/'' p \<or> p = ''third_party/adrian-upstream.json'')"

text \<open>A missing list of paths is empty.\<close>

definition hasUnclassifiedDeploymentChanges :: "string option list option \<Rightarrow> bool" where
  "hasUnclassifiedDeploymentChanges paths =
     list_ex (\<lambda>p. \<not> isKnownDeploymentClassificationPath p)
       (filter (\<lambda>p. p \<noteq> []) (map normalizePath (case paths of None \<Rightarrow> [] | Some ps \<Rightarrow> ps)))"

record component_impact =
  im_worker :: bool
  im_runtime :: bool
  im_runner :: bool
  im_adrian :: bool

definition deploymentComponentImpact :: "string option list option \<Rightarrow> component_impact" where
  "deploymentComponentImpact paths =
     (let values = js_dedup (filter (\<lambda>p. p \<noteq> []) (map normalizePath (case paths of None \<Rightarrow> [] | Some ps \<Rightarrow> ps)))
      in \<lparr>im_worker = list_ex isAppBuildPath values, im_runtime = list_ex isRuntimeImagePath values,
          im_runner = list_ex isRunnerImagePath values, im_adrian = list_ex isAdrianImagePath values\<rparr>)"

subsection \<open>Classification of a change\<close>

definition exactSensitive :: "string list" where
  "exactSensitive = [''package.json'', ''package-lock.json'', ''wrangler.jsonc'']"

definition exactLockfileRepairRelevant :: "string list" where
  "exactLockfileRepairRelevant =
     [''package.json'', ''package-lock.json'', ''.nvmrc'', ''.node-version'', ''.npmrc'', ''npm-shrinkwrap.json'']"

definition integration_test :: string where
  "integration_test = ''test/integration/workflow-runtime-integration.test.mjs''"

definition isSensitivePath :: "string \<Rightarrow> bool" where
  "isSensitivePath path =
     (let p = norm path
      in isGovernancePath p \<or> isWorkflowAutomationPath p \<or> prefix ''scripts/'' p \<or> prefix ''lib/'' p
         \<or> p = integration_test \<or> p \<in> set exactSensitive \<or> starts_and_more ''open-next.config.'' p)"

definition isLockfileRepairRelevantPath :: "string \<Rightarrow> bool" where
  "isLockfileRepairRelevantPath path =
     (let p = norm path
      in p \<in> set exactLockfileRepairRelevant \<or> p = ''.github/dependabot.yml'' \<or> prefix ''.github/dependabot/'' p
         \<or> isWorkflowAutomationPath p)"

definition isWorkerDeployPath :: "string \<Rightarrow> bool" where
  "isWorkerDeployPath path = isAppBuildPath (norm path)"

definition isMigrationPath :: "string \<Rightarrow> bool" where
  "isMigrationPath path = prefix ''migrations/'' (norm path)"

definition isRuntimePath :: "string \<Rightarrow> bool" where
  "isRuntimePath path = (let p = norm path in prefix ''adt-runtime/'' p \<and> \<not> isDocumentationOrRequestPath p)"

definition isRuntimeImageSmokePath :: "string \<Rightarrow> bool" where
  "isRuntimeImageSmokePath path =
     (let p = norm path in isRuntimeImagePath p \<or> p = ''adt-runtime/scripts/smoke-image.sh'')"

definition isRunnerPath :: "string \<Rightarrow> bool" where
  "isRunnerPath path = (let p = norm path in prefix ''codex-runner/'' p \<and> \<not> isDocumentationOrRequestPath p)"

definition isRunnerImageSmokePath :: "string \<Rightarrow> bool" where
  "isRunnerImageSmokePath path =
     (let p = norm path in isRunnerImagePath p \<or> p = ''codex-runner/scripts/smoke-image.sh'')"

definition isRunnerProxyPolicySmokePath :: "string \<Rightarrow> bool" where
  "isRunnerProxyPolicySmokePath path =
     (let p = norm path
      in p = ''codex-runner/squid.conf'' \<or> p = ''codex-runner/squid-executor.conf''
         \<or> p = ''codex-runner/scripts/smoke-proxy-policy.sh'')"

definition isAdrianPath :: "string \<Rightarrow> bool" where
  "isAdrianPath path =
     (let p = norm path
      in prefix ''third_party/adrian/'' p \<or> p = ''third_party/adrian-upstream.json'' \<or> prefix ''adrian/'' p
         \<or> p = ''scripts/verify-adrian-provenance.sh'')"

definition isAdrianImageSmokePath :: "string \<Rightarrow> bool" where
  "isAdrianImageSmokePath path = (let p = norm path in isAdrianImagePath p \<or> p = ''adrian/scripts/smoke-image.sh'')"

definition isRootVerificationPath :: "string \<Rightarrow> bool" where
  "isRootVerificationPath path =
     (let p = norm path
      in p \<in> set rootVerificationExtras \<or> isAppBuildPath p \<or> isMigrationPath p \<or> prefix ''.github/'' p
         \<or> prefix ''scripts/'' p \<or> prefix ''test/'' p \<or> prefix ''test-fixtures/'' p)"

definition isIntegrationPath :: "string \<Rightarrow> bool" where
  "isIntegrationPath path =
     (let p = norm path
      in prefix ''lib/'' p \<or> isRuntimePath p \<or> p = integration_test \<or> p = ''package.json''
         \<or> p = ''package-lock.json'' \<or> p = ''.nvmrc'')"

definition isKnownPath :: "string \<Rightarrow> bool" where
  "isKnownPath path = isKnownDeploymentClassificationPath (norm path)"

definition unique_paths :: "string list \<Rightarrow> string list" where
  "unique_paths values = js_sort_by string_order (js_dedup (map norm (filter (\<lambda>p. p \<noteq> []) values)))"

record changed_file =
  cf_filename :: "string option"
  cf_path :: "string option"
  cf_previous :: "string option"
  cf_status :: "string option"

record classification =
  cl_changed_files :: string
  cl_canonical_feature_files :: string
  cl_sensitive_files :: string
  cl_has_changes :: bool
  cl_has_feature_request_changes :: bool
  cl_has_sensitive_changes :: bool
  cl_lockfile_repair_files :: string
  cl_has_lockfile_repair_changes :: bool
  cl_documentation_request_only :: bool
  cl_verify_root :: bool
  cl_verify_app :: bool
  cl_verify_runtime :: bool
  cl_verify_runner :: bool
  cl_verify_adrian :: bool
  cl_verify_integration :: bool
  cl_smoke_runtime_image :: bool
  cl_smoke_runner_image :: bool
  cl_smoke_runner_proxy_policy :: bool
  cl_smoke_adrian_image :: bool
  cl_deploy_worker :: bool
  cl_apply_migrations :: bool
  cl_deploy_cloudflare :: bool
  cl_publish_runtime :: bool
  cl_publish_runner :: bool
  cl_publish_adrian :: bool
  cl_runner_release_barrier :: bool
  cl_unclassified_files :: string
  cl_has_unclassified_changes :: bool
  cl_deployable_changes :: bool

text \<open>The normalised names of a file: \<open>None\<close> when it has no name, and then the file is left out; otherwise
  its name and, if it was renamed, its previous name.\<close>

definition file_paths :: "changed_file \<Rightarrow> string list" where
  "file_paths file =
     (let filename = normalizePath (case cf_filename file of None \<Rightarrow> cf_path file | Some n \<Rightarrow> Some n)
      in if filename = [] then []
         else filename # (if truthy (cf_previous file) then [normalizePath (cf_previous file)] else []))"

definition all_paths :: "changed_file list \<Rightarrow> string list" where
  "all_paths files = unique_paths (concat (map file_paths files))"

definition newline :: string where
  "newline = [CHR 0x0A]"

definition classifyChanges :: "changed_file list \<Rightarrow> classification" where
  "classifyChanges files =
     (let allPaths = all_paths files;
          canonicalFeatureFiles = unique_paths (filter isCanonicalFeaturePath allPaths);
          sensitiveFiles = unique_paths (filter isSensitivePath allPaths);
          lockfileRepairFiles = unique_paths (filter isLockfileRepairRelevantPath allPaths);
          unclassifiedFiles = unique_paths (filter (\<lambda>path. \<not> isKnownPath path) allPaths);
          deployWorker = list_ex isWorkerDeployPath allPaths;
          applyMigrations = (deployWorker \<or> list_ex isMigrationPath allPaths);
          deployCloudflare = (deployWorker \<or> applyMigrations)
      in \<lparr>cl_changed_files = js_join newline allPaths,
          cl_canonical_feature_files = js_join newline canonicalFeatureFiles,
          cl_sensitive_files = js_join newline sensitiveFiles,
          cl_has_changes = (allPaths \<noteq> []),
          cl_has_feature_request_changes = (canonicalFeatureFiles \<noteq> []),
          cl_has_sensitive_changes = (sensitiveFiles \<noteq> []),
          cl_lockfile_repair_files = js_join newline lockfileRepairFiles,
          cl_has_lockfile_repair_changes = (lockfileRepairFiles \<noteq> []),
          cl_documentation_request_only = (allPaths \<noteq> [] \<and> list_all isDocumentationOrRequestPath allPaths),
          cl_verify_root = list_ex isRootVerificationPath allPaths,
          cl_verify_app = list_ex (\<lambda>path. isAppBuildPath path \<or> path = ''scripts/smoke-test-worker.mjs'') allPaths,
          cl_verify_runtime = list_ex isRuntimePath allPaths,
          cl_verify_runner = list_ex isRunnerPath allPaths,
          cl_verify_adrian = list_ex isAdrianPath allPaths,
          cl_verify_integration = list_ex isIntegrationPath allPaths,
          cl_smoke_runtime_image = list_ex isRuntimeImageSmokePath allPaths,
          cl_smoke_runner_image = list_ex isRunnerImageSmokePath allPaths,
          cl_smoke_runner_proxy_policy = list_ex isRunnerProxyPolicySmokePath allPaths,
          cl_smoke_adrian_image = list_ex isAdrianImageSmokePath allPaths,
          cl_deploy_worker = deployWorker,
          cl_apply_migrations = applyMigrations,
          cl_deploy_cloudflare = deployCloudflare,
          cl_publish_runtime = list_ex isRuntimeImagePath allPaths,
          cl_publish_runner = list_ex isRunnerImagePath allPaths,
          cl_publish_adrian = list_ex isAdrianImagePath allPaths,
          cl_runner_release_barrier = (''codex-runner/release.json'' \<in> set allPaths),
          cl_unclassified_files = js_join newline unclassifiedFiles,
          cl_has_unclassified_changes = (unclassifiedFiles \<noteq> []),
          cl_deployable_changes = deployCloudflare\<rparr>)"

subsection \<open>Automatic merging\<close>

definition getManualReviewChangedFiles :: "changed_file list \<Rightarrow> (string \<times> string option) list" where
  "getManualReviewChangedFiles files =
     concat (map (\<lambda>file. map (\<lambda>path. (norm path, cf_status file))
       (filter requiresManualReviewPath (map the (filter truthy [cf_filename file, cf_previous file])))) files)"

record merge_request =
  mr_author :: "string option"
  mr_owner :: "string option"
  mr_repository :: "string option"
  mr_head :: "string option"

definition shown :: "string option \<Rightarrow> string" where
  "shown v = (case v of None \<Rightarrow> ''undefined'' | Some s \<Rightarrow> s)"

definition tick :: string where
  "tick = [CHR 0x27]"

definition evaluateAutoMergeEligibility :: "merge_request \<Rightarrow> changed_file list \<Rightarrow> bool \<times> string" where
  "evaluateAutoMergeEligibility request files =
     (if mr_author request \<noteq> mr_owner request
      then (False, ''pull request author '' @ tick @ shown (mr_author request) @ tick @ '' is not the repository owner ''
              @ tick @ shown (mr_owner request) @ tick)
      else if mr_head request \<noteq> mr_repository request
      then (False, ''pull request branch is from a fork or different repository'')
      else let changedPaths = filter truthy (concat (map (\<lambda>file. [cf_filename file, cf_previous file]) files))
           in if changedPaths = [] then (False, ''pull request has no changed paths to evaluate'')
              else let manualReviewFiles = getManualReviewChangedFiles files
                   in if manualReviewFiles \<noteq> []
                      then (False, ''pull request changes file(s) outside the low-sensitivity auto-merge allowlist: ''
                              @ js_join '', '' (js_dedup (map fst manualReviewFiles)))
                      else (True,
                        ''trusted same-repository pull request contains only low-sensitivity allowlisted changes''))"

record pull_request =
  pr_number :: int
  pr_baseRef :: "string option"
  pr_merged :: bool
  pr_mergedAt :: "string option"
  pr_state :: string
  pr_headSha :: "string option"
  pr_headRepo :: "string option"
  pr_draft :: bool
  pr_login :: "string option"

datatype pull_error = ExpectedOnePullRequest nat | UnsupportedState int string

datatype pull_action =
    NoopMerged int | NoopClosed int | NoopStale int | NoopDraft int | NoopAuthor int | NoopFork int | Evaluate int

definition decidePullRequestAction ::
  "pull_request list \<Rightarrow> string option \<Rightarrow> string option \<Rightarrow> string option \<Rightarrow> pull_error + pull_action" where
  "decidePullRequestAction pulls validatedSha repository repositoryOwner =
     (case filter (\<lambda>pr. pr_baseRef pr = Some ''main'') pulls of
        [pr] \<Rightarrow>
          (if pr_merged pr \<or> truthy (pr_mergedAt pr) then Inr (NoopMerged (pr_number pr))
           else if pr_state pr = ''closed'' then Inr (NoopClosed (pr_number pr))
           else if pr_state pr \<noteq> ''open'' then Inl (UnsupportedState (pr_number pr) (pr_state pr))
           else if pr_headSha pr \<noteq> validatedSha then Inr (NoopStale (pr_number pr))
           else if pr_draft pr then Inr (NoopDraft (pr_number pr))
           else if pr_login pr \<noteq> repositoryOwner then Inr (NoopAuthor (pr_number pr))
           else if pr_headRepo pr \<noteq> repository then Inr (NoopFork (pr_number pr))
           else Inr (Evaluate (pr_number pr)))
      | matches \<Rightarrow> Inl (ExpectedOnePullRequest (length matches)))"

subsection \<open>Freshness of a deployment\<close>

text \<open>\<^verbatim>\<open>split(/\r?\n/)\<close>: a carriage return before a line feed belongs to the separator.\<close>

definition js_lines :: "string \<Rightarrow> string list" where
  "js_lines text =
     (let parts = js_split (CHR 0x0A) text
      in map (\<lambda>l. if suffix [CHR 0x0D] l then butlast l else l) (butlast parts) @ [last parts])"

definition nth_opt :: "'a list \<Rightarrow> nat \<Rightarrow> 'a option" where
  "nth_opt xs i = (if i < length xs then Some (xs ! i) else None)"

definition name_status_line :: "string \<Rightarrow> changed_file" where
  "name_status_line line =
     (let parts = js_split (CHR 0x09) line; c = hd parts
      in if prefix ''R'' c \<or> prefix ''C'' c
         then \<lparr>cf_filename = nth_opt parts 2, cf_path = None, cf_previous = nth_opt parts 1, cf_status = Some ''renamed''\<rparr>
         else \<lparr>cf_filename = nth_opt parts 1, cf_path = None, cf_previous = None,
               cf_status = Some (if c = ''A'' then ''added'' else if c = ''D'' then ''removed'' else ''modified'')\<rparr>)"

definition parseGitNameStatus :: "string option \<Rightarrow> changed_file list" where
  "parseGitNameStatus text =
     map name_status_line (filter (\<lambda>line. js_trim line \<noteq> []) (js_lines (case text of None \<Rightarrow> [] | Some t \<Rightarrow> t)))"

definition classifyGitRange :: "(string \<Rightarrow> string list \<Rightarrow> 'e + string) \<Rightarrow> string \<Rightarrow> string \<Rightarrow> 'e + classification" where
  "classifyGitRange git baseRef headRef =
     (case git ''git'' [''diff'', ''--name-status'', ''-M'', baseRef, headRef] of
        Inl e \<Rightarrow> Inl e
      | Inr diff \<Rightarrow> Inr (classifyChanges (parseGitNameStatus (Some diff))))"

record freshness_target =
  ft_deployWorker :: bool
  ft_applyMigrations :: bool
  ft_runnerReleaseBarrier :: bool

datatype freshness_error = UnsupportedOperation string | NoTargetOperation | BarrierWithoutWorker

definition current_unless :: "bool \<Rightarrow> string \<Rightarrow> string \<Rightarrow> freshness_error + bool \<times> string" where
  "current_unless superseded no yes = Inr (if superseded then (False, no) else (True, yes))"

definition evaluateOperationFreshness ::
  "string \<Rightarrow> classification \<Rightarrow> freshness_target \<Rightarrow> freshness_error + bool \<times> string" where
  "evaluateOperationFreshness operation impact target =
     (if cl_has_unclassified_changes impact then Inr (False, ''intervening range contains unclassified paths'')
      else if operation = ''runtime''
      then current_unless (cl_publish_runtime impact) ''a newer Runtime image input exists''
             ''intervening commits do not change Runtime image inputs''
      else if operation = ''adrian''
      then current_unless (cl_publish_adrian impact) ''a newer Adrian image input exists''
             ''intervening commits do not change Adrian image inputs''
      else if operation = ''runner''
      then current_unless (cl_publish_runner impact) ''a newer Runner image input exists''
             ''intervening commits do not change Runner image inputs''
      else if operation \<noteq> ''cloudflare'' then Inl (UnsupportedOperation operation)
      else if \<not> ft_deployWorker target \<and> \<not> ft_applyMigrations target then Inl NoTargetOperation
      else if ft_runnerReleaseBarrier target \<and> \<not> ft_deployWorker target then Inl BarrierWithoutWorker
      else if ft_runnerReleaseBarrier target
      then current_unless (cl_runner_release_barrier impact)
             ''a newer shared Runner release supersedes this Worker-to-Runner barrier''
             ''exact Worker deployment remains required to establish the shared Runner release barrier''
      else if ft_deployWorker target
      then current_unless (cl_deploy_worker impact) ''a newer Worker input supersedes this Worker deployment''
             ''intervening commits do not supersede this Worker deployment''
      else current_unless (cl_apply_migrations impact)
             ''a newer migration or Worker operation subsumes this migration-only target''
             ''intervening commits do not subsume this migration-only target'')"

definition parseBoolean :: "string option \<Rightarrow> bool" where
  "parseBoolean value = (js_lower (case value of None \<Rightarrow> [] | Some v \<Rightarrow> v) = ''true'')"

section \<open>Lemmas\<close>

lemma norm_clean [simp]: "\<not> prefix ''./'' p \<Longrightarrow> norm p = p"
  by (simp add: normalizePath_def)

lemma one_segment_flat:
  assumes "one_segment [] b p" and "CHR ''/'' \<notin> set b"
  shows "CHR ''/'' \<notin> set p"
proof -
  obtain q where p: "p = q @ b" using assms(1) by (auto simp: one_segment_def suffix_def)
  with assms show ?thesis by (auto simp: one_segment_def)
qed

lemma suffix_last: "suffix e s \<Longrightarrow> e \<noteq> [] \<Longrightarrow> last s = last e"
  by (auto simp: suffix_def)

lemma last_js_lower: "s \<noteq> [] \<Longrightarrow> last (js_lower s) = js_lower_char (last s)"
  by (simp add: js_lower_def last_map)

text \<open>The shapes of a low-sensitivity path.\<close>

lemma low_sensitivity_cases:
  assumes "isLowSensitivityAutoMergePath p" and "\<not> prefix ''./'' p"
  obtains (ordinary) "\<not> isGovernancePath p" "documentation_rest p"
  | (asset) e where "prefix ''public/'' p" "e \<in> set asset_extensions" "suffix e (js_lower p)"
  | (style) "prefix ''app/'' p \<or> prefix ''components/'' p \<or> prefix ''styles/'' p" "suffix ''.css'' (js_lower p)"
  using assms
  by (auto simp: isLowSensitivityAutoMergePath_def isOrdinaryDocumentationOrRequestPath_def isStaticAssetPath_def
      isStyleOnlyPath_def Let_def list_ex_iff split: if_splits)

text \<open>What starts with one top-level directory does not start with another.\<close>

definition protected_path :: "string \<Rightarrow> bool" where
  "protected_path p = (prefix ''scripts/'' p \<or> prefix ''lib/'' p \<or> prefix ''.github/'' p \<or> prefix ''migrations/'' p
     \<or> prefix ''test/'' p \<or> prefix ''adt-runtime/src/'' p \<or> prefix ''codex-runner/src/'' p \<or> prefix ''third_party/'' p
     \<or> prefix ''adrian/'' p \<or> prefix ''.agents/'' p
     \<or> p \<in> set (exactLockfileRepairRelevant @ exactSensitive @ runtimeImageFiles @ runnerImageFiles)
     \<or> starts_and_more ''open-next.config.'' p)"

lemma protected_not_flat_md:
  assumes "suffix ''.md'' p" and "CHR ''/'' \<notin> set p" and "protected_path p"
  shows "starts_and_more ''open-next.config.'' p"
  using assms suffix_last [OF assms(1)]
  by (auto simp: protected_path_def prefix_def exactLockfileRepairRelevant_def exactSensitive_def runtimeImageFiles_def
      runnerImageFiles_def)

lemma protected_not_in_directory:
  assumes "w \<in> {''docs/'', ''specs/'', ''prompts/'', ''requests/'', ''adt-runtime/docs/'', ''codex-runner/docs/'', ''public/'',
                ''app/'', ''components/'', ''styles/''}" and "prefix w p"
  shows "\<not> protected_path p"
  using assms
  by (auto simp: protected_path_def prefix_def exactLockfileRepairRelevant_def exactSensitive_def runtimeImageFiles_def
      runnerImageFiles_def starts_and_more_def)

lemma protected_not_readme:
  "p \<in> {''README.md'', ''adt-runtime/README.md'', ''codex-runner/README.md''} \<Longrightarrow> \<not> protected_path p"
  by (auto simp: protected_path_def prefix_def exactLockfileRepairRelevant_def exactSensitive_def runtimeImageFiles_def
      runnerImageFiles_def starts_and_more_def)

lemma documentation_protected:
  assumes "documentation_rest p" and "protected_path p"
  shows "suffix ''.md'' p \<and> starts_and_more ''open-next.config.'' p"
proof (cases "one_segment [] ''.md'' p")
  case True
  then have "suffix ''.md'' p" by (simp add: one_segment_def)
  moreover have "CHR ''/'' \<notin> set p" using one_segment_flat [OF True] by simp
  ultimately show ?thesis using protected_not_flat_md assms(2) by blast
next
  case False
  with assms protected_not_in_directory protected_not_readme show ?thesis
    unfolding documentation_rest_def by blast
qed

lemma low_sensitivity_protected:
  assumes "isLowSensitivityAutoMergePath p" and "\<not> prefix ''./'' p" and "protected_path p"
  shows "suffix ''.md'' p \<and> starts_and_more ''open-next.config.'' p"
  using assms(1,2)
proof (cases rule: low_sensitivity_cases)
  case ordinary
  with assms(3) documentation_protected show ?thesis by blast
next
  case (asset e)
  with assms(3) protected_not_in_directory show ?thesis by blast
next
  case style
  with assms(3) protected_not_in_directory show ?thesis by blast
qed

lemma agents_last: "p = ''AGENTS.md'' \<or> suffix ''/AGENTS.md'' p \<Longrightarrow> last p = CHR ''d''"
  by (auto simp: suffix_def)

lemma governance_last:
  assumes "isGovernancePath p" and "\<not> prefix ''./'' p" and "\<not> prefix ''.agents/'' p"
  shows "last (js_lower p) = CHR ''d''"
proof -
  have "last p = CHR ''d''" "p \<noteq> []" using assms agents_last by (auto simp: isGovernancePath_def Let_def)
  then show ?thesis by (simp add: last_js_lower js_lower_char_def upper_alpha_def code_def)
qed

lemma low_sensitivity_not_governance:
  assumes "isLowSensitivityAutoMergePath p" and clean: "\<not> prefix ''./'' p"
  shows "\<not> isGovernancePath p"
  using assms
proof (cases rule: low_sensitivity_cases)
  case (asset e)
  then have "\<not> prefix ''.agents/'' p" by (auto simp: prefix_def)
  moreover have "last (js_lower p) \<noteq> CHR ''d''"
    using asset(2) suffix_last [OF asset(3)] by (auto simp: asset_extensions_def)
  ultimately show ?thesis using governance_last clean by blast
next
  case style
  then have "\<not> prefix ''.agents/'' p" by (auto simp: prefix_def)
  moreover have "last (js_lower p) \<noteq> CHR ''d''" using suffix_last [OF style(2)] by simp
  ultimately show ?thesis using governance_last clean by blast
qed simp

lemma prefix_shorter:
  "prefix ''third_party/adrian/'' p \<Longrightarrow> prefix ''third_party/'' p"
  "prefix ''.github/workflows/'' p \<Longrightarrow> prefix ''.github/'' p"
  "prefix ''.github/actions/'' p \<Longrightarrow> prefix ''.github/'' p"
  "prefix ''.github/dependabot/'' p \<Longrightarrow> prefix ''.github/'' p"
  by (erule prefix_order.trans [rotated], simp)+

lemma not_open_next:
  "prefix w p \<Longrightarrow> w \<in> {''third_party/'', ''.github/'', ''migrations/'', ''adt-runtime/src/'', ''codex-runner/src/''} \<Longrightarrow>
     \<not> starts_and_more ''open-next.config.'' p"
  by (auto simp: starts_and_more_def prefix_def)

lemma sensitive_protected:
  assumes "isSensitivePath p" and "\<not> prefix ''./'' p" and "\<not> isGovernancePath p"
  shows "protected_path p"
  using assms prefix_shorter [of p]
  by (auto simp: isSensitivePath_def isWorkflowAutomationPath_def protected_path_def integration_test_def Let_def)

lemma image_path_forms:
  assumes "isRuntimeImagePath p \<or> isRunnerImagePath p \<or> isAdrianImagePath p \<or> isMigrationPath p
     \<or> isLockfileRepairRelevantPath p" and "\<not> prefix ''./'' p"
  obtains w where "w \<in> {''third_party/'', ''.github/'', ''migrations/'', ''adt-runtime/src/'', ''codex-runner/src/''}" "prefix w p"
  | "p \<in> set (exactLockfileRepairRelevant @ runtimeImageFiles @ runnerImageFiles @ adrianImageFiles)"
  | "p = ''.github/dependabot.yml''"
  using assms prefix_shorter [of p]
  by (auto simp: isRuntimeImagePath_def isRunnerImagePath_def isAdrianImagePath_def isMigrationPath_def
      isLockfileRepairRelevantPath_def isWorkflowAutomationPath_def Let_def)

lemma image_protected:
  assumes "isRuntimeImagePath p \<or> isRunnerImagePath p \<or> isAdrianImagePath p \<or> isMigrationPath p
     \<or> isLockfileRepairRelevantPath p" and "\<not> prefix ''./'' p"
  shows "protected_path p \<and> \<not> starts_and_more ''open-next.config.'' p"
  using assms
proof (cases rule: image_path_forms)
  case (1 w)
  then show ?thesis using not_open_next [OF 1(2,1)] by (auto simp: protected_path_def)
next
  case 2
  then have "protected_path p" by (auto simp: protected_path_def adrianImageFiles_def)
  moreover have "\<not> prefix ''open-next.config.'' p"
    using 2 by (auto simp: exactLockfileRepairRelevant_def runtimeImageFiles_def runnerImageFiles_def adrianImageFiles_def)
  ultimately show ?thesis by (simp add: starts_and_more_def)
qed (simp add: protected_path_def starts_and_more_def)

lemma eligible_inv:
  assumes "evaluateAutoMergeEligibility request files = (True, reason)"
  shows "mr_author request = mr_owner request" and "mr_head request = mr_repository request"
    and "filter truthy (concat (map (\<lambda>file. [cf_filename file, cf_previous file]) files)) \<noteq> []"
    and "getManualReviewChangedFiles files = []"
  using assms unfolding evaluateAutoMergeEligibility_def Let_def by (simp_all split: if_split_asm)

lemma changed_path_exists:
  assumes "filter truthy (concat (map (\<lambda>file. [cf_filename file, cf_previous file]) files)) \<noteq> []"
  shows "\<exists>file \<in> set files. truthy (cf_filename file) \<or> truthy (cf_previous file)"
proof -
  obtain v where "v \<in> set (concat (map (\<lambda>file. [cf_filename file, cf_previous file]) files))" "truthy v"
    using assms by (meson filter_False)
  then show ?thesis by auto
qed

lemma manual_review_empty:
  assumes "getManualReviewChangedFiles files = []" and "file \<in> set files"
    and "cf_filename file = Some p \<or> cf_previous file = Some p" and "p \<noteq> []"
  shows "isLowSensitivityAutoMergePath p"
proof (rule ccontr)
  assume "\<not> isLowSensitivityAutoMergePath p"
  moreover have "p \<in> set (map the (filter truthy [cf_filename file, cf_previous file]))"
    using assms(3,4) by (auto simp: truthy_def)
  ultimately have "p \<in> set (filter requiresManualReviewPath (map the (filter truthy [cf_filename file, cf_previous file])))"
    by (simp only: set_filter requiresManualReviewPath_def mem_Collect_eq) blast
  from imageI [OF this, of "\<lambda>path. (norm path, cf_status file)"]
  have "(norm p, cf_status file) \<in> set (getManualReviewChangedFiles files)"
    using assms(2) unfolding getManualReviewChangedFiles_def set_concat set_map [symmetric] by fastforce
  with assms(1) show False by simp
qed

lemma set_unique_paths: "set (unique_paths vs) = norm ` {v \<in> set vs. v \<noteq> []}"
  by (auto simp: unique_paths_def)

lemma unique_paths_empty: "unique_paths vs = [] \<longleftrightarrow> (\<forall>v \<in> set vs. v = [])"
  using set_unique_paths [of vs] by (auto simp del: set_empty simp flip: set_empty)

lemma set_file_paths:
  "set (all_paths files) = norm ` {v. v \<noteq> [] \<and> (\<exists>file \<in> set files. v \<in> set (file_paths file))}"
  by (auto simp: all_paths_def set_unique_paths)

lemma clean_all_paths:
  assumes "list_all (\<lambda>p. p \<noteq> [] \<and> \<not> prefix ''./'' p) ps"
  shows "set (all_paths (map (\<lambda>p. \<lparr>cf_filename = Some p, cf_path = None, cf_previous = None, cf_status = Some ''modified''\<rparr>) ps))
       = set ps"
  using assms by (force simp: set_file_paths file_paths_def Let_def list_all_iff)

lemma clean_values:
  assumes "list_all (\<lambda>p. p \<noteq> [] \<and> \<not> prefix ''./'' p) ps"
  shows "filter (\<lambda>p. p \<noteq> []) (map normalizePath (map Some ps)) = ps"
  using assms by (induction ps) auto

lemma has_unclassified:
  "cl_has_unclassified_changes (classifyChanges files) \<longleftrightarrow> (\<exists>p \<in> set (all_paths files). p \<noteq> [] \<and> \<not> isKnownPath p)"
  by (auto simp: classifyChanges_def Let_def unique_paths_empty)

text \<open>On paths as git names them, the classification of a pull request and the impact that the application computes for the same paths agree.\<close>

lemma classification_agrees_with_impact:
  assumes "list_all (\<lambda>p. p \<noteq> [] \<and> \<not> prefix ''./'' p) ps"
  defines "c \<equiv> classifyChanges
      (map (\<lambda>p. \<lparr>cf_filename = Some p, cf_path = None, cf_previous = None, cf_status = Some ''modified''\<rparr>) ps)"
    and "i \<equiv> deploymentComponentImpact (Some (map Some ps))"
  shows "cl_deploy_worker c = im_worker i \<and> cl_publish_runtime c = im_runtime i \<and> cl_publish_runner c = im_runner i
     \<and> cl_publish_adrian c = im_adrian i
     \<and> cl_has_unclassified_changes c = hasUnclassifiedDeploymentChanges (Some (map Some ps))"
proof -
  have worker: "\<forall>p \<in> set ps. isWorkerDeployPath p = isAppBuildPath p \<and> isKnownPath p = isKnownDeploymentClassificationPath p"
    using assms(1) by (auto simp: isWorkerDeployPath_def isKnownPath_def list_all_iff)
  have nonempty: "\<forall>p \<in> set ps. p \<noteq> []" using assms(1) by (auto simp: list_all_iff)
  have unknown: "cl_has_unclassified_changes c = hasUnclassifiedDeploymentChanges (Some (map Some ps))"
    unfolding c_def has_unclassified clean_all_paths [OF assms(1)] hasUnclassifiedDeploymentChanges_def option.case
      clean_values [OF assms(1)] list_ex_iff
    using worker nonempty by blast
  show ?thesis
    unfolding unknown unfolding c_def i_def classifyChanges_def deploymentComponentImpact_def Let_def
      classification.select_convs component_impact.select_convs option.case clean_values [OF assms(1)] list_ex_iff
      clean_all_paths [OF assms(1)] set_js_dedup
    using worker by blast
qed

text \<open>Which paths supersede a queued operation.\<close>

definition supersedes :: "string \<Rightarrow> freshness_target \<Rightarrow> string \<Rightarrow> bool" where
  "supersedes operation target p =
     (if operation = ''runtime'' then isRuntimeImagePath p
      else if operation = ''adrian'' then isAdrianImagePath p
      else if operation = ''runner'' then isRunnerImagePath p
      else if ft_runnerReleaseBarrier target then p = ''codex-runner/release.json''
      else if ft_deployWorker target then isWorkerDeployPath p
      else isWorkerDeployPath p \<or> isMigrationPath p)"

lemma freshness_decides:
  assumes "evaluateOperationFreshness operation (classifyChanges files) target = Inr (current, reason)"
  shows "current \<longleftrightarrow> \<not> cl_has_unclassified_changes (classifyChanges files)
     \<and> (\<forall>p \<in> set (all_paths files). \<not> supersedes operation target p)"
  using assms
  by (auto simp: evaluateOperationFreshness_def current_unless_def supersedes_def classifyChanges_def Let_def
      list_ex_iff split: if_split_asm)

section \<open>Properties\<close>

text \<open>C4. A pull request is merged without review only if its author owns the repository, its branch is in the
  repository, and every path it changes or renames (as git names them, without a leading dot segment) is on the
  allowlist; such a path is no input of a service image, no migration, nothing the lockfile repair looks at, no governance
  file, and it is not sensitive, except for a Markdown file at the root named like the configuration of the Worker
  build.\<close>

theorem auto_merge_only_low_sensitivity:
  assumes "evaluateAutoMergeEligibility request files = (True, reason)"
    and "file \<in> set files" and "cf_filename file = Some p \<or> cf_previous file = Some p"
    and "p \<noteq> []" and "\<not> prefix ''./'' p"
  shows "mr_author request = mr_owner request \<and> mr_head request = mr_repository request
     \<and> isLowSensitivityAutoMergePath p \<and> \<not> isGovernancePath p
     \<and> \<not> isRuntimeImagePath p \<and> \<not> isRunnerImagePath p \<and> \<not> isAdrianImagePath p \<and> \<not> isMigrationPath p
     \<and> \<not> isLockfileRepairRelevantPath p
     \<and> (isSensitivePath p \<longrightarrow> suffix ''.md'' p \<and> starts_and_more ''open-next.config.'' p)"
proof -
  note eligible = eligible_inv [OF assms(1)]
  have low: "isLowSensitivityAutoMergePath p" by (rule manual_review_empty [OF eligible(4) assms(2-4)])
  have gov: "\<not> isGovernancePath p" by (rule low_sensitivity_not_governance [OF low assms(5)])
  have protected: "protected_path p \<Longrightarrow> suffix ''.md'' p \<and> starts_and_more ''open-next.config.'' p"
    by (rule low_sensitivity_protected [OF low assms(5)])
  have "\<not> (isRuntimeImagePath p \<or> isRunnerImagePath p \<or> isAdrianImagePath p \<or> isMigrationPath p
      \<or> isLockfileRepairRelevantPath p)"
    using image_protected [OF _ assms(5)] protected by blast
  with eligible(1,2) low gov sensitive_protected [OF _ assms(5) gov] protected show ?thesis by blast
qed

definition demo_request :: merge_request where
  "demo_request = \<lparr>mr_author = Some ''o'', mr_owner = Some ''o'', mr_repository = Some ''o/r'', mr_head = Some ''o/r''\<rparr>"

definition demo_change :: changed_file where
  "demo_change = \<lparr>cf_filename = Some ''docs/a.md'', cf_path = None, cf_previous = None, cf_status = Some ''modified''\<rparr>"

theorem auto_merge_only_low_sensitivity_witness:
  "isLowSensitivityAutoMergePath ''docs/a.md'' \<and> \<not> isSensitivePath ''docs/a.md''"
proof -
  have "evaluateAutoMergeEligibility demo_request [demo_change] =
      (True, ''trusted same-repository pull request contains only low-sensitivity allowlisted changes'')" by code_simp
  from auto_merge_only_low_sensitivity [OF this, of demo_change "''docs/a.md''"] show ?thesis
    by (auto simp: demo_change_def suffix_def starts_and_more_def)
qed

text \<open>File entries as git names them: a name without a leading dot segment, and for a rename also the previous one.\<close>

definition git_entry :: "changed_file \<Rightarrow> bool" where
  "git_entry f \<longleftrightarrow> (\<exists>p. cf_filename f = Some p \<and> p \<noteq> [] \<and> \<not> prefix ''./'' p)
     \<and> (case cf_previous f of None \<Rightarrow> True | Some p \<Rightarrow> p \<noteq> [] \<and> \<not> prefix ''./'' p)"

lemma git_paths:
  assumes "list_all git_entry files"
  shows "set (all_paths files) = {p. \<exists>f \<in> set files. cf_filename f = Some p \<or> cf_previous f = Some p}" (is "_ = ?named")
proof -
  have entry: "norm ` {v. v \<noteq> [] \<and> v \<in> set (file_paths f)} = {p. cf_filename f = Some p \<or> cf_previous f = Some p}" if "git_entry f" for f
    using that by (force simp: git_entry_def file_paths_def Let_def truthy_def split: option.splits)
  have "set (all_paths files) = (\<Union>f \<in> set files. norm ` {v. v \<noteq> [] \<and> v \<in> set (file_paths f)})"
    unfolding set_file_paths by blast
  also have "\<dots> = (\<Union>f \<in> set files. {p. cf_filename f = Some p \<or> cf_previous f = Some p})"
    using entry assms by (intro SUP_cong refl) (simp add: list_all_iff)
  finally show ?thesis by blast
qed

text \<open>C26. A queued operation is still current exactly when every path changed since, the previous name of a renamed file included, is
  known to the deployment classification and is none of the paths that supersede the operation: the inputs of the image it publishes, or for
  the Worker the Runner release of its barrier, the inputs of the Worker, or these and the migrations.\<close>

theorem freshness_is_exact:
  assumes "evaluateOperationFreshness operation (classifyChanges files) target = Inr (current, reason)" and "list_all git_entry files"
  shows "current \<longleftrightarrow> (\<forall>f \<in> set files. \<forall>p. cf_filename f = Some p \<or> cf_previous f = Some p \<longrightarrow>
    isKnownPath p \<and> \<not> supersedes operation target p)"
proof -
  have "p \<noteq> []" if "p \<in> set (all_paths files)" for p
    using that assms(2) unfolding git_paths [OF assms(2)] by (fastforce simp: list_all_iff git_entry_def split: option.splits)
  then have "current \<longleftrightarrow> (\<forall>p \<in> set (all_paths files). isKnownPath p \<and> \<not> supersedes operation target p)"
    unfolding freshness_decides [OF assms(1)] has_unclassified by blast
  then show ?thesis unfolding git_paths [OF assms(2)] by blast
qed

definition renamed_input :: changed_file where
  "renamed_input = \<lparr>cf_filename = Some ''docs/a.md'', cf_path = None, cf_previous = Some ''adt-runtime/src/server.ts'', cf_status = Some ''renamed''\<rparr>"

definition no_worker :: freshness_target where
  "no_worker = \<lparr>ft_deployWorker = False, ft_applyMigrations = False, ft_runnerReleaseBarrier = False\<rparr>"

theorem freshness_is_exact_witness:
  "evaluateOperationFreshness ''runtime'' (classifyChanges [demo_change]) no_worker
     = Inr (True, ''intervening commits do not change Runtime image inputs'')
   \<and> isKnownPath ''docs/a.md'' \<and> \<not> supersedes ''runtime'' no_worker ''docs/a.md''
   \<and> evaluateOperationFreshness ''runtime'' (classifyChanges [renamed_input]) no_worker = Inr (False, ''a newer Runtime image input exists'')
   \<and> (\<exists>p \<in> {''docs/a.md'', ''adt-runtime/src/server.ts''}. \<not> isKnownPath p \<or> supersedes ''runtime'' no_worker p)"
proof -
  have runs: "evaluateOperationFreshness ''runtime'' (classifyChanges [demo_change]) no_worker
      = Inr (True, ''intervening commits do not change Runtime image inputs'')"
    "evaluateOperationFreshness ''runtime'' (classifyChanges [renamed_input]) no_worker = Inr (False, ''a newer Runtime image input exists'')"
    by code_simp+
  have "list_all git_entry [demo_change]" "list_all git_entry [renamed_input]"
    by (simp_all add: git_entry_def demo_change_def renamed_input_def)
  from freshness_is_exact [OF runs(1) this(1)] freshness_is_exact [OF runs(2) this(2)] runs show ?thesis
    by (auto simp: demo_change_def renamed_input_def)
qed

end
