(* ===== verification/Sqlite_Storage.thy ===== *)
theory Sqlite_Storage
  imports Js_Values Effect_Logic
begin

text \<open>
  The runner's SQLite storage, from \<^verbatim>\<open>codex-runner/src/sqlite-storage.ts\<close>: the mount table, backup manifests, the
  one-time copy of a legacy installation, backups with retention, and the restore of a backup with its rollback.

  The file system is three directories (the SQLite home, the Codex home and the backup root, taken as disjoint), each a
  listing of named entries. Every call of the operating system is numbered, and the environment says which calls fail: a
  theorem for all environments is a theorem for every pattern of failures. A failing recursive removal may have removed
  some of the entries of the directory. A JSON file is represented by the value it holds. Checksums, sizes, the
  \<^verbatim>\<open>sqlite3\<close> program, the clock, random bytes, the names \<^verbatim>\<open>mkdtemp\<close> chooses and the App Server hooks are parameters.

  The local variables of a running operation that its \<^verbatim>\<open>catch\<close> and \<^verbatim>\<open>finally\<close> blocks read are fields of the state.
\<close>

section \<open>Definitions\<close>

subsection \<open>Names\<close>

definition backup_id_chars :: "(char \<Rightarrow> bool) list" where
  "backup_id_chars =
     [(=) (CHR ''b''), (=) (CHR ''-'')] @ replicate 8 digit @ [(=) (CHR ''T'')] @ replicate 6 digit
     @ [(=) (CHR ''Z''), (=) (CHR ''-'')] @ replicate 12 hex_lower"

definition BACKUP_ID :: "string \<Rightarrow> bool" where
  "BACKUP_ID s = list_all2 (\<lambda>P c. P c) backup_id_chars s"

definition filename_char :: "char \<Rightarrow> bool" where
  "filename_char c = (alnum c \<or> c \<in> {CHR ''.'', CHR ''_'', CHR ''-''})"

definition DATABASE_FILENAME :: "string \<Rightarrow> bool" where
  "DATABASE_FILENAME s =
     list_ex (\<lambda>ext. suffix ext (js_lower s)
        \<and> (case take (length s - length ext) s of
             [] \<Rightarrow> False | c # rest \<Rightarrow> alnum c \<and> all_chars filename_char 0 127 rest)) [''.sqlite'', ''.db'']"

definition database_related :: "string \<Rightarrow> bool" where
  "database_related name = (DATABASE_FILENAME name \<or> suffix ''-wal'' name \<or> suffix ''-shm'' name)"

definition MANIFEST :: string where "MANIFEST = ''manifest.json''"
definition BOOTSTRAP_MARKER :: string where "BOOTSTRAP_MARKER = ''.adt-bootstrap-v1''"
definition RECOVERY_MARKER :: string where "RECOVERY_MARKER = ''.adt-recovery-required''"
definition BACKUP_SCHEMA :: int where "BACKUP_SCHEMA = 1"
definition MAX_DATABASES :: nat where "MAX_DATABASES = 64"
definition MAX_DATABASE_SIZE :: int where "MAX_DATABASE_SIZE = 16 * 1024 * 1024 * 1024"

text \<open>The last path component of \<^verbatim>\<open>localStagingPrefix\<close>; its directory is the SQLite home.\<close>

definition localStagingPrefix :: "string \<Rightarrow> string" where
  "localStagingPrefix purpose = ''.adt-'' @ purpose @ ''-''"

subsection \<open>Mounts\<close>

record mount =
  mt_point :: string
  mt_type :: string

datatype filesystem_class = LocalFs | NetworkFs | UnknownFs

definition field_at :: "string list \<Rightarrow> nat \<Rightarrow> string option" where
  "field_at cols i = (if i < length cols then Some (cols ! i) else None)"

fun replace_octal_space :: "string \<Rightarrow> string" where
  "replace_octal_space (a # b # c # d # rest) =
     (if code a = 92 \<and> [b, c, d] = ''040'' then CHR '' '' # replace_octal_space rest
      else a # replace_octal_space (b # c # d # rest))"
| "replace_octal_space s = s"

definition index_of :: "'a \<Rightarrow> 'a list \<Rightarrow> nat option" where
  "index_of x xs = (let n = length (takeWhile (\<lambda>y. y \<noteq> x) xs) in if n < length xs then Some n else None)"

definition parse_mount_line :: "string \<Rightarrow> mount list" where
  "parse_mount_line line =
     (let cols = js_split (CHR '' '') line
      in case index_of ''-'' cols of
           None \<Rightarrow> []
         | Some separator \<Rightarrow>
             if \<not> truthy (field_at cols 4) \<or> \<not> truthy (field_at cols (separator + 1)) then []
             else [\<lparr>mt_point = replace_octal_space (cols ! 4), mt_type = cols ! (separator + 1)\<rparr>])"

definition parseMountInfo :: "string \<Rightarrow> mount list" where
  "parseMountInfo text = concat (map parse_mount_line (js_split (CHR 0x0A) text))"

definition drop_last_slash :: "string \<Rightarrow> string" where
  "drop_last_slash s = (if suffix ''/'' s then butlast s else s)"

definition network_types :: "string list" where
  "network_types = [''nfs'', ''nfs4'', ''cifs'', ''smb'', ''smbfs'', ''9p'', ''ceph'', ''glusterfs'', ''fuse.sshfs'']"

definition classifyFilesystem :: "string \<Rightarrow> mount list \<Rightarrow> filesystem_class" where
  "classifyFilesystem path mounts =
     (case js_sort_by (\<lambda>a b. int (length (mt_point b)) - int (length (mt_point a)))
             (filter (\<lambda>item. path = mt_point item \<or> prefix (drop_last_slash (mt_point item) @ ''/'') path) mounts) of
        [] \<Rightarrow> UnknownFs
      | m # _ \<Rightarrow> if js_lower (mt_type m) \<in> set network_types then NetworkFs else LocalFs)"

subsection \<open>Manifests\<close>

record backup_database =
  bd_filename :: string
  bd_size :: int
  bd_sha256 :: string

record backup_metadata =
  bm_backupId :: string
  bm_createdAt :: string
  bm_runnerVersion :: string
  bm_codexVersion :: string
  bm_databases :: "backup_database list"

text \<open>\<^verbatim>\<open>Object.hasOwn\<close> and \<^verbatim>\<open>Object.keys\<close> on a parsed object.\<close>

definition exactKeys :: "js_value \<Rightarrow> string list \<Rightarrow> string list \<Rightarrow> bool" where
  "exactKeys value required optional =
     (list_all (\<lambda>key. key \<in> set (js_keys value)) required
      \<and> list_all (\<lambda>key. key \<in> set required \<or> key \<in> set optional) (js_keys value))"

definition validTimestamp :: "(string \<Rightarrow> bool) \<Rightarrow> js_value option \<Rightarrow> bool" where
  "validTimestamp dateOk value =
     (case value of Some (JStr s) \<Rightarrow> length s \<le> 32 \<and> dateOk s | _ \<Rightarrow> False)"

text \<open>\<^verbatim>\<open>/^\d+\.\d+\.\d+$/\<close>\<close>

definition version_text :: "string \<Rightarrow> bool" where
  "version_text s = (case js_split (CHR ''.'') s of
      [a, b, c] \<Rightarrow> list_all (\<lambda>w. w \<noteq> [] \<and> list_all digit w) [a, b, c] | _ \<Rightarrow> False)"

definition sha_text :: "string \<Rightarrow> bool" where
  "sha_text s = all_chars hex_lower 64 64 s"

text \<open>File names and the identifier are tested, and kept, after \<^verbatim>\<open>String(value)\<close>.\<close>

definition parse_database :: "string list \<Rightarrow> js_value \<Rightarrow> backup_database option" where
  "parse_database seen raw =
     (if \<not> js_is_object raw then None
      else let name = js_String_opt (js_get raw ''filename'')
           in case (js_num (js_get raw ''size''), js_str (js_get raw ''sha256'')) of
                (Some bytes, Some sha) \<Rightarrow>
                  if exactKeys raw [''filename'', ''size'', ''sha256''] [] \<and> DATABASE_FILENAME name \<and> name \<notin> set seen
                     \<and> safe_integer bytes \<and> 0 \<le> bytes \<and> bytes \<le> MAX_DATABASE_SIZE \<and> sha_text sha
                  then Some \<lparr>bd_filename = name, bd_size = bytes, bd_sha256 = sha\<rparr> else None
              | _ \<Rightarrow> None)"

fun parse_databases :: "string list \<Rightarrow> js_value list \<Rightarrow> backup_database list option" where
  "parse_databases seen [] = Some []"
| "parse_databases seen (raw # rest) =
     (case parse_database seen raw of
        None \<Rightarrow> None
      | Some d \<Rightarrow> (case parse_databases (bd_filename d # seen) rest of None \<Rightarrow> None | Some ds \<Rightarrow> Some (d # ds)))"

definition parseBackupMetadata :: "(string \<Rightarrow> bool) \<Rightarrow> js_value \<Rightarrow> string option \<Rightarrow> backup_metadata option" where
  "parseBackupMetadata dateOk value expectedId =
     (if \<not> js_is_object value then None
      else let backupId = js_String_opt (js_get value ''backupId'') in
      case (js_str (js_get value ''createdAt''), js_str (js_get value ''runnerVersion''),
            js_str (js_get value ''codexVersion''), js_get value ''databases'') of
        (Some createdAt, Some runner, Some codex, Some (JArr databases)) \<Rightarrow>
          if exactKeys value [''backupId'', ''createdAt'', ''runnerVersion'', ''codexVersion'', ''databases''] [''schemaVersion'']
             \<and> BACKUP_ID backupId \<and> (truthy expectedId \<longrightarrow> js_get value ''backupId'' = Some (JStr (the expectedId)))
             \<and> validTimestamp dateOk (js_get value ''createdAt'') \<and> length runner \<le> 64 \<and> version_text codex
             \<and> 1 \<le> length databases \<and> length databases \<le> MAX_DATABASES
          then (case parse_databases [] databases of
                  None \<Rightarrow> None
                | Some ds \<Rightarrow> Some \<lparr>bm_backupId = backupId, bm_createdAt = createdAt, bm_runnerVersion = runner,
                                   bm_codexVersion = codex, bm_databases = ds\<rparr>)
          else None
      | _ \<Rightarrow> None)"

definition database_value :: "backup_database \<Rightarrow> js_value" where
  "database_value d =
     JObj [(''filename'', JStr (bd_filename d)), (''size'', JNum (bd_size d)), (''sha256'', JStr (bd_sha256 d))]"

definition manifest_value :: "backup_metadata \<Rightarrow> js_value" where
  "manifest_value m =
     JObj [(''schemaVersion'', JNum BACKUP_SCHEMA), (''backupId'', JStr (bm_backupId m)), (''createdAt'', JStr (bm_createdAt m)),
           (''runnerVersion'', JStr (bm_runnerVersion m)), (''codexVersion'', JStr (bm_codexVersion m)),
           (''databases'', JArr (map database_value (bm_databases m)))]"

subsection \<open>The file system\<close>

datatype content = Text string | Document js_value

datatype node = File content | Directory "(string \<times> node) list" | Special

type_synonym listing = "(string \<times> node) list"

datatype place = Home | Codex | Backups | InHome string | InBackups string

datatype storage_operation = Idle | BackingUp | Restoring

datatype storage_failure = NoSqliteDatabases | SqliteBackupFailed | BackupVerificationFailed | InsufficientSpace

datatype storage_error = IoError | PlainError string | SafeError string nat

record sq_env =
  sq_home :: "string option"
  sq_codexHome :: string
  sq_retention :: nat
  sq_runnerVersion :: string
  sq_codexVersion :: string
  sq_mountinfo :: "string option"
  sq_sha :: "content \<Rightarrow> string"
  sq_size :: "content \<Rightarrow> nat"
  sq_sqlite3 :: "content \<Rightarrow> content option"
  sq_suffix :: "nat \<Rightarrow> string"
  sq_now :: "nat \<Rightarrow> int"
  sq_random :: "nat \<Rightarrow> nat list"
  sq_available :: "nat \<Rightarrow> nat"
  sq_dateOk :: "string \<Rightarrow> bool"
  sq_locale :: "string \<Rightarrow> string \<Rightarrow> int"
  sq_close :: "nat \<Rightarrow> bool"
  sq_ready :: "nat \<Rightarrow> bool option"
  sq_fails :: "nat \<Rightarrow> bool"
  sq_removed :: "nat \<Rightarrow> nat"

record sq_state =
  ss_home :: "listing option"
  ss_codex :: "listing option"
  ss_backups :: "listing option"
  ss_operation :: storage_operation
  ss_lastFailure :: "storage_failure option"
  ss_recovery :: bool
  ss_calls :: nat
  lv_local :: "string option"
  lv_durable :: "string option"
  lv_stage :: "string option"
  lv_safety :: "string option"
  lv_moved :: bool
  lv_names :: "string list"

type_synonym 'a sq_eff = "(sq_state, storage_error, 'a) eff"

definition sub_listing :: "listing option \<Rightarrow> string \<Rightarrow> listing option" where
  "sub_listing l d = (case l of None \<Rightarrow> None | Some es \<Rightarrow> (case map_of es d of Some (Directory m) \<Rightarrow> Some m | _ \<Rightarrow> None))"

fun listing_of :: "place \<Rightarrow> sq_state \<Rightarrow> listing option" where
  "listing_of Home s = ss_home s"
| "listing_of Codex s = ss_codex s"
| "listing_of Backups s = ss_backups s"
| "listing_of (InHome d) s = sub_listing (ss_home s) d"
| "listing_of (InBackups d) s = sub_listing (ss_backups s) d"

definition put_sub :: "listing option \<Rightarrow> string \<Rightarrow> listing \<Rightarrow> listing option" where
  "put_sub l d m = (case l of None \<Rightarrow> None | Some es \<Rightarrow> Some (AList.update d (Directory m) es))"

fun put_listing :: "place \<Rightarrow> listing \<Rightarrow> sq_state \<Rightarrow> sq_state" where
  "put_listing Home l s = s\<lparr>ss_home := Some l\<rparr>"
| "put_listing Codex l s = s\<lparr>ss_codex := Some l\<rparr>"
| "put_listing Backups l s = s\<lparr>ss_backups := Some l\<rparr>"
| "put_listing (InHome d) l s = s\<lparr>ss_home := put_sub (ss_home s) d l\<rparr>"
| "put_listing (InBackups d) l s = s\<lparr>ss_backups := put_sub (ss_backups s) d l\<rparr>"

text \<open>A numbered call of the operating system; it fails as the environment says.\<close>

definition os_call :: "sq_env \<Rightarrow> nat sq_eff" where
  "os_call env s =
     (let n = ss_calls s; t = s\<lparr>ss_calls := n + 1\<rparr> in (if sq_fails env n then Inl IoError else Inr n, t))"

definition the_listing :: "place \<Rightarrow> listing sq_eff" where
  "the_listing p s = (case listing_of p s of None \<Rightarrow> (Inl IoError, s) | Some l \<Rightarrow> (Inr l, s))"

definition readdir :: "sq_env \<Rightarrow> place \<Rightarrow> listing sq_eff" where
  "readdir env p = bnd (os_call env) (\<lambda>_. the_listing p)"

definition mkdir_recursive :: "sq_env \<Rightarrow> place \<Rightarrow> unit sq_eff" where
  "mkdir_recursive env p =
     bnd (os_call env) (\<lambda>_. modS (\<lambda>s. case listing_of p s of None \<Rightarrow> put_listing p [] s | Some _ \<Rightarrow> s))"

text \<open>\<^verbatim>\<open>mkdir\<close> of a new directory, and \<^verbatim>\<open>mkdtemp\<close>, which never returns a name that exists.\<close>

definition make_directory :: "place \<Rightarrow> string \<Rightarrow> unit sq_eff" where
  "make_directory p name =
     bnd (the_listing p) (\<lambda>l.
     bnd (guardE (map_of l name = None) IoError) (\<lambda>_.
     modS (put_listing p (AList.update name (Directory []) l))))"

definition mkdir_new :: "sq_env \<Rightarrow> place \<Rightarrow> string \<Rightarrow> unit sq_eff" where
  "mkdir_new env p name = bnd (os_call env) (\<lambda>_. make_directory p name)"

definition mkdtemp :: "sq_env \<Rightarrow> string \<Rightarrow> string sq_eff" where
  "mkdtemp env purpose =
     bnd (os_call env) (\<lambda>n.
       let name = localStagingPrefix purpose @ sq_suffix env n
       in bnd (make_directory Home name) (\<lambda>_. ret name))"

definition file_content :: "place \<Rightarrow> string \<Rightarrow> content sq_eff" where
  "file_content p name =
     bnd (the_listing p) (\<lambda>l. case map_of l name of Some (File c) \<Rightarrow> ret c | _ \<Rightarrow> throw IoError)"

definition readFile :: "sq_env \<Rightarrow> place \<Rightarrow> string \<Rightarrow> content sq_eff" where
  "readFile env p name = bnd (os_call env) (\<lambda>_. file_content p name)"

text \<open>\<^verbatim>\<open>JSON.parse\<close> of a file.\<close>

definition read_json :: "sq_env \<Rightarrow> place \<Rightarrow> string \<Rightarrow> js_value sq_eff" where
  "read_json env p name =
     bnd (readFile env p name) (\<lambda>c. case c of Document v \<Rightarrow> ret v | Text _ \<Rightarrow> throw (PlainError ''SyntaxError''))"

definition file_size :: "sq_env \<Rightarrow> place \<Rightarrow> string \<Rightarrow> int sq_eff" where
  "file_size env p name = bnd (readFile env p name) (\<lambda>c. ret (int (sq_size env c)))"

definition checksum :: "sq_env \<Rightarrow> place \<Rightarrow> string \<Rightarrow> string sq_eff" where
  "checksum env p name = bnd (readFile env p name) (\<lambda>c. ret (sq_sha env c))"

definition usable :: "sq_env \<Rightarrow> place \<Rightarrow> string option \<Rightarrow> bool sq_eff" where
  "usable env p name =
     handle (bnd (os_call env) (\<lambda>_. bnd (the_listing p) (\<lambda>l.
       ret (case name of None \<Rightarrow> True | Some n \<Rightarrow> map_of l n \<noteq> None)))) (\<lambda>_. ret False)"

text \<open>\<^verbatim>\<open>writeFile\<close> with and without the flag \<^verbatim>\<open>wx\<close>.\<close>

definition writeFile_new :: "sq_env \<Rightarrow> place \<Rightarrow> string \<Rightarrow> content \<Rightarrow> unit sq_eff" where
  "writeFile_new env p name c =
     bnd (os_call env) (\<lambda>_.
     bnd (the_listing p) (\<lambda>l.
     bnd (guardE (map_of l name = None) IoError) (\<lambda>_.
     modS (put_listing p (AList.update name (File c) l)))))"

definition writeFile :: "sq_env \<Rightarrow> place \<Rightarrow> string \<Rightarrow> content \<Rightarrow> unit sq_eff" where
  "writeFile env p name c =
     bnd (os_call env) (\<lambda>_.
     bnd (the_listing p) (\<lambda>l.
     bnd (guardE (case map_of l name of None \<Rightarrow> True | Some (File _) \<Rightarrow> True | _ \<Rightarrow> False) IoError) (\<lambda>_.
     modS (put_listing p (AList.update name (File c) l)))))"

definition copyFile_excl :: "sq_env \<Rightarrow> place \<Rightarrow> place \<Rightarrow> string \<Rightarrow> unit sq_eff" where
  "copyFile_excl env p q name =
     bnd (os_call env) (\<lambda>_.
     bnd (file_content p name) (\<lambda>c.
     bnd (the_listing q) (\<lambda>l.
     bnd (guardE (map_of l name = None) IoError) (\<lambda>_.
     modS (put_listing q (AList.update name (File c) l))))))"

text \<open>\<^verbatim>\<open>rename\<close> replaces a file by a file and refuses to replace a directory.\<close>

definition may_replace :: "node \<Rightarrow> node option \<Rightarrow> bool" where
  "may_replace new old = (case (old, new) of
      (None, _) \<Rightarrow> True | (Some (File _), File _) \<Rightarrow> True | (Some Special, File _) \<Rightarrow> True | _ \<Rightarrow> False)"

definition rename :: "sq_env \<Rightarrow> place \<Rightarrow> string \<Rightarrow> place \<Rightarrow> string \<Rightarrow> unit sq_eff" where
  "rename env p name q target =
     bnd (os_call env) (\<lambda>_.
     bnd (the_listing p) (\<lambda>l.
       case map_of l name of
         None \<Rightarrow> throw IoError
       | Some nd \<Rightarrow>
           bnd (the_listing q) (\<lambda>m.
           bnd (guardE (may_replace nd (map_of m target)) IoError) (\<lambda>_.
           bnd (modS (put_listing p (AList.delete name l))) (\<lambda>_.
           bnd (the_listing q) (\<lambda>m'.
           modS (put_listing q (AList.update target nd m')))))))) "

text \<open>\<^verbatim>\<open>rm\<close> with \<^verbatim>\<open>force\<close>: a missing file is no error. The recursive removal of a directory may fail half-way.\<close>

definition rm_force :: "sq_env \<Rightarrow> place \<Rightarrow> string \<Rightarrow> unit sq_eff" where
  "rm_force env p name =
     bnd (os_call env) (\<lambda>_.
     bnd (the_listing p) (\<lambda>l.
     bnd (guardE (case map_of l name of Some (Directory _) \<Rightarrow> False | _ \<Rightarrow> True) IoError) (\<lambda>_.
     modS (put_listing p (AList.delete name l)))))"

definition rm_recursive :: "sq_env \<Rightarrow> place \<Rightarrow> string \<Rightarrow> unit sq_eff" where
  "rm_recursive env p name s =
     (let n = ss_calls s; t = s\<lparr>ss_calls := n + 1\<rparr>
      in case listing_of p s of
           None \<Rightarrow> (if sq_fails env n then Inl IoError else Inr (), t)
         | Some l \<Rightarrow>
             if sq_fails env n
             then (Inl IoError,
                   case map_of l name of
                     Some (Directory m) \<Rightarrow> put_listing p (AList.update name (Directory (drop (sq_removed env n) m)) l) t
                   | _ \<Rightarrow> t)
             else (Inr (), put_listing p (AList.delete name l) t))"

definition isFile :: "node \<Rightarrow> bool" where
  "isFile nd = (case nd of File _ \<Rightarrow> True | _ \<Rightarrow> False)"

definition isDirectory :: "node \<Rightarrow> bool" where
  "isDirectory nd = (case nd of Directory _ \<Rightarrow> True | _ \<Rightarrow> False)"

definition databases :: "sq_env \<Rightarrow> place \<Rightarrow> string list sq_eff" where
  "databases env p =
     handle (bnd (readdir env p) (\<lambda>entries.
       ret (take (MAX_DATABASES + 1) (js_sort_by string_order
              (map fst (filter (\<lambda>(name, nd). isFile nd \<and> DATABASE_FILENAME name) entries)))))) (\<lambda>_. ret [])"

text \<open>\<^verbatim>\<open>sqlite3 source ".backup destination"\<close>.\<close>

definition sqliteBackup :: "sq_env \<Rightarrow> string \<Rightarrow> string \<Rightarrow> unit sq_eff" where
  "sqliteBackup env dir name =
     bnd (readFile env Home name) (\<lambda>c.
       case sq_sqlite3 env c of
         None \<Rightarrow> throw (PlainError ''sqlite_backup_failed'')
       | Some c' \<Rightarrow> writeFile env (InHome dir) name c')"

text \<open>Symbolic links are special entries here, so that the resolved path of a directory is its own.\<close>

definition safeBackupDirectory :: "sq_env \<Rightarrow> string \<Rightarrow> string sq_eff" where
  "safeBackupDirectory env i =
     bnd (guardE (BACKUP_ID i) (SafeError ''invalid_backup_id'' 400)) (\<lambda>_.
     bnd (os_call env) (\<lambda>_.
     bnd (the_listing Backups) (\<lambda>root.
     bnd (handle (bnd (os_call env) (\<lambda>_. ret (map_of root i))) (\<lambda>_. ret None)) (\<lambda>entry.
     bnd (guardE (case entry of Some nd \<Rightarrow> isDirectory nd | None \<Rightarrow> False) (SafeError ''backup_not_found'' 404)) (\<lambda>_.
     bnd (os_call env) (\<lambda>_. ret i))))))"

subsection \<open>The one-time copy of a legacy installation\<close>

definition marker_complete :: "content \<Rightarrow> bool" where
  "marker_complete c = (c \<in> {Text (''legacy-copy-complete'' @ [CHR 0x0A]), Text (''empty'' @ [CHR 0x0A])})"

definition stage_legacy :: "sq_env \<Rightarrow> string \<Rightarrow> string \<Rightarrow> string list sq_eff" where
  "stage_legacy env stage name =
     bnd (mapE (\<lambda>sfx.
       bnd (usable env Codex (Some (name @ sfx))) (\<lambda>ok.
         if ok then bnd (copyFile_excl env Codex (InHome stage) (name @ sfx)) (\<lambda>_. ret [name @ sfx]) else ret []))
       [[], ''-wal'', ''-shm'']) (\<lambda>names. ret (concat names))"

definition promote :: "sq_env \<Rightarrow> string \<Rightarrow> string \<Rightarrow> unit sq_eff" where
  "promote env stage name =
     bnd (rename env (InHome stage) name Home name) (\<lambda>_. modS (\<lambda>s. s\<lparr>lv_names := lv_names s @ [name]\<rparr>))"

definition quietly :: "unit sq_eff \<Rightarrow> unit sq_eff" where
  "quietly m = handle m (\<lambda>_. ret ())"

definition undo_promotion :: "sq_env \<Rightarrow> unit sq_eff" where
  "undo_promotion env =
     bnd (getS lv_names) (\<lambda>promoted.
     bnd (mapE (\<lambda>name. quietly (rm_force env Home name)) (rev promoted)) (\<lambda>_. ret ()))"

definition bootstrap_copy :: "sq_env \<Rightarrow> string list \<Rightarrow> string \<Rightarrow> unit sq_eff" where
  "bootstrap_copy env legacy stage =
     bnd (mapE (stage_legacy env stage) legacy) (\<lambda>staged.
     bnd (mapE (promote env stage) (concat staged)) (\<lambda>_.
     bnd (writeFile_new env (InHome stage) BOOTSTRAP_MARKER (Text (''legacy-copy-complete'' @ [CHR 0x0A]))) (\<lambda>_.
     promote env stage BOOTSTRAP_MARKER)))"

definition bootstrapLegacySqlite :: "sq_env \<Rightarrow> unit sq_eff" where
  "bootstrapLegacySqlite env =
     (if \<not> truthy (sq_home env) then ret ()
      else
        bnd (mkdir_recursive env Home) (\<lambda>_.
        bnd (databases env Home) (\<lambda>existing.
          if existing \<noteq> [] then ret ()
          else
            bnd (handle (bnd (readFile env Home BOOTSTRAP_MARKER) (\<lambda>c. ret (marker_complete c))) (\<lambda>_. ret False)) (\<lambda>done.
              if done then ret ()
              else
                bnd (databases env Codex) (\<lambda>legacy.
                  if MAX_DATABASES < length legacy then throw (PlainError ''sqlite_bootstrap_failed'')
                  else if legacy = [] then writeFile_new env Home BOOTSTRAP_MARKER (Text (''empty'' @ [CHR 0x0A]))
                  else
                    bnd (mkdtemp env ''bootstrap'') (\<lambda>stage.
                    bnd (modS (\<lambda>s. s\<lparr>lv_names := []\<rparr>)) (\<lambda>_.
                    finallyE
                      (handle (bootstrap_copy env legacy stage)
                         (\<lambda>_. bnd (undo_promotion env) (\<lambda>_. throw (PlainError ''sqlite_bootstrap_failed''))))
                      (rm_recursive env Home stage))))))))"

subsection \<open>Start-up and status\<close>

definition needs_recovery :: "sq_env \<Rightarrow> string \<times> node \<Rightarrow> unit sq_eff" where
  "needs_recovery env entry =
     (if isDirectory (snd entry) \<and> prefix ''.adt-pre-restore-'' (fst entry)
      then bnd (usable env (InHome (fst entry)) (Some RECOVERY_MARKER)) (\<lambda>marked.
             if marked
             then bnd (modS (\<lambda>s. s\<lparr>ss_recovery := True, ss_operation := Restoring\<rparr>)) (\<lambda>_.
                  throw (PlainError ''restore_recovery_required''))
             else ret ())
      else ret ())"

definition mounts :: "sq_env \<Rightarrow> mount list sq_eff" where
  "mounts env =
     handle (bnd (os_call env) (\<lambda>_.
       ret (parseMountInfo (case sq_mountinfo env of None \<Rightarrow> [] | Some t \<Rightarrow> t)))) (\<lambda>_. ret (parseMountInfo []))"

definition initialize :: "sq_env \<Rightarrow> unit sq_eff" where
  "initialize env =
     (case sq_home env of
        None \<Rightarrow> ret ()
      | Some home \<Rightarrow>
          if home = [] then ret ()
          else
            bnd (mkdir_recursive env Home) (\<lambda>_.
            bnd (readdir env Home) (\<lambda>entries.
            bnd (mapE (needs_recovery env) entries) (\<lambda>_.
            bnd (mounts env) (\<lambda>ms.
              if classifyFilesystem home ms = NetworkFs
              then throw (PlainError ''network_filesystem_unsupported_for_sqlite'')
              else bootstrapLegacySqlite env)))))"

text \<open>A manifest that cannot be read or that is not valid is left out of the list.\<close>

definition list_entry :: "sq_env \<Rightarrow> string \<times> node \<Rightarrow> backup_metadata list sq_eff" where
  "list_entry env entry =
     (if \<not> isDirectory (snd entry) \<or> \<not> BACKUP_ID (fst entry) then ret []
      else handle
        (bnd (safeBackupDirectory env (fst entry)) (\<lambda>directory.
         bnd (read_json env (InBackups directory) MANIFEST) (\<lambda>raw.
           if js_get raw ''schemaVersion'' \<noteq> Some (JNum BACKUP_SCHEMA) then ret []
           else case parseBackupMetadata (sq_dateOk env) raw (Some (fst entry)) of
                  None \<Rightarrow> throw (PlainError ''invalid_backup'')
                | Some m \<Rightarrow> ret [m])))
        (\<lambda>_. ret []))"

definition list_backups :: "sq_env \<Rightarrow> backup_metadata list sq_eff" where
  "list_backups env =
     bnd (mkdir_recursive env Backups) (\<lambda>_.
     bnd (readdir env Backups) (\<lambda>entries.
     bnd (mapE (list_entry env) (take 1000 entries)) (\<lambda>result.
     ret (take 365 (js_sort_by (\<lambda>a b. sq_locale env (bm_createdAt b) (bm_createdAt a)) (concat result))))))"

datatype storage_warning = NetworkUnsupported | NotSeparated | RecoveryRequired

record storage_status =
  st_separate :: bool
  st_filesystem :: filesystem_class
  st_readable :: bool
  st_writable :: bool
  st_codexFilesystem :: filesystem_class
  st_backupsAvailable :: bool
  st_backupsWritable :: bool
  st_lastBackupAt :: "string option"
  st_lastFailure :: "storage_failure option"
  st_latestId :: "string option"
  st_retained :: nat
  st_retention :: nat
  st_operation :: storage_operation
  st_warning :: "storage_warning option"

definition sqlite_place :: "sq_env \<Rightarrow> place" where
  "sqlite_place env = (case sq_home env of None \<Rightarrow> Codex | Some _ \<Rightarrow> Home)"

definition sqlite_path :: "sq_env \<Rightarrow> string" where
  "sqlite_path env = (case sq_home env of None \<Rightarrow> sq_codexHome env | Some h \<Rightarrow> h)"

definition status :: "sq_env \<Rightarrow> storage_status sq_eff" where
  "status env =
     bnd (mounts env) (\<lambda>ms.
     bnd (handle (list_backups env) (\<lambda>_. ret [])) (\<lambda>backups.
     bnd (usable env (sqlite_place env) None) (\<lambda>readable.
     bnd (usable env (sqlite_place env) None) (\<lambda>writable.
     bnd (usable env Backups None) (\<lambda>available.
     bnd (usable env Backups None) (\<lambda>backupsWritable.
     bnd (getS (\<lambda>s. s)) (\<lambda>s.
     let cls = classifyFilesystem (sqlite_path env) ms in
     ret \<lparr>st_separate = truthy (sq_home env), st_filesystem = cls, st_readable = readable, st_writable = writable,
          st_codexFilesystem = classifyFilesystem (sq_codexHome env) ms,
          st_backupsAvailable = available, st_backupsWritable = backupsWritable,
          st_lastBackupAt = (case backups of [] \<Rightarrow> None | b # _ \<Rightarrow> Some (bm_createdAt b)),
          st_lastFailure = ss_lastFailure s,
          st_latestId = (case backups of [] \<Rightarrow> None | b # _ \<Rightarrow> Some (bm_backupId b)),
          st_retained = length backups, st_retention = sq_retention env, st_operation = ss_operation s,
          st_warning = (if ss_recovery s then Some RecoveryRequired
                        else if cls = NetworkFs then Some NetworkUnsupported
                        else if \<not> truthy (sq_home env) then Some NotSeparated else None)\<rparr>)))))))"

subsection \<open>Backups\<close>

definition prune :: "sq_env \<Rightarrow> unit sq_eff" where
  "prune env =
     bnd (list_backups env) (\<lambda>backups.
     bnd (mapE (\<lambda>backup.
       bnd (safeBackupDirectory env (bm_backupId backup)) (\<lambda>directory. rm_recursive env Backups directory))
       (drop (sq_retention env) backups)) (\<lambda>_. ret ()))"

fun drop_millis :: "string \<Rightarrow> string" where
  "drop_millis (a # b # c # d # rest) =
     (if a = CHR ''.'' \<and> digit b \<and> digit c \<and> digit d then rest else a # drop_millis (b # c # d # rest))"
| "drop_millis s = s"

definition new_backup_id :: "string \<Rightarrow> nat list \<Rightarrow> string" where
  "new_backup_id createdAt random =
     ''b-'' @ drop_millis (filter (\<lambda>c. c \<notin> {CHR ''-'', CHR '':''}) createdAt) @ ''-'' @ hex_bytes random"

definition record_database :: "sq_env \<Rightarrow> string \<Rightarrow> string \<Rightarrow> backup_database sq_eff" where
  "record_database env dir name =
     bnd (file_size env (InHome dir) name) (\<lambda>n.
     bnd (guardE (n \<le> MAX_DATABASE_SIZE) (PlainError ''sqlite_backup_failed'')) (\<lambda>_.
     bnd (checksum env (InHome dir) name) (\<lambda>sha.
     ret \<lparr>bd_filename = name, bd_size = n, bd_sha256 = sha\<rparr>)))"

definition store_database :: "sq_env \<Rightarrow> string \<Rightarrow> string \<Rightarrow> backup_database \<Rightarrow> unit sq_eff" where
  "store_database env dir durable d =
     bnd (copyFile_excl env (InHome dir) (InBackups durable) (bd_filename d)) (\<lambda>_.
     bnd (checksum env (InBackups durable) (bd_filename d)) (\<lambda>sha.
     guardE (sha = bd_sha256 d) (PlainError ''backup_verification_failed'')))"

definition backup_body :: "sq_env \<Rightarrow> backup_metadata sq_eff" where
  "backup_body env =
     bnd (databases env Home) (\<lambda>names.
     bnd (guardE (names \<noteq> [] \<and> length names \<le> MAX_DATABASES) (PlainError ''no_sqlite_databases'')) (\<lambda>_.
     bnd (mapE (file_size env Home) names) (\<lambda>sizes.
     bnd (os_call env) (\<lambda>n.
     bnd (guardE (sum_list sizes \<le> int (sq_available env n)) (PlainError ''sqlite_backup_insufficient_space'')) (\<lambda>_.
     bnd (mkdtemp env ''backup'') (\<lambda>dir.
     bnd (modS (\<lambda>s. s\<lparr>lv_local := Some dir\<rparr>)) (\<lambda>_.
     bnd (getS ss_calls) (\<lambda>k.
     let createdAt = toISOString (sq_now env k); backupId = new_backup_id createdAt (sq_random env k) in
     bnd (mapE (sqliteBackup env dir) names) (\<lambda>_.
     bnd (mapE (record_database env dir) names) (\<lambda>records.
     let manifest = \<lparr>bm_backupId = backupId, bm_createdAt = createdAt, bm_runnerVersion = sq_runnerVersion env,
                     bm_codexVersion = sq_codexVersion env, bm_databases = records\<rparr>;
         durable = ''.staging-'' @ backupId in
     bnd (mkdir_recursive env Backups) (\<lambda>_.
     bnd (modS (\<lambda>s. s\<lparr>lv_durable := Some durable\<rparr>)) (\<lambda>_.
     bnd (mkdir_new env Backups durable) (\<lambda>_.
     bnd (mapE (store_database env dir durable) records) (\<lambda>_.
     bnd (writeFile_new env (InBackups durable) MANIFEST (Document (manifest_value manifest))) (\<lambda>_.
     bnd (rename env Backups durable Backups backupId) (\<lambda>_.
     bnd (modS (\<lambda>s. s\<lparr>lv_durable := None, ss_lastFailure := None\<rparr>)) (\<lambda>_.
     bnd (prune env) (\<lambda>_.
     case parseBackupMetadata (sq_dateOk env) (manifest_value manifest) (Some backupId) of
       None \<Rightarrow> throw (PlainError ''invalid_backup'')
     | Some m \<Rightarrow> ret m))))))))))))))))))"

definition failure_category :: "storage_error \<Rightarrow> storage_failure" where
  "failure_category e =
     (if e = PlainError ''no_sqlite_databases'' then NoSqliteDatabases
      else if e = PlainError ''backup_verification_failed'' then BackupVerificationFailed
      else if e = PlainError ''sqlite_backup_insufficient_space'' then InsufficientSpace
      else SqliteBackupFailed)"

definition backup_error :: "storage_failure \<Rightarrow> storage_error" where
  "backup_error category =
     SafeError (if category = InsufficientSpace then ''sqlite_backup_insufficient_space'' else ''sqlite_backup_failed'') 503"

definition remove_if :: "sq_env \<Rightarrow> place \<Rightarrow> string option \<Rightarrow> unit sq_eff" where
  "remove_if env p v = (case v of None \<Rightarrow> ret () | Some name \<Rightarrow> rm_recursive env p name)"

definition backup_cleanup :: "sq_env \<Rightarrow> unit sq_eff" where
  "backup_cleanup env =
     bnd (getS lv_local) (\<lambda>dir.
     bnd (remove_if env Home dir) (\<lambda>_.
     bnd (getS lv_durable) (\<lambda>durable.
     bnd (remove_if env Backups durable) (\<lambda>_.
     modS (\<lambda>s. s\<lparr>ss_operation := Idle\<rparr>)))))"

definition createBackup :: "sq_env \<Rightarrow> backup_metadata sq_eff" where
  "createBackup env =
     bnd (guardE (truthy (sq_home env)) (SafeError ''sqlite_home_not_configured'' 409)) (\<lambda>_.
     bnd (getS ss_operation) (\<lambda>op.
     bnd (guardE (op = Idle) (SafeError ''runner_busy'' 409)) (\<lambda>_.
     bnd (modS (\<lambda>s. s\<lparr>ss_operation := BackingUp, lv_local := None, lv_durable := None\<rparr>)) (\<lambda>_.
     finallyE
       (handle (backup_body env) (\<lambda>e.
          bnd (modS (\<lambda>s. s\<lparr>ss_lastFailure := Some (failure_category e)\<rparr>)) (\<lambda>_.
          throw (backup_error (failure_category e)))))
       (backup_cleanup env)))))"

subsection \<open>Restore\<close>

definition restore_source :: "sq_env \<Rightarrow> string \<Rightarrow> (string \<times> backup_metadata) sq_eff" where
  "restore_source env i =
     bnd (if i = ''latest'' then bnd (list_backups env) (\<lambda>bs. ret (case bs of [] \<Rightarrow> [] | b # _ \<Rightarrow> bm_backupId b)) else ret i) (\<lambda>selected.
     bnd (guardE (selected \<noteq> []) (SafeError ''backup_not_found'' 404)) (\<lambda>_.
     bnd (safeBackupDirectory env selected) (\<lambda>directory.
     bnd (read_json env (InBackups directory) MANIFEST) (\<lambda>raw.
     bnd (guardE (raw \<noteq> JNull) (PlainError ''TypeError'')) (\<lambda>_.
     bnd (guardE (js_get raw ''schemaVersion'' = Some (JNum BACKUP_SCHEMA)) (SafeError ''invalid_backup'' 409)) (\<lambda>_.
     case parseBackupMetadata (sq_dateOk env) raw (Some selected) of
       None \<Rightarrow> throw (PlainError ''invalid_backup'')
     | Some manifest \<Rightarrow> ret (selected, manifest)))))))"

definition verify_database :: "sq_env \<Rightarrow> string \<Rightarrow> backup_database \<Rightarrow> unit sq_eff" where
  "verify_database env directory d =
     bnd (checksum env (InBackups directory) (bd_filename d)) (\<lambda>sha.
     bnd (guardE (sha = bd_sha256 d) (SafeError ''invalid_backup'' 409)) (\<lambda>_.
     bnd (file_size env (InBackups directory) (bd_filename d)) (\<lambda>n.
     guardE (n = bd_size d) (SafeError ''invalid_backup'' 409))))"

text \<open>The App Server hooks: \<^verbatim>\<open>closeAndWait\<close> rejects or returns, \<^verbatim>\<open>ready\<close> answers or rejects.\<close>

definition closeAndWait :: "sq_env \<Rightarrow> unit sq_eff" where
  "closeAndWait env s = (if sq_close env (ss_calls s) then Inr () else Inl IoError, s\<lparr>ss_calls := ss_calls s + 1\<rparr>)"

definition app_ready :: "sq_env \<Rightarrow> bool sq_eff" where
  "app_ready env s =
     (case sq_ready env (ss_calls s) of None \<Rightarrow> Inl IoError | Some b \<Rightarrow> Inr b, s\<lparr>ss_calls := ss_calls s + 1\<rparr>)"

definition mark_recovery :: "sq_env \<Rightarrow> string \<Rightarrow> 'a sq_eff" where
  "mark_recovery env safety =
     bnd (modS (\<lambda>s. s\<lparr>ss_recovery := True, ss_operation := Restoring\<rparr>)) (\<lambda>_.
     bnd (quietly (writeFile env (InHome safety) RECOVERY_MARKER (Text (''restore rollback incomplete'' @ [CHR 0x0A])))) (\<lambda>_.
     throw (SafeError ''restore_rollback_failed'' 503)))"

definition move_out :: "sq_env \<Rightarrow> string \<Rightarrow> string \<Rightarrow> unit sq_eff" where
  "move_out env safety name =
     bnd (rename env Home name (InHome safety) name) (\<lambda>_. modS (\<lambda>s. s\<lparr>lv_names := lv_names s @ [name]\<rparr>))"

text \<open>Only the error \<^verbatim>\<open>restore_failed_rolled_back\<close> passes the inner handler.\<close>

definition rolled_back :: storage_error where
  "rolled_back = SafeError ''restore_failed_rolled_back'' 503"

definition guarded_rollback :: "sq_env \<Rightarrow> string \<Rightarrow> 'a sq_eff \<Rightarrow> 'a sq_eff" where
  "guarded_rollback env safety m = handle m (\<lambda>e. if e = rolled_back then throw e else mark_recovery env safety)"

definition move_back :: "sq_env \<Rightarrow> string \<Rightarrow> 'a sq_eff" where
  "move_back env safety =
     bnd (getS lv_names) (\<lambda>moved.
     bnd (mapE (\<lambda>name. rename env (InHome safety) name Home name) (rev moved)) (\<lambda>_.
     bnd (rm_recursive env Home safety) (\<lambda>_.
     bnd (modS (\<lambda>s. s\<lparr>lv_safety := None\<rparr>)) (\<lambda>_. throw rolled_back))))"

definition set_aside :: "sq_env \<Rightarrow> string \<Rightarrow> unit sq_eff" where
  "set_aside env safety =
     bnd (readdir env Home) (\<lambda>entries.
     bnd (modS (\<lambda>s. s\<lparr>lv_names := []\<rparr>)) (\<lambda>_.
     bnd (handle (mapE (move_out env safety) (filter database_related (map fst entries)))
            (\<lambda>_. guarded_rollback env safety (move_back env safety))) (\<lambda>_.
     modS (\<lambda>s. s\<lparr>lv_moved := True\<rparr>))))"

definition install :: "sq_env \<Rightarrow> string \<Rightarrow> string \<Rightarrow> backup_metadata \<Rightarrow> unit sq_eff" where
  "install env stage safety manifest =
     bnd (mapE (\<lambda>d. rename env (InHome stage) (bd_filename d) Home (bd_filename d)) (bm_databases manifest)) (\<lambda>_.
     bnd (app_ready env) (\<lambda>ok.
     bnd (guardE ok (PlainError ''restore_readiness_failed'')) (\<lambda>_.
     bnd (rm_recursive env Home safety) (\<lambda>_.
     modS (\<lambda>s. s\<lparr>lv_safety := None\<rparr>)))))"

definition restore_body :: "sq_env \<Rightarrow> string \<Rightarrow> string sq_eff" where
  "restore_body env i =
     bnd (restore_source env i) (\<lambda>(selected, manifest).
     bnd (mapE (verify_database env selected) (bm_databases manifest)) (\<lambda>_.
     bnd (mkdtemp env ''restore'') (\<lambda>stage.
     bnd (modS (\<lambda>s. s\<lparr>lv_stage := Some stage\<rparr>)) (\<lambda>_.
     bnd (mapE (\<lambda>d. copyFile_excl env (InBackups selected) (InHome stage) (bd_filename d)) (bm_databases manifest)) (\<lambda>_.
     bnd (handle (closeAndWait env) (\<lambda>_. throw (SafeError ''app_server_shutdown_unconfirmed'' 503))) (\<lambda>_.
     bnd (mkdtemp env ''pre-restore'') (\<lambda>safety.
     bnd (modS (\<lambda>s. s\<lparr>lv_safety := Some safety\<rparr>)) (\<lambda>_.
     bnd (set_aside env safety) (\<lambda>_.
     bnd (install env stage safety manifest) (\<lambda>_.
     ret selected))))))))))"

definition clear_home :: "sq_env \<Rightarrow> unit sq_eff" where
  "clear_home env =
     bnd (handle (readdir env Home) (\<lambda>_. ret [])) (\<lambda>entries.
     bnd (mapE (rm_force env Home) (filter database_related (map fst entries))) (\<lambda>_. ret ()))"

definition copy_back :: "sq_env \<Rightarrow> string \<Rightarrow> 'a sq_eff" where
  "copy_back env safety =
     bnd (clear_home env) (\<lambda>_.
     bnd (readdir env (InHome safety)) (\<lambda>entries.
     bnd (mapE (copyFile_excl env (InHome safety) Home) (map fst entries)) (\<lambda>_.
     bnd (app_ready env) (\<lambda>ok.
     bnd (guardE ok (PlainError ''rollback_readiness_failed'')) (\<lambda>_.
     bnd (rm_recursive env Home safety) (\<lambda>_.
     bnd (modS (\<lambda>s. s\<lparr>lv_safety := None\<rparr>)) (\<lambda>_. throw rolled_back)))))))"

definition rollback :: "sq_env \<Rightarrow> storage_error \<Rightarrow> 'a sq_eff" where
  "rollback env e =
     bnd (getS lv_moved) (\<lambda>moved.
     bnd (getS lv_safety) (\<lambda>safety.
       case safety of
         None \<Rightarrow> throw e
       | Some d \<Rightarrow>
           if moved
           then bnd (handle (closeAndWait env) (\<lambda>_. mark_recovery env d)) (\<lambda>_.
                guarded_rollback env d (copy_back env d))
           else throw e))"

definition restore_cleanup :: "sq_env \<Rightarrow> unit sq_eff" where
  "restore_cleanup env =
     bnd (getS lv_stage) (\<lambda>stage.
     bnd (remove_if env Home stage) (\<lambda>_.
     bnd (getS (\<lambda>s. (ss_recovery s, lv_safety s))) (\<lambda>(recovery, safety).
     bnd (if recovery then ret () else remove_if env Home safety) (\<lambda>_.
     modS (\<lambda>s. if ss_recovery s then s else s\<lparr>ss_operation := Idle\<rparr>)))))"

definition restore :: "sq_env \<Rightarrow> string \<Rightarrow> string sq_eff" where
  "restore env i =
     bnd (guardE (truthy (sq_home env)) (SafeError ''sqlite_home_not_configured'' 409)) (\<lambda>_.
     bnd (getS ss_operation) (\<lambda>op.
     bnd (guardE (op = Idle) (SafeError ''runner_busy'' 409)) (\<lambda>_.
     bnd (modS (\<lambda>s. s\<lparr>ss_operation := Restoring, lv_stage := None, lv_safety := None, lv_moved := False\<rparr>)) (\<lambda>_.
     finallyE (handle (restore_body env i) (rollback env)) (restore_cleanup env)))))"

end
