(* ===== verification/Sqlite_Restore.thy ===== *)
theory Sqlite_Restore
  imports Sqlite_Storage
begin

text \<open>
  Correctness of the storage manager: what each call of the operating system does to the entries of the SQLite home,
  what the phases of a restore do to the database files, and what a restore guarantees whatever fails: the databases of
  the backup are in place, or the original ones are, or the manager refuses further work and every original file is in
  the home or in the safety directory.
\<close>

section \<open>Calls\<close>

declare put_listing.simps [simp del]

definition hm :: "sq_state \<Rightarrow> string \<Rightarrow> node option" where
  "hm s = (case ss_home s of None \<Rightarrow> Map.empty | Some l \<Rightarrow> map_of l)"

text \<open>The parts of the state that a call on the home leaves alone.\<close>

definition fr :: "sq_state \<Rightarrow> sq_state \<Rightarrow> bool" where
  "fr s t \<longleftrightarrow> ss_backups t = ss_backups s \<and> ss_operation t = ss_operation s \<and> ss_recovery t = ss_recovery s
     \<and> lv_stage t = lv_stage s \<and> lv_safety t = lv_safety s \<and> lv_moved t = lv_moved s \<and> lv_names t = lv_names s"

lemma fr_refl [simp]: "fr s s"
  by (simp add: fr_def)

lemma fr_trans: "fr s t \<Longrightarrow> fr t u \<Longrightarrow> fr s u"
  by (simp add: fr_def)

lemma hm_simps [simp]:
  "hm (s\<lparr>ss_home := Some l\<rparr>) = map_of l" "hm (s\<lparr>ss_calls := n\<rparr>) = hm s" "hm (s\<lparr>lv_names := ns\<rparr>) = hm s"
  "hm (s\<lparr>lv_stage := v\<rparr>) = hm s" "hm (s\<lparr>lv_safety := v\<rparr>) = hm s" "hm (s\<lparr>lv_moved := b\<rparr>) = hm s"
  "hm (s\<lparr>ss_operation := oper\<rparr>) = hm s" "hm (s\<lparr>ss_recovery := b\<rparr>) = hm s" "hm (s\<lparr>ss_backups := k\<rparr>) = hm s"
  by (simp_all add: hm_def)

lemma os_call_Inr [eff_inv]:
  "os_call env s = (Inr n, t) \<longleftrightarrow> \<not> sq_fails env (ss_calls s) \<and> n = ss_calls s \<and> t = s\<lparr>ss_calls := Suc (ss_calls s)\<rparr>"
  by (auto simp: os_call_def Let_def)

lemma os_call_Inl [eff_inv]:
  "os_call env s = (Inl e, t) \<longleftrightarrow> sq_fails env (ss_calls s) \<and> e = IoError \<and> t = s\<lparr>ss_calls := Suc (ss_calls s)\<rparr>"
  by (auto simp: os_call_def Let_def)

lemma the_listing_Inr [eff_inv]: "the_listing p s = (Inr l, t) \<longleftrightarrow> t = s \<and> listing_of p s = Some l"
  by (auto simp: the_listing_def split: option.splits)

lemma the_listing_Inl [eff_inv]: "the_listing p s = (Inl e, t) \<longleftrightarrow> t = s \<and> e = IoError \<and> listing_of p s = None"
  by (auto simp: the_listing_def split: option.splits)

lemma listing_of_calls [simp]: "listing_of p (s\<lparr>ss_calls := n\<rparr>) = listing_of p s"
  by (cases p) auto

lemma fr_calls [simp]: "fr s (t\<lparr>ss_calls := n\<rparr>) = fr s t" "fr (s\<lparr>ss_calls := n\<rparr>) t = fr s t"
  by (simp_all add: fr_def)

lemma fr_put [simp]: "fr s (put_listing Home l t) = fr s t" "fr s (put_listing (InHome d) l t) = fr s t"
  by (simp_all add: fr_def put_listing.simps)

lemma hm_home: "ss_home s = Some l \<Longrightarrow> hm s = map_of l"
  by (simp add: hm_def)

lemma in_home: "listing_of (InHome d) s = Some l \<longleftrightarrow> hm s d = Some (Directory l)"
  by (auto simp: hm_def sub_listing_def split: option.splits node.splits)

lemma sub_home [simp]: "sub_listing (ss_home s) d = Some l \<longleftrightarrow> hm s d = Some (Directory l)"
  using in_home by simp

lemma hm_put [simp]: "hm (put_listing Home l s) = map_of l"
  by (simp add: put_listing.simps)

lemma hm_put_in_home:
  "hm s d = Some (Directory l) \<Longrightarrow> hm (put_listing (InHome d) m s) = (hm s)(d \<mapsto> Directory m)"
  by (auto simp: hm_def put_sub_def update_conv' put_listing.simps split: option.splits)

lemma readdir_Inr:
  "readdir env p s = (Inr l, t) \<longleftrightarrow>
     \<not> sq_fails env (ss_calls s) \<and> listing_of p s = Some l \<and> t = s\<lparr>ss_calls := Suc (ss_calls s)\<rparr>"
  by (auto simp: readdir_def eff_inv)

lemma readdir_Inl: "readdir env p s = (Inl e, t) \<Longrightarrow> t = s\<lparr>ss_calls := Suc (ss_calls s)\<rparr>"
  by (auto simp: readdir_def eff_inv)

lemma rename_Inr:
  "rename env p name q target s = (Inr x, t) \<Longrightarrow>
     (\<exists>l nd m m'. \<not> sq_fails env (ss_calls s) \<and> listing_of p s = Some l \<and> map_of l name = Some nd
        \<and> listing_of q s = Some m \<and> may_replace nd (map_of m target)
        \<and> listing_of q (put_listing p (AList.delete name l) (s\<lparr>ss_calls := Suc (ss_calls s)\<rparr>)) = Some m'
        \<and> t = put_listing q (AList.update target nd m')
                (put_listing p (AList.delete name l) (s\<lparr>ss_calls := Suc (ss_calls s)\<rparr>)))"
  by (auto simp: rename_def eff_inv split: option.splits if_splits)

lemma rename_Inl:
  "rename env p name q target s = (Inl e, t) \<Longrightarrow> t = s\<lparr>ss_calls := Suc (ss_calls s)\<rparr>
     \<or> (\<exists>l m. listing_of p s = Some l \<and> listing_of q s = Some m
          \<and> listing_of q (put_listing p (AList.delete name l) (s\<lparr>ss_calls := Suc (ss_calls s)\<rparr>)) = None)"
  by (auto simp: rename_def eff_inv split: option.splits if_splits)

text \<open>Moving a file from the home into a directory of the home, and back.\<close>

lemma rename_out_Inr:
  assumes "rename env Home n (InHome d) n s = (Inr x, t)" and "n \<noteq> d"
  shows "fr s t \<and> (\<exists>nd l l'. hm s n = Some nd \<and> hm s d = Some (Directory l) \<and> map_of l' = (map_of l)(n \<mapsto> nd)
    \<and> hm t = (hm s)(n := None, d \<mapsto> Directory l'))"
proof -
  define u where "u = s\<lparr>ss_calls := Suc (ss_calls s)\<rparr>"
  obtain l nd m m' where l: "ss_home s = Some l" and nd: "map_of l n = Some nd" and m: "hm s d = Some (Directory m)"
    and m': "listing_of (InHome d) (put_listing Home (AList.delete n l) u) = Some m'"
    and t: "t = put_listing (InHome d) (AList.update n nd m') (put_listing Home (AList.delete n l) u)"
    using rename_Inr [OF assms(1)] unfolding u_def [symmetric] in_home by auto
  have v: "hm (put_listing Home (AList.delete n l) u) = (hm s)(n := None)"
    using hm_home [OF l] by (simp add: delete_conv')
  have "m' = m" using m' m assms(2) unfolding in_home v by simp
  with t v m assms(2) have "hm t = (hm s)(n := None, d \<mapsto> Directory (AList.update n nd m))"
    by (simp add: hm_put_in_home)
  moreover have "fr s t" unfolding t u_def by simp
  ultimately show ?thesis using nd hm_home [OF l] m update_conv' [of n nd m] by metis
qed

lemma rename_out_Inl:
  assumes "rename env Home n (InHome d) n s = (Inl e, t)" and "n \<noteq> d"
  shows "fr s t \<and> hm t = hm s"
  using rename_Inl [OF assms(1)] assms(2)
  by (auto simp: sub_listing_def delete_conv' put_listing.simps split: option.splits node.splits)

lemma rename_in_Inr:
  assumes "rename env (InHome d) n Home n s = (Inr x, t)" and "n \<noteq> d"
  shows "fr s t \<and> (\<exists>nd l l'. hm s d = Some (Directory l) \<and> map_of l n = Some nd \<and> may_replace nd (hm s n)
    \<and> map_of l' = (map_of l)(n := None) \<and> hm t = (hm s)(d \<mapsto> Directory l', n \<mapsto> nd))"
proof -
  define u where "u = s\<lparr>ss_calls := Suc (ss_calls s)\<rparr>"
  obtain l nd m m' where l: "hm s d = Some (Directory l)" and nd: "map_of l n = Some nd" and m: "ss_home s = Some m"
    and rep: "may_replace nd (map_of m n)"
    and m': "ss_home (put_listing (InHome d) (AList.delete n l) u) = Some m'"
    and t: "t = put_listing Home (AList.update n nd m') (put_listing (InHome d) (AList.delete n l) u)"
    using rename_Inr [OF assms(1)] unfolding u_def [symmetric] in_home by auto
  have "hm u d = Some (Directory l)" using l by (simp add: u_def)
  then have v: "hm (put_listing (InHome d) (AList.delete n l) u) = (hm s)(d \<mapsto> Directory (AList.delete n l))"
    using hm_put_in_home [of u d l "AList.delete n l"] unfolding u_def hm_simps by blast
  have "hm t = (hm s)(d \<mapsto> Directory (AList.delete n l), n \<mapsto> nd)"
    unfolding t using hm_home [OF m'] v by (simp add: update_conv')
  moreover have "fr s t" unfolding t u_def by simp
  ultimately show ?thesis using l nd rep hm_home [OF m] delete_conv' [of n l] by metis
qed

lemma rename_in_Inl:
  assumes "rename env (InHome d) n Home n s = (Inl e, t)"
  shows "fr s t \<and> hm t = hm s"
  using rename_Inl [OF assms] by (auto simp: sub_listing_def put_sub_def put_listing.simps split: option.splits node.splits)

text \<open>Copying, removing and creating entries of the home.\<close>

lemma make_directory_home:
  assumes "make_directory Home name s = (r, t)"
  shows "fr s t \<and> (case r of Inl _ \<Rightarrow> hm t = hm s
     | Inr _ \<Rightarrow> hm s name = None \<and> hm t = (hm s)(name \<mapsto> Directory []))"
  using assms
  by (cases r) (auto simp: make_directory_def eff_inv hm_home update_conv' split: if_splits)

lemma mkdtemp_Inr:
  assumes "mkdtemp env purpose s = (Inr d, t)"
  shows "fr s t \<and> hm s d = None \<and> hm t = (hm s)(d \<mapsto> Directory []) \<and> (\<exists>n. d = localStagingPrefix purpose @ sq_suffix env n)"
  using assms by (auto simp: mkdtemp_def Let_def eff_inv dest!: make_directory_home)

lemma mkdtemp_Inl:
  assumes "mkdtemp env purpose s = (Inl e, t)"
  shows "fr s t \<and> hm t = hm s"
  using assms by (auto simp: mkdtemp_def Let_def eff_inv dest!: make_directory_home)

lemma file_content_eq:
  "file_content p n s =
     (case listing_of p s of
        None \<Rightarrow> (Inl IoError, s)
      | Some l \<Rightarrow> (case map_of l n of Some (File c) \<Rightarrow> (Inr c, s) | _ \<Rightarrow> (Inl IoError, s)))"
  by (simp add: file_content_def the_listing_def eff_def split: option.split node.split)

lemma file_content_Inr: "file_content p n s = (Inr c, t) \<Longrightarrow> t = s \<and> (\<exists>l. listing_of p s = Some l \<and> map_of l n = Some (File c))"
  by (auto simp: file_content_eq split: option.split_asm node.split_asm)

lemma file_content_Inl: "file_content p n s = (Inl e, t) \<Longrightarrow> t = s"
  by (auto simp: file_content_eq split: option.split_asm node.split_asm)

lemma copy_stage_Inr:
  assumes "copyFile_excl env (InBackups b) (InHome d) n s = (Inr x, t)"
  shows "fr s t \<and> (\<exists>bl c l l'. sub_listing (ss_backups s) b = Some bl \<and> map_of bl n = Some (File c)
    \<and> hm s d = Some (Directory l) \<and> map_of l n = None \<and> map_of l' = (map_of l)(n \<mapsto> File c) \<and> hm t = (hm s)(d \<mapsto> Directory l'))"
proof -
  define u where "u = s\<lparr>ss_calls := Suc (ss_calls s)\<rparr>"
  obtain c l where c: "file_content (InBackups b) n u = (Inr c, u)" and l: "hm u d = Some (Directory l)" and new: "map_of l n = None"
    and t: "t = put_listing (InHome d) (AList.update n (File c) l) u"
    using assms by (auto simp: copyFile_excl_def eff_inv u_def in_home split: if_splits dest!: file_content_Inr)
  have "hm t = (hm u)(d \<mapsto> Directory (AList.update n (File c) l))" unfolding t by (rule hm_put_in_home [OF l])
  moreover have "fr s t" unfolding t u_def by simp
  ultimately show ?thesis
    using file_content_Inr [OF c] l new update_conv' [of n "File c" l] unfolding u_def by auto
qed

lemma copyFile_excl_Inl: "copyFile_excl env p q n s = (Inl e, t) \<Longrightarrow> fr s t \<and> hm t = hm s"
  by (auto simp: copyFile_excl_def eff_inv split: if_splits dest!: file_content_Inr file_content_Inl)

lemma copy_home_Inr:
  assumes "copyFile_excl env (InHome d) Home n s = (Inr x, t)"
  shows "fr s t \<and> (\<exists>c l. hm s d = Some (Directory l) \<and> map_of l n = Some (File c) \<and> hm s n = None
    \<and> hm t = (hm s)(n \<mapsto> File c))"
  using assms
  by (auto simp: copyFile_excl_def eff_inv hm_home update_conv' split: if_splits dest!: file_content_Inr)

lemma rm_force_home:
  assumes "rm_force env Home n s = (r, t)"
  shows "fr s t \<and> (case r of Inl _ \<Rightarrow> hm t = hm s | Inr _ \<Rightarrow> hm t = (hm s)(n := None))"
  using assms by (cases r) (auto simp: rm_force_def eff_inv hm_home delete_conv' split: if_splits)

lemma rm_recursive_home:
  assumes "rm_recursive env Home d s = (r, t)"
  shows "fr s t \<and> (case r of Inr _ \<Rightarrow> hm t = (hm s)(d := None)
     | Inl _ \<Rightarrow> (\<forall>x. x \<noteq> d \<longrightarrow> hm t x = hm s x) \<and> ((\<forall>n. sq_removed env n = 0) \<longrightarrow> hm t = hm s))"
  using assms
  by (cases r)
     (auto simp: rm_recursive_def Let_def hm_home hm_def update_conv' delete_conv' put_listing.simps fr_def fun_eq_iff
        split: option.splits if_splits node.splits)

lemma write_marker:
  assumes "writeFile env (InHome d) n c s = (r, t)"
  shows "fr s t \<and> (hm t = hm s \<or> (\<exists>l l'. hm s d = Some (Directory l) \<and> map_of l' = (map_of l)(n \<mapsto> File c)
      \<and> hm t = (hm s)(d \<mapsto> Directory l')))"
  using assms update_conv' [of n "File c"]
  by (cases r) (auto simp: writeFile_def eff_inv in_home hm_put_in_home split: if_splits )

lemma closeAndWait_hm: "closeAndWait env s = (r, t) \<Longrightarrow> fr s t \<and> hm t = hm s"
  by (auto simp: closeAndWait_def)

lemma app_ready_hm: "app_ready env s = (r, t) \<Longrightarrow> fr s t \<and> hm t = hm s"
  by (auto simp: app_ready_def split: option.splits)

section \<open>Phases of a restore\<close>

text \<open>\<^verbatim>\<open>mkdtemp\<close> appends six letters or digits; a failing removal is atomic if it has removed nothing.\<close>

definition env_ok :: "sq_env \<Rightarrow> bool" where
  "env_ok env \<longleftrightarrow> (\<forall>n. length (sq_suffix env n) = 6 \<and> list_all alnum (sq_suffix env n))"

definition atomic_removals :: "sq_env \<Rightarrow> bool" where
  "atomic_removals env \<longleftrightarrow> (\<forall>n. sq_removed env n = 0)"

definition dbs :: "sq_state \<Rightarrow> string \<Rightarrow> node option" where
  "dbs s x = (if database_related x then hm s x else None)"

definition sub :: "sq_state \<Rightarrow> string \<Rightarrow> string \<Rightarrow> node option" where
  "sub s d x = (case hm s d of Some (Directory l) \<Rightarrow> map_of l x | _ \<Rightarrow> None)"

lemma suffix_tail:
  assumes "suffix (CHR ''-'' # w) (a @ b)" and "length w < length b"
  shows "CHR ''-'' \<in> set b"
proof -
  obtain z where z: "a @ b = z @ CHR ''-'' # w" using assms(1) by (auto simp: suffix_def)
  have "length a \<le> length z" using arg_cong [OF z, of length] assms(2) by simp
  then have "b = drop (length a) z @ CHR ''-'' # w" using arg_cong [OF z, of "drop (length a)"] by simp
  then show ?thesis by simp
qed

lemma staging_unrelated:
  assumes "env_ok env"
  shows "\<not> database_related (localStagingPrefix purpose @ sq_suffix env n)"
proof -
  let ?d = "localStagingPrefix purpose @ sq_suffix env n"
  have "\<not> alnum (CHR ''-'')" by (simp add: alnum_def lower_alpha_def upper_alpha_def digit_def code_def)
  then have "CHR ''-'' \<notin> set (sq_suffix env n)" "length (sq_suffix env n) = 6"
    using assms unfolding env_ok_def list_all_iff by blast+
  then have "\<not> suffix ''-wal'' ?d" "\<not> suffix ''-shm'' ?d"
    using suffix_tail [of "''wal''" "localStagingPrefix purpose"] suffix_tail [of "''shm''" "localStagingPrefix purpose"]
    by auto
  moreover have "\<not> alnum (CHR ''.'')"
    by (simp add: alnum_def lower_alpha_def upper_alpha_def digit_def code_def)
  then have "\<not> DATABASE_FILENAME ?d"
    by (auto simp: DATABASE_FILENAME_def localStagingPrefix_def take_Cons' split: list.splits)
  ultimately show ?thesis by (simp add: database_related_def)
qed

text \<open>During the move, each original file is at one of two places: \<open>M\<close> lists those in the safety directory.\<close>

definition split_between :: "(string \<Rightarrow> node option) \<Rightarrow> string \<Rightarrow> string list \<Rightarrow> sq_state \<Rightarrow> bool" where
  "split_between H d M s \<longleftrightarrow>
     (\<exists>l. hm s d = Some (Directory l)
        \<and> (\<forall>x. \<not> database_related x \<longrightarrow> x \<noteq> d \<longrightarrow> hm s x = H x)
        \<and> (\<forall>x \<in> set M. database_related x \<and> hm s x = None \<and> map_of l x = H x \<and> H x \<noteq> None)
        \<and> (\<forall>x. database_related x \<longrightarrow> x \<notin> set M \<longrightarrow> hm s x = H x)
        \<and> (\<forall>x. x \<notin> set M \<longrightarrow> map_of l x = None)
        \<and> distinct M)"

lemma split_betweenD:
  assumes "split_between H d M s" and "hm s d = Some (Directory l)"
  shows "\<forall>x. \<not> database_related x \<longrightarrow> x \<noteq> d \<longrightarrow> hm s x = H x"
    and "\<forall>x \<in> set M. database_related x \<and> hm s x = None \<and> map_of l x = H x \<and> H x \<noteq> None"
    and "\<forall>x. database_related x \<longrightarrow> x \<notin> set M \<longrightarrow> hm s x = H x"
    and "\<forall>x. x \<notin> set M \<longrightarrow> map_of l x = None"
    and "distinct M"
  using assms unfolding split_between_def by (metis node.inject(2) option.inject)+

lemma split_move_out:
  assumes "split_between H d (lv_names s) s" and "database_related n" and "\<not> database_related d"
    and run: "move_out env d n s = (r, t)"
  shows "split_between H d (lv_names t) t \<and> fr (s\<lparr>lv_names := lv_names t\<rparr>) t
    \<and> (case r of Inl _ \<Rightarrow> lv_names t = lv_names s | Inr _ \<Rightarrow> lv_names t = lv_names s @ [n])"
proof -
  have nd: "n \<noteq> d" using assms(2,3) by blast
  consider e where "rename env Home n (InHome d) n s = (Inl e, t)" "r = Inl e"
    | u where "rename env Home n (InHome d) n s = (Inr (), u)" "t = u\<lparr>lv_names := lv_names u @ [n]\<rparr>" "r = Inr ()"
    using run unfolding move_out_def bnd_eq by auto
  then show ?thesis
  proof cases
    case 1
    with rename_out_Inl [OF 1(1) nd] assms(1) show ?thesis by (auto simp: split_between_def fr_def)
  next
    case 2
    obtain v l l' where frame: "fr s u" and v: "hm s n = Some v" and l: "hm s d = Some (Directory l)"
      and l': "map_of l' = (map_of l)(n \<mapsto> v)" and u: "hm u = (hm s)(n := None, d \<mapsto> Directory l')"
      using rename_out_Inr [OF 2(1) nd] by blast
    have names: "lv_names u = lv_names s" using frame by (simp add: fr_def)
    have n: "n \<notin> set (lv_names s)" "H n = Some v"
      using assms(1,2) v l by (auto simp: split_between_def)
    have "split_between H d (lv_names s @ [n]) t"
      using assms(1,2,3) nd n l l' u 2(2) unfolding split_between_def by auto
    then show ?thesis using 2 names frame by (auto simp: fr_def)
  qed
qed

text \<open>Where the original files are after a failed rollback: at home or in the safety directory.\<close>

definition kept :: "(string \<Rightarrow> node option) \<Rightarrow> string \<Rightarrow> sq_state \<Rightarrow> bool" where
  "kept H d s \<longleftrightarrow> (\<forall>x. database_related x \<longrightarrow> H x \<noteq> None \<longrightarrow> hm s x = H x \<or> sub s d x = H x)"

definition unhurt :: "(string \<Rightarrow> node option) \<Rightarrow> sq_state \<Rightarrow> bool" where
  "unhurt H s \<longleftrightarrow> (\<forall>x. database_related x \<longrightarrow> H x \<noteq> None \<longrightarrow> hm s x = H x)"

lemma unhurt_kept: "unhurt H s \<Longrightarrow> kept H d s"
  by (auto simp: unhurt_def kept_def)

lemma split_kept: "split_between H d M s \<Longrightarrow> kept H d s"
  by (auto simp: split_between_def kept_def sub_def split: option.splits node.splits)

lemma split_nothing: "split_between H d [] s \<Longrightarrow> unhurt H s"
  by (auto simp: split_between_def unhurt_def)

text \<open>The state in which a restore gives up and keeps everything for a manual recovery.\<close>

definition stuck :: "(string \<Rightarrow> node option) \<Rightarrow> string \<Rightarrow> sq_state \<Rightarrow> bool" where
  "stuck H d s \<longleftrightarrow> ss_recovery s \<and> ss_operation s = Restoring \<and> kept H d s"

lemma recovery_marker_unrelated: "\<not> database_related RECOVERY_MARKER"
  by code_simp

definition vars :: "sq_state \<Rightarrow> string option \<times> bool" where
  "vars s = (lv_stage s, lv_moved s)"

lemma mark_recovery_stuck:
  assumes "kept H d s" and "\<not> database_related d" and run: "mark_recovery env d s = (r, t)"
  shows "(\<exists>e. r = Inl e \<and> e \<noteq> rolled_back) \<and> stuck H d t \<and> vars t = vars s"
proof -
  let ?c = "Text (''restore rollback incomplete'' @ [CHR 0x0A])"
  let ?s = "s\<lparr>ss_recovery := True, ss_operation := Restoring\<rparr>"
  obtain q where w: "writeFile env (InHome d) RECOVERY_MARKER ?c ?s = (q, t)"
    and r: "r = Inl (SafeError ''restore_rollback_failed'' 503)"
    using run unfolding mark_recovery_def quietly_def handle_def bnd_def modS_def ret_def throw_def
    by (auto split: prod.splits sum.splits)
  note marker = write_marker [OF w]
  then have frame: "ss_recovery t" "ss_operation t = Restoring" "vars t = vars s" by (auto simp: fr_def vars_def)
  have "kept H d t"
    using marker
  proof (elim conjE disjE exE)
    assume "hm t = hm ?s"
    with assms(1) show ?thesis by (simp add: kept_def sub_def)
  next
    fix l l'
    assume l: "hm ?s d = Some (Directory l)" and l': "map_of l' = (map_of l)(RECOVERY_MARKER \<mapsto> File ?c)"
      and t: "hm t = (hm ?s)(d \<mapsto> Directory l')"
    show ?thesis
      unfolding kept_def
    proof (intro allI impI)
      fix x
      assume x: "database_related x" "H x \<noteq> None"
      then have "x \<noteq> RECOVERY_MARKER" "x \<noteq> d" using recovery_marker_unrelated assms(2) by auto
      with x assms(1) l l' t show "hm t x = H x \<or> sub t d x = H x" by (auto simp: kept_def sub_def)
    qed
  qed
  with frame r show ?thesis by (simp add: stuck_def rolled_back_def)
qed

lemma guarded_rollback_outcome:
  assumes "\<And>r t. m s = (r, t) \<Longrightarrow> (\<exists>e. r = Inl e) \<and> (if r = Inl rolled_back then G t else kept H d t \<and> vars t = st)"
    and "\<not> database_related d" and run: "guarded_rollback env d m s = (r, t)"
  shows "(\<exists>e. r = Inl e) \<and> (if r = Inl rolled_back then G t else stuck H d t \<and> vars t = st)"
proof -
  obtain q u where m: "m s = (q, u)" by (cases "m s")
  from assms(1) [OF m] obtain e where q: "q = Inl e" by blast
  show ?thesis
  proof (cases "e = rolled_back")
    case True
    with m q run assms(1) [OF m] show ?thesis by (simp add: guarded_rollback_def handle_def)
  next
    case False
    with m q run have mark: "mark_recovery env d u = (r, t)" by (simp add: guarded_rollback_def handle_def)
    from assms(1) [OF m] q False have k: "kept H d u" "vars u = st" by auto
    from mark_recovery_stuck [OF k(1) assms(2) mark] k(2) show ?thesis by auto
  qed
qed

text \<open>The calls fail with an error of their own.\<close>

lemma rename_IoError: "rename env p n q m s = (Inl e, t) \<Longrightarrow> e = IoError"
  by (auto simp: rename_def eff_inv split: option.split_asm if_splits)

lemma mapE_error:
  assumes "mapE f xs s = (Inl e, t)"
  shows "\<exists>x u. x \<in> set xs \<and> f x u = (Inl e, t)"
  using assms by (induction xs arbitrary: s) (auto simp: bnd_Inl, blast+)

lemma mapE_IoError: "mapE (\<lambda>x. rename env p (g x) q (h x)) xs s = (Inl e, t) \<Longrightarrow> e = IoError"
  by (blast dest: mapE_error rename_IoError)

lemma rm_recursive_IoError: "rm_recursive env p n s = (r, t) \<Longrightarrow> r = Inl IoError \<or> r = Inr ()"
  by (auto simp: rm_recursive_def Let_def split: option.split_asm if_splits)

text \<open>Moving everything back.\<close>

lemma split_move_back_step:
  assumes split: "split_between H d (M @ [n]) s" and "\<not> database_related d"
    and run: "rename env (InHome d) n Home n s = (r, t)"
  shows "fr s t \<and> (case r of Inl _ \<Rightarrow> split_between H d (M @ [n]) t | Inr _ \<Rightarrow> split_between H d M t)"
proof -
  have n: "database_related n" using split by (auto simp: split_between_def)
  with assms(2) have nd: "n \<noteq> d" by blast
  show ?thesis
  proof (cases r)
    case (Inl e)
    with run rename_in_Inl [of env d n s e t] split show ?thesis by (auto simp: split_between_def)
  next
    case (Inr x)
    obtain v l l' where frame: "fr s t" and l: "hm s d = Some (Directory l)" and v: "map_of l n = Some v"
      and l': "map_of l' = (map_of l)(n := None)" and t: "hm t = (hm s)(d \<mapsto> Directory l', n \<mapsto> v)"
      using rename_in_Inr [OF _ nd] run Inr by blast
    note facts = split_betweenD [OF split l]
    have others: "\<And>x. \<not> database_related x \<Longrightarrow> x \<noteq> d \<Longrightarrow> hm s x = H x"
      and moved: "\<And>x. x \<in> set (M @ [n]) \<Longrightarrow> database_related x \<and> hm s x = None \<and> map_of l x = H x \<and> H x \<noteq> None"
      and stayed: "\<And>x. database_related x \<Longrightarrow> x \<notin> set (M @ [n]) \<Longrightarrow> hm s x = H x"
      and only: "\<And>x. x \<notin> set (M @ [n]) \<Longrightarrow> map_of l x = None" and dist: "distinct (M @ [n])"
      using facts by blast+
    have "split_between H d M t"
      unfolding split_between_def
    proof (intro exI [of _ l'] conjI allI ballI impI)
      show "hm t d = Some (Directory l')" using t nd by simp
      show "hm t x = H x" if "\<not> database_related x" "x \<noteq> d" for x using that others n t by auto
      show "database_related x" "hm t x = None" "map_of l' x = H x" "H x \<noteq> None" if "x \<in> set M" for x
        using that moved [of x] dist assms(2) t l' by auto
      show "hm t x = H x" if "database_related x" "x \<notin> set M" for x
        using that stayed moved [of n] v t assms(2) by (cases "x = n") auto
      show "map_of l' x = None" if "x \<notin> set M" for x using that only l' by (cases "x = n") auto
      show "distinct M" using dist by simp
    qed
    with frame Inr show ?thesis by simp
  qed
qed

lemma split_move_back:
  assumes "split_between H d M s" and "\<not> database_related d"
    and "mapE (\<lambda>name. rename env (InHome d) name Home name) (rev M) s = (r, t)"
  shows "fr s t \<and> (case r of Inl _ \<Rightarrow> \<exists>M'. split_between H d M' t | Inr _ \<Rightarrow> split_between H d [] t)"
  using assms
proof (induction M arbitrary: s r t rule: rev_induct)
  case Nil
  then show ?case by auto
next
  case (snoc n M)
  let ?step = "rename env (InHome d) n Home n"
  obtain q u where first: "?step s = (q, u)" by (cases "?step s")
  note step = split_move_back_step [OF snoc.prems(1,2) first]
  show ?case
  proof (cases q)
    case (Inl e)
    with first snoc.prems(3) have "r = Inl e" "t = u" by (auto simp: bnd_def)
    with step Inl show ?thesis by auto
  next
    case (Inr x)
    obtain q' u' where rest: "mapE (\<lambda>name. rename env (InHome d) name Home name) (rev M) u = (q', u')"
      by (cases "mapE (\<lambda>name. rename env (InHome d) name Home name) (rev M) u")
    from first Inr rest snoc.prems(3) have t: "t = u'" and r: "is_ok r = is_ok q'" "\<And>e. q' = Inl e \<Longrightarrow> r = Inl e"
      by (auto simp: bnd_def ret_def is_ok_def split: sum.splits)
    from step Inr have "split_between H d M u" "fr s u" by auto
    with snoc.IH [OF _ snoc.prems(2) rest] t r show ?thesis
      by (cases q'; cases r) (auto simp: is_ok_def intro: fr_trans)
  qed
qed

lemma move_back_outcome:
  assumes split: "split_between H d (lv_names s) s" and d: "\<not> database_related d"
    and run: "move_back env d s = (r, t)"
  shows "(\<exists>e. r = Inl e) \<and> (if r = Inl rolled_back
     then unhurt H t \<and> lv_safety t = None \<and> ss_recovery t = ss_recovery s \<and> ss_operation t = ss_operation s \<and> vars t = vars s
     else kept H d t \<and> vars t = vars s)"
proof -
  let ?loop = "mapE (\<lambda>name. rename env (InHome d) name Home name) (rev (lv_names s))"
  obtain q u where loop: "?loop s = (q, u)" by (cases "?loop s")
  note undone = split_move_back [OF split d loop]
  show ?thesis
  proof (cases q)
    case (Inl e)
    with loop run have "r = Inl e" "t = u" by (auto simp: move_back_def bnd_def getS_def)
    moreover have "e \<noteq> rolled_back" using mapE_IoError [OF loop [unfolded Inl]] by (simp add: rolled_back_def)
    ultimately show ?thesis using undone Inl split_kept by (auto simp: fr_def vars_def)
  next
    case (Inr x)
    obtain q' v where rm: "rm_recursive env Home d u = (q', v)" by (cases "rm_recursive env Home d u")
    note rmf = rm_recursive_home [OF rm]
    have un: "unhurt H u" using undone Inr split_nothing by auto
    have "unhurt H v" using un rmf d by (cases q') (auto simp: unhurt_def split: sum.splits)
    moreover from loop Inr run rm have "(case q' of Inl e \<Rightarrow> r = Inl e \<and> t = v
        | Inr _ \<Rightarrow> r = Inl rolled_back \<and> t = v\<lparr>lv_safety := None\<rparr>)"
      by (cases q') (auto simp: move_back_def bnd_def getS_def modS_def throw_def)
    ultimately show ?thesis
      using undone Inr rmf unhurt_kept rm_recursive_IoError [OF rm]
      by (cases q') (auto simp: unhurt_def fr_def vars_def rolled_back_def)
  qed
qed

text \<open>Setting the current databases aside: all of them are in the safety directory, or none is missing at home, or
  the manager is stuck and has kept them all.\<close>

definition all_aside :: "(string \<Rightarrow> node option) \<Rightarrow> string \<Rightarrow> sq_state \<Rightarrow> bool" where
  "all_aside H d s \<longleftrightarrow> (\<exists>l. hm s d = Some (Directory l) \<and> (\<forall>x. map_of l x = (if database_related x then H x else None)))"

lemma split_all:
  assumes "split_between H d M s" and "\<And>x. database_related x \<Longrightarrow> H x \<noteq> None \<Longrightarrow> x \<in> set M"
  shows "all_aside H d s \<and> (\<forall>x. database_related x \<longrightarrow> hm s x = None)"
proof -
  obtain l where l: "hm s d = Some (Directory l)" using assms(1) by (auto simp: split_between_def)
  note facts = split_betweenD [OF assms(1) l]
  have "map_of l x = (if database_related x then H x else None)" for x
  proof (cases "x \<in> set M")
    case True
    with facts(2) show ?thesis by simp
  next
    case False
    with facts(4) assms(2) [of x] show ?thesis by (cases "H x") auto
  qed
  moreover have "hm s x = None" if "database_related x" for x
    using facts(2) facts(3) [rule_format, OF that] assms(2) [OF that] by (cases "x \<in> set M"; cases "H x") auto
  ultimately show ?thesis using l by (auto simp: all_aside_def)
qed

lemma split_start: "hm s = H \<Longrightarrow> H d = Some (Directory []) \<Longrightarrow> split_between H d [] s"
  by (auto simp: split_between_def)

lemma move_out_loop:
  assumes "split_between H d (lv_names s) s" and "list_all database_related ns" and d: "\<not> database_related d"
    and "mapE (move_out env d) ns s = (r, t)"
  shows "split_between H d (lv_names t) t \<and> fr (s\<lparr>lv_names := lv_names t\<rparr>) t
    \<and> (case r of Inl _ \<Rightarrow> True | Inr _ \<Rightarrow> lv_names t = lv_names s @ ns)"
  using assms(1,2,4)
proof (induction ns arbitrary: s r)
  case Nil
  then show ?case by (auto simp: fr_def)
next
  case (Cons n ns)
  obtain q u where first: "move_out env d n s = (q, u)" by (cases "move_out env d n s")
  have n: "database_related n" using Cons.prems(2) by simp
  note step = split_move_out [OF Cons.prems(1) n d first]
  show ?case
  proof (cases q)
    case (Inl e)
    with first Cons.prems(3) have "r = Inl e" "t = u" by (auto simp: bnd_def)
    with step show ?thesis by simp
  next
    case (Inr x)
    obtain q' u' where rest: "mapE (move_out env d) ns u = (q', u')" by (cases "mapE (move_out env d) ns u")
    from first Inr rest Cons.prems(3) have t: "t = u'" and r: "\<And>y. r = Inr y \<Longrightarrow> \<exists>z. q' = Inr z"
      by (auto simp: bnd_def ret_def split: sum.splits)
    have "split_between H d (lv_names u) u" using step by simp
    moreover have "list_all database_related ns" using Cons.prems(2) by simp
    ultimately have ih: "split_between H d (lv_names t) t \<and> fr (u\<lparr>lv_names := lv_names t\<rparr>) t
        \<and> (case q' of Inl _ \<Rightarrow> True | Inr _ \<Rightarrow> lv_names t = lv_names u @ ns)"
      using Cons.IH rest t by blast
    moreover have "lv_names u = lv_names s @ [n]" "fr (s\<lparr>lv_names := lv_names u\<rparr>) u" using step Inr by auto
    ultimately show ?thesis using r by (cases r) (auto simp: fr_def)
  qed
qed

lemma set_aside_outcome:
  assumes H: "hm s = H" "H d = Some (Directory [])" and d: "\<not> database_related d"
    and run: "set_aside env d s = (r, t)"
  shows "lv_stage t = lv_stage s \<and> (case r of
     Inr _ \<Rightarrow> all_aside H d t \<and> (\<forall>x. database_related x \<longrightarrow> hm t x = None)
        \<and> (\<forall>x. \<not> database_related x \<longrightarrow> x \<noteq> d \<longrightarrow> hm t x = H x)
        \<and> lv_moved t \<and> lv_safety t = lv_safety s \<and> ss_recovery t = ss_recovery s \<and> ss_operation t = ss_operation s
   | Inl e \<Rightarrow> lv_moved t = lv_moved s \<and> (e \<noteq> rolled_back \<and> stuck H d t \<or> unhurt H t \<and> ss_recovery t = ss_recovery s \<and> ss_operation t = ss_operation s
        \<and> (lv_safety t = None \<or> lv_safety t = lv_safety s)))"
proof (cases "readdir env Home s")
  case (Pair q u)
  show ?thesis
  proof (cases q)
    case (Inl e)
    with Pair run have "r = Inl e" "t = u" by (auto simp: set_aside_def bnd_def)
    with Inl Pair readdir_Inl [of env Home s e u] H show ?thesis by (auto simp: unhurt_def)
  next
    case (Inr entries)
    let ?ns = "filter database_related (map fst entries)"
    let ?v = "u\<lparr>lv_names := []\<rparr>"
    have u: "u = s\<lparr>ss_calls := Suc (ss_calls s)\<rparr>" "H = map_of entries"
      using Pair Inr H by (auto simp: readdir_Inr hm_home)
    have start: "split_between H d (lv_names ?v) ?v" using H u(1) by (auto intro!: split_start)
    obtain q' w where loop: "mapE (move_out env d) ?ns ?v = (q', w)" by (cases "mapE (move_out env d) ?ns ?v")
    have "list_all database_related ?ns" by (simp add: list_all_iff)
    note out = move_out_loop [OF start this d loop]
    show ?thesis
    proof (cases q')
      case (Inl e)
      obtain q2 w2 where gr: "guarded_rollback env d (move_back env d :: unit list sq_eff) w = (q2, w2)"
        by (cases "guarded_rollback env d (move_back env d :: unit list sq_eff) w")
      have sp: "split_between H d (lv_names w) w" using out by simp
      have "(\<exists>e. q2 = Inl e) \<and> (if q2 = Inl rolled_back
          then unhurt H w2 \<and> lv_safety w2 = None \<and> ss_recovery w2 = ss_recovery w \<and> ss_operation w2 = ss_operation w \<and> vars w2 = vars w
          else stuck H d w2 \<and> vars w2 = vars w)"
        by (rule guarded_rollback_outcome [OF move_back_outcome [OF sp d] d gr])
      moreover have "vars w = vars s" "ss_recovery w = ss_recovery s" "ss_operation w = ss_operation s" using out u by (auto simp: fr_def vars_def)
      moreover have "\<exists>e. r = Inl e \<and> q2 = Inl e" "t = w2"
        using run Pair Inr Inl loop gr calculation by (auto simp: set_aside_def bnd_def modS_def handle_def)
      ultimately show ?thesis by (auto simp: vars_def split: if_splits)
    next
      case (Inr x)
      have names: "lv_names w = ?ns" using out Inr by simp
      have related: "x \<in> set (lv_names w)" if "database_related x" "H x \<noteq> None" for x
        using that unfolding names u(2) map_of_eq_None_iff by simp
      have "split_between H d (lv_names w) w" using out by simp
      note all = split_all [OF this related]
      have "\<forall>x. \<not> database_related x \<longrightarrow> x \<noteq> d \<longrightarrow> hm w x = H x"
        using out by (auto simp: split_between_def)
      moreover have "r = Inr ()" "t = w\<lparr>lv_moved := True\<rparr>"
        using run Pair \<open>q = Inr entries\<close> Inr loop by (auto simp: set_aside_def bnd_def modS_def handle_def)
      ultimately show ?thesis using all out u by (auto simp: all_aside_def fr_def)
    qed
  qed
qed

text \<open>The three predicates only look at database files.\<close>

lemma same_originals:
  assumes "\<And>x. database_related x \<Longrightarrow> H x = H' x"
  shows "kept H d s = kept H' d s" "unhurt H s = unhurt H' s" "all_aside H d s = all_aside H' d s" "stuck H d s = stuck H' d s"
proof -
  show kept: "kept H d s = kept H' d s" using assms by (auto simp: kept_def)
  show "unhurt H s = unhurt H' s" using assms by (auto simp: unhurt_def)
  have "(if database_related x then H x else None) = (if database_related x then H' x else None)" for x
    using assms by simp
  then show "all_aside H d s = all_aside H' d s" unfolding all_aside_def by presburger
  show "stuck H d s = stuck H' d s" using kept by (simp add: stuck_def)
qed

lemma all_aside_kept: "all_aside H d s \<Longrightarrow> kept H d s"
  by (auto simp: all_aside_def kept_def sub_def)

lemma all_aside_home: "all_aside H d s \<Longrightarrow> hm t d = hm s d \<Longrightarrow> all_aside H d t"
  by (simp add: all_aside_def)

subsection \<open>Installing the backup\<close>

definition matches :: "sq_env \<Rightarrow> (string \<Rightarrow> node option) \<Rightarrow> backup_database \<Rightarrow> bool" where
  "matches env M x \<longleftrightarrow> (\<exists>c. M (bd_filename x) = Some (File c) \<and> sq_sha env c = bd_sha256 x \<and> int (sq_size env c) = bd_size x)"

definition installed :: "sq_env \<Rightarrow> backup_metadata \<Rightarrow> sq_state \<Rightarrow> bool" where
  "installed env m s \<longleftrightarrow> (\<forall>x \<in> set (bm_databases m). matches env (hm s) x)
     \<and> (\<forall>y. database_related y \<longrightarrow> hm s y \<noteq> None \<longrightarrow> y \<in> bd_filename ` set (bm_databases m))"

definition installing :: "sq_env \<Rightarrow> string \<Rightarrow> backup_database list \<Rightarrow> backup_database list \<Rightarrow> sq_state \<Rightarrow> bool" where
  "installing env st ds xs s \<longleftrightarrow> set xs \<subseteq> set ds \<and> distinct xs \<and> (\<exists>sl. hm s st = Some (Directory sl)
     \<and> (\<forall>x \<in> set xs. matches env (map_of sl) x)) \<and> (\<forall>x \<in> set ds. x \<notin> set xs \<longrightarrow> matches env (hm s) x)
     \<and> (\<forall>y. database_related y \<longrightarrow> hm s y \<noteq> None \<longrightarrow> y \<in> bd_filename ` set ds)"

definition database_names :: "backup_database list \<Rightarrow> bool" where
  "database_names ds \<longleftrightarrow> inj_on bd_filename (set ds) \<and> distinct ds \<and> (\<forall>x \<in> set ds. database_related (bd_filename x))"

lemma install_step:
  assumes inv: "installing env st ds (x # xs) s" and ds: "database_names ds"
    and st: "\<not> database_related st" and run: "rename env (InHome st) (bd_filename x) Home (bd_filename x) s = (r, t)"
  shows "fr s t \<and> (\<forall>y. \<not> database_related y \<longrightarrow> y \<noteq> st \<longrightarrow> hm t y = hm s y)
    \<and> (case r of Inl _ \<Rightarrow> True | Inr _ \<Rightarrow> installing env st ds xs t)"
proof -
  have x: "x \<in> set ds" "database_related (bd_filename x)"
    using inv ds by (auto simp: installing_def database_names_def)
  then have n: "bd_filename x \<noteq> st" using st by blast
  show ?thesis
  proof (cases r)
    case (Inl e)
    with rename_in_Inl run show ?thesis by fastforce
  next
    case (Inr v)
    obtain nd l l' where frame: "fr s t" and l: "hm s st = Some (Directory l)" and nd: "map_of l (bd_filename x) = Some nd"
      and l': "map_of l' = (map_of l)(bd_filename x := None)" and t: "hm t = (hm s)(st \<mapsto> Directory l', bd_filename x \<mapsto> nd)"
      using rename_in_Inr [OF _ n] run Inr by blast
    have names: "bd_filename y \<noteq> bd_filename x" if "y \<in> set ds" "y \<noteq> x" for y
      using that x ds by (auto simp: database_names_def inj_on_def)
    have notst: "bd_filename y \<noteq> st" if "y \<in> set ds" for y
      using that ds st by (auto simp: database_names_def)
    have staged: "\<forall>y \<in> set (x # xs). matches env (map_of l) y" using inv l by (auto simp: installing_def)
    have sub: "set xs \<subseteq> set ds" "distinct xs" "x \<notin> set xs" using inv by (auto simp: installing_def)
    have "\<forall>y \<in> set xs. matches env (map_of l') y"
    proof
      fix y
      assume y: "y \<in> set xs"
      with sub have "bd_filename y \<noteq> bd_filename x" using names by blast
      with y staged l' show "matches env (map_of l') y" by (auto simp: matches_def)
    qed
    moreover have "matches env (hm t) y" if y: "y \<in> set ds" "y \<notin> set xs" for y
    proof (cases "y = x")
      case True
      with staged nd t show ?thesis by (auto simp: matches_def)
    next
      case False
      with y inv have "matches env (hm s) y" by (auto simp: installing_def)
      with names [OF y(1) False] notst [OF y(1)] t show ?thesis by (simp add: matches_def)
    qed
    moreover have "\<forall>y. database_related y \<longrightarrow> hm t y \<noteq> None \<longrightarrow> y \<in> bd_filename ` set ds"
      using inv t x st by (auto simp: installing_def)
    ultimately have "installing env st ds xs t"
      using t n sub unfolding installing_def by auto
    moreover have "\<forall>y. \<not> database_related y \<longrightarrow> y \<noteq> st \<longrightarrow> hm t y = hm s y" using t x by auto
    ultimately show ?thesis using frame Inr by simp
  qed
qed

lemma install_loop:
  assumes "installing env st ds xs s" and ds: "database_names ds" and st: "\<not> database_related st"
    and "mapE (\<lambda>d. rename env (InHome st) (bd_filename d) Home (bd_filename d)) xs s = (r, t)"
  shows "fr s t \<and> (\<forall>y. \<not> database_related y \<longrightarrow> y \<noteq> st \<longrightarrow> hm t y = hm s y)
    \<and> (case r of Inl _ \<Rightarrow> True | Inr _ \<Rightarrow> installing env st ds [] t)"
  using assms(1,4)
proof (induction xs arbitrary: s r)
  case Nil
  then show ?case by auto
next
  case (Cons x xs)
  let ?step = "rename env (InHome st) (bd_filename x) Home (bd_filename x)"
  let ?loop = "mapE (\<lambda>d. rename env (InHome st) (bd_filename d) Home (bd_filename d)) xs"
  obtain q u where first: "?step s = (q, u)" by (cases "?step s")
  note step = install_step [OF Cons.prems(1) ds st first]
  show ?case
  proof (cases q)
    case (Inl e)
    with first Cons.prems(2) have "r = Inl e" "t = u" by (auto simp: bnd_def)
    with step show ?thesis by simp
  next
    case (Inr v)
    obtain q' u' where rest: "?loop u = (q', u')" by (cases "?loop u")
    from first Inr rest Cons.prems(2) have t: "t = u'" and r: "\<And>y. r = Inr y \<Longrightarrow> \<exists>z. q' = Inr z"
      by (auto simp: bnd_def ret_def split: sum.splits)
    have "installing env st ds xs u" using step Inr by simp
    note ih = Cons.IH [OF this, of q'] 
    with rest t step r show ?thesis by (cases r) (auto intro: fr_trans)
  qed
qed

end
