(* ===== verification/Sqlite_Guarantees.thy ===== *)
theory Sqlite_Guarantees
  imports Sqlite_Restore
begin

text \<open>
  The guarantee of a whole restore in which failing removals remove nothing, put together from its phases in the triple logic of
  \<open>Effect_Logic\<close>; \<open>Sqlite_Removals\<close> extends it to every pattern of failures.
\<close>

section \<open>Installing and rolling back\<close>

definition working :: "sq_state \<Rightarrow> bool" where
  "working s \<longleftrightarrow> \<not> ss_recovery s \<and> ss_operation s = Restoring"

text \<open>The databases are aside in \<open>d\<close> and the backup is staged in \<open>st\<close>.\<close>

definition aside :: "(string \<Rightarrow> node option) \<Rightarrow> string \<Rightarrow> string \<Rightarrow> sq_state \<Rightarrow> bool" where
  "aside H st d s \<longleftrightarrow> all_aside H d s \<and> lv_stage s = Some st \<and> lv_safety s = Some d \<and> lv_moved s \<and> working s"

lemma aside_frame: "aside H st d s \<Longrightarrow> fr s t \<Longrightarrow> hm t d = hm s d \<Longrightarrow> aside H st d t"
  by (auto simp: aside_def fr_def working_def all_aside_home)

lemma installing_frame: "installing env st ds xs s \<Longrightarrow> hm t = hm s \<Longrightarrow> installing env st ds xs t"
  by (simp add: installing_def)

lemma installing_done: "installing env st (bm_databases m) [] s \<Longrightarrow> installed env m s"
  by (auto simp: installing_def installed_def)

lemma installed_frame:
  "installed env m s \<Longrightarrow> database_names (bm_databases m) \<Longrightarrow> (\<And>x. database_related x \<Longrightarrow> hm t x = hm s x) \<Longrightarrow> installed env m t"
  by (auto simp: installed_def matches_def database_names_def)

definition done_with :: "sq_env \<Rightarrow> backup_metadata \<Rightarrow> string \<Rightarrow> sq_state \<Rightarrow> bool" where
  "done_with env m st s \<longleftrightarrow> installed env m s \<and> lv_stage s = Some st \<and> lv_safety s = None \<and> working s"

lemma install_triple:
  assumes ds: "database_names (bm_databases m)" and st: "\<not> database_related st" "\<not> database_related d" "st \<noteq> d"
    and atomic: "atomic_removals env"
  shows "triple (\<lambda>s. installing env st (bm_databases m) (bm_databases m) s \<and> aside H st d s) (install env st d m)
    (\<lambda>_. done_with env m st) (\<lambda>_. aside H st d)"
proof -
  let ?P = "\<lambda>xs s. installing env st (bm_databases m) xs s \<and> aside H st d s"
  have loop: "triple (?P (bm_databases m))
      (mapE (\<lambda>d. rename env (InHome st) (bd_filename d) Home (bd_filename d)) (bm_databases m))
      (\<lambda>_. ?P []) (\<lambda>_. aside H st d)"
    by (rule tripleI) (use st in \<open>auto dest!: install_loop [OF _ ds st(1)] intro: aside_frame\<close>)
  have ready: "triple (?P []) (app_ready env) (\<lambda>_. ?P []) (\<lambda>_. aside H st d)"
    by (rule tripleI) (auto dest!: app_ready_hm intro: aside_frame installing_frame)
  have remove: "triple (?P []) (rm_recursive env Home d)
      (\<lambda>_ s. installed env m s \<and> lv_stage s = Some st \<and> working s) (\<lambda>_. aside H st d)"
  proof (rule tripleI)
    fix s x t
    assume s: "?P [] s" and run: "rm_recursive env Home d s = (Inr x, t)"
    have t: "fr s t" "hm t = (hm s)(d := None)" using rm_recursive_home [OF run] by simp_all
    have "installed env m s" using s installing_done by blast
    then have "installed env m t" using installed_frame ds t(2) st(2) by fastforce
    then show "installed env m t \<and> lv_stage t = Some st \<and> working t" using s t by (auto simp: aside_def fr_def working_def)
  next
    fix s e t
    assume s: "?P [] s" and run: "rm_recursive env Home d s = (Inl e, t)"
    show "aside H st d t" using rm_recursive_home [OF run] s atomic by (auto simp: atomic_removals_def intro: aside_frame)
  qed
  have guard: "triple (?P []) (guardE ok e) (\<lambda>_. ?P []) (\<lambda>_. aside H st d)" for ok e
    by (rule triple_guardE) auto
  have clear: "triple (\<lambda>s. installed env m s \<and> lv_stage s = Some st \<and> working s) (modS (\<lambda>s. s\<lparr>lv_safety := None\<rparr>))
      (\<lambda>_. done_with env m st) (\<lambda>_. aside H st d)"
    by (rule triple_modS) (auto simp: done_with_def working_def installed_def)
  show ?thesis
    unfolding install_def
    by (rule triple_bnd [OF loop triple_bnd [OF ready triple_bnd [OF guard triple_bnd [OF remove clear]]]])
qed

text \<open>Copying the databases back: the result \<open>rolled_back\<close> means that every original is at home again.\<close>

definition given_up :: "(string \<Rightarrow> node option) \<Rightarrow> string option \<Rightarrow> sq_state \<Rightarrow> bool" where
  "given_up H st s \<longleftrightarrow> unhurt H s \<and> lv_stage s = st \<and> lv_safety s = None \<and> working s"

lemma io_errors:
  "readdir env p s = (Inl e, t) \<Longrightarrow> e = IoError" "rm_force env p n s = (Inl e, t) \<Longrightarrow> e = IoError"
  "copyFile_excl env p q n s = (Inl e, t) \<Longrightarrow> e = IoError" "app_ready env s = (Inl e, t) \<Longrightarrow> e = IoError"
proof -
  have content: "file_content p n u = (Inl e, v) \<Longrightarrow> e = IoError" for u v
    by (auto simp: file_content_eq split: option.split_asm node.split_asm)
  show "copyFile_excl env p q n s = (Inl e, t) \<Longrightarrow> e = IoError"
    by (auto simp: copyFile_excl_def eff_inv dest: content split: if_splits)
qed (auto simp: readdir_def rm_force_def app_ready_def eff_inv split: option.split_asm if_splits)

lemma not_rolled_back [simp]: "IoError \<noteq> rolled_back" "rolled_back \<noteq> IoError" "PlainError x \<noteq> rolled_back"
  by (simp_all add: rolled_back_def)

text \<open>The failure of a step while the originals are safe in \<open>d\<close>.\<close>

abbreviation failing :: "(string \<Rightarrow> node option) \<Rightarrow> string \<Rightarrow> string \<Rightarrow> storage_error \<Rightarrow> sq_state \<Rightarrow> bool" where
  "failing H st d e s \<equiv> aside H st d s \<and> e \<noteq> rolled_back"

lemma clear_home_triple:
  assumes d: "\<not> database_related d"
  shows "triple (aside H st d) (clear_home env) (\<lambda>_. aside H st d) (failing H st d)"
proof -
  let ?I = "\<lambda>ns s. list_all database_related ns \<and> aside H st d s"
  have "triple (?I (n # ns)) (rm_force env Home n) (\<lambda>_. ?I ns) (failing H st d)" for n ns
  proof (rule tripleI)
    fix s x t
    assume s: "?I (n # ns) s" and run: "rm_force env Home n s = (Inr x, t)"
    have "n \<noteq> d" using s d by auto
    then show "?I ns t" using s rm_force_home [OF run] by (auto intro: aside_frame)
  next
    fix s e t
    assume "?I (n # ns) s" and run: "rm_force env Home n s = (Inl e, t)"
    then show "failing H st d e t" using rm_force_home [OF run] io_errors(2) [OF run] by (auto intro: aside_frame)
  qed
  then have loop: "triple (?I ns) (mapE (rm_force env Home) ns) (\<lambda>_. aside H st d) (failing H st d)" for ns
    by (rule triple_conseq [OF triple_mapE]) auto
  have entries: "triple (aside H st d) (handle (readdir env Home) (\<lambda>_. ret [])) (\<lambda>_. aside H st d) (failing H st d)"
    by (rule triple_handle [where R = "\<lambda>_. aside H st d"], rule tripleI)
       (auto simp: readdir_Inr dest!: readdir_Inl intro: aside_frame triple_ret)
  have "triple (aside H st d) (mapE (rm_force env Home) (filter database_related ns)) (\<lambda>_. aside H st d) (failing H st d)" for ns
    by (rule triple_conseq [OF loop]) (auto simp: list_all_iff)
  then show ?thesis
    unfolding clear_home_def
    by (intro triple_bnd [OF entries] triple_bnd [where R = "\<lambda>_. aside H st d"] triple_ret)
qed

text \<open>After the copies, the entries of the safety directory copied so far are at home as well.\<close>

lemma copy_home_triple:
  assumes d: "\<not> database_related d"
  shows "triple (\<lambda>s. aside H st d s \<and> (\<forall>x. database_related x \<longrightarrow> H x \<noteq> None \<longrightarrow> x \<in> set ns))
    (mapE (copyFile_excl env (InHome d) Home) ns) (\<lambda>_ s. aside H st d s \<and> unhurt H s) (failing H st d)"
proof -
  let ?I = "\<lambda>ns s. aside H st d s \<and> (\<forall>x. database_related x \<longrightarrow> H x \<noteq> None \<longrightarrow> x \<in> set ns \<or> hm s x = H x)"
  have "triple (?I (n # ns)) (copyFile_excl env (InHome d) Home n) (\<lambda>_. ?I ns) (failing H st d)" for n ns
  proof (rule tripleI)
    fix s x t
    assume s: "?I (n # ns) s" and run: "copyFile_excl env (InHome d) Home n s = (Inr x, t)"
    obtain c l where frame: "fr s t" and l: "hm s d = Some (Directory l)" "map_of l n = Some (File c)" "hm s n = None"
      and t: "hm t = (hm s)(n \<mapsto> File c)" using copy_home_Inr [OF run] by blast
    have "map_of l n = (if database_related n then H n else None)" using s l(1) by (auto simp: aside_def all_aside_def)
    with l have "H n = Some (File c)" by (auto split: if_splits)
    moreover have "n \<noteq> d" using l by auto
    ultimately show "?I ns t" using s t frame by (auto intro: aside_frame)
  next
    fix s e t
    assume "?I (n # ns) s" and run: "copyFile_excl env (InHome d) Home n s = (Inl e, t)"
    then show "failing H st d e t" using copyFile_excl_Inl [OF run] io_errors(3) [OF run] by (auto intro: aside_frame)
  qed
  then have "triple (?I ns) (mapE (copyFile_excl env (InHome d) Home) ns) (\<lambda>_. ?I []) (failing H st d)"
    by (rule triple_mapE)
  then show ?thesis by (rule triple_conseq) (auto simp: unhurt_def)
qed

lemma copy_back_triple:
  assumes d: "\<not> database_related d" "d \<noteq> st"
  shows "triple (aside H st d) (copy_back env d) (\<lambda>_ _. False)
    (\<lambda>e s. if e = rolled_back then given_up H (Some st) s else kept H d s \<and> vars s = (Some st, True))"
    (is "triple _ _ _ ?E")
proof -
  let ?P = "\<lambda>s. aside H st d s \<and> unhurt H s"
  have weaken: "triple P m Q ?E" if "triple P m Q (failing H st d)" for P and m :: "'x sq_eff" and Q
    using that by (rule triple_conseq) (auto simp: aside_def vars_def intro: all_aside_kept)
  have list: "triple (aside H st d) (readdir env (InHome d))
      (\<lambda>l s. aside H st d s \<and> (\<forall>x. database_related x \<longrightarrow> H x \<noteq> None \<longrightarrow> x \<in> set (map fst l))) (failing H st d)"
  proof (rule tripleI)
    fix s l t
    assume s: "aside H st d s" and run: "readdir env (InHome d) s = (Inr l, t)"
    then have l: "hm s d = Some (Directory l)" and t: "t = s\<lparr>ss_calls := Suc (ss_calls s)\<rparr>"
      by (auto simp: readdir_Inr in_home)
    have "map_of l x = H x" if "database_related x" for x using s l that by (auto simp: aside_def all_aside_def)
    then have "x \<in> set (map fst l)" if "database_related x" "H x \<noteq> None" for x
      using that map_of_eq_None_iff [of l x] by (cases "H x") force+
    with s t show "aside H st d t \<and> (\<forall>x. database_related x \<longrightarrow> H x \<noteq> None \<longrightarrow> x \<in> set (map fst l))"
      by (auto intro: aside_frame)
  next
    fix s e t
    assume "aside H st d s" and run: "readdir env (InHome d) s = (Inl e, t)"
    then show "failing H st d e t" using io_errors(1) [OF run] readdir_Inl [OF run] by (auto intro: aside_frame)
  qed
  have ready: "triple ?P (app_ready env) (\<lambda>_. ?P) (failing H st d)"
    by (rule tripleI; frule app_ready_hm) (auto dest: io_errors(4) intro: aside_frame simp: unhurt_def)
  have guard: "triple ?P (guardE ok (PlainError x)) (\<lambda>_. ?P) (failing H st d)" for ok x
    by (rule triple_guardE) auto
  have remove: "triple ?P (rm_recursive env Home d) (\<lambda>_ s. unhurt H s \<and> lv_stage s = Some st \<and> working s) ?E"
  proof (rule tripleI)
    fix s x t
    assume "?P s" and run: "rm_recursive env Home d s = (Inr x, t)"
    then show "unhurt H t \<and> lv_stage t = Some st \<and> working t"
      using rm_recursive_home [OF run] d by (auto simp: unhurt_def aside_def working_def fr_def)
  next
    fix s e t
    assume s: "?P s" and run: "rm_recursive env Home d s = (Inl e, t)"
    then have "unhurt H t" using rm_recursive_home [OF run] d by (auto simp: unhurt_def)
    then show "?E e t"
      using s rm_recursive_home [OF run] rm_recursive_IoError [OF run] unhurt_kept
      by (auto simp: aside_def fr_def vars_def)
  qed
  have clear: "triple (\<lambda>s. unhurt H s \<and> lv_stage s = Some st \<and> working s) (modS (\<lambda>s. s\<lparr>lv_safety := None\<rparr>))
      (\<lambda>_. given_up H (Some st)) ?E"
    by (rule triple_modS) (auto simp: given_up_def unhurt_def working_def)
  have throw: "triple (given_up H (Some st)) (throw rolled_back) (\<lambda>_ _. False) ?E"
    by (rule triple_throw) simp
  show ?thesis
    unfolding copy_back_def
    by (rule triple_bnd [OF weaken [OF clear_home_triple [OF d(1)]] triple_bnd [OF weaken [OF list]
          triple_bnd [OF weaken [OF copy_home_triple [OF d(1)]] triple_bnd [OF weaken [OF ready]
          triple_bnd [OF weaken [OF guard] triple_bnd [OF remove triple_bnd [OF clear throw]]]]]]])
qed

text \<open>The outcome of a failed restore before its \<^verbatim>\<open>finally\<close> block.\<close>

definition failed :: "(string \<Rightarrow> node option) \<Rightarrow> storage_error \<Rightarrow> sq_state \<Rightarrow> bool" where
  "failed H e s \<longleftrightarrow> (\<forall>st. lv_stage s = Some st \<longrightarrow> \<not> database_related st)
     \<and> (unhurt H s \<and> working s \<and> (\<forall>d. lv_safety s = Some d \<longrightarrow> \<not> database_related d)
        \<or> e \<noteq> rolled_back \<and> (\<exists>d. stuck H d s \<and> \<not> database_related d \<and> lv_stage s \<noteq> Some d))"

lemma rollback_triple:
  assumes d: "\<not> database_related d" "d \<noteq> st" "\<not> database_related st"
  shows "triple (aside H st d) (rollback env e0 :: 'x sq_eff) (\<lambda>_ _. False) (failed H)"
proof -
  have close: "triple (aside H st d) (handle (closeAndWait env) (\<lambda>_. mark_recovery env d)) (\<lambda>_. aside H st d) (failed H)"
  proof (rule triple_handle [where R = "\<lambda>_. aside H st d"])
    show "triple (aside H st d) (closeAndWait env) (\<lambda>_. aside H st d) (\<lambda>_. aside H st d)"
      by (rule tripleI) (auto dest!: closeAndWait_hm intro: aside_frame)
    show "triple (aside H st d) (mark_recovery env d :: unit sq_eff) (\<lambda>_. aside H st d) (failed H)"
    proof -
      have "\<exists>e. r = Inl e \<and> failed H e t" if s: "aside H st d s" and run: "mark_recovery env d s = (r :: storage_error + unit, t)" for s r t
        using mark_recovery_stuck [OF all_aside_kept d(1) run, of H] s d by (force simp: aside_def failed_def vars_def)
      then show ?thesis by (intro tripleI) blast+
    qed
  qed
  have copies: "triple (aside H st d) (guarded_rollback env d (copy_back env d :: 'x sq_eff)) (\<lambda>_ _. False) (failed H)"
  proof -
    have "(\<exists>e. r = Inl e) \<and> (if r = Inl rolled_back then given_up H (Some st) t else stuck H d t \<and> vars t = (Some st, True))"
      if s: "aside H st d s" and run: "guarded_rollback env d (copy_back env d :: 'x sq_eff) s = (r, t)" for s r t
    proof (rule guarded_rollback_outcome [OF _ d(1) run])
      fix r t
      assume "copy_back env d s = (r :: storage_error + 'x, t)"
      then show "(\<exists>e. r = Inl e) \<and> (if r = Inl rolled_back then given_up H (Some st) t else kept H d t \<and> vars t = (Some st, True))"
        using tripleD [OF copy_back_triple [OF d(1,2)] s] by (cases r) fastforce+
    qed
    from this show ?thesis
      by (intro tripleI) (use d in \<open>force simp: failed_def given_up_def vars_def split: if_splits\<close>)+
  qed
  have "(rollback env e0 :: 'x sq_eff) s = bnd (handle (closeAndWait env) (\<lambda>_. mark_recovery env d)) (\<lambda>_.
      guarded_rollback env d (copy_back env d)) s" if "aside H st d s" for s
    using that by (simp add: rollback_def aside_def bnd_def getS_def)
  with triple_bnd [OF close copies] show ?thesis by (simp add: triple_def)
qed

section \<open>Reading the backup\<close>

definition still :: "sq_state \<Rightarrow> sq_state \<Rightarrow> bool" where
  "still s t \<longleftrightarrow> fr (s\<lparr>ss_backups := ss_backups t\<rparr>) t \<and> hm t = hm s
     \<and> (ss_backups t = ss_backups s \<or> ss_backups s = None \<and> ss_backups t = Some [])"

interpretation reads: preorder_history still
  by unfold_locales (auto simp: still_def fr_def)

lemmas reads_rules = reads.always_bnd reads.always_handle reads.always_mapE

lemma still_calls:
  "always still (os_call env)" "always still (the_listing p)" "always still (file_content p n)" "always still (mkdir_recursive env Backups)"
proof -
  show "always still (mkdir_recursive env Backups)"
    by (auto simp: always_def mkdir_recursive_def os_call_def eff_def still_def fr_def Let_def put_listing.simps split: option.splits)
qed (auto simp: always_def os_call_def the_listing_def file_content_eq still_def fr_def Let_def split: option.splits node.splits)

lemma still_reads:
  "always still (readFile env p n)" "always still (readdir env p)" "always still (checksum env p n)"
  "always still (file_size env p n)" "always still (read_json env p n)" "always still (safeBackupDirectory env i)"
proof -
  show contents: "always still (readFile env p n)" for p n
    unfolding readFile_def by (intro reads_rules still_calls)
  show "always still (readdir env p)"
    unfolding readdir_def by (intro reads_rules still_calls)
  show "always still (checksum env p n)" "always still (file_size env p n)"
    unfolding checksum_def file_size_def by (intro reads_rules contents reads.always_pure)+
  show "always still (read_json env p n)"
    unfolding read_json_def by (intro reads_rules contents) (auto split: content.split)
  show "always still (safeBackupDirectory env i)"
    unfolding safeBackupDirectory_def by (intro reads_rules still_calls reads.always_pure)
qed

lemma still_list: "always still (list_backups env)"
proof -
  have "always still (list_entry env entry)" for entry
    unfolding list_entry_def
    by (cases "\<not> isDirectory (snd entry) \<or> \<not> BACKUP_ID (fst entry)"; simp only: if_True if_False)
       (auto intro!: reads_rules still_reads split: option.split)
  then show ?thesis
    unfolding list_backups_def by (intro reads_rules still_reads still_calls reads.always_pure)
qed

lemma still_source: "always still (restore_source env i)" "always still (verify_database env dir x)"
proof -
  show "always still (verify_database env dir x)"
    unfolding verify_database_def by (intro reads_rules still_reads reads.always_pure)
  have "always still (if i = ''latest'' then bnd (list_backups env) (\<lambda>bs. ret (case bs of [] \<Rightarrow> [] | b # _ \<Rightarrow> bm_backupId b)) else ret i)"
    by (auto intro!: reads_rules still_list)
  then show "always still (restore_source env i)"
    unfolding restore_source_def
    by (intro reads_rules still_reads reads.always_pure) (auto split: option.split)
qed

text \<open>The manifest a backup directory holds, and the databases beside it.\<close>

definition stored :: "sq_env \<Rightarrow> sq_state \<Rightarrow> string \<Rightarrow> backup_metadata \<Rightarrow> bool" where
  "stored env s i m \<longleftrightarrow> (\<exists>l raw. listing_of (InBackups i) s = Some l \<and> map_of l MANIFEST = Some (File (Document raw))
     \<and> parseBackupMetadata (sq_dateOk env) raw (Some i) = Some m)"

definition verified :: "sq_env \<Rightarrow> sq_state \<Rightarrow> string \<Rightarrow> backup_database list \<Rightarrow> bool" where
  "verified env s i ds \<longleftrightarrow> (\<exists>l. listing_of (InBackups i) s = Some l \<and> list_all (matches env (map_of l)) ds)"

lemma still_backups: "still s t \<Longrightarrow> listing_of (InBackups i) t = Some l \<Longrightarrow> listing_of (InBackups i) s = Some l"
  by (auto simp: still_def sub_listing_def)

lemma still_backups': "still s t \<Longrightarrow> listing_of (InBackups i) s = Some l \<Longrightarrow> listing_of (InBackups i) t = Some l"
  by (auto simp: still_def sub_listing_def)

lemma readFile_Inr:
  assumes "readFile env p n s = (Inr c, t)"
  shows "\<exists>l. listing_of p s = Some l \<and> map_of l n = Some (File c)"
  using assms by (auto simp: readFile_def eff_inv dest!: file_content_Inr)

lemma read_json_Inr:
  assumes "read_json env p n s = (Inr v, t)"
  shows "\<exists>l. listing_of p s = Some l \<and> map_of l n = Some (File (Document v))"
proof -
  obtain c u where c: "readFile env p n s = (Inr c, u)" "(case c of Document v \<Rightarrow> ret v | Text _ \<Rightarrow> throw (PlainError ''SyntaxError'')) u = (Inr v, t)"
    using assms by (auto simp: read_json_def bnd_Inr)
  with readFile_Inr [OF c(1)] show ?thesis by (cases c) auto
qed

lemma safeBackupDirectory_Inr: "safeBackupDirectory env i s = (Inr d, t) \<Longrightarrow> d = i"
  by (auto simp: safeBackupDirectory_def eff_inv split: if_splits)

lemma restore_source_Inr:
  assumes run: "restore_source env i s = (Inr (sel, m), t)"
  shows "stored env s sel m"
proof -
  let ?pick = "if i = ''latest'' then bnd (list_backups env) (\<lambda>bs. ret (case bs of [] \<Rightarrow> [] | b # _ \<Rightarrow> bm_backupId b)) else ret i"
  have pick: "always still ?pick" by (auto intro!: reads_rules still_list)
  obtain u v w raw where first: "?pick s = (Inr sel, u)" and dir: "safeBackupDirectory env sel u = (Inr sel, v)"
    and json: "read_json env (InBackups sel) MANIFEST v = (Inr raw, w)"
    and parse: "parseBackupMetadata (sq_dateOk env) raw (Some sel) = Some m"
    using run unfolding restore_source_def bnd_Inr
    by (fastforce dest: safeBackupDirectory_Inr split: option.split_asm if_splits)
  have "still s v" using alwaysD [OF pick first] alwaysD [OF still_reads(6) dir] by (auto simp: still_def fr_def)
  then show ?thesis
    using read_json_Inr [OF json] parse still_backups unfolding stored_def by blast
qed

lemma verify_database_Inr:
  assumes "verify_database env i x s = (Inr y, t)" and l: "listing_of (InBackups i) s = Some l"
  shows "matches env (map_of l) x"
proof -
  obtain u v c c' where c: "readFile env (InBackups i) (bd_filename x) s = (Inr c, u)" "sq_sha env c = bd_sha256 x"
    and c': "readFile env (InBackups i) (bd_filename x) u = (Inr c', v)" "int (sq_size env c') = bd_size x"
    using assms(1) unfolding verify_database_def checksum_def file_size_def bnd_Inr by (auto split: if_splits)
  have "listing_of (InBackups i) u = Some l" using still_backups' alwaysD [OF still_reads(1) c(1)] l by blast
  then have "c' = c" "map_of l (bd_filename x) = Some (File c)" using readFile_Inr [OF c(1)] readFile_Inr [OF c'(1)] l by auto
  with c(2) c'(2) show ?thesis by (simp add: matches_def)
qed

lemma verify_loop:
  assumes "mapE (verify_database env i) ds s = (Inr ys, t)" and "listing_of (InBackups i) s = Some l"
  shows "list_all (matches env (map_of l)) ds"
  using assms
proof (induction ds arbitrary: s ys)
  case (Cons x ds)
  then obtain y u ys' where first: "verify_database env i x s = (Inr y, u)" and rest: "mapE (verify_database env i) ds u = (Inr ys', t)"
    by (auto simp: bnd_Inr)
  have "listing_of (InBackups i) u = Some l" using still_backups' alwaysD [OF still_source(2) first] Cons.prems(2) by blast
  with Cons.IH [OF rest] verify_database_Inr [OF first Cons.prems(2)] show ?case by simp
qed simp

lemma parse_database_name:
  "parse_database seen raw = Some x \<Longrightarrow> bd_filename x \<notin> set seen \<and> DATABASE_FILENAME (bd_filename x)"
  by (auto simp: parse_database_def Let_def split: option.split_asm if_splits)

lemma parse_databases_names:
  "parse_databases seen raws = Some ds \<Longrightarrow> distinct (map bd_filename ds) \<and> (\<forall>x \<in> set ds. bd_filename x \<notin> set seen \<and> DATABASE_FILENAME (bd_filename x))"
  by (induction seen raws arbitrary: ds rule: parse_databases.induct)
     (fastforce dest: parse_database_name split: option.split_asm)+

lemma stored_names: "stored env s i m \<Longrightarrow> database_names (bm_databases m)"
  by (auto simp: stored_def parseBackupMetadata_def Let_def database_names_def database_related_def distinct_map
      dest!: parse_databases_names split: option.split_asm js_value.split_asm if_splits)

section \<open>The phases in sequence\<close>

text \<open>Before the databases are set aside they are those of the start \<open>s0\<close>, and so are the backups throughout.\<close>

definition calm :: "sq_state \<Rightarrow> sq_state \<Rightarrow> bool" where
  "calm s0 s \<longleftrightarrow> (\<forall>x. database_related x \<longrightarrow> hm s x = hm s0 x) \<and> working s \<and> lv_safety s = None \<and> \<not> lv_moved s
     \<and> (\<forall>st. lv_stage s = Some st \<longrightarrow> \<not> database_related st)
     \<and> (\<forall>i. listing_of (InBackups i) s = listing_of (InBackups i) s0)"

definition staged :: "sq_env \<Rightarrow> sq_state \<Rightarrow> string \<Rightarrow> backup_database list \<Rightarrow> sq_state \<Rightarrow> bool" where
  "staged env s0 st ds s \<longleftrightarrow> calm s0 s \<and> lv_stage s = Some st
     \<and> (\<exists>sl. hm s st = Some (Directory sl) \<and> (\<forall>x \<in> set ds. matches env (map_of sl) x))"

lemma calm_still: "calm s0 s \<Longrightarrow> still s t \<Longrightarrow> calm s0 t"
  unfolding calm_def still_def fr_def working_def listing_of.simps sub_listing_def by auto

lemma calm_frame: "calm s0 s \<Longrightarrow> fr s t \<Longrightarrow> (\<And>x. database_related x \<Longrightarrow> hm t x = hm s x) \<Longrightarrow> calm s0 t"
  by (simp add: calm_def fr_def working_def)

lemma calm_put: "calm s0 s \<Longrightarrow> fr s t \<Longrightarrow> hm t = (hm s)(d := v) \<Longrightarrow> \<not> database_related d \<Longrightarrow> calm s0 t"
  by (rule calm_frame) auto

lemma source_triple:
  "triple (calm s0) (restore_source env i) (\<lambda>p s. calm s0 s \<and> stored env s0 (fst p) (snd p)) (\<lambda>_. calm s0)"
proof (rule tripleI)
  fix s p t
  assume s: "calm s0 s" and run: "restore_source env i s = (Inr p, t)"
  have "stored env s (fst p) (snd p)" using restore_source_Inr run by (cases p) simp
  then have "stored env s0 (fst p) (snd p)" using s unfolding stored_def calm_def by metis
  then show "calm s0 t \<and> stored env s0 (fst p) (snd p)" using calm_still [OF s alwaysD [OF still_source(1) run]] by simp
qed (blast intro: calm_still alwaysD [OF still_source(1)])

lemma verify_triple:
  "triple (\<lambda>s. calm s0 s \<and> stored env s0 i m) (mapE (verify_database env i) (bm_databases m))
     (\<lambda>_ s. calm s0 s \<and> verified env s0 i (bm_databases m)) (\<lambda>_. calm s0)"
proof (rule tripleI)
  fix s p t
  assume s: "calm s0 s \<and> stored env s0 i m" and run: "mapE (verify_database env i) (bm_databases m) s = (Inr p, t)"
  obtain l where l: "listing_of (InBackups i) s0 = Some l" using s by (auto simp: stored_def)
  moreover have "listing_of (InBackups i) s = Some l" using s l unfolding calm_def by metis
  note verify_loop [OF run this]
  moreover have "calm s0 t" using s calm_still alwaysD [OF reads_rules(3) [OF still_source(2)] run] by blast
  ultimately show "calm s0 t \<and> verified env s0 i (bm_databases m)" by (auto simp: verified_def)
next
  fix s e t
  assume "calm s0 s \<and> stored env s0 i m" and run: "mapE (verify_database env i) (bm_databases m) s = (Inl e, t)"
  then show "calm s0 t" using calm_still alwaysD [OF reads_rules(3) [OF still_source(2)] run] by blast
qed

lemma stage_triple:
  assumes "env_ok env"
  shows "triple (calm s0) (mkdtemp env purpose)
    (\<lambda>st s. calm s0 s \<and> \<not> database_related st \<and> hm s st = Some (Directory [])) (\<lambda>_. calm s0)"
proof (rule tripleI)
  fix s st t
  assume s: "calm s0 s" and run: "mkdtemp env purpose s = (Inr st, t)"
  note made = mkdtemp_Inr [OF run]
  then have "\<not> database_related st" using staging_unrelated [OF assms] by auto
  then show "calm s0 t \<and> \<not> database_related st \<and> hm t st = Some (Directory [])"
    using made calm_put [OF s] by auto
qed (auto dest!: mkdtemp_Inl intro: calm_frame)

lemma copy_stage_triple:
  assumes v: "verified env s0 i ds" and st: "\<not> database_related st"
  shows "triple (\<lambda>s. calm s0 s \<and> lv_stage s = Some st \<and> hm s st = Some (Directory []))
    (mapE (\<lambda>d. copyFile_excl env (InBackups i) (InHome st) (bd_filename d)) ds) (\<lambda>_. staged env s0 st ds) (\<lambda>_. calm s0)"
proof -
  obtain bl where bl: "listing_of (InBackups i) s0 = Some bl" and ok: "list_all (matches env (map_of bl)) ds"
    using v by (auto simp: verified_def)
  define I where "I = (\<lambda>xs s. calm s0 s \<and> lv_stage s = Some st \<and> (\<exists>sl. hm s st = Some (Directory sl)
      \<and> map_of sl \<subseteq>\<^sub>m map_of bl \<and> (\<forall>x \<in> set ds. x \<in> set xs \<or> bd_filename x \<in> dom (map_of sl))))"
  have "triple (I (x # xs)) (copyFile_excl env (InBackups i) (InHome st) (bd_filename x)) (\<lambda>_. I xs) (\<lambda>_. calm s0)" for x xs
  proof (rule tripleI)
    fix s y t
    assume s: "I (x # xs) s" and run: "copyFile_excl env (InBackups i) (InHome st) (bd_filename x) s = (Inr y, t)"
    obtain bl' c l l' where "fr s t" and c: "listing_of (InBackups i) s = Some bl'" "map_of bl' (bd_filename x) = Some (File c)"
      and l: "hm s st = Some (Directory l)" "map_of l' = (map_of l)(bd_filename x \<mapsto> File c)" and t: "hm t = (hm s)(st \<mapsto> Directory l')"
      using copy_stage_Inr [OF run] by auto
    have "bl' = bl" using s c(1) bl unfolding I_def calm_def by (metis option.inject)
    with s l c(2) have sl: "map_of l' \<subseteq>\<^sub>m map_of bl" "\<forall>z \<in> set ds. z \<in> set xs \<or> bd_filename z \<in> dom (map_of l')"
      by (auto simp: I_def map_le_def)
    have "calm s0 t" "lv_stage t = Some st"
      using calm_put [OF _ \<open>fr s t\<close> t st] s \<open>fr s t\<close> by (auto simp: I_def fr_def)
    with sl t show "I xs t" unfolding I_def by auto
  qed (auto simp: I_def dest!: copyFile_excl_Inl intro: calm_frame)
  then have loop: "triple (I ds) (mapE (\<lambda>d. copyFile_excl env (InBackups i) (InHome st) (bd_filename d)) ds) (\<lambda>_. I []) (\<lambda>_. calm s0)"
    by (rule triple_mapE)
  have fin: "staged env s0 st ds s" if last: "I [] s" for s
  proof -
    obtain sl where sl: "hm s st = Some (Directory sl)" "map_of sl \<subseteq>\<^sub>m map_of bl" "\<forall>x \<in> set ds. bd_filename x \<in> dom (map_of sl)"
      using last by (auto simp: I_def)
    have "matches env (map_of sl) x" if "x \<in> set ds" for x
      using that sl(2,3) ok by (auto simp: map_le_def matches_def list_all_iff)
    then show ?thesis using last sl(1) by (auto simp: staged_def I_def)
  qed
  show ?thesis by (rule triple_conseq [OF loop _ fin]) (auto simp: I_def)
qed

lemma safety_triple:
  assumes "env_ok env"
  shows "triple (staged env s0 st ds) (mkdtemp env purpose)
    (\<lambda>d s. staged env s0 st ds s \<and> hm s d = Some (Directory []) \<and> \<not> database_related d \<and> d \<noteq> st) (\<lambda>_. calm s0)"
proof (rule tripleI)
  fix s d t
  assume s: "staged env s0 st ds s" and run: "mkdtemp env purpose s = (Inr d, t)"
  note made = mkdtemp_Inr [OF run]
  have "d \<noteq> st" using s made by (auto simp: staged_def)
  moreover have "\<not> database_related d" using made staging_unrelated [OF assms] by auto
  moreover have "calm s0 t" using made calm_put calculation s unfolding staged_def by blast
  ultimately show "staged env s0 st ds t \<and> hm t d = Some (Directory []) \<and> \<not> database_related d \<and> d \<noteq> st"
    using s made by (auto simp: staged_def fr_def)
qed (auto simp: staged_def dest!: mkdtemp_Inl intro: calm_frame)

text \<open>What a failing body leaves to the \<^verbatim>\<open>catch\<close> block.\<close>

definition caught :: "(string \<Rightarrow> node option) \<Rightarrow> storage_error \<Rightarrow> sq_state \<Rightarrow> bool" where
  "caught H e s \<longleftrightarrow> failed H e s \<and> (lv_safety s = None \<or> \<not> lv_moved s)
     \<or> (\<exists>st d. \<not> database_related d \<and> \<not> database_related st \<and> d \<noteq> st \<and> aside H st d s)"

lemma calm_caught: "calm s0 s \<Longrightarrow> caught (hm s0) e s"
  by (auto simp: calm_def caught_def failed_def unhurt_def)

lemma aside_triple:
  assumes ds: "distinct ds" and st: "\<not> database_related st" "\<not> database_related d" "d \<noteq> st"
  shows "triple (\<lambda>s. staged env s0 st ds s \<and> hm s d = Some (Directory []))
    (bnd (modS (\<lambda>s. s\<lparr>lv_safety := Some d\<rparr>)) (\<lambda>_. set_aside env d))
    (\<lambda>_ s. installing env st ds ds s \<and> aside (hm s0) st d s) (caught (hm s0))"
proof -
  have outcome: "case r of Inr _ \<Rightarrow> installing env st ds ds t \<and> aside (hm s0) st d t | Inl e \<Rightarrow> caught (hm s0) e t"
    if s: "staged env s0 st ds s" "hm s d = Some (Directory [])" and run: "set_aside env d (s\<lparr>lv_safety := Some d\<rparr>) = (r, t)" for s r t
  proof -
    have same: "\<And>x. database_related x \<Longrightarrow> hm s x = hm s0 x" using s by (simp add: staged_def calm_def)
    have H: "hm (s\<lparr>lv_safety := Some d\<rparr>) = hm s" by simp
    note out = set_aside_outcome [OF H s(2) st(2) run]
    have originals: "unhurt (hm s) t = unhurt (hm s0) t" "all_aside (hm s) d t = all_aside (hm s0) d t" "stuck (hm s) d t = stuck (hm s0) d t"
      by (rule same_originals, erule same)+
    obtain sl where sl: "hm s st = Some (Directory sl)" "\<forall>x \<in> set ds. matches env (map_of sl) x"
      using s by (auto simp: staged_def)
    show ?thesis
    proof (cases r)
      case (Inl e)
      with out s st show ?thesis
        unfolding originals by (auto simp: staged_def calm_def caught_def failed_def working_def)
    next
      case (Inr y)
      with out s st have "aside (hm s0) st d t" unfolding originals by (auto simp: staged_def calm_def aside_def working_def)
      moreover have "hm t st = Some (Directory sl)" using out Inr st sl(1) by auto
      then have "installing env st ds ds t" using out Inr sl(2) ds by (auto simp: installing_def)
      ultimately show ?thesis using Inr by simp
    qed
  qed
  show ?thesis
    by (rule triple_bnd [OF triple_modS [where Q = "\<lambda>_ t. \<exists>s. staged env s0 st ds s \<and> hm s d = Some (Directory []) \<and> t = s\<lparr>lv_safety := Some d\<rparr>"]])
       (auto intro!: tripleI dest: outcome)
qed

abbreviation restored :: "sq_env \<Rightarrow> sq_state \<Rightarrow> string \<Rightarrow> sq_state \<Rightarrow> bool" where
  "restored env s0 sel s \<equiv> \<exists>m st. stored env s0 sel m \<and> \<not> database_related st \<and> done_with env m st s"

lemma calm_triple: "triple P m Q (\<lambda>_. calm s0) \<Longrightarrow> triple P m Q (caught (hm s0))"
  by (erule triple_conseq) (auto intro: calm_caught)

lemma replace_triple:
  assumes m: "stored env s0 sel m" and st: "\<not> database_related st" and atomic: "atomic_removals env"
  shows "triple (\<lambda>s. staged env s0 st (bm_databases m) s \<and> hm s d = Some (Directory []) \<and> \<not> database_related d \<and> d \<noteq> st)
    (bnd (modS (\<lambda>s. s\<lparr>lv_safety := Some d\<rparr>)) (\<lambda>_. bnd (set_aside env d) (\<lambda>_. bnd (install env st d m) (\<lambda>_. ret sel))))
    (restored env s0) (caught (hm s0))" (is "triple ?P _ ?Q ?E")
proof (rule triple_pre [where b = "\<not> database_related d \<and> d \<noteq> st"])
  assume d: "\<not> database_related d \<and> d \<noteq> st"
  have names: "database_names (bm_databases m)" by (rule stored_names [OF m])
  then have distinct: "distinct (bm_databases m)" by (simp add: database_names_def)
  have inst: "triple (\<lambda>s. installing env st (bm_databases m) (bm_databases m) s \<and> aside (hm s0) st d s)
      (install env st d m) (\<lambda>_. done_with env m st) ?E"
    by (rule triple_conseq [OF install_triple [OF names st _ _ atomic]]) (use d st in \<open>auto simp: caught_def\<close>)
  have res: "triple (done_with env m st) (ret sel) ?Q ?E"
    by (rule triple_ret) (use m st in auto)
  have "triple (\<lambda>s. staged env s0 st (bm_databases m) s \<and> hm s d = Some (Directory []))
      (bnd (bnd (modS (\<lambda>s. s\<lparr>lv_safety := Some d\<rparr>)) (\<lambda>_. set_aside env d)) (\<lambda>_. bnd (install env st d m) (\<lambda>_. ret sel))) ?Q ?E"
    by (rule triple_bnd [OF aside_triple [OF distinct st] triple_bnd [OF inst res]]) (use d in auto)
  then show "triple ?P (bnd (modS (\<lambda>s. s\<lparr>lv_safety := Some d\<rparr>)) (\<lambda>_. bnd (set_aside env d) (\<lambda>_. bnd (install env st d m) (\<lambda>_. ret sel)))) ?Q ?E"
    unfolding bnd_assoc by (rule triple_conseq) auto
qed auto

lemma close_triple:
  "triple (staged env s0 st ds) (handle (closeAndWait env) (\<lambda>_. throw e)) (\<lambda>_. staged env s0 st ds) (\<lambda>_. calm s0)"
proof (rule triple_handle [where R = "\<lambda>_. calm s0"])
  show "triple (staged env s0 st ds) (closeAndWait env) (\<lambda>_. staged env s0 st ds) (\<lambda>_. calm s0)"
    by (rule tripleI; drule closeAndWait_hm) (auto simp: staged_def fr_def intro: calm_frame)
qed (auto intro: triple_throw)

lemma body_triple:
  assumes env: "env_ok env" and atomic: "atomic_removals env"
  shows "triple (calm s0) (restore_body env i) (restored env s0) (caught (hm s0))" (is "triple _ _ ?Q ?E")
proof -
  let ?rest = "\<lambda>sel m st d. bnd (modS (\<lambda>s. s\<lparr>lv_safety := Some d\<rparr>)) (\<lambda>_. bnd (set_aside env d) (\<lambda>_. bnd (install env st d m) (\<lambda>_. ret sel)))"
  let ?copy = "\<lambda>sel m st. bnd (mapE (\<lambda>d. copyFile_excl env (InBackups sel) (InHome st) (bd_filename d)) (bm_databases m)) (\<lambda>_.
      bnd (handle (closeAndWait env) (\<lambda>_. throw (SafeError ''app_server_shutdown_unconfirmed'' 503))) (\<lambda>_.
      bnd (mkdtemp env ''pre-restore'') (?rest sel m st)))"
  have copy: "triple (\<lambda>s. calm s0 s \<and> lv_stage s = Some st \<and> hm s st = Some (Directory [])) (?copy sel m st) ?Q ?E"
    if "stored env s0 sel m" "verified env s0 sel (bm_databases m)" "\<not> database_related st" for sel m st
    by (rule triple_bnd [OF calm_triple [OF copy_stage_triple [OF that(2,3)]]
          triple_bnd [OF calm_triple [OF close_triple] triple_bnd [OF calm_triple [OF safety_triple [OF env]]
          replace_triple [OF that(1,3) atomic]]]])
  have stage: "triple (\<lambda>s. calm s0 s \<and> \<not> database_related st \<and> hm s st = Some (Directory []))
      (bnd (modS (\<lambda>s. s\<lparr>lv_stage := Some st\<rparr>)) (\<lambda>_. ?copy sel m st)) ?Q ?E"
    if "stored env s0 sel m" "verified env s0 sel (bm_databases m)" for sel m st
    by (rule triple_pre [where b = "\<not> database_related st"], simp,
        rule triple_bnd [OF triple_modS copy [OF that]], auto simp: calm_def working_def)
  have make: "triple (\<lambda>s. calm s0 s \<and> verified env s0 sel (bm_databases m))
      (bnd (mkdtemp env ''restore'') (\<lambda>st. bnd (modS (\<lambda>s. s\<lparr>lv_stage := Some st\<rparr>)) (\<lambda>_. ?copy sel m st))) ?Q ?E"
    if "stored env s0 sel m" for sel m
    by (rule triple_pre [where b = "verified env s0 sel (bm_databases m)"], simp,
        rule triple_conseq [OF triple_bnd [OF calm_triple [OF stage_triple [OF env]] stage [OF that]]], auto)
  have verify: "triple (\<lambda>s. calm s0 s \<and> stored env s0 sel m)
      (bnd (mapE (verify_database env sel) (bm_databases m)) (\<lambda>_. bnd (mkdtemp env ''restore'')
        (\<lambda>st. bnd (modS (\<lambda>s. s\<lparr>lv_stage := Some st\<rparr>)) (\<lambda>_. ?copy sel m st)))) ?Q ?E" for sel m
    by (rule triple_pre [where b = "stored env s0 sel m"], simp, rule triple_bnd [OF calm_triple [OF verify_triple] make])
  show ?thesis
    unfolding restore_body_def
    by (rule triple_bnd [OF calm_triple [OF source_triple]]) (use verify in \<open>auto split: prod.split\<close>)
qed

section \<open>A whole restore\<close>

lemma handled_triple:
  assumes "env_ok env" and "atomic_removals env"
  shows "triple (calm s0) (handle (restore_body env i) (rollback env)) (restored env s0) (failed (hm s0))"
proof (rule triple_handle [OF body_triple [OF assms]])
  fix e
  show "triple (caught (hm s0) e) (rollback env e) (restored env s0) (failed (hm s0))"
    unfolding triple_def
  proof (intro allI impI)
    fix s
    assume "caught (hm s0) e s"
    then show "case (rollback env e :: string sq_eff) s of (Inl e, t) \<Rightarrow> failed (hm s0) e t | (Inr x, t) \<Rightarrow> restored env s0 x t"
      unfolding caught_def
    proof (elim disjE exE conjE)
      fix st d
      assume "\<not> database_related d" "\<not> database_related st" "d \<noteq> st" "aside (hm s0) st d s"
      then show ?thesis using rollback_triple unfolding triple_def by (fastforce split: prod.splits sum.splits)
    qed (auto simp: rollback_def bnd_def getS_def throw_def split: option.splits)
  qed
qed

lemma remove_if_home:
  assumes "remove_if env Home v s = (r, t)"
  shows "fr s t \<and> (\<forall>x. v \<noteq> Some x \<longrightarrow> hm t x = hm s x) \<and> (r = Inr () \<or> r = Inl IoError)"
proof (cases v)
  case (Some d)
  with assms have run: "rm_recursive env Home d s = (r, t)" by (simp add: remove_if_def)
  show ?thesis using rm_recursive_home [OF run] rm_recursive_IoError [OF run] Some by (auto split: sum.splits)
qed (use assms in \<open>auto simp: remove_if_def\<close>)

lemma cleanup_outcome:
  assumes run: "restore_cleanup env s = (r, t)"
  shows "(\<forall>x. lv_stage s \<noteq> Some x \<longrightarrow> ss_recovery s \<or> lv_safety s \<noteq> Some x \<longrightarrow> hm t x = hm s x)
    \<and> ss_recovery t = ss_recovery s
    \<and> (r = Inr () \<and> ss_operation t = (if ss_recovery s then ss_operation s else Idle)
       \<or> r = Inl IoError \<and> ss_operation t = ss_operation s)"
proof -
  obtain q u where stage: "remove_if env Home (lv_stage s) s = (q, u)" by (cases "remove_if env Home (lv_stage s) s")
  obtain q' v where safety: "remove_if env Home (lv_safety u) u = (q', v)" by (cases "remove_if env Home (lv_safety u) u")
  note a = remove_if_home [OF stage] and b = remove_if_home [OF safety]
  have "if q = Inr () then (if ss_recovery u then r = Inr () \<and> t = u
      else if q' = Inr () then r = Inr () \<and> t = v\<lparr>ss_operation := Idle\<rparr> else r = q' \<and> t = v) else r = q \<and> t = u"
    using run stage safety a b
    by (auto simp: restore_cleanup_def bnd_def getS_def modS_def ret_def fr_def split: if_splits prod.splits sum.splits)
  then show ?thesis using a b by (auto simp: fr_def split: if_splits)
qed

text \<open>What a restore that started in \<open>s0\<close> guarantees.\<close>

definition restore_guarantee :: "sq_env \<Rightarrow> sq_state \<Rightarrow> storage_error + string \<Rightarrow> sq_state \<Rightarrow> bool" where
  "restore_guarantee env s0 r t = (case r of
       Inr sel \<Rightarrow> ss_operation t = Idle \<and> \<not> ss_recovery t \<and> (\<exists>m. stored env s0 sel m \<and> installed env m t)
     | Inl e \<Rightarrow>
         ss_recovery t \<and> ss_operation t = Restoring \<and> e \<noteq> rolled_back \<and> (\<exists>d. kept (hm s0) d t)
         \<or> \<not> ss_recovery t \<and> ss_operation t = Idle \<and> unhurt (hm s0) t
         \<or> \<not> ss_recovery t \<and> ss_operation t = Restoring \<and> e = IoError
             \<and> (unhurt (hm s0) t \<or> (\<exists>sel m. stored env s0 sel m \<and> installed env m t)))"

lemma cleanup_failed:
  assumes "failed (hm s0) e s" and run: "restore_cleanup env s = (r, t)"
  shows "restore_guarantee env s0 (case r of Inl e' \<Rightarrow> Inl e' | Inr _ \<Rightarrow> Inl e) t"
  using assms(1) unfolding failed_def
proof (elim conjE disjE exE)
  assume st: "\<forall>st. lv_stage s = Some st \<longrightarrow> \<not> database_related st" and s: "unhurt (hm s0) s" "working s"
    and safety: "\<forall>d. lv_safety s = Some d \<longrightarrow> \<not> database_related d"
  have "unhurt (hm s0) t" using s(1) st safety cleanup_outcome [OF run] by (auto simp: unhurt_def)
  then show ?thesis using cleanup_outcome [OF run] s(2) by (auto simp: restore_guarantee_def working_def)
next
  fix d
  assume st: "\<forall>st. lv_stage s = Some st \<longrightarrow> \<not> database_related st" and e: "e \<noteq> rolled_back" and s: "stuck (hm s0) d s"
    and d: "\<not> database_related d" "lv_stage s \<noteq> Some d"
  have "ss_recovery s" "ss_operation s = Restoring" "kept (hm s0) d s" using s by (auto simp: stuck_def)
  moreover from this have same: "hm t x = hm s x" if "lv_stage s \<noteq> Some x" for x using that cleanup_outcome [OF run] by blast
  have "sub t d = sub s d" using same [OF d(2)] by (simp add: sub_def fun_eq_iff)
  then have "kept (hm s0) d t" using same st \<open>kept (hm s0) d s\<close> unfolding kept_def by metis
  ultimately show ?thesis using cleanup_outcome [OF run] e by (auto simp: restore_guarantee_def)
qed

lemma cleanup_restored:
  assumes "restored env s0 sel s" and run: "restore_cleanup env s = (r, t)"
  shows "restore_guarantee env s0 (case r of Inl e' \<Rightarrow> Inl e' | Inr _ \<Rightarrow> Inr sel) t"
proof -
  obtain m st where m: "stored env s0 sel m" "\<not> database_related st" "done_with env m st s" using assms(1) by blast
  have "installed env m t"
    by (rule installed_frame [OF _ stored_names [OF m(1)], of env s t]) (use m cleanup_outcome [OF run] in \<open>auto simp: done_with_def\<close>)
  then show ?thesis using m cleanup_outcome [OF run] by (auto simp: restore_guarantee_def done_with_def working_def)
qed

text \<open>What a restore guarantees when no removal fails half-way.\<close>

lemma restore_atomic:
  assumes "env_ok env" and "atomic_removals env" and "ss_operation s = Idle" and "\<not> ss_recovery s" and "truthy (sq_home env)"
    and "restore env i s = (r, t)"
  shows "restore_guarantee env s r t"
proof -
  let ?s = "s\<lparr>ss_operation := Restoring, lv_stage := None, lv_safety := None, lv_moved := False\<rparr>"
  have start: "calm s ?s" using assms(4) by (simp add: calm_def working_def)
  have run: "finallyE (handle (restore_body env i) (rollback env)) (restore_cleanup env) ?s = (r, t)"
    using assms(3,5,6) by (simp add: restore_def bnd_def getS_def modS_def guardE_def)
  obtain q u where body: "handle (restore_body env i) (rollback env) ?s = (q, u)" by (cases "handle (restore_body env i) (rollback env) ?s")
  obtain q' v where fin: "restore_cleanup env u = (q', v)" by (cases "restore_cleanup env u")
  note after = tripleD [OF handled_triple [OF assms(1,2)] start]
  have r: "r = (case q' of Inl e' \<Rightarrow> Inl e' | Inr _ \<Rightarrow> q)" "t = v"
    using run body fin by (auto simp: finallyE_def split: sum.splits)
  show ?thesis
  proof (cases q)
    case (Inl e)
    with after(2) body have "failed (hm s) e u" by simp
    from cleanup_failed [OF this fin] show ?thesis unfolding r Inl .
  next
    case (Inr sel)
    with after(1) body have "restored env s sel u" by simp
    from cleanup_restored [OF this fin] show ?thesis unfolding r Inr .
  qed
qed

end
