(* ===== verification/Sqlite_Removals.thy ===== *)
theory Sqlite_Removals
  imports Sqlite_Guarantees
begin

text \<open>
  The guarantee of a restore for every pattern of failures. A recursive removal may fail after it has removed some entries;
  the restores without such a removal, and those that succeed, behave as if failing removals removed nothing, which carries
  the guarantee over, and in every run the backups themselves stay as they are.
\<close>

section \<open>Removals that stop half-way\<close>

text \<open>
  A run in which a recursive removal fails after it has removed entries, and the environment in which failing removals
  remove nothing. Two operations agree when they behave alike in every run that returns or has no such removal; on the
  way the backups stay as they are.
\<close>

definition torn_removal :: "sq_env \<Rightarrow> sq_state \<Rightarrow> sq_state \<Rightarrow> bool" where
  "torn_removal env s t \<longleftrightarrow> (\<exists>n. ss_calls s \<le> n \<and> n < ss_calls t \<and> sq_fails env n \<and> 0 < sq_removed env n)"

definition all_or_nothing :: "sq_env \<Rightarrow> sq_env" where
  "all_or_nothing env = env\<lparr>sq_removed := \<lambda>_. 0\<rparr>"

definition progress :: "sq_state \<Rightarrow> sq_state \<Rightarrow> bool" where
  "progress s t \<longleftrightarrow> ss_calls s \<le> ss_calls t \<and> (\<forall>i. listing_of (InBackups i) t = listing_of (InBackups i) s)"

interpretation progress: preorder_history progress
  by unfold_locales (auto simp: progress_def)

lemma torn_mono:
  "torn_removal env s u \<Longrightarrow> progress u t \<Longrightarrow> torn_removal env s t"
  "torn_removal env u t \<Longrightarrow> progress s u \<Longrightarrow> torn_removal env s t"
  unfolding torn_removal_def progress_def by (meson le_trans less_le_trans)+

definition agree :: "sq_env \<Rightarrow> 'a sq_eff \<Rightarrow> 'a sq_eff \<Rightarrow> bool" where
  "agree env m m' \<longleftrightarrow> (\<forall>s r t. m s = (r, t) \<longrightarrow> progress s t \<and> (is_ok r \<or> \<not> torn_removal env s t \<longrightarrow> m' s = (r, t)))"

lemma agreeD:
  assumes "agree env m m'" and "m s = (r, t)"
  shows "progress s t" and "is_ok r \<or> \<not> torn_removal env s t \<Longrightarrow> m' s = (r, t)"
  using assms unfolding agree_def by blast+

lemma agree_same: "always progress m \<Longrightarrow> agree env m m"
  by (simp add: agree_def always_def)

lemma agree_bnd:
  assumes m: "agree env m m'" and f: "\<And>x. agree env (f x) (f' x)"
  shows "agree env (bnd m f) (bnd m' f')"
  unfolding agree_def
proof (intro allI impI)
  fix s r t
  assume run: "bnd m f s = (r, t)"
  obtain q u where q: "m s = (q, u)" by (cases "m s")
  show "progress s t \<and> (is_ok r \<or> \<not> torn_removal env s t \<longrightarrow> bnd m' f' s = (r, t))"
  proof (cases q)
    case (Inl e)
    with run q have "r = Inl e" "t = u" by (auto simp: bnd_def)
    with agreeD [OF m q] Inl show ?thesis by (auto simp: bnd_def is_ok_def)
  next
    case (Inr x)
    with run q have rest: "f x u = (r, t)" by (simp add: bnd_def)
    note first = agreeD [OF m q] and then_ = agreeD [OF f rest]
    have "m' s = (Inr x, u)" using first(2) Inr by (simp add: is_ok_def)
    moreover have "f' x u = (r, t)" if "is_ok r \<or> \<not> torn_removal env s t"
      using that then_(2) torn_mono(2) [OF _ first(1)] by blast
    ultimately show ?thesis using progress.trans [OF first(1) then_(1)] by (auto simp: bnd_def)
  qed
qed

lemma agree_mapE: "(\<And>x. agree env (f x) (f' x)) \<Longrightarrow> agree env (mapE f xs) (mapE f' xs)"
  by (induction xs) (auto intro!: agree_bnd agree_same)

text \<open>A handler agrees when what it protects has no removal, or when it always throws.\<close>

definition throws :: "'a sq_eff \<Rightarrow> bool" where
  "throws m \<longleftrightarrow> (\<forall>s. \<not> is_ok (fst (m s)))"

lemma agree_handle:
  assumes m: "agree env m m'" and h: "\<And>e. agree env (h e) (h' e)" and either: "m = m' \<or> (\<forall>e. throws (h e))"
  shows "agree env (handle m h) (handle m' h')"
  unfolding agree_def
proof (intro allI impI)
  fix s r t
  assume run: "handle m h s = (r, t)"
  obtain q u where q: "m s = (q, u)" by (cases "m s")
  note first = agreeD [OF m q]
  show "progress s t \<and> (is_ok r \<or> \<not> torn_removal env s t \<longrightarrow> handle m' h' s = (r, t))"
  proof (cases q)
    case (Inl e)
    with run q have rest: "h e u = (r, t)" by (simp add: handle_def)
    note then_ = agreeD [OF h rest]
    have "handle m' h' s = (r, t)" if ok: "is_ok r \<or> \<not> torn_removal env s t"
    proof -
      have "h' e u = (r, t)" using ok then_(2) torn_mono(2) [OF _ first(1)] by blast
      moreover have "m' s = (Inl e, u)"
        using either
      proof
        assume "\<forall>e. throws (h e)"
        then have "\<not> is_ok r" using rest unfolding throws_def by (metis fst_conv)
        then show ?thesis using ok first(2) torn_mono(1) [OF _ then_(1)] Inl by blast
      qed (use q Inl in simp)
      ultimately show ?thesis by (simp add: handle_def)
    qed
    then show ?thesis using progress.trans [OF first(1) then_(1)] by blast
  next
    case (Inr x)
    with run q have "r = Inr x" "t = u" by (auto simp: handle_def)
    with first Inr show ?thesis by (auto simp: handle_def is_ok_def)
  qed
qed

lemma agree_finallyE:
  assumes m: "agree env m m'" and f: "agree env f f'"
  shows "agree env (finallyE m f) (finallyE m' f')"
  unfolding agree_def
proof (intro allI impI)
  fix s r t
  assume run: "finallyE m f s = (r, t)"
  obtain q u where q: "m s = (q, u)" by (cases "m s")
  obtain q' v where q': "f u = (q', v)" by (cases "f u")
  from run q q' have t: "t = v" and r: "r = (case q' of Inl e \<Rightarrow> Inl e | Inr _ \<Rightarrow> q)"
    by (auto simp: finallyE_def split: sum.splits)
  note first = agreeD [OF m q] and then_ = agreeD [OF f q']
  have "m' s = (q, u) \<and> f' u = (q', v)" if ok: "is_ok r \<or> \<not> torn_removal env s t"
  proof -
    have "is_ok q \<and> is_ok q' \<or> \<not> torn_removal env s t" using ok r by (cases q'; cases q) (simp_all add: is_ok_def)
    moreover have "torn_removal env s t" if "torn_removal env s u \<or> torn_removal env u v"
      using that torn_mono(1) [OF _ then_(1)] torn_mono(2) [OF _ first(1)] t by blast
    ultimately show ?thesis using first(2) then_(2) by blast
  qed
  then show "progress s t \<and> (is_ok r \<or> \<not> torn_removal env s t \<longrightarrow> finallyE m' f' s = (r, t))"
    using progress.trans [OF first(1) then_(1)] r t by (cases q') (auto simp: finallyE_def)
qed

lemma agree_remove: "agree env (rm_recursive env Home d) (rm_recursive (all_or_nothing env) Home d)"
  unfolding agree_def
proof (intro allI impI)
  fix s r t
  assume run: "rm_recursive env Home d s = (r, t)"
  have t: "ss_calls t = Suc (ss_calls s)" "ss_backups t = ss_backups s"
    using run by (auto simp: rm_recursive_def Let_def put_listing.simps split: option.splits if_splits node.splits)
  have "rm_recursive (all_or_nothing env) Home d s = (r, t)" if "is_ok r \<or> \<not> torn_removal env s t"
  proof -
    have "\<not> sq_fails env (ss_calls s) \<or> sq_removed env (ss_calls s) = 0"
      using that run t(1) by (fastforce simp: torn_removal_def rm_recursive_def Let_def is_ok_def split: option.splits if_splits)
    with run show ?thesis by (cases "ss_home s") (auto simp: rm_recursive_def all_or_nothing_def Let_def split: if_splits option.split node.split)
  qed
  with t show "progress s t \<and> (is_ok r \<or> \<not> torn_removal env s t \<longrightarrow> rm_recursive (all_or_nothing env) Home d s = (r, t))"
    by (simp add: progress_def)
qed

subsection \<open>Operations without removals\<close>

lemma progress_base:
  "always progress (os_call env)" "always progress (the_listing p)" "always progress (file_content p n)"
  "always progress (mkdir_recursive env Backups)" "always progress (closeAndWait env)" "always progress (app_ready env)"
  "always progress (modS (put_listing Home l))" "always progress (modS (put_listing (InHome d) l))"
proof -
  show "always progress (mkdir_recursive env Backups)"
    by (auto simp: always_def mkdir_recursive_def os_call_def eff_def progress_def Let_def put_listing.simps sub_listing_def split: option.splits)
qed (auto simp: always_def os_call_def the_listing_def file_content_eq closeAndWait_def app_ready_def progress_def Let_def put_listing.simps
      split: option.splits node.splits)

lemmas progress_rules = progress.always_bnd progress.always_handle progress.always_mapE progress.always_finallyE progress.always_pure
  progress.always_getS progress_base

lemma progress_calls:
  "always progress (readdir env p)" "always progress (readFile env p n)" "always progress (mkdtemp env purpose)"
  "always progress (copyFile_excl env p Home n)" "always progress (copyFile_excl env p (InHome d) n)"
  "always progress (writeFile env (InHome d) n c)" "always progress (rm_force env Home n)"
  "always progress (rename env Home n (InHome d) m)" "always progress (rename env (InHome d) n Home m)"
  unfolding readdir_def readFile_def mkdtemp_def make_directory_def copyFile_excl_def writeFile_def rm_force_def rename_def Let_def
  by (intro progress_rules; auto intro!: progress_rules split: option.split)+

lemma progress_reads:
  "always progress (safeBackupDirectory env i)" "always progress (list_backups env)" "always progress (restore_source env i)"
  "always progress (verify_database env dir x)"
proof -
  show dir: "always progress (safeBackupDirectory env i)" for i
    unfolding safeBackupDirectory_def by (intro progress_rules progress_calls)
  have json: "always progress (read_json env p n)" for p n
    unfolding read_json_def by (intro progress_rules progress_calls) (auto split: content.split)
  have "always progress (list_entry env entry)" for entry
    unfolding list_entry_def
    by (cases "\<not> isDirectory (snd entry) \<or> \<not> BACKUP_ID (fst entry)"; simp only: if_True if_False)
       (auto intro!: progress_rules json dir split: option.split)
  then show listed: "always progress (list_backups env)"
    unfolding list_backups_def by (intro progress_rules progress_calls)
  show "always progress (restore_source env i)"
    unfolding restore_source_def
    by (intro progress_rules dir json) (auto intro!: progress_rules listed split: option.split)
  show "always progress (verify_database env dir x)"
    unfolding verify_database_def checksum_def file_size_def by (intro progress_rules progress_calls)
qed

lemma progress_restore_steps:
  "always progress (mark_recovery env d)" "always progress (move_out env d n)" "always progress (clear_home env)"
proof -
  show "always progress (mark_recovery env d)"
    unfolding mark_recovery_def quietly_def
    by (intro progress_rules progress_calls progress.always_modS) (simp add: progress_def)
  show "always progress (move_out env d n)"
    unfolding move_out_def by (intro progress_rules progress_calls progress.always_modS) (simp add: progress_def)
  show "always progress (clear_home env)"
    unfolding clear_home_def by (intro progress_rules progress_calls)
qed

lemma progress_locals:
  "always progress (modS (\<lambda>s. s\<lparr>lv_stage := v\<rparr>))" "always progress (modS (\<lambda>s. s\<lparr>lv_safety := v\<rparr>))"
  "always progress (modS (\<lambda>s. s\<lparr>lv_names := ns\<rparr>))" "always progress (modS (\<lambda>s. s\<lparr>lv_moved := b\<rparr>))"
  "always progress (modS (\<lambda>s. if ss_recovery s then s else s\<lparr>ss_operation := Idle\<rparr>))"
  "always progress (modS (\<lambda>s. s\<lparr>ss_operation := Restoring, lv_stage := None, lv_safety := None, lv_moved := False\<rparr>))"
  by (rule progress.always_modS; simp add: progress_def)+

lemma atomic_calls:
  "os_call (all_or_nothing env) = os_call env" "closeAndWait (all_or_nothing env) = closeAndWait env"
  "app_ready (all_or_nothing env) = app_ready env"
  by (simp_all add: all_or_nothing_def os_call_def closeAndWait_def app_ready_def fun_eq_iff)

lemma atomic_fields [simp]:
  "sq_suffix (all_or_nothing env) = sq_suffix env" "sq_sha (all_or_nothing env) = sq_sha env" "sq_size (all_or_nothing env) = sq_size env"
  "sq_dateOk (all_or_nothing env) = sq_dateOk env" "sq_locale (all_or_nothing env) = sq_locale env" "sq_home (all_or_nothing env) = sq_home env"
  "sq_removed (all_or_nothing env) n = 0"
  by (simp_all add: all_or_nothing_def)

lemma atomic_steps:
  "readdir (all_or_nothing env) = readdir env" "mkdtemp (all_or_nothing env) = mkdtemp env" "copyFile_excl (all_or_nothing env) = copyFile_excl env"
  "rename (all_or_nothing env) = rename env" "rm_force (all_or_nothing env) = rm_force env"
  "mark_recovery (all_or_nothing env) = mark_recovery env" "move_out (all_or_nothing env) = move_out env"
  "clear_home (all_or_nothing env) = clear_home env" "restore_source (all_or_nothing env) = restore_source env"
  "verify_database (all_or_nothing env) = verify_database env"
  unfolding fun_eq_iff readdir_def mkdtemp_def copyFile_excl_def rename_def rm_force_def mark_recovery_def writeFile_def move_out_def clear_home_def
    restore_source_def verify_database_def checksum_def file_size_def list_backups_def list_entry_def safeBackupDirectory_def read_json_def readFile_def
    mkdir_recursive_def atomic_calls atomic_fields
  by (rule allI | rule refl)+

subsection \<open>The restore\<close>

lemma throws_iff: "throws m \<longleftrightarrow> (\<forall>s x t. m s \<noteq> (Inr x, t))"
proof -
  have "is_ok (fst p) \<longleftrightarrow> (\<exists>x t. p = (Inr x, t))" for p :: "(storage_error + 'a) \<times> sq_state"
    by (cases p; cases "fst p") (auto simp: is_ok_def)
  then show ?thesis by (auto simp: throws_def)
qed

lemma throwing:
  "throws (mark_recovery env d)" "throws (move_back env d)" "throws (copy_back env d)" "throws (rollback env e)" "throws (throw e)"
proof -
  have bnd: "throws (bnd m f)" if "\<And>x. throws (f x)" for m :: "'x sq_eff" and f :: "'x \<Rightarrow> 'y sq_eff"
    using that by (auto simp: throws_iff bnd_eq)
  have handle: "throws (handle m h)" if "throws m" "\<And>e. throws (h e)" for m :: "'x sq_eff" and h
    using that by (auto simp: throws_iff handle_def split: prod.split sum.split)
  show raise: "throws (throw e :: 'x sq_eff)" for e by (simp add: throws_iff)
  show mark: "throws (mark_recovery env d :: 'x sq_eff)" for d
    unfolding mark_recovery_def by (intro bnd raise)
  show "throws (move_back env d)" and copy: "throws (copy_back env d :: 'x sq_eff)" for d
    unfolding move_back_def copy_back_def by (intro bnd raise)+
  show "throws (rollback env e)"
    unfolding rollback_def guarded_rollback_def
    by (intro bnd) (auto intro!: bnd handle raise mark copy split: option.split)
qed

lemma agree_guarded:
  "agree env m m' \<Longrightarrow> throws m \<Longrightarrow> agree env (guarded_rollback env d m) (guarded_rollback (all_or_nothing env) d m')"
  unfolding guarded_rollback_def atomic_steps
  by (rule agree_handle) (auto intro!: agree_same progress_restore_steps throwing)

lemmas agree_rules = agree_bnd agree_remove agree_same [OF progress_locals(1)] agree_same [OF progress_locals(2)] agree_same [OF progress_locals(3)]
  agree_same [OF progress_locals(4)] agree_same [OF progress.always_getS]

lemma agree_back:
  "agree env (move_back env d) (move_back (all_or_nothing env) d)" "agree env (copy_back env d) (copy_back (all_or_nothing env) d)"
  unfolding move_back_def copy_back_def atomic_steps atomic_calls
  by (intro agree_rules agree_same [OF progress_restore_steps(3)] agree_same [OF progress_calls(1)] agree_same [OF progress.always_pure(2)]
      agree_same [OF progress.always_mapE] progress_calls agree_same [OF progress_base(6)] agree_same [OF progress.always_pure(4)])+

lemma agree_aside: "agree env (set_aside env d) (set_aside (all_or_nothing env) d)"
proof -
  have "agree env (handle (mapE (move_out env d) ns) (\<lambda>_. guarded_rollback env d (move_back env d)))
      (handle (mapE (move_out env d) ns) (\<lambda>_. guarded_rollback (all_or_nothing env) d (move_back (all_or_nothing env) d)))" for ns
    by (intro agree_handle agree_same [OF progress.always_mapE] progress_restore_steps agree_guarded agree_back throwing) simp
  then show ?thesis
    unfolding set_aside_def atomic_steps by (intro agree_rules agree_same [OF progress_calls(1)])
qed

lemma agree_body: "agree env (restore_body env i) (restore_body (all_or_nothing env) i)"
proof -
  have install: "agree env (install env st d m) (install (all_or_nothing env) st d m)" for st d m
    unfolding install_def atomic_steps atomic_calls
    by (intro agree_rules agree_same [OF progress.always_mapE] progress_calls agree_same [OF progress_base(6)]
        agree_same [OF progress.always_pure(4)])
  have close: "agree env (handle (closeAndWait env) (\<lambda>_. throw e)) (handle (closeAndWait env) (\<lambda>_. throw e))" for e
    by (intro agree_same progress_rules)
  show ?thesis
    unfolding restore_body_def atomic_steps atomic_calls
    by (intro agree_bnd agree_same [OF progress_reads(3)])
       (auto split: prod.split intro!: agree_rules install close agree_aside agree_same [OF progress.always_mapE] agree_same [OF progress_calls(3)]
          agree_same [OF progress.always_pure(1)] progress_calls progress_reads)
qed

lemma agree_rollback: "agree env (rollback env e) (rollback (all_or_nothing env) e)"
proof -
  have close: "agree env (handle (closeAndWait env) (\<lambda>_. mark_recovery env d)) (handle (closeAndWait env) (\<lambda>_. mark_recovery env d))" for d
    by (intro agree_same progress_rules progress_restore_steps)
  show ?thesis
    unfolding rollback_def atomic_steps atomic_calls
    by (intro agree_rules)
       (auto split: option.split intro!: agree_rules close agree_guarded agree_back throwing agree_same [OF progress.always_pure(2)])
qed

lemma agree_cleanup: "agree env (restore_cleanup env) (restore_cleanup (all_or_nothing env))"
proof -
  have remove: "agree env (remove_if env Home v) (remove_if (all_or_nothing env) Home v)" for v
    unfolding remove_if_def by (auto split: option.split intro!: agree_remove agree_same)
  show ?thesis
    unfolding restore_cleanup_def
    by (intro agree_rules remove)
       (auto split: prod.split intro!: agree_rules remove agree_same [OF progress_locals(5)] agree_same [OF progress.always_pure(1)])
qed

lemma agree_restore: "agree env (restore env i) (restore (all_or_nothing env) i)"
  unfolding restore_def atomic_fields
  by (intro agree_rules agree_finallyE agree_handle agree_body agree_rollback agree_cleanup agree_same [OF progress.always_pure(4)]
      agree_same [OF progress_locals(6)]) (simp add: throwing)

lemma guarantee_atomic: "restore_guarantee (all_or_nothing env) s r t = restore_guarantee env s r t"
  by (cases r) (simp_all add: restore_guarantee_def stored_def installed_def matches_def)

section \<open>Properties\<close>

text \<open>C3. A restore that starts when nothing is running, whatever calls fail, leaves every backup as it was. It ends in one of three ways:
  the databases of the selected backup, with the sizes and checksums its manifest records, are the only database files of the home; or every
  original database file is in its place; or the manager stays in recovery and every original database file is at home
  or in the safety directory. In particular \<^verbatim>\<open>restore_failed_rolled_back\<close> is only reported when the originals are back. The one
  exception is a restore that fails after a recursive \<^verbatim>\<open>rm\<close> of this very run failed with part of its directory gone: this is
  the case of \<open>partial_removal_loses_database\<close>.
\<close>

theorem restore_safe:
  assumes "env_ok env" and "ss_operation s = Idle" and "\<not> ss_recovery s" and "truthy (sq_home env)" and "restore env i s = (r, t)"
  shows "(\<forall>j. listing_of (InBackups j) t = listing_of (InBackups j) s)
    \<and> (restore_guarantee env s r t \<or> (\<exists>e. r = Inl e) \<and> torn_removal env s t)"
proof -
  note runs = agreeD [OF agree_restore assms(5)]
  have "restore_guarantee env s r t" if "is_ok r \<or> \<not> torn_removal env s t"
  proof -
    have "restore_guarantee (all_or_nothing env) s r t"
      by (rule restore_atomic [OF _ _ _ _ _ runs(2) [OF that]]) (use assms in \<open>auto simp: env_ok_def atomic_removals_def\<close>)
    then show ?thesis by (simp add: guarantee_atomic)
  qed
  with runs(1) show ?thesis by (cases r) (auto simp: progress_def is_ok_def)
qed

end
