(* ===== verification/Sqlite_Manifest.thy ===== *)
theory Sqlite_Manifest
  imports Sqlite_Storage
begin

text \<open>
  The manifest of a backup: what the parser accepts is well formed, and writing an accepted manifest and reading it
  again gives the same manifest.
\<close>

definition wf_database :: "backup_database \<Rightarrow> bool" where
  "wf_database d = (DATABASE_FILENAME (bd_filename d) \<and> safe_integer (bd_size d) \<and> 0 \<le> bd_size d
     \<and> bd_size d \<le> MAX_DATABASE_SIZE \<and> sha_text (bd_sha256 d))"

definition wf_manifest :: "(string \<Rightarrow> bool) \<Rightarrow> backup_metadata \<Rightarrow> bool" where
  "wf_manifest dateOk m = (BACKUP_ID (bm_backupId m) \<and> length (bm_createdAt m) \<le> 32 \<and> dateOk (bm_createdAt m)
     \<and> length (bm_runnerVersion m) \<le> 64 \<and> version_text (bm_codexVersion m)
     \<and> 1 \<le> length (bm_databases m) \<and> length (bm_databases m) \<le> MAX_DATABASES
     \<and> list_all wf_database (bm_databases m) \<and> distinct (map bd_filename (bm_databases m)))"

lemma parse_database_wf: "parse_database seen raw = Some d \<Longrightarrow> wf_database d \<and> bd_filename d \<notin> set seen"
  by (auto simp: parse_database_def Let_def wf_database_def split: option.split_asm if_splits)

lemma parse_databases_wf:
  "parse_databases seen raws = Some ds \<Longrightarrow>
     length ds = length raws \<and> list_all wf_database ds \<and> distinct (map bd_filename ds) \<and> (\<forall>d \<in> set ds. bd_filename d \<notin> set seen)"
  by (induction seen raws arbitrary: ds rule: parse_databases.induct)
     (fastforce dest: parse_database_wf split: option.split_asm)+

lemma parse_manifest_wf:
  assumes "parseBackupMetadata dateOk v expected = Some m"
  shows "wf_manifest dateOk m"
  using assms
  by (auto simp: parseBackupMetadata_def Let_def wf_manifest_def validTimestamp_def js_str_def
      dest!: parse_databases_wf split: option.split_asm js_value.split_asm if_splits)

lemma database_value_parses:
  assumes "wf_database d" and "bd_filename d \<notin> set seen"
  shows "parse_database seen (database_value d) = Some d"
  using assms
  by (simp add: parse_database_def database_value_def wf_database_def exactKeys_def js_num_def js_str_def
      js_get_def js_keys_def js_is_object_def js_String_opt_def list_all_iff)

lemma database_values_parse:
  assumes "list_all wf_database ds" and "distinct (map bd_filename ds)" and "\<forall>d \<in> set ds. bd_filename d \<notin> set seen"
  shows "parse_databases seen (map database_value ds) = Some ds"
  using assms
proof (induction ds arbitrary: seen)
  case (Cons d ds)
  then have "parse_databases (bd_filename d # seen) (map database_value ds) = Some ds"
    by (intro Cons.IH) (auto, metis imageI)
  with Cons.prems show ?case by (simp add: database_value_parses)
qed simp

lemma manifest_value_parses:
  assumes "wf_manifest dateOk m"
  shows "parseBackupMetadata dateOk (manifest_value m) (Some (bm_backupId m)) = Some m"
  using assms database_values_parse [of "bm_databases m" "[]"]
  by (simp add: parseBackupMetadata_def manifest_value_def wf_manifest_def exactKeys_def validTimestamp_def js_str_def
      js_get_def js_keys_def js_is_object_def js_String_opt_def list_all_iff)

text \<open>C24. A manifest the parser accepts has a valid identifier, date and versions and between 1 and 64 databases with
  distinct valid names, sizes of at most 16 GiB and SHA-256 checksums, and the manifest written for it is accepted again
  with the same contents, whatever the original document looked like.
\<close>

theorem manifest_normal_form:
  assumes "parseBackupMetadata dateOk v expected = Some m"
  shows "wf_manifest dateOk m \<and> parseBackupMetadata dateOk (manifest_value m) (Some (bm_backupId m)) = Some m"
  using parse_manifest_wf [OF assms] manifest_value_parses by blast

text \<open>A manifest with one database.\<close>

definition sample_id :: string where
  "sample_id = ''b-20260101T000000Z-0123456789ab''"

definition sample_manifest :: backup_metadata where
  "sample_manifest = \<lparr>bm_backupId = sample_id, bm_createdAt = ''2026-01-01T00:00:00.000Z'', bm_runnerVersion = ''1.0.0'',
     bm_codexVersion = ''0.1.0'', bm_databases = [\<lparr>bd_filename = ''state.sqlite'', bd_size = 3, bd_sha256 = replicate 64 (CHR ''b'')\<rparr>]\<rparr>"

theorem manifest_normal_form_witness:
  "parseBackupMetadata (\<lambda>_. True) (manifest_value sample_manifest) None = Some sample_manifest \<and> wf_manifest (\<lambda>_. True) sample_manifest"
proof -
  have "parseBackupMetadata (\<lambda>_. True) (manifest_value sample_manifest) None = Some sample_manifest" by code_simp
  with manifest_normal_form [OF this] show ?thesis by simp
qed

end
