(* ===== verification/Sqlite_Modes.thy ===== *)
theory Sqlite_Modes
  imports Sqlite_Removals Sqlite_Manifest
begin

text \<open>
  The modes of the storage manager: which operations are refused while another one runs, and that a manager that once
  requires a manual recovery refuses every backup and restore from then on. Two concrete runs show how a failing
  removal defeats a restore.
\<close>

section \<open>The mode across calls\<close>

definition same_mode :: "sq_state \<Rightarrow> sq_state \<Rightarrow> bool" where
  "same_mode s t \<longleftrightarrow> ss_recovery t = ss_recovery s \<and> ss_operation t = ss_operation s"

definition recovery_locked :: "sq_state \<Rightarrow> bool" where
  "recovery_locked s \<longleftrightarrow> (ss_recovery s \<longrightarrow> ss_operation s = Restoring)"

text \<open>What every call respects: the need for a recovery never ends, and it locks the manager.\<close>

definition locks :: "sq_state \<Rightarrow> sq_state \<Rightarrow> bool" where
  "locks s t \<longleftrightarrow> (ss_recovery s \<longrightarrow> ss_recovery t) \<and> (recovery_locked s \<longrightarrow> recovery_locked t)"

interpretation modes: preorder_history same_mode
  by unfold_locales (auto simp: same_mode_def)

interpretation lock: preorder_history locks
  by unfold_locales (auto simp: locks_def)

lemma always_locks: "always same_mode m \<Longrightarrow> always locks m"
  by (fastforce simp: always_def same_mode_def locks_def recovery_locked_def)

lemma mode_put [simp]: "ss_recovery (put_listing p l t) = ss_recovery t" "ss_operation (put_listing p l t) = ss_operation t"
  by (cases p; simp add: put_listing.simps)+

lemma mode_calls [simp]: "same_mode s (t\<lparr>ss_calls := n\<rparr>) = same_mode s t" "same_mode s s"
  by (simp_all add: same_mode_def)

lemma mode_base:
  "always same_mode (os_call env)" "always same_mode (the_listing p)" "always same_mode (file_content p n)"
  "always same_mode (rm_recursive env p n)" "always same_mode (closeAndWait env)" "always same_mode (app_ready env)"
  "always same_mode (modS (put_listing p l))" "always same_mode (modS (\<lambda>s. s\<lparr>lv_names := f s\<rparr>))"
  "always same_mode (modS (\<lambda>s. s\<lparr>lv_safety := v\<rparr>))" "always same_mode (modS (\<lambda>s. s\<lparr>lv_stage := v\<rparr>))"
  "always same_mode (modS (\<lambda>s. s\<lparr>lv_moved := b\<rparr>))" "always same_mode (modS (\<lambda>s. s\<lparr>lv_local := v\<rparr>))"
  "always same_mode (modS (\<lambda>s. s\<lparr>lv_durable := v\<rparr>))"
  "always same_mode (modS (\<lambda>s. s\<lparr>lv_durable := v, ss_lastFailure := w\<rparr>))" "always same_mode (modS (\<lambda>s. s\<lparr>ss_lastFailure := w\<rparr>))"
  "always same_mode (mkdir_recursive env p)"
proof -
  show "always same_mode (mkdir_recursive env p)"
    by (auto simp: always_def mkdir_recursive_def os_call_def eff_def Let_def same_mode_def split: option.splits)
qed (auto simp: always_def os_call_def the_listing_def file_content_eq rm_recursive_def closeAndWait_def app_ready_def
      Let_def modS_def same_mode_def split: option.splits node.splits)

lemmas mode_rules = modes.always_bnd modes.always_handle modes.always_mapE modes.always_finallyE modes.always_pure modes.always_getS mode_base

lemma mode_files:
  "always same_mode (readFile env p n)" "always same_mode (readdir env p)" "always same_mode (make_directory p n)"
  "always same_mode (mkdir_new env p n)" "always same_mode (mkdtemp env n)" "always same_mode (writeFile env p n c)"
  "always same_mode (writeFile_new env p n c)" "always same_mode (copyFile_excl env p q n)" "always same_mode (rm_force env p n)"
proof -
  show "always same_mode (make_directory p n)" for p n unfolding make_directory_def by (intro mode_rules)
  then show "always same_mode (mkdir_new env p n)" "always same_mode (mkdtemp env n)"
    unfolding mkdir_new_def mkdtemp_def Let_def by (intro mode_rules; blast)+
qed (unfold readFile_def readdir_def writeFile_def writeFile_new_def copyFile_excl_def rm_force_def, (intro mode_rules)+)

lemma mode_rename: "always same_mode (rename env p n q m)"
  unfolding rename_def by (auto intro!: mode_rules split: option.split)

section \<open>Every operation respects the lock\<close>

lemmas lock_rules = lock.always_bnd lock.always_handle lock.always_mapE lock.always_finallyE lock.always_pure lock.always_getS

lemma mode_reads:
  "always same_mode (checksum env p n)" "always same_mode (file_size env p n)" "always same_mode (read_json env p n)"
  "always same_mode (safeBackupDirectory env i)" "always same_mode (usable env p o1)" "always same_mode (list_backups env)"
  "always same_mode (databases env p)" "always same_mode (mounts env)"
proof -
  show "always same_mode (checksum env p n)" "always same_mode (file_size env p n)"
    unfolding checksum_def file_size_def by (intro mode_rules mode_files)+
  show json: "always same_mode (read_json env p n)" for p n
    unfolding read_json_def by (intro mode_rules mode_files) (auto split: content.split)
  show dir: "always same_mode (safeBackupDirectory env i)" for i
    unfolding safeBackupDirectory_def by (intro mode_rules)
  have "always same_mode (list_entry env e)" for e
    unfolding list_entry_def by (auto intro!: mode_rules json dir split: option.split)
  then show "always same_mode (list_backups env)"
    unfolding list_backups_def by (intro mode_rules mode_files)
qed (unfold usable_def databases_def mounts_def, (intro mode_rules mode_files)+)

lemma mode_backup: "always same_mode (backup_body env)"
proof -
  have "always same_mode (prune env)"
    unfolding prune_def by (intro mode_rules mode_reads)
  moreover have "always same_mode (sqliteBackup env dir n)" for dir n
    unfolding sqliteBackup_def by (auto intro!: mode_rules mode_files split: option.split)
  moreover have "always same_mode (record_database env dir n)" "always same_mode (store_database env dir e d)" for dir n e d
    unfolding record_database_def store_database_def by (intro mode_rules mode_files mode_reads)+
  ultimately show ?thesis
    unfolding backup_body_def Let_def
    by (intro mode_rules mode_files mode_reads mode_rename) (auto split: option.split)
qed

lemma lock_mark: "always locks (mark_recovery env d)"
proof -
  have "always locks (modS (\<lambda>s. s\<lparr>ss_recovery := True, ss_operation := Restoring\<rparr>))"
    by (auto simp: always_def modS_def locks_def recovery_locked_def)
  then show ?thesis
    unfolding mark_recovery_def quietly_def by (intro lock_rules always_locks [OF mode_files(6)])
qed

lemma mode_source: "always same_mode (restore_source env i)" "always same_mode (verify_database env dir x)"
proof -
  have "always same_mode (if i = ''latest'' then bnd (list_backups env) (\<lambda>bs. ret (case bs of [] \<Rightarrow> [] | b # _ \<Rightarrow> bm_backupId b)) else ret i)"
    by (auto intro!: mode_rules mode_reads)
  then show "always same_mode (restore_source env i)"
    unfolding restore_source_def by (intro mode_rules mode_reads) (auto split: option.split)
qed (unfold verify_database_def, intro mode_rules mode_reads)

lemma lock_body: "always locks (restore_body env i)" "always locks (rollback env e)"
proof -
  have guarded: "always locks (guarded_rollback env d m)" if "always same_mode m" for d and m :: "'x sq_eff"
    unfolding guarded_rollback_def by (auto intro!: lock_rules lock_mark always_locks [OF that])
  have "always same_mode (move_back env d)" for d
    unfolding move_back_def by (intro mode_rules mode_rename)
  moreover have "always same_mode (move_out env d n)" for d n
    unfolding move_out_def by (intro mode_rules mode_rename)
  ultimately have aside: "always locks (set_aside env d)" for d
    unfolding set_aside_def by (intro lock_rules guarded always_locks [OF mode_files(2)] always_locks [OF mode_base(8)] always_locks [OF mode_base(11)] always_locks)
  have inst: "always locks (install env st d m)" for st d m
    unfolding install_def by (intro always_locks mode_rules mode_rename)
  show "always locks (restore_body env i)"
    unfolding restore_body_def split_beta
    by (intro lock_rules aside inst always_locks [OF mode_source(1)] always_locks [OF mode_source(2)] always_locks [OF mode_files(5)]
        always_locks [OF mode_files(8)] always_locks [OF mode_base(5)] always_locks [OF mode_base(9)] always_locks [OF mode_base(10)])
  have "always same_mode (clear_home env)"
    unfolding clear_home_def by (intro mode_rules mode_files)
  then have "always same_mode (copy_back env d)" for d
    unfolding copy_back_def by (intro mode_rules mode_files)
  then show "always locks (rollback env e)"
    unfolding rollback_def
    by (auto intro!: lock_rules guarded lock_mark always_locks [OF mode_base(5)] split: option.split)
qed

lemma lock_restore: "always locks (restore env i)"
proof -
  have "always same_mode (remove_if env p v)" for p v
    unfolding remove_if_def by (auto intro!: mode_rules split: option.split)
  note remove = always_locks [OF this]
  have "always locks (restore_cleanup env)"
    unfolding restore_cleanup_def split_beta
    by (auto intro!: lock_rules remove lock.always_modS simp: locks_def recovery_locked_def)
  moreover have "always locks (modS (\<lambda>s. s\<lparr>ss_operation := Restoring, lv_stage := None, lv_safety := None, lv_moved := False\<rparr>))"
    by (auto intro!: lock.always_modS simp: locks_def recovery_locked_def)
  ultimately show ?thesis
    unfolding restore_def by (intro lock_rules lock_body)
qed

lemma lock_initialize: "always locks (initialize env)"
proof -
  have mark: "always locks (modS (\<lambda>s. s\<lparr>ss_recovery := True, ss_operation := Restoring\<rparr>))"
    by (auto intro!: lock.always_modS simp: locks_def recovery_locked_def)
  have entry: "always locks (needs_recovery env e)" for e
    unfolding needs_recovery_def by (auto intro!: lock_rules mark always_locks [OF mode_reads(5)])
  have "always same_mode (promote env st n)" for st n
    unfolding promote_def by (intro mode_rules mode_rename)
  moreover have "always same_mode (stage_legacy env st n)" for st n
    unfolding stage_legacy_def by (auto intro!: mode_rules mode_reads mode_files)
  moreover have "always same_mode (undo_promotion env)"
    unfolding undo_promotion_def quietly_def by (intro mode_rules mode_files)
  ultimately have "always same_mode (bootstrapLegacySqlite env)"
    unfolding bootstrapLegacySqlite_def bootstrap_copy_def by (auto intro!: mode_rules mode_reads mode_files)
  note boot = always_locks [OF this]
  show ?thesis
    unfolding initialize_def
    by (auto intro!: lock_rules entry always_locks [OF mode_files(2)] always_locks [OF mode_reads(8)] always_locks [OF mode_base(16)] boot
        split: option.split)
qed

text \<open>A backup never asks for a recovery; it frees the manager only because it ran when none was needed.\<close>

definition same_recovery :: "sq_state \<Rightarrow> sq_state \<Rightarrow> bool" where
  "same_recovery s t \<longleftrightarrow> ss_recovery t = ss_recovery s"

interpretation need: preorder_history same_recovery
  by unfold_locales (auto simp: same_recovery_def)

lemma lock_backup: "always locks (createBackup env)"
proof -
  have mode: "always same_mode m \<Longrightarrow> always same_recovery m" for m :: "'x sq_eff"
    by (fastforce simp: always_def same_mode_def same_recovery_def)
  have "always same_mode (remove_if env p v)" for p v
    unfolding remove_if_def by (auto intro!: mode_rules split: option.split)
  note remove = mode [OF this]
  have "always same_recovery (createBackup env)"
    unfolding createBackup_def backup_cleanup_def
    by (intro need.always_bnd need.always_finallyE need.always_handle need.always_pure need.always_getS mode [OF mode_backup] remove)
       (auto intro!: need.always_modS simp: same_recovery_def)
  moreover have "createBackup env s = (r, t) \<Longrightarrow> ss_operation s = Idle \<or> t = s" for s r t
    by (auto simp: createBackup_def bnd_def getS_def guardE_def split: if_splits)
  ultimately show ?thesis
    unfolding always_def same_recovery_def locks_def recovery_locked_def
    by (metis storage_operation.distinct(3))
qed

section \<open>Histories of the manager\<close>

datatype storage_request = Initialize | CreateBackup | Restore string | Status | ListBackups

definition perform :: "sq_env \<Rightarrow> storage_request \<Rightarrow> sq_state \<Rightarrow> sq_state" where
  "perform env q s = (case q of
      Initialize \<Rightarrow> snd (initialize env s) | CreateBackup \<Rightarrow> snd (createBackup env s) | Restore i \<Rightarrow> snd (restore env i s)
    | Status \<Rightarrow> snd (status env s) | ListBackups \<Rightarrow> snd (list_backups env s))"

inductive history :: "sq_env \<Rightarrow> sq_state \<Rightarrow> sq_state \<Rightarrow> bool" for env where
  start: "history env s s"
| request: "history env s t \<Longrightarrow> history env s (perform env q t)"

lemma mode_status: "always same_mode (status env)"
  unfolding status_def Let_def by (intro mode_rules mode_reads)

lemma always_snd: "always R m \<Longrightarrow> R s (snd (m s))"
  by (cases "m s") (auto simp: always_def)

lemma perform_locks: "locks s (perform env q s)"
  by (cases q) (simp_all add: perform_def always_snd lock_initialize lock_backup lock_restore always_locks mode_status mode_reads(6))

lemma history_locks: "history env s t \<Longrightarrow> locks s t"
proof (induction rule: history.induct)
  case (request s t q)
  then show ?case using perform_locks [of t env q] by (auto simp: locks_def)
qed (simp add: locks_def)

text \<open>C23. Once a restore or the start-up check has found that a manual recovery is needed, no later sequence of requests
  ends that state, and every backup or restore is refused without touching anything.
\<close>

theorem recovery_is_final:
  assumes "history env s t" and "recovery_locked s" and "ss_recovery s" and "truthy (sq_home env)"
  shows "ss_recovery t \<and> createBackup env t = (Inl (SafeError ''runner_busy'' 409), t)
    \<and> restore env i t = (Inl (SafeError ''runner_busy'' 409), t)"
proof -
  have "ss_recovery t" "ss_operation t = Restoring"
    using history_locks [OF assms(1)] assms(2,3) by (auto simp: locks_def recovery_locked_def)
  with assms(4) show ?thesis
    by (simp add: createBackup_def restore_def bnd_def getS_def guardE_def)
qed

section \<open>Concrete runs\<close>

text \<open>An installation with two databases and one backup; the calls that fail, and what a failing removal removes, vary.\<close>

definition sample_env :: "(nat \<Rightarrow> bool) \<Rightarrow> nat \<Rightarrow> sq_env" where
  "sample_env bad removed = \<lparr>sq_home = Some ''/data/sqlite'', sq_codexHome = ''/data/codex'', sq_retention = 7,
     sq_runnerVersion = ''1.0.0'', sq_codexVersion = ''0.1.0'', sq_mountinfo = None,
     sq_sha = (\<lambda>c. replicate 64 (if c = Text ''new'' then CHR ''b'' else CHR ''a'')), sq_size = (\<lambda>c. case c of Text x \<Rightarrow> length x | _ \<Rightarrow> 0),
     sq_sqlite3 = Some, sq_suffix = (\<lambda>_. ''AbCdEf''), sq_now = (\<lambda>_. 0), sq_random = (\<lambda>_. [1, 2, 3, 4, 5, 6]), sq_available = (\<lambda>_. 1000),
     sq_dateOk = (\<lambda>_. True), sq_locale = (\<lambda>a b. string_order a b), sq_close = (\<lambda>_. True), sq_ready = (\<lambda>_. Some True),
     sq_fails = bad, sq_removed = (\<lambda>_. removed)\<rparr>"

definition sample_state :: sq_state where
  "sample_state = \<lparr>ss_home = Some [(''logs.db'', File (Text ''kept'')), (''state.sqlite'', File (Text ''old''))], ss_codex = Some [],
     ss_backups = Some [(sample_id, Directory [(''state.sqlite'', File (Text ''new'')), (MANIFEST, File (Document (manifest_value sample_manifest)))])],
     ss_operation = Idle, ss_lastFailure = None, ss_recovery = False, ss_calls = 0, lv_local = None, lv_durable = None,
     lv_stage = None, lv_safety = None, lv_moved = False, lv_names = []\<rparr>"

lemma sample_env_ok: "env_ok (sample_env bad removed)"
  by (simp add: env_ok_def sample_env_def alnum_def lower_alpha_def upper_alpha_def digit_def code_def)

theorem restore_safe_witness:
  "(let e = sample_env (\<lambda>_. False) 0; (r, t) = restore e sample_id sample_state
    in r = Inr sample_id \<and> restore_guarantee e sample_state r t)
   \<and> (let e = sample_env (\<lambda>n. n = 13) 0; (r, t) = restore e sample_id sample_state
    in r = Inl rolled_back \<and> restore_guarantee e sample_state r t)"
proof -
  have guarantee: "restore_guarantee e sample_state (fst (restore e sample_id sample_state)) (snd (restore e sample_id sample_state))"
    if "e = sample_env bad 0" for e bad
  proof -
    have "\<not> torn_removal e sample_state (snd (restore e sample_id sample_state))"
      by (simp add: torn_removal_def that sample_env_def)
    moreover have "truthy (sq_home e)" "env_ok e" by (simp add: that sample_env_def) (simp add: that sample_env_ok)
    moreover have "ss_operation sample_state = Idle" "\<not> ss_recovery sample_state" by (simp_all add: sample_state_def)
    ultimately show ?thesis using restore_safe [of e sample_state sample_id] by (metis prod.collapse)
  qed
  have "fst (restore (sample_env (\<lambda>_. False) 0) sample_id sample_state) = Inr sample_id"
    "fst (restore (sample_env (\<lambda>n. n = 13) 0) sample_id sample_state) = Inl rolled_back"
    by code_simp+
  with guarantee [OF refl] show ?thesis unfolding Let_def split_beta by blast
qed

theorem recovery_is_final_witness:
  "let e = sample_env (\<lambda>_. False) 0; s = sample_state\<lparr>ss_recovery := True, ss_operation := Restoring\<rparr>; t = perform e Initialize (perform e Status s)
   in ss_recovery t \<and> createBackup e t = (Inl (SafeError ''runner_busy'' 409), t)
      \<and> restore e sample_id t = (Inl (SafeError ''runner_busy'' 409), t)"
  unfolding Let_def
  by (rule recovery_is_final [OF history.request [OF history.request [OF history.start]]])
     (simp_all add: recovery_locked_def sample_env_def)

text \<open>The removal of the safety copy is inside the \<^verbatim>\<open>try\<close> block: when it fails half-way, the databases are restored from
  what is left of it. The new databases are cleared, a database of the original set is lost, and the error reported is
  \<^verbatim>\<open>restore_failed_rolled_back\<close>.
\<close>

theorem partial_removal_loses_database:
  "let (r, t) = restore (sample_env (\<lambda>n. n = 15) 1) sample_id sample_state
   in r = Inl rolled_back \<and> ss_operation t = Idle \<and> hm sample_state ''logs.db'' = Some (File (Text ''kept'')) \<and> hm t ''logs.db'' = None"
  by code_simp

text \<open>The \<^verbatim>\<open>finally\<close> block removes the staging directory before it frees the manager: when that removal fails after a
  restore that succeeded, the caller sees an error and every later operation is refused as busy, although no recovery is
  needed.
\<close>

theorem failed_cleanup_stays_busy:
  "let e = sample_env (\<lambda>n. n = 16) 0; (r, t) = restore e sample_id sample_state
   in r = Inl IoError \<and> \<not> ss_recovery t \<and> hm t ''state.sqlite'' = Some (File (Text ''new''))
      \<and> fst (createBackup e t) = Inl (SafeError ''runner_busy'' 409)"
  by code_simp

end
