(* ===== verification/Credential_Vault.thy ===== *)
theory Credential_Vault
  imports Github_Writes Effect_Logic
begin

text \<open>
  The provider credential vault: the encryption envelope of \<^verbatim>\<open>lib/provider-credential-vault-crypto.ts\<close> and the store
  of \<^verbatim>\<open>lib/provider-credential-vault.ts\<close> with its MCP server and security profile bindings.

  The three tables are the state. A statement either takes effect as a whole or violates a constraint of the schema
  (\<^verbatim>\<open>migrations/0009\<close>, \<^verbatim>\<open>0019\<close>, \<^verbatim>\<open>0020\<close>, \<^verbatim>\<open>0021\<close>); every statement is numbered, and the environment says which ones fail and
  whether a failing one had taken effect before its reply was lost. AES-GCM, the UTF-8 decoder, the URL parser, random
  values and the clock are parameters.
\<close>

section \<open>Definitions\<close>

subsection \<open>The envelope\<close>

definition PROVIDER_CREDENTIAL_VAULT_ENCRYPTION_VERSION :: int where
  "PROVIDER_CREDENTIAL_VAULT_ENCRYPTION_VERSION = 1"

definition PROVIDER_CREDENTIAL_VAULT_MASTER_KEY_VERSION :: int where
  "PROVIDER_CREDENTIAL_VAULT_MASTER_KEY_VERSION = 1"

definition MAX_PROVIDER_CREDENTIAL_LENGTH :: nat where
  "MAX_PROVIDER_CREDENTIAL_LENGTH = 8192"

record vault_envelope =
  ve_ciphertext :: string
  ve_iv :: string
  ve_encryptionVersion :: int
  ve_masterKeyVersion :: int

datatype vault_crypto_code =
    CredentialEmpty | CredentialTooLarge | EncryptionVersionUnsupported | MasterKeyUnavailable
  | MasterKeyInvalid | EncryptionFailed | DecryptionFailed

datatype vault_service_code = SecretIdInvalid | SecretExists | SecretUnavailable | PersistenceFailed

text \<open>The two error classes of the vault, and a rejected database call.\<close>

datatype vault_error = CryptoError vault_crypto_code | ServiceError vault_service_code | DatabaseFailure

record parsed_url =
  pu_protocol :: string
  pu_username :: string
  pu_password :: string
  pu_hostname :: string
  pu_port :: string
  pu_pathname :: string
  pu_search :: string
  pu_hash :: string

record vault_env =
  vx_key :: "int \<Rightarrow> string option"
  vx_keyVersion :: int
  vx_encrypt :: "nat list \<Rightarrow> nat list \<Rightarrow> nat list \<Rightarrow> nat list \<Rightarrow> nat list option"
  vx_decrypt :: "nat list \<Rightarrow> nat list \<Rightarrow> nat list \<Rightarrow> nat list \<Rightarrow> nat list option"
  vx_text :: "nat list \<Rightarrow> string"
  vx_url :: "string \<Rightarrow> parsed_url option"
  vx_iv :: "nat \<Rightarrow> nat list"
  vx_secretId :: "nat \<Rightarrow> string"
  vx_bindingBytes :: "nat \<Rightarrow> nat list"
  vx_mcpId :: "nat \<Rightarrow> string"
  vx_now :: "nat \<Rightarrow> string"
  vx_fails :: "nat \<Rightarrow> bool"
  vx_lost :: "nat \<Rightarrow> bool"

definition validateCredential :: "string \<Rightarrow> vault_error + unit" where
  "validateCredential secret =
     (if secret = [] then Inl (CryptoError CredentialEmpty)
      else if MAX_PROVIDER_CREDENTIAL_LENGTH < length secret then Inl (CryptoError CredentialTooLarge)
      else Inr ())"

definition decodeMasterKey :: "string option \<Rightarrow> vault_error + nat list" where
  "decodeMasterKey value =
     (case value of
        None \<Rightarrow> Inl (CryptoError MasterKeyUnavailable)
      | Some v \<Rightarrow>
          let bytes = buffer_from_base64 v
          in if length bytes \<noteq> 32 \<or> btoa bytes \<noteq> v then Inl (CryptoError MasterKeyInvalid) else Inr bytes)"

definition decodeBase64 :: "string \<Rightarrow> nat list option" where
  "decodeBase64 value = (let bytes = buffer_from_base64 value in if btoa bytes \<noteq> value then None else Some bytes)"

definition aad :: "string \<Rightarrow> int \<Rightarrow> int \<Rightarrow> nat list" where
  "aad secretId encryptionVersion masterKeyVersion =
     ascii_bytes (''adt-provider-credential-vault:encryption-v'' @ show_int encryptionVersion
       @ '':master-key-v'' @ show_int masterKeyVersion @ '':secret:'' @ secretId)"

definition providerCredentialVaultV1KeyResolver :: "string option \<Rightarrow> int \<Rightarrow> string option" where
  "providerCredentialVaultV1KeyResolver rootKey version =
     (if version = PROVIDER_CREDENTIAL_VAULT_MASTER_KEY_VERSION then rootKey else None)"

text \<open>The random initialisation vector is an argument.\<close>

definition encryptVaultCredential ::
  "vault_env \<Rightarrow> nat list \<Rightarrow> string \<Rightarrow> string \<Rightarrow> int \<Rightarrow> vault_error + vault_envelope" where
  "encryptVaultCredential env iv secret secretId masterKeyVersion =
     bindR (validateCredential secret) (\<lambda>_.
     bindR (decodeMasterKey (vx_key env masterKeyVersion)) (\<lambda>key.
       case vx_encrypt env key iv (aad secretId PROVIDER_CREDENTIAL_VAULT_ENCRYPTION_VERSION masterKeyVersion)
              (ascii_bytes secret) of
         None \<Rightarrow> Inl (CryptoError EncryptionFailed)
       | Some ciphertext \<Rightarrow>
           Inr \<lparr>ve_ciphertext = btoa ciphertext, ve_iv = btoa iv,
                ve_encryptionVersion = PROVIDER_CREDENTIAL_VAULT_ENCRYPTION_VERSION,
                ve_masterKeyVersion = masterKeyVersion\<rparr>))"

definition decryptVaultCredential :: "vault_env \<Rightarrow> vault_envelope \<Rightarrow> string \<Rightarrow> vault_error + string" where
  "decryptVaultCredential env envelope secretId =
     (if ve_encryptionVersion envelope \<noteq> PROVIDER_CREDENTIAL_VAULT_ENCRYPTION_VERSION
      then Inl (CryptoError EncryptionVersionUnsupported)
      else bindR (decodeMasterKey (vx_key env (ve_masterKeyVersion envelope))) (\<lambda>key.
        case (decodeBase64 (ve_iv envelope), decodeBase64 (ve_ciphertext envelope)) of
          (Some iv, Some ciphertext) \<Rightarrow>
            if length iv \<noteq> 12 then Inl (CryptoError DecryptionFailed)
            else (case vx_decrypt env key iv
                         (aad secretId (ve_encryptionVersion envelope) (ve_masterKeyVersion envelope)) ciphertext of
                    None \<Rightarrow> Inl (CryptoError DecryptionFailed)
                  | Some cleartext \<Rightarrow> Inr (vx_text env cleartext))
        | _ \<Rightarrow> Inl (CryptoError DecryptionFailed)))"

subsection \<open>The tables\<close>

record vault_row =
  vr_encrypted_credential :: string
  vr_credential_iv :: string
  vr_encryption_version :: int
  vr_master_key_version :: int
  vr_created_at :: string
  vr_updated_at :: string
  vr_revision :: int

record binding_row =
  br_repository :: int
  br_owner :: string
  br_binding :: string
  br_target :: string
  br_secret :: string
  br_updated :: string

record vault_state =
  vs_rows :: "string \<rightharpoonup> vault_row"
  vs_mcp :: "binding_row list"
  vs_security :: "binding_row list"
  vs_calls :: nat

type_synonym 'a vault_eff = "(vault_state, vault_error, 'a) eff"

text \<open>The primary key, the unique key and the foreign key of a table of bindings.\<close>

definition bindings_ok :: "(string \<rightharpoonup> vault_row) \<Rightarrow> binding_row list \<Rightarrow> bool" where
  "bindings_ok rows bs =
     (distinct (map (\<lambda>b. (br_repository b, br_binding b)) bs) \<and> distinct (map (\<lambda>b. (br_repository b, br_owner b)) bs)
      \<and> list_all (\<lambda>b. rows (br_secret b) \<noteq> None) bs)"

text \<open>A statement gives the new tables and the number of changed rows, or nothing if it violates a constraint.\<close>

type_synonym statement = "vault_state \<Rightarrow> (vault_state \<times> nat) option"

definition db_run :: "vault_env \<Rightarrow> statement \<Rightarrow> nat vault_eff" where
  "db_run env st s =
     (let n = vs_calls s; s' = s\<lparr>vs_calls := n + 1\<rparr>
      in case st s' of
           None \<Rightarrow> (Inl DatabaseFailure, s')
         | Some (t, k) \<Rightarrow>
             if vx_fails env n then (Inl DatabaseFailure, if vx_lost env n then t else s') else (Inr k, t))"

definition db_first :: "vault_env \<Rightarrow> (vault_state \<Rightarrow> 'a) \<Rightarrow> 'a vault_eff" where
  "db_first env f s =
     (let n = vs_calls s; s' = s\<lparr>vs_calls := n + 1\<rparr>
      in if vx_fails env n then (Inl DatabaseFailure, s') else (Inr (f s'), s'))"

definition insert_row :: "string \<Rightarrow> vault_row \<Rightarrow> statement" where
  "insert_row i r s = (if vs_rows s i \<noteq> None then None else Some (s\<lparr>vs_rows := (vs_rows s)(i \<mapsto> r)\<rparr>, 1))"

definition update_row :: "string \<Rightarrow> (vault_row \<Rightarrow> bool) \<Rightarrow> (vault_row \<Rightarrow> vault_row) \<Rightarrow> statement" where
  "update_row i p f s =
     (case vs_rows s i of
        None \<Rightarrow> Some (s, 0)
      | Some r \<Rightarrow> if p r then Some (s\<lparr>vs_rows := (vs_rows s)(i \<mapsto> f r)\<rparr>, 1) else Some (s, 0))"

text \<open>Deleting a secret deletes the bindings that refer to it (\<^verbatim>\<open>ON DELETE CASCADE\<close>).\<close>

definition delete_row :: "string \<Rightarrow> statement" where
  "delete_row i s =
     Some (s\<lparr>vs_rows := (vs_rows s)(i := None), vs_mcp := filter (\<lambda>b. br_secret b \<noteq> i) (vs_mcp s),
             vs_security := filter (\<lambda>b. br_secret b \<noteq> i) (vs_security s)\<rparr>,
           if vs_rows s i = None then 0 else 1)"

definition put_mcp :: "binding_row list \<Rightarrow> nat \<Rightarrow> statement" where
  "put_mcp bs k s = (if bindings_ok (vs_rows s) bs then Some (s\<lparr>vs_mcp := bs\<rparr>, k) else None)"

definition put_security :: "binding_row list \<Rightarrow> nat \<Rightarrow> statement" where
  "put_security bs k s = (if bindings_ok (vs_rows s) bs then Some (s\<lparr>vs_security := bs\<rparr>, k) else None)"

definition update_where :: "(binding_row \<Rightarrow> bool) \<Rightarrow> (binding_row \<Rightarrow> binding_row) \<Rightarrow> binding_row list \<Rightarrow> binding_row list" where
  "update_where p f bs = map (\<lambda>b. if p b then f b else b) bs"

definition count_where :: "(binding_row \<Rightarrow> bool) \<Rightarrow> binding_row list \<Rightarrow> nat" where
  "count_where p bs = length (filter p bs)"

subsection \<open>Secrets\<close>

definition SECRET_ID_PATTERN :: "string \<Rightarrow> bool" where
  "SECRET_ID_PATTERN s = (prefix ''sec_'' s \<and> all_chars b64url_char 43 43 (drop 4 s))"

definition MCP_BINDING_ID_PATTERN :: "string \<Rightarrow> bool" where
  "MCP_BINDING_ID_PATTERN s = (prefix ''mcpb_'' s \<and> all_chars b64url_char 43 43 (drop 5 s))"

definition SECURITY_BINDING_ID_PATTERN :: "string \<Rightarrow> bool" where
  "SECURITY_BINDING_ID_PATTERN s = (prefix ''spb_'' s \<and> all_chars b64url_char 43 43 (drop 4 s))"

definition isProviderCredentialVaultSecretId :: "string \<Rightarrow> bool" where
  "isProviderCredentialVaultSecretId value = SECRET_ID_PATTERN value"

definition generateProviderCredentialVaultSecretId :: "nat list \<Rightarrow> string" where
  "generateProviderCredentialVaultSecretId random = ''sec_'' @ base64Url random"

definition assertSecretId :: "string \<Rightarrow> unit vault_eff" where
  "assertSecretId secretId = guardE (isProviderCredentialVaultSecretId secretId) (ServiceError SecretIdInvalid)"

text \<open>A generated value: the counter advances, so that each one has a number of its own.\<close>

definition generate :: "(nat \<Rightarrow> 'a) \<Rightarrow> 'a vault_eff" where
  "generate f s = (Inr (f (vs_calls s)), s\<lparr>vs_calls := vs_calls s + 1\<rparr>)"

definition row :: "vault_env \<Rightarrow> string \<Rightarrow> vault_row option vault_eff" where
  "row env secretId = db_first env (\<lambda>s. vs_rows s secretId)"

definition new_vault_row :: "vault_envelope \<Rightarrow> string \<Rightarrow> vault_row" where
  "new_vault_row encrypted now =
     \<lparr>vr_encrypted_credential = ve_ciphertext encrypted, vr_credential_iv = ve_iv encrypted,
      vr_encryption_version = ve_encryptionVersion encrypted, vr_master_key_version = ve_masterKeyVersion encrypted,
      vr_created_at = now, vr_updated_at = now, vr_revision = 1\<rparr>"

definition replaced_row :: "vault_envelope \<Rightarrow> string \<Rightarrow> vault_row \<Rightarrow> vault_row" where
  "replaced_row encrypted now r =
     r\<lparr>vr_encrypted_credential := ve_ciphertext encrypted, vr_credential_iv := ve_iv encrypted,
       vr_encryption_version := ve_encryptionVersion encrypted, vr_master_key_version := ve_masterKeyVersion encrypted,
       vr_updated_at := now\<rparr>"

definition row_envelope :: "vault_row \<Rightarrow> vault_envelope" where
  "row_envelope r =
     \<lparr>ve_ciphertext = vr_encrypted_credential r, ve_iv = vr_credential_iv r,
      ve_encryptionVersion = vr_encryption_version r, ve_masterKeyVersion = vr_master_key_version r\<rparr>"

definition encrypted_for :: "vault_env \<Rightarrow> string \<Rightarrow> string \<Rightarrow> vault_envelope vault_eff" where
  "encrypted_for env secret secretId =
     bnd (generate (vx_iv env)) (\<lambda>iv. ofSum (encryptVaultCredential env iv secret secretId (vx_keyVersion env)))"

definition insert_secret :: "vault_env \<Rightarrow> string \<Rightarrow> string \<Rightarrow> unit vault_eff" where
  "insert_secret env secretId secret =
     bnd (encrypted_for env secret secretId) (\<lambda>encrypted.
     bnd (generate (vx_now env)) (\<lambda>now.
     handle (bnd (db_run env (insert_row secretId (new_vault_row encrypted now))) (\<lambda>_. ret ())) (\<lambda>_.
       bnd (row env secretId) (\<lambda>existing.
       throw (ServiceError (if existing \<noteq> None then SecretExists else PersistenceFailed))))))"

definition create :: "vault_env \<Rightarrow> string \<Rightarrow> string vault_eff" where
  "create env secret =
     bnd (generate (vx_secretId env)) (\<lambda>secretId.
     bnd (assertSecretId secretId) (\<lambda>_.
     bnd (insert_secret env secretId secret) (\<lambda>_.
     ret secretId)))"

definition resolve :: "vault_env \<Rightarrow> string \<Rightarrow> string vault_eff" where
  "resolve env secretId =
     bnd (assertSecretId secretId) (\<lambda>_.
     bnd (row env secretId) (\<lambda>r.
       case r of
         None \<Rightarrow> throw (ServiceError SecretUnavailable)
       | Some x \<Rightarrow> ofSum (decryptVaultCredential env (row_envelope x) secretId)))"

definition resolveWithRevision :: "vault_env \<Rightarrow> string \<Rightarrow> (string \<times> int) vault_eff" where
  "resolveWithRevision env secretId =
     bnd (assertSecretId secretId) (\<lambda>_.
     bnd (row env secretId) (\<lambda>r.
       case r of
         None \<Rightarrow> throw (ServiceError SecretUnavailable)
       | Some x \<Rightarrow> bnd (ofSum (decryptVaultCredential env (row_envelope x) secretId)) (\<lambda>value. ret (value, vr_revision x))))"

definition replaceIfRevision :: "vault_env \<Rightarrow> string \<Rightarrow> int \<Rightarrow> string \<Rightarrow> bool vault_eff" where
  "replaceIfRevision env secretId expectedRevision secret =
     bnd (assertSecretId secretId) (\<lambda>_.
     bnd (guardE (safe_integer expectedRevision \<and> 1 \<le> expectedRevision) (ServiceError PersistenceFailed)) (\<lambda>_.
     bnd (encrypted_for env secret secretId) (\<lambda>encrypted.
     bnd (generate (vx_now env)) (\<lambda>now.
     bnd (db_run env (update_row secretId (\<lambda>r. vr_revision r = expectedRevision)
            (\<lambda>r. (replaced_row encrypted now r)\<lparr>vr_revision := vr_revision r + 1\<rparr>))) (\<lambda>k.
     ret (k = 1))))))"

definition replace :: "vault_env \<Rightarrow> string \<Rightarrow> string \<Rightarrow> unit vault_eff" where
  "replace env secretId secret =
     bnd (assertSecretId secretId) (\<lambda>_.
     bnd (encrypted_for env secret secretId) (\<lambda>encrypted.
     bnd (generate (vx_now env)) (\<lambda>now.
     bnd (db_run env (update_row secretId (\<lambda>_. True) (replaced_row encrypted now))) (\<lambda>k.
     guardE (k = 1) (ServiceError SecretUnavailable)))))"

definition delete :: "vault_env \<Rightarrow> string \<Rightarrow> unit vault_eff" where
  "delete env secretId =
     bnd (assertSecretId secretId) (\<lambda>_. bnd (db_run env (delete_row secretId)) (\<lambda>_. ret ()))"

definition recover :: "vault_env \<Rightarrow> string \<Rightarrow> string \<Rightarrow> unit vault_eff" where
  "recover env secretId secret = bnd (assertSecretId secretId) (\<lambda>_. insert_secret env secretId secret)"

subsection \<open>MCP server bindings\<close>

definition identity_ok :: "(string \<Rightarrow> bool) \<Rightarrow> int \<Rightarrow> string \<Rightarrow> string option \<Rightarrow> bool" where
  "identity_ok pattern repositoryId owner bindingId =
     (safe_integer repositoryId \<and> 1 \<le> repositoryId \<and> slug_pattern owner
      \<and> (case bindingId of None \<Rightarrow> True | Some b \<Rightarrow> b = [] \<or> pattern b))"

definition assertMcpIdentity :: "int \<Rightarrow> string \<Rightarrow> string option \<Rightarrow> unit vault_eff" where
  "assertMcpIdentity repositoryId serverId bindingId =
     guardE (identity_ok MCP_BINDING_ID_PATTERN repositoryId serverId bindingId) (ServiceError PersistenceFailed)"

text \<open>The serializer of a URL with a host (\<^verbatim>\<open>href\<close>).\<close>

definition url_href :: "parsed_url \<Rightarrow> string" where
  "url_href u =
     pu_protocol u @ ''//''
     @ (if pu_username u = [] \<and> pu_password u = [] then []
        else pu_username u @ (if pu_password u = [] then [] else '':'' @ pu_password u) @ ''@'')
     @ pu_hostname u @ (if pu_port u = [] then [] else '':'' @ pu_port u) @ pu_pathname u @ pu_search u @ pu_hash u"

definition mcpTrustTarget :: "vault_env \<Rightarrow> string \<Rightarrow> string vault_eff" where
  "mcpTrustTarget env endpoint =
     (case vx_url env endpoint of
        None \<Rightarrow> throw (ServiceError PersistenceFailed)
      | Some u \<Rightarrow> if pu_protocol u \<noteq> ''https:'' then throw (ServiceError PersistenceFailed) else ret (url_href u))"

definition owned :: "int \<Rightarrow> string \<Rightarrow> binding_row \<Rightarrow> bool" where
  "owned repositoryId owner b = (br_repository b = repositoryId \<and> br_owner b = owner)"

definition mcpBinding :: "vault_env \<Rightarrow> int \<Rightarrow> string \<Rightarrow> binding_row option vault_eff" where
  "mcpBinding env repositoryId serverId = db_first env (\<lambda>s. find (owned repositoryId serverId) (vs_mcp s))"

definition mcp_insert :: "vault_env \<Rightarrow> binding_row \<Rightarrow> unit vault_eff" where
  "mcp_insert env b =
     bnd (generate (vx_now env)) (\<lambda>now.
     bnd (db_run env (\<lambda>s. put_mcp (vs_mcp s @ [b\<lparr>br_updated := now\<rparr>]) 1 s)) (\<lambda>_. ret ()))"

definition mcp_update :: "vault_env \<Rightarrow> (binding_row \<Rightarrow> bool) \<Rightarrow> (binding_row \<Rightarrow> binding_row) \<Rightarrow> nat vault_eff" where
  "mcp_update env p f =
     bnd (generate (vx_now env)) (\<lambda>now.
     db_run env (\<lambda>s. put_mcp (update_where p (\<lambda>b. (f b)\<lparr>br_updated := now\<rparr>) (vs_mcp s)) (count_where p (vs_mcp s)) s))"

definition new_binding :: "int \<Rightarrow> string \<Rightarrow> string \<Rightarrow> string \<Rightarrow> string \<Rightarrow> binding_row" where
  "new_binding repositoryId owner bindingId trustTarget secretId =
     \<lparr>br_repository = repositoryId, br_owner = owner, br_binding = bindingId, br_target = trustTarget,
      br_secret = secretId, br_updated = []\<rparr>"

definition ensureMcpServerCredentialBinding :: "vault_env \<Rightarrow> int \<Rightarrow> string \<Rightarrow> string \<Rightarrow> string \<Rightarrow> string vault_eff" where
  "ensureMcpServerCredentialBinding env repositoryId serverId endpoint secretId =
     bnd (assertMcpIdentity repositoryId serverId None) (\<lambda>_.
     bnd (mcpTrustTarget env endpoint) (\<lambda>trustTarget.
     bnd (assertSecretId secretId) (\<lambda>_.
     bnd (mcpBinding env repositoryId serverId) (\<lambda>current.
       case current of
         Some c \<Rightarrow>
           if br_secret c \<noteq> secretId \<or> br_target c \<noteq> trustTarget then throw (ServiceError PersistenceFailed)
           else ret (br_binding c)
       | None \<Rightarrow>
           bnd (generate (vx_mcpId env)) (\<lambda>bindingId.
           bnd (assertMcpIdentity repositoryId serverId (Some bindingId)) (\<lambda>_.
           handle
             (bnd (mcp_insert env (new_binding repositoryId serverId bindingId trustTarget secretId)) (\<lambda>_. ret bindingId))
             (\<lambda>_. bnd (mcpBinding env repositoryId serverId) (\<lambda>raced.
                case raced of
                  Some r \<Rightarrow> if br_secret r = secretId \<and> br_target r = trustTarget then ret (br_binding r)
                            else throw (ServiceError PersistenceFailed)
                | None \<Rightarrow> throw (ServiceError PersistenceFailed)))))))))"

definition rotateMcpServerCredential ::
  "vault_env \<Rightarrow> int \<Rightarrow> string \<Rightarrow> string \<Rightarrow> string \<Rightarrow> string \<Rightarrow> string \<Rightarrow> unit vault_eff" where
  "rotateMcpServerCredential env repositoryId serverId bindingId endpoint secretId expectedSecretId =
     bnd (assertMcpIdentity repositoryId serverId (Some bindingId)) (\<lambda>_.
     bnd (mcpTrustTarget env endpoint) (\<lambda>trustTarget.
     bnd (assertSecretId secretId) (\<lambda>_.
     bnd (assertSecretId expectedSecretId) (\<lambda>_.
     bnd (mcp_update env (\<lambda>b. owned repositoryId serverId b \<and> br_binding b = bindingId \<and> br_target b = trustTarget
              \<and> br_secret b = expectedSecretId) (\<lambda>b. b\<lparr>br_secret := secretId\<rparr>)) (\<lambda>k.
     guardE (k = 1) (ServiceError PersistenceFailed))))))"

definition replaceMcpServerCredentialBinding ::
  "vault_env \<Rightarrow> int \<Rightarrow> string \<Rightarrow> string \<Rightarrow> string \<Rightarrow> string \<Rightarrow> string \<Rightarrow> string vault_eff" where
  "replaceMcpServerCredentialBinding env repositoryId serverId oldBindingId oldEndpoint newEndpoint secretId =
     bnd (assertMcpIdentity repositoryId serverId (Some oldBindingId)) (\<lambda>_.
     bnd (mcpTrustTarget env oldEndpoint) (\<lambda>oldTarget.
     bnd (mcpTrustTarget env newEndpoint) (\<lambda>newTarget.
     bnd (assertSecretId secretId) (\<lambda>_.
     bnd (generate (vx_mcpId env)) (\<lambda>bindingId.
     bnd (assertMcpIdentity repositoryId serverId (Some bindingId)) (\<lambda>_.
     bnd (mcp_update env (\<lambda>b. owned repositoryId serverId b \<and> br_binding b = oldBindingId \<and> br_target b = oldTarget)
            (\<lambda>b. b\<lparr>br_binding := bindingId, br_target := newTarget, br_secret := secretId\<rparr>)) (\<lambda>k.
     bnd (guardE (k = 1) (ServiceError PersistenceFailed)) (\<lambda>_.
     ret bindingId))))))))"

definition restoreMcpServerCredentialBinding ::
  "vault_env \<Rightarrow> int \<Rightarrow> string \<Rightarrow> string \<Rightarrow> string \<Rightarrow> string \<Rightarrow> unit vault_eff" where
  "restoreMcpServerCredentialBinding env repositoryId serverId bindingId endpoint secretId =
     bnd (assertMcpIdentity repositoryId serverId (Some bindingId)) (\<lambda>_.
     bnd (mcpTrustTarget env endpoint) (\<lambda>trustTarget.
     bnd (assertSecretId secretId) (\<lambda>_.
     bnd (mcpBinding env repositoryId serverId) (\<lambda>current.
       case current of
         Some c \<Rightarrow>
           if br_binding c = bindingId \<and> br_target c = trustTarget \<and> br_secret c = secretId then ret ()
           else bnd (mcp_update env (owned repositoryId serverId)
                  (\<lambda>b. b\<lparr>br_binding := bindingId, br_target := trustTarget, br_secret := secretId\<rparr>)) (\<lambda>_. ret ())
       | None \<Rightarrow> mcp_insert env (new_binding repositoryId serverId bindingId trustTarget secretId)))))"

definition bound :: "int \<Rightarrow> string \<Rightarrow> binding_row \<Rightarrow> bool" where
  "bound repositoryId bindingId b = (br_repository b = repositoryId \<and> br_binding b = bindingId)"

definition resolveMcpServerCredential :: "vault_env \<Rightarrow> int \<Rightarrow> string \<Rightarrow> string vault_eff" where
  "resolveMcpServerCredential env repositoryId bindingId =
     bnd (assertMcpIdentity repositoryId ''binding'' (Some bindingId)) (\<lambda>_.
     bnd (db_first env (\<lambda>s. find (bound repositoryId bindingId) (vs_mcp s))) (\<lambda>r.
       case r of None \<Rightarrow> throw (ServiceError SecretUnavailable) | Some b \<Rightarrow> resolve env (br_secret b)))"

definition revokeMcpServerCredentialBinding :: "vault_env \<Rightarrow> int \<Rightarrow> string \<Rightarrow> string \<Rightarrow> unit vault_eff" where
  "revokeMcpServerCredentialBinding env repositoryId serverId bindingId =
     bnd (assertMcpIdentity repositoryId serverId (Some bindingId)) (\<lambda>_.
     bnd (db_run env (\<lambda>s. put_mcp (filter (\<lambda>b. \<not> (owned repositoryId serverId b \<and> br_binding b = bindingId)) (vs_mcp s))
            (count_where (\<lambda>b. owned repositoryId serverId b \<and> br_binding b = bindingId) (vs_mcp s)) s)) (\<lambda>k.
     guardE (k = 1) (ServiceError PersistenceFailed)))"

subsection \<open>Security profile bindings\<close>

definition assertSecurityIdentity :: "int \<Rightarrow> string \<Rightarrow> string option \<Rightarrow> unit vault_eff" where
  "assertSecurityIdentity repositoryId profileId bindingId =
     guardE (identity_ok SECURITY_BINDING_ID_PATTERN repositoryId profileId bindingId) (ServiceError PersistenceFailed)"

definition securityTrustTarget :: "vault_env \<Rightarrow> string \<Rightarrow> string vault_eff" where
  "securityTrustTarget env endpoint =
     (case vx_url env endpoint of
        None \<Rightarrow> throw (ServiceError PersistenceFailed)
      | Some u \<Rightarrow>
          if pu_protocol u \<noteq> ''wss:'' \<or> pu_username u \<noteq> [] \<or> pu_password u \<noteq> [] \<or> pu_search u \<noteq> []
          then throw (ServiceError PersistenceFailed)
          else ret (url_href (u\<lparr>pu_hash := [], pu_hostname := js_lower (pu_hostname u),
                               pu_port := (if pu_port u = ''443'' then [] else pu_port u)\<rparr>)))"

definition securityBinding :: "vault_env \<Rightarrow> int \<Rightarrow> string \<Rightarrow> binding_row option vault_eff" where
  "securityBinding env repositoryId profileId = db_first env (\<lambda>s. find (owned repositoryId profileId) (vs_security s))"

definition security_insert :: "vault_env \<Rightarrow> binding_row \<Rightarrow> unit vault_eff" where
  "security_insert env b =
     bnd (generate (vx_now env)) (\<lambda>now.
     bnd (db_run env (\<lambda>s. put_security (vs_security s @ [b\<lparr>br_updated := now\<rparr>]) 1 s)) (\<lambda>_. ret ()))"

definition security_update :: "vault_env \<Rightarrow> (binding_row \<Rightarrow> bool) \<Rightarrow> (binding_row \<Rightarrow> binding_row) \<Rightarrow> unit vault_eff" where
  "security_update env p f =
     bnd (generate (vx_now env)) (\<lambda>now.
     bnd (db_run env (\<lambda>s. put_security (update_where p (\<lambda>b. (f b)\<lparr>br_updated := now\<rparr>) (vs_security s)) (count_where p (vs_security s)) s)) (\<lambda>k.
     guardE (k = 1) (ServiceError PersistenceFailed)))"

definition security_binding_id :: "vault_env \<Rightarrow> nat \<Rightarrow> string" where
  "security_binding_id env n = ''spb_'' @ base64Url (vx_bindingBytes env n)"

definition delete_quietly :: "vault_env \<Rightarrow> string \<Rightarrow> unit vault_eff" where
  "delete_quietly env secretId = handle (delete env secretId) (\<lambda>_. ret ())"

definition createSecurityProfileCredentialBinding :: "vault_env \<Rightarrow> int \<Rightarrow> string \<Rightarrow> string \<Rightarrow> string \<Rightarrow> string vault_eff" where
  "createSecurityProfileCredentialBinding env repositoryId profileId endpoint secret =
     bnd (assertSecurityIdentity repositoryId profileId None) (\<lambda>_.
     bnd (create env secret) (\<lambda>secretId.
     bnd (generate (security_binding_id env)) (\<lambda>bindingId.
     bnd (securityTrustTarget env endpoint) (\<lambda>target.
     bnd (assertSecurityIdentity repositoryId profileId (Some bindingId)) (\<lambda>_.
     handle
       (bnd (security_insert env (new_binding repositoryId profileId bindingId target secretId)) (\<lambda>_. ret bindingId))
       (\<lambda>e. bnd (delete_quietly env secretId) (\<lambda>_. throw e)))))))"

definition recoverSecurityProfileCredentialBinding :: "vault_env \<Rightarrow> int \<Rightarrow> string \<Rightarrow> string \<Rightarrow> string \<Rightarrow> string vault_eff" where
  "recoverSecurityProfileCredentialBinding env repositoryId profileId endpoint secret =
     bnd (assertSecurityIdentity repositoryId profileId None) (\<lambda>_.
     bnd (securityTrustTarget env endpoint) (\<lambda>target.
     bnd (securityBinding env repositoryId profileId) (\<lambda>observed.
     bnd (create env secret) (\<lambda>secretId.
     bnd (generate (security_binding_id env)) (\<lambda>bindingId.
     bnd (assertSecurityIdentity repositoryId profileId (Some bindingId)) (\<lambda>_.
     bnd (handle
       (case observed of
          Some old \<Rightarrow>
            security_update env (\<lambda>b. owned repositoryId profileId b \<and> br_binding b = br_binding old
                \<and> br_target b = br_target old \<and> br_secret b = br_secret old)
              (\<lambda>b. b\<lparr>br_binding := bindingId, br_target := target, br_secret := secretId\<rparr>)
        | None \<Rightarrow> security_insert env (new_binding repositoryId profileId bindingId target secretId))
       (\<lambda>_. bnd (delete_quietly env secretId) (\<lambda>_. throw (ServiceError PersistenceFailed)))) (\<lambda>_.
     bnd (case observed of Some old \<Rightarrow> delete_quietly env (br_secret old) | None \<Rightarrow> ret ()) (\<lambda>_.
     ret bindingId))))))))"

definition expect_binding :: "binding_row option \<Rightarrow> string \<Rightarrow> string \<Rightarrow> binding_row vault_eff" where
  "expect_binding r bindingId target =
     (case r of
        None \<Rightarrow> throw (ServiceError PersistenceFailed)
      | Some b \<Rightarrow> if br_binding b \<noteq> bindingId \<or> br_target b \<noteq> target then throw (ServiceError PersistenceFailed) else ret b)"

definition rotateSecurityProfileCredential ::
  "vault_env \<Rightarrow> int \<Rightarrow> string \<Rightarrow> string \<Rightarrow> string \<Rightarrow> string \<Rightarrow> unit vault_eff" where
  "rotateSecurityProfileCredential env repositoryId profileId bindingId endpoint secret =
     bnd (assertSecurityIdentity repositoryId profileId (Some bindingId)) (\<lambda>_.
     bnd (securityBinding env repositoryId profileId) (\<lambda>r.
     bnd (securityTrustTarget env endpoint) (\<lambda>target.
     bnd (expect_binding r bindingId target) (\<lambda>b.
     replace env (br_secret b) secret))))"

definition replaceSecurityProfileCredentialBinding ::
  "vault_env \<Rightarrow> int \<Rightarrow> string \<Rightarrow> string \<Rightarrow> string \<Rightarrow> string \<Rightarrow> string \<Rightarrow> string vault_eff" where
  "replaceSecurityProfileCredentialBinding env repositoryId profileId oldBindingId oldEndpoint newEndpoint secret =
     bnd (assertSecurityIdentity repositoryId profileId (Some oldBindingId)) (\<lambda>_.
     bnd (securityBinding env repositoryId profileId) (\<lambda>r.
     bnd (securityTrustTarget env oldEndpoint) (\<lambda>oldTarget.
     bnd (expect_binding r oldBindingId oldTarget) (\<lambda>old.
     bnd (create env secret) (\<lambda>secretId.
     bnd (generate (security_binding_id env)) (\<lambda>bindingId.
     handle
       (bnd (securityTrustTarget env newEndpoint) (\<lambda>newTarget.
        bnd (security_update env (\<lambda>b. owned repositoryId profileId b \<and> br_binding b = oldBindingId \<and> br_target b = br_target old)
               (\<lambda>b. b\<lparr>br_binding := bindingId, br_target := newTarget, br_secret := secretId\<rparr>)) (\<lambda>_.
        bnd (delete_quietly env (br_secret old)) (\<lambda>_.
        ret bindingId))))
       (\<lambda>_. bnd (delete_quietly env secretId) (\<lambda>_. throw (ServiceError PersistenceFailed)))))))))"

definition currentSecurityProfileCredentialBinding :: "vault_env \<Rightarrow> int \<Rightarrow> string \<Rightarrow> string \<Rightarrow> string vault_eff" where
  "currentSecurityProfileCredentialBinding env repositoryId profileId endpoint =
     bnd (assertSecurityIdentity repositoryId profileId None) (\<lambda>_.
     bnd (securityBinding env repositoryId profileId) (\<lambda>r.
       case r of
         None \<Rightarrow> throw (ServiceError SecretUnavailable)
       | Some b \<Rightarrow>
           bnd (securityTrustTarget env endpoint) (\<lambda>target.
           bnd (guardE (br_target b = target) (ServiceError SecretUnavailable)) (\<lambda>_.
           ret (br_binding b)))))"

definition resolveSecurityProfileCredential :: "vault_env \<Rightarrow> int \<Rightarrow> string \<Rightarrow> string \<Rightarrow> string vault_eff" where
  "resolveSecurityProfileCredential env repositoryId bindingId endpoint =
     bnd (assertSecurityIdentity repositoryId ''binding'' (Some bindingId)) (\<lambda>_.
     bnd (db_first env (\<lambda>s. find (bound repositoryId bindingId) (vs_security s))) (\<lambda>r.
       case r of
         None \<Rightarrow> throw (ServiceError SecretUnavailable)
       | Some b \<Rightarrow>
           bnd (securityTrustTarget env endpoint) (\<lambda>target.
           bnd (guardE (br_target b = target) (ServiceError SecretUnavailable)) (\<lambda>_.
           resolve env (br_secret b)))))"

definition revokeSecurityProfileCredentialBinding :: "vault_env \<Rightarrow> int \<Rightarrow> string \<Rightarrow> string \<Rightarrow> unit vault_eff" where
  "revokeSecurityProfileCredentialBinding env repositoryId profileId bindingId =
     bnd (assertSecurityIdentity repositoryId profileId (Some bindingId)) (\<lambda>_.
     bnd (securityBinding env repositoryId profileId) (\<lambda>r.
       case r of
         None \<Rightarrow> throw (ServiceError PersistenceFailed)
       | Some b \<Rightarrow> if br_binding b \<noteq> bindingId then throw (ServiceError PersistenceFailed) else delete env (br_secret b)))"

end
