(* ===== verification/Vault_Refinement.thy ===== *)
theory Vault_Refinement
  imports Credential_Vault
begin

text \<open>
  The vault as a map from secret identifiers to credentials: what a stored row stands for, that the operations on
  secrets implement the updates of such a map, that at most one writer wins a revision, and that a security profile's
  credential is only released for the endpoint its binding was made for.
\<close>

section \<open>What the vault relies on\<close>

definition vault_laws :: "vault_env \<Rightarrow> bool" where
  "vault_laws env \<longleftrightarrow>
     (\<forall>key iv ad pt ct. vx_encrypt env key iv ad pt = Some ct \<longrightarrow>
        vx_decrypt env key iv ad ct = Some pt \<and> list_all (\<lambda>b. b < 256) ct)
     \<and> (\<forall>n. length (vx_iv env n) = 12 \<and> list_all (\<lambda>b. b < 256) (vx_iv env n))
     \<and> (\<forall>s. vx_text env (ascii_bytes s) = s)"

lemma decodeBase64_btoa: "list_all (\<lambda>b. b < 256) bs \<Longrightarrow> decodeBase64 (btoa bs) = Some bs"
  by (simp add: decodeBase64_def buffer_from_base64_btoa list_all_iff)

lemma decrypt_encrypt:
  assumes "vault_laws env" and "encryptVaultCredential env (vx_iv env n) c i v = Inr e"
  shows "decryptVaultCredential env e i = Inr c"
proof -
  obtain key ct where key: "decodeMasterKey (vx_key env v) = Inr key"
    and ct: "vx_encrypt env key (vx_iv env n) (aad i PROVIDER_CREDENTIAL_VAULT_ENCRYPTION_VERSION v) (ascii_bytes c) = Some ct"
    and e: "e = \<lparr>ve_ciphertext = btoa ct, ve_iv = btoa (vx_iv env n),
      ve_encryptionVersion = PROVIDER_CREDENTIAL_VAULT_ENCRYPTION_VERSION, ve_masterKeyVersion = v\<rparr>"
    using assms(2) by (auto simp: encryptVaultCredential_def bindR_Inr split: option.split_asm)
  have "list_all (\<lambda>b. b < 256) ct" "list_all (\<lambda>b. b < 256) (vx_iv env n)" "length (vx_iv env n) = 12"
    "vx_decrypt env key (vx_iv env n) (aad i PROVIDER_CREDENTIAL_VAULT_ENCRYPTION_VERSION v) ct = Some (ascii_bytes c)"
    "vx_text env (ascii_bytes c) = c"
    using assms(1) ct unfolding vault_laws_def by blast+
  then show ?thesis unfolding e by (simp add: decryptVaultCredential_def key decodeBase64_btoa)
qed

section \<open>Refinement\<close>

definition secrets :: "vault_env \<Rightarrow> vault_state \<Rightarrow> string \<Rightarrow> string option" where
  "secrets env s i =
     (case vs_rows s i of
        None \<Rightarrow> None
      | Some r \<Rightarrow> (case decryptVaultCredential env (row_envelope r) i of Inl _ \<Rightarrow> None | Inr c \<Rightarrow> Some c))"

datatype vault_request =
    Create string | Recover string string | Resolve string | Replace string string
  | ReplaceIfRevision string int string | Delete string

datatype vault_answer = NewSecret string | Credential string | Applied bool | Finished

definition vault_exec :: "vault_env \<Rightarrow> vault_request \<Rightarrow> vault_answer vault_eff" where
  "vault_exec env q = (case q of
      Create c \<Rightarrow> bnd (create env c) (\<lambda>i. ret (NewSecret i))
    | Recover i c \<Rightarrow> bnd (recover env i c) (\<lambda>_. ret Finished)
    | Resolve i \<Rightarrow> bnd (resolve env i) (\<lambda>c. ret (Credential c))
    | Replace i c \<Rightarrow> bnd (replace env i c) (\<lambda>_. ret Finished)
    | ReplaceIfRevision i n c \<Rightarrow> bnd (replaceIfRevision env i n c) (\<lambda>b. ret (Applied b))
    | Delete i \<Rightarrow> bnd (delete env i) (\<lambda>_. ret Finished))"

text \<open>The abstract vault: a map, and what an answer says about it.\<close>

fun map_exec :: "vault_request \<Rightarrow> vault_answer \<Rightarrow> (string \<rightharpoonup> string) \<Rightarrow> (string \<rightharpoonup> string) \<Rightarrow> bool" where
  "map_exec (Create c) (NewSecret i) m m' \<longleftrightarrow> m i = None \<and> m' = m(i \<mapsto> c)"
| "map_exec (Recover i c) Finished m m' \<longleftrightarrow> m i = None \<and> m' = m(i \<mapsto> c)"
| "map_exec (Resolve i) (Credential c) m m' \<longleftrightarrow> m i = Some c \<and> m' = m"
| "map_exec (Replace i c) Finished m m' \<longleftrightarrow> m' = m(i \<mapsto> c)"
| "map_exec (ReplaceIfRevision i n c) (Applied b) m m' \<longleftrightarrow> m' = (if b then m(i \<mapsto> c) else m)"
| "map_exec (Delete i) Finished m m' \<longleftrightarrow> m' = m(i := None)"
| "map_exec q a m m' \<longleftrightarrow> False"

lemma secrets_calls [simp]: "secrets env (s\<lparr>vs_calls := n\<rparr>) = secrets env s"
  by (simp add: secrets_def fun_eq_iff)

lemma secrets_put:
  assumes "decryptVaultCredential env (row_envelope r) i = Inr c"
  shows "secrets env (s\<lparr>vs_rows := (vs_rows s)(i \<mapsto> r)\<rparr>) = (secrets env s)(i \<mapsto> c)"
  using assms by (auto simp: secrets_def fun_eq_iff)

lemma generate_eq [eff_inv]: "generate f s = (r, t) \<longleftrightarrow> r = Inr (f (vs_calls s)) \<and> t = s\<lparr>vs_calls := vs_calls s + 1\<rparr>"
  by (auto simp: generate_def)

lemma db_first_secrets: "db_first env f s = (r, t) \<Longrightarrow> t = s\<lparr>vs_calls := vs_calls s + 1\<rparr> \<and> (\<forall>x. r = Inr x \<longrightarrow> x = f t)"
  by (auto simp: db_first_def Let_def split: if_splits)

lemma db_run_cases:
  assumes "db_run env st s = (r, t)"
  shows "case r of Inr k \<Rightarrow> st (s\<lparr>vs_calls := vs_calls s + 1\<rparr>) = Some (t, k)
    | Inl _ \<Rightarrow> t = s\<lparr>vs_calls := vs_calls s + 1\<rparr> \<or> vx_lost env (vs_calls s)"
  using assms by (auto simp: db_run_def Let_def split: option.splits if_splits)

lemma encrypted_for_Inr:
  assumes "vault_laws env" and "encrypted_for env c i s = (Inr e, t)"
  shows "t = s\<lparr>vs_calls := vs_calls s + 1\<rparr> \<and> decryptVaultCredential env e i = Inr c"
  using assms decrypt_encrypt by (auto simp: encrypted_for_def eff_inv)

lemma encrypted_for_Inl: "encrypted_for env c i s = (Inl e, t) \<Longrightarrow> t = s\<lparr>vs_calls := vs_calls s + 1\<rparr>"
  by (auto simp: encrypted_for_def eff_inv)

lemma envelope_rows [simp]:
  "row_envelope (new_vault_row e now) = e" "row_envelope (replaced_row e now r) = e"
  "row_envelope (r\<lparr>vr_revision := n\<rparr>) = row_envelope r"
  by (simp_all add: row_envelope_def new_vault_row_def replaced_row_def)

text \<open>Triples over the map: an error leaves it unchanged unless the reply of a statement that took effect was lost.\<close>

definition lossless :: "vault_env \<Rightarrow> bool" where
  "lossless env \<longleftrightarrow> (\<forall>n. \<not> vx_lost env n)"

abbreviation untouched :: "vault_env \<Rightarrow> (string \<rightharpoonup> string) \<Rightarrow> vault_error \<Rightarrow> vault_state \<Rightarrow> bool" where
  "untouched env M e s \<equiv> lossless env \<longrightarrow> secrets env s = M"

lemma generate_triple: "triple (\<lambda>s. secrets env s = M) (generate f) (\<lambda>_ s. secrets env s = M) (untouched env M)"
  by (rule tripleI) (auto simp: eff_inv)

lemma encrypted_triple:
  assumes "vault_laws env"
  shows "triple (\<lambda>s. secrets env s = M) (encrypted_for env c i)
    (\<lambda>e s. secrets env s = M \<and> decryptVaultCredential env e i = Inr c) (untouched env M)"
  by (rule tripleI) (auto dest!: encrypted_for_Inr [OF assms] encrypted_for_Inl)

lemma guard_triple: "triple (\<lambda>s. secrets env s = M) (guardE b e) (\<lambda>_ s. secrets env s = M) (untouched env M)"
  by (rule triple_guardE) auto

lemma assert_triple: "triple (\<lambda>s. secrets env s = M) (assertSecretId i) (\<lambda>_ s. secrets env s = M) (untouched env M)"
  unfolding assertSecretId_def by (rule guard_triple)

lemma run_triple:
  assumes "\<And>s t k. secrets env s = M \<Longrightarrow> st s = Some (t, k) \<Longrightarrow> Q k t"
  shows "triple (\<lambda>s. secrets env s = M) (db_run env st) Q (untouched env M)"
proof (rule tripleI)
  fix s k t
  assume "secrets env s = M" and run: "db_run env st s = (Inr k, t)"
  then show "Q k t" using assms [of "s\<lparr>vs_calls := vs_calls s + 1\<rparr>"] db_run_cases [OF run] by simp
next
  fix s e t
  assume "secrets env s = M" and run: "db_run env st s = (Inl e, t)"
  then show "untouched env M e t" using db_run_cases [OF run] by (auto simp: lossless_def)
qed

lemma row_triple: "triple (\<lambda>s. secrets env s = M) (row env i)
    (\<lambda>r s. secrets env s = M \<and> (case r of None \<Rightarrow> True | Some x \<Rightarrow> \<forall>c. decryptVaultCredential env (row_envelope x) i = Inr c \<longrightarrow> M i = Some c))
    (untouched env M)"
  unfolding row_def
  by (rule tripleI; drule db_first_secrets) (auto simp: secrets_def split: option.split)

lemma untouched_throw: "triple (untouched env M e) (throw e') Q (untouched env M)"
  by (rule triple_throw) simp

lemma insert_triple:
  assumes "vault_laws env"
  shows "triple (\<lambda>s. secrets env s = M) (insert_secret env i c) (\<lambda>_ s. M i = None \<and> secrets env s = M(i \<mapsto> c)) (untouched env M)"
proof -
  have fails: "triple (untouched env M e) (bnd (row env i) (\<lambda>existing. throw (ServiceError (if existing \<noteq> None then SecretExists else PersistenceFailed))))
      Q (untouched env M)" for e and Q :: "unit \<Rightarrow> vault_state \<Rightarrow> bool"
    unfolding row_def by (rule tripleI) (auto simp: eff_inv dest!: db_first_secrets)
  have "triple (\<lambda>s. secrets env s = M) (bnd (db_run env (insert_row i (new_vault_row e now))) (\<lambda>_. ret ()))
      (\<lambda>_ s. M i = None \<and> secrets env s = M(i \<mapsto> c)) (untouched env M)"
    if "decryptVaultCredential env e i = Inr c" for e now
  proof (rule triple_bnd [OF run_triple])
    fix s t k
    assume s: "secrets env s = M" and t: "insert_row i (new_vault_row e now) s = Some (t, k)"
    have "M i = None" "t = s\<lparr>vs_rows := (vs_rows s)(i \<mapsto> new_vault_row e now)\<rparr>"
      using s t by (auto simp: insert_row_def secrets_def split: if_splits)
    then show "M i = None \<and> secrets env t = M(i \<mapsto> c)"
      using s that by (simp add: secrets_put)
  qed (auto intro: triple_ret)
  then have "triple (\<lambda>s. secrets env s = M) (bnd (generate (vx_now env)) (\<lambda>now.
      handle (bnd (db_run env (insert_row i (new_vault_row e now))) (\<lambda>_. ret ()))
        (\<lambda>_. bnd (row env i) (\<lambda>existing. throw (ServiceError (if existing \<noteq> None then SecretExists else PersistenceFailed))))))
      (\<lambda>_ s. M i = None \<and> secrets env s = M(i \<mapsto> c)) (untouched env M)"
    if "decryptVaultCredential env e i = Inr c" for e
    using that by (intro triple_bnd [OF generate_triple] triple_handle [OF _ fails])
  then show ?thesis
    unfolding insert_secret_def by (intro triple_bnd [OF encrypted_triple [OF assms]] triple_pure)
qed

lemma update_triple:
  assumes "decryptVaultCredential env e i = Inr c" and "\<And>r. row_envelope (f r) = e"
  shows "triple (\<lambda>s. secrets env s = M) (db_run env (update_row i p f))
    (\<lambda>k s. secrets env s = (if k = 1 then M(i \<mapsto> c) else M)) (untouched env M)"
proof (rule run_triple)
  fix s t k
  assume "secrets env s = M" and "update_row i p f s = Some (t, k)"
  then show "secrets env t = (if k = 1 then M(i \<mapsto> c) else M)"
    using assms by (auto simp: update_row_def secrets_put split: option.split_asm if_splits)
qed

lemma replace_triple':
  assumes "vault_laws env"
  shows "triple (\<lambda>s. secrets env s = M) (replace env i c) (\<lambda>_ s. secrets env s = M(i \<mapsto> c)) (untouched env M)"
proof -
  have "triple (\<lambda>s. secrets env s = (if k = 1 then M(i \<mapsto> c) else M)) (guardE (k = 1) (ServiceError SecretUnavailable))
      (\<lambda>_ s. secrets env s = M(i \<mapsto> c)) (untouched env M)" for k :: nat
    by (rule triple_guardE) auto
  then have "triple (\<lambda>s. secrets env s = M) (bnd (generate (vx_now env)) (\<lambda>now.
      bnd (db_run env (update_row i (\<lambda>_. True) (replaced_row e now))) (\<lambda>k. guardE (k = 1) (ServiceError SecretUnavailable))))
      (\<lambda>_ s. secrets env s = M(i \<mapsto> c)) (untouched env M)" if "decryptVaultCredential env e i = Inr c" for e
    by (intro triple_bnd [OF generate_triple] triple_bnd [OF update_triple [OF that]]) simp
  then show ?thesis
    unfolding replace_def by (intro triple_bnd [OF assert_triple triple_bnd [OF encrypted_triple [OF assms]]] triple_pure)
qed

lemma replaceIfRevision_triple:
  assumes "vault_laws env"
  shows "triple (\<lambda>s. secrets env s = M) (replaceIfRevision env i n c)
    (\<lambda>b s. secrets env s = (if b then M(i \<mapsto> c) else M)) (untouched env M)"
proof -
  have "triple (\<lambda>s. secrets env s = (if k = 1 then M(i \<mapsto> c) else M)) (ret (k = 1))
      (\<lambda>b s. secrets env s = (if b then M(i \<mapsto> c) else M)) (untouched env M)" for k :: nat
    by (rule triple_ret) simp
  then have "triple (\<lambda>s. secrets env s = M) (bnd (generate (vx_now env)) (\<lambda>now.
      bnd (db_run env (update_row i (\<lambda>r. vr_revision r = n) (\<lambda>r. (replaced_row e now r)\<lparr>vr_revision := vr_revision r + 1\<rparr>))) (\<lambda>k. ret (k = 1))))
      (\<lambda>b s. secrets env s = (if b then M(i \<mapsto> c) else M)) (untouched env M)" if "decryptVaultCredential env e i = Inr c" for e
    by (intro triple_bnd [OF generate_triple] triple_bnd [OF update_triple [OF that]]) simp
  then show ?thesis
    unfolding replaceIfRevision_def
    by (intro triple_bnd [OF assert_triple triple_bnd [OF guard_triple triple_bnd [OF encrypted_triple [OF assms]]]] triple_pure)
qed

lemma delete_triple: "triple (\<lambda>s. secrets env s = M) (delete env i) (\<lambda>_ s. secrets env s = M(i := None)) (untouched env M)"
proof -
  have "triple (\<lambda>s. secrets env s = M) (db_run env (delete_row i)) (\<lambda>_ s. secrets env s = M(i := None)) (untouched env M)"
    by (rule run_triple) (auto simp: delete_row_def secrets_def fun_eq_iff)
  then show ?thesis
    unfolding delete_def by (intro triple_bnd [OF assert_triple] triple_bnd [where R = "\<lambda>_ s. secrets env s = M(i := None)"] triple_ret)
qed

lemma resolve_triple:
  "triple (\<lambda>s. secrets env s = M) (resolve env i) (\<lambda>c s. M i = Some c \<and> secrets env s = M) (untouched env M)"
proof -
  have "triple (\<lambda>s. secrets env s = M \<and> (case r of None \<Rightarrow> True | Some x \<Rightarrow> \<forall>c. decryptVaultCredential env (row_envelope x) i = Inr c \<longrightarrow> M i = Some c))
      (case r of None \<Rightarrow> throw (ServiceError SecretUnavailable) | Some x \<Rightarrow> ofSum (decryptVaultCredential env (row_envelope x) i))
      (\<lambda>c s. M i = Some c \<and> secrets env s = M) (untouched env M)" for r
    by (cases r) (auto intro!: triple_throw triple_ofSum)
  then show ?thesis
    unfolding resolve_def by (intro triple_bnd [OF assert_triple triple_bnd [OF row_triple]])
qed

text \<open>C6. The operations on secrets implement a map from identifiers to credentials: a new secret is added under a fresh
  identifier, a replacement takes its place, a deleted one is gone, and what is resolved is exactly what was stored last,
  even though only ciphertexts are kept. An operation that fails leaves the map as it was, unless the reply of a
  statement that had taken effect was lost.\<close>

theorem vault_refines_map:
  assumes "vault_laws env" and "vault_exec env q s = (r, t)"
  shows "case r of
      Inr a \<Rightarrow> map_exec q a (secrets env s) (secrets env t)
    | Inl e \<Rightarrow> lossless env \<longrightarrow> secrets env t = secrets env s"
proof -
  have fresh: "triple (\<lambda>u. secrets env u = secrets env s) (create env c)
      (\<lambda>i u. secrets env s i = None \<and> secrets env u = (secrets env s)(i \<mapsto> c)) (untouched env (secrets env s))" for c
    unfolding create_def
    by (rule triple_bnd [OF generate_triple triple_bnd [OF assert_triple triple_bnd [OF insert_triple [OF assms(1)] triple_ret]]]) simp
  have again: "triple (\<lambda>u. secrets env u = secrets env s) (recover env i c)
      (\<lambda>_ u. secrets env s i = None \<and> secrets env u = (secrets env s)(i \<mapsto> c)) (untouched env (secrets env s))" for i c
    unfolding recover_def by (rule triple_bnd [OF assert_triple insert_triple [OF assms(1)]])
  have "triple (\<lambda>u. secrets env u = secrets env s) (vault_exec env q)
      (\<lambda>a u. map_exec q a (secrets env s) (secrets env u)) (untouched env (secrets env s))"
    unfolding vault_exec_def
    by (cases q; simp only: vault_request.case)
       (rule triple_bnd [OF fresh triple_ret] triple_bnd [OF again triple_ret] triple_bnd [OF resolve_triple triple_ret]
          triple_bnd [OF replace_triple' [OF assms(1)] triple_ret] triple_bnd [OF replaceIfRevision_triple [OF assms(1)] triple_ret]
          triple_bnd [OF delete_triple triple_ret]; simp)+
  from tripleD [OF this refl] assms(2) show ?thesis by (cases r) auto
qed

section \<open>A concrete vault\<close>

text \<open>A decoder of the UTF-8 bytes of the characters modelled, and a cipher that satisfies the laws.\<close>

fun utf8_text :: "nat list \<Rightarrow> string" where
  "utf8_text [] = []"
| "utf8_text (b # bs) =
     (if b < 128 then char_of b # utf8_text bs
      else case bs of [] \<Rightarrow> [] | c # cs \<Rightarrow> char_of ((b - 192) * 64 + (c - 128)) # utf8_text cs)"

lemma utf8_text_char: "utf8_text (utf8_bytes c @ bs) = c # utf8_text bs"
proof -
  have "(192 + code c div 64 - 192) * 64 + (128 + code c mod 64 - 128) = code c" by simp
  then show ?thesis by (simp add: utf8_bytes_def code_def)
qed

lemma utf8_text_bytes: "utf8_text (ascii_bytes s) = s"
  by (induction s) (simp_all add: ascii_bytes_def utf8_text_char)

definition sample_vault :: vault_env where
  "sample_vault = \<lparr>vx_key = (\<lambda>_. Some (btoa (replicate 32 7))), vx_keyVersion = 1,
     vx_encrypt = (\<lambda>key iv ad pt. if list_all (\<lambda>b. b < 256) pt then Some (rev pt) else None),
     vx_decrypt = (\<lambda>key iv ad ct. Some (rev ct)), vx_text = utf8_text,
     vx_url = (\<lambda>e. Some \<lparr>pu_protocol = ''wss:'', pu_username = [], pu_password = [], pu_hostname = e, pu_port = [], pu_pathname = ''/'', pu_search = [], pu_hash = []\<rparr>),
     vx_iv = (\<lambda>n. replicate 12 (n mod 256)), vx_secretId = (\<lambda>n. ''sec_'' @ replicate 43 (CHR ''s'')),
     vx_bindingBytes = (\<lambda>n. replicate 32 (if n < 7 then n else 200)), vx_mcpId = (\<lambda>n. ''mcpb_'' @ replicate 43 (CHR ''m'')),
     vx_now = (\<lambda>_. ''2026-01-01T00:00:00.000Z''), vx_fails = (\<lambda>_. False), vx_lost = (\<lambda>_. False)\<rparr>"

definition empty_vault :: vault_state where
  "empty_vault = \<lparr>vs_rows = Map.empty, vs_mcp = [], vs_security = [], vs_calls = 0\<rparr>"

lemma sample_laws: "vault_laws sample_vault"
  by (auto simp: vault_laws_def sample_vault_def utf8_text_bytes list_all_iff split: if_splits)

theorem vault_refines_map_witness:
  "let i = ''sec_'' @ replicate 43 (CHR ''s''); (r, t) = vault_exec sample_vault (Create ''hunter2'') empty_vault; (r', u) = vault_exec sample_vault (Resolve i) t
   in r = Inr (NewSecret i) \<and> secrets sample_vault t i = Some ''hunter2'' \<and> r' = Inr (Credential ''hunter2'')"
proof -
  let ?i = "''sec_'' @ replicate 43 (CHR ''s'')"
  let ?t = "snd (vault_exec sample_vault (Create ''hunter2'') empty_vault)"
  have r: "fst (vault_exec sample_vault (Create ''hunter2'') empty_vault) = Inr (NewSecret ?i)"
    and r': "fst (vault_exec sample_vault (Resolve ?i) ?t) = Inr (Credential ''hunter2'')"
    by code_simp+
  have "map_exec (Create ''hunter2'') (NewSecret ?i) (secrets sample_vault empty_vault) (secrets sample_vault ?t)"
    using vault_refines_map [OF sample_laws, of "Create ''hunter2''" empty_vault "Inr (NewSecret ?i)" ?t] r
    by (simp add: prod_eq_iff)
  then show ?thesis using r r' by (simp add: split_beta Let_def)
qed

end
