(* ===== verification/Vault_Bindings.thy ===== *)
theory Vault_Bindings
  imports Vault_Refinement
begin

text \<open>
  Histories of the vault: revisions of a secret only grow while it exists, so that of two writers that expect the same
  revision at most one succeeds; and the endpoint a security profile binding was made for never changes.
\<close>

section \<open>Revisions\<close>

definition revision_grows :: "string \<Rightarrow> vault_state \<Rightarrow> vault_state \<Rightarrow> bool" where
  "revision_grows i s t \<longleftrightarrow> (\<forall>r. vs_rows s i = Some r \<longrightarrow> (\<exists>r'. vs_rows t i = Some r' \<and> vr_revision r \<le> vr_revision r'))"

interpretation rev: preorder_history "revision_grows i" for i
  by unfold_locales (force simp: revision_grows_def)+

lemmas rev_rules = rev.always_bnd rev.always_handle rev.always_pure rev.always_getS

lemma grows_calls [simp]: "revision_grows i (s\<lparr>vs_calls := n\<rparr>) t = revision_grows i s t" "revision_grows i s (t\<lparr>vs_calls := n\<rparr>) = revision_grows i s t"
  by (simp_all add: revision_grows_def)

lemma grows_refl [simp]: "revision_grows i s s"
  by (simp add: revision_grows_def)

lemma rev_run: "(\<And>s t k. st s = Some (t, k) \<Longrightarrow> revision_grows i s t) \<Longrightarrow> always (revision_grows i) (db_run env st)"
  by (fastforce simp: always_def db_run_def Let_def split: option.splits if_splits)

lemma rev_base:
  "always (revision_grows i) (generate f)" "always (revision_grows i) (db_first env g)"
  "always (revision_grows i) (encrypted_for env c j)" "always (revision_grows i) (assertSecretId j)"
proof -
  show gen: "always (revision_grows i) (generate f)" for f :: "nat \<Rightarrow> 'x"
    by (auto simp: always_def generate_def)
  show "always (revision_grows i) (encrypted_for env c j)"
    unfolding encrypted_for_def by (intro rev_rules gen)
qed (auto simp: always_def db_first_def assertSecretId_def Let_def split: if_splits)

lemma rev_exec:
  assumes "q \<noteq> Delete i"
  shows "always (revision_grows i) (vault_exec env q)"
proof -
  have ins: "always (revision_grows i) (insert_secret env j c)" for j c
    unfolding insert_secret_def row_def
    by (intro rev_rules rev_base rev_run) (auto simp: insert_row_def revision_grows_def split: if_splits)
  have "always (revision_grows i) (create env c)" "always (revision_grows i) (recover env j c)" for j c
    unfolding create_def recover_def by (intro rev_rules rev_base ins)+
  moreover have "always (revision_grows i) (resolve env j)" for j
    unfolding resolve_def row_def by (intro rev_rules rev_base) (auto split: option.split)
  moreover have "always (revision_grows i) (replace env j c)" "always (revision_grows i) (replaceIfRevision env j n c)" for j c n
    unfolding replace_def replaceIfRevision_def
    by (intro rev_rules rev_base rev_run; auto simp: update_row_def replaced_row_def revision_grows_def split: option.split_asm if_splits)+
  moreover have "always (revision_grows i) (delete env j)" if "j \<noteq> i" for j
    unfolding delete_def using that
    by (intro rev_rules rev_base rev_run) (auto simp: delete_row_def revision_grows_def)
  ultimately show ?thesis
    unfolding vault_exec_def using assms by (cases q) (auto intro!: rev_rules)
qed

fun vault_run :: "vault_env \<Rightarrow> vault_request list \<Rightarrow> vault_state \<Rightarrow> vault_state" where
  "vault_run env [] s = s"
| "vault_run env (q # qs) s = vault_run env qs (snd (vault_exec env q s))"

lemma run_grows: "Delete i \<notin> set qs \<Longrightarrow> revision_grows i s (vault_run env qs s)"
proof (induction qs arbitrary: s)
  case (Cons q qs)
  then have "revision_grows i s (snd (vault_exec env q s))"
    using rev_exec [of q i env] by (cases "vault_exec env q s") (auto simp: always_def)
  moreover have "revision_grows i (snd (vault_exec env q s)) (vault_run env qs (snd (vault_exec env q s)))"
    using Cons by simp
  ultimately show ?case by (force simp: revision_grows_def)
qed simp

lemma replaceIfRevision_True:
  assumes "replaceIfRevision env i n c s = (Inr True, t)"
  shows "\<exists>r r'. vs_rows s i = Some r \<and> vr_revision r = n \<and> vs_rows t i = Some r' \<and> vr_revision r' = n + 1"
  using assms
  by (auto simp: replaceIfRevision_def eff_inv encrypted_for_def update_row_def replaced_row_def assertSecretId_def
      dest!: db_run_cases split: option.split_asm if_splits)

text \<open>C25. Of all writers that loaded the same revision of a secret, at most one replaces it: after a replacement that
  succeeded, and any further requests that do not delete the secret, no replacement that expects the same revision
  succeeds.\<close>

theorem revision_has_one_winner:
  assumes "replaceIfRevision env i n c s = (Inr True, t)" and "Delete i \<notin> set qs"
  shows "fst (replaceIfRevision env i n c' (vault_run env qs t)) \<noteq> Inr True"
proof
  let ?u = "vault_run env qs t"
  assume "fst (replaceIfRevision env i n c' ?u) = Inr True"
  then obtain v where "replaceIfRevision env i n c' ?u = (Inr True, v)" by (cases "replaceIfRevision env i n c' ?u") auto
  then obtain r where r: "vs_rows ?u i = Some r" "vr_revision r = n" using replaceIfRevision_True by blast
  obtain r' where "vs_rows t i = Some r'" "vr_revision r' = n + 1" using replaceIfRevision_True [OF assms(1)] by blast
  with run_grows [OF assms(2), of t env] r show False by (auto simp: revision_grows_def)
qed

section \<open>Trust targets\<close>

text \<open>Operations that add no security profile binding.\<close>

definition no_new_bindings :: "vault_state \<Rightarrow> vault_state \<Rightarrow> bool" where
  "no_new_bindings s t \<longleftrightarrow> vs_calls s \<le> vs_calls t \<and> set (vs_security t) \<subseteq> set (vs_security s)"

interpretation less: preorder_history no_new_bindings
  by unfold_locales (auto simp: no_new_bindings_def)

lemmas less_rules = less.always_bnd less.always_handle less.always_pure less.always_getS

lemma less_run:
  "(\<And>s t k. st s = Some (t, k) \<Longrightarrow> vs_calls t = vs_calls s \<and> set (vs_security t) \<subseteq> set (vs_security s)) \<Longrightarrow> always no_new_bindings (db_run env st)"
  by (fastforce simp: always_def db_run_def Let_def no_new_bindings_def split: option.splits if_splits)

lemma less_base:
  "always no_new_bindings (generate f)" "always no_new_bindings (db_first env g)"
  "always no_new_bindings (encrypted_for env c j)" "always no_new_bindings (assertSecretId j)"
  "always no_new_bindings (securityTrustTarget env e)" "always no_new_bindings (mcpTrustTarget env e)"
  "always no_new_bindings (assertSecurityIdentity r o1 b)" "always no_new_bindings (assertMcpIdentity r o1 b)"
proof -
  show gen: "always no_new_bindings (generate f)" for f :: "nat \<Rightarrow> 'x"
    by (auto simp: always_def generate_def no_new_bindings_def)
  show "always no_new_bindings (encrypted_for env c j)"
    unfolding encrypted_for_def by (intro less_rules gen)
qed (auto simp: always_def db_first_def assertSecretId_def securityTrustTarget_def mcpTrustTarget_def assertSecurityIdentity_def
      assertMcpIdentity_def no_new_bindings_def Let_def split: if_splits option.splits)

lemma less_secrets:
  "always no_new_bindings (create env c)" "always no_new_bindings (recover env i c)" "always no_new_bindings (resolve env i)"
  "always no_new_bindings (replace env i c)" "always no_new_bindings (replaceIfRevision env i n c)" "always no_new_bindings (delete env i)"
proof -
  have ins: "always no_new_bindings (insert_secret env j c)" for j c
    unfolding insert_secret_def row_def
    by (intro less_rules less_base less_run) (auto simp: insert_row_def split: if_splits)
  show "always no_new_bindings (create env c)" "always no_new_bindings (recover env i c)"
    unfolding create_def recover_def by (intro less_rules less_base ins)+
  show "always no_new_bindings (resolve env i)"
    unfolding resolve_def row_def by (intro less_rules less_base) (auto split: option.split)
  show "always no_new_bindings (replace env i c)" "always no_new_bindings (replaceIfRevision env i n c)"
    unfolding replace_def replaceIfRevision_def
    by (intro less_rules less_base less_run; auto simp: update_row_def split: option.split_asm if_splits)+
  show "always no_new_bindings (delete env i)"
    unfolding delete_def by (intro less_rules less_base less_run) (auto simp: delete_row_def)
qed

lemma less_quiet: "always no_new_bindings (delete_quietly env i)"
  unfolding delete_quietly_def by (intro less_rules less_secrets)

definition fresh_id :: "vault_env \<Rightarrow> vault_state \<Rightarrow> string \<Rightarrow> vault_state \<Rightarrow> bool" where
  "fresh_id env s0 b s \<longleftrightarrow> (\<exists>n. vs_calls s0 \<le> n \<and> n < vs_calls s \<and> b = security_binding_id env n)"

text \<open>Every binding has an older one with the same identity and target, or its identifier was generated since.\<close>

definition pinned :: "vault_env \<Rightarrow> vault_state \<Rightarrow> vault_state \<Rightarrow> bool" where
  "pinned env s0 s \<longleftrightarrow> vs_calls s0 \<le> vs_calls s \<and> (\<forall>b \<in> set (vs_security s).
     (\<exists>b' \<in> set (vs_security s0). br_repository b' = br_repository b \<and> br_binding b' = br_binding b \<and> br_target b' = br_target b)
     \<or> fresh_id env s0 (br_binding b) s)"

lemma pinned_less: "pinned env s0 s \<Longrightarrow> no_new_bindings s t \<Longrightarrow> pinned env s0 t"
  unfolding pinned_def no_new_bindings_def fresh_id_def by (meson order.strict_trans2 order_trans subsetD)

lemma fresh_less: "fresh_id env s0 b s \<Longrightarrow> no_new_bindings s t \<Longrightarrow> fresh_id env s0 b t"
  by (auto simp: fresh_id_def no_new_bindings_def)

lemma pinned_trans:
  assumes "pinned env s t" and "pinned env t u"
  shows "pinned env s u"
  unfolding pinned_def
proof (intro conjI ballI)
  show calls: "vs_calls s \<le> vs_calls u" using assms by (simp add: pinned_def)
  fix b
  assume "b \<in> set (vs_security u)"
  with assms(2) consider b' where "b' \<in> set (vs_security t)" "br_repository b' = br_repository b" "br_binding b' = br_binding b" "br_target b' = br_target b"
    | "fresh_id env t (br_binding b) u" by (auto simp: pinned_def)
  then show "(\<exists>b' \<in> set (vs_security s). br_repository b' = br_repository b \<and> br_binding b' = br_binding b \<and> br_target b' = br_target b)
      \<or> fresh_id env s (br_binding b) u"
  proof cases
    case 1
    with assms show ?thesis unfolding pinned_def fresh_id_def by (metis order.strict_trans2)
  next
    case 2
    with assms(1) show ?thesis unfolding pinned_def fresh_id_def by (meson order_trans)
  qed
qed

abbreviation pin :: "vault_env \<Rightarrow> vault_state \<Rightarrow> 'a vault_eff \<Rightarrow> bool" where
  "pin env s0 m \<equiv> triple (pinned env s0) m (\<lambda>_. pinned env s0) (\<lambda>_. pinned env s0)"

lemma pin_less: "always no_new_bindings m \<Longrightarrow> pin env s0 m"
  by (erule triple_always) (rule pinned_less)

lemma pin_bnd: "pin env s0 m \<Longrightarrow> (\<And>x. pin env s0 (f x)) \<Longrightarrow> pin env s0 (bnd m f)"
  by (rule triple_bnd)

abbreviation pinned_fresh :: "vault_env \<Rightarrow> vault_state \<Rightarrow> string \<Rightarrow> vault_state \<Rightarrow> bool" where
  "pinned_fresh env s0 b s \<equiv> pinned env s0 s \<and> fresh_id env s0 b s"

lemma generate_pin:
  "triple (pinned env s0) (generate (security_binding_id env)) (\<lambda>b. pinned_fresh env s0 b) (\<lambda>_. pinned env s0)"
proof (rule tripleI)
  fix s b t
  assume s: "pinned env s0 s" and run: "generate (security_binding_id env) s = (Inr b, t)"
  have "no_new_bindings s t" by (rule alwaysD [OF less_base(1) run])
  then have "pinned env s0 t" using s pinned_less by blast
  moreover have "fresh_id env s0 b t"
    unfolding fresh_id_def by (rule exI [of _ "vs_calls s"]) (use s run in \<open>auto simp: eff_inv pinned_def\<close>)
  ultimately show "pinned_fresh env s0 b t" by blast
qed (auto simp: eff_inv)

lemma fresh_keep:
  assumes "always no_new_bindings m"
  shows "triple (pinned_fresh env s0 b) m (\<lambda>_. pinned_fresh env s0 b) (\<lambda>_. pinned env s0)"
proof -
  have "triple (pinned_fresh env s0 b) m (\<lambda>_. pinned_fresh env s0 b) (\<lambda>_. pinned_fresh env s0 b)"
    by (rule triple_always [OF assms]) (auto intro: pinned_less fresh_less)
  then show ?thesis by (rule triple_conseq) auto
qed

lemma run_pin:
  assumes "\<And>s t k. st s = Some (t, k) \<Longrightarrow> vs_calls t = vs_calls s \<and> (\<forall>x \<in> set (vs_security t). x \<in> set (vs_security s)
      \<or> (\<exists>y \<in> set (vs_security s). br_repository y = br_repository x \<and> br_binding y = br_binding x \<and> br_target y = br_target x) \<or> br_binding x = b)"
  shows "triple (pinned_fresh env s0 b) (db_run env st) (\<lambda>_. pinned env s0) (\<lambda>_. pinned env s0)"
proof -
  have "pinned env s0 t" if s: "pinned_fresh env s0 b s" and t: "st s = Some (t, k)" for s t k
    unfolding pinned_def
  proof (intro conjI ballI)
    show "vs_calls s0 \<le> vs_calls t" using s assms [OF t] by (simp add: pinned_def)
    fix x
    assume "x \<in> set (vs_security t)"
    with assms [OF t] consider y where "y \<in> set (vs_security s)" "br_repository y = br_repository x" "br_binding y = br_binding x" "br_target y = br_target x"
      | "br_binding x = b" by blast
    then show "(\<exists>b' \<in> set (vs_security s0). br_repository b' = br_repository x \<and> br_binding b' = br_binding x \<and> br_target b' = br_target x)
        \<or> fresh_id env s0 (br_binding x) t"
      using s assms [OF t] unfolding pinned_def fresh_id_def by cases metis+
  qed
  moreover have "pinned_fresh env s0 b (s\<lparr>vs_calls := Suc (vs_calls s)\<rparr>)" if "pinned_fresh env s0 b s" for s
    using that by (force simp: pinned_def fresh_id_def)
  ultimately show ?thesis
    by (intro tripleI; fastforce simp: db_run_def Let_def split: option.split_asm if_splits)
qed

lemma insert_pin:
  assumes "br_binding x = b"
  shows "triple (pinned_fresh env s0 b) (security_insert env x) (\<lambda>_. pinned env s0) (\<lambda>_. pinned env s0)"
  unfolding security_insert_def
  by (rule triple_bnd [OF fresh_keep [OF less_base(1)] triple_bnd [OF run_pin triple_ret]])
     (use assms in \<open>auto simp: put_security_def split: if_splits\<close>)

lemma update_pin:
  assumes "\<And>y. br_binding (f y) = b"
  shows "triple (pinned_fresh env s0 b) (security_update env p f) (\<lambda>_. pinned env s0) (\<lambda>_. pinned env s0)"
  unfolding security_update_def
  by (rule triple_bnd [OF fresh_keep [OF less_base(1)] triple_bnd [OF run_pin triple_guardE]])
     (use assms in \<open>auto simp: put_security_def update_where_def split: if_splits\<close>)

lemma undo_pin: "triple (pinned env s0) (bnd (delete_quietly env i) (\<lambda>_. throw e)) (\<lambda>_. pinned env s0) (\<lambda>_. pinned env s0)"
  by (rule triple_bnd [OF pin_less [OF less_quiet] triple_throw])

lemma create_pin: "pin env s0 (createSecurityProfileCredentialBinding env r p e c)"
  unfolding createSecurityProfileCredentialBinding_def
  by (rule triple_bnd [OF pin_less [OF less_base(7)] triple_bnd [OF pin_less [OF less_secrets(1)] triple_bnd [OF generate_pin
      triple_bnd [OF fresh_keep [OF less_base(5)] triple_bnd [OF fresh_keep [OF less_base(7)]
      triple_handle [OF triple_bnd [OF insert_pin triple_ret] undo_pin]]]]]])
     (simp_all add: new_binding_def)

lemma recover_pin: "pin env s0 (recoverSecurityProfileCredentialBinding env r p e c)"
proof -
  have stores: "triple (pinned_fresh env s0 b)
      (case old of Some o1 \<Rightarrow> security_update env (pr o1) (\<lambda>y. y\<lparr>br_binding := b, br_target := tg, br_secret := i\<rparr>)
         | None \<Rightarrow> security_insert env (new_binding r p b tg i)) (\<lambda>_. pinned env s0) (\<lambda>_. pinned env s0)" for b old pr tg i
    by (auto intro!: update_pin insert_pin simp: new_binding_def split: option.split)
  have tidy: "pin env s0 (bnd (case old of Some o1 \<Rightarrow> delete_quietly env (br_secret o1) | None \<Rightarrow> ret ()) (\<lambda>_. ret b))" for old b
    by (auto intro!: pin_less less_rules less_quiet split: option.split)
  show ?thesis
    unfolding recoverSecurityProfileCredentialBinding_def securityBinding_def
    by (rule triple_bnd [OF pin_less [OF less_base(7)] triple_bnd [OF pin_less [OF less_base(5)] triple_bnd [OF pin_less [OF less_base(2)]
        triple_bnd [OF pin_less [OF less_secrets(1)] triple_bnd [OF generate_pin triple_bnd [OF fresh_keep [OF less_base(7)]
        triple_bnd [OF triple_handle [OF stores undo_pin] tidy]]]]]]])
qed

lemma replace_pin: "pin env s0 (replaceSecurityProfileCredentialBinding env r p b e e' c)"
proof -
  have expect: "always no_new_bindings (expect_binding x y z)" for x y z
    by (auto simp: expect_binding_def split: option.split)
  have stores: "triple (pinned_fresh env s0 n)
      (bnd (securityTrustTarget env e') (\<lambda>newTarget.
        bnd (security_update env pr (\<lambda>y. y\<lparr>br_binding := n, br_target := newTarget, br_secret := i\<rparr>)) (\<lambda>_.
        bnd (delete_quietly env j) (\<lambda>_. ret n)))) (\<lambda>_. pinned env s0) (\<lambda>_. pinned env s0)" for n pr i j
    by (rule triple_bnd [OF fresh_keep [OF less_base(5)] triple_bnd [OF update_pin triple_bnd [OF pin_less [OF less_quiet] triple_ret]]]) simp_all
  show ?thesis
    unfolding replaceSecurityProfileCredentialBinding_def securityBinding_def
    by (rule triple_bnd [OF pin_less [OF less_base(7)] triple_bnd [OF pin_less [OF less_base(2)] triple_bnd [OF pin_less [OF less_base(5)]
        triple_bnd [OF pin_less [OF expect] triple_bnd [OF pin_less [OF less_secrets(1)] triple_bnd [OF generate_pin
        triple_handle [OF stores undo_pin]]]]]]])
qed

section \<open>Histories of bindings\<close>

datatype binding_request =
    SecretRequest vault_request
  | CreateSecurity int string string string | RecoverSecurity int string string string
  | RotateSecurity int string string string string | ReplaceSecurity int string string string string string
  | RevokeSecurity int string string | ResolveSecurity int string string
  | EnsureMcp int string string string | RotateMcp int string string string string string
  | ReplaceMcp int string string string string string | RestoreMcp int string string string string | RevokeMcp int string string

definition binding_exec :: "vault_env \<Rightarrow> binding_request \<Rightarrow> unit vault_eff" where
  "binding_exec env q = (case q of
      SecretRequest v \<Rightarrow> bnd (vault_exec env v) (\<lambda>_. ret ())
    | CreateSecurity r p e c \<Rightarrow> bnd (createSecurityProfileCredentialBinding env r p e c) (\<lambda>_. ret ())
    | RecoverSecurity r p e c \<Rightarrow> bnd (recoverSecurityProfileCredentialBinding env r p e c) (\<lambda>_. ret ())
    | RotateSecurity r p b e c \<Rightarrow> rotateSecurityProfileCredential env r p b e c
    | ReplaceSecurity r p b e e' c \<Rightarrow> bnd (replaceSecurityProfileCredentialBinding env r p b e e' c) (\<lambda>_. ret ())
    | RevokeSecurity r p b \<Rightarrow> revokeSecurityProfileCredentialBinding env r p b
    | ResolveSecurity r b e \<Rightarrow> bnd (resolveSecurityProfileCredential env r b e) (\<lambda>_. ret ())
    | EnsureMcp r v e i \<Rightarrow> bnd (ensureMcpServerCredentialBinding env r v e i) (\<lambda>_. ret ())
    | RotateMcp r v b e i j \<Rightarrow> rotateMcpServerCredential env r v b e i j
    | ReplaceMcp r v b e e' i \<Rightarrow> bnd (replaceMcpServerCredentialBinding env r v b e e' i) (\<lambda>_. ret ())
    | RestoreMcp r v b e i \<Rightarrow> restoreMcpServerCredentialBinding env r v b e i
    | RevokeMcp r v b \<Rightarrow> revokeMcpServerCredentialBinding env r v b)"

inductive binding_history :: "vault_env \<Rightarrow> vault_state \<Rightarrow> vault_state \<Rightarrow> bool" for env where
  origin: "binding_history env s s"
| request: "binding_history env s t \<Longrightarrow> binding_exec env q t = (r, u) \<Longrightarrow> binding_history env s u"

lemma less_mcp:
  "always no_new_bindings (mcp_insert env x)" "always no_new_bindings (mcp_update env p f)"
  unfolding mcp_insert_def mcp_update_def
  by (intro less_rules less_base less_run; auto simp: put_mcp_def split: if_splits)+

lemma less_mcp_operations:
  "always no_new_bindings (ensureMcpServerCredentialBinding env r v e i)" "always no_new_bindings (rotateMcpServerCredential env r v b e i j)"
  "always no_new_bindings (replaceMcpServerCredentialBinding env r v b e e' i)" "always no_new_bindings (restoreMcpServerCredentialBinding env r v b e i)"
  "always no_new_bindings (revokeMcpServerCredentialBinding env r v b)"
proof -
  show "always no_new_bindings (ensureMcpServerCredentialBinding env r v e i)"
    unfolding ensureMcpServerCredentialBinding_def mcpBinding_def
    by (auto intro!: less_rules less_base less_mcp split: option.split)
  show "always no_new_bindings (restoreMcpServerCredentialBinding env r v b e i)"
    unfolding restoreMcpServerCredentialBinding_def mcpBinding_def
    by (auto intro!: less_rules less_base less_mcp split: option.split)
  show "always no_new_bindings (revokeMcpServerCredentialBinding env r v b)"
    unfolding revokeMcpServerCredentialBinding_def
    by (intro less_rules less_base less_run) (auto simp: put_mcp_def split: if_splits)
qed (unfold rotateMcpServerCredential_def replaceMcpServerCredentialBinding_def, (intro less_rules less_base less_mcp)+)

lemma less_security_operations:
  "always no_new_bindings (rotateSecurityProfileCredential env r p b e c)" "always no_new_bindings (revokeSecurityProfileCredentialBinding env r p b)"
  "always no_new_bindings (resolveSecurityProfileCredential env r b e)" "always no_new_bindings (vault_exec env v)"
proof -
  have "always no_new_bindings (expect_binding x y z)" for x y z
    by (auto simp: expect_binding_def split: option.split)
  then show "always no_new_bindings (rotateSecurityProfileCredential env r p b e c)"
    unfolding rotateSecurityProfileCredential_def securityBinding_def by (intro less_rules less_base less_secrets)
  show "always no_new_bindings (revokeSecurityProfileCredentialBinding env r p b)"
    unfolding revokeSecurityProfileCredentialBinding_def securityBinding_def
    by (auto intro!: less_rules less_base less_secrets split: option.split)
  show "always no_new_bindings (resolveSecurityProfileCredential env r b e)"
    unfolding resolveSecurityProfileCredential_def by (auto intro!: less_rules less_base less_secrets split: option.split)
  show "always no_new_bindings (vault_exec env v)"
    unfolding vault_exec_def by (cases v) (auto intro!: less_rules less_secrets)
qed

lemma pin_unit: "pin env s0 m \<Longrightarrow> pin env s0 (bnd m (\<lambda>_. ret ()))"
  by (rule triple_bnd) (auto intro: triple_ret)

lemma exec_pin: "pin env s0 (binding_exec env q)"
  unfolding binding_exec_def
  by (cases q) (simp_all add: pin_unit create_pin recover_pin replace_pin pin_less less_mcp_operations less_security_operations)

lemma history_pinned: "binding_history env s t \<Longrightarrow> pinned env s t"
proof (induction rule: binding_history.induct)
  case (origin s)
  then show ?case by (auto simp: pinned_def)
next
  case (request s t q r u)
  note after = tripleD [OF exec_pin request.IH]
  show ?case
  proof (cases r)
    case (Inl e)
    show ?thesis by (rule after(2)) (use request.hyps(2) Inl in simp)
  next
    case (Inr x)
    show ?thesis by (rule after(1)) (use request.hyps(2) Inr in simp)
  qed
qed

lemma resolve_needs_target:
  assumes "resolveSecurityProfileCredential env r i endpoint t = (Inr c, u)"
  shows "\<exists>b \<in> set (vs_security t). bound r i b \<and> securityTrustTarget env endpoint t = (Inr (br_target b), t)"
proof -
  have pure: "securityTrustTarget env endpoint x = (fst (securityTrustTarget env endpoint y), x)" for x y
    by (auto simp: securityTrustTarget_def throw_def ret_def split: option.split)
  obtain found v where found: "db_first env (\<lambda>s. find (bound r i) (vs_security s)) t = (Inr found, v)"
    and rest: "(case found of None \<Rightarrow> throw (ServiceError SecretUnavailable)
       | Some b \<Rightarrow> bnd (securityTrustTarget env endpoint) (\<lambda>target.
           bnd (guardE (br_target b = target) (ServiceError SecretUnavailable)) (\<lambda>_. resolve env (br_secret b)))) v = (Inr c, u)"
    using assms unfolding resolveSecurityProfileCredential_def assertSecurityIdentity_def bnd_Inr by auto
  have "found = find (bound r i) (vs_security t)" using db_first_secrets [OF found] by simp
  with rest obtain b w where b: "find (bound r i) (vs_security t) = Some b"
    and target: "securityTrustTarget env endpoint v = (Inr (br_target b), w)"
    by (cases "find (bound r i) (vs_security t)") (auto simp: bnd_Inr split: if_splits)
  then have "b \<in> set (vs_security t)" "bound r i b" by (auto simp: find_Some_iff)
  moreover have "securityTrustTarget env endpoint t = (Inr (br_target b), t)" using pure [of t v] target by simp
  ultimately show ?thesis by blast
qed

text \<open>C5. A credential bound to a security profile is only ever released for the endpoint the binding was made for: after
  any history of requests, failures and lost replies included, the credential of a binding that existed before is
  resolved only for an endpoint with the same trust target, provided that no later generated identifier repeats it.\<close>

theorem security_credential_pinned:
  assumes "binding_history env s t" and "b \<in> set (vs_security s)" and "bindings_ok (vs_rows s) (vs_security s)"
    and "\<forall>n. vs_calls s \<le> n \<longrightarrow> security_binding_id env n \<noteq> br_binding b"
    and "resolveSecurityProfileCredential env (br_repository b) (br_binding b) endpoint t = (Inr c, u)"
  shows "securityTrustTarget env endpoint t = (Inr (br_target b), t)"
proof -
  obtain b' where b': "b' \<in> set (vs_security t)" "bound (br_repository b) (br_binding b) b'"
    and target: "securityTrustTarget env endpoint t = (Inr (br_target b'), t)" using resolve_needs_target [OF assms(5)] by blast
  have "\<not> fresh_id env s (br_binding b') t" using assms(4) b'(2) by (auto simp: fresh_id_def bound_def)
  with history_pinned [OF assms(1)] b'(1) obtain b'' where b'': "b'' \<in> set (vs_security s)"
    "br_repository b'' = br_repository b'" "br_binding b'' = br_binding b'" "br_target b'' = br_target b'" by (auto simp: pinned_def)
  have "inj_on (\<lambda>b. (br_repository b, br_binding b)) (set (vs_security s))"
    using assms(3) by (simp add: bindings_ok_def distinct_map)
  then have "b'' = b" using b'' b'(2) assms(2) by (auto simp: inj_on_def bound_def)
  with b'' target show ?thesis by simp
qed

section \<open>Concrete runs\<close>

definition sample_secret :: string where
  "sample_secret = ''sec_'' @ replicate 43 (CHR ''s'')"

definition one_secret :: vault_state where
  "one_secret = snd (create sample_vault ''hunter2'' empty_vault)"

theorem revision_has_one_winner_witness:
  "fst (replaceIfRevision sample_vault sample_secret 1 ''first'' one_secret) = Inr True
   \<and> fst (replaceIfRevision sample_vault sample_secret 1 ''second''
        (vault_run sample_vault [Replace sample_secret ''third''] (snd (replaceIfRevision sample_vault sample_secret 1 ''first'' one_secret)))) \<noteq> Inr True"
proof -
  let ?run = "replaceIfRevision sample_vault sample_secret 1 ''first'' one_secret"
  have "fst ?run = Inr True" by code_simp
  moreover have "?run = (Inr True, snd ?run)" using calculation by (simp add: prod_eq_iff)
  note revision_has_one_winner [OF this, of "[Replace sample_secret ''third'']" "''second''"]
  ultimately show ?thesis by simp
qed

definition sample_binding :: binding_row where
  "sample_binding = \<lparr>br_repository = 7, br_owner = ''strict'', br_binding = ''spb_'' @ base64Url (replicate 32 4),
     br_target = ''wss://guard.example/'', br_secret = sample_secret, br_updated = ''2026-01-01T00:00:00.000Z''\<rparr>"

definition one_binding :: vault_state where
  "one_binding = one_secret\<lparr>vs_security := [sample_binding], vs_calls := 7\<rparr>"

theorem security_credential_pinned_witness:
  "let b = hd (vs_security one_binding); q = RotateSecurity 7 ''strict'' (br_binding b) ''guard.example'' ''new'';
     t = snd (binding_exec sample_vault q one_binding)
   in fst (resolveSecurityProfileCredential sample_vault 7 (br_binding b) ''guard.example'' t) = Inr ''new''
      \<and> securityTrustTarget sample_vault ''guard.example'' t = (Inr (br_target b), t)"
proof -
  define b where "b = hd (vs_security one_binding)"
  define t where "t = snd (binding_exec sample_vault (RotateSecurity 7 ''strict'' (br_binding b) ''guard.example'' ''new'') one_binding)"
  have b: "b = sample_binding" "br_repository sample_binding = 7" by (simp_all add: b_def one_binding_def sample_binding_def)
  have hist: "binding_history sample_vault one_binding t"
    unfolding t_def by (rule binding_history.request [OF binding_history.origin]) (rule prod.collapse [symmetric])
  have "(vs_rows one_secret sample_secret \<noteq> None) = True" by code_simp
  then have ok: "b \<in> set (vs_security one_binding)" "bindings_ok (vs_rows one_binding) (vs_security one_binding)"
    by (simp_all add: b_def one_binding_def bindings_ok_def sample_binding_def)
  have later: "security_binding_id sample_vault n \<noteq> br_binding b" if "vs_calls one_binding \<le> n" for n
  proof -
    have "security_binding_id sample_vault n = ''spb_'' @ base64Url (replicate 32 200)"
      using that by (simp add: security_binding_id_def sample_vault_def one_binding_def)
    moreover have "''spb_'' @ base64Url (replicate 32 200) \<noteq> br_binding sample_binding" by code_simp
    ultimately show ?thesis unfolding b by simp
  qed
  let ?run = "resolveSecurityProfileCredential sample_vault 7 (br_binding b) ''guard.example'' t"
  have run: "fst ?run = Inr ''new''"
    unfolding t_def b by code_simp
  then have "?run = (Inr ''new'', snd ?run)" by (simp add: prod_eq_iff)
  then have "securityTrustTarget sample_vault ''guard.example'' t = (Inr (br_target b), t)"
    using security_credential_pinned [OF hist ok(1,2)] later b by simp
  with run show ?thesis
    unfolding Let_def b_def [symmetric] t_def [symmetric] by blast
qed

text \<open>
  The endpoint is only checked after the secret has been stored and outside of the block that would delete it again:
  a binding for an endpoint that is refused leaves an encrypted credential in the vault that nothing refers to.
\<close>

theorem refused_endpoint_leaves_secret:
  "let env = sample_vault\<lparr>vx_url := \<lambda>_. None\<rparr>; (r, t) = createSecurityProfileCredentialBinding env 7 ''strict'' ''not a url'' ''hunter2'' empty_vault
   in r = Inl (ServiceError PersistenceFailed) \<and> vs_rows t sample_secret \<noteq> None \<and> vs_security t = []"
  by code_simp

end
