(* ===== verification/Workflow_Runs.thy ===== *)
theory Workflow_Runs
  imports Js_Values Effect_Logic
begin

text \<open>
  Workflow runs and their step attempts, from \<^verbatim>\<open>lib/workflow-storage.ts\<close>: every operation of
  \<^verbatim>\<open>InMemoryWorkflowRunStorage\<close>, the transition of cancellation results and the eligibility for a manual retry.

  A run keeps the fields that some operation reads or writes; the snapshots that are only stored and returned are the
  field \<open>wr_snapshots\<close>. Timestamps are milliseconds. The operations mutate the objects they look up, so an attempt is
  updated in place: the first that matches for \<^verbatim>\<open>find\<close>, the last for \<^verbatim>\<open>filter(...).at(-1)\<close>. The clock and the check of
  orchestration diagnostics are parameters.
\<close>

section \<open>Definitions\<close>

datatype run_status = RunQueued | RunRunning | RunWaitingApproval | RunCancelling | RunSucceeded | RunFailed | RunCancelled

datatype step_status = StepPending | StepStarting | StepWaitingProvider | StepSucceeded | StepFailed | StepCancelled

datatype cancellation_result = CancelDone | CancelPending | CancelAlreadyTerminal | CancelUnsupported | CancelSafeFailure

datatype launch_state = Unclaimed | Launching | Attached | LaunchFailed

definition terminalCancellationResults :: "cancellation_result list" where
  "terminalCancellationResults = [CancelDone, CancelAlreadyTerminal, CancelUnsupported, CancelSafeFailure]"

definition transitionCancellationResult :: "cancellation_result option \<Rightarrow> cancellation_result \<Rightarrow> string + cancellation_result" where
  "transitionCancellationResult current next' =
     (if current = Some next' then Inr next'
      else if current = None then Inr next'
      else if current = Some CancelPending \<and> next' \<in> set terminalCancellationResults then Inr next'
      else Inl ''cancellation_result_conflict'')"

record conversation_source =
  cs_runId :: string
  cs_stepId :: string
  cs_activationId :: "string option"
  cs_iteration :: int
  cs_attempt :: int

record step_attempt =
  sa_runId :: string
  sa_stepId :: string
  sa_graphActivationId :: "string option"
  sa_iteration :: int
  sa_attempt :: int
  sa_agentId :: string
  sa_connectionKey :: string
  sa_status :: step_status
  sa_inputText :: "string option"
  sa_outputText :: "string option"
  sa_outputExternalUrl :: "string option"
  sa_providerTaskId :: "string option"
  sa_providerState :: "string option"
  sa_providerTaskUrl :: "string option"
  sa_providerPollCount :: nat
  sa_nextPollDelayMs :: "int option"
  sa_startedAt :: "int option"
  sa_completedAt :: "int option"
  sa_failureCategory :: "string option"
  sa_safeFailureMessage :: "string option"
  sa_retryable :: "bool option"
  sa_diagnostics :: "string option"
  sa_conversationSource :: "conversation_source option"

record plan_node =
  pn_id :: string
  pn_blockType :: string
  pn_agentId :: "string option"
  pn_sourceNodeId :: "string option"

record execution_plan =
  pl_planVersion :: bool
  pl_entryNodeId :: string
  pl_nodes :: "plan_node list"

record workflow_run =
  wr_id :: string
  wr_engineVersion :: string
  wr_executionPlan :: "execution_plan option"
  wr_agentSnapshots :: "(string \<times> string) list"
  wr_snapshots :: string
  wr_status :: run_status
  wr_currentStepId :: "string option"
  wr_workflowInstanceId :: "string option"
  wr_reservedWorkflowInstanceId :: "string option"
  wr_workflowGeneration :: int
  wr_workflowLaunchState :: launch_state
  wr_workflowLaunchFailure :: "string option"
  wr_workflowLaunchAttemptedAt :: "int option"
  wr_finalOutput :: "string option"
  wr_finalExternalUrl :: "string option"
  wr_cancelRequestedAt :: "int option"
  wr_cancellationResult :: "cancellation_result option"
  wr_createdAt :: int
  wr_startedAt :: "int option"
  wr_completedAt :: "int option"
  wr_failureCode :: "string option"
  wr_failureMessage :: "string option"
  wr_orchestrationDiagnostics :: "string option"
  wr_clientIdempotencyKey :: "string option"

definition WORKFLOW_LAUNCH_STALE_MS :: int where
  "WORKFLOW_LAUNCH_STALE_MS = 2 * 60 * 1000"

definition terminalRuns :: "run_status list" where
  "terminalRuns = [RunSucceeded, RunFailed, RunCancelled]"

datatype diagnostic_result = DiagnosticUpdated | GenerationChanged | NoLongerActive

record run_env =
  re_clock :: "nat \<Rightarrow> int"
  re_diagnosticOk :: "string \<Rightarrow> bool"

text \<open>The maps \<^verbatim>\<open>runs\<close>, \<^verbatim>\<open>attempts\<close> and \<^verbatim>\<open>idempotency\<close>, and the number of readings of the clock.\<close>

record run_store =
  rs_runs :: "(string \<times> workflow_run) list"
  rs_attempts :: "string \<rightharpoonup> step_attempt list"
  rs_idempotency :: "string \<rightharpoonup> string"
  rs_ticks :: nat

type_synonym 'a run_eff = "(run_store, string, 'a) eff"

definition now :: "run_env \<Rightarrow> int run_eff" where
  "now env s = (Inr (re_clock env (rs_ticks s)), s\<lparr>rs_ticks := rs_ticks s + 1\<rparr>)"

fun update_first :: "('a \<Rightarrow> bool) \<Rightarrow> ('a \<Rightarrow> 'a) \<Rightarrow> 'a list \<Rightarrow> 'a list" where
  "update_first p f [] = []"
| "update_first p f (x # xs) = (if p x then f x # xs else x # update_first p f xs)"

definition update_last :: "('a \<Rightarrow> bool) \<Rightarrow> ('a \<Rightarrow> 'a) \<Rightarrow> 'a list \<Rightarrow> 'a list" where
  "update_last p f xs = rev (update_first p f (rev xs))"

definition find_last :: "('a \<Rightarrow> bool) \<Rightarrow> 'a list \<Rightarrow> 'a option" where
  "find_last p xs = find p (rev xs)"

subsection \<open>Lookups\<close>

definition require :: "string \<Rightarrow> workflow_run run_eff" where
  "require i s = (case map_of (rs_runs s) i of None \<Rightarrow> (Inl ''run_not_found'', s) | Some r \<Rightarrow> (Inr r, s))"

definition attempts_of :: "run_store \<Rightarrow> string \<Rightarrow> step_attempt list" where
  "attempts_of s i = (case rs_attempts s i of None \<Rightarrow> [] | Some as \<Rightarrow> as)"

definition same_attempt :: "string \<Rightarrow> int \<Rightarrow> int \<Rightarrow> step_attempt \<Rightarrow> bool" where
  "same_attempt stepId iteration attempt item =
     (sa_stepId item = stepId \<and> sa_iteration item = iteration \<and> sa_attempt item = attempt)"

definition attempt :: "string \<Rightarrow> string \<Rightarrow> int \<Rightarrow> int \<Rightarrow> step_attempt run_eff" where
  "attempt runId stepId iteration n s =
     (case find (same_attempt stepId iteration n) (attempts_of s runId) of
        None \<Rightarrow> (Inl ''attempt_not_found'', s) | Some item \<Rightarrow> (Inr item, s))"

text \<open>Assignments to the fields of a stored run, and of an attempt.\<close>

definition set_run :: "string \<Rightarrow> (workflow_run \<Rightarrow> workflow_run) \<Rightarrow> unit run_eff" where
  "set_run i f = modS (\<lambda>s. s\<lparr>rs_runs := map (\<lambda>(k, r). (k, if k = i then f r else r)) (rs_runs s)\<rparr>)"

definition set_attempts :: "string \<Rightarrow> (step_attempt list \<Rightarrow> step_attempt list) \<Rightarrow> unit run_eff" where
  "set_attempts i f = modS (\<lambda>s. s\<lparr>rs_attempts := (rs_attempts s)(i \<mapsto> f (attempts_of s i))\<rparr>)"

definition set_attempt :: "string \<Rightarrow> string \<Rightarrow> int \<Rightarrow> int \<Rightarrow> (step_attempt \<Rightarrow> step_attempt) \<Rightarrow> unit run_eff" where
  "set_attempt runId stepId iteration n f = set_attempts runId (update_first (same_attempt stepId iteration n) f)"

type_synonym run_detail = "workflow_run \<times> step_attempt list"

definition getRun :: "string \<Rightarrow> run_detail option run_eff" where
  "getRun i s = (Inr (case map_of (rs_runs s) i of None \<Rightarrow> None | Some r \<Rightarrow> Some (r, attempts_of s i)), s)"

definition findRunByIdempotencyKey :: "string \<Rightarrow> run_detail option run_eff" where
  "findRunByIdempotencyKey key =
     bnd (getS (\<lambda>s. rs_idempotency s key)) (\<lambda>i.
       case i of None \<Rightarrow> ret None | Some x \<Rightarrow> if x = [] then ret None else getRun x)"

definition listRuns :: "(string \<Rightarrow> string \<Rightarrow> int) \<Rightarrow> (int \<Rightarrow> string) \<Rightarrow> nat \<Rightarrow> workflow_run list run_eff" where
  "listRuns localeCompare isoText limit =
     getS (\<lambda>s. take limit (js_sort_by (\<lambda>a b. localeCompare (isoText (wr_createdAt b)) (isoText (wr_createdAt a))) (map snd (rs_runs s))))"

definition has_plan :: "workflow_run \<Rightarrow> bool" where
  "has_plan run = (case wr_executionPlan run of None \<Rightarrow> False | Some p \<Rightarrow> pl_planVersion p)"

definition createRun :: "workflow_run \<Rightarrow> run_detail option run_eff" where
  "createRun run =
     bnd (guardE (wr_engineVersion run = ''2'' \<and> has_plan run) ''legacy_run_read_only'') (\<lambda>_.
     bnd (getS (\<lambda>s. if truthy (wr_clientIdempotencyKey run) then rs_idempotency s (the (wr_clientIdempotencyKey run)) else None)) (\<lambda>existing.
       case existing of
         Some i \<Rightarrow> getRun i
       | None \<Rightarrow>
           bnd (getS (\<lambda>s. map_of (rs_runs s) (wr_id run))) (\<lambda>present.
           bnd (guardE (present = None) ''run_conflict'') (\<lambda>_.
           bnd (modS (\<lambda>s. s\<lparr>
             rs_runs := AList.update (wr_id run)
               (run\<lparr>wr_currentStepId := Some (pl_entryNodeId (the (wr_executionPlan run)))\<rparr>) (rs_runs s),
             rs_attempts := (rs_attempts s)(wr_id run \<mapsto> []),
             rs_idempotency := (if truthy (wr_clientIdempotencyKey run)
               then (rs_idempotency s)(the (wr_clientIdempotencyKey run) \<mapsto> wr_id run) else rs_idempotency s)\<rparr>)) (\<lambda>_.
           getRun (wr_id run))))))"

subsection \<open>Launching\<close>

datatype launch_claim = Claimed | StaleLaunchClaimed | LaunchInProgress | AlreadyAttached | LaunchTerminal

definition claimWorkflowLaunch :: "run_env \<Rightarrow> string \<Rightarrow> int \<Rightarrow> string \<Rightarrow> (launch_claim \<times> string option) run_eff" where
  "claimWorkflowLaunch env i generation instanceId =
     bnd (require i) (\<lambda>run.
       if wr_status run \<in> set terminalRuns \<and> wr_workflowLaunchState run \<noteq> LaunchFailed then ret (LaunchTerminal, Some instanceId)
       else if wr_workflowGeneration run \<noteq> generation then throw ''workflow_generation_conflict''
       else if wr_workflowLaunchState run = Attached then ret (AlreadyAttached, wr_workflowInstanceId run)
       else if wr_workflowLaunchState run = Launching then
         bnd (now env) (\<lambda>t.
           if (case wr_workflowLaunchAttemptedAt run of None \<Rightarrow> False | Some t0 \<Rightarrow> t - t0 < WORKFLOW_LAUNCH_STALE_MS)
           then ret (LaunchInProgress, wr_reservedWorkflowInstanceId run)
           else bnd (now env) (\<lambda>t'.
                bnd (set_run i (\<lambda>r. r\<lparr>wr_workflowLaunchAttemptedAt := Some t'\<rparr>)) (\<lambda>_.
                ret (StaleLaunchClaimed, wr_reservedWorkflowInstanceId run))))
       else
         bnd (now env) (\<lambda>t.
         bnd (set_run i (\<lambda>r. r\<lparr>wr_workflowLaunchState := Launching, wr_reservedWorkflowInstanceId := Some instanceId,
                wr_workflowLaunchAttemptedAt := Some t\<rparr>)) (\<lambda>_.
         ret (Claimed, Some instanceId))))"

definition attachWorkflowInstance :: "string \<Rightarrow> int \<Rightarrow> string \<Rightarrow> unit run_eff" where
  "attachWorkflowInstance i generation instanceId =
     bnd (require i) (\<lambda>run.
     bnd (guardE (wr_workflowGeneration run = generation \<and> wr_reservedWorkflowInstanceId run = Some instanceId) ''workflow_instance_conflict'') (\<lambda>_.
       if wr_workflowLaunchState run = Attached \<and> wr_workflowInstanceId run = Some instanceId then ret ()
       else set_run i (\<lambda>r. r\<lparr>wr_workflowInstanceId := Some instanceId, wr_workflowLaunchState := Attached, wr_workflowLaunchFailure := None,
              wr_status := RunQueued, wr_completedAt := None, wr_failureCode := None, wr_failureMessage := None,
              wr_orchestrationDiagnostics := None\<rparr>)))"

definition recordWorkflowLaunchFailure :: "string \<Rightarrow> int \<Rightarrow> string \<Rightarrow> string \<Rightarrow> unit run_eff" where
  "recordWorkflowLaunchFailure i generation instanceId message =
     bnd (require i) (\<lambda>run.
       if wr_workflowGeneration run = generation \<and> wr_workflowLaunchState run = Launching \<and> wr_reservedWorkflowInstanceId run = Some instanceId
       then set_run i (\<lambda>r. r\<lparr>wr_workflowLaunchState := LaunchFailed, wr_workflowLaunchFailure := Some message, wr_status := RunFailed,
              wr_failureCode := Some ''internal_error'', wr_failureMessage := Some message\<rparr>)
       else ret ())"

subsection \<open>Steps\<close>

definition in_activation :: "string \<Rightarrow> string \<Rightarrow> step_attempt \<Rightarrow> bool" where
  "in_activation stepId activationId item = (sa_stepId item = stepId \<and> sa_graphActivationId item = Some activationId)"

definition of_step :: "string \<Rightarrow> step_attempt \<Rightarrow> bool" where
  "of_step stepId item = (sa_stepId item = stepId)"

definition max_iteration :: "step_attempt list \<Rightarrow> int" where
  "max_iteration as = foldr max (map sa_iteration as) 0"

text \<open>The agent of a node: its own, or that of the agent node it publishes.\<close>

definition node_agent :: "execution_plan \<Rightarrow> plan_node \<Rightarrow> string option" where
  "node_agent plan node =
     (if pn_blockType node = ''agent'' then pn_agentId node
      else (case find (\<lambda>v. Some (pn_id v) = pn_sourceNodeId node \<and> pn_blockType v = ''agent'') (pl_nodes plan) of
              None \<Rightarrow> None | Some v \<Rightarrow> pn_agentId v))"

definition new_attempt :: "string \<Rightarrow> string \<Rightarrow> string \<Rightarrow> int \<Rightarrow> string \<Rightarrow> string \<Rightarrow> step_attempt" where
  "new_attempt runId stepId activationId iteration agentId connectionKey =
     \<lparr>sa_runId = runId, sa_stepId = stepId, sa_graphActivationId = Some activationId, sa_iteration = iteration, sa_attempt = 1,
      sa_agentId = agentId, sa_connectionKey = connectionKey, sa_status = StepPending, sa_inputText = None, sa_outputText = None,
      sa_outputExternalUrl = None, sa_providerTaskId = None, sa_providerState = None, sa_providerTaskUrl = None,
      sa_providerPollCount = 0, sa_nextPollDelayMs = None, sa_startedAt = None, sa_completedAt = None, sa_failureCategory = None,
      sa_safeFailureMessage = None, sa_retryable = None, sa_diagnostics = None, sa_conversationSource = None\<rparr>"

definition ensureGraphActivation :: "string \<Rightarrow> string \<Rightarrow> string \<Rightarrow> step_attempt run_eff" where
  "ensureGraphActivation runId stepId activationId =
     bnd (require runId) (\<lambda>run.
     bnd (guardE (wr_engineVersion run = ''2'' \<and> has_plan run \<and> wr_status run \<notin> set terminalRuns \<and> activationId \<noteq> [])
            ''invalid_graph_activation'') (\<lambda>_.
     bnd (getS (\<lambda>s. attempts_of s runId)) (\<lambda>as.
       case find_last (in_activation stepId activationId) as of
         Some existing \<Rightarrow> ret existing
       | None \<Rightarrow>
           bnd (guardE (\<not> truthy (wr_failureCode run)) ''invalid_graph_activation'') (\<lambda>_.
           let plan = the (wr_executionPlan run) in
           case find (\<lambda>v. pn_id v = stepId) (pl_nodes plan) of
             None \<Rightarrow> throw ''invalid_graph_activation''
           | Some node \<Rightarrow>
               bnd (guardE (pn_blockType node = ''agent'' \<or> pn_blockType node = ''publish-github-pr'') ''invalid_graph_activation'') (\<lambda>_.
                 case node_agent plan node of
                   None \<Rightarrow> throw ''invalid_graph_activation''
                 | Some agentId \<Rightarrow>
                     (case (if agentId = [] then None else map_of (wr_agentSnapshots run) agentId) of
                        None \<Rightarrow> throw ''invalid_graph_activation''
                      | Some connectionKey \<Rightarrow>
                          let item = new_attempt runId stepId activationId (max_iteration (filter (of_step stepId) as) + 1) agentId connectionKey
                          in bnd (set_attempts runId (\<lambda>as. as @ [item])) (\<lambda>_. ret item)))))))"

definition claimGraphNode :: "run_env \<Rightarrow> string \<Rightarrow> string \<Rightarrow> string \<Rightarrow> string option \<Rightarrow> (step_attempt \<times> bool) run_eff" where
  "claimGraphNode env runId stepId inputText activationId =
     bnd (require runId) (\<lambda>run.
     bnd (guardE (wr_engineVersion run = ''2'' \<and> wr_status run \<notin> set terminalRuns) ''invalid_step_claim'') (\<lambda>_.
     let p = (if truthy activationId then in_activation stepId (the activationId) else of_step stepId) in
     bnd (getS (\<lambda>s. find_last p (attempts_of s runId))) (\<lambda>found.
       case found of
         None \<Rightarrow> throw ''invalid_step_claim''
       | Some item \<Rightarrow>
           if sa_status item \<noteq> StepPending \<or> truthy (wr_failureCode run) then ret (item, False)
           else
             bnd (now env) (\<lambda>t.
             let f = (\<lambda>a. a\<lparr>sa_status := StepStarting, sa_inputText := Some inputText, sa_startedAt := Some t\<rparr>) in
             bnd (set_attempts runId (update_last p f)) (\<lambda>_.
             bnd (case wr_startedAt run of
                    Some t0 \<Rightarrow> set_run runId (\<lambda>r. r\<lparr>wr_status := RunRunning, wr_currentStepId := Some stepId\<rparr>)
                  | None \<Rightarrow> bnd (now env) (\<lambda>t'. set_run runId (\<lambda>r. r\<lparr>wr_status := RunRunning, wr_currentStepId := Some stepId, wr_startedAt := Some t'\<rparr>))) (\<lambda>_.
             ret (f item, True)))))))"

definition bindConversationSource :: "string \<Rightarrow> string \<Rightarrow> int \<Rightarrow> int \<Rightarrow> conversation_source \<Rightarrow> step_attempt run_eff" where
  "bindConversationSource r s i a source =
     bnd (attempt r s i a) (\<lambda>item.
     bnd (guardE (sa_status item \<in> {StepPending, StepStarting} \<and> cs_runId source = r \<and> cs_stepId source \<noteq> [] \<and> 1 \<le> cs_iteration source
            \<and> 1 \<le> cs_attempt source) ''invalid_conversation_source'') (\<lambda>_.
       case sa_conversationSource item of
         Some c \<Rightarrow> if c \<noteq> source then throw ''conversation_source_conflict'' else ret item
       | None \<Rightarrow>
           let f = (\<lambda>x. x\<lparr>sa_conversationSource := Some source\<rparr>)
           in bnd (set_attempt r s i a f) (\<lambda>_. ret (f item))))"

definition recordProviderDiagnostics :: "string \<Rightarrow> string \<Rightarrow> int \<Rightarrow> int \<Rightarrow> string \<Rightarrow> unit run_eff" where
  "recordProviderDiagnostics r s i a d =
     bnd (attempt r s i a) (\<lambda>item.
     bnd (guardE (sa_status item = StepStarting) ''invalid_attempt_state'') (\<lambda>_.
     set_attempt r s i a (\<lambda>x. x\<lparr>sa_diagnostics := Some d\<rparr>)))"

definition persistProviderTask :: "string \<Rightarrow> string \<Rightarrow> int \<Rightarrow> int \<Rightarrow> string \<Rightarrow> int \<Rightarrow> unit run_eff" where
  "persistProviderTask r s i a taskId pollDelayMs =
     bnd (attempt r s i a) (\<lambda>item.
     bnd (guardE (\<not> (truthy (sa_providerTaskId item) \<and> sa_providerTaskId item \<noteq> Some taskId)) ''provider_task_conflict'') (\<lambda>_.
     bnd (guardE (\<not> (\<not> truthy (sa_providerTaskId item) \<and> sa_status item \<noteq> StepStarting)) ''invalid_attempt_state'') (\<lambda>_.
     set_attempt r s i a (\<lambda>x. x\<lparr>sa_providerTaskId := Some taskId, sa_providerState := Some ''pending'', sa_nextPollDelayMs := Some pollDelayMs,
       sa_status := StepWaitingProvider\<rparr>))))"

definition persistProviderProgress ::
  "string \<Rightarrow> string \<Rightarrow> int \<Rightarrow> int \<Rightarrow> string \<Rightarrow> int \<Rightarrow> string option \<Rightarrow> string option \<Rightarrow> unit run_eff" where
  "persistProviderProgress r s i a state pollDelayMs outputText taskUrl =
     bnd (attempt r s i a) (\<lambda>item.
     bnd (guardE (sa_status item = StepWaitingProvider \<and> truthy (sa_providerTaskId item)) ''invalid_attempt_state'') (\<lambda>_.
     set_attempt r s i a (\<lambda>x. x\<lparr>sa_providerState := Some state, sa_nextPollDelayMs := Some pollDelayMs,
       sa_outputText := (case outputText of None \<Rightarrow> sa_outputText x | Some o1 \<Rightarrow> Some o1),
       sa_providerTaskUrl := (case taskUrl of None \<Rightarrow> sa_providerTaskUrl x | Some u \<Rightarrow> Some u)\<rparr>)))"

definition incrementPollCount :: "string \<Rightarrow> string \<Rightarrow> int \<Rightarrow> int \<Rightarrow> int \<Rightarrow> nat run_eff" where
  "incrementPollCount r s i a nextDelayMs =
     bnd (attempt r s i a) (\<lambda>item.
     bnd (guardE (sa_status item = StepWaitingProvider) ''invalid_attempt_state'') (\<lambda>_.
     bnd (set_attempt r s i a (\<lambda>x. x\<lparr>sa_nextPollDelayMs := Some nextDelayMs, sa_providerPollCount := sa_providerPollCount x + 1\<rparr>)) (\<lambda>_.
     ret (sa_providerPollCount item + 1))))"

definition completeStep :: "run_env \<Rightarrow> string \<Rightarrow> string \<Rightarrow> int \<Rightarrow> int \<Rightarrow> string \<Rightarrow> string option \<Rightarrow> unit run_eff" where
  "completeStep env r s i a output externalUrl =
     bnd (attempt r s i a) (\<lambda>item.
       if sa_status item = StepSucceeded
       then (if sa_outputText item \<noteq> Some output then throw ''completion_conflict'' else ret ())
       else bnd (guardE (sa_status item \<in> {StepStarting, StepWaitingProvider}) ''invalid_attempt_state'') (\<lambda>_.
            bnd (now env) (\<lambda>t.
            set_attempt r s i a (\<lambda>x. x\<lparr>sa_status := StepSucceeded, sa_outputText := Some output, sa_outputExternalUrl := externalUrl,
              sa_providerState := Some ''completed'', sa_completedAt := Some t\<rparr>))))"

definition failStep :: "run_env \<Rightarrow> string \<Rightarrow> string \<Rightarrow> int \<Rightarrow> int \<Rightarrow> string \<Rightarrow> string \<Rightarrow> bool \<Rightarrow> unit run_eff" where
  "failStep env r s i a category safeMessage retryable =
     bnd (attempt r s i a) (\<lambda>item.
       if sa_status item = StepFailed then ret ()
       else bnd (guardE (sa_status item \<in> {StepStarting, StepWaitingProvider}) ''invalid_attempt_state'') (\<lambda>_.
            bnd (now env) (\<lambda>t.
            set_attempt r s i a (\<lambda>x. x\<lparr>sa_status := StepFailed, sa_failureCategory := Some category, sa_safeFailureMessage := Some safeMessage,
              sa_retryable := Some retryable, sa_completedAt := Some t\<rparr>))))"

subsection \<open>Runs\<close>

definition completeRun :: "run_env \<Rightarrow> string \<Rightarrow> string \<Rightarrow> string \<Rightarrow> string option \<Rightarrow> unit run_eff" where
  "completeRun env i expected output externalUrl =
     bnd (require i) (\<lambda>run.
       if wr_status run = RunSucceeded then ret ()
       else
         bnd (getS (\<lambda>s. find_last (of_step expected) (attempts_of s i))) (\<lambda>last'.
         bnd (guardE (wr_status run = RunRunning \<and> wr_currentStepId run = Some expected
                \<and> (case last' of None \<Rightarrow> False | Some a \<Rightarrow> sa_status a = StepSucceeded)) ''invalid_completion'') (\<lambda>_.
         bnd (now env) (\<lambda>t.
         set_run i (\<lambda>r. r\<lparr>wr_status := RunSucceeded, wr_finalOutput := Some output, wr_finalExternalUrl := externalUrl,
           wr_orchestrationDiagnostics := None, wr_completedAt := Some t, wr_currentStepId := None\<rparr>)))))"

definition recordGraphFailure :: "string \<Rightarrow> string \<Rightarrow> string \<Rightarrow> unit run_eff" where
  "recordGraphFailure i failure message =
     bnd (require i) (\<lambda>run.
     bnd (guardE (wr_engineVersion run = ''2'' \<and> has_plan run \<and> wr_status run \<notin> set terminalRuns) ''invalid_run_state'') (\<lambda>_.
     set_run i (\<lambda>r. r\<lparr>wr_failureCode := (case wr_failureCode r of None \<Rightarrow> Some failure | Some c \<Rightarrow> Some c),
       wr_failureMessage := (case wr_failureMessage r of None \<Rightarrow> Some message | Some m \<Rightarrow> Some m)\<rparr>)))"

definition diagnostic_target :: "string \<Rightarrow> int \<Rightarrow> diagnostic_result option run_eff" where
  "diagnostic_target i generation =
     bnd (require i) (\<lambda>run.
     ret (if wr_workflowGeneration run \<noteq> generation then Some GenerationChanged
          else if wr_status run \<notin> {RunQueued, RunRunning, RunWaitingApproval} then Some NoLongerActive else None))"

definition recordOrchestrationDiagnostics :: "run_env \<Rightarrow> string \<Rightarrow> int \<Rightarrow> string \<Rightarrow> diagnostic_result run_eff" where
  "recordOrchestrationDiagnostics env i generation diagnostic =
     bnd (diagnostic_target i generation) (\<lambda>refused.
       case refused of
         Some x \<Rightarrow> ret x
       | None \<Rightarrow>
           bnd (guardE (re_diagnosticOk env diagnostic) ''invalid_diagnostic'') (\<lambda>_.
           bnd (set_run i (\<lambda>r. r\<lparr>wr_orchestrationDiagnostics := Some diagnostic\<rparr>)) (\<lambda>_.
           ret DiagnosticUpdated)))"

definition clearOrchestrationDiagnostics :: "string \<Rightarrow> int \<Rightarrow> diagnostic_result run_eff" where
  "clearOrchestrationDiagnostics i generation =
     bnd (diagnostic_target i generation) (\<lambda>refused.
       case refused of
         Some x \<Rightarrow> ret x
       | None \<Rightarrow> bnd (set_run i (\<lambda>r. r\<lparr>wr_orchestrationDiagnostics := None\<rparr>)) (\<lambda>_. ret DiagnosticUpdated))"

definition failRun :: "run_env \<Rightarrow> string \<Rightarrow> string \<Rightarrow> string \<Rightarrow> string option \<Rightarrow> int option \<Rightarrow> unit run_eff" where
  "failRun env i failure message diagnostic generation =
     bnd (require i) (\<lambda>run.
       if wr_status run \<in> set terminalRuns then ret ()
       else
         bnd (guardE (case generation of None \<Rightarrow> True | Some g \<Rightarrow> wr_workflowGeneration run = g) ''workflow_generation_conflict'') (\<lambda>_.
         bnd (guardE (case diagnostic of None \<Rightarrow> True | Some d \<Rightarrow> re_diagnosticOk env d) ''invalid_diagnostic'') (\<lambda>_.
         bnd (now env) (\<lambda>t.
         set_run i (\<lambda>r. r\<lparr>wr_status := RunFailed, wr_failureCode := Some failure, wr_failureMessage := Some message,
           wr_orchestrationDiagnostics := diagnostic, wr_completedAt := Some t\<rparr>)))))"

definition requestCancellation :: "run_env \<Rightarrow> string \<Rightarrow> run_status run_eff" where
  "requestCancellation env i =
     bnd (require i) (\<lambda>run.
       if wr_status run \<in> set terminalRuns then ret (wr_status run)
       else
         bnd (case wr_cancelRequestedAt run of
                Some t0 \<Rightarrow> set_run i (\<lambda>r. r\<lparr>wr_status := RunCancelling\<rparr>)
              | None \<Rightarrow> bnd (now env) (\<lambda>t. set_run i (\<lambda>r. r\<lparr>wr_status := RunCancelling, wr_cancelRequestedAt := Some t\<rparr>))) (\<lambda>_.
         ret RunCancelling))"

definition recordCancellationResult :: "string \<Rightarrow> cancellation_result \<Rightarrow> unit run_eff" where
  "recordCancellationResult i result =
     bnd (require i) (\<lambda>run.
     bnd (guardE (wr_status run = RunCancelling) ''invalid_cancellation'') (\<lambda>_.
     bnd (ofSum (transitionCancellationResult (wr_cancellationResult run) result)) (\<lambda>x.
     set_run i (\<lambda>r. r\<lparr>wr_cancellationResult := Some x\<rparr>))))"

definition cancelled_attempt :: "step_attempt \<Rightarrow> step_attempt" where
  "cancelled_attempt a = (if sa_status a \<in> {StepPending, StepStarting, StepWaitingProvider} then a\<lparr>sa_status := StepCancelled\<rparr> else a)"

definition cancelRun :: "run_env \<Rightarrow> string \<Rightarrow> unit run_eff" where
  "cancelRun env i =
     bnd (require i) (\<lambda>run.
     bnd (guardE (wr_status run = RunCancelling) ''invalid_cancellation'') (\<lambda>_.
     bnd (now env) (\<lambda>t.
     bnd (set_run i (\<lambda>r. r\<lparr>wr_status := RunCancelled, wr_orchestrationDiagnostics := None, wr_completedAt := Some t\<rparr>)) (\<lambda>_.
     set_attempts i (map cancelled_attempt)))))"

subsection \<open>Retries\<close>

definition retry_attempt :: "step_attempt \<Rightarrow> step_attempt" where
  "retry_attempt prior = prior\<lparr>sa_attempt := sa_attempt prior + 1, sa_status := StepPending, sa_inputText := None, sa_outputText := None,
     sa_outputExternalUrl := None, sa_providerTaskId := None, sa_providerState := None, sa_diagnostics := None,
     sa_providerPollCount := 0, sa_nextPollDelayMs := None, sa_startedAt := None, sa_completedAt := None,
     sa_failureCategory := None, sa_safeFailureMessage := None, sa_retryable := None\<rparr>"

definition retry :: "string \<Rightarrow> string \<Rightarrow> bool \<Rightarrow> step_attempt run_eff" where
  "retry i stepId automatic =
     bnd (require i) (\<lambda>run.
     bnd (getS (\<lambda>s. find_last (of_step stepId) (attempts_of s i))) (\<lambda>prior.
     bnd (guardE (wr_status run = (if automatic then RunRunning else RunFailed)
            \<and> (case prior of None \<Rightarrow> False
               | Some p \<Rightarrow> sa_status p = StepFailed \<and> sa_attempt p < (if automatic then 3 else 10))) ''invalid_retry'') (\<lambda>_.
     let item = retry_attempt (the prior) in
     bnd (set_attempts i (\<lambda>as. as @ [item])) (\<lambda>_.
     bnd (if automatic then ret ()
          else set_run i (\<lambda>r. r\<lparr>wr_status := RunQueued, wr_currentStepId := Some stepId, wr_completedAt := None, wr_failureCode := None,
            wr_failureMessage := None, wr_orchestrationDiagnostics := None, wr_workflowGeneration := wr_workflowGeneration r + 1,
            wr_workflowInstanceId := None, wr_reservedWorkflowInstanceId := None, wr_workflowLaunchState := Unclaimed\<rparr>)) (\<lambda>_.
     ret item)))))"

text \<open>Both searches return references to the stored attempts: the last of the activation must be the last of the step.\<close>

definition createAutomaticRetryAttempt :: "string \<Rightarrow> string \<Rightarrow> string option \<Rightarrow> step_attempt run_eff" where
  "createAutomaticRetryAttempt i stepId activationId =
     bnd (getS (\<lambda>s. rs_attempts s i)) (\<lambda>stored.
     bnd (guardE (\<not> truthy activationId \<or> stored \<noteq> None) ''TypeError'') (\<lambda>_.
     bnd (getS (\<lambda>s. attempts_of s i)) (\<lambda>as.
     bnd (guardE (\<not> truthy activationId
            \<or> (case find_last (of_step stepId) as of
                 None \<Rightarrow> True | Some a \<Rightarrow> sa_graphActivationId a = activationId)) ''invalid_retry'') (\<lambda>_.
     retry i stepId True))))"

definition prepareManualRetry :: "string \<Rightarrow> string \<Rightarrow> run_detail option run_eff" where
  "prepareManualRetry i stepId = bnd (retry i stepId False) (\<lambda>_. getRun i)"

datatype retry_eligibility = RetryEligible string | LegacyReadOnly | NotFailed | NoFailedStep | AttemptLimit

definition manualRetryEligibility :: "(workflow_run \<Rightarrow> bool) \<Rightarrow> run_detail option \<Rightarrow> retry_eligibility" where
  "manualRetryEligibility isLegacyRunReadOnly detail =
     (case detail of
        None \<Rightarrow> NotFailed
      | Some (run, as) \<Rightarrow>
          if isLegacyRunReadOnly run then LegacyReadOnly
          else if wr_status run \<noteq> RunFailed then NotFailed
          else (case find_last (\<lambda>a. sa_status a = StepFailed) as of
                  None \<Rightarrow> NoFailedStep
                | Some a \<Rightarrow> if 10 \<le> sa_attempt a then AttemptLimit else RetryEligible (sa_stepId a)))"

end
