(* ===== verification/Workflow_Machine.thy ===== *)
theory Workflow_Machine
  imports Workflow_Runs
begin

text \<open>
  Histories of workflow runs: any sequence of requests to the store. Attempts are only appended, keep their identity
  and leave the state \<^verbatim>\<open>pending\<close> at most once, so that each is claimed by one worker only; identities are unique and the
  number of attempts per iteration is bounded; and a finished run stays finished, with one exception.
\<close>

section \<open>Requests\<close>

datatype run_request =
    CreateRun workflow_run | ClaimLaunch string int string | AttachInstance string int string | LaunchFailure string int string string
  | EnsureActivation string string string | ClaimNode string string string "string option"
  | BindSource string string int int conversation_source | ProviderDiagnostics string string int int string
  | ProviderTask string string int int string int | ProviderProgress string string int int string int "string option" "string option"
  | PollCount string string int int int | CompleteStep string string int int string "string option"
  | FailStep string string int int string string bool | CompleteRun string string string "string option"
  | GraphFailure string string string | RecordDiagnostics string int string | ClearDiagnostics string int
  | FailRun string string string "string option" "int option" | RequestCancel string | CancelResult string cancellation_result
  | CancelRun string | AutomaticRetry string string "string option" | ManualRetry string string

definition forget :: "'a run_eff \<Rightarrow> unit run_eff" where
  "forget m = bnd m (\<lambda>_. ret ())"

fun run_exec :: "run_env \<Rightarrow> run_request \<Rightarrow> unit run_eff" where
  "run_exec env (CreateRun r) = forget (createRun r)"
| "run_exec env (ClaimLaunch i g w) = forget (claimWorkflowLaunch env i g w)"
| "run_exec env (AttachInstance i g w) = attachWorkflowInstance i g w"
| "run_exec env (LaunchFailure i g w m) = recordWorkflowLaunchFailure i g w m"
| "run_exec env (EnsureActivation i st a) = forget (ensureGraphActivation i st a)"
| "run_exec env (ClaimNode i st inp a) = forget (claimGraphNode env i st inp a)"
| "run_exec env (BindSource i st n a c) = forget (bindConversationSource i st n a c)"
| "run_exec env (ProviderDiagnostics i st n a d) = recordProviderDiagnostics i st n a d"
| "run_exec env (ProviderTask i st n a task delay) = persistProviderTask i st n a task delay"
| "run_exec env (ProviderProgress i st n a state delay out url) = persistProviderProgress i st n a state delay out url"
| "run_exec env (PollCount i st n a delay) = forget (incrementPollCount i st n a delay)"
| "run_exec env (CompleteStep i st n a out url) = completeStep env i st n a out url"
| "run_exec env (FailStep i st n a c m b) = failStep env i st n a c m b"
| "run_exec env (CompleteRun i st out url) = completeRun env i st out url"
| "run_exec env (GraphFailure i c m) = recordGraphFailure i c m"
| "run_exec env (RecordDiagnostics i g d) = forget (recordOrchestrationDiagnostics env i g d)"
| "run_exec env (ClearDiagnostics i g) = forget (clearOrchestrationDiagnostics i g)"
| "run_exec env (FailRun i c m d g) = failRun env i c m d g"
| "run_exec env (RequestCancel i) = forget (requestCancellation env i)"
| "run_exec env (CancelResult i r) = recordCancellationResult i r"
| "run_exec env (CancelRun i) = cancelRun env i"
| "run_exec env (AutomaticRetry i st a) = forget (createAutomaticRetryAttempt i st a)"
| "run_exec env (ManualRetry i st) = forget (prepareManualRetry i st)"

fun run_all :: "run_env \<Rightarrow> run_request list \<Rightarrow> run_store \<Rightarrow> run_store" where
  "run_all env [] s = s"
| "run_all env (q # qs) s = run_all env qs (snd (run_exec env q s))"

section \<open>Attempts grow\<close>

definition ident :: "step_attempt \<Rightarrow> string \<times> int \<times> int" where
  "ident a = (sa_stepId a, sa_iteration a, sa_attempt a)"

text \<open>An attempt and a later version of it.\<close>

definition later :: "step_attempt \<Rightarrow> step_attempt \<Rightarrow> bool" where
  "later a b \<longleftrightarrow> ident b = ident a \<and> sa_graphActivationId b = sa_graphActivationId a \<and> (sa_status a \<noteq> StepPending \<longrightarrow> sa_status b \<noteq> StepPending)"

definition extends :: "step_attempt list \<Rightarrow> step_attempt list \<Rightarrow> bool" where
  "extends as bs \<longleftrightarrow> (\<exists>cs ds. bs = cs @ ds \<and> list_all2 later as cs)"

lemma later_refl [simp]: "later a a"
  by (simp add: later_def)

lemma later_trans: "later a b \<Longrightarrow> later b c \<Longrightarrow> later a c"
  by (auto simp: later_def)

lemma extends_refl [simp]: "extends as as"
  unfolding extends_def by (intro exI [of _ as] exI [of _ "[]"]) (simp add: list_all2_same)

lemma extends_append [simp]: "extends as (as @ ds)"
  unfolding extends_def by (intro exI [of _ as] exI [of _ ds]) (simp add: list_all2_same)

lemma extends_trans:
  assumes "extends as bs" and "extends bs cs"
  shows "extends as cs"
proof -
  obtain bs1 bs2 where bs: "bs = bs1 @ bs2" "list_all2 later as bs1" using assms(1) by (auto simp: extends_def)
  obtain cs1 cs2 where cs: "cs = cs1 @ cs2" "list_all2 later bs cs1" using assms(2) by (auto simp: extends_def)
  from cs(2) bs(1) obtain x y where xy: "cs1 = x @ y" "list_all2 later bs1 x" by (auto simp: list_all2_append1)
  have "list_all2 later as x" by (rule list_all2_trans [OF _ bs(2) xy(2)]) (rule later_trans)
  with cs(1) xy(1) show ?thesis by (auto simp: extends_def)
qed

lemma later_update_first: "(\<And>x. p x \<Longrightarrow> later x (f x)) \<Longrightarrow> list_all2 later xs (update_first p f xs)"
  by (induction xs) (auto simp: list_all2_same)

lemma later_update_last: "(\<And>x. p x \<Longrightarrow> later x (f x)) \<Longrightarrow> list_all2 later xs (update_last p f xs)"
  using later_update_first [of p f "rev xs"] by (simp add: update_last_def list_all2_rev1)

lemma extends_all2: "list_all2 later as bs \<Longrightarrow> extends as bs"
  unfolding extends_def by (intro exI [of _ bs] exI [of _ "[]"]) simp

section \<open>Identities and bounds\<close>

definition before :: "step_attempt \<Rightarrow> step_attempt \<Rightarrow> bool" where
  "before a b \<longleftrightarrow> sa_iteration a < sa_iteration b \<or> sa_iteration a = sa_iteration b \<and> sa_attempt a < sa_attempt b"

text \<open>The attempts of a step are in the order of their iterations and attempt numbers.\<close>

definition ordered :: "step_attempt list \<Rightarrow> bool" where
  "ordered as \<longleftrightarrow> sorted_wrt (\<lambda>a b. sa_stepId a = sa_stepId b \<longrightarrow> before a b) as"

definition numbered :: "step_attempt \<Rightarrow> bool" where
  "numbered a \<longleftrightarrow> 1 \<le> sa_iteration a \<and> 1 \<le> sa_attempt a \<and> sa_attempt a \<le> 10"

definition wf_attempts :: "step_attempt list \<Rightarrow> bool" where
  "wf_attempts as \<longleftrightarrow> ordered as \<and> list_all numbered as"

lemma ordered_distinct: "ordered as \<Longrightarrow> distinct (map ident as)"
proof (induction as)
  case (Cons a as)
  then have "ident a \<noteq> ident b" if "b \<in> set as" for b
    using that by (auto simp: ordered_def before_def ident_def)
  with Cons show ?case by (auto simp: ordered_def)
qed simp

lemma later_ident: "list_all2 later as bs \<Longrightarrow> map ident bs = map ident as"
  by (induction rule: list_all2_induct) (auto simp: later_def)

lemma ident_ordered: "map ident bs = map ident as \<Longrightarrow> ordered as \<Longrightarrow> ordered bs"
proof (induction as arbitrary: bs)
  case (Cons a as)
  then obtain b bs' where bs: "bs = b # bs'" "ident b = ident a" "map ident bs' = map ident as" by auto
  have "sa_stepId b = sa_stepId c \<longrightarrow> before b c" if "c \<in> set bs'" for c
  proof -
    have "ident ` set bs' = ident ` set as" using arg_cong [OF bs(3), of set] by simp
    with that have "ident c \<in> ident ` set as" by blast
    then obtain c' where "c' \<in> set as" "ident c' = ident c" by force
    with Cons.prems(2) bs(2) show ?thesis by (auto simp: ordered_def ident_def before_def)
  qed
  moreover have "ordered as" using Cons.prems(2) by (simp add: ordered_def)
  then have "ordered bs'" by (rule Cons.IH [OF bs(3)])
  ultimately show ?case unfolding bs(1) by (simp add: ordered_def)
qed (simp add: ordered_def)

lemma later_wf: "list_all2 later as bs \<Longrightarrow> wf_attempts as \<Longrightarrow> wf_attempts bs"
proof -
  assume all: "list_all2 later as bs" and wf: "wf_attempts as"
  have "list_all numbered bs"
    using all wf unfolding wf_attempts_def
    by (induction rule: list_all2_induct) (auto simp: later_def ident_def numbered_def ordered_def)
  with ident_ordered [OF later_ident [OF all]] wf show ?thesis by (simp add: wf_attempts_def)
qed

lemma append_wf:
  assumes "wf_attempts as" and "numbered b" and "\<And>a. a \<in> set as \<Longrightarrow> sa_stepId a = sa_stepId b \<Longrightarrow> before a b"
  shows "wf_attempts (as @ [b])"
  using assms by (auto simp: wf_attempts_def ordered_def sorted_wrt_append)

lemma max_iteration_ge: "a \<in> set as \<Longrightarrow> sa_iteration a \<le> max_iteration as"
  by (induction as) (auto simp: max_iteration_def)

lemma max_iteration_nonneg: "0 \<le> max_iteration as"
  by (induction as) (auto simp: max_iteration_def)

lemma find_last_Some:
  assumes "find_last p xs = Some x"
  shows "p x \<and> (\<exists>ys zs. xs = ys @ x # zs \<and> (\<forall>z \<in> set zs. \<not> p z))"
  using assms
proof (induction xs rule: rev_induct)
  case (snoc y xs)
  show ?case
  proof (cases "p y")
    case True
    with snoc.prems have "x = y" by (simp add: find_last_def)
    with True show ?thesis by force
  next
    case False
    with snoc.prems have "find_last p xs = Some x" by (simp add: find_last_def)
    with snoc.IH obtain ys zs where "p x" "xs = ys @ x # zs" "\<forall>z \<in> set zs. \<not> p z" by blast
    with False have "xs @ [y] = ys @ x # (zs @ [y])" "\<forall>z \<in> set (zs @ [y]). \<not> p z" by auto
    with \<open>p x\<close> show ?thesis by blast
  qed
qed (simp add: find_last_def)

lemma retry_wf:
  assumes wf: "wf_attempts as" and last: "find_last (of_step st) as = Some p" and few: "sa_attempt p < 10"
  shows "wf_attempts (as @ [retry_attempt p])"
proof (rule append_wf [OF wf])
  obtain ys zs where split: "as = ys @ p # zs" "\<forall>z \<in> set zs. \<not> of_step st z" "of_step st p"
    using find_last_Some [OF last] by blast
  show "numbered (retry_attempt p)"
    using wf few split(1) by (auto simp: wf_attempts_def numbered_def retry_attempt_def)
  fix a
  assume a: "a \<in> set as" "sa_stepId a = sa_stepId (retry_attempt p)"
  then have "sa_stepId a = sa_stepId p" by (simp add: retry_attempt_def)
  with a split have "a = p \<or> a \<in> set ys" by (auto simp: of_step_def)
  then show "before a (retry_attempt p)"
    using wf split(1) \<open>sa_stepId a = sa_stepId p\<close>
    by (auto simp: wf_attempts_def ordered_def sorted_wrt_append before_def retry_attempt_def)
qed

lemma activation_wf:
  assumes "wf_attempts as"
  shows "wf_attempts (as @ [new_attempt i st act (max_iteration (filter (of_step st) as) + 1) ag ck])"
proof (rule append_wf [OF assms])
  show "numbered (new_attempt i st act (max_iteration (filter (of_step st) as) + 1) ag ck)"
    using max_iteration_nonneg [of "filter (of_step st) as"] by (simp add: numbered_def new_attempt_def)
  fix a
  assume "a \<in> set as" "sa_stepId a = sa_stepId (new_attempt i st act (max_iteration (filter (of_step st) as) + 1) ag ck)"
  then have "a \<in> set (filter (of_step st) as)" by (simp add: new_attempt_def of_step_def)
  from max_iteration_ge [OF this] show "before a (new_attempt i st act (max_iteration (filter (of_step st) as) + 1) ag ck)"
    by (simp add: before_def new_attempt_def)
qed

section \<open>Every request keeps the attempts\<close>

definition wf_store :: "run_store \<Rightarrow> bool" where
  "wf_store s \<longleftrightarrow> (\<forall>i. wf_attempts (attempts_of s i))"

definition keeps :: "run_store \<Rightarrow> run_store \<Rightarrow> bool" where
  "keeps s t \<longleftrightarrow> (wf_store s \<longrightarrow> wf_store t) \<and> (\<forall>i. map_of (rs_runs s) i \<noteq> None \<longrightarrow>
     map_of (rs_runs t) i \<noteq> None \<and> extends (attempts_of s i) (attempts_of t i))"

interpretation keep: preorder_history keeps
  by unfold_locales (auto simp: keeps_def intro: extends_trans)

lemmas keep_rules = keep.always_bnd keep.always_handle keep.always_pure keep.always_getS

lemma keeps_refl [simp]: "keeps s s"
  by (simp add: keeps_def)

lemma attempts_of_simps [simp]:
  "attempts_of (s\<lparr>rs_runs := x\<rparr>) i = attempts_of s i" "attempts_of (s\<lparr>rs_ticks := n\<rparr>) i = attempts_of s i"
  "attempts_of (s\<lparr>rs_attempts := (rs_attempts s)(j \<mapsto> as)\<rparr>) i = (if i = j then as else attempts_of s i)"
  by (simp_all add: attempts_of_def)

lemma map_of_set_run: "map_of (map (\<lambda>(k, r). (k, if k = i then f r else r)) xs) j = map_option (\<lambda>r. if j = i then f r else r) (map_of xs j)"
  by (induction xs) auto

lemma keep_base:
  "always keeps (require i)" "always keeps (attempt i st n a)" "always keeps (now env)" "always keeps (getRun i)" "always keeps (set_run i f)"
proof -
  show "always keeps (set_run i f)"
    by (auto simp: always_def set_run_def modS_def keeps_def wf_store_def map_of_set_run)
qed (auto simp: always_def require_def attempt_def now_def getRun_def keeps_def wf_store_def split: option.splits)

lemma keep_set:
  assumes "\<And>as. list_all2 later as (f as)"
  shows "always keeps (set_attempts i f)"
  unfolding always_def set_attempts_def modS_eq
proof (intro allI impI)
  fix s r t
  assume t: "r = Inr () \<and> t = s\<lparr>rs_attempts := (rs_attempts s)(i \<mapsto> f (attempts_of s i))\<rparr>"
  have "wf_store t" if "wf_store s" using that t assms later_wf by (auto simp: wf_store_def)
  then show "keeps s t" using t assms extends_all2 by (auto simp: keeps_def)
qed

lemma keep_set_attempt: "(\<And>x. later x (f x)) \<Longrightarrow> always keeps (set_attempt i st n a f)"
  unfolding set_attempt_def by (rule keep_set) (rule later_update_first)

text \<open>Appending an attempt that is not yet there.\<close>

lemma keeps_append:
  assumes "wf_attempts (attempts_of s i) \<Longrightarrow> wf_attempts (attempts_of s i @ [b])"
  shows "keeps s (s\<lparr>rs_attempts := (rs_attempts s)(i \<mapsto> attempts_of s i @ [b])\<rparr>)"
  using assms by (auto simp: keeps_def wf_store_def)

lemma keep_retry: "always keeps (retry i st automatic)"
proof -
  have run: "always keeps (if automatic then ret () else set_run i f)" for f
    by (auto intro: keep_base)
  {
    fix s r t
    assume go: "retry i st automatic s = (r, t)"
    have "keeps s t"
    proof (cases "map_of (rs_runs s) i")
      case None
      with go show ?thesis by (auto simp: retry_def bnd_def require_def)
    next
      case (Some run)
      let ?as = "attempts_of s i"
      show ?thesis
      proof (cases "wr_status run = (if automatic then RunRunning else RunFailed) \<and> (case find_last (of_step st) ?as of None \<Rightarrow> False
            | Some p \<Rightarrow> sa_status p = StepFailed \<and> sa_attempt p < (if automatic then 3 else 10))")
        case False
        with go Some show ?thesis by (auto simp: retry_def bnd_def require_def getS_def guardE_def)
      next
        case True
        then obtain p where p: "find_last (of_step st) ?as = Some p" "sa_attempt p < 10"
          by (cases "find_last (of_step st) ?as") (auto split: if_splits)
        let ?u = "s\<lparr>rs_attempts := (rs_attempts s)(i \<mapsto> ?as @ [retry_attempt p])\<rparr>"
        let ?f = "\<lambda>r. r\<lparr>wr_status := RunQueued, wr_currentStepId := Some st, wr_completedAt := None, wr_failureCode := None,
            wr_failureMessage := None, wr_orchestrationDiagnostics := None, wr_workflowGeneration := wr_workflowGeneration r + 1,
            wr_workflowInstanceId := None, wr_reservedWorkflowInstanceId := None, wr_workflowLaunchState := Unclaimed\<rparr>"
        have "keeps s ?u" by (rule keeps_append) (rule retry_wf [OF _ p])
        moreover have "bnd (if automatic then ret () else set_run i ?f) (\<lambda>_. ret (retry_attempt p)) ?u = (r, t)"
          using go Some True p(1) by (simp add: retry_def bnd_def require_def getS_def guardE_def set_attempts_def modS_def Let_def)
        then have "keeps ?u t" by (rule alwaysD [OF keep.always_bnd [OF run keep.always_pure(1)]])
        ultimately show ?thesis by (rule keep.trans)
      qed
    qed
  }
  then show ?thesis by (auto simp: always_def)
qed

lemma keep_ensure: "always keeps (ensureGraphActivation i st act)"
  unfolding always_def
proof (intro allI impI)
  fix s r t
  assume go: "ensureGraphActivation i st act s = (r, t)"
  have "t = s \<or> (\<exists>ag ck. t = s\<lparr>rs_attempts := (rs_attempts s)(i \<mapsto> attempts_of s i
      @ [new_attempt i st act (max_iteration (filter (of_step st) (attempts_of s i)) + 1) ag ck])\<rparr>)"
    using go
    by (auto simp: ensureGraphActivation_def bnd_def require_def getS_def guardE_def set_attempts_def modS_def Let_def
        split: option.split_asm if_splits)
  then show "keeps s t" using keeps_append [OF activation_wf] by auto
qed

lemma keep_create: "always keeps (createRun run)"
proof -
  {
    fix s r t
    assume go: "createRun run s = (r, t)"
    let ?x = "run\<lparr>wr_currentStepId := Some (pl_entryNodeId (the (wr_executionPlan run)))\<rparr>"
    let ?k = "if truthy (wr_clientIdempotencyKey run) then (rs_idempotency s)(the (wr_clientIdempotencyKey run) \<mapsto> wr_id run) else rs_idempotency s"
    have "t = s \<or> map_of (rs_runs s) (wr_id run) = None \<and> t = s\<lparr>rs_runs := AList.update (wr_id run) ?x (rs_runs s),
        rs_attempts := (rs_attempts s)(wr_id run \<mapsto> []), rs_idempotency := ?k\<rparr>"
      using go by (auto simp: createRun_def bnd_def getS_def guardE_def modS_def getRun_def split: option.split_asm if_splits)
    then have "keeps s t"
      by (auto simp: keeps_def wf_store_def wf_attempts_def ordered_def update_conv' attempts_of_def)
  }
  then show ?thesis by (auto simp: always_def)
qed

lemma later_updates:
  "later x (x\<lparr>sa_conversationSource := c\<rparr>)" "later x (x\<lparr>sa_diagnostics := d\<rparr>)"
  "later x (x\<lparr>sa_providerTaskId := a, sa_providerState := b, sa_nextPollDelayMs := e, sa_status := StepWaitingProvider\<rparr>)"
  "later x (x\<lparr>sa_providerState := b, sa_nextPollDelayMs := e, sa_outputText := o1, sa_providerTaskUrl := u\<rparr>)"
  "later x (x\<lparr>sa_nextPollDelayMs := e, sa_providerPollCount := n\<rparr>)"
  "later x (x\<lparr>sa_status := StepSucceeded, sa_outputText := o1, sa_outputExternalUrl := u, sa_providerState := b, sa_completedAt := t\<rparr>)"
  "later x (x\<lparr>sa_status := StepFailed, sa_failureCategory := c', sa_safeFailureMessage := m, sa_retryable := r, sa_completedAt := t\<rparr>)"
  "later x (x\<lparr>sa_status := StepStarting, sa_inputText := o1, sa_startedAt := t\<rparr>)" "later x (cancelled_attempt x)"
  by (auto simp: later_def ident_def cancelled_attempt_def)

lemma keep_exec: "always keeps (run_exec env q)"
proof -
  have claim: "always keeps (claimGraphNode env i st inp a)" for i st inp a
    unfolding claimGraphNode_def Let_def
    by (auto intro!: keep_rules keep_base keep_set later_update_last later_updates split: option.split)
  have cancel: "always keeps (cancelRun env i)" for i
    unfolding cancelRun_def by (intro keep_rules keep_base keep_set) (simp add: list.rel_map list_all2_same later_updates)
  have launch: "always keeps (claimWorkflowLaunch env i g w)" for i g w
    unfolding claimWorkflowLaunch_def by (auto intro!: keep_rules keep_base)
  show ?thesis
    by (cases q)
       (auto simp: forget_def attachWorkflowInstance_def recordWorkflowLaunchFailure_def bindConversationSource_def Let_def
          recordProviderDiagnostics_def persistProviderTask_def persistProviderProgress_def incrementPollCount_def completeStep_def failStep_def
          completeRun_def recordGraphFailure_def diagnostic_target_def recordOrchestrationDiagnostics_def clearOrchestrationDiagnostics_def
          failRun_def requestCancellation_def recordCancellationResult_def createAutomaticRetryAttempt_def prepareManualRetry_def
          intro!: keep_rules keep_base keep_set_attempt later_updates keep_create keep_ensure keep_retry claim cancel launch
          split: option.split)
qed

lemma run_all_keeps: "keeps s (run_all env qs s)"
proof (induction qs arbitrary: s)
  case (Cons q qs)
  have "keeps s (snd (run_exec env q s))" using keep_exec by (cases "run_exec env q s") (auto simp: always_def)
  from keep.trans [OF this Cons.IH] show ?case by simp
qed simp

definition empty_runs :: run_store where
  "empty_runs = \<lparr>rs_runs = [], rs_attempts = Map.empty, rs_idempotency = Map.empty, rs_ticks = 0\<rparr>"

text \<open>C27. Whatever requests a store has served, the attempts of a run are identified by step, iteration and attempt number,
  iterations count from 1, and no step has more than ten attempts in an iteration.\<close>

theorem attempts_identified:
  "let as = attempts_of (run_all env qs empty_runs) i
   in distinct (map ident as) \<and> list_all (\<lambda>a. 1 \<le> sa_iteration a \<and> 1 \<le> sa_attempt a \<and> sa_attempt a \<le> 10) as"
proof -
  have "wf_store empty_runs" by (simp add: wf_store_def empty_runs_def attempts_of_def wf_attempts_def ordered_def)
  then have "wf_attempts (attempts_of (run_all env qs empty_runs) i)"
    using run_all_keeps [of empty_runs env qs] by (simp add: keeps_def wf_store_def)
  then show ?thesis by (auto simp: wf_attempts_def ordered_distinct numbered_def list_all_iff)
qed

section \<open>Each attempt is claimed once\<close>

lemma update_last_split: "p x \<Longrightarrow> \<forall>z \<in> set zs. \<not> p z \<Longrightarrow> update_last p f (ys @ x # zs) = ys @ f x # zs"
proof -
  assume "p x" "\<forall>z \<in> set zs. \<not> p z"
  moreover have "update_first p f (us @ x # vs) = us @ f x # vs" if "\<forall>u \<in> set us. \<not> p u" for us vs
    using that \<open>p x\<close> by (induction us) auto
  ultimately show ?thesis by (simp add: update_last_def)
qed

lemma claim_facts:
  assumes "claimGraphNode env i st inp act s = (Inr (a, True), t)"
  shows "(\<exists>x \<in> set (attempts_of s i). ident x = ident a \<and> sa_status x = StepPending)
    \<and> (\<exists>x \<in> set (attempts_of t i). ident x = ident a \<and> sa_status x \<noteq> StepPending) \<and> map_of (rs_runs t) i \<noteq> None"
proof -
  define p where "p = (if truthy act then in_activation st (the act) else of_step st)"
  define f where "f = (\<lambda>t (a :: step_attempt). a\<lparr>sa_status := StepStarting, sa_inputText := Some inp, sa_startedAt := Some t\<rparr>)"
  obtain run where run: "map_of (rs_runs s) i = Some run"
    using assms by (cases "map_of (rs_runs s) i") (auto simp: claimGraphNode_def bnd_def require_def)
  note body = assms [unfolded claimGraphNode_def Let_def, folded p_def]
  have guard: "wr_engineVersion run = ''2'' \<and> wr_status run \<notin> set terminalRuns"
    using body run by (auto simp: bnd_def require_def guardE_def split: if_splits)
  obtain item where item: "find_last p (attempts_of s i) = Some item"
    using body run guard by (cases "find_last p (attempts_of s i)") (auto simp: bnd_def require_def getS_def)
  have pending: "sa_status item = StepPending" "\<not> truthy (wr_failureCode run)"
    using body run guard item by (auto simp: bnd_def require_def getS_def split: if_splits)
  define w where "w = re_clock env (rs_ticks s)"
  have res: "a = f w item \<and> attempts_of t i = update_last p (f w) (attempts_of s i) \<and> map_of (rs_runs t) i \<noteq> None"
  proof (cases "wr_startedAt run")
    case None
    with body run guard item pending show ?thesis
      by (auto simp: bnd_def require_def getS_def guardE_def now_def set_attempts_def set_run_def modS_def ret_def w_def f_def map_of_set_run attempts_of_def)
  next
    case (Some t0)
    with body run guard item pending show ?thesis
      by (auto simp: bnd_def require_def getS_def guardE_def now_def set_attempts_def set_run_def modS_def ret_def w_def f_def map_of_set_run attempts_of_def)
  qed
  note res = res [THEN conjunct1] res [THEN conjunct2, THEN conjunct1] res [THEN conjunct2, THEN conjunct2]
  obtain ys zs where split: "attempts_of s i = ys @ item # zs" "\<forall>z \<in> set zs. \<not> p z" "p item"
    using find_last_Some [OF item] by blast
  have "attempts_of t i = ys @ f w item # zs" unfolding res(2) split(1) by (rule update_last_split [OF split(3,2)])
  then have "\<exists>x \<in> set (attempts_of t i). ident x = ident a \<and> sa_status x \<noteq> StepPending" unfolding res(1) by (simp add: f_def)
  moreover have "\<exists>x \<in> set (attempts_of s i). ident x = ident a \<and> sa_status x = StepPending"
    using split(1) pending(1) unfolding res(1) by (intro bexI [of _ item]) (auto simp: ident_def f_def)
  ultimately show ?thesis using res(3) by blast
qed

lemma extends_keeps_started:
  assumes "extends as bs" and "x \<in> set as" and "sa_status x \<noteq> StepPending"
  shows "\<exists>y \<in> set bs. ident y = ident x \<and> sa_status y \<noteq> StepPending"
proof -
  obtain cs ds where bs: "bs = cs @ ds" "list_all2 later as cs" using assms(1) by (auto simp: extends_def)
  obtain k where k: "k < length as" "as ! k = x" using assms(2) by (auto simp: in_set_conv_nth)
  with bs(2) have "later x (cs ! k)" "cs ! k \<in> set cs" by (auto simp: list_all2_conv_all_nth)
  then obtain y where "y \<in> set cs" "later x y" by blast
  with bs(1) assms(3) show ?thesis by (auto simp: later_def)
qed

text \<open>C7. A step attempt is executed by one worker only: once an attempt has been claimed, no later claim, with whatever
  requests in between, succeeds for the same attempt.\<close>

theorem attempt_claimed_once:
  assumes "wf_store s" and "claimGraphNode env i st inp act s = (Inr (a, True), t)"
    and "claimGraphNode env i st' inp' act' (run_all env qs t) = (Inr (b, True), v)"
  shows "ident b \<noteq> ident a"
proof
  let ?u = "run_all env qs t"
  assume same: "ident b = ident a"
  have "keeps s t"
    using alwaysD [OF keep_exec [of env "ClaimNode i st inp act"], of s "Inr ()" t] assms(2) by (simp add: forget_def bnd_def ret_def)
  then have "wf_store ?u" using assms(1) run_all_keeps [of t env qs] by (simp add: keeps_def)
  then have dist: "distinct (map ident (attempts_of ?u i))" by (simp add: wf_store_def wf_attempts_def ordered_distinct)
  obtain x where "x \<in> set (attempts_of t i)" "ident x = ident a" "sa_status x \<noteq> StepPending" using claim_facts [OF assms(2)] by blast
  moreover have "extends (attempts_of t i) (attempts_of ?u i)"
    using run_all_keeps [of t env qs] claim_facts [OF assms(2)] by (simp add: keeps_def)
  ultimately obtain y where y: "y \<in> set (attempts_of ?u i)" "ident y = ident a" "sa_status y \<noteq> StepPending"
    using extends_keeps_started by metis
  obtain z where z: "z \<in> set (attempts_of ?u i)" "ident z = ident b" "sa_status z = StepPending" using claim_facts [OF assms(3)] by blast
  have "inj_on ident (set (attempts_of ?u i))" using dist by (simp add: distinct_map)
  with y z same have "y = z" by (metis inj_onD)
  with y z show False by simp
qed

section \<open>Finished runs stay finished\<close>

text \<open>A run that ended with an outcome, whose orchestration instance is the attached one.\<close>

definition finished :: "run_status \<Rightarrow> workflow_run \<Rightarrow> bool" where
  "finished st r \<longleftrightarrow> st \<in> {RunSucceeded, RunCancelled} \<and> wr_status r = st \<and> wr_workflowLaunchState r = Attached
     \<and> wr_workflowInstanceId r = wr_reservedWorkflowInstanceId r"

definition run_is :: "string \<Rightarrow> (workflow_run \<Rightarrow> bool) \<Rightarrow> run_store \<Rightarrow> bool" where
  "run_is i p s \<longleftrightarrow> (case map_of (rs_runs s) i of None \<Rightarrow> False | Some r \<Rightarrow> p r)"

definition stable :: "string \<Rightarrow> (workflow_run \<Rightarrow> bool) \<Rightarrow> 'a run_eff \<Rightarrow> bool" where
  "stable i p m \<longleftrightarrow> triple (run_is i p) m (\<lambda>_. run_is i p) (\<lambda>_. run_is i p)"

lemma stable_bnd: "stable i p m \<Longrightarrow> (\<And>x. stable i p (f x)) \<Longrightarrow> stable i p (bnd m f)"
  unfolding stable_def by (rule triple_bnd)

lemma stable_require: "(\<And>run. (j = i \<longrightarrow> p run) \<Longrightarrow> stable i p (f run)) \<Longrightarrow> stable i p (bnd (require j) f)"
  unfolding stable_def
  by (rule triple_bnd [where R = "\<lambda>run s. run_is i p s \<and> (j = i \<longrightarrow> p run)"])
     (auto simp: triple_def require_def run_is_def intro: triple_pure split: option.splits)

lemma stable_guard: "(b \<Longrightarrow> stable i p (f ())) \<Longrightarrow> stable i p (bnd (guardE b e) f)"
  by (cases b) (auto simp: stable_def triple_def guardE_def bnd_def ret_def throw_def)

lemma stable_base:
  "stable i p (ret x)" "stable i p (throw e)" "stable i p (getS g)" "stable i p (ofSum v)" "stable i p (now env)" "stable i p (getRun j)"
  "stable i p (attempt j st n a)" "stable i p (set_attempts j h)" "stable i p (set_attempt j st n a h')"
  by (auto simp: stable_def triple_def now_def getRun_def attempt_def set_attempts_def set_attempt_def modS_def run_is_def ret_def throw_def
      getS_def ofSum_def split: option.splits sum.splits)

lemma stable_set_run: "(\<And>r. j = i \<Longrightarrow> p r \<Longrightarrow> p (f r)) \<Longrightarrow> stable i p (set_run j f)"
  by (auto simp: stable_def triple_def set_run_def modS_def run_is_def map_of_set_run split: option.splits)

lemma stable_if: "(b \<Longrightarrow> stable i p m) \<Longrightarrow> (\<not> b \<Longrightarrow> stable i p n) \<Longrightarrow> stable i p (if b then m else n)"
  by simp

lemma stable_create: "stable i p (createRun run)"
proof -
  have store: "triple (\<lambda>s. run_is i p s \<and> map_of (rs_runs s) (wr_id run) = None)
      (modS (\<lambda>s. s\<lparr>rs_runs := AList.update (wr_id run) r (rs_runs s), rs_attempts := f s, rs_idempotency := g s\<rparr>))
      (\<lambda>_. run_is i p) (\<lambda>_. run_is i p)" for r f g
    by (rule triple_modS) (auto simp: run_is_def update_conv split: option.splits)
  have new: "stable i p (bnd (getS (\<lambda>s. map_of (rs_runs s) (wr_id run))) (\<lambda>present. bnd (guardE (present = None) e) (\<lambda>_.
      bnd (modS (\<lambda>s. s\<lparr>rs_runs := AList.update (wr_id run) r (rs_runs s), rs_attempts := f s, rs_idempotency := g s\<rparr>)) (\<lambda>_. getRun (wr_id run)))))"
    for r f g e
    unfolding stable_def
    by (rule triple_bnd [where R = "\<lambda>x s. run_is i p s \<and> x = map_of (rs_runs s) (wr_id run)"], rule triple_getS, simp,
        rule triple_bnd [where R = "\<lambda>_ s. run_is i p s \<and> map_of (rs_runs s) (wr_id run) = None"], rule triple_guardE, simp, simp,
        rule triple_bnd [OF store], rule stable_base(6) [unfolded stable_def])
  show ?thesis unfolding createRun_def
    by (intro stable_guard stable_bnd stable_base) (auto split: option.split intro: stable_base new)
qed

lemmas stable_rules = stable_require stable_guard stable_if stable_bnd stable_base stable_set_run

lemma stable_exec: "stable i (finished st) (run_exec env q)"
proof (cases q)
  case (CreateRun r)
  then show ?thesis by (simp add: forget_def stable_bnd stable_base stable_create)
next
  case (EnsureActivation j s a)
  then show ?thesis
    by (auto simp: forget_def ensureGraphActivation_def Let_def intro!: stable_rules split: option.split)
qed (auto simp: forget_def claimWorkflowLaunch_def attachWorkflowInstance_def recordWorkflowLaunchFailure_def claimGraphNode_def
      bindConversationSource_def Let_def
      recordProviderDiagnostics_def persistProviderTask_def persistProviderProgress_def incrementPollCount_def completeStep_def failStep_def
      completeRun_def recordGraphFailure_def diagnostic_target_def recordOrchestrationDiagnostics_def clearOrchestrationDiagnostics_def
      failRun_def requestCancellation_def recordCancellationResult_def cancelRun_def createAutomaticRetryAttempt_def prepareManualRetry_def
      retry_def finished_def terminalRuns_def
      intro!: stable_rules split: option.split)

lemma run_all_stable: "run_is i (finished st) s \<Longrightarrow> run_is i (finished st) (run_all env qs s)"
proof (induction qs arbitrary: s)
  case (Cons q qs)
  have "run_is i (finished st) (snd (run_exec env q s))"
    using stable_exec [of i st env q] Cons.prems by (cases "run_exec env q s") (auto simp: stable_def triple_def split: sum.splits)
  with Cons.IH show ?case by simp
qed simp

text \<open>C8. A run that has succeeded, or was cancelled, with its orchestration instance attached keeps that outcome whatever
  requests follow: no retry, failure, cancellation, launch or completion changes it.\<close>

theorem finished_run_final:
  assumes "map_of (rs_runs s) i = Some r" and "wr_status r \<in> {RunSucceeded, RunCancelled}" and "wr_workflowLaunchState r = Attached"
    and "wr_workflowInstanceId r = wr_reservedWorkflowInstanceId r"
  shows "\<exists>r'. map_of (rs_runs (run_all env qs s)) i = Some r' \<and> wr_status r' = wr_status r \<and> wr_workflowLaunchState r' = Attached"
proof -
  have "run_is i (finished (wr_status r)) s" using assms by (auto simp: run_is_def finished_def)
  from run_all_stable [OF this, of env qs] show ?thesis by (auto simp: run_is_def finished_def split: option.splits)
qed

section \<open>Samples\<close>

definition sample_env :: run_env where
  "sample_env = \<lparr>re_clock = int, re_diagnosticOk = (\<lambda>_. True)\<rparr>"

definition sample_run :: workflow_run where
  "sample_run = \<lparr>wr_id = ''r'', wr_engineVersion = ''2'',
     wr_executionPlan = Some \<lparr>pl_planVersion = True, pl_entryNodeId = ''n'',
       pl_nodes = [\<lparr>pn_id = ''n'', pn_blockType = ''agent'', pn_agentId = Some ''a'', pn_sourceNodeId = None\<rparr>]\<rparr>,
     wr_agentSnapshots = [(''a'', ''key'')], wr_snapshots = [], wr_status = RunQueued, wr_currentStepId = None, wr_workflowInstanceId = None,
     wr_reservedWorkflowInstanceId = None, wr_workflowGeneration = 1, wr_workflowLaunchState = Unclaimed, wr_workflowLaunchFailure = None,
     wr_workflowLaunchAttemptedAt = None, wr_finalOutput = None, wr_finalExternalUrl = None, wr_cancelRequestedAt = None,
     wr_cancellationResult = None, wr_createdAt = 0, wr_startedAt = None, wr_completedAt = None, wr_failureCode = None,
     wr_failureMessage = None, wr_orchestrationDiagnostics = None, wr_clientIdempotencyKey = None\<rparr>"

lemmas effect_simps = bnd_def require_def getS_def guardE_def now_def set_attempts_def set_attempt_def set_run_def modS_def ret_def throw_def
  ofSum_def getRun_def attempt_def forget_def

lemmas run_defs = createRun_def claimWorkflowLaunch_def attachWorkflowInstance_def recordWorkflowLaunchFailure_def claimGraphNode_def
  ensureGraphActivation_def completeStep_def failStep_def completeRun_def requestCancellation_def cancelRun_def
  createAutomaticRetryAttempt_def retry_def retry_attempt_def has_plan_def node_agent_def new_attempt_def max_iteration_def
  in_activation_def of_step_def same_attempt_def find_last_def update_last_def cancelled_attempt_def attempts_of_def terminalRuns_def Let_def

text \<open>A cancelled run is revived when the launch that was under way attaches its instance.\<close>

theorem cancelled_run_revived:
  "map_option wr_status (map_of (rs_runs (run_all sample_env
     [CreateRun sample_run, ClaimLaunch ''r'' 1 ''w'', RequestCancel ''r'', CancelRun ''r''] empty_runs)) ''r'') = Some RunCancelled
   \<and> map_option wr_status (map_of (rs_runs (run_all sample_env
     [CreateRun sample_run, ClaimLaunch ''r'' 1 ''w'', RequestCancel ''r'', CancelRun ''r'', AttachInstance ''r'' 1 ''w''] empty_runs)) ''r'')
     = Some RunQueued"
  by (simp add: effect_simps run_defs empty_runs_def sample_run_def sample_env_def)

definition sample_attempt :: step_attempt where
  "sample_attempt = new_attempt ''r'' ''n'' ''x'' 1 ''a'' ''key''"

definition sample_store :: run_store where
  "sample_store = \<lparr>rs_runs = [(''r'', sample_run)], rs_attempts = [''r'' \<mapsto> [sample_attempt]], rs_idempotency = Map.empty, rs_ticks = 0\<rparr>"

theorem attempt_claimed_once_witness:
  "case claimGraphNode sample_env ''r'' ''n'' ''go'' None sample_store of
     (Inr (a, True), t) \<Rightarrow>
       (case claimGraphNode sample_env ''r'' ''n'' ''go'' None
               (run_all sample_env [FailStep ''r'' ''n'' 1 1 ''timeout'' ''late'' True, AutomaticRetry ''r'' ''n'' None] t) of
          (Inr (b, True), v) \<Rightarrow> ident b \<noteq> ident a
        | _ \<Rightarrow> False)
   | _ \<Rightarrow> False"
proof -
  have wf: "wf_store sample_store"
    by (auto simp: wf_store_def sample_store_def attempts_of_def wf_attempts_def ordered_def sample_attempt_def new_attempt_def numbered_def)
  obtain a t where one: "claimGraphNode sample_env ''r'' ''n'' ''go'' None sample_store = (Inr (a, True), t)"
    and t: "t = snd (claimGraphNode sample_env ''r'' ''n'' ''go'' None sample_store)"
    by (auto simp: effect_simps run_defs sample_store_def sample_attempt_def sample_run_def sample_env_def)
  obtain b v where two: "claimGraphNode sample_env ''r'' ''n'' ''go'' None
      (run_all sample_env [FailStep ''r'' ''n'' 1 1 ''timeout'' ''late'' True, AutomaticRetry ''r'' ''n'' None] t) = (Inr (b, True), v)"
    by (auto simp: t effect_simps run_defs sample_store_def sample_attempt_def sample_run_def sample_env_def)
  from attempt_claimed_once [OF wf one two] one two show ?thesis by simp
qed

theorem finished_run_final_witness:
  "\<exists>r'. map_of (rs_runs (run_all sample_env [RequestCancel ''r'', ManualRetry ''r'' ''n'', AttachInstance ''r'' 1 ''w'']
      (sample_store\<lparr>rs_runs := [(''r'', sample_run\<lparr>wr_status := RunSucceeded, wr_workflowLaunchState := Attached,
         wr_workflowInstanceId := Some ''w'', wr_reservedWorkflowInstanceId := Some ''w''\<rparr>)]\<rparr>))) ''r'' = Some r'
     \<and> wr_status r' = RunSucceeded \<and> wr_workflowLaunchState r' = Attached"
  using finished_run_final [of "sample_store\<lparr>rs_runs := [(''r'', sample_run\<lparr>wr_status := RunSucceeded, wr_workflowLaunchState := Attached,
         wr_workflowInstanceId := Some ''w'', wr_reservedWorkflowInstanceId := Some ''w''\<rparr>)]\<rparr>" "''r''"
      "sample_run\<lparr>wr_status := RunSucceeded, wr_workflowLaunchState := Attached,
         wr_workflowInstanceId := Some ''w'', wr_reservedWorkflowInstanceId := Some ''w''\<rparr>" sample_env
      "[RequestCancel ''r'', ManualRetry ''r'' ''n'', AttachInstance ''r'' 1 ''w'']"]
  by (simp del: run_all.simps)

text \<open>A claim withdraws a cancellation that is under way: the run goes on and can no longer be cancelled by the request.\<close>

theorem claim_withdraws_cancellation:
  "let t = run_all sample_env [RequestCancel ''r'', ClaimNode ''r'' ''n'' ''go'' None] sample_store
   in map_option wr_status (map_of (rs_runs t) ''r'') = Some RunRunning \<and> fst (run_exec sample_env (CancelRun ''r'') t) = Inl ''invalid_cancellation''"
  by (simp add: effect_simps run_defs sample_store_def sample_attempt_def sample_run_def sample_env_def)

section \<open>Runs can be completed\<close>

lemma find_skip: "(\<And>a. a \<in> set as \<Longrightarrow> \<not> p a) \<Longrightarrow> find p (as @ bs) = find p bs"
  by (induction as) auto

lemma update_first_skip: "(\<And>a. a \<in> set as \<Longrightarrow> \<not> p a) \<Longrightarrow> update_first p f (as @ bs) = as @ update_first p f bs"
  by (induction as) auto

lemma fresh_iteration:
  "a \<in> set as \<Longrightarrow> \<not> same_attempt st (max_iteration (filter (of_step st) as) + 1) n a"
  using max_iteration_ge [of a "filter (of_step st) as"] by (auto simp: same_attempt_def of_step_def)

definition run_agent :: "workflow_run \<Rightarrow> string \<Rightarrow> (string \<times> string) option" where
  "run_agent run stepId =
     (case wr_executionPlan run of
        None \<Rightarrow> None
      | Some plan \<Rightarrow>
          (case find (\<lambda>v. pn_id v = stepId) (pl_nodes plan) of
             None \<Rightarrow> None
           | Some node \<Rightarrow>
               if pn_blockType node \<noteq> ''agent'' \<and> pn_blockType node \<noteq> ''publish-github-pr'' then None
               else (case node_agent plan node of
                       None \<Rightarrow> None
                     | Some a \<Rightarrow> if a = [] then None else map_option (Pair a) (map_of (wr_agentSnapshots run) a))))"

lemma ensure_new:
  assumes "map_of (rs_runs s) i = Some run" and "wr_engineVersion run = ''2''" and "has_plan run" and "wr_status run \<notin> set terminalRuns"
    and "\<not> truthy (wr_failureCode run)" and "act \<noteq> []" and "find_last (in_activation st act) (attempts_of s i) = None"
    and "run_agent run st = Some (ag, key)"
  shows "run_exec env (EnsureActivation i st act) s
    = (Inr (), s\<lparr>rs_attempts := (rs_attempts s)(i \<mapsto> attempts_of s i
         @ [new_attempt i st act (max_iteration (filter (of_step st) (attempts_of s i)) + 1) ag key])\<rparr>)"
  using assms
  by (auto simp: forget_def ensureGraphActivation_def effect_simps run_agent_def has_plan_def Let_def
      split: option.split_asm if_split_asm)

lemma find_last_snoc [simp]: "find_last p (as @ [x]) = (if p x then Some x else find_last p as)"
  by (simp add: find_last_def)

lemma update_last_snoc [simp]: "p x \<Longrightarrow> update_last p f (as @ [x]) = as @ [f x]"
  by (simp add: update_last_def)

lemma claim_snoc:
  assumes "map_of (rs_runs s) i = Some run" and "wr_engineVersion run = ''2''" and "wr_status run \<notin> set terminalRuns"
    and "\<not> truthy (wr_failureCode run)" and "act \<noteq> []" and "attempts_of s i = as @ [x]" and "in_activation st act x" and "sa_status x = StepPending"
    and t_def: "t = snd (run_exec env (ClaimNode i st inp (Some act)) s)"
  shows "attempts_of t i = as @ [x\<lparr>sa_status := StepStarting, sa_inputText := Some inp, sa_startedAt := Some (re_clock env (rs_ticks s))\<rparr>]"
    and "\<exists>r. map_of (rs_runs t) i = Some r \<and> wr_status r = RunRunning \<and> wr_currentStepId r = Some st"
proof -
  have "truthy (Some act)" using assms(5) by (simp add: truthy_def)
  with assms(1-8) have "attempts_of t i = as @ [x\<lparr>sa_status := StepStarting, sa_inputText := Some inp, sa_startedAt := Some (re_clock env (rs_ticks s))\<rparr>]
    \<and> (\<exists>r. map_of (rs_runs t) i = Some r \<and> wr_status r = RunRunning \<and> wr_currentStepId r = Some st)"
    unfolding t_def
    by (cases "wr_startedAt run") (auto simp: claimGraphNode_def effect_simps Let_def map_of_set_run attempts_of_def)
  then show "attempts_of t i = as @ [x\<lparr>sa_status := StepStarting, sa_inputText := Some inp, sa_startedAt := Some (re_clock env (rs_ticks s))\<rparr>]"
    and "\<exists>r. map_of (rs_runs t) i = Some r \<and> wr_status r = RunRunning \<and> wr_currentStepId r = Some st" by blast+
qed

lemma complete_snoc:
  assumes "attempts_of s i = as @ [x]" and "same_attempt st n 1 x" and "\<And>a. a \<in> set as \<Longrightarrow> \<not> same_attempt st n 1 a" and "sa_status x = StepStarting"
    and t_def: "t = snd (run_exec env (CompleteStep i st n 1 out url) s)"
  shows "\<exists>z. attempts_of t i = as @ [z] \<and> sa_status z = StepSucceeded \<and> sa_stepId z = st" and "rs_runs t = rs_runs s"
  using assms(1-4) unfolding t_def
  by (auto simp: completeStep_def effect_simps find_skip update_first_skip attempts_of_def same_attempt_def)

text \<open>C34. A queued or running run that has not failed can always be driven to success: activating a step of its plan, claiming it,
  completing it and completing the run ends with the run succeeded and the step's output as its result.\<close>

theorem active_run_can_succeed:
  assumes "map_of (rs_runs s) i = Some run" and "wr_engineVersion run = ''2''" and "has_plan run" and "wr_status run \<in> {RunQueued, RunRunning}"
    and "\<not> truthy (wr_failureCode run)" and "act \<noteq> []" and "find_last (in_activation st act) (attempts_of s i) = None"
    and "run_agent run st = Some (ag, key)"
  shows "\<exists>r'. map_of (rs_runs (run_all env
       [EnsureActivation i st act, ClaimNode i st inp (Some act),
        CompleteStep i st (max_iteration (filter (of_step st) (attempts_of s i)) + 1) 1 out url, CompleteRun i st out url] s)) i = Some r'
     \<and> wr_status r' = RunSucceeded \<and> wr_finalOutput r' = Some out"
proof -
  let ?as = "attempts_of s i" let ?n = "max_iteration (filter (of_step st) ?as) + 1"
  let ?x = "new_attempt i st act ?n ag key"
  let ?s1 = "s\<lparr>rs_attempts := (rs_attempts s)(i \<mapsto> ?as @ [?x])\<rparr>"
  have one: "snd (run_exec env (EnsureActivation i st act) s) = ?s1"
    using ensure_new [of s i run act st ag key env] assms by (auto simp: terminalRuns_def)
  have at1: "attempts_of ?s1 i = ?as @ [?x]" by (simp add: attempts_of_def)
  have pending: "in_activation st act ?x" "sa_status ?x = StepPending" by (simp_all add: in_activation_def new_attempt_def)
  define s2 where "s2 = snd (run_exec env (ClaimNode i st inp (Some act)) ?s1)"
  have run1: "map_of (rs_runs ?s1) i = Some run" "wr_status run \<notin> set terminalRuns" using assms(1,4) by (auto simp: terminalRuns_def)
  note claim = claim_snoc [OF run1(1) assms(2) run1(2) assms(5,6) at1 pending s2_def]
  then obtain r2 where r2: "map_of (rs_runs s2) i = Some r2" "wr_status r2 = RunRunning" "wr_currentStepId r2 = Some st" by blast
  define s3 where "s3 = snd (run_exec env (CompleteStep i st ?n 1 out url) s2)"
  have this_one: "same_attempt st ?n 1 (?x\<lparr>sa_status := StepStarting, sa_inputText := Some inp, sa_startedAt := Some t\<rparr>)" for t
    by (simp add: same_attempt_def new_attempt_def)
  note complete = complete_snoc [OF claim(1) this_one fresh_iteration _ s3_def]
  then obtain z where z: "attempts_of s3 i = ?as @ [z]" "sa_status z = StepSucceeded" "sa_stepId z = st" and runs: "rs_runs s3 = rs_runs s2"
    by auto
  show ?thesis unfolding run_all.simps one s2_def [symmetric] s3_def [symmetric]
    using r2 z runs by (auto simp: completeRun_def effect_simps of_step_def map_of_set_run)
qed

theorem active_run_can_succeed_witness:
  "\<exists>r'. map_of (rs_runs (run_all sample_env
       [EnsureActivation ''r'' ''n'' ''act'', ClaimNode ''r'' ''n'' ''go'' (Some ''act''),
        CompleteStep ''r'' ''n'' (max_iteration (filter (of_step ''n'') (attempts_of sample_store ''r'')) + 1) 1 ''done'' None,
        CompleteRun ''r'' ''n'' ''done'' None] sample_store)) ''r'' = Some r'
     \<and> wr_status r' = RunSucceeded \<and> wr_finalOutput r' = Some ''done''"
  by (rule active_run_can_succeed [of _ _ sample_run _ _ "''a''" "''key''"])
     (simp_all add: sample_store_def sample_run_def has_plan_def truthy_def run_agent_def node_agent_def attempts_of_def find_last_def
        in_activation_def sample_attempt_def new_attempt_def)

end
