(* ===== verification/Feature_Requests.thy ===== *)
theory Feature_Requests
  imports Change_Policy Effect_Logic
begin

text \<open>
  Feature requests and the issues created from them: the scripts \<^verbatim>\<open>render-feature-issue.mjs\<close>,
  \<^verbatim>\<open>feature-request-validation.mjs\<close>, \<^verbatim>\<open>create-feature-issues-from-requests.mjs\<close>, \<^verbatim>\<open>reprocess-feature-requests.mjs\<close> and
  \<^verbatim>\<open>changed-feature-requests.mjs\<close>.

  Files are a map from paths relative to the repository to texts, and writing and removing them succeeds. The schema file,
  the contract it names, \<^verbatim>\<open>JSON.parse\<close>, the clock, \<^verbatim>\<open>git\<close> and the program \<^verbatim>\<open>gh\<close> with the state of GitHub are parameters: \<open>gh\<close> takes the files
  (it reads the body of an issue from one), the arguments and the state. Log lines are not modelled.
\<close>

section \<open>Definitions\<close>

subsection \<open>Schema and errors\<close>

record schema_field =
  sf_id :: string
  sf_key :: string
  sf_label :: string
  sf_required :: bool

record request_lifecycle =
  rl_field :: "string option"
  rl_allowedValues :: "string list option"
  rl_defaultValue :: "string option"

record feature_schema =
  fs_lifecycle :: "request_lifecycle option"
  fs_fields :: "schema_field list"
  fs_doneLabel :: string
  fs_doneOptions :: "string list"

datatype feature_error =
    MissingFields "(string \<times> string) list"
  | NotAnObject
  | MissingRequestId
  | InvalidStatus string "string list"
  | MissingSections "string list"
  | MissingContract
  | MissingDoneItems "string list"
  | ReadError
  | InvalidJson
  | TypeError
  | RequestIdMismatch string
  | DuplicateRequestId string string string
  | CommandFailed string
  | EmptySpecificPath
  | UnsafePath string
  | PathOutsideFeatures string
  | MissingFile string
  | NotCanonical string
  | InvalidMode
  | MissingBase

record 'w feature_env =
  fe_schema :: feature_schema
  fe_contractText :: string
  fe_parse :: "string \<Rightarrow> js_value option"
  fe_clock :: "nat \<Rightarrow> int"
  fe_ghRepo :: "string option"
  fe_gh :: "(string \<rightharpoonup> string) \<Rightarrow> string list \<Rightarrow> 'w \<Rightarrow> (string + string) \<times> 'w"

record 'w feature_world =
  fw_files :: "string \<rightharpoonup> string"
  fw_github :: 'w
  fw_ticks :: nat

type_synonym ('w, 'a) feature_eff = "('w feature_world, feature_error, 'a) eff"

definition contract :: "'w feature_env \<Rightarrow> string" where
  "contract env = js_trim (fe_contractText env)"

subsection \<open>Rendering\<close>

text \<open>\<^verbatim>\<open>a ?? b\<close> on property values.\<close>

definition coalesce :: "js_value option \<Rightarrow> js_value option \<Rightarrow> js_value option" where
  "coalesce a b = (case a of None \<Rightarrow> b | Some JNull \<Rightarrow> b | Some v \<Rightarrow> Some v)"

definition valueFor :: "js_value \<Rightarrow> schema_field \<Rightarrow> js_value option" where
  "valueFor data field = coalesce (js_get data (sf_key field)) (js_get data (sf_id field))"

definition normalizeBodyValue :: "js_value option \<Rightarrow> string" where
  "normalizeBodyValue v =
     (case v of
        Some (JArr items) \<Rightarrow> js_join newline (filter (\<lambda>t. t \<noteq> []) (map (\<lambda>i. js_trim (js_String i)) items))
      | None \<Rightarrow> []
      | Some JNull \<Rightarrow> []
      | Some x \<Rightarrow> js_trim (js_String x))"

definition missing_fields :: "feature_schema \<Rightarrow> js_value \<Rightarrow> (string \<times> string) list" where
  "missing_fields schema data =
     map (\<lambda>f. (sf_key f, sf_id f)) (filter (\<lambda>f. sf_required f \<and> normalizeBodyValue (valueFor data f) = []) (fs_fields schema))"

definition blank_line :: string where
  "blank_line = newline @ newline"

definition heading :: "string \<Rightarrow> string \<Rightarrow> string" where
  "heading label body = ''## '' @ label @ blank_line @ body"

definition field_section :: "js_value \<Rightarrow> schema_field \<Rightarrow> string" where
  "field_section data f =
     heading (sf_label f) (let body = normalizeBodyValue (valueFor data f) in if body = [] then ''_Not specified._'' else body)"

definition done_item :: "string \<Rightarrow> string" where
  "done_item option = ''- [ ] '' @ option"

definition done_section :: "feature_schema \<Rightarrow> string" where
  "done_section schema = heading (fs_doneLabel schema) (js_join newline (map done_item (fs_doneOptions schema)))"

text \<open>\<^verbatim>\<open>sections.splice(sections.length - 1, 0, x)\<close>: before the last one.\<close>

definition renderFeatureIssue :: "'w feature_env \<Rightarrow> js_value \<Rightarrow> feature_error + string" where
  "renderFeatureIssue env data =
     (let schema = fe_schema env; missing = missing_fields schema data
      in if missing \<noteq> [] then Inl (MissingFields missing)
         else let sections = contract env # map (field_section data) (fs_fields schema)
              in Inr (js_join blank_line (butlast sections @ [done_section schema, last sections]) @ newline))"

subsection \<open>Validation\<close>

definition trimmed :: "js_value option \<Rightarrow> string" where
  "trimmed v = js_trim (case coalesce v None of None \<Rightarrow> [] | Some x \<Rightarrow> js_String x)"

definition requestStatusFor :: "feature_schema \<Rightarrow> js_value \<Rightarrow> feature_error + string" where
  "requestStatusFor schema data =
     (let lifecycle = (case fs_lifecycle schema of
            None \<Rightarrow> \<lparr>rl_field = None, rl_allowedValues = None, rl_defaultValue = None\<rparr> | Some l \<Rightarrow> l);
          field = (case rl_field lifecycle of None \<Rightarrow> ''requestStatus'' | Some f \<Rightarrow> f);
          allowed = (case rl_allowedValues lifecycle of
            None \<Rightarrow> [''planned'', ''ready''] | Some vs \<Rightarrow> if vs = [] then [''planned'', ''ready''] else vs);
          default = (case rl_defaultValue lifecycle of None \<Rightarrow> ''ready'' | Some d \<Rightarrow> d);
          status = (if field \<in> set (js_keys data) then trimmed (js_get data field) else default)
      in if status \<in> set allowed then Inr status else Inl (InvalidStatus field allowed))"

definition validateFeatureRequestData :: "'w feature_env \<Rightarrow> js_value \<Rightarrow> feature_error + string" where
  "validateFeatureRequestData env data =
     (let schema = fe_schema env
      in if \<not> js_is_object data then Inl NotAnObject
         else if trimmed (js_get data ''requestId'') = [] then Inl MissingRequestId
         else bindR (requestStatusFor schema data) (\<lambda>_.
           let missing = missing_fields schema data
           in if missing \<noteq> [] then Inl (MissingFields missing)
              else bindR (renderFeatureIssue env data) (\<lambda>rendered.
                let absent = map sf_label (filter (\<lambda>f. \<not> sublist (''## '' @ sf_label f) rendered) (fs_fields schema))
                in if absent \<noteq> [] then Inl (MissingSections absent)
                   else if \<not> sublist (contract env) rendered then Inl MissingContract
                   else let undone = filter (\<lambda>x. \<not> sublist (done_item x) rendered) (fs_doneOptions schema)
                        in if undone \<noteq> [] then Inl (MissingDoneItems undone) else Inr rendered)))"

definition readFileSync :: "string \<Rightarrow> ('w, string) feature_eff" where
  "readFileSync path s = (case fw_files s path of None \<Rightarrow> (Inl ReadError, s) | Some t \<Rightarrow> (Inr t, s))"

definition parse_json :: "'w feature_env \<Rightarrow> string \<Rightarrow> ('w, js_value) feature_eff" where
  "parse_json env text = (case fe_parse env text of None \<Rightarrow> throw InvalidJson | Some v \<Rightarrow> ret v)"

definition parseFeatureRequestFile :: "'w feature_env \<Rightarrow> string \<Rightarrow> ('w, js_value) feature_eff" where
  "parseFeatureRequestFile env filePath =
     handle (bnd (readFileSync filePath) (parse_json env)) (\<lambda>_. throw ReadError)"

definition validateFeatureRequestFile :: "'w feature_env \<Rightarrow> string \<Rightarrow> ('w, string) feature_eff" where
  "validateFeatureRequestFile env filePath =
     bnd (parseFeatureRequestFile env filePath) (\<lambda>data. ofSum (validateFeatureRequestData env data))"

subsection \<open>Selecting requests\<close>

definition featureRequestDir :: string where
  "featureRequestDir = ''requests/features''"

definition featureRequestPattern :: "string \<Rightarrow> bool" where
  "featureRequestPattern path = one_segment ''requests/features/'' ''.json'' path"

text \<open>\<^verbatim>\<open>basename(path, ".json")\<close>.\<close>

definition basename_json :: "string \<Rightarrow> string" where
  "basename_json path =
     (let segment = last (js_split (CHR ''/'') (strip_end (\<lambda>c. c = CHR ''/'') path))
      in if path = ''.json'' then []
         else if suffix ''.json'' segment \<and> segment \<noteq> ''.json'' then take (length segment - 5) segment else segment)"

definition requestIdFromDataOrPath :: "js_value \<Rightarrow> string \<Rightarrow> string" where
  "requestIdFromDataOrPath data path =
     (let requestId = trimmed (js_get data ''requestId'') in if requestId \<noteq> [] then requestId else basename_json path)"

definition issueMarker :: "string \<Rightarrow> string" where
  "issueMarker requestId = ''<!-- feature-request-id: '' @ requestId @ '' -->''"

definition issueTitle :: "js_value \<Rightarrow> string" where
  "issueTitle data =
     (let featureId = trimmed (coalesce (js_get data ''featureId'') (js_get data ''feature-id''));
          tagged = (\<lambda>text. if featureId \<noteq> [] then ''['' @ featureId @ '']: '' @ text else text);
          explicitTitle = trimmed (js_get data ''title'')
      in if explicitTitle \<noteq> [] then tagged explicitTitle
         else let text = (case coalesce (js_get data ''objective'') None of None \<Rightarrow> [] | Some x \<Rightarrow> js_String x);
                  objective = (case find (\<lambda>l. l \<noteq> []) (map js_trim (js_split (CHR 0x0A) text)) of
                                 None \<Rightarrow> ''Feature request'' | Some l \<Rightarrow> l)
              in tagged (if 90 < length objective then strip_end js_ws (take 87 objective) @ ''...'' else objective))"

definition managedLabels :: "(string \<times> string \<times> string) list" where
  "managedLabels =
     [(''type:feature'', ''0e8a16'', ''Feature request''), (''status:ready-for-codex'', ''fbca04'', ''Ready for Codex implementation'')]"

definition labelNamesFor :: "js_value \<Rightarrow> string list" where
  "labelNamesFor data =
     (case js_get data ''labels'' of Some (JArr vs) \<Rightarrow> map js_String vs | _ \<Rightarrow> map fst managedLabels)"

definition lines_of :: "string \<Rightarrow> string list" where
  "lines_of text = filter featureRequestPattern (filter (\<lambda>l. l \<noteq> []) (js_split (CHR 0x0A) text))"

text \<open>A run of \<^verbatim>\<open>git\<close>: its arguments and its output, trimmed by the caller of the process.\<close>

type_synonym git_exec = "string list \<Rightarrow> feature_error + string"

definition allFeatureRequests :: "git_exec \<Rightarrow> feature_error + string list" where
  "allFeatureRequests gitExec = bindR (gitExec [''ls-files'', featureRequestDir @ ''/*.json'']) (\<lambda>out. Inr (lines_of out))"

record request_vars =
  rv_files :: "string option"
  rv_before :: "string option"
  rv_after :: "string option"
  rv_mode :: "string option"

definition or_else :: "string option \<Rightarrow> string \<Rightarrow> string" where
  "or_else v d = (if truthy v then the v else d)"

definition all_zero :: "string \<Rightarrow> bool" where
  "all_zero s = (s \<noteq> [] \<and> list_all (\<lambda>c. c = CHR ''0'') s)"

definition changedFeatureRequestsFromEnv :: "git_exec \<Rightarrow> request_vars \<Rightarrow> feature_error + string list" where
  "changedFeatureRequestsFromEnv gitExec env =
     (if truthy (rv_files env)
      then Inr (filter featureRequestPattern (filter (\<lambda>l. l \<noteq> []) (map js_trim (js_lines (the (rv_files env))))))
      else let after = or_else (rv_after env) ''HEAD''; glob = featureRequestDir @ ''/*.json''
           in bindR (if \<not> truthy (rv_before env) \<or> all_zero (the (rv_before env))
                     then gitExec [''diff-tree'', ''--no-commit-id'', ''--name-only'', ''--diff-filter=AM'', ''-r'', after, ''--'', glob]
                     else gitExec [''diff'', ''--name-only'', ''--diff-filter=AM'', the (rv_before env), after, ''--'', glob])
                (\<lambda>out. Inr (lines_of out)))"

definition requestPaths :: "git_exec \<Rightarrow> request_vars \<Rightarrow> feature_error + string list" where
  "requestPaths gitExec env =
     bindR (if or_else (rv_mode env) ''changed'' = ''all'' then allFeatureRequests gitExec else changedFeatureRequestsFromEnv gitExec env)
       (\<lambda>paths. Inr (filter featureRequestPattern (js_dedup paths)))"

definition changedFeatureRequestFiles :: "git_exec \<Rightarrow> string option \<Rightarrow> string \<Rightarrow> feature_error + string list" where
  "changedFeatureRequestFiles git base head =
     (if \<not> truthy base then Inl MissingBase
      else bindR (git [''diff'', ''--name-only'', ''--diff-filter=AM'', the base, head, ''--'', ''requests/features/*.json''])
             (\<lambda>out. Inr (js_dedup (lines_of out))))"

subsection \<open>Issues\<close>

text \<open>A run of \<^verbatim>\<open>gh\<close>, with the repository of the environment appended and the output trimmed.\<close>

definition gh :: "'w feature_env \<Rightarrow> string list \<Rightarrow> ('w, string) feature_eff" where
  "gh env args s =
     (case fe_gh env (fw_files s) (args @ (if truthy (fe_ghRepo env) then [''--repo'', the (fe_ghRepo env)] else [])) (fw_github s) of
        (Inl err, w) \<Rightarrow> (Inl (CommandFailed err), s\<lparr>fw_github := w\<rparr>)
      | (Inr out, w) \<Rightarrow> (Inr (js_trim out), s\<lparr>fw_github := w\<rparr>))"

definition already_exists :: "feature_error \<Rightarrow> bool" where
  "already_exists e = (case e of CommandFailed err \<Rightarrow> rx_test (rlit_i ''already exists'') err | _ \<Rightarrow> False)"

fun ensureManagedLabels :: "'w feature_env \<Rightarrow> string list \<Rightarrow> ('w, unit) feature_eff" where
  "ensureManagedLabels env [] = ret ()"
| "ensureManagedLabels env (label # labels) =
     (case map_of managedLabels label of
        None \<Rightarrow> ensureManagedLabels env labels
      | Some (color, description) \<Rightarrow>
          bnd (handle (bnd (gh env [''label'', ''create'', label, ''--color'', color, ''--description'', description]) (\<lambda>_. ret ()))
                 (\<lambda>e. if already_exists e then ret () else throw e)) (\<lambda>_.
          ensureManagedLabels env labels))"

text \<open>\<^verbatim>\<open>new Date().toISOString().replace(/[:.]/g, '-')\<close>.\<close>

definition timestamp :: "'w feature_env \<Rightarrow> ('w, string) feature_eff" where
  "timestamp env s =
     (Inr (map (\<lambda>c. if c = CHR '':'' \<or> c = CHR ''.'' then CHR ''-'' else c) (toISOString (fe_clock env (fw_ticks s)))),
      s\<lparr>fw_ticks := fw_ticks s + 1\<rparr>)"

text \<open>\<^verbatim>\<open>v[0]\<close> and whether the result counts as true.\<close>

definition first_item :: "js_value \<Rightarrow> feature_error + js_value option" where
  "first_item v =
     (case v of
        JNull \<Rightarrow> Inl TypeError
      | JArr vs \<Rightarrow> Inr (case vs of [] \<Rightarrow> None | x # _ \<Rightarrow> Some x)
      | JStr s \<Rightarrow> Inr (case s of [] \<Rightarrow> None | c # _ \<Rightarrow> Some (JStr [c]))
      | JObj kvs \<Rightarrow> Inr (js_get v ''0'')
      | _ \<Rightarrow> Inr None)"

definition present :: "js_value option \<Rightarrow> bool" where
  "present v =
     (case v of
        None \<Rightarrow> False | Some JNull \<Rightarrow> False | Some (JBool b) \<Rightarrow> b | Some (JNum n) \<Rightarrow> n \<noteq> 0 | Some (JStr s) \<Rightarrow> s \<noteq> [] | Some _ \<Rightarrow> True)"

definition search_args :: "string \<Rightarrow> string list" where
  "search_args requestId =
     [''issue'', ''list'', ''--state'', ''all'', ''--search'', issueMarker requestId @ '' in:body'', ''--json'', ''number,url'', ''--limit'', ''1'']"

definition findExistingIssue :: "'w feature_env \<Rightarrow> string \<Rightarrow> ('w, js_value option) feature_eff" where
  "findExistingIssue env requestId =
     bnd (gh env (search_args requestId)) (\<lambda>output.
     bnd (parse_json env (if output = [] then ''[]'' else output)) (\<lambda>v.
     ofSum (first_item v)))"

text \<open>The digits after the last slash.\<close>

definition nat_of_digits :: "string \<Rightarrow> nat" where
  "nat_of_digits s = foldl (\<lambda>n c. 10 * n + (code c - 48)) 0 s"

definition issueNumberFromUrl :: "string \<Rightarrow> nat option" where
  "issueNumberFromUrl url =
     (let parts = js_split (CHR ''/'') url; tail = last parts
      in if 1 < length parts \<and> tail \<noteq> [] \<and> list_all digit tail then Some (nat_of_digits tail) else None)"

record loaded_request =
  lr_path :: string
  lr_data :: js_value
  lr_requestId :: string
  lr_status :: string
  lr_body :: string

definition loadAndRenderRequest :: "'w feature_env \<Rightarrow> string \<Rightarrow> ('w, loaded_request) feature_eff" where
  "loadAndRenderRequest env path =
     bnd (readFileSync path) (\<lambda>text.
     bnd (parse_json env text) (\<lambda>data.
     bnd (guardE (data \<noteq> JNull) TypeError) (\<lambda>_.
     let requestId = requestIdFromDataOrPath data path in
     bnd (guardE (present (js_get data ''requestId'') \<and> trimmed (js_get data ''requestId'') = basename_json path) (RequestIdMismatch path)) (\<lambda>_.
     bnd (ofSum (validateFeatureRequestData env data)) (\<lambda>_.
     bnd (ofSum (requestStatusFor (fe_schema env) data)) (\<lambda>status.
     bnd (ofSum (renderFeatureIssue env data)) (\<lambda>rendered.
     ret \<lparr>lr_path = path, lr_data = data, lr_requestId = requestId, lr_status = status,
          lr_body = issueMarker requestId @ blank_line @ rendered\<rparr>)))))))"

datatype request_result =
    Planned string string
  | Skipped string string js_value
  | WouldCreate string string
  | Created string string string "nat option"

definition plannedResult :: "loaded_request \<Rightarrow> request_result" where
  "plannedResult request = Planned (lr_path request) (lr_requestId request)"

definition writeFileSync :: "string \<Rightarrow> string \<Rightarrow> ('w, unit) feature_eff" where
  "writeFileSync path text = modS (\<lambda>s. s\<lparr>fw_files := (fw_files s)(path \<mapsto> text)\<rparr>)"

text \<open>\<^verbatim>\<open>if (existsSync(path)) rmSync(path)\<close>.\<close>

definition remove_file :: "string \<Rightarrow> ('w, unit) feature_eff" where
  "remove_file path = modS (\<lambda>s. s\<lparr>fw_files := (fw_files s)(path := None)\<rparr>)"

definition create_args :: "string \<Rightarrow> string \<Rightarrow> string list \<Rightarrow> string list" where
  "create_args title bodyPath labels =
     [''issue'', ''create'', ''--title'', title, ''--body-file'', bodyPath] @ concat (map (\<lambda>l. [''--label'', l]) labels)"

definition createIssueFromLoaded :: "'w feature_env \<Rightarrow> loaded_request \<Rightarrow> ('w, request_result) feature_eff" where
  "createIssueFromLoaded env request =
     (if lr_status request \<noteq> ''ready'' then ret (plannedResult request)
      else
        bnd (findExistingIssue env (lr_requestId request)) (\<lambda>existing.
          if present existing then ret (Skipped (lr_path request) (lr_requestId request) (the existing))
          else
            let labels = labelNamesFor (lr_data request) in
            bnd (ensureManagedLabels env labels) (\<lambda>_.
            bnd (timestamp env) (\<lambda>t.
            let bodyPath = ''.feature-issue-body-'' @ t @ ''.md'' in
            bnd (writeFileSync bodyPath (lr_body request)) (\<lambda>_.
            finallyE
              (bnd (gh env (create_args (issueTitle (lr_data request)) bodyPath labels)) (\<lambda>url.
               ret (Created (lr_path request) (lr_requestId request) url (issueNumberFromUrl url))))
              (remove_file bodyPath))))))"

definition createIssue :: "'w feature_env \<Rightarrow> string \<Rightarrow> ('w, request_result) feature_eff" where
  "createIssue env path = bnd (loadAndRenderRequest env path) (createIssueFromLoaded env)"

fun first_duplicate :: "(string \<times> string) list \<Rightarrow> loaded_request list \<Rightarrow> feature_error option" where
  "first_duplicate seen [] = None"
| "first_duplicate seen (r # rs) =
     (case map_of seen (lr_requestId r) of
        Some path \<Rightarrow> Some (DuplicateRequestId (lr_requestId r) path (lr_path r))
      | None \<Rightarrow> first_duplicate ((lr_requestId r, lr_path r) # seen) rs)"

definition validateSelectedRequests :: "'w feature_env \<Rightarrow> string list \<Rightarrow> ('w, loaded_request list) feature_eff" where
  "validateSelectedRequests env paths =
     bnd (mapE (loadAndRenderRequest env) paths) (\<lambda>requests.
       case first_duplicate [] requests of Some e \<Rightarrow> throw e | None \<Rightarrow> ret requests)"

definition process_one :: "'w feature_env \<Rightarrow> bool \<Rightarrow> loaded_request \<Rightarrow> ('w, request_result) feature_eff" where
  "process_one env dryRun request =
     (if lr_status request \<noteq> ''ready'' then ret (plannedResult request)
      else
        bnd (findExistingIssue env (lr_requestId request)) (\<lambda>existing.
          if present existing then ret (Skipped (lr_path request) (lr_requestId request) (the existing))
          else if dryRun then ret (WouldCreate (lr_path request) (lr_requestId request))
          else createIssueFromLoaded env request))"

definition processRequests :: "'w feature_env \<Rightarrow> bool \<Rightarrow> string list \<Rightarrow> ('w, request_result list) feature_eff" where
  "processRequests env dryRun paths =
     bnd (validateSelectedRequests env paths) (\<lambda>requests. mapE (process_one env dryRun) requests)"

subsection \<open>Reprocessing\<close>

function drop_dots :: "string \<Rightarrow> string" where
  "drop_dots path = (if prefix ''./'' path then drop_dots (drop 2 path) else path)"
  by pat_completeness auto
termination
  by (relation "measure length") (auto dest: prefix_length_le)

declare drop_dots.simps [simp del]

definition normalizeSpecificPath :: "string option \<Rightarrow> string" where
  "normalizeSpecificPath input = drop_dots (js_trim (case input of None \<Rightarrow> [] | Some i \<Rightarrow> i))"

definition validateSpecificFeaturePath :: "'w feature_env \<Rightarrow> string option \<Rightarrow> ('w, string) feature_eff" where
  "validateSpecificFeaturePath env input =
     (let path = normalizeSpecificPath input in
      bnd (guardE (path \<noteq> []) EmptySpecificPath) (\<lambda>_.
      bnd (guardE (\<not> prefix ''/'' path \<and> \<not> sublist ''..'' path) (UnsafePath path)) (\<lambda>_.
      bnd (guardE (featureRequestPattern path) (PathOutsideFeatures path)) (\<lambda>_.
      bnd (getS (\<lambda>s. fw_files s path \<noteq> None)) (\<lambda>exists.
      bnd (guardE exists (MissingFile path)) (\<lambda>_.
      bnd (loadAndRenderRequest env path) (\<lambda>request.
      bnd (guardE (lr_requestId request = basename_json path
             \<and> requestIdFromDataOrPath (lr_data request) path = basename_json path) (NotCanonical path)) (\<lambda>_.
      ret path))))))))"

definition discoverFeaturePaths :: "(string \<Rightarrow> string \<Rightarrow> int) \<Rightarrow> git_exec \<Rightarrow> feature_error + string list" where
  "discoverFeaturePaths localeCompare gitExec = bindR (allFeatureRequests gitExec) (\<lambda>paths. Inr (js_sort_by localeCompare paths))"

definition validateReprocessSelection ::
  "'w feature_env \<Rightarrow> (string \<Rightarrow> string \<Rightarrow> int) \<Rightarrow> git_exec \<Rightarrow> string \<Rightarrow> string option \<Rightarrow> ('w, string list) feature_eff" where
  "validateReprocessSelection env localeCompare gitExec mode input =
     bnd (guardE (mode = ''specific'' \<or> mode = ''all'') InvalidMode) (\<lambda>_.
       if mode = ''specific'' then bnd (validateSpecificFeaturePath env input) (\<lambda>p. ret [p])
       else ofSum (discoverFeaturePaths localeCompare gitExec))"

end
