(* ===== verification/Feature_Issues.thy ===== *)
theory Feature_Issues
  imports Feature_Requests
begin

text \<open>
  What the feature request scripts guarantee: the checks of the rendered text never fail on a request that renders, and creating
  issues is idempotent as far as the search of the tracker finds the markers of the first run.
\<close>

section \<open>Rendered issues\<close>

lemma sublist_join: "x \<in> set xs \<Longrightarrow> sublist x (js_join sep xs)"
proof (induction sep xs rule: js_join.induct)
  case (3 sep w v ws)
  then show ?case by (auto simp: sublist_append)
qed auto

lemma sublist_trans: "sublist x y \<Longrightarrow> sublist y z \<Longrightarrow> sublist x z"
  by (rule sublist_order.order_trans)

lemma heading_body: "sublist b (heading l b)"
  using sublist_append_leftI [of b "''## '' @ l @ blank_line"] by (simp add: heading_def)

lemma heading_label: "sublist (''## '' @ l) (heading l b)"
  using sublist_append_rightI [of "''## '' @ l" "blank_line @ b"] by (simp add: heading_def)

lemma rendered_section:
  assumes "renderFeatureIssue env data = Inr rendered"
    and "x \<in> insert (contract env) (insert (done_section (fe_schema env)) (field_section data ` set (fs_fields (fe_schema env))))"
  shows "sublist x rendered"
proof -
  let ?ss = "contract env # map (field_section data) (fs_fields (fe_schema env))"
  have r: "rendered = js_join blank_line (butlast ?ss @ [done_section (fe_schema env), last ?ss]) @ newline"
    using assms(1) by (auto simp: renderFeatureIssue_def Let_def split: if_splits)
  have "set ?ss = set (butlast ?ss @ [last ?ss])" by (subst append_butlast_last_id) auto
  with assms(2) have "x \<in> set (butlast ?ss @ [done_section (fe_schema env), last ?ss])" by auto
  then have "sublist x (js_join blank_line (butlast ?ss @ [done_section (fe_schema env), last ?ss]))" by (rule sublist_join)
  then show ?thesis unfolding r by (rule sublist_trans) simp
qed

text \<open>C37. Validating a feature request is rendering it after four checks: the data are an object, they have a request identifier, the
  status is allowed and no required field is empty. The remaining checks, that the rendered text holds every section, the contract
  and every item of the definition of done, succeed on every request that gets that far.\<close>

theorem validation_is_rendering:
  "validateFeatureRequestData env data =
     (if \<not> js_is_object data then Inl NotAnObject
      else if trimmed (js_get data ''requestId'') = [] then Inl MissingRequestId
      else bindR (requestStatusFor (fe_schema env) data) (\<lambda>_. renderFeatureIssue env data))"
proof (cases "renderFeatureIssue env data")
  case (Inl e)
  then have "e = MissingFields (missing_fields (fe_schema env) data)" "missing_fields (fe_schema env) data \<noteq> []"
    by (auto simp: renderFeatureIssue_def Let_def split: if_splits)
  with Inl show ?thesis by (auto simp: validateFeatureRequestData_def Let_def)
next
  case (Inr rendered)
  note part = rendered_section [OF Inr]
  have "missing_fields (fe_schema env) data = []" using Inr by (auto simp: renderFeatureIssue_def Let_def split: if_splits)
  moreover have "sublist (''## '' @ sf_label f) rendered" if "f \<in> set (fs_fields (fe_schema env))" for f
    using sublist_trans [OF heading_label part [of "field_section data f", unfolded field_section_def]] that by (simp add: field_section_def)
  moreover have "sublist (contract env) rendered" using part by simp
  moreover have "sublist (done_item x) rendered" if "x \<in> set (fs_doneOptions (fe_schema env))" for x
  proof -
    have "sublist (done_item x) (js_join newline (map done_item (fs_doneOptions (fe_schema env))))" using that by (auto intro: sublist_join)
    then have "sublist (done_item x) (done_section (fe_schema env))"
      unfolding done_section_def by (rule sublist_trans) (rule heading_body)
    then show ?thesis by (rule sublist_trans) (simp add: part)
  qed
  ultimately show ?thesis using Inr by (auto simp: validateFeatureRequestData_def Let_def bindR_def filter_empty_conv split: sum.splits)
qed


section \<open>Creating issues once\<close>

text \<open>
  What the creation of issues relies on: a search for a marker answers without changing anything, with a non-empty array exactly when
  some issue has the marker in its body; a created issue has the text of the body file; creating labels leaves the issues alone.
\<close>

definition repo_args :: "'w feature_env \<Rightarrow> string list" where
  "repo_args env = (if truthy (fe_ghRepo env) then [''--repo'', the (fe_ghRepo env)] else [])"

definition answer :: "'w feature_env \<Rightarrow> string \<Rightarrow> js_value option" where
  "answer env out = fe_parse env (if js_trim out = [] then ''[]'' else js_trim out)"

definition search_law :: "'w feature_env \<Rightarrow> ('w \<Rightarrow> string list) \<Rightarrow> bool" where
  "search_law env bodies \<longleftrightarrow> (\<forall>fs i w. \<exists>out vs.
     fe_gh env fs (search_args i @ repo_args env) w = (Inr out, w) \<and> answer env out = Some (JArr vs) \<and> list_all js_is_object vs
     \<and> (vs \<noteq> [] \<longleftrightarrow> list_ex (sublist (issueMarker i)) (bodies w)))"

definition create_law :: "'w feature_env \<Rightarrow> ('w \<Rightarrow> string list) \<Rightarrow> bool" where
  "create_law env bodies \<longleftrightarrow> (\<forall>fs t p ls w out v.
     fe_gh env fs (create_args t p ls @ repo_args env) w = (Inr out, v) \<longrightarrow> fs p \<noteq> None \<longrightarrow> bodies v = the (fs p) # bodies w)"

definition label_law :: "'w feature_env \<Rightarrow> ('w \<Rightarrow> string list) \<Rightarrow> bool" where
  "label_law env bodies \<longleftrightarrow> (\<forall>fs xs w r v. fe_gh env fs (''label'' # ''create'' # xs) w = (r, v) \<longrightarrow> bodies v = bodies w)"

definition issue_tracker :: "'w feature_env \<Rightarrow> ('w \<Rightarrow> string list) \<Rightarrow> bool" where
  "issue_tracker env bodies \<longleftrightarrow> search_law env bodies \<and> create_law env bodies \<and> label_law env bodies"

definition marked :: "('w \<Rightarrow> string list) \<Rightarrow> string \<Rightarrow> 'w feature_world \<Rightarrow> bool" where
  "marked bodies i s \<longleftrightarrow> list_ex (sublist (issueMarker i)) (bodies (fw_github s))"

lemma find_issue:
  assumes "search_law env bodies"
  obtains v where "findExistingIssue env i s = (Inr v, s)" and "present v \<longleftrightarrow> marked bodies i s"
proof -
  obtain out vs where o: "fe_gh env (fw_files s) (search_args i @ repo_args env) (fw_github s) = (Inr out, fw_github s)"
    "answer env out = Some (JArr vs)" "list_all js_is_object vs" "vs \<noteq> [] \<longleftrightarrow> marked bodies i s"
    using assms unfolding search_law_def marked_def by metis
  have "findExistingIssue env i s = (Inr (case vs of [] \<Rightarrow> None | x # _ \<Rightarrow> Some x), s)"
    using o(1,2) by (auto simp: findExistingIssue_def gh_def repo_args_def bnd_def parse_json_def answer_def first_item_def ofSum_def ret_def)
  moreover have "present (case vs of [] \<Rightarrow> None | x # _ \<Rightarrow> Some x) \<longleftrightarrow> vs \<noteq> []"
    using o(3) by (cases vs) (auto simp: present_def js_is_object_def split: js_value.splits)
  ultimately show ?thesis using o(4) that by blast
qed

text \<open>A later state: the files of requests are the same, and no issue has been lost.\<close>

definition grows :: "('w \<Rightarrow> string list) \<Rightarrow> 'w feature_world \<Rightarrow> 'w feature_world \<Rightarrow> bool" where
  "grows bodies s t \<longleftrightarrow> (\<forall>p. featureRequestPattern p \<longrightarrow> fw_files t p = fw_files s p)
     \<and> set (bodies (fw_github s)) \<subseteq> set (bodies (fw_github t))"

interpretation growing: preorder_history "grows bodies"
  by unfold_locales (auto simp: grows_def)

lemma marked_grows: "grows bodies s t \<Longrightarrow> marked bodies i s \<Longrightarrow> marked bodies i t"
  by (auto simp: grows_def marked_def list_ex_iff)

lemma labels_grow:
  assumes "label_law env bodies"
  shows "always (grows bodies) (ensureManagedLabels env ls)"
proof (induction ls)
  case (Cons l ls)
  have "always (grows bodies) (gh env [''label'', ''create'', l, ''--color'', c, ''--description'', d])" for c d
  proof -
    have "grows bodies s (snd (gh env [''label'', ''create'', l, ''--color'', c, ''--description'', d] s))" for s
    proof -
      obtain r v where v: "fe_gh env (fw_files s) ([''label'', ''create'', l, ''--color'', c, ''--description'', d] @ repo_args env) (fw_github s) = (r, v)"
        by fastforce
      with assms have "bodies v = bodies (fw_github s)" by (auto simp: label_law_def)
      with v show ?thesis by (auto simp: gh_def repo_args_def [symmetric] grows_def split: sum.split)
    qed
    then show ?thesis by (metis always_def snd_conv)
  qed
  with Cons.IH show ?case
    by (auto intro!: growing.always_bnd growing.always_handle split: option.split)
qed auto

lemma body_path_not_request: "\<not> featureRequestPattern (''.feature-issue-body-'' @ x)"
  by (simp add: featureRequestPattern_def one_segment_def)

lemma create_runs:
  assumes "createIssueFromLoaded env r s = (Inr x, t)" and "lr_status r = ''ready''" and "findExistingIssue env (lr_requestId r) s = (Inr v, s)"
    and "\<not> present v"
  obtains s1 n out w where "ensureManagedLabels env (labelNamesFor (lr_data r)) s = (Inr (), s1)"
    and "fe_gh env ((fw_files s1)(''.feature-issue-body-'' @ n @ ''.md'' \<mapsto> lr_body r))
          (create_args (issueTitle (lr_data r)) (''.feature-issue-body-'' @ n @ ''.md'') (labelNamesFor (lr_data r)) @ repo_args env) (fw_github s1) = (Inr out, w)"
    and "fw_github t = w" and "fw_files t = (fw_files s1)(''.feature-issue-body-'' @ n @ ''.md'' := None)"
proof -
  obtain s1 where labels: "ensureManagedLabels env (labelNamesFor (lr_data r)) s = (Inr (), s1)"
    using assms by (auto simp: createIssueFromLoaded_def Let_def bnd_eq)
  with assms show ?thesis
    by (auto simp: createIssueFromLoaded_def Let_def bnd_def finallyE_def timestamp_def writeFileSync_def remove_file_def modS_def gh_def ret_def
        repo_args_def [symmetric] split: sum.split_asm prod.split_asm intro: that)
qed

lemma create_marks:
  assumes "issue_tracker env bodies" and "sublist (issueMarker (lr_requestId r)) (lr_body r)"
    and "createIssueFromLoaded env r s = (Inr x, t)" and "lr_status r = ''ready''"
  shows "grows bodies s t \<and> marked bodies (lr_requestId r) t"
proof -
  note laws = assms(1) [unfolded issue_tracker_def]
  obtain v where v: "findExistingIssue env (lr_requestId r) s = (Inr v, s)" "present v \<longleftrightarrow> marked bodies (lr_requestId r) s"
    using laws by (blast elim: find_issue)
  show ?thesis
  proof (cases "present v")
    case True
    with assms(3,4) v have "t = s" by (auto simp: createIssueFromLoaded_def bnd_def ret_def)
    with True v show ?thesis by (simp add: growing.refl)
  next
    case False
    from create_runs [OF assms(3,4) v(1) False]
    obtain s1 n out w where run: "ensureManagedLabels env (labelNamesFor (lr_data r)) s = (Inr (), s1)"
      "fe_gh env ((fw_files s1)(''.feature-issue-body-'' @ n @ ''.md'' \<mapsto> lr_body r))
          (create_args (issueTitle (lr_data r)) (''.feature-issue-body-'' @ n @ ''.md'') (labelNamesFor (lr_data r)) @ repo_args env) (fw_github s1) = (Inr out, w)"
      "fw_github t = w" "fw_files t = (fw_files s1)(''.feature-issue-body-'' @ n @ ''.md'' := None)" by blast
    have "bodies (fw_github t) = lr_body r # bodies (fw_github s1)"
      using laws run(2,3) unfolding create_law_def by fastforce
    moreover have "grows bodies s s1" using laws alwaysD [OF labels_grow run(1)] by blast
    ultimately show ?thesis using assms(2) run(4) body_path_not_request [of "n @ ''.md''"]
      by (auto simp: grows_def marked_def)
  qed
qed

text \<open>One request: planned ones are left alone, ready ones have an issue afterwards.\<close>

lemma process_marks:
  assumes "issue_tracker env bodies" and "sublist (issueMarker (lr_requestId r)) (lr_body r)" and "process_one env False r s = (Inr x, t)"
  shows "grows bodies s t \<and> (lr_status r = ''ready'' \<longrightarrow> marked bodies (lr_requestId r) t)"
proof (cases "lr_status r = ''ready''")
  case True
  obtain v where v: "findExistingIssue env (lr_requestId r) s = (Inr v, s)" "present v \<longleftrightarrow> marked bodies (lr_requestId r) s"
    using assms(1) unfolding issue_tracker_def by (blast elim: find_issue)
  with assms True create_marks [OF assms(1,2), of s x t] show ?thesis
    by (cases "present v") (auto simp: process_one_def bnd_def ret_def growing.refl)
next
  case False
  with assms(3) show ?thesis by (auto simp: process_one_def ret_def growing.refl)
qed

lemma process_all_mark:
  assumes "issue_tracker env bodies" and "\<forall>r \<in> set rs. sublist (issueMarker (lr_requestId r)) (lr_body r)"
    and "mapE (process_one env False) rs s = (Inr xs, t)"
  shows "grows bodies s t \<and> (\<forall>r \<in> set rs. lr_status r = ''ready'' \<longrightarrow> marked bodies (lr_requestId r) t)"
  using assms(2,3)
proof (induction rs arbitrary: s xs)
  case Nil
  then show ?case by (simp add: ret_def growing.refl)
next
  case (Cons r rs)
  from Cons.prems(2) obtain x u ys where "process_one env False r s = (Inr x, u)" "mapE (process_one env False) rs u = (Inr ys, t)"
    by (auto simp: bnd_eq ret_def)
  with process_marks [OF assms(1), of r s x u] Cons.IH [of u ys] Cons.prems(1)
  have "grows bodies s u" "lr_status r = ''ready'' \<longrightarrow> marked bodies (lr_requestId r) u" "grows bodies u t"
    "\<forall>r \<in> set rs. lr_status r = ''ready'' \<longrightarrow> marked bodies (lr_requestId r) t" by simp_all
  then show ?case using growing.trans [of bodies s u t] marked_grows [of bodies u t] by auto
qed

definition quiet :: "request_result \<Rightarrow> bool" where
  "quiet x = (case x of Planned _ _ \<Rightarrow> True | Skipped _ _ _ \<Rightarrow> True | _ \<Rightarrow> False)"

lemma process_quiet:
  assumes "search_law env bodies" and "lr_status r = ''ready'' \<longrightarrow> marked bodies (lr_requestId r) s"
  shows "\<exists>x. process_one env d r s = (Inr x, s) \<and> quiet x"
proof -
  obtain v where v: "findExistingIssue env (lr_requestId r) s = (Inr v, s)" "present v \<longleftrightarrow> marked bodies (lr_requestId r) s"
    using assms(1) by (blast elim: find_issue)
  with assms(2) show ?thesis by (auto simp: process_one_def bnd_def ret_def quiet_def plannedResult_def)
qed

lemma process_all_quiet:
  assumes "search_law env bodies" and "\<forall>r \<in> set rs. lr_status r = ''ready'' \<longrightarrow> marked bodies (lr_requestId r) s"
  shows "\<exists>xs. mapE (process_one env d) rs s = (Inr xs, s) \<and> list_all quiet xs"
  using assms(2)
proof (induction rs)
  case (Cons r rs)
  with process_quiet [OF assms(1), of r s d] show ?case by (fastforce simp: bnd_def ret_def)
qed (simp add: ret_def)

subsection \<open>Loading\<close>

lemma load_reads:
  assumes "fw_files t p = fw_files s p"
  shows "loadAndRenderRequest env p t = (fst (loadAndRenderRequest env p s), t)"
proof -
  have "loadAndRenderRequest env p t = (fst (loadAndRenderRequest env p s), t)" if "fw_files s p = Some doc" for doc
    using that assms
    by (cases "fe_parse env doc")
       (auto simp: loadAndRenderRequest_def Let_def bnd_def readFileSync_def parse_json_def guardE_def ofSum_def ret_def throw_def split: sum.split)
  with assms show ?thesis
    by (cases "fw_files s p") (auto simp: loadAndRenderRequest_def bnd_def readFileSync_def)
qed

lemma load_marks: "loadAndRenderRequest env p s = (Inr r, t) \<Longrightarrow> sublist (issueMarker (lr_requestId r)) (lr_body r)"
  by (auto simp: loadAndRenderRequest_def Let_def bnd_Inr)

lemma mapE_pure: "(\<And>x. x \<in> set xs \<Longrightarrow> f x t = (r x, t)) \<Longrightarrow> mapE f xs t = (mapR r xs, t)"
  by (induction xs) (auto simp: bnd_def ret_def bindR_def split: sum.split)

lemma mapR_member: "mapR r xs = Inr ys \<Longrightarrow> y \<in> set ys \<Longrightarrow> \<exists>x \<in> set xs. r x = Inr y"
  by (induction xs arbitrary: ys) (auto simp: bindR_def split: sum.split_asm)

definition load_result :: "'w feature_env \<Rightarrow> 'w feature_world \<Rightarrow> string \<Rightarrow> feature_error + loaded_request" where
  "load_result env s p = fst (loadAndRenderRequest env p s)"

lemma select_reads:
  assumes "\<And>p. p \<in> set ps \<Longrightarrow> fw_files t p = fw_files s p"
  shows "validateSelectedRequests env ps t =
    (bindR (mapR (load_result env s) ps) (\<lambda>rs. case first_duplicate [] rs of Some e \<Rightarrow> Inl e | None \<Rightarrow> Inr rs), t)"
proof -
  have "mapE (loadAndRenderRequest env) ps t = (mapR (load_result env s) ps, t)"
    by (rule mapE_pure) (simp add: load_result_def load_reads [OF assms])
  then show ?thesis
    by (auto simp: validateSelectedRequests_def bnd_def bindR_def throw_def ret_def split: sum.split option.split)
qed

text \<open>Creating issues is idempotent on a tracker whose search never fails, finds exactly the issues with the marker and sees new ones at once:
  when a run over some feature requests has finished, another run over the same requests, dry or not, creates nothing, changes nothing and
  reports each of them as planned or as skipped because its issue exists. The search of GitHub promises none of this.\<close>

theorem reprocessing_creates_nothing:
  assumes "issue_tracker env bodies" and "list_all featureRequestPattern paths" and "processRequests env False paths s = (Inr xs, t)"
  shows "\<exists>ys. processRequests env d paths t = (Inr ys, t) \<and> list_all quiet ys"
proof -
  have sel: "validateSelectedRequests env paths s =
      (bindR (mapR (load_result env s) paths) (\<lambda>rs. case first_duplicate [] rs of Some e \<Rightarrow> Inl e | None \<Rightarrow> Inr rs), s)"
    by (rule select_reads) simp
  with assms(3) obtain rs where rs: "mapR (load_result env s) paths = Inr rs" "first_duplicate [] rs = None"
    "mapE (process_one env False) rs s = (Inr xs, t)"
    by (auto simp: processRequests_def bnd_Inr bindR_def split: sum.split_asm option.split_asm)
  have "sublist (issueMarker (lr_requestId r)) (lr_body r)" if "r \<in> set rs" for r
    using mapR_member [OF rs(1) that] load_marks [of env _ s r] by (auto simp: load_result_def) (metis prod.collapse)
  with process_all_mark [OF assms(1) _ rs(3)] have after: "grows bodies s t" "\<forall>r \<in> set rs. lr_status r = ''ready'' \<longrightarrow> marked bodies (lr_requestId r) t"
    by auto
  have "validateSelectedRequests env paths t = (Inr rs, t)"
    using select_reads [of paths t s env] after(1) assms(2) rs(1,2) by (simp add: grows_def list_all_iff bindR_def)
  moreover obtain ys where "mapE (process_one env d) rs t = (Inr ys, t)" "list_all quiet ys"
    using process_all_quiet [OF _ after(2), of env d] assms(1) by (auto simp: issue_tracker_def)
  ultimately show ?thesis by (auto simp: processRequests_def bnd_def)
qed

section \<open>A sample\<close>

definition sample_gh :: "(string \<rightharpoonup> string) \<Rightarrow> string list \<Rightarrow> string list \<Rightarrow> (string + string) \<times> string list" where
  "sample_gh fs args w =
     (if take 2 args = [''issue'', ''list'']
      then (Inr (if list_ex (sublist (take (length (args ! 5) - 8) (args ! 5))) w then ''[1]'' else ''[]''), w)
      else if take 2 args = [''issue'', ''create'']
      then (case fs (args ! 5) of None \<Rightarrow> (Inl [], w) | Some b \<Rightarrow> (Inr ''/1'', b # w))
      else (Inr [], w))"

definition sample_parse :: "string \<Rightarrow> js_value option" where
  "sample_parse doc =
     Some (if doc = ''[1]'' then JArr [JObj []] else if doc = ''[]'' then JArr [] else JObj [(''requestId'', JStr ''a'')])"

definition sample_features :: "string list feature_env" where
  "sample_features = \<lparr>fe_schema = \<lparr>fs_lifecycle = None, fs_fields = [], fs_doneLabel = ''Done'', fs_doneOptions = []\<rparr>,
     fe_contractText = ''contract'', fe_parse = sample_parse, fe_clock = (\<lambda>_. 0), fe_ghRepo = None, fe_gh = sample_gh\<rparr>"

definition sample_requests :: "string list feature_world" where
  "sample_requests = \<lparr>fw_files = [''requests/features/a.json'' \<mapsto> ''{}''], fw_github = [], fw_ticks = 0\<rparr>"

lemma sample_tracker: "issue_tracker sample_features (\<lambda>w. w)"
proof -
  have "search_law sample_features (\<lambda>w. w)"
    by (auto simp: search_law_def sample_features_def sample_gh_def repo_args_def truthy_def search_args_def answer_def sample_parse_def
        js_is_object_def js_trim_def strip_def strip_end_def js_ws_def code_def)
  moreover have "create_law sample_features (\<lambda>w. w)"
    by (auto simp: create_law_def sample_features_def sample_gh_def repo_args_def create_args_def split: option.split_asm)
  moreover have "label_law sample_features (\<lambda>w. w)"
    by (auto simp: label_law_def sample_features_def sample_gh_def)
  ultimately show ?thesis by (simp add: issue_tracker_def)
qed

lemma sample_load: "\<exists>r. loadAndRenderRequest sample_features ''requests/features/a.json'' sample_requests = (Inr r, sample_requests)"
  by (simp add: loadAndRenderRequest_def bnd_def readFileSync_def parse_json_def guardE_def ofSum_def ret_def sample_requests_def sample_features_def
      sample_parse_def requestIdFromDataOrPath_def trimmed_def coalesce_def js_get_def present_def basename_json_def js_trim_def strip_def
      strip_end_def js_ws_def code_def validation_is_rendering js_is_object_def requestStatusFor_def js_keys_def js_dedup_def bindR_def
      renderFeatureIssue_def missing_fields_def contract_def suffix_def Let_def)

lemma sample_labels: "\<exists>u. ensureManagedLabels sample_features ls s = (Inr (), u)"
proof (induction ls arbitrary: s)
  case (Cons l ls)
  then show ?case
    by (auto simp: bnd_def handle_def gh_def ret_def sample_features_def sample_gh_def split: option.split)
qed (simp add: ret_def)

lemma sample_creates: "\<exists>x t. createIssueFromLoaded sample_features r s = (Inr x, t)"
proof -
  obtain v where v: "findExistingIssue sample_features (lr_requestId r) s = (Inr v, s)"
    using sample_tracker unfolding issue_tracker_def by (blast elim: find_issue)
  obtain u where u: "ensureManagedLabels sample_features (labelNamesFor (lr_data r)) s = (Inr (), u)" using sample_labels by blast
  have "fe_gh sample_features fs (create_args a p b) w = (Inr ''/1'', the (fs p) # w)" if "fs p \<noteq> None" for fs a p b w
    using that by (auto simp: sample_features_def sample_gh_def create_args_def)
  with u v show ?thesis
    by (auto simp: createIssueFromLoaded_def bnd_def Let_def timestamp_def writeFileSync_def remove_file_def modS_def gh_def ret_def finallyE_def
        truthy_def sample_features_def)
qed

lemma sample_process: "\<exists>xs t. processRequests sample_features False [''requests/features/a.json''] sample_requests = (Inr xs, t)"
proof -
  obtain r where r: "loadAndRenderRequest sample_features ''requests/features/a.json'' sample_requests = (Inr r, sample_requests)"
    using sample_load by blast
  obtain v where "findExistingIssue sample_features (lr_requestId r) sample_requests = (Inr v, sample_requests)"
    using sample_tracker unfolding issue_tracker_def by (blast elim: find_issue)
  with r sample_creates [of r sample_requests] show ?thesis
    by (auto simp: processRequests_def validateSelectedRequests_def bnd_def ret_def process_one_def)
qed

theorem reprocessing_creates_nothing_witness:
  "\<exists>xs t ys. processRequests sample_features False [''requests/features/a.json''] sample_requests = (Inr xs, t)
     \<and> processRequests sample_features False [''requests/features/a.json''] t = (Inr ys, t) \<and> list_all quiet ys"
proof -
  obtain xs t where run: "processRequests sample_features False [''requests/features/a.json''] sample_requests = (Inr xs, t)"
    using sample_process by blast
  have "list_all featureRequestPattern [''requests/features/a.json'']"
    by (simp add: featureRequestPattern_def one_segment_def suffix_def)
  from reprocessing_creates_nothing [OF sample_tracker this run] run show ?thesis by blast
qed

end
