(* ===== verification/Runtime_Publication.thy ===== *)
theory Runtime_Publication
  imports Change_Policy Effect_Logic
begin

text \<open>
  The publication of the runtime image: \<^verbatim>\<open>scripts/reconcile-runtime-publication.mjs\<close>, \<^verbatim>\<open>scripts/validate-runtime-revision.mjs\<close> and
  \<^verbatim>\<open>scripts/adrian-publication-plan.mjs\<close>.

  An image is published under three tags: its source commit, its release and \<^verbatim>\<open>latest\<close>. \<open>reconcile\<close> takes the callbacks of the source
  (observe a tag, push a tag, refresh the view of the repository) as arguments; \<open>inspect\<close>, \<open>push_tag\<close> and \<open>refresh_view\<close> are the
  ones of the script. The programs \<^verbatim>\<open>git\<close> and \<^verbatim>\<open>docker\<close>, the files of a temporary directory and \<^verbatim>\<open>JSON.parse\<close> are parameters.
\<close>

section \<open>Definitions\<close>

definition shaPattern :: "string \<Rightarrow> bool" where
  "shaPattern s = all_chars hex_lower 40 40 s"

definition digestPattern :: "string \<Rightarrow> bool" where
  "digestPattern s = (prefix ''sha256:'' s \<and> all_chars hex_lower 64 64 (drop 7 s))"

definition image :: string where
  "image = ''poulti/adt-runtime''"

datatype publication_error =
    InvalidTarget | NoTrustedSource | InvalidState | PartialImmutable | TagConflict | DigestsDisagree | LatestContradicts
  | LatestBehind | LatestWithoutTags | CannotInspect string | AmbiguousDigest | InvalidSource | MetadataContradicts | MalformedRelease
  | ChangedDuringVerification | NotConverged | Superseded | RevisionDecreases | ProtocolWithoutTests | InputsWithoutRelease
  | CommandFailed string | BadJson | BadFile | FreshnessFailed

record published =
  pb_source :: string
  pb_release :: int
  pb_digest :: string

record 'w publish_env =
  pe_git :: "string list \<Rightarrow> 'w \<Rightarrow> (string + string) \<times> 'w"
  pe_docker :: "string list \<Rightarrow> 'w \<Rightarrow> (string + string) \<times> 'w"
  pe_mkdtemp :: "'w \<Rightarrow> string \<times> 'w"
  pe_readFile :: "string \<Rightarrow> 'w \<Rightarrow> string option"
  pe_remove :: "string \<Rightarrow> 'w \<Rightarrow> 'w"
  pe_parse :: "string \<Rightarrow> js_value option"

type_synonym ('w, 'a) publish_eff = "('w, publication_error, 'a) eff"

definition command :: "(string list \<Rightarrow> 'w \<Rightarrow> (string + string) \<times> 'w) \<Rightarrow> string list \<Rightarrow> ('w, string) publish_eff" where
  "command program args w = (case program args w of (Inl err, v) \<Rightarrow> (Inl (CommandFailed err), v) | (Inr out, v) \<Rightarrow> (Inr (js_trim out), v))"

definition git :: "'w publish_env \<Rightarrow> string list \<Rightarrow> ('w, string) publish_eff" where
  "git env args = command (pe_git env) args"

definition git_raw :: "'w publish_env \<Rightarrow> string list \<Rightarrow> ('w, string) publish_eff" where
  "git_raw env args w = (case pe_git env args w of (Inl err, v) \<Rightarrow> (Inl (CommandFailed err), v) | (Inr out, v) \<Rightarrow> (Inr out, v))"

definition docker :: "'w publish_env \<Rightarrow> string list \<Rightarrow> ('w, string) publish_eff" where
  "docker env args = command (pe_docker env) args"

subsection \<open>Releases\<close>

definition release_keys :: "string list" where
  "release_keys = [''protocolVersion'', ''releaseRevision'']"

definition release_integer :: "js_value option \<Rightarrow> bool" where
  "release_integer v = (case js_num v of None \<Rightarrow> False | Some n \<Rightarrow> 1 \<le> n \<and> n \<le> 1000000)"

definition parseRelease :: "(string \<Rightarrow> js_value option) \<Rightarrow> string \<Rightarrow> publication_error + js_value" where
  "parseRelease parse doc =
     (case parse doc of
        None \<Rightarrow> Inl MalformedRelease
      | Some v \<Rightarrow>
          if \<not> js_is_object v \<or> length (js_keys v) \<noteq> length release_keys \<or> list_ex (\<lambda>k. k \<notin> set release_keys) (js_keys v)
             \<or> \<not> release_integer (js_get v ''protocolVersion'') \<or> \<not> release_integer (js_get v ''releaseRevision'')
          then Inl MalformedRelease else Inr v)"

definition releaseRevision :: "js_value \<Rightarrow> int" where
  "releaseRevision v = (case js_num (js_get v ''releaseRevision'') of None \<Rightarrow> 0 | Some n \<Rightarrow> n)"

definition protocolVersion :: "js_value \<Rightarrow> int" where
  "protocolVersion v = (case js_num (js_get v ''protocolVersion'') of None \<Rightarrow> 0 | Some n \<Rightarrow> n)"

text \<open>\<^verbatim>\<open>/(^|\/)name\//\<close>: a directory of the path has one of the names.\<close>

definition in_directory :: "string list \<Rightarrow> string \<Rightarrow> bool" where
  "in_directory names path = list_ex (\<lambda>s. s \<in> set names) (butlast (js_split (CHR ''/'') path))"

definition isRuntimeInput :: "string \<Rightarrow> bool" where
  "isRuntimeInput path =
     (isRuntimeImagePath path \<and> \<not> in_directory [''test'', ''tests''] path \<and> \<not> in_directory [''fixture'', ''fixtures''] path)"

definition validateRuntimeRevision :: "js_value \<Rightarrow> js_value \<Rightarrow> string list \<Rightarrow> publication_error + bool" where
  "validateRuntimeRevision base current changedPaths =
     (if releaseRevision current < releaseRevision base then Inl RevisionDecreases
      else if protocolVersion current \<noteq> protocolVersion base \<and> \<not> list_ex (prefix ''adt-runtime/test/'') changedPaths then Inl ProtocolWithoutTests
      else if list_ex isRuntimeInput changedPaths \<and> releaseRevision current \<le> releaseRevision base then Inl InputsWithoutRelease
      else Inr True)"

subsection \<open>The trusted source\<close>

fun first_runtime_revision :: "'w publish_env \<Rightarrow> string list \<Rightarrow> ('w, string) publish_eff" where
  "first_runtime_revision env [] = throw NoTrustedSource"
| "first_runtime_revision env (revision # revisions) =
     bnd (git env [''rev-list'', ''--parents'', ''-n'', ''1'', revision]) (\<lambda>line.
     let parent = nth_opt (js_split (CHR '' '') line) 1 in
     bnd (if truthy parent then git env [''diff'', ''--name-only'', the parent, revision]
          else git env [''ls-tree'', ''-r'', ''--name-only'', revision]) (\<lambda>paths.
       if list_ex isRuntimeImagePath (js_split (CHR 0x0A) paths) then ret revision else first_runtime_revision env revisions))"

definition resolveRuntimeSource :: "'w publish_env \<Rightarrow> string \<Rightarrow> ('w, string) publish_eff" where
  "resolveRuntimeSource env target =
     bnd (guardE (shaPattern target) InvalidTarget) (\<lambda>_.
     bnd (git env [''rev-list'', ''--first-parent'', target]) (\<lambda>out.
     first_runtime_revision env (js_split (CHR 0x0A) out)))"

subsection \<open>The plan\<close>

datatype publication_plan = Noop | Publish

definition valid_published :: "published option \<Rightarrow> bool" where
  "valid_published v =
     (case v of
        None \<Rightarrow> True
      | Some p \<Rightarrow> shaPattern (pb_source p) \<and> digestPattern (pb_digest p) \<and> safe_integer (pb_release p) \<and> 0 < pb_release p)"

definition conflicts :: "string \<Rightarrow> int \<Rightarrow> published option \<Rightarrow> bool" where
  "conflicts source release state =
     (case state of None \<Rightarrow> False | Some p \<Rightarrow> pb_source p \<noteq> source \<or> pb_release p \<noteq> release)"

definition publicationPlan ::
  "string \<Rightarrow> int \<Rightarrow> published option \<Rightarrow> published option \<Rightarrow> published option \<Rightarrow> publication_error + publication_plan" where
  "publicationPlan source release sha revision latest =
     (if \<not> shaPattern source \<or> \<not> safe_integer release \<or> release < 1
         \<or> \<not> (valid_published sha \<and> valid_published revision \<and> valid_published latest) then Inl InvalidState
      else if (sha \<noteq> None) \<noteq> (revision \<noteq> None) then Inl PartialImmutable
      else if conflicts source release sha \<or> conflicts source release revision then Inl TagConflict
      else if sha \<noteq> None \<and> pb_digest (the sha) \<noteq> pb_digest (the revision) then Inl DigestsDisagree
      else if (case latest of None \<Rightarrow> False
               | Some l \<Rightarrow> pb_release l = release \<and> (pb_source l \<noteq> source \<or> sha \<noteq> None \<and> pb_digest l \<noteq> pb_digest (the sha))) then Inl LatestContradicts
      else if sha \<noteq> None
      then (if latest = None \<or> pb_release (the latest) < release then Inl LatestBehind else Inr Noop)
      else if latest \<noteq> None \<and> release \<le> pb_release (the latest) then Inl LatestWithoutTags
      else Inr Publish)"

subsection \<open>Observing a tag\<close>

definition tag_pattern :: "string \<Rightarrow> bool" where
  "tag_pattern s =
     (case s of [] \<Rightarrow> False
      | c # cs \<Rightarrow> word_char c \<and> length cs \<le> 127 \<and> list_all (\<lambda>x. word_char x \<or> x = CHR ''.'' \<or> x = CHR ''-'') cs)"

definition isMissingManifest :: "string \<Rightarrow> string \<Rightarrow> bool" where
  "isMissingManifest stderr reference =
     (let expected = (if prefix ''docker.io/'' reference then drop 10 reference else reference); message = js_trim stderr
      in prefix (image @ '':'') expected \<and> tag_pattern (drop (length image + 1) expected)
         \<and> list_ex (\<lambda>ref.
              message = ''Error response from daemon: manifest for '' @ ref @ '' not found: manifest unknown: manifest unknown''
              \<or> message = ''Error response from daemon: failed to resolve reference '' @ [CHR 0x22] @ ref @ [CHR 0x22] @ '': '' @ ref @ '': not found'')
             [expected, ''docker.io/'' @ expected])"

definition read_copied :: "'w publish_env \<Rightarrow> string \<Rightarrow> ('w, string) publish_eff" where
  "read_copied env path w = (case pe_readFile env path w of None \<Rightarrow> (Inl BadFile, w) | Some t \<Rightarrow> (Inr t, w))"

text \<open>The digests an inspected image has under the name of the runtime image.\<close>

definition repo_digests :: "js_value \<Rightarrow> string list option" where
  "repo_digests data =
     (case data of
        JArr (x # _) \<Rightarrow>
          (case js_get x ''RepoDigests'' of
             Some (JArr vs) \<Rightarrow>
               if list_all (\<lambda>v. js_str (Some v) \<noteq> None) vs
               then Some (js_dedup (map (\<lambda>s. js_split (CHR ''@'') s ! 1) (filter (prefix (image @ ''@'')) (map (\<lambda>v. the (js_str (Some v))) vs))))
               else None
           | _ \<Rightarrow> None)
      | _ \<Rightarrow> None)"

definition same_manifest :: "js_value \<Rightarrow> js_value \<Rightarrow> bool" where
  "same_manifest a b = (map (\<lambda>k. (k, js_get a k)) (js_keys a) = map (\<lambda>k. (k, js_get b k)) (js_keys b))"

definition inspect_metadata :: "'w publish_env \<Rightarrow> string \<Rightarrow> string \<Rightarrow> string \<Rightarrow> string \<Rightarrow> ('w, published) publish_eff" where
  "inspect_metadata env currentMain digest directory container =
     bnd (docker env [''cp'', container @ '':/runtime/REVISION'', directory @ ''/REVISION'']) (\<lambda>_.
     bnd (docker env [''cp'', container @ '':/runtime/release.json'', directory @ ''/release.json'']) (\<lambda>_.
     bnd (read_copied env (directory @ ''/REVISION'')) (\<lambda>rev.
     let source = js_trim rev in
     bnd (read_copied env (directory @ ''/release.json'')) (\<lambda>releaseText.
     bnd (ofSum (parseRelease (pe_parse env) releaseText)) (\<lambda>manifest.
     bnd (guardE (shaPattern source) InvalidSource) (\<lambda>_.
     bnd (git env [''merge-base'', ''--is-ancestor'', source, currentMain]) (\<lambda>_.
     bnd (resolveRuntimeSource env source) (\<lambda>resolved.
     bnd (guardE (resolved = source) MetadataContradicts) (\<lambda>_.
     bnd (git env [''show'', source @ '':adt-runtime/release.json'']) (\<lambda>trusted.
     bnd (ofSum (parseRelease (pe_parse env) trusted)) (\<lambda>release.
     bnd (guardE (same_manifest release manifest) MetadataContradicts) (\<lambda>_.
     ret \<lparr>pb_source = source, pb_release = releaseRevision manifest, pb_digest = digest\<rparr>))))))))))))"

text \<open>\<^verbatim>\<open>if (container) docker(['rm', container])\<close>, then the directory.\<close>

definition inspect_cleanup :: "'w publish_env \<Rightarrow> string \<Rightarrow> string \<Rightarrow> ('w, unit) publish_eff" where
  "inspect_cleanup env directory container =
     bnd (if container \<noteq> [] then bnd (docker env [''rm'', container]) (\<lambda>_. ret ()) else ret ()) (\<lambda>_.
     modS (pe_remove env directory))"

definition inspect :: "'w publish_env \<Rightarrow> string \<Rightarrow> string \<Rightarrow> ('w, published option) publish_eff" where
  "inspect env currentMain tag =
     (let reference = image @ '':'' @ tag in
      bnd (handle (bnd (docker env [''pull'', reference]) (\<lambda>_. ret True))
             (\<lambda>e. case e of CommandFailed err \<Rightarrow> if isMissingManifest err reference then ret False else throw (CannotInspect tag)
                   | _ \<Rightarrow> throw (CannotInspect tag))) (\<lambda>pulled.
        if \<not> pulled then ret None
        else
          bnd (docker env [''image'', ''inspect'', reference]) (\<lambda>out.
          bnd (case pe_parse env out of None \<Rightarrow> throw BadJson | Some v \<Rightarrow> ret v) (\<lambda>data.
          bnd (case repo_digests data of None \<Rightarrow> throw BadJson | Some ds \<Rightarrow> ret ds) (\<lambda>digests.
          bnd (guardE (length digests = 1 \<and> digestPattern (hd digests)) AmbiguousDigest) (\<lambda>_.
          bnd (\<lambda>w. case pe_mkdtemp env w of (d, v) \<Rightarrow> (Inr d, v)) (\<lambda>directory w.
            (case docker env [''create'', image @ ''@'' @ hd digests] w of
               (Inl e, v) \<Rightarrow> finallyE (throw e) (inspect_cleanup env directory []) v
             | (Inr container, v) \<Rightarrow>
                 finallyE (bnd (inspect_metadata env currentMain (hd digests) directory container) (\<lambda>p. ret (Some p)))
                   (inspect_cleanup env directory container) v))))))))"

subsection \<open>Reconciliation\<close>

definition release_tag :: "int \<Rightarrow> string" where
  "release_tag release = ''r'' @ show_int release"

definition latest_tag :: string where
  "latest_tag = ''latest''"

type_synonym tag_state = "published option \<times> published option \<times> published option"

definition read_tags :: "(string \<Rightarrow> ('w, published option) publish_eff) \<Rightarrow> string \<Rightarrow> int \<Rightarrow> ('w, tag_state) publish_eff" where
  "read_tags observe source release =
     bnd (observe source) (\<lambda>sha.
     bnd (observe (release_tag release)) (\<lambda>revision.
     bnd (observe latest_tag) (\<lambda>latest.
     bnd (case latest of
            None \<Rightarrow> ret ()
          | Some l \<Rightarrow>
              if pb_release l \<noteq> release
              then bnd (observe (pb_source l)) (\<lambda>sha'.
                   bnd (observe (release_tag (pb_release l))) (\<lambda>revision'.
                   bnd (ofSum (publicationPlan (pb_source l) (pb_release l) sha' revision' latest)) (\<lambda>_. ret ())))
              else ret ()) (\<lambda>_.
     ret (sha, revision, latest)))))"

definition plan_of :: "string \<Rightarrow> int \<Rightarrow> tag_state \<Rightarrow> publication_error + publication_plan" where
  "plan_of source release state = (case state of (sha, revision, latest) \<Rightarrow> publicationPlan source release sha revision latest)"

datatype reconciled = AlreadyPublished | NowPublished

definition reconcile ::
  "(string \<Rightarrow> ('w, published option) publish_eff) \<Rightarrow> (string \<Rightarrow> ('w, unit) publish_eff) \<Rightarrow> ('w, unit) publish_eff
    \<Rightarrow> string \<Rightarrow> int \<Rightarrow> ('w, reconciled) publish_eff" where
  "reconcile observe push refresh source release =
     bnd refresh (\<lambda>_.
     bnd (read_tags observe source release) (\<lambda>state.
     bnd (ofSum (plan_of source release state)) (\<lambda>action.
       if action = Noop then ret AlreadyPublished
       else
         bnd refresh (\<lambda>_.
         bnd (read_tags observe source release) (\<lambda>again.
         bnd (ofSum (plan_of source release again)) (\<lambda>action'.
         bnd (guardE (action' = Publish) ChangedDuringVerification) (\<lambda>_.
         bnd (push source) (\<lambda>_.
         bnd (push (release_tag release)) (\<lambda>_.
         bnd (push latest_tag) (\<lambda>_.
         bnd (read_tags observe source release) (\<lambda>completed.
         bnd (ofSum (plan_of source release completed)) (\<lambda>final.
         bnd (guardE (final = Noop \<and> (case completed of (sha, _, latest) \<Rightarrow> pb_digest (the latest) = pb_digest (the sha))) NotConverged) (\<lambda>_.
         ret NowPublished)))))))))))))"

text \<open>The callbacks of the script.\<close>

definition observe_tag :: "'w publish_env \<Rightarrow> string \<Rightarrow> ('w, published option) publish_eff" where
  "observe_tag env tag = bnd (git env [''rev-parse'', ''origin/main'']) (\<lambda>main. inspect env main tag)"

definition push_tag :: "'w publish_env \<Rightarrow> string \<Rightarrow> ('w, unit) publish_eff" where
  "push_tag env tag =
     bnd (docker env [''tag'', ''adt-runtime:verified'', image @ '':'' @ tag]) (\<lambda>_.
     bnd (docker env [''push'', image @ '':'' @ tag]) (\<lambda>_. ret ()))"

definition runtime_target :: freshness_target where
  "runtime_target = \<lparr>ft_deployWorker = False, ft_applyMigrations = False, ft_runnerReleaseBarrier = False\<rparr>"

definition refresh_view :: "'w publish_env \<Rightarrow> string \<Rightarrow> string \<Rightarrow> ('w, unit) publish_eff" where
  "refresh_view env target source =
     bnd (git env [''fetch'', ''--no-tags'', ''origin'', ''main'']) (\<lambda>_.
     bnd (git env [''rev-parse'', ''origin/main'']) (\<lambda>current.
     bnd (git env [''merge-base'', ''--is-ancestor'', target, current]) (\<lambda>_.
     bnd (resolveRuntimeSource env current) (\<lambda>resolved.
     bnd (guardE (resolved = source) Superseded) (\<lambda>_.
     bnd (git_raw env [''diff'', ''--name-status'', ''-M'', target, current]) (\<lambda>diff.
     case evaluateOperationFreshness ''runtime'' (classifyChanges (parseGitNameStatus (Some diff))) runtime_target of
       Inl e \<Rightarrow> throw FreshnessFailed
     | Inr (fresh, reason) \<Rightarrow> guardE fresh Superseded))))))"

definition publish_main :: "'w publish_env \<Rightarrow> string \<Rightarrow> ('w, reconciled) publish_eff" where
  "publish_main env target =
     bnd (resolveRuntimeSource env target) (\<lambda>source.
     bnd (git env [''show'', source @ '':adt-runtime/release.json'']) (\<lambda>text'.
     bnd (ofSum (parseRelease (pe_parse env) text')) (\<lambda>manifest.
     reconcile (observe_tag env) (push_tag env) (refresh_view env target source) source (releaseRevision manifest))))"

subsection \<open>The plan for Adrian images\<close>

definition runNumberPattern :: "string \<Rightarrow> bool" where
  "runNumberPattern s = (case s of [] \<Rightarrow> False | c # cs \<Rightarrow> digit c \<and> c \<noteq> CHR ''0'' \<and> list_all digit cs)"

datatype adrian_error = FullShasRequired | NumericRunRequired | UnsupportedCallMode string

record adrian_plan =
  ap_mode :: string
  ap_immutableTag :: string
  ap_upstreamTag :: string

definition resolveAdrianPublicationPlan ::
  "string \<Rightarrow> string \<Rightarrow> string \<Rightarrow> string \<Rightarrow> string \<Rightarrow> adrian_error + adrian_plan" where
  "resolveAdrianPublicationPlan callMode targetSha upstreamSha runId runAttempt =
     (if \<not> shaPattern targetSha \<or> \<not> shaPattern upstreamSha then Inl FullShasRequired
      else if callMode = ''source''
      then Inr \<lparr>ap_mode = ''source'', ap_immutableTag = targetSha, ap_upstreamTag = ''upstream-'' @ upstreamSha\<rparr>
      else if callMode = []
      then (if \<not> runNumberPattern runId \<or> \<not> runNumberPattern runAttempt then Inl NumericRunRequired
            else Inr \<lparr>ap_mode = ''rebuild'', ap_immutableTag = ''rebuild-'' @ runId @ ''-'' @ runAttempt, ap_upstreamTag = []\<rparr>)
      else Inl (UnsupportedCallMode callMode))"

section \<open>Publications are monotone\<close>

text \<open>
  What the reconciliation relies on, for a registry \<open>reg\<close> and the verified local image: observing a tag returns what the registry has
  under it, and neither observing nor refreshing changes the registry (publishers share a lock); a push sets the tag to the local
  image when it succeeds, and at most that when it fails.
\<close>

definition registry_laws ::
  "(string \<Rightarrow> ('w, published option) publish_eff) \<Rightarrow> (string \<Rightarrow> ('w, unit) publish_eff) \<Rightarrow> ('w, unit) publish_eff
    \<Rightarrow> ('w \<Rightarrow> string \<rightharpoonup> published) \<Rightarrow> published \<Rightarrow> bool" where
  "registry_laws observe push refresh reg img \<longleftrightarrow>
     (\<forall>t w r v. observe t w = (r, v) \<longrightarrow> reg v = reg w \<and> (\<forall>x. r = Inr x \<longrightarrow> x = reg w t))
   \<and> (\<forall>t w r v. push t w = (r, v) \<longrightarrow> (reg v = reg w \<or> reg v = (reg w)(t \<mapsto> img)) \<and> (r = Inr () \<longrightarrow> reg v = (reg w)(t \<mapsto> img)))
   \<and> (\<forall>w r v. refresh w = (r, v) \<longrightarrow> reg v = reg w)"

lemma observe_triple:
  "registry_laws observe push refresh reg img \<Longrightarrow> triple (\<lambda>w. reg w = R) (observe t) (\<lambda>x v. reg v = R \<and> x = R t) (\<lambda>_ v. reg v = R)"
  by (rule tripleI) (auto simp: registry_laws_def)

lemma refresh_triple:
  "registry_laws observe push refresh reg img \<Longrightarrow> triple (\<lambda>w. reg w = R) refresh (\<lambda>_ v. reg v = R \<and> True) (\<lambda>_ v. reg v = R)"
  by (rule tripleI) (auto simp: registry_laws_def)

lemma push_triple:
  "registry_laws observe push refresh reg img \<Longrightarrow>
     triple (\<lambda>w. reg w = R) (push t) (\<lambda>_ v. reg v = R(t \<mapsto> img)) (\<lambda>_ v. reg v = R \<or> reg v = R(t \<mapsto> img))"
proof (rule tripleI)
  assume laws: "registry_laws observe push refresh reg img"
  then have law: "push t w = (r, v) \<Longrightarrow> (reg v = reg w \<or> reg v = (reg w)(t \<mapsto> img)) \<and> (r = Inr () \<longrightarrow> reg v = (reg w)(t \<mapsto> img))" for w r v
    unfolding registry_laws_def by blast
  show "reg v = R(t \<mapsto> img)" if "reg w = R" "push t w = (Inr x, v)" for w x v using law [OF that(2)] that(1) by simp
  show "reg v = R \<or> reg v = R(t \<mapsto> img)" if "reg w = R" "push t w = (Inl e, v)" for w e v using law [OF that(2)] that(1) by simp
qed

lemma read_tags_triple:
  assumes "registry_laws observe push refresh reg img"
  shows "triple (\<lambda>w. reg w = R) (read_tags observe source release)
    (\<lambda>x v. reg v = R \<and> x = (R source, R (release_tag release), R latest_tag)) (\<lambda>_ v. reg v = R)"
proof -
  note obs = observe_triple [OF assms, of R]
  have check: "triple (\<lambda>w. reg w = R) (case latest of
            None \<Rightarrow> ret ()
          | Some l \<Rightarrow>
              if pb_release l \<noteq> release
              then bnd (observe (pb_source l)) (\<lambda>sha'.
                   bnd (observe (release_tag (pb_release l))) (\<lambda>revision'.
                   bnd (ofSum (publicationPlan (pb_source l) (pb_release l) sha' revision' latest)) (\<lambda>_. ret ())))
              else ret ()) (\<lambda>_ v. reg v = R) (\<lambda>_ v. reg v = R)" for latest
  proof (cases latest)
    case None
    then show ?thesis by (auto intro: triple_ret)
  next
    case (Some l)
    have plan: "triple (\<lambda>w. reg w = R) (bnd (ofSum p) (\<lambda>_. ret ())) (\<lambda>_ v. reg v = R) (\<lambda>_ v. reg v = R)" for p :: "publication_error + publication_plan"
      by (rule triple_bnd [where R = "\<lambda>_ v. reg v = R"]) (auto intro: triple_ofSum triple_ret)
    have weak: "triple (\<lambda>w. reg w = R) (observe t) (\<lambda>_ v. reg v = R) (\<lambda>_ v. reg v = R)" for t
      by (rule triple_conseq [OF obs]) auto
    show ?thesis using Some by (auto intro!: triple_bnd [OF weak] plan triple_ret)
  qed
  show ?thesis unfolding read_tags_def
    apply (rule triple_bnd [OF obs], rule triple_pure)
    apply (rule triple_bnd [OF obs], rule triple_pure)
    apply (rule triple_bnd [OF obs], rule triple_pure)
    apply (rule triple_bnd [OF check])
    apply (rule triple_ret)
    apply simp
    done
qed

text \<open>The registry after a reconciliation that started with \<open>R\<close>.\<close>

definition moved_forward :: "published \<Rightarrow> (string \<rightharpoonup> published) \<Rightarrow> (string \<rightharpoonup> published) \<Rightarrow> bool" where
  "moved_forward img R S \<longleftrightarrow>
     (\<forall>t. t \<noteq> latest_tag \<longrightarrow> R t \<noteq> None \<longrightarrow> S t = R t)
   \<and> (S latest_tag = R latest_tag \<or> S latest_tag = Some img \<and> (\<forall>l. R latest_tag = Some l \<longrightarrow> pb_release l < pb_release img))"

lemma publish_plan:
  assumes "publicationPlan source release sha revision latest = Inr Publish"
  shows "sha = None" "revision = None" "shaPattern source" "latest = Some l \<Longrightarrow> pb_release l < release"
  using assms by (auto simp: publicationPlan_def split: if_splits)

lemma tags_differ: "shaPattern source \<Longrightarrow> source \<noteq> latest_tag" "release_tag release \<noteq> latest_tag" "shaPattern source \<Longrightarrow> source \<noteq> release_tag release"
  by (auto simp: shaPattern_def all_chars_def latest_tag_def release_tag_def hex_lower_def digit_def code_def)

lemma reconcile_triple:
  assumes laws: "registry_laws observe push refresh reg img" and "pb_release img = release"
  shows "triple (\<lambda>w. reg w = R) (reconcile observe push refresh source release)
    (\<lambda>x v. (x = AlreadyPublished \<longrightarrow> reg v = R \<and> plan_of source release (R source, R (release_tag release), R latest_tag) = Inr Noop)
       \<and> (x = NowPublished \<longrightarrow> reg v = R(source \<mapsto> img, release_tag release \<mapsto> img, latest_tag \<mapsto> img)) \<and> moved_forward img R (reg v))
    (\<lambda>_ v. moved_forward img R (reg v))"
proof -
  let ?t = "release_tag release" let ?tags = "(R source, R ?t, R latest_tag)"
  let ?Q = "\<lambda>x v. (x = AlreadyPublished \<longrightarrow> reg v = R \<and> plan_of source release ?tags = Inr Noop)
       \<and> (x = NowPublished \<longrightarrow> reg v = R(source \<mapsto> img, ?t \<mapsto> img, latest_tag \<mapsto> img)) \<and> moved_forward img R (reg v)"
  let ?E = "\<lambda>_ v. moved_forward img R (reg v)"
  have same: "moved_forward img R R" by (simp add: moved_forward_def)
  note rd = read_tags_triple [OF laws, of _ source release]
  have sums: "triple (\<lambda>w. reg w = S) (ofSum r) (\<lambda>x v. reg v = S \<and> r = Inr x) (\<lambda>_ v. reg v = S)" for S and r :: "publication_error + publication_plan"
    by (rule triple_ofSum) auto
  have guards: "triple (\<lambda>w. reg w = S) (guardE b e) (\<lambda>x v. reg v = S \<and> b) (\<lambda>_ v. reg v = S)" for S b and e :: publication_error
    by (rule triple_guardE) auto
  define S1 where "S1 = R(source \<mapsto> img)" define S2 where "S2 = S1(?t \<mapsto> img)" define S3 where "S3 = S2(latest_tag \<mapsto> img)"
  note S_defs = S1_def S2_def S3_def
  have S3_eq: "R(source \<mapsto> img, ?t \<mapsto> img, latest_tag \<mapsto> img) = S3" by (simp add: S_defs)
  have finish: "triple (\<lambda>w. reg w = S3) (bnd (read_tags observe source release) (\<lambda>completed. bnd (ofSum (plan_of source release completed)) (\<lambda>final.
      bnd (guardE (b final completed) NotConverged) (\<lambda>_. ret NowPublished)))) ?Q ?E" if "moved_forward img R S3" for b
    unfolding S3_eq using that by (auto intro!: triple_step [OF rd] triple_step [OF sums] triple_step [OF guards] triple_ret)
  note push_to = triple_bnd [OF triple_conseq [OF push_triple [OF laws]]]
  have push: "triple (\<lambda>w. reg w = R) (bnd (push source) (\<lambda>_. bnd (push ?t) (\<lambda>_. bnd (push latest_tag) (\<lambda>_. rest)))) ?Q ?E"
    if f: "moved_forward img R S1" "moved_forward img R S2" "moved_forward img R S3" and rest: "triple (\<lambda>w. reg w = S3) rest ?Q ?E" for rest
  proof -
    have p3: "triple (\<lambda>w. reg w = S2) (bnd (push latest_tag) (\<lambda>_. rest)) ?Q ?E"
      using f by (intro push_to [of _ S2, OF _ _ _ rest]) (auto simp: S3_def)
    have p2: "triple (\<lambda>w. reg w = S1) (bnd (push ?t) (\<lambda>_. bnd (push latest_tag) (\<lambda>_. rest))) ?Q ?E"
      using f by (intro push_to [of _ S1, OF _ _ _ p3]) (auto simp: S2_def)
    show ?thesis
      using f same by (intro push_to [of _ R, OF _ _ _ p2]) (auto simp: S1_def)
  qed
  have forward: "moved_forward img R S1" "moved_forward img R S2" "moved_forward img R S3" if "plan_of source release ?tags = Inr Publish"
    using publish_plan [of source release "R source" "R ?t" "R latest_tag"] tags_differ(1) [of source] tags_differ(2) [of release] tags_differ(3) [of source release] that assms(2)
    by (auto simp: plan_of_def moved_forward_def S_defs)
  show ?thesis unfolding reconcile_def
    using same by (auto intro!: triple_step [OF refresh_triple [OF laws]] triple_step [OF rd] triple_step [OF sums] triple_step [OF guards] triple_ret triple_if push finish forward)
qed

text \<open>C14. Publishing the runtime image never goes backwards, also when commands fail half-way: tags of commits and releases that exist
  are never changed, and \<^verbatim>\<open>latest\<close> stays or moves to the new image from an older release. A reconciliation that reports the image as
  published already changed nothing; one that reports a publication ends with all three tags at the new image.\<close>

theorem publication_monotone:
  assumes "registry_laws observe push refresh reg img" and "pb_release img = release"
    and "reconcile observe push refresh source release w = (res, v)"
  shows "(\<forall>t. t \<noteq> latest_tag \<longrightarrow> reg w t \<noteq> None \<longrightarrow> reg v t = reg w t)
   \<and> (reg v latest_tag = reg w latest_tag \<or> reg v latest_tag = Some img \<and> (\<forall>l. reg w latest_tag = Some l \<longrightarrow> pb_release l < release))
   \<and> (res = Inr AlreadyPublished \<longrightarrow> reg v = reg w)
   \<and> (res = Inr NowPublished \<longrightarrow> reg v = (reg w)(source \<mapsto> img, release_tag release \<mapsto> img, latest_tag \<mapsto> img))"
proof -
  note triple = tripleD [OF reconcile_triple [OF assms(1,2), of "reg w" source], of w]
  show ?thesis
  proof (cases res)
    case (Inl e)
    with triple(2) [of e v] assms(2,3) show ?thesis by (auto simp: moved_forward_def)
  next
    case (Inr x)
    with triple(1) [of x v] assms(2,3) show ?thesis by (cases x) (auto simp: moved_forward_def)
  qed
qed

section \<open>A sample\<close>

definition sample_source :: string where
  "sample_source = replicate 40 (CHR ''a'')"

definition sample_image :: published where
  "sample_image = \<lparr>pb_source = sample_source, pb_release = 7, pb_digest = ''sha256:'' @ replicate 64 (CHR ''b'')\<rparr>"

definition sample_observe :: "string \<Rightarrow> (string \<rightharpoonup> published, published option) publish_eff" where
  "sample_observe t = getS (\<lambda>w. w t)"

definition sample_push :: "string \<Rightarrow> (string \<rightharpoonup> published, unit) publish_eff" where
  "sample_push t = modS (\<lambda>w. w(t \<mapsto> sample_image))"

lemma sample_registry: "registry_laws sample_observe sample_push (ret ()) (\<lambda>w. w) sample_image"
  by (auto simp: registry_laws_def sample_observe_def sample_push_def)

lemma sample_valid: "shaPattern sample_source" "valid_published (Some sample_image)"
  by (auto simp: shaPattern_def sample_source_def all_chars_def valid_published_def sample_image_def digestPattern_def hex_lower_def digit_def
      code_def safe_integer_def list_all_iff)

theorem publication_monotone_witness:
  "case reconcile sample_observe sample_push (ret ()) sample_source 7 Map.empty of
     (res, v) \<Rightarrow> res = Inr NowPublished
       \<and> v = Map.empty(sample_source \<mapsto> sample_image, release_tag 7 \<mapsto> sample_image, latest_tag \<mapsto> sample_image)"
proof -
  obtain res v where run: "reconcile sample_observe sample_push (ret ()) sample_source 7 Map.empty = (res, v)" by fastforce
  have "res = Inr NowPublished"
    using run sample_valid tags_differ(1) [OF sample_valid(1)] tags_differ(2) [of 7] tags_differ(3) [OF sample_valid(1), of 7]
    by (auto simp: reconcile_def read_tags_def sample_observe_def sample_push_def plan_of_def publicationPlan_def bnd_def getS_def modS_def ret_def
        ofSum_def guardE_def safe_integer_def valid_published_def conflicts_def sample_image_def split: if_splits)
  with publication_monotone [OF sample_registry _ run] run show ?thesis by (simp add: sample_image_def)
qed

end
