(* ===== verification/Artifact_Catalogue.thy ===== *)
theory Artifact_Catalogue
  imports Github_Requests
begin

text \<open>
  The cached catalogue of artifacts: \<^verbatim>\<open>lib/artifact-catalogue.ts\<close>.

  A catalogue is published to a shared key-value cache as chunks and a pointer, guarded by a generation that invalidations
  change. A cached text is represented by the fields the schemas look at, each absent, ill-typed or present (\<open>None\<close>: the text is not a
  JSON object; an empty text counts as a missing key); a time stamp is its instant in milliseconds. Before every access to the cache,
  other processes may have changed it in any way, and every access may fail, a failing write with or without effect. The state of this
  process for the scope of the service (local generation, invalidation mark) is changed by its own operations only: concurrent
  loads share one flight, and the model runs one operation at a time. The repository is any pair of operations that find the base
  revision and load a catalogue; \<open>Catalogue_Guarantees\<close> takes the GitHub store. Log lines are not modelled.
\<close>

section \<open>Definitions\<close>

subsection \<open>Documents and state\<close>

definition DEFAULT_CATALOGUE_FRESHNESS_SECONDS :: int where "DEFAULT_CATALOGUE_FRESHNESS_SECONDS = 300"
definition MIN_CATALOGUE_FRESHNESS_SECONDS :: int where "MIN_CATALOGUE_FRESHNESS_SECONDS = 30"
definition MAX_CATALOGUE_FRESHNESS_SECONDS :: int where "MAX_CATALOGUE_FRESHNESS_SECONDS = 3600"
definition catalogue_schemaVersion :: int where "catalogue_schemaVersion = 2"
definition maxChunkBytes :: nat where "maxChunkBytes = 1500000"

record catalogue_identity =
  ci_repositoryId :: int
  ci_owner :: string
  ci_repository :: string
  ci_branch :: string
  ci_root :: string

datatype 'a field = Absent | Ill | Has 'a

type_synonym stored_artifact = "artifact \<times> string"

record cache_doc =
  cd_schemaVersion :: "int field"
  cd_repositoryId :: "int field"
  cd_owner :: "string field"
  cd_repository :: "string field"
  cd_branch :: "string field"
  cd_root :: "string field"
  cd_revision :: "string field"
  cd_refreshedAt :: "int field"
  cd_generation :: "string field"
  cd_publicationId :: "string field"
  cd_chunks :: "string list field"
  cd_index :: "int field"
  cd_entries :: "stored_artifact list field"

record snapshot =
  sn_revision :: string
  sn_refreshedAt :: int
  sn_entries :: "stored_artifact list"

datatype cache_state = Fresh | Refreshed | Stale | Degraded

datatype stale_reason = RepositoryUnavailable | RateLimited

record resolved_catalogue =
  rc_artifacts :: "artifact list"
  rc_fileShas :: "(string \<times> string) list"
  rc_revision :: string
  rc_refreshedAt :: int
  rc_cacheState :: cache_state
  rc_staleReason :: "stale_reason option"

datatype publication_result = PublishedNow | CompetingPublication | AbortedGeneration | AbortedRevision | DegradedCache

record refresh_options =
  ro_force :: bool
  ro_full :: bool
  ro_manual :: bool

datatype catalogue_error = CacheDown | ChunkReadError | CorruptSnapshot | InvalidSnapshot | FromRepository repo_error

record 'r catalogue_world =
  cw_cache :: "string \<rightharpoonup> cache_doc option"
  cw_localGeneration :: int
  cw_invalidated :: bool
  cw_ticks :: nat
  cw_repository :: 'r

record 'r catalogue_env =
  ce_identity :: catalogue_identity
  ce_lib :: md_lib
  ce_clock :: "nat \<Rightarrow> int"
  ce_random :: "nat \<Rightarrow> string"
  ce_freshnessSeconds :: int
  ce_size :: "stored_artifact list \<Rightarrow> nat"
  ce_others :: "nat \<Rightarrow> (string \<rightharpoonup> cache_doc option) \<Rightarrow> (string \<rightharpoonup> cache_doc option)"
  ce_fails :: "nat \<Rightarrow> bool"
  ce_applied :: "nat \<Rightarrow> bool"
  ce_base :: "('r, repo_error, string) eff"
  ce_load :: "string \<Rightarrow> ('r, repo_error, repository_catalogue) eff"

type_synonym ('r, 'a) cat_eff = "('r catalogue_world, catalogue_error, 'a) eff"

text \<open>\<^verbatim>\<open>Number(value)\<close> is a parameter: \<open>None\<close> stands for a value that is no safe integer.\<close>

definition catalogueFreshnessSeconds :: "(string \<Rightarrow> int option) \<Rightarrow> string option \<Rightarrow> int" where
  "catalogueFreshnessSeconds number value =
     (if \<not> truthy value then DEFAULT_CATALOGUE_FRESHNESS_SECONDS
      else case number (the value) of
        None \<Rightarrow> DEFAULT_CATALOGUE_FRESHNESS_SECONDS
      | Some n \<Rightarrow> min MAX_CATALOGUE_FRESHNESS_SECONDS (max MIN_CATALOGUE_FRESHNESS_SECONDS n))"

definition catalogue_scope :: "catalogue_identity \<Rightarrow> string" where
  "catalogue_scope i =
     ''catalogue:v'' @ show_int catalogue_schemaVersion @ '':repository:'' @ show_int (ci_repositoryId i) @ '':''
     @ encodeURIComponent (js_lower (ci_owner i)) @ '':'' @ encodeURIComponent (js_lower (ci_repository i)) @ '':''
     @ encodeURIComponent (ci_branch i) @ '':'' @ encodeURIComponent (ci_root i)"

definition pointerKey :: "catalogue_identity \<Rightarrow> string" where
  "pointerKey i = catalogue_scope i @ '':current''"

definition generationKey :: "catalogue_identity \<Rightarrow> string" where
  "generationKey i = catalogue_scope i @ '':generation''"

definition chunkKey :: "catalogue_identity \<Rightarrow> string \<Rightarrow> nat \<Rightarrow> string" where
  "chunkKey i revision n = catalogue_scope i @ '':snapshot:'' @ revision @ '':chunk:'' @ show_nat n"

definition requestLevel :: "refresh_options \<Rightarrow> nat" where
  "requestLevel opts = (if ro_full opts then 2 else if ro_force opts then 1 else 0)"

subsection \<open>Access to the cache, the repository, the clock\<close>

definition others :: "'r catalogue_env \<Rightarrow> ('r, nat) cat_eff" where
  "others env w = (Inr (cw_ticks w), w\<lparr>cw_cache := ce_others env (cw_ticks w) (cw_cache w), cw_ticks := cw_ticks w + 1\<rparr>)"

definition cache_get :: "'r catalogue_env \<Rightarrow> string \<Rightarrow> ('r, cache_doc option option) cat_eff" where
  "cache_get env key = bnd (others env) (\<lambda>n. bnd (guardE (\<not> ce_fails env n) CacheDown) (\<lambda>_. getS (\<lambda>w. cw_cache w key)))"

definition cache_change :: "'r catalogue_env \<Rightarrow> string \<Rightarrow> cache_doc option option \<Rightarrow> ('r, unit) cat_eff" where
  "cache_change env key value =
     bnd (others env) (\<lambda>n.
       if ce_fails env n
       then bnd (if ce_applied env n then modS (\<lambda>w. w\<lparr>cw_cache := (cw_cache w)(key := value)\<rparr>) else ret ()) (\<lambda>_. throw CacheDown)
       else modS (\<lambda>w. w\<lparr>cw_cache := (cw_cache w)(key := value)\<rparr>))"

definition cache_put :: "'r catalogue_env \<Rightarrow> string \<Rightarrow> cache_doc \<Rightarrow> ('r, unit) cat_eff" where
  "cache_put env key doc = cache_change env key (Some (Some doc))"

definition cache_delete :: "'r catalogue_env \<Rightarrow> string \<Rightarrow> ('r, unit) cat_eff" where
  "cache_delete env key = cache_change env key None"

definition repository :: "('r, repo_error, 'a) eff \<Rightarrow> ('r, 'a) cat_eff" where
  "repository m w =
     (case m (cw_repository w) of
        (Inl e, r) \<Rightarrow> (Inl (FromRepository e), w\<lparr>cw_repository := r\<rparr>)
      | (Inr x, r) \<Rightarrow> (Inr x, w\<lparr>cw_repository := r\<rparr>))"

definition clock_now :: "'r catalogue_env \<Rightarrow> ('r, int) cat_eff" where
  "clock_now env w = (Inr (ce_clock env (cw_ticks w)), w\<lparr>cw_ticks := cw_ticks w + 1\<rparr>)"

definition random_text :: "'r catalogue_env \<Rightarrow> ('r, string) cat_eff" where
  "random_text env w = (Inr (ce_random env (cw_ticks w)), w\<lparr>cw_ticks := cw_ticks w + 1\<rparr>)"

subsection \<open>Schemas\<close>

definition field_value :: "'a field \<Rightarrow> 'a option" where
  "field_value f = (case f of Has x \<Rightarrow> Some x | _ \<Rightarrow> None)"

definition same_identity :: "catalogue_identity \<Rightarrow> cache_doc \<Rightarrow> bool" where
  "same_identity i d =
     (cd_repositoryId d = Has (ci_repositoryId i)
      \<and> map_option js_lower (field_value (cd_owner d)) = Some (js_lower (ci_owner i))
      \<and> map_option js_lower (field_value (cd_repository d)) = Some (js_lower (ci_repository i))
      \<and> cd_branch d = Has (ci_branch i) \<and> cd_root d = Has (ci_root i))"

text \<open>The fields that pointers and chunks share.\<close>

definition header_ok :: "cache_doc \<Rightarrow> bool" where
  "header_ok d =
     (cd_schemaVersion d = Has catalogue_schemaVersion \<and> (case cd_repositoryId d of Has n \<Rightarrow> 0 < n | _ \<Rightarrow> False)
      \<and> field_value (cd_owner d) \<noteq> None \<and> field_value (cd_repository d) \<noteq> None \<and> field_value (cd_branch d) \<noteq> None
      \<and> field_value (cd_root d) \<noteq> None \<and> (case cd_revision d of Has r \<Rightarrow> revision_pattern r | _ \<Rightarrow> False))"

definition pointerSchema :: "cache_doc \<Rightarrow> bool" where
  "pointerSchema d =
     (header_ok d \<and> field_value (cd_refreshedAt d) \<noteq> None \<and> cd_generation d \<noteq> Ill \<and> cd_publicationId d \<noteq> Ill
      \<and> (case cd_chunks d of Has ks \<Rightarrow> ks \<noteq> [] \<and> list_all (\<lambda>k. k \<noteq> []) ks | _ \<Rightarrow> False))"

text \<open>\<^verbatim>\<open>artifactSchema\<close>: the front matter schema, whose result replaces the metadata.\<close>

definition artifact_value :: "artifact_metadata \<Rightarrow> js_value" where
  "artifact_value m =
     JObj ([(''id'', JStr (art_id m)), (''title'', JStr (art_title m)), (''description'', JStr (art_description m)),
            (''type'', JStr (artifact_type_name (art_type m))), (''tags'', JArr (map JStr (art_tags m))),
            (''aliases'', JArr (map JStr (art_aliases m)))]
           @ (case art_sourceId m of None \<Rightarrow> [] | Some x \<Rightarrow> [(''sourceId'', JStr x)])
           @ (case art_createdAt m of None \<Rightarrow> [] | Some c \<Rightarrow> [(''createdAt'', created_value c)]))"

definition artifactSchema :: "md_lib \<Rightarrow> artifact \<Rightarrow> artifact option" where
  "artifactSchema lib a =
     map_option (\<lambda>m. artifact_metadata.extend m (artifact.fields (art_body a) (art_excerpt a) (art_path a)))
       (artifactFrontMatterSchema lib (artifact_value (artifact_metadata.truncate a)))"

fun parse_entries :: "md_lib \<Rightarrow> stored_artifact list \<Rightarrow> stored_artifact list option" where
  "parse_entries lib [] = Some []"
| "parse_entries lib ((a, sha) # es) =
     (case (artifactSchema lib a, parse_entries lib es) of
        (Some b, Some fs) \<Rightarrow> if revision_pattern sha then Some ((b, sha) # fs) else None
      | _ \<Rightarrow> None)"

definition chunkSchema :: "md_lib \<Rightarrow> cache_doc \<Rightarrow> stored_artifact list option" where
  "chunkSchema lib d =
     (if header_ok d \<and> (case cd_index d of Has n \<Rightarrow> 0 \<le> n | _ \<Rightarrow> False)
      then (case cd_entries d of Has es \<Rightarrow> parse_entries lib es | _ \<Rightarrow> None) else None)"

definition generationSchema :: "cache_doc \<Rightarrow> string option" where
  "generationSchema d =
     (if cd_schemaVersion d = Has catalogue_schemaVersion then (case cd_generation d of Has g \<Rightarrow> if g \<noteq> [] then Some g else None | _ \<Rightarrow> None) else None)"

definition entry_ok :: "md_lib \<Rightarrow> stored_artifact \<Rightarrow> bool" where
  "entry_ok lib e =
     (case e of (a, sha) \<Rightarrow>
        (case artifactSchema lib a of
           None \<Rightarrow> False
         | Some b \<Rightarrow> revision_pattern sha \<and> classifyArtifactPath (art_path b) \<noteq> None \<and> suffix ''.md'' (forward_slashes (art_path b))
             \<and> artifactSchema lib b \<noteq> None))"

definition validateSnapshot :: "md_lib \<Rightarrow> snapshot \<Rightarrow> bool" where
  "validateSnapshot lib s =
     (revision_pattern (sn_revision s) \<and> list_all (entry_ok lib) (sn_entries s)
      \<and> is_ok (validateUniqueArtifactIds (map fst (sn_entries s))))"

subsection \<open>Reading the cache\<close>

definition readGeneration :: "'r catalogue_env \<Rightarrow> ('r, string option \<times> bool) cat_eff" where
  "readGeneration env =
     handle (bnd (cache_get env (generationKey (ce_identity env))) (\<lambda>raw.
               case raw of
                 None \<Rightarrow> ret (None, False)
               | Some d \<Rightarrow> (case d of None \<Rightarrow> throw CorruptSnapshot
                   | Some doc \<Rightarrow> (case generationSchema doc of None \<Rightarrow> throw CorruptSnapshot | Some g \<Rightarrow> ret (Some g, False)))))
       (\<lambda>_. ret (None, True))"

record snapshot_read =
  sr_snapshot :: "snapshot option"
  sr_generation :: "string option"
  sr_publicationId :: "string option"
  sr_failed :: bool
  sr_corrupt :: bool

definition nothing_read :: snapshot_read where
  "nothing_read = \<lparr>sr_snapshot = None, sr_generation = None, sr_publicationId = None, sr_failed = False, sr_corrupt = False\<rparr>"

definition read_chunk :: "'r catalogue_env \<Rightarrow> string \<Rightarrow> nat \<times> string \<Rightarrow> ('r, stored_artifact list) cat_eff" where
  "read_chunk env revision item =
     bnd (handle (cache_get env (snd item)) (\<lambda>_. throw ChunkReadError)) (\<lambda>raw.
       case raw of
         Some (Some d) \<Rightarrow>
           (case chunkSchema (ce_lib env) d of
              None \<Rightarrow> throw CorruptSnapshot
            | Some es \<Rightarrow>
                if same_identity (ce_identity env) d \<and> cd_revision d = Has revision \<and> cd_index d = Has (int (fst item))
                then ret es else throw CorruptSnapshot)
       | _ \<Rightarrow> throw CorruptSnapshot)"

definition read_pointed :: "'r catalogue_env \<Rightarrow> cache_doc \<Rightarrow> ('r, snapshot_read) cat_eff" where
  "read_pointed env d =
     bnd (guardE (pointerSchema d \<and> same_identity (ce_identity env) d) CorruptSnapshot) (\<lambda>_.
     let revision = the (field_value (cd_revision d)); keys = the (field_value (cd_chunks d)) in
     bnd (mapE (read_chunk env revision) (enumerate 0 keys)) (\<lambda>chunks.
     let s = \<lparr>sn_revision = revision, sn_refreshedAt = the (field_value (cd_refreshedAt d)), sn_entries = concat chunks\<rparr> in
     bnd (guardE (validateSnapshot (ce_lib env) s) CorruptSnapshot) (\<lambda>_.
     ret (nothing_read\<lparr>sr_snapshot := Some s, sr_generation := field_value (cd_generation d), sr_publicationId := field_value (cd_publicationId d)\<rparr>))))"

definition readSnapshot :: "'r catalogue_env \<Rightarrow> ('r, snapshot_read) cat_eff" where
  "readSnapshot env =
     bnd (handle (bnd (cache_get env (pointerKey (ce_identity env))) (\<lambda>raw. ret (Some raw))) (\<lambda>_. ret None)) (\<lambda>pointer.
       case pointer of
         None \<Rightarrow> ret (nothing_read\<lparr>sr_failed := True\<rparr>)
       | Some None \<Rightarrow> ret nothing_read
       | Some (Some None) \<Rightarrow> ret (nothing_read\<lparr>sr_corrupt := True\<rparr>)
       | Some (Some (Some d)) \<Rightarrow>
           handle (read_pointed env d)
             (\<lambda>e. if e = ChunkReadError then ret (nothing_read\<lparr>sr_failed := True\<rparr>) else ret (nothing_read\<lparr>sr_corrupt := True\<rparr>)))"

subsection \<open>Publishing\<close>

definition generation_doc :: "string \<Rightarrow> cache_doc" where
  "generation_doc g =
     \<lparr>cd_schemaVersion = Has catalogue_schemaVersion, cd_repositoryId = Absent, cd_owner = Absent, cd_repository = Absent, cd_branch = Absent,
      cd_root = Absent, cd_revision = Absent, cd_refreshedAt = Absent, cd_generation = Has g, cd_publicationId = Absent, cd_chunks = Absent,
      cd_index = Absent, cd_entries = Absent\<rparr>"

definition identity_doc :: "catalogue_identity \<Rightarrow> string \<Rightarrow> cache_doc" where
  "identity_doc i revision =
     \<lparr>cd_schemaVersion = Has catalogue_schemaVersion, cd_repositoryId = Has (ci_repositoryId i), cd_owner = Has (ci_owner i),
      cd_repository = Has (ci_repository i), cd_branch = Has (ci_branch i), cd_root = Has (ci_root i), cd_revision = Has revision,
      cd_refreshedAt = Absent, cd_generation = Absent, cd_publicationId = Absent, cd_chunks = Absent, cd_index = Absent, cd_entries = Absent\<rparr>"

definition optional_field :: "'a option \<Rightarrow> 'a field" where
  "optional_field v = (case v of None \<Rightarrow> Absent | Some x \<Rightarrow> Has x)"

fun chunk_groups :: "(stored_artifact list \<Rightarrow> nat) \<Rightarrow> stored_artifact list \<Rightarrow> stored_artifact list \<Rightarrow> stored_artifact list list" where
  "chunk_groups bytes current [] = [current]"
| "chunk_groups bytes current (e # es) =
     (if current \<noteq> [] \<and> maxChunkBytes < bytes (current @ [e]) then current # chunk_groups bytes [e] es
      else chunk_groups bytes (current @ [e]) es)"

text \<open>\<^verbatim>\<open>Promise.all\<close> over writes: all of them run, and one failure is enough for an error.\<close>

fun put_all :: "'r catalogue_env \<Rightarrow> (string \<times> cache_doc) list \<Rightarrow> ('r, bool) cat_eff" where
  "put_all env [] = ret True"
| "put_all env ((key, doc) # rest) =
     bnd (handle (bnd (cache_put env key doc) (\<lambda>_. ret True)) (\<lambda>_. ret False)) (\<lambda>ok.
     bnd (put_all env rest) (\<lambda>oks. ret (ok \<and> oks)))"

definition invalidate_locally :: "('r, unit) cat_eff" where
  "invalidate_locally = modS (\<lambda>w. w\<lparr>cw_localGeneration := cw_localGeneration w + 1, cw_invalidated := True\<rparr>)"

definition put_generation :: "'r catalogue_env \<Rightarrow> ('r, unit) cat_eff" where
  "put_generation env = bnd (random_text env) (\<lambda>g. cache_put env (generationKey (ce_identity env)) (generation_doc g))"

definition cleanupUnverifiedPublication :: "'r catalogue_env \<Rightarrow> snapshot \<Rightarrow> string \<Rightarrow> ('r, unit) cat_eff" where
  "cleanupUnverifiedPublication env s publicationId =
     bnd invalidate_locally (\<lambda>_.
     bnd (handle (put_generation env) (\<lambda>_. ret ())) (\<lambda>_.
     handle
       (bnd (readSnapshot env) (\<lambda>visible.
        if sr_publicationId visible \<noteq> Some publicationId
           \<and> (case sr_snapshot visible of None \<Rightarrow> False | Some v \<Rightarrow> sn_refreshedAt s < sn_refreshedAt v)
        then ret () else cache_delete env (pointerKey (ce_identity env))))
       (\<lambda>_. ret ())))"

definition recoverCachePublication ::
  "'r catalogue_env \<Rightarrow> snapshot \<Rightarrow> string option \<Rightarrow> string \<Rightarrow> bool \<Rightarrow> ('r, publication_result) cat_eff" where
  "recoverCachePublication env s generation publicationId pointerAttempted =
     bnd (readSnapshot env) (\<lambda>competing.
       if sr_publicationId competing \<noteq> Some publicationId
          \<and> (case sr_snapshot competing of None \<Rightarrow> False
             | Some c \<Rightarrow> sn_revision c = sn_revision s \<and> sr_generation competing = generation \<and> sn_refreshedAt s \<le> sn_refreshedAt c)
       then ret CompetingPublication
       else bnd (if pointerAttempted then cleanupUnverifiedPublication env s publicationId else ret ()) (\<lambda>_. ret DegradedCache))"

definition verifyBaseRevision :: "'r catalogue_env \<Rightarrow> snapshot \<Rightarrow> string \<Rightarrow> bool \<Rightarrow> ('r, publication_result option) cat_eff" where
  "verifyBaseRevision env s publicationId pointerPublished =
     (let cleanup = (if pointerPublished then cleanupUnverifiedPublication env s publicationId else ret ()) in
      bnd (handle (bnd (repository (ce_base env)) (\<lambda>revision. ret (Inr revision))) (\<lambda>e. ret (Inl e))) (\<lambda>outcome.
        case outcome of
          Inl e \<Rightarrow>
            bnd cleanup (\<lambda>_. case e of FromRepository (ArtifactRepositoryUnavailableError st) \<Rightarrow> ret (Some DegradedCache) | _ \<Rightarrow> throw e)
        | Inr revision \<Rightarrow>
            if revision = sn_revision s then ret None
            else bnd cleanup (\<lambda>_. ret (Some AbortedRevision))))"

definition chunk_docs :: "'r catalogue_env \<Rightarrow> snapshot \<Rightarrow> (string \<times> cache_doc) list" where
  "chunk_docs env s =
     map (\<lambda>(n, es). (chunkKey (ce_identity env) (sn_revision s) n,
            (identity_doc (ce_identity env) (sn_revision s))\<lparr>cd_index := Has (int n), cd_entries := Has es\<rparr>))
       (enumerate 0 (chunk_groups (ce_size env) [] (sn_entries s)))"

definition pointer_doc :: "'r catalogue_env \<Rightarrow> snapshot \<Rightarrow> string option \<Rightarrow> string \<Rightarrow> cache_doc" where
  "pointer_doc env s generation publicationId =
     (identity_doc (ce_identity env) (sn_revision s))\<lparr>cd_refreshedAt := Has (sn_refreshedAt s), cd_generation := optional_field generation,
       cd_publicationId := Has publicationId, cd_chunks := Has (map fst (chunk_docs env s))\<rparr>"

text \<open>The pointer, and the verification after it.\<close>

definition publish_pointer :: "'r catalogue_env \<Rightarrow> snapshot \<Rightarrow> string option \<Rightarrow> string \<Rightarrow> ('r, publication_result) cat_eff" where
  "publish_pointer env s generation publicationId =
     bnd (handle (bnd (cache_put env (pointerKey (ce_identity env)) (pointer_doc env s generation publicationId)) (\<lambda>_. ret True))
            (\<lambda>_. ret False)) (\<lambda>pointed.
       if \<not> pointed then recoverCachePublication env s generation publicationId True
       else
         bnd (verifyBaseRevision env s publicationId True) (\<lambda>post.
           case post of
             Some r \<Rightarrow> ret r
           | None \<Rightarrow> bnd (modS (\<lambda>w. w\<lparr>cw_invalidated := False\<rparr>)) (\<lambda>_. ret PublishedNow)))"

definition publish :: "'r catalogue_env \<Rightarrow> snapshot \<Rightarrow> string option \<Rightarrow> int \<Rightarrow> ('r, publication_result) cat_eff" where
  "publish env s startingGeneration startingLocalGeneration =
     bnd (random_text env) (\<lambda>publicationId.
     bnd (put_all env (chunk_docs env s)) (\<lambda>stored.
       if \<not> stored then recoverCachePublication env s startingGeneration publicationId False
       else
         bnd (readGeneration env) (\<lambda>(current, failed).
         bnd (getS cw_localGeneration) (\<lambda>localGeneration.
           if failed then ret DegradedCache
           else if current \<noteq> startingGeneration \<or> localGeneration \<noteq> startingLocalGeneration then ret AbortedGeneration
           else
             bnd (verifyBaseRevision env s publicationId False) (\<lambda>pre.
               case pre of
                 Some r \<Rightarrow> ret r
               | None \<Rightarrow>
                   publish_pointer env s startingGeneration publicationId)))))"

subsection \<open>The operations of the service\<close>

definition catalogue_result :: "snapshot \<Rightarrow> cache_state \<Rightarrow> resolved_catalogue" where
  "catalogue_result s st =
     \<lparr>rc_artifacts = map fst (sn_entries s), rc_fileShas = map (\<lambda>(a, sha). (art_id a, sha)) (sn_entries s), rc_revision = sn_revision s,
      rc_refreshedAt = sn_refreshedAt s, rc_cacheState = st, rc_staleReason = None\<rparr>"

text \<open>A file revision that is \<^verbatim>\<open>undefined\<close> fails the check of the snapshot, as the empty text does.\<close>

definition loaded_snapshot :: "int \<Rightarrow> repository_catalogue \<Rightarrow> snapshot" where
  "loaded_snapshot now c =
     \<lparr>sn_revision = cat_revision c, sn_refreshedAt = now,
      sn_entries = map (\<lambda>a. (a, case cat_fileShas c (art_id a) of None \<Rightarrow> [] | Some sha \<Rightarrow> sha)) (cat_artifacts c)\<rparr>"

definition refresh_snapshot :: "'r catalogue_env \<Rightarrow> refresh_options \<Rightarrow> int \<Rightarrow> snapshot option \<Rightarrow> ('r, snapshot) cat_eff" where
  "refresh_snapshot env opts now cached =
     bnd (repository (ce_base env)) (\<lambda>revision.
       case cached of
         Some c \<Rightarrow>
           if \<not> ro_full opts \<and> revision = sn_revision c then ret (c\<lparr>sn_refreshedAt := now\<rparr>)
           else bnd (repository (ce_load env revision)) (\<lambda>l.
                bnd (guardE (validateSnapshot (ce_lib env) (loaded_snapshot now l)) InvalidSnapshot) (\<lambda>_. ret (loaded_snapshot now l)))
       | None \<Rightarrow>
           bnd (repository (ce_load env revision)) (\<lambda>l.
           bnd (guardE (validateSnapshot (ce_lib env) (loaded_snapshot now l)) InvalidSnapshot) (\<lambda>_. ret (loaded_snapshot now l))))"

definition stale_answer :: "snapshot option \<Rightarrow> catalogue_error \<Rightarrow> ('r, resolved_catalogue) cat_eff" where
  "stale_answer cached e =
     (case (cached, e) of
        (Some c, FromRepository (ArtifactRepositoryUnavailableError st)) \<Rightarrow>
          ret ((catalogue_result c Stale)\<lparr>rc_staleReason := Some (if st = Some 429 then RateLimited else RepositoryUnavailable)\<rparr>)
      | _ \<Rightarrow> throw e)"

definition refresh_and_publish ::
  "'r catalogue_env \<Rightarrow> refresh_options \<Rightarrow> int \<Rightarrow> snapshot option \<Rightarrow> string option \<Rightarrow> int \<Rightarrow> bool \<Rightarrow> ('r, resolved_catalogue) cat_eff" where
  "refresh_and_publish env opts now cached generation localGeneration degraded =
     bnd (refresh_snapshot env opts now cached) (\<lambda>s.
     bnd (publish env s generation localGeneration) (\<lambda>publication.
     ret (catalogue_result s
       (if degraded \<or> publication \<in> {DegradedCache, AbortedGeneration, AbortedRevision} then Degraded else Refreshed))))"

definition catalogue_load :: "'r catalogue_env \<Rightarrow> refresh_options \<Rightarrow> ('r, resolved_catalogue) cat_eff" where
  "catalogue_load env opts =
     bnd (clock_now env) (\<lambda>now.
     bnd (getS cw_localGeneration) (\<lambda>localGeneration.
     bnd (readGeneration env) (\<lambda>(generation, generationFailed).
     bnd (readSnapshot env) (\<lambda>cachedRead.
     bnd (getS cw_invalidated) (\<lambda>invalidated.
     let cached = (if invalidated \<or> sr_generation cachedRead \<noteq> generation then None else sr_snapshot cachedRead);
         degraded = (generationFailed \<or> sr_failed cachedRead)
     in if (case cached of None \<Rightarrow> False
            | Some c \<Rightarrow> \<not> ro_force opts \<and> \<not> degraded \<and> now - sn_refreshedAt c < ce_freshnessSeconds env * 1000)
        then ret (catalogue_result (the cached) Fresh)
        else
          handle (refresh_and_publish env opts now cached generation localGeneration degraded) (stale_answer cached))))))"

definition catalogue_find :: "'r catalogue_env \<Rightarrow> string \<Rightarrow> ('r, (artifact \<times> string \<times> string) option) cat_eff" where
  "catalogue_find env i =
     bnd (catalogue_load env \<lparr>ro_force = False, ro_full = False, ro_manual = False\<rparr>) (\<lambda>r.
     ret (case find (\<lambda>a. art_id a = i) (rc_artifacts r) of
            None \<Rightarrow> None
          | Some a \<Rightarrow> (case map_of (rev (rc_fileShas r)) i of
              None \<Rightarrow> None | Some sha \<Rightarrow> if sha = [] then None else Some (a, sha, rc_revision r))))"

definition invalidate :: "'r catalogue_env \<Rightarrow> ('r, bool) cat_eff" where
  "invalidate env =
     bnd invalidate_locally (\<lambda>_.
     handle
       (bnd (put_generation env) (\<lambda>_.
        bnd (cache_delete env (pointerKey (ce_identity env))) (\<lambda>_. ret True)))
       (\<lambda>_. ret False))"

datatype cache_diagnostic =
    DiagDegraded
  | DiagCorrupt
  | DiagMissing
  | DiagLocallyInvalidated
  | DiagGenerationMismatch
  | DiagFresh string int int nat "bool option"
  | DiagStale string int int nat "bool option" bool

definition catalogue_inspect :: "'r catalogue_env \<Rightarrow> string option \<Rightarrow> ('r, cache_diagnostic) cat_eff" where
  "catalogue_inspect env currentRevision =
     bnd (readGeneration env) (\<lambda>(generation, generationFailed).
     bnd (readSnapshot env) (\<lambda>cached.
     bnd (getS cw_invalidated) (\<lambda>invalidated.
       if generationFailed \<or> sr_failed cached then ret DiagDegraded
       else if sr_corrupt cached then ret DiagCorrupt
       else case sr_snapshot cached of
         None \<Rightarrow> ret DiagMissing
       | Some s \<Rightarrow>
           if invalidated then ret DiagLocallyInvalidated
           else if sr_generation cached \<noteq> generation then ret DiagGenerationMismatch
           else
             bnd (clock_now env) (\<lambda>now.
             let age = max 0 ((now - sn_refreshedAt s) div 1000);
                 matches = (if truthy currentRevision then Some (the currentRevision = sn_revision s) else None);
                 n = length (sn_entries s)
             in ret (if age < ce_freshnessSeconds env \<and> matches \<noteq> Some False
                     then DiagFresh (sn_revision s) (sn_refreshedAt s) age n matches
                     else DiagStale (sn_revision s) (sn_refreshedAt s) age n matches (matches = Some False))))))"

end
