(* ===== verification/Catalogue_Guarantees.thy ===== *)
theory Catalogue_Guarantees
  imports Artifact_Catalogue
begin

text \<open>
  What the cached catalogue guarantees: whatever the cache holds, only valid catalogues are served, and after an invalidation the
  next load asks the repository. The repository is a locale, interpreted on the GitHub store.
\<close>

section \<open>Only valid catalogues are served\<close>

definition valid_catalogue :: "md_lib \<Rightarrow> resolved_catalogue \<Rightarrow> bool" where
  "valid_catalogue lib r \<longleftrightarrow>
     revision_pattern (rc_revision r) \<and> distinct (map art_id (rc_artifacts r))
   \<and> list_all (\<lambda>a. artifactSchema lib a \<noteq> None \<and> isSupportedArtifactPath (art_path a)) (rc_artifacts r)
   \<and> map fst (rc_fileShas r) = map art_id (rc_artifacts r) \<and> list_all (\<lambda>(i, sha). revision_pattern sha) (rc_fileShas r)"

lemma artifactSchema_path: "artifactSchema lib a = Some b \<Longrightarrow> art_path b = art_path a"
  by (auto simp: artifactSchema_def artifact_metadata.defs artifact.defs)

lemma classified_nonempty: "classifyArtifactPath p \<noteq> None \<Longrightarrow> p \<noteq> []"
  by (auto simp: classifyArtifactPath_def safeSegments_def safe_segment_def forward_slashes_def drop_leading_slashes_def trimSlashes_def
      strip_def strip_end_def split: option.splits if_splits)

lemma entry_ok_facts:
  assumes "entry_ok lib (a, sha)"
  shows "artifactSchema lib a \<noteq> None" "isSupportedArtifactPath (art_path a)" "art_path a \<noteq> []" "revision_pattern sha"
  using assms artifactSchema_path [of lib a] classified_nonempty [of "art_path a"]
  by (auto simp: entry_ok_def isSupportedArtifactPath_def split: option.splits)

lemma valid_result:
  assumes "validateSnapshot lib s"
  shows "valid_catalogue lib (catalogue_result s st)"
proof -
  have ok: "entry_ok lib e" if "e \<in> set (sn_entries s)" for e using assms that by (auto simp: validateSnapshot_def list_all_iff)
  then have "\<forall>a \<in> set (map fst (sn_entries s)). art_path a \<noteq> []" using entry_ok_facts(3) by fastforce
  from validateUniqueArtifactIds_iff [OF this] have "distinct (map art_id (map fst (sn_entries s)))"
    using assms by (simp add: validateSnapshot_def)
  moreover have "map fst (map (\<lambda>(a, sha). (art_id a, sha)) (sn_entries s)) = map art_id (map fst (sn_entries s))" by auto
  moreover have "list_all (\<lambda>a. artifactSchema lib a \<noteq> None \<and> isSupportedArtifactPath (art_path a)) (map fst (sn_entries s))"
    using ok entry_ok_facts by (fastforce simp: list_all_iff)
  moreover have "list_all (\<lambda>(i, sha). revision_pattern sha) (map (\<lambda>(a, sha). (art_id a, sha)) (sn_entries s))"
    using ok entry_ok_facts(4) by (fastforce simp: list_all_iff)
  ultimately show ?thesis using assms by (simp add: valid_catalogue_def catalogue_result_def validateSnapshot_def del: map_map)
qed

text \<open>A property of every value an operation returns.\<close>

definition yields :: "('s, 'e, 'a) eff \<Rightarrow> ('a \<Rightarrow> bool) \<Rightarrow> bool" where
  "yields m q \<longleftrightarrow> (\<forall>w x v. m w = (Inr x, v) \<longrightarrow> q x)"

lemma yields_any: "yields m (\<lambda>_. True)"
  by (simp add: yields_def)

lemma yields_bnd: "yields m p \<Longrightarrow> (\<And>x. p x \<Longrightarrow> yields (f x) q) \<Longrightarrow> yields (bnd m f) q"
  unfolding yields_def bnd_Inr by blast

lemma yields_then: "(\<And>x. yields (f x) q) \<Longrightarrow> yields (bnd m f) q"
  by (auto simp: yields_def bnd_Inr)

lemma yields_handle: "yields m q \<Longrightarrow> (\<And>e. yields (h e) q) \<Longrightarrow> yields (handle m h) q"
  by (fastforce simp: yields_def handle_def split: prod.split_asm sum.split_asm)

lemma yields_guard: "(b \<Longrightarrow> yields (f ()) q) \<Longrightarrow> yields (bnd (guardE b e) f) q"
  by (cases b) (auto simp: yields_def bnd_Inr)

lemma yields_base: "q x \<Longrightarrow> yields (ret x) q" "yields (throw e) q"
  by (auto simp: yields_def)

definition sound_read :: "'r catalogue_env \<Rightarrow> snapshot_read \<Rightarrow> bool" where
  "sound_read env r \<longleftrightarrow> (case sr_snapshot r of None \<Rightarrow> True | Some s \<Rightarrow> validateSnapshot (ce_lib env) s)"

lemma read_is_sound: "yields (readSnapshot env) (sound_read env)"
proof -
  have "yields (read_pointed env d) (sound_read env)" for d
    unfolding read_pointed_def Let_def
    by (intro yields_guard yields_then yields_base) (simp add: sound_read_def)
  then show ?thesis unfolding readSnapshot_def
    by (intro yields_then) (auto simp: sound_read_def nothing_read_def intro!: yields_handle yields_base split: option.split)
qed

lemma validate_time [simp]: "validateSnapshot lib (s\<lparr>sn_refreshedAt := t\<rparr>) = validateSnapshot lib s"
  by (simp add: validateSnapshot_def)

lemma refresh_is_valid:
  assumes "\<And>c. cached = Some c \<Longrightarrow> validateSnapshot (ce_lib env) c"
  shows "yields (refresh_snapshot env opts now cached) (validateSnapshot (ce_lib env))"
  unfolding refresh_snapshot_def
  using assms by (intro yields_then) (auto intro!: yields_then yields_guard yields_base split: option.split)

definition answer_ok :: "'r catalogue_env \<Rightarrow> refresh_options \<Rightarrow> resolved_catalogue \<Rightarrow> bool" where
  "answer_ok env opts r \<longleftrightarrow> valid_catalogue (ce_lib env) r \<and> (rc_cacheState r = Fresh \<longrightarrow> \<not> ro_force opts)
     \<and> (rc_cacheState r = Stale \<longleftrightarrow> rc_staleReason r \<noteq> None)"

lemma valid_stale_reason [simp]: "valid_catalogue lib (r\<lparr>rc_staleReason := x\<rparr>) = valid_catalogue lib r"
  by (simp add: valid_catalogue_def)

lemma result_simps [simp]:
  "rc_cacheState (catalogue_result s st) = st" "rc_staleReason (catalogue_result s st) = None" "rc_revision (catalogue_result s st) = sn_revision s"
  "rc_artifacts (catalogue_result s st) = map fst (sn_entries s)"
  by (simp_all add: catalogue_result_def)

text \<open>C36. Whatever the cache holds and whichever accesses fail, a catalogue that is served has a well-formed revision, artifacts with unique
  identifiers, valid metadata and supported paths, and one well-formed file revision for each; a forced refresh is never answered from
  the cache alone, and a stale answer says why.\<close>

theorem served_catalogue_valid:
  assumes "catalogue_load env opts w = (Inr r, v)"
  shows "valid_catalogue (ce_lib env) r \<and> (rc_cacheState r = Fresh \<longrightarrow> \<not> ro_force opts) \<and> (rc_cacheState r = Stale \<longleftrightarrow> rc_staleReason r \<noteq> None)"
proof -
  have stale: "yields (stale_answer c e) (answer_ok env opts)" if "\<And>x. c = Some x \<Longrightarrow> validateSnapshot (ce_lib env) x" for c e
    using that valid_result [of "ce_lib env" _ Stale]
    by (auto simp: stale_answer_def answer_ok_def intro!: yields_base split: option.split catalogue_error.split repo_error.split)
  have good: "answer_ok env opts (catalogue_result s st)" if "validateSnapshot (ce_lib env) s" "st = Fresh \<longrightarrow> \<not> ro_force opts" "st \<noteq> Stale" for s st
    using that valid_result [of "ce_lib env" s st] by (auto simp: answer_ok_def)
  have "yields (catalogue_load env opts) (answer_ok env opts)"
    unfolding catalogue_load_def Let_def
  proof (intro yields_then, goal_cases)
    case (1 now lg gf)
    obtain g failed where gf: "gf = (g, failed)" by (cases gf)
    show ?case unfolding gf prod.case
    proof (intro yields_bnd [OF read_is_sound] yields_then, goal_cases)
      case (1 rd inv)
      let ?cached = "if inv \<or> sr_generation rd \<noteq> g then None else sr_snapshot rd"
      have ok: "validateSnapshot (ce_lib env) c" if "?cached = Some c" for c
        using 1 that by (auto simp: sound_read_def split: if_splits)
      note refresh = refresh_is_valid [of ?cached env opts now, OF ok]
      have "yields (refresh_and_publish env opts now ?cached g lg d) (answer_ok env opts)" for d
        unfolding refresh_and_publish_def by (rule yields_bnd [OF refresh]) (auto intro!: yields_then yields_base good split: if_splits)
      then have body: "yields (handle (refresh_and_publish env opts now ?cached g lg d) (stale_answer ?cached)) (answer_ok env opts)" for d
        by (rule yields_handle) (rule stale [OF ok])
      show ?case
      proof (cases ?cached)
        case None
        with body show ?thesis by auto
      next
        case (Some c)
        with body ok [OF Some] show ?thesis by (auto intro!: yields_base good)
      qed
    qed
  qed
  with assms show ?thesis by (auto simp: yields_def answer_ok_def)
qed

section \<open>Writes are visible after an invalidation\<close>

text \<open>Operations that only look at the cache: the repository, the local generation and the invalidation mark stay.\<close>

definition same_process :: "'r catalogue_world \<Rightarrow> 'r catalogue_world \<Rightarrow> bool" where
  "same_process w v \<longleftrightarrow> cw_repository v = cw_repository w \<and> cw_invalidated v = cw_invalidated w \<and> cw_localGeneration v = cw_localGeneration w"

interpretation cache_only: preorder_history same_process
  by unfold_locales (auto simp: same_process_def)

lemma get_only: "always same_process (cache_get env k)"
  unfolding cache_get_def by (intro cache_only.always_bnd) (auto simp: always_def others_def same_process_def)

lemma change_only: "always same_process (cache_change env k d)"
  unfolding cache_change_def
  by (intro cache_only.always_bnd) (auto simp: always_def others_def same_process_def bnd_eq split: if_splits)

lemma generation_only: "always same_process (readGeneration env)"
  unfolding readGeneration_def
  by (intro cache_only.always_handle cache_only.always_bnd get_only) (auto split: option.split)

lemma chunk_only: "always same_process (read_chunk env rv x)"
  unfolding read_chunk_def
  by (intro cache_only.always_handle cache_only.always_bnd get_only) (auto split: option.split)

lemma snapshot_only: "always same_process (readSnapshot env)"
proof -
  have "always same_process (read_pointed env d)" for d
    unfolding read_pointed_def Let_def by (intro cache_only.always_bnd cache_only.always_mapE chunk_only) auto
  then show ?thesis unfolding readSnapshot_def
    by (intro cache_only.always_bnd cache_only.always_handle get_only) (auto intro!: cache_only.always_handle split: option.split)
qed

text \<open>A repository that can be cached: the catalogue it loads for a revision is one of that revision.\<close>

locale catalogue_repository =
  fixes base :: "('r, repo_error, string) eff" and load :: "string \<Rightarrow> ('r, repo_error, repository_catalogue) eff"
  assumes load_revision: "load i r = (Inr c, t) \<Longrightarrow> cat_revision c = i"
begin

lemma refresh_from_repository:
  assumes "ce_base env = base" and "ce_load env = load" and "refresh_snapshot env opts now None w = (Inr s, v)"
  shows "\<exists>r1 r2 c. base (cw_repository w) = (Inr (sn_revision s), r1) \<and> load (sn_revision s) r1 = (Inr c, r2)
    \<and> map fst (sn_entries s) = cat_artifacts c"
proof -
  obtain i w1 where one: "repository base w = (Inr i, w1)"
    and rest: "bnd (repository (load i)) (\<lambda>l. bnd (guardE (validateSnapshot (ce_lib env) (loaded_snapshot now l)) InvalidSnapshot)
       (\<lambda>_. ret (loaded_snapshot now l))) w1 = (Inr s, v)"
    using assms by (auto simp: refresh_snapshot_def bnd_Inr)
  obtain c w2 where two: "repository (load i) w1 = (Inr c, w2)" and s: "s = loaded_snapshot now c"
    using rest by (auto simp: bnd_Inr)
  obtain r1 where r1: "base (cw_repository w) = (Inr i, r1)" "cw_repository w1 = r1"
    using one by (auto simp: repository_def split: prod.split_asm sum.split_asm)
  obtain r2 where r2: "load i r1 = (Inr c, r2)" using two r1 by (auto simp: repository_def split: prod.split_asm sum.split_asm)
  from load_revision [OF r2] s r1 r2 show ?thesis by (auto simp: loaded_snapshot_def comp_def)
qed

lemma load_after_invalidation:
  assumes "ce_base env = base" and "ce_load env = load" and "cw_invalidated w" and "catalogue_load env opts w = (Inr r, v)"
  shows "rc_cacheState r \<in> {Refreshed, Degraded} \<and> (\<exists>r1 r2 c. base (cw_repository w) = (Inr (rc_revision r), r1)
    \<and> load (rc_revision r) r1 = (Inr c, r2) \<and> rc_artifacts r = cat_artifacts c)"
proof -
  obtain now w1 gen failed w2 rd w3 where reads: "clock_now env w = (Inr now, w1)" "readGeneration env w1 = (Inr (gen, failed), w2)"
    "readSnapshot env w2 = (Inr rd, w3)" using assms(4) by (auto simp: catalogue_load_def bnd_Inr)
  have "same_process w w1" using reads(1) by (auto simp: clock_now_def same_process_def)
  then have w3: "same_process w w3"
    using alwaysD [OF generation_only reads(2)] alwaysD [OF snapshot_only reads(3)] by (blast intro: cache_only.trans)
  obtain d lg where run: "handle (refresh_and_publish env opts now None gen lg d) (stale_answer None) w3 = (Inr r, v)"
    using assms(3,4) reads w3 by (auto simp: catalogue_load_def bnd_Inr same_process_def Let_def)
  from run obtain s w4 p where s: "refresh_snapshot env opts now None w3 = (Inr s, w4)"
    and r: "r = catalogue_result s (if d \<or> p \<in> {DegradedCache, AbortedGeneration, AbortedRevision} then Degraded else Refreshed)"
    by (auto simp: handle_def refresh_and_publish_def bnd_Inr stale_answer_def split: prod.split_asm sum.split_asm)
  from refresh_from_repository [OF assms(1,2) s] w3 show ?thesis unfolding r by (auto simp: same_process_def)
qed

end

interpretation github_catalogue: catalogue_repository "getBaseRevision genv" "\<lambda>i. loadCatalogue genv (Some i)" for genv
  by unfold_locales (auto simp: loadCatalogue_def bnd_Inr)

lemma invalidate_marks: "invalidate env w = (b, v) \<Longrightarrow> cw_invalidated v"
proof -
  let ?m = "handle (bnd (put_generation env) (\<lambda>_. bnd (cache_delete env (pointerKey (ce_identity env))) (\<lambda>_. ret True))) (\<lambda>_. ret False)"
  have "always same_process (put_generation env)"
    unfolding put_generation_def cache_put_def
    by (intro cache_only.always_bnd change_only) (auto simp: always_def random_text_def same_process_def)
  then have "always same_process ?m"
    unfolding cache_delete_def by (intro cache_only.always_handle cache_only.always_bnd change_only) auto
  moreover assume "invalidate env w = (b, v)"
  ultimately show ?thesis by (auto simp: invalidate_def invalidate_locally_def bnd_eq always_def same_process_def)
qed

text \<open>C17. A write is visible after the invalidation that follows it, over the GitHub store, even when invalidating the shared cache failed and
  whatever other processes do to it: the next load is not answered from the cache; it finds the revision of the branch and serves
  the artifacts of that revision.\<close>

theorem invalidation_makes_writes_visible:
  assumes "ce_base env = getBaseRevision genv" and "ce_load env = (\<lambda>i. loadCatalogue genv (Some i))"
    and "invalidate env w = (b, u)" and "catalogue_load env opts u = (Inr r, v)"
  shows "rc_cacheState r \<in> {Refreshed, Degraded} \<and> (\<exists>g1 g2 c. getBaseRevision genv (cw_repository u) = (Inr (rc_revision r), g1)
    \<and> loadCatalogue genv (Some (rc_revision r)) g1 = (Inr c, g2) \<and> rc_artifacts r = cat_artifacts c)"
  using github_catalogue.load_after_invalidation [OF assms(1,2) invalidate_marks [OF assms(3)] assms(4)] .

section \<open>Samples\<close>

definition reply :: "js_value \<Rightarrow> fetch_outcome" where
  "reply v = FetchResponse \<lparr>rs_status = 200, rs_retryAfter = None, rs_body = BodyJson v\<rparr>"

definition branch_reply :: fetch_outcome where
  "branch_reply = reply (JObj [(''object'', JObj [(''sha'', JStr ''abcdef1'')])])"

definition catalogue_demo :: "fetch_outcome list gh catalogue_env" where
  "catalogue_demo =
     \<lparr>ce_identity = \<lparr>ci_repositoryId = 1, ci_owner = ''o'', ci_repository = ''r'', ci_branch = ''main'', ci_root = []\<rparr>, ce_lib = demo_lib,
      ce_clock = int, ce_random = (\<lambda>_. ''g''), ce_freshnessSeconds = 300, ce_size = length, ce_others = (\<lambda>_ c. c),
      ce_fails = (\<lambda>n. n = 1), ce_applied = (\<lambda>_. False), ce_base = getBaseRevision demo_env, ce_load = (\<lambda>i. loadCatalogue demo_env (Some i))\<rparr>"

definition catalogue_start :: "fetch_outcome list gh catalogue_world" where
  "catalogue_start =
     \<lparr>cw_cache = Map.empty, cw_localGeneration = 0, cw_invalidated = False, cw_ticks = 0,
      cw_repository = demo_state [branch_reply, reply (JObj [(''tree'', JArr [])]), branch_reply, branch_reply]\<rparr>"

definition plain_options :: refresh_options where
  "plain_options = \<lparr>ro_force = False, ro_full = False, ro_manual = False\<rparr>"

lemma demo_load: "is_ok (fst (catalogue_load catalogue_demo plain_options (snd (invalidate catalogue_demo catalogue_start))))"
  by code_simp

theorem invalidation_makes_writes_visible_witness:
  "\<exists>u r v. invalidate catalogue_demo catalogue_start = (Inr False, u) \<and> catalogue_load catalogue_demo plain_options u = (Inr r, v)
     \<and> rc_cacheState r \<in> {Refreshed, Degraded}"
proof -
  obtain u where u: "invalidate catalogue_demo catalogue_start = (Inr False, u)"
    by (auto simp: invalidate_def invalidate_locally_def put_generation_def cache_put_def cache_change_def others_def random_text_def
        handle_def bnd_def modS_def catalogue_demo_def catalogue_start_def ret_def throw_def)
  with demo_load obtain r v where "catalogue_load catalogue_demo plain_options u = (Inr r, v)"
    unfolding is_ok_iff by (metis prod.collapse snd_conv)
  from invalidation_makes_writes_visible [OF _ _ u this] u this show ?thesis by (auto simp: catalogue_demo_def)
qed

theorem served_catalogue_valid_witness:
  "\<exists>r v. catalogue_load catalogue_demo plain_options (snd (invalidate catalogue_demo catalogue_start)) = (Inr r, v)
     \<and> valid_catalogue demo_lib r"
proof -
  obtain r v where run: "catalogue_load catalogue_demo plain_options (snd (invalidate catalogue_demo catalogue_start)) = (Inr r, v)"
    using demo_load unfolding is_ok_iff by (metis prod.collapse)
  from served_catalogue_valid [OF run] run show ?thesis by (auto simp: catalogue_demo_def)
qed

end
