(* ===== verification/Catalogue_Round_Trip.thy ===== *)
theory Catalogue_Round_Trip
  imports Catalogue_Guarantees
begin

text \<open>
  What a load published is what the next load serves, as long as the cache works and no other process changes it.
\<close>

section \<open>A cache without failures and interference\<close>

definition calm :: "'r catalogue_env \<Rightarrow> bool" where
  "calm env \<longleftrightarrow> (\<forall>n c. ce_others env n c = c) \<and> (\<forall>n. \<not> ce_fails env n)"

lemma calm_cache_get: "calm env \<Longrightarrow> cache_get env k w = (Inr (cw_cache w k), w\<lparr>cw_ticks := cw_ticks w + 1\<rparr>)"
  by (simp add: calm_def cache_get_def others_def bnd_def)

lemma calm_cache_put: "calm env \<Longrightarrow> cache_put env k d w = (Inr (), w\<lparr>cw_cache := (cw_cache w)(k \<mapsto> Some d), cw_ticks := cw_ticks w + 1\<rparr>)"
  by (simp add: calm_def cache_put_def cache_change_def others_def bnd_def modS_def)

fun stored :: "(string \<times> cache_doc) list \<Rightarrow> (string \<rightharpoonup> cache_doc option) \<Rightarrow> (string \<rightharpoonup> cache_doc option)" where
  "stored [] c = c"
| "stored ((k, d) # ds) c = stored ds (c(k \<mapsto> Some d))"

lemma stored_other: "k \<notin> fst ` set ds \<Longrightarrow> stored ds c k = c k"
  by (induction ds c rule: stored.induct) auto

lemma stored_at: "distinct (map fst ds) \<Longrightarrow> (k, d) \<in> set ds \<Longrightarrow> stored ds c k = Some (Some d)"
  by (induction ds c rule: stored.induct) (auto simp: stored_other image_iff)

lemma calm_put_all: "calm env \<Longrightarrow> \<exists>n. put_all env ds w = (Inr True, w\<lparr>cw_cache := stored ds (cw_cache w), cw_ticks := n\<rparr>)"
proof (induction ds arbitrary: w)
  case Nil
  show ?case by (intro exI [of _ "cw_ticks w"]) (simp add: ret_def)
next
  case (Cons x ds)
  obtain k d where x: "x = (k, d)" by (cases x)
  let ?w = "w\<lparr>cw_cache := (cw_cache w)(k \<mapsto> Some d), cw_ticks := cw_ticks w + 1\<rparr>"
  from Cons.IH [OF Cons.prems, of ?w] obtain n where "put_all env ds ?w = (Inr True, ?w\<lparr>cw_cache := stored ds (cw_cache ?w), cw_ticks := n\<rparr>)" ..
  then show ?case using Cons.prems by (intro exI [of _ n]) (simp add: x bnd_def handle_def calm_cache_put ret_def)
qed

section \<open>Keys and documents\<close>

lemma chunkKey_inject: "chunkKey i r m = chunkKey i r n \<Longrightarrow> m = n"
  by (simp add: chunkKey_def show_nat_inject)

lemma chunk_keys_distinct: "distinct (map fst (chunk_docs env s))"
proof -
  let ?gs = "chunk_groups (ce_size env) [] (sn_entries s)"
  have "map fst (chunk_docs env s) = map (chunkKey (ce_identity env) (sn_revision s)) (map fst (enumerate 0 ?gs))"
    by (simp add: chunk_docs_def comp_def case_prod_beta del: map_fst_enumerate)
  then show ?thesis unfolding map_fst_enumerate by (auto simp: distinct_map intro!: inj_onI dest: chunkKey_inject)
qed

lemma other_keys: "pointerKey i \<noteq> generationKey i" "pointerKey i \<noteq> chunkKey i r n" "generationKey i \<noteq> chunkKey i r n"
  by (simp_all add: pointerKey_def generationKey_def chunkKey_def)

lemma chunk_doc_keys: "k \<in> fst ` set (chunk_docs env s) \<Longrightarrow> \<exists>n. k = chunkKey (ce_identity env) (sn_revision s) n"
  by (auto simp: chunk_docs_def)

lemma groups_concat: "concat (chunk_groups bytes cur es) = cur @ es"
  by (induction bytes cur es rule: chunk_groups.induct) auto

lemma groups_nonempty: "chunk_groups bytes cur es \<noteq> []"
  by (induction bytes cur es rule: chunk_groups.induct) auto

section \<open>Publishing\<close>

definition bad :: "publication_result \<Rightarrow> bool" where
  "bad p \<longleftrightarrow> p \<in> {DegradedCache, AbortedGeneration, AbortedRevision}"

lemma generation_keeps: "calm env \<Longrightarrow> triple (\<lambda>w. cw_cache w = C) (readGeneration env) (\<lambda>_ w. cw_cache w = C) (\<lambda>_ _. True)"
  by (rule tripleI) (auto simp: readGeneration_def handle_def bnd_def calm_cache_get ret_def throw_def split: option.split_asm)

lemma verify_keeps:
  "triple (\<lambda>w. cw_cache w = C) (verifyBaseRevision env s i b) (\<lambda>r w. (r = None \<longrightarrow> cw_cache w = C) \<and> (\<forall>p. r = Some p \<longrightarrow> bad p)) (\<lambda>_ _. True)"
proof -
  have kept: "triple (\<lambda>w. cw_cache w = C) (handle (bnd (repository (ce_base env)) (\<lambda>revision. ret (Inr revision))) (\<lambda>e. ret (Inl e)))
      (\<lambda>_ w. cw_cache w = C) (\<lambda>_ _. True)"
    by (rule tripleI) (auto simp: handle_def bnd_def repository_def ret_def split: prod.split_asm sum.split_asm)
  have any: "triple P m (\<lambda>_ _. True) (\<lambda>_ _. True)" for P and m :: "('r, unit) cat_eff"
    by (rule tripleI) auto
  show ?thesis unfolding verifyBaseRevision_def Let_def
  proof (rule triple_bnd [OF kept], goal_cases)
    case (1 outcome)
    show ?case
      by (cases outcome)
         (auto simp: bad_def intro!: triple_ret triple_if triple_bnd [OF any] triple_throw split: catalogue_error.split repo_error.split)
  qed
qed

lemma pointer_keeps:
  assumes "calm env"
  shows "triple (\<lambda>w. cw_cache w = D) (publish_pointer env s g i)
    (\<lambda>p w. \<not> bad p \<longrightarrow> cw_cache w = D(pointerKey (ce_identity env) \<mapsto> Some (pointer_doc env s g i)) \<and> \<not> cw_invalidated w) (\<lambda>_ _. True)"
proof -
  have point: "triple (\<lambda>w. cw_cache w = D) (handle (bnd (cache_put env k d) (\<lambda>_. ret True)) (\<lambda>_. ret False))
      (\<lambda>ok w. cw_cache w = D(k \<mapsto> Some d) \<and> ok) (\<lambda>_ _. True)" for k d
    by (rule tripleI) (auto simp: handle_def bnd_def calm_cache_put [OF assms] ret_def)
  have last: "triple (\<lambda>w. cw_cache w = C)
      (bnd (verifyBaseRevision env s i True) (\<lambda>post. case post of Some r \<Rightarrow> ret r
         | None \<Rightarrow> bnd (modS (\<lambda>w. w\<lparr>cw_invalidated := False\<rparr>)) (\<lambda>_. ret PublishedNow)))
      (\<lambda>p w. \<not> bad p \<longrightarrow> cw_cache w = C \<and> \<not> cw_invalidated w) (\<lambda>_ _. True)" for C
  proof (rule triple_bnd [OF verify_keeps], goal_cases)
    case (1 post)
    have "triple (\<lambda>w. cw_cache w = C) (bnd (modS (\<lambda>w. w\<lparr>cw_invalidated := False\<rparr>)) (\<lambda>_. ret PublishedNow))
        (\<lambda>p w. \<not> bad p \<longrightarrow> cw_cache w = C \<and> \<not> cw_invalidated w) (\<lambda>_ _. True)"
      by (rule tripleI) (auto simp: bnd_def modS_def ret_def)
    then show ?case by (cases post) (auto intro: triple_ret)
  qed
  show ?thesis unfolding publish_pointer_def by (rule triple_step [OF point]) (simp_all add: last)
qed

lemma put_keeps:
  assumes "calm env"
  shows "triple (\<lambda>w. cw_cache w = C) (put_all env ds) (\<lambda>ok w. cw_cache w = stored ds C \<and> ok) (\<lambda>_ _. True)"
proof (rule tripleI)
  fix w ok v
  assume "cw_cache w = C" "put_all env ds w = (Inr ok, v)"
  moreover obtain n where "put_all env ds w = (Inr True, w\<lparr>cw_cache := stored ds (cw_cache w), cw_ticks := n\<rparr>)"
    using calm_put_all [OF assms] by blast
  ultimately show "cw_cache v = stored ds C \<and> ok" by auto
qed simp

lemma publish_keeps:
  assumes "calm env"
  shows "triple (\<lambda>w. cw_cache w = C) (publish env s g lg)
    (\<lambda>p w. \<not> bad p \<longrightarrow> (\<exists>i. cw_cache w = (stored (chunk_docs env s) C)(pointerKey (ce_identity env) \<mapsto> Some (pointer_doc env s g i)) \<and> \<not> cw_invalidated w))
    (\<lambda>_ _. True)"
proof -
  let ?D = "stored (chunk_docs env s) C"
  let ?Q = "\<lambda>p w. \<not> bad p \<longrightarrow> (\<exists>i. cw_cache w = ?D(pointerKey (ce_identity env) \<mapsto> Some (pointer_doc env s g i)) \<and> \<not> cw_invalidated w)"
  have random: "triple (\<lambda>w. cw_cache w = C) (random_text env) (\<lambda>_ w. cw_cache w = C) (\<lambda>_ _. True)"
    by (rule tripleI) (auto simp: random_text_def)
  have local: "triple (\<lambda>w. cw_cache w = ?D) (getS cw_localGeneration) (\<lambda>_ w. cw_cache w = ?D) (\<lambda>_ _. True)"
    by (rule triple_getS)
  have bads: "bad DegradedCache" "bad AbortedGeneration" by (simp_all add: bad_def)
  have pointer: "triple (\<lambda>w. cw_cache w = ?D) (publish_pointer env s g i) ?Q (\<lambda>_ _. True)" for i
    by (rule triple_conseq [OF pointer_keeps [OF assms]]) auto
  have pre: "triple (\<lambda>w. cw_cache w = ?D) (bnd (verifyBaseRevision env s i False) (\<lambda>pre. case pre of Some r \<Rightarrow> ret r | None \<Rightarrow> publish_pointer env s g i))
      ?Q (\<lambda>_ _. True)" for i
  proof (rule triple_bnd [OF verify_keeps], goal_cases)
    case (1 pre)
    show ?case using pointer [of i] by (cases pre) (auto intro: triple_ret)
  qed
  show ?thesis unfolding publish_def
  proof (rule triple_bnd [OF random], rule triple_step [OF put_keeps [OF assms]], goal_cases)
    case (2 i ok)
    have "triple (\<lambda>w. cw_cache w = ?D) (if failed then ret DegradedCache else if cur \<noteq> g \<or> here \<noteq> lg then ret AbortedGeneration
           else (bnd (verifyBaseRevision env s i False) (\<lambda>pre. case pre of Some r \<Rightarrow> ret r | None \<Rightarrow> publish_pointer env s g i))) ?Q (\<lambda>_ _. True)"
      for failed cur here
      by (intro triple_if triple_ret pre) (simp_all add: bads)
    with 2 show ?case
      by (auto intro!: triple_bnd [OF generation_keeps [OF assms]] triple_bnd [OF local] split: prod.split)
  qed simp
qed

section \<open>Reading back\<close>

definition generation_of :: "cache_doc option option \<Rightarrow> string option \<times> bool" where
  "generation_of raw =
     (case raw of None \<Rightarrow> (None, False)
      | Some None \<Rightarrow> (None, True)
      | Some (Some d) \<Rightarrow> (case generationSchema d of None \<Rightarrow> (None, True) | Some g \<Rightarrow> (Some g, False)))"

lemma generation_read:
  "calm env \<Longrightarrow> readGeneration env w = (Inr (generation_of (cw_cache w (generationKey (ce_identity env)))), w\<lparr>cw_ticks := cw_ticks w + 1\<rparr>)"
  by (auto simp: readGeneration_def generation_of_def handle_def bnd_def calm_cache_get ret_def throw_def split: option.split)

lemma mapE_ticks:
  assumes "\<And>x w. x \<in> set xs \<Longrightarrow> cw_cache w = C \<Longrightarrow> f x w = (Inr (g x), w\<lparr>cw_ticks := cw_ticks w + 1\<rparr>)" and "cw_cache w = C"
  shows "\<exists>n. mapE f xs w = (Inr (map g xs), w\<lparr>cw_ticks := n\<rparr>)"
  using assms
proof (induction xs arbitrary: w)
  case Nil
  show ?case by (intro exI [of _ "cw_ticks w"]) (simp add: ret_def)
next
  case (Cons x xs)
  let ?w = "w\<lparr>cw_ticks := cw_ticks w + 1\<rparr>"
  have "\<exists>n. mapE f xs ?w = (Inr (map g xs), ?w\<lparr>cw_ticks := n\<rparr>)" by (rule Cons.IH) (simp_all add: Cons.prems)
  then obtain n where "mapE f xs ?w = (Inr (map g xs), ?w\<lparr>cw_ticks := n\<rparr>)" ..
  with Cons.prems show ?case by (intro exI [of _ n]) (simp add: bnd_def ret_def)
qed

lemma parse_normal:
  "list_all (\<lambda>(a, sha). artifactSchema lib a = Some a \<and> revision_pattern sha) es \<Longrightarrow> parse_entries lib es = Some es"
  by (induction es) auto

definition readable :: "'r catalogue_env \<Rightarrow> snapshot \<Rightarrow> bool" where
  "readable env s \<longleftrightarrow> 0 < ci_repositoryId (ce_identity env) \<and> validateSnapshot (ce_lib env) s
     \<and> (\<forall>(a, sha) \<in> set (sn_entries s). artifactSchema (ce_lib env) a = Some a)"

definition published_cache ::
  "'r catalogue_env \<Rightarrow> snapshot \<Rightarrow> string option \<Rightarrow> string \<Rightarrow> (string \<rightharpoonup> cache_doc option) \<Rightarrow> (string \<rightharpoonup> cache_doc option)" where
  "published_cache env s g i C = (stored (chunk_docs env s) C)(pointerKey (ce_identity env) \<mapsto> Some (pointer_doc env s g i))"

lemma chunk_read_back:
  assumes "calm env" and "readable env s" and "(n, es) \<in> set (enumerate 0 (chunk_groups (ce_size env) [] (sn_entries s)))"
    and "cw_cache w = published_cache env s g i C"
  shows "read_chunk env (sn_revision s) (n, chunkKey (ce_identity env) (sn_revision s) n) w = (Inr es, w\<lparr>cw_ticks := cw_ticks w + 1\<rparr>)"
proof -
  let ?k = "chunkKey (ce_identity env) (sn_revision s) n"
  let ?d = "(identity_doc (ce_identity env) (sn_revision s))\<lparr>cd_index := Has (int n), cd_entries := Has es\<rparr>"
  have "(?k, ?d) \<in> set (chunk_docs env s)" using assms(3) by (force simp: chunk_docs_def)
  then have at: "cw_cache w ?k = Some (Some ?d)"
    using assms(4) other_keys(2) [of "ce_identity env" "sn_revision s" n] by (auto simp: published_cache_def stored_at chunk_keys_distinct)
  have "es \<in> set (chunk_groups (ce_size env) [] (sn_entries s))" using assms(3) by (auto simp: in_set_enumerate_eq)
  then have sub: "set es \<subseteq> set (sn_entries s)" using groups_concat [of "ce_size env" "[]" "sn_entries s"] by (metis append_Nil UN_I set_concat subsetI)
  have "artifactSchema (ce_lib env) a = Some a \<and> revision_pattern sha" if "(a, sha) \<in> set es" for a sha
    using that sub assms(2) entry_ok_facts(4) [of "ce_lib env" a sha] by (fastforce simp: readable_def validateSnapshot_def list_all_iff)
  then have "parse_entries (ce_lib env) es = Some es" by (intro parse_normal) (auto simp: list_all_iff)
  with at assms(1,2) show ?thesis
    by (auto simp: read_chunk_def handle_def bnd_def calm_cache_get ret_def chunkSchema_def header_ok_def identity_doc_def field_value_def
        same_identity_def readable_def validateSnapshot_def)
qed

lemma snapshot_read_back:
  assumes "calm env" and "readable env s" and "cw_cache w = published_cache env s g i C"
  shows "\<exists>n. readSnapshot env w = (Inr (nothing_read\<lparr>sr_snapshot := Some s, sr_generation := g, sr_publicationId := Some i\<rparr>), w\<lparr>cw_ticks := n\<rparr>)"
proof -
  let ?gs = "chunk_groups (ce_size env) [] (sn_entries s)" let ?d = "pointer_doc env s g i"
  let ?w = "w\<lparr>cw_ticks := cw_ticks w + 1\<rparr>"
  let ?key = "chunkKey (ce_identity env) (sn_revision s)"
  have en: "enumerate 0 (map fst (chunk_docs env s)) = map (\<lambda>(n, es). (n, ?key n)) (enumerate 0 ?gs)"
    by (rule nth_equalityI) (simp_all add: chunk_docs_def nth_enumerate_eq)
  have chunk: "read_chunk env (sn_revision s) x v = (Inr (?gs ! fst x), v\<lparr>cw_ticks := cw_ticks v + 1\<rparr>)"
    if "x \<in> set (enumerate 0 (map fst (chunk_docs env s)))" "cw_cache v = published_cache env s g i C" for x v
  proof -
    have "x \<in> (\<lambda>(n, es). (n, ?key n)) ` set (enumerate 0 ?gs)" using that(1) by (simp only: en set_map)
    then obtain y where y: "y \<in> set (enumerate 0 ?gs)" "x = (\<lambda>(n, es). (n, ?key n)) y" by (rule imageE)
    obtain n es where "y = (n, es)" by (metis prod.exhaust)
    with y have x: "x = (n, ?key n)" "(n, es) \<in> set (enumerate 0 ?gs)" by simp_all
    then have "es = ?gs ! n" by (auto simp: in_set_enumerate_eq)
    with chunk_read_back [OF assms(1,2) x(2) that(2)] x(1) show ?thesis by simp
  qed
  obtain n where all: "mapE (read_chunk env (sn_revision s)) (enumerate 0 (map fst (chunk_docs env s))) ?w
      = (Inr (map (\<lambda>x. ?gs ! fst x) (enumerate 0 (map fst (chunk_docs env s)))), ?w\<lparr>cw_ticks := n\<rparr>)"
    using mapE_ticks [OF chunk, where w = ?w] assms(3) by fastforce
  have "map (\<lambda>x. ?gs ! fst x) (enumerate 0 (map fst (chunk_docs env s))) = ?gs"
    unfolding en by (rule nth_equalityI) (simp_all add: nth_enumerate_eq)
  with all have all: "mapE (read_chunk env (sn_revision s)) (enumerate 0 (map fst (chunk_docs env s))) ?w = (Inr ?gs, ?w\<lparr>cw_ticks := n\<rparr>)" by simp
  have "enumerate 0 ?gs \<noteq> []" using groups_nonempty [of "ce_size env" "[]" "sn_entries s"] by (metis length_enumerate length_0_conv)
  then have ok: "pointerSchema ?d" "same_identity (ce_identity env) ?d"
    using assms(2)
    by (auto simp: pointerSchema_def pointer_doc_def header_ok_def identity_doc_def field_value_def same_identity_def readable_def validateSnapshot_def
        optional_field_def chunk_docs_def chunkKey_def list_all_iff catalogue_scope_def split: option.split)
  have fields: "field_value (cd_revision ?d) = Some (sn_revision s)" "field_value (cd_chunks ?d) = Some (map fst (chunk_docs env s))"
    "field_value (cd_refreshedAt ?d) = Some (sn_refreshedAt s)" "field_value (cd_generation ?d) = g" "field_value (cd_publicationId ?d) = Some i"
    by (auto simp: pointer_doc_def identity_doc_def field_value_def optional_field_def split: option.split)
  have eta: "\<lparr>sn_revision = sn_revision s, sn_refreshedAt = sn_refreshedAt s, sn_entries = sn_entries s\<rparr> = s" by simp
  have "read_pointed env ?d ?w = (Inr (nothing_read\<lparr>sr_snapshot := Some s, sr_generation := g, sr_publicationId := Some i\<rparr>), ?w\<lparr>cw_ticks := n\<rparr>)"
    using ok all assms(2) by (simp add: eta read_pointed_def Let_def fields bnd_def guardE_def ret_def groups_concat readable_def)
  then show ?thesis
    using assms(3) by (intro exI [of _ n]) (simp add: readSnapshot_def bnd_def handle_def calm_cache_get [OF assms(1)] ret_def published_cache_def)
qed

section \<open>The round trip\<close>

text \<open>In a calm environment, everything before the publication only moves the clock and asks the repository.\<close>

definition same_cache :: "'r catalogue_world \<Rightarrow> 'r catalogue_world \<Rightarrow> bool" where
  "same_cache w v \<longleftrightarrow> cw_cache v = cw_cache w"

interpretation unchanged: preorder_history same_cache
  by unfold_locales (auto simp: same_cache_def)

lemma unchanged_reads:
  assumes "calm env"
  shows "always same_cache (readSnapshot env)" "always same_cache (refresh_snapshot env opts now cached)"
proof -
  have get: "always same_cache (cache_get env k)" for k by (auto simp: always_def calm_cache_get [OF assms] same_cache_def)
  have repo: "always same_cache (repository m)" for m :: "('r, repo_error, 'x) eff"
    by (auto simp: always_def repository_def same_cache_def split: prod.split_asm sum.split_asm)
  have chunk: "always same_cache (read_chunk env rv x)" for rv x
    unfolding read_chunk_def by (intro unchanged.always_bnd unchanged.always_handle get) (auto split: option.split)
  have pointed: "always same_cache (read_pointed env d)" for d
    unfolding read_pointed_def Let_def by (intro unchanged.always_bnd unchanged.always_mapE chunk) auto
  show "always same_cache (readSnapshot env)" unfolding readSnapshot_def
    by (intro unchanged.always_bnd unchanged.always_handle get) (auto intro!: unchanged.always_handle pointed split: option.split)
  show "always same_cache (refresh_snapshot env opts now cached)" unfolding refresh_snapshot_def
    by (intro unchanged.always_bnd repo) (auto intro!: unchanged.always_bnd repo split: option.split)
qed

lemma refreshed_publishes:
  assumes "calm env" and "catalogue_load env opts w = (Inr r, v)" and "rc_cacheState r = Refreshed"
  shows "\<exists>s g i. r = catalogue_result s Refreshed \<and> validateSnapshot (ce_lib env) s \<and> cw_cache v = published_cache env s g i (cw_cache w)
    \<and> generation_of (cw_cache w (generationKey (ce_identity env))) = (g, False) \<and> \<not> cw_invalidated v"
proof -
  let ?w1 = "w\<lparr>cw_ticks := cw_ticks w + 1\<rparr>" let ?w2 = "?w1\<lparr>cw_ticks := cw_ticks ?w1 + 1\<rparr>"
  obtain g failed where gen: "generation_of (cw_cache w (generationKey (ce_identity env))) = (g, failed)" by fastforce
  obtain rd w3 where rd: "readSnapshot env ?w2 = (Inr rd, w3)"
    using assms(2) gen by (auto simp: catalogue_load_def bnd_Inr clock_now_def generation_read [OF assms(1)])
  have w3: "cw_cache w3 = cw_cache w" using alwaysD [OF unchanged_reads(1) [OF assms(1)] rd] by (simp add: same_cache_def)
  have sound: "sound_read env rd" using read_is_sound rd by (auto simp: yields_def)
  define cached where "cached = (if cw_invalidated w3 \<or> sr_generation rd \<noteq> g then None else sr_snapshot rd)"
  have "handle (refresh_and_publish env opts (ce_clock env (cw_ticks w)) cached g (cw_localGeneration w) (failed \<or> sr_failed rd)) (stale_answer cached) w3 = (Inr r, v)"
    using assms(2,3) gen rd
    by (auto simp: catalogue_load_def bnd_Inr clock_now_def generation_read [OF assms(1)] Let_def cached_def [symmetric] split: if_split_asm)
  then have "refresh_and_publish env opts (ce_clock env (cw_ticks w)) cached g (cw_localGeneration w) (failed \<or> sr_failed rd) w3 = (Inr r, v)"
    using assms(3) by (auto simp: handle_def stale_answer_def split: prod.split_asm sum.split_asm option.split_asm catalogue_error.split_asm repo_error.split_asm)
  then obtain s w4 p where s: "refresh_snapshot env opts (ce_clock env (cw_ticks w)) cached w3 = (Inr s, w4)"
    "publish env s g (cw_localGeneration w) w4 = (Inr p, v)" and res: "r = catalogue_result s (if (failed \<or> sr_failed rd) \<or> bad p then Degraded else Refreshed)"
    unfolding refresh_and_publish_def bad_def [symmetric] bnd_Inr ret_def prod.inject sum.inject by blast
  have "\<not> ((failed \<or> sr_failed rd) \<or> bad p)" using assms(3) unfolding res catalogue_result_def by (simp split: if_split_asm)
  then have r: "r = catalogue_result s Refreshed" "\<not> failed" "\<not> bad p" using res by simp_all
  have "cw_cache w4 = cw_cache w" using alwaysD [OF unchanged_reads(2) [OF assms(1)] s(1)] w3 by (simp add: same_cache_def)
  then obtain i where i: "cw_cache v = published_cache env s g i (cw_cache w)" "\<not> cw_invalidated v"
    using tripleD(1) [OF publish_keeps [OF assms(1), of "cw_cache w"] _ s(2)] r(3) by (auto simp: published_cache_def)
  have "validateSnapshot (ce_lib env) c" if "cached = Some c" for c
    using that sound by (simp add: cached_def sound_read_def split: if_split_asm)
  then have "validateSnapshot (ce_lib env) s"
    using refresh_is_valid [of cached env opts "ce_clock env (cw_ticks w)"] s(1) unfolding yields_def by blast
  then show ?thesis using gen r i by (intro exI [of _ s] exI [of _ g] exI [of _ i]) simp
qed

text \<open>C35. What a load has published is what the next load serves: if no call of the cache fails, no other process changes it, and the artifacts
  are in the normal form of their schema, then a load that refreshed the catalogue is followed, within the freshness time and unless a refresh is
  forced, by loads that are answered from the cache alone, with the same catalogue and without any request to the repository.\<close>

theorem published_catalogue_served:
  assumes "calm env" and "0 < ci_repositoryId (ce_identity env)" and "catalogue_load env opts w = (Inr r, v)" and "rc_cacheState r = Refreshed"
    and "list_all (\<lambda>a. artifactSchema (ce_lib env) a = Some a) (rc_artifacts r)"
    and "\<not> ro_force opts'" and "ce_clock env (cw_ticks v) - rc_refreshedAt r < ce_freshnessSeconds env * 1000"
  shows "\<exists>u. catalogue_load env opts' v = (Inr (r\<lparr>rc_cacheState := Fresh\<rparr>), u) \<and> cw_repository u = cw_repository v"
proof -
  obtain s g i where s: "r = catalogue_result s Refreshed" "validateSnapshot (ce_lib env) s" "cw_cache v = published_cache env s g i (cw_cache w)"
    "generation_of (cw_cache w (generationKey (ce_identity env))) = (g, False)" "\<not> cw_invalidated v"
    using refreshed_publishes [OF assms(1,3,4)] by blast
  have read: "readable env s" using assms(2,5) s(1,2) by (auto simp: readable_def list_all_iff)
  have "generationKey (ce_identity env) \<notin> fst ` set (chunk_docs env s)" using chunk_doc_keys other_keys(3) by blast
  then have gen: "generation_of (cw_cache v (generationKey (ce_identity env))) = (g, False)"
    using s(3,4) other_keys(1) [THEN not_sym] by (simp add: published_cache_def stored_other)
  let ?v1 = "v\<lparr>cw_ticks := cw_ticks v + 1\<rparr>" let ?v2 = "?v1\<lparr>cw_ticks := cw_ticks ?v1 + 1\<rparr>"
  obtain n where snap: "readSnapshot env ?v2 = (Inr (nothing_read\<lparr>sr_snapshot := Some s, sr_generation := g, sr_publicationId := Some i\<rparr>), ?v2\<lparr>cw_ticks := n\<rparr>)"
    using snapshot_read_back [OF assms(1) read, of ?v2 g i "cw_cache w"] s(3) by auto
  have "catalogue_result s Fresh = r\<lparr>rc_cacheState := Fresh\<rparr>" using s(1) by (simp add: catalogue_result_def)
  moreover have "rc_refreshedAt r = sn_refreshedAt s" using s(1) by (simp add: catalogue_result_def)
  ultimately show ?thesis
    using assms(6,7) gen snap s(5)
    by (simp add: catalogue_load_def bnd_def clock_now_def getS_def generation_read [OF assms(1)] nothing_read_def ret_def)
qed

section \<open>Samples\<close>

definition calm_demo :: "fetch_outcome list gh catalogue_env" where
  "calm_demo = catalogue_demo\<lparr>ce_fails := \<lambda>_. False\<rparr>"

text \<open>A repository with one artifact; only the first load reads it.\<close>

definition one_artifact :: "fetch_outcome list gh catalogue_world" where
  "one_artifact = catalogue_start\<lparr>cw_repository := demo_state [branch_reply,
     reply (JObj [(''tree'', JArr [JObj [(''path'', JStr ''prompts/note.md''), (''type'', JStr ''blob''), (''sha'', JStr ''abcdef1'')]])]),
     reply (JObj [(''encoding'', JStr ''base64''), (''content'', JStr ''SGVsbG8='')]), branch_reply, branch_reply]\<rparr>"

definition refreshed_in_time :: "resolved_catalogue \<Rightarrow> fetch_outcome list gh catalogue_world \<Rightarrow> bool" where
  "refreshed_in_time r v \<longleftrightarrow> rc_cacheState r = Refreshed \<and> map art_id (rc_artifacts r) = [''note'']
     \<and> list_all (\<lambda>a. artifactSchema demo_lib a = Some a) (rc_artifacts r) \<and> int (cw_ticks v) - rc_refreshedAt r < 300 * 1000"

lemma calm_load: "case catalogue_load calm_demo plain_options one_artifact of (Inr r, v) \<Rightarrow> refreshed_in_time r v | _ \<Rightarrow> False"
  by code_simp

theorem published_catalogue_served_witness:
  "\<exists>r v u. catalogue_load calm_demo plain_options one_artifact = (Inr r, v) \<and> rc_cacheState r = Refreshed
     \<and> map art_id (rc_artifacts r) = [''note'']
     \<and> catalogue_load calm_demo plain_options v = (Inr (r\<lparr>rc_cacheState := Fresh\<rparr>), u) \<and> cw_repository u = cw_repository v"
proof -
  obtain r v where run: "catalogue_load calm_demo plain_options one_artifact = (Inr r, v)" and r: "refreshed_in_time r v"
    using calm_load by (auto split: prod.split_asm sum.split_asm)
  have env: "calm calm_demo" "0 < ci_repositoryId (ce_identity calm_demo)" "\<not> ro_force plain_options"
    by (simp_all add: calm_def calm_demo_def catalogue_demo_def plain_options_def)
  have facts: "rc_cacheState r = Refreshed" "list_all (\<lambda>a. artifactSchema (ce_lib calm_demo) a = Some a) (rc_artifacts r)"
    "ce_clock calm_demo (cw_ticks v) - rc_refreshedAt r < ce_freshnessSeconds calm_demo * 1000" "map art_id (rc_artifacts r) = [''note'']"
    using r by (simp_all add: refreshed_in_time_def calm_demo_def catalogue_demo_def)
  from published_catalogue_served [OF env(1,2) run facts(1,2) env(3) facts(3)]
  obtain u where "catalogue_load calm_demo plain_options v = (Inr (r\<lparr>rc_cacheState := Fresh\<rparr>), u)" "cw_repository u = cw_repository v" by blast
  with run facts(1,4) show ?thesis by (intro exI conjI)
qed

end
