(* ===== verification/Search_Tags.thy ===== *)
theory Search_Tags
  imports Artifact_Contract
begin

text \<open>
  Searching the catalogue and suggesting tags: \<^verbatim>\<open>lib/search.ts\<close> and \<^verbatim>\<open>lib/tag-suggestions.ts\<close>.

  The counts of tags are an association list in insertion order, as a JavaScript Map iterates. The two collations of
  \<^verbatim>\<open>localeCompare\<close> are arguments; \<^verbatim>\<open>toLocaleLowerCase\<close> is the lower case of \<^verbatim>\<open>toLowerCase\<close>, as in every locale without special
  rules for Latin-1. Limits are natural numbers, as at every call.
\<close>

section \<open>Definitions\<close>

subsection \<open>Search\<close>

definition haystack :: "artifact \<Rightarrow> string" where
  "haystack a =
     js_lower (js_join '' '' [art_title a, art_description a, artifact_type_name (art_type a), js_join '' '' (art_tags a),
       js_join '' '' (art_aliases a), art_body a])"

text \<open>\<^verbatim>\<open>normalized.split(/\s+/)\<close>: every run of white space is one separator.\<close>

definition search_terms :: "string \<Rightarrow> string list" where
  "search_terms normalized = js_split (CHR '' '') (replace_runs js_ws '' '' normalized)"

definition searchArtifacts :: "artifact list \<Rightarrow> string \<Rightarrow> artifact list" where
  "searchArtifacts artifacts query =
     (let normalized = js_lower (js_trim query) in
      if normalized = [] then artifacts
      else filter (\<lambda>a. list_all (\<lambda>term. sublist term (haystack a)) (search_terms normalized)) artifacts)"

subsection \<open>Tag suggestions\<close>

record tag_suggestion =
  ts_value :: string
  ts_count :: nat

datatype tag_option = SuggestedTag tag_suggestion | CreateTag string

definition TAG_SUGGESTION_LIMIT :: nat where "TAG_SUGGESTION_LIMIT = 8"

type_synonym collation = "string \<Rightarrow> string \<Rightarrow> int"

text \<open>\<^verbatim>\<open>counts.set(value, (counts.get(value) ?? 0) + 1)\<close>: a new key goes to the end.\<close>

fun bump_count :: "string \<Rightarrow> (string \<times> nat) list \<Rightarrow> (string \<times> nat) list" where
  "bump_count v [] = [(v, 1)]"
| "bump_count v ((w, n) # counts) = (if w = v then (w, n + 1) # counts else (w, n) # bump_count v counts)"

fun count_tags :: "string list \<Rightarrow> (string \<times> nat) list \<Rightarrow> (string \<times> nat) list" where
  "count_tags [] counts = counts"
| "count_tags (tag # tags) counts = count_tags tags (if js_trim tag = [] then counts else bump_count (js_trim tag) counts)"

definition compareTagSuggestions :: "collation \<Rightarrow> collation \<Rightarrow> tag_suggestion \<Rightarrow> tag_suggestion \<Rightarrow> int" where
  "compareTagSuggestions base full a b =
     (if ts_count b \<noteq> ts_count a then int (ts_count b) - int (ts_count a)
      else if base (ts_value a) (ts_value b) \<noteq> 0 then base (ts_value a) (ts_value b)
      else full (ts_value a) (ts_value b))"

definition collectTagSuggestions :: "collation \<Rightarrow> collation \<Rightarrow> artifact list \<Rightarrow> tag_suggestion list" where
  "collectTagSuggestions base full artifacts =
     js_sort_by (compareTagSuggestions base full)
       (map (\<lambda>(v, n). \<lparr>ts_value = v, ts_count = n\<rparr>) (count_tags (concat (map art_tags artifacts)) []))"

definition normalized_query :: "string \<Rightarrow> string" where
  "normalized_query query = js_lower (js_trim query)"

definition suggestion_matches :: "string \<Rightarrow> string list \<Rightarrow> tag_suggestion \<Rightarrow> bool" where
  "suggestion_matches query selected s =
     (ts_value s \<notin> set selected \<and> (normalized_query query = [] \<or> sublist (normalized_query query) (js_lower (ts_value s))))"

definition prefix_match :: "string \<Rightarrow> tag_suggestion \<Rightarrow> bool" where
  "prefix_match query s = (if normalized_query query \<noteq> [] then prefix (normalized_query query) (js_lower (ts_value s)) else True)"

definition compareMatches :: "collation \<Rightarrow> collation \<Rightarrow> string \<Rightarrow> tag_suggestion \<Rightarrow> tag_suggestion \<Rightarrow> int" where
  "compareMatches base full query a b =
     (if prefix_match query a \<noteq> prefix_match query b then (if prefix_match query a then -1 else 1)
      else compareTagSuggestions base full a b)"

definition filterTagSuggestions ::
  "collation \<Rightarrow> collation \<Rightarrow> tag_suggestion list \<Rightarrow> string \<Rightarrow> string list \<Rightarrow> nat \<Rightarrow> tag_suggestion list" where
  "filterTagSuggestions base full suggestions query selected limit =
     take limit (js_sort_by (compareMatches base full query) (filter (suggestion_matches query selected) suggestions))"

definition same_tag :: "string \<Rightarrow> tag_suggestion \<Rightarrow> bool" where
  "same_tag v s = (js_lower (ts_value s) = js_lower v)"

definition addTagValue :: "string list \<Rightarrow> string \<Rightarrow> tag_suggestion list \<Rightarrow> string list" where
  "addTagValue values input suggestions =
     (let trimmed = js_trim input in
      if trimmed = [] \<or> trimmed \<in> set values then values
      else
        (let v = (case js_find (same_tag trimmed) suggestions of None \<Rightarrow> trimmed | Some s \<Rightarrow> ts_value s) in
         if v \<in> set values then values else values @ [v]))"

definition removeTagValue :: "string list \<Rightarrow> string \<Rightarrow> string list" where
  "removeTagValue values v = filter (\<lambda>tag. tag \<noteq> v) values"

definition tagOptions ::
  "collation \<Rightarrow> collation \<Rightarrow> tag_suggestion list \<Rightarrow> string \<Rightarrow> string list \<Rightarrow> nat \<Rightarrow> tag_option list" where
  "tagOptions base full suggestions query selected limit =
     (let options = map SuggestedTag (filterTagSuggestions base full suggestions query selected limit); trimmed = js_trim query in
      if trimmed \<noteq> [] \<and> \<not> list_ex (same_tag trimmed) suggestions then options @ [CreateTag trimmed] else options)"

subsection \<open>The list box\<close>

record combobox_state =
  cb_open :: bool
  cb_activeIndex :: int

text \<open>The JavaScript remainder has the sign of the dividend.\<close>

definition js_rem :: "int \<Rightarrow> int \<Rightarrow> int" where
  "js_rem a b = (if a < 0 then - ((- a) mod b) else a mod b)"

definition comboboxQueryChanged :: "combobox_state \<Rightarrow> nat \<Rightarrow> combobox_state" where
  "comboboxQueryChanged st optionCount = \<lparr>cb_open = 0 < optionCount, cb_activeIndex = -1\<rparr>"

definition comboboxBlurred :: "combobox_state \<Rightarrow> combobox_state" where
  "comboboxBlurred st = st"

definition comboboxEscaped :: "combobox_state \<Rightarrow> combobox_state" where
  "comboboxEscaped st = st\<lparr>cb_open := False, cb_activeIndex := -1\<rparr>"

definition comboboxMoved :: "combobox_state \<Rightarrow> nat \<Rightarrow> int \<Rightarrow> combobox_state" where
  "comboboxMoved st optionCount direction =
     (if optionCount = 0 then \<lparr>cb_open = False, cb_activeIndex = -1\<rparr>
      else
        (let current = (if cb_open st then cb_activeIndex st else -1) in
         \<lparr>cb_open = True, cb_activeIndex = js_rem (current + direction + int optionCount) (int optionCount)\<rparr>))"

definition comboboxSelected :: combobox_state where
  "comboboxSelected = \<lparr>cb_open = False, cb_activeIndex = -1\<rparr>"

section \<open>The words of a query\<close>

text \<open>The reference: maximal runs of characters outside \<open>P\<close>.\<close>

fun tokens :: "('a \<Rightarrow> bool) \<Rightarrow> 'a list \<Rightarrow> 'a list list" where
  "tokens P [] = []"
| "tokens P [c] = (if P c then [] else [[c]])"
| "tokens P (c # e # cs) =
     (if P c then tokens P (e # cs)
      else if P e then [c] # tokens P (e # cs)
      else (case tokens P (e # cs) of [] \<Rightarrow> [[c]] | w # ws \<Rightarrow> (c # w) # ws))"

lemma tokens_sep: "P c \<Longrightarrow> tokens P (c # cs) = tokens P cs"
  by (cases cs) auto

lemma tokens_nonempty: "\<not> P c \<Longrightarrow> tokens P (c # cs) \<noteq> []"
  by (cases cs) (auto split: list.split)

lemma tokens_append: "P c \<Longrightarrow> tokens P (xs @ c # ys) = tokens P xs @ tokens P ys"
proof (induction P xs rule: tokens.induct)
  case (3 P x e cs)
  then show ?case using tokens_nonempty [of P e cs] by (auto split: list.split)
qed (auto simp: tokens_sep)

lemma tokens_dropWhile: "tokens P (dropWhile P s) = tokens P s"
  by (induction s) (auto simp: tokens_sep)

lemma tokens_strip_end: "tokens P (strip_end P s) = tokens P s"
  by (induction s rule: rev_induct) (auto simp: strip_end_snoc tokens_append)

lemma tokens_strip: "tokens P (strip P s) = tokens P s"
  by (simp add: strip_def tokens_strip_end tokens_dropWhile)

lemma split_runs_tokens:
  "P d \<Longrightarrow> s \<noteq> [] \<Longrightarrow> \<not> P (last s) \<Longrightarrow>
     js_split d (replace_runs P [d] s) = (if P (hd s) then [] # tokens P s else tokens P s)"
proof (induction P "[d]" s rule: replace_runs.induct)
  case (1 P)
  then show ?case by simp
next
  case (2 P c cs)
  show ?case
  proof (cases "P c")
    case True
    then have ne: "dropWhile P cs \<noteq> []" using 2(4,5) by (auto simp: dropWhile_eq_Nil_conv split: if_splits)
    then have "last (dropWhile P cs) = last cs" by (metis dropWhile_append3 append_Nil2 last_appendR takeWhile_dropWhile_id)
    moreover have "cs \<noteq> []" using ne by auto
    ultimately have "js_split d (replace_runs P [d] (dropWhile P cs)) = tokens P (dropWhile P cs)"
      using 2(1) [OF True 2(3) ne] 2(5) hd_dropWhile [OF ne] by simp
    then show ?thesis using True by (simp add: replace_runs.simps tokens_sep tokens_dropWhile)
  next
    case False
    then have "c \<noteq> d" using 2(3) by auto
    show ?thesis
    proof (cases cs)
      case Nil
      then show ?thesis using False \<open>c \<noteq> d\<close> by (simp add: replace_runs.simps)
    next
      case (Cons e es)
      then have "js_split d (replace_runs P [d] cs) = (if P e then [] # tokens P cs else tokens P cs)"
        using 2(2) [OF False 2(3)] 2(5) by simp
      then show ?thesis using False \<open>c \<noteq> d\<close> Cons by (auto simp: replace_runs.simps(2) [of P "[d]" c] split: list.split)
    qed
  qed
qed

lemma ws_lower [simp]: "js_ws (js_lower_char c) = js_ws c"
  by (auto simp: js_lower_char_def js_ws_def upper_alpha_def code_def)

lemma lower_trim: "js_lower (js_trim s) = strip js_ws (js_lower s)"
  by (simp add: js_lower_def js_trim_def strip_def strip_end_def dropWhile_map rev_map comp_def)

definition query_words :: "string \<Rightarrow> string list" where
  "query_words query = tokens js_ws (js_lower query)"

lemma search_terms_words: "js_lower (js_trim query) \<noteq> [] \<Longrightarrow> search_terms (js_lower (js_trim query)) = query_words query"
  unfolding lower_trim search_terms_def query_words_def
  by (subst split_runs_tokens) (simp_all add: strip_hd strip_last tokens_strip ws_space)

lemma no_words: "js_lower (js_trim query) = [] \<Longrightarrow> query_words query = []"
  unfolding lower_trim query_words_def by (metis tokens.simps(1) tokens_strip)

text \<open>A search returns, in the order of the catalogue, exactly the artifacts in which every word of the query occurs, whatever the case and
  the white space of the query; and a query of two parts searches for the second part in the results of the first.\<close>

theorem search_is_conjunctive:
  "searchArtifacts artifacts q = filter (\<lambda>a. list_all (\<lambda>w. sublist w (haystack a)) (query_words q)) artifacts
   \<and> searchArtifacts artifacts (p @ '' '' @ q) = searchArtifacts (searchArtifacts artifacts p) q"
proof -
  have spec: "searchArtifacts xs r = filter (\<lambda>a. list_all (\<lambda>w. sublist w (haystack a)) (query_words r)) xs" for xs r
    by (cases "js_lower (js_trim r) = []") (simp_all add: searchArtifacts_def Let_def no_words search_terms_words)
  have "query_words (p @ '' '' @ q) = query_words p @ query_words q"
    by (simp add: query_words_def js_lower_def tokens_append ws_space)
  then show ?thesis by (simp add: spec conj_commute)
qed

section \<open>Tags\<close>

lemma bump_keys: "distinct (map fst counts) \<Longrightarrow> distinct (map fst (bump_count v counts)) \<and> fst ` set (bump_count v counts) = insert v (fst ` set counts)"
  by (induction v counts rule: bump_count.induct) auto

lemma bump_at: "map_of (bump_count v counts) = (map_of counts)(v \<mapsto> (case map_of counts v of None \<Rightarrow> 1 | Some n \<Rightarrow> n + 1))"
  by (induction v counts rule: bump_count.induct) (auto split: option.split)

definition tag_total :: "string list \<Rightarrow> string \<Rightarrow> nat" where
  "tag_total tags v = (if v = [] then 0 else count_list (map js_trim tags) v)"

lemma count_tags_keys: "distinct (map fst counts) \<Longrightarrow> distinct (map fst (count_tags tags counts))"
  by (induction tags counts rule: count_tags.induct) (auto simp: bump_keys)

lemma count_tags_at:
  "(case map_of (count_tags tags counts) v of None \<Rightarrow> 0 | Some n \<Rightarrow> n) = (case map_of counts v of None \<Rightarrow> 0 | Some n \<Rightarrow> n) + tag_total tags v"
  by (induction tags counts rule: count_tags.induct) (auto simp: tag_total_def bump_at split: option.split)

lemma count_tags_positive: "list_all (\<lambda>c. 0 < snd c) counts \<Longrightarrow> list_all (\<lambda>c. 0 < snd c) (count_tags tags counts)"
proof (induction tags counts rule: count_tags.induct)
  case (2 tag tags counts)
  have "list_all (\<lambda>c. 0 < snd c) cs \<Longrightarrow> list_all (\<lambda>c. 0 < snd c) (bump_count v cs)" for v cs
    by (induction v cs rule: bump_count.induct) auto
  with 2 show ?case by simp
qed simp

lemma counted_tags: "(v, n) \<in> set (count_tags tags []) \<longleftrightarrow> 0 < n \<and> n = tag_total tags v"
proof -
  let ?cs = "count_tags tags []"
  have "(v, n) \<in> set ?cs \<longleftrightarrow> map_of ?cs v = Some n" using count_tags_keys [of "[]" tags] by simp
  moreover have "0 < m" if "map_of ?cs v = Some m" for m
    using that count_tags_positive [of "[]" tags] by (auto simp: list_all_iff dest!: map_of_SomeD)
  ultimately show ?thesis using count_tags_at [of tags "[]" v] by (auto split: option.splits)
qed

text \<open>The suggestions are the tags of the catalogue with their exact counts: a text is suggested with a count exactly when it is not
  empty and occurs, trimmed, that many times among the tags of the artifacts, at least once; and no text is suggested twice.\<close>

theorem suggestions_are_exact:
  "distinct (map ts_value (collectTagSuggestions base full artifacts))
   \<and> (\<lparr>ts_value = v, ts_count = n\<rparr> \<in> set (collectTagSuggestions base full artifacts)
      \<longleftrightarrow> 0 < n \<and> v \<noteq> [] \<and> n = count_list (map js_trim (concat (map art_tags artifacts))) v)"
proof -
  have "distinct (map fst (count_tags tags []))" for tags by (simp add: count_tags_keys)
  moreover have "\<lparr>ts_value = v, ts_count = n\<rparr> \<in> (\<lambda>(v, n). \<lparr>ts_value = v, ts_count = n\<rparr>) ` S \<longleftrightarrow> (v, n) \<in> S" for S by auto
  ultimately show ?thesis
    by (auto simp: collectTagSuggestions_def counted_tags tag_total_def comp_def case_prod_beta)
qed

text \<open>What is offered for a query: at most \<open>limit\<close> suggestions that match it and are not selected, those that begin with it first.\<close>

lemma insert_ranked:
  assumes "\<And>x y. P x \<Longrightarrow> \<not> P y \<Longrightarrow> cmp x y \<le> 0" and "\<And>x y. \<not> P x \<Longrightarrow> P y \<Longrightarrow> 0 < cmp x y"
    and "sorted_wrt (\<lambda>a b. P b \<longrightarrow> P a) xs"
  shows "sorted_wrt (\<lambda>a b. P b \<longrightarrow> P a) (insert_by cmp x xs)"
  using assms(3)
proof (induction xs)
  case (Cons y ys)
  then show ?case using assms(1,2) [of x y] by (auto dest: leD)
qed simp

lemma sort_ranked:
  assumes "\<And>x y. P x \<Longrightarrow> \<not> P y \<Longrightarrow> cmp x y \<le> 0" and "\<And>x y. \<not> P x \<Longrightarrow> P y \<Longrightarrow> 0 < cmp x y"
  shows "sorted_wrt (\<lambda>a b. P b \<longrightarrow> P a) (js_sort_by cmp xs)"
  by (induction xs) (simp_all add: insert_ranked [OF assms])

theorem suggestions_ranked:
  "length (filterTagSuggestions base full suggestions query selected limit) \<le> limit
   \<and> set (filterTagSuggestions base full suggestions query selected limit) \<subseteq> {s \<in> set suggestions. suggestion_matches query selected s}
   \<and> sorted_wrt (\<lambda>a b. prefix_match query b \<longrightarrow> prefix_match query a) (filterTagSuggestions base full suggestions query selected limit)"
proof -
  have "sorted_wrt (\<lambda>a b. prefix_match query b \<longrightarrow> prefix_match query a) (js_sort_by (compareMatches base full query) xs)" for xs
    by (rule sort_ranked) (simp_all add: compareMatches_def)
  then show ?thesis
    unfolding filterTagSuggestions_def by (auto simp: sorted_wrt_take dest: in_set_takeD)
qed

lemma added_tag:
  "distinct values \<Longrightarrow> distinct (addTagValue values input suggestions) \<and> prefix values (addTagValue values input suggestions)
     \<and> length (addTagValue values input suggestions) \<le> Suc (length values)"
  by (auto simp: addTagValue_def Let_def)

text \<open>The active option is always one of the list, or none.\<close>

lemma moved_in_range:
  assumes "direction \<in> {1, -1}" and "-1 \<le> cb_activeIndex st" and "0 < optionCount"
  shows "0 \<le> cb_activeIndex (comboboxMoved st optionCount direction) \<and> cb_activeIndex (comboboxMoved st optionCount direction) < int optionCount"
proof -
  define a where "a = (if cb_open st then cb_activeIndex st else -1) + direction + int optionCount"
  have "-2 + int optionCount \<le> a" using assms(1,2) by (auto simp: a_def)
  then have "optionCount = 1" if "a < 0" using that assms(3) by simp
  moreover have "cb_activeIndex (comboboxMoved st optionCount direction) = js_rem a (int optionCount)"
    using assms(3) by (simp add: comboboxMoved_def a_def Let_def)
  ultimately show ?thesis using assms(3) by (auto simp: js_rem_def)
qed

text \<open>Arrow up while no option is active does not reach the last option but the one before it.\<close>

lemma up_skips_last:
  assumes "2 \<le> n"
  shows "cb_activeIndex (comboboxMoved \<lparr>cb_open = b, cb_activeIndex = -1\<rparr> n (-1)) = int n - 2"
proof -
  have "(int n - 2) mod int n = int n - 2" using assms by (intro mod_pos_pos_trivial) simp_all
  moreover have "-1 + -1 + int n = int n - 2" "\<not> int n - 2 < 0" "n \<noteq> 0" using assms by simp_all
  ultimately show ?thesis by (simp only: comboboxMoved_def js_rem_def Let_def combobox_state.simps if_cancel if_False)
qed

end
