(* ===== verification/Workflow_Blocks.thy ===== *)
theory Workflow_Blocks
  imports Js_Values
begin

text \<open>
  The blocks a workflow is made of: \<^verbatim>\<open>lib/workflow-block-registry.ts\<close>.

  A registered block has its ports, the schema of its configuration and the references it makes. The registry is the list of
  registered blocks, in order. A missing configuration is \<open>JNull\<close>: every schema refuses both. Labels, descriptions and authoring guides
  are not modelled, so \<^verbatim>\<open>metadata\<close> is not; a schema is the set of values it accepts, and the defaults it fills in are read as
  such where a value is missing.
\<close>

section \<open>Definitions\<close>

subsection \<open>The registry\<close>

record block_port =
  bp_id :: string
  bp_default :: bool
  bp_multiple :: bool

record registered_block =
  bk_type :: string
  bk_version :: int
  bk_configSchema :: "js_value \<Rightarrow> bool"
  bk_inputs :: "block_port list"
  bk_outputs :: "block_port list"
  bk_agentIds :: "js_value \<Rightarrow> string list"
  bk_workflowIds :: "js_value \<Rightarrow> string list"

datatype port_direction = Inputs | Outputs

datatype registry_error =
    DuplicateBlockRegistration
  | InvalidBlockPorts
  | UnsupportedBlockVersion string int
  | UnknownBlockType string
  | InvalidBlockConfig
  | UnknownPort port_direction string

definition block_key :: "string \<Rightarrow> int \<Rightarrow> string" where
  "block_key type version = type @ ''@'' @ show_int version"

definition ports_ok :: "block_port list \<Rightarrow> bool" where
  "ports_ok ports = (ports \<noteq> [] \<and> distinct (map bp_id ports) \<and> length (filter bp_default ports) = 1)"

definition register :: "registered_block \<Rightarrow> registered_block list \<Rightarrow> registry_error + registered_block list" where
  "register b blocks =
     (if list_ex (\<lambda>c. block_key (bk_type c) (bk_version c) = block_key (bk_type b) (bk_version b)) blocks
      then Inl DuplicateBlockRegistration
      else if \<not> ports_ok (bk_inputs b) \<or> \<not> ports_ok (bk_outputs b) then Inl InvalidBlockPorts
      else Inr (blocks @ [b]))"

definition hasType :: "registered_block list \<Rightarrow> string \<Rightarrow> bool" where
  "hasType blocks type = list_ex (\<lambda>b. bk_type b = type) blocks"

definition resolve_block :: "registered_block list \<Rightarrow> string \<Rightarrow> int \<Rightarrow> registry_error + registered_block" where
  "resolve_block blocks type version =
     (case js_find (\<lambda>b. block_key (bk_type b) (bk_version b) = block_key type version) blocks of
        Some b \<Rightarrow> Inr b
      | None \<Rightarrow> Inl (if hasType blocks type then UnsupportedBlockVersion type version else UnknownBlockType type))"

definition validate_block :: "registered_block list \<Rightarrow> string \<Rightarrow> int \<Rightarrow> js_value \<Rightarrow> registry_error + unit" where
  "validate_block blocks type version config =
     bindR (resolve_block blocks type version) (\<lambda>b. if bk_configSchema b config then Inr () else Inl InvalidBlockConfig)"

definition block_references ::
  "registered_block list \<Rightarrow> string \<Rightarrow> int \<Rightarrow> js_value \<Rightarrow> registry_error + (string list \<times> string list)" where
  "block_references blocks type version config =
     bindR (resolve_block blocks type version) (\<lambda>b.
       if bk_configSchema b config then Inr (bk_agentIds b config, bk_workflowIds b config) else Inl InvalidBlockConfig)"

definition block_ports :: "registered_block \<Rightarrow> port_direction \<Rightarrow> block_port list" where
  "block_ports b d = (case d of Inputs \<Rightarrow> bk_inputs b | Outputs \<Rightarrow> bk_outputs b)"

definition resolve_port ::
  "registered_block list \<Rightarrow> string \<Rightarrow> int \<Rightarrow> port_direction \<Rightarrow> string option \<Rightarrow> registry_error + string" where
  "resolve_port blocks type version d port =
     bindR (resolve_block blocks type version) (\<lambda>b.
       let ports = block_ports b d;
           resolved = (case port of Some p \<Rightarrow> Some p | None \<Rightarrow> map_option bp_id (js_find bp_default ports))
       in if truthy resolved \<and> list_ex (\<lambda>p. bp_id p = the resolved) ports then Inr (the resolved)
          else Inl (UnknownPort d (case port of Some p \<Rightarrow> p | None \<Rightarrow> ''default'')))"

subsection \<open>The schemas of the configurations\<close>

definition MAX_AGENT_CONTEXT_SOURCES :: nat where "MAX_AGENT_CONTEXT_SOURCES = 16"
definition APPROVAL_MESSAGE_MAX_LENGTH :: nat where "APPROVAL_MESSAGE_MAX_LENGTH = 2000"

definition block_id_ok :: "string \<Rightarrow> bool" where
  "block_id_ok s = (slug_pattern s \<and> length s \<le> 80)"

text \<open>\<^verbatim>\<open>z.object({...}).strict()\<close>: an object without other keys.\<close>

definition strict_object :: "string list \<Rightarrow> js_value \<Rightarrow> bool" where
  "strict_object keys v = (js_is_object v \<and> list_all (\<lambda>k. k \<in> set keys) (js_keys v))"

definition field_ok :: "(js_value \<Rightarrow> bool) \<Rightarrow> js_value \<Rightarrow> string \<Rightarrow> bool" where
  "field_ok P v k = (case js_get v k of None \<Rightarrow> False | Some x \<Rightarrow> P x)"

definition optional_ok :: "(js_value \<Rightarrow> bool) \<Rightarrow> js_value \<Rightarrow> string \<Rightarrow> bool" where
  "optional_ok P v k = (case js_get v k of None \<Rightarrow> True | Some x \<Rightarrow> P x)"

definition is_id :: "js_value \<Rightarrow> bool" where
  "is_id v = (case v of JStr s \<Rightarrow> block_id_ok s | _ \<Rightarrow> False)"

definition is_bool :: "js_value \<Rightarrow> bool" where
  "is_bool v = (case v of JBool b \<Rightarrow> True | _ \<Rightarrow> False)"

definition is_text :: "nat \<Rightarrow> nat \<Rightarrow> js_value \<Rightarrow> bool" where
  "is_text least most v = (case v of JStr s \<Rightarrow> least \<le> length s \<and> length s \<le> most | _ \<Rightarrow> False)"

definition is_trimmed_text :: "nat \<Rightarrow> js_value \<Rightarrow> bool" where
  "is_trimmed_text most v = (case v of JStr s \<Rightarrow> 1 \<le> length (js_trim s) \<and> length (js_trim s) \<le> most | _ \<Rightarrow> False)"

definition is_id_list :: "nat \<Rightarrow> js_value \<Rightarrow> bool" where
  "is_id_list most v = (case v of JArr xs \<Rightarrow> length xs \<le> most \<and> list_all is_id xs | _ \<Rightarrow> False)"

definition agentBlockConfigSchema :: "js_value \<Rightarrow> bool" where
  "agentBlockConfigSchema v = (strict_object [''agentId''] v \<and> field_ok is_id v ''agentId'')"

definition agentContextSchema :: "js_value \<Rightarrow> bool" where
  "agentContextSchema v =
     (strict_object [''publishOutput'', ''includeRunInput'', ''includeNodeOutputs''] v \<and> optional_ok is_bool v ''publishOutput''
      \<and> optional_ok is_bool v ''includeRunInput'' \<and> optional_ok (is_id_list MAX_AGENT_CONTEXT_SOURCES) v ''includeNodeOutputs'')"

definition agentBlockV2ConfigSchema :: "js_value \<Rightarrow> bool" where
  "agentBlockV2ConfigSchema v =
     (strict_object [''agentId'', ''context''] v \<and> field_ok is_id v ''agentId'' \<and> optional_ok agentContextSchema v ''context'')"

definition agentConversationSchema :: "js_value \<Rightarrow> bool" where
  "agentConversationSchema v = (strict_object [''sourceNodeId''] v \<and> field_ok is_id v ''sourceNodeId'')"

definition agentBlockV3ConfigSchema :: "js_value \<Rightarrow> bool" where
  "agentBlockV3ConfigSchema v =
     (strict_object [''agentId'', ''context'', ''conversation''] v \<and> field_ok is_id v ''agentId''
      \<and> optional_ok agentContextSchema v ''context'' \<and> optional_ok agentConversationSchema v ''conversation'')"

definition conditionBlockConfigSchema :: "js_value \<Rightarrow> bool" where
  "conditionBlockConfigSchema v =
     (strict_object [''operator'', ''value'', ''caseSensitive''] v \<and> field_ok (\<lambda>x. x = JStr ''contains'') v ''operator''
      \<and> field_ok (is_text 1 4096) v ''value'' \<and> optional_ok is_bool v ''caseSensitive'')"

definition joinBlockConfigSchema :: "js_value \<Rightarrow> bool" where
  "joinBlockConfigSchema v = strict_object [] v"

definition approvalBlockConfigSchema :: "js_value \<Rightarrow> bool" where
  "approvalBlockConfigSchema v = (strict_object [''message''] v \<and> field_ok (is_trimmed_text APPROVAL_MESSAGE_MAX_LENGTH) v ''message'')"

definition subworkflowBlockConfigSchema :: "js_value \<Rightarrow> bool" where
  "subworkflowBlockConfigSchema v = (strict_object [''workflowId''] v \<and> field_ok is_id v ''workflowId'')"

definition publishGitHubPrBlockConfigSchema :: "js_value \<Rightarrow> bool" where
  "publishGitHubPrBlockConfigSchema v =
     (strict_object [''sourceNodeId'', ''title'', ''body'', ''draft''] v \<and> field_ok is_id v ''sourceNodeId''
      \<and> field_ok (is_trimmed_text 256) v ''title'' \<and> field_ok (is_text 0 65536) v ''body'' \<and> field_ok is_bool v ''draft'')"

subsection \<open>The registered blocks\<close>

definition plain_port :: "string \<Rightarrow> bool \<Rightarrow> block_port" where
  "plain_port i d = \<lparr>bp_id = i, bp_default = d, bp_multiple = False\<rparr>"

definition string_field :: "string \<Rightarrow> js_value \<Rightarrow> string list" where
  "string_field k v = (case js_str (js_get v k) of None \<Rightarrow> [] | Some s \<Rightarrow> [s])"

definition simple_block :: "string \<Rightarrow> int \<Rightarrow> (js_value \<Rightarrow> bool) \<Rightarrow> registered_block" where
  "simple_block type version schema =
     \<lparr>bk_type = type, bk_version = version, bk_configSchema = schema, bk_inputs = [plain_port ''in'' True],
      bk_outputs = [plain_port ''out'' True], bk_agentIds = (\<lambda>_. []), bk_workflowIds = (\<lambda>_. [])\<rparr>"

definition agent_block :: "int \<Rightarrow> (js_value \<Rightarrow> bool) \<Rightarrow> registered_block" where
  "agent_block version schema = (simple_block ''agent'' version schema)\<lparr>bk_agentIds := string_field ''agentId''\<rparr>"

fun register_all :: "registered_block list \<Rightarrow> registered_block list \<Rightarrow> registry_error + registered_block list" where
  "register_all [] blocks = Inr blocks"
| "register_all (b # bs) blocks = bindR (register b blocks) (register_all bs)"

definition the_blocks :: "registered_block list" where
  "the_blocks =
     [agent_block 1 agentBlockConfigSchema, agent_block 2 agentBlockV2ConfigSchema, agent_block 3 agentBlockV3ConfigSchema,
      (simple_block ''condition'' 1 conditionBlockConfigSchema)\<lparr>bk_outputs := [plain_port ''true'' True, plain_port ''false'' False]\<rparr>,
      simple_block ''approval'' 1 approvalBlockConfigSchema,
      (simple_block ''publish-github-pr'' 1 publishGitHubPrBlockConfigSchema)
        \<lparr>bk_inputs := [plain_port ''managed-result'' True], bk_outputs := [plain_port ''pull-request'' True]\<rparr>,
      (simple_block ''subworkflow'' 1 subworkflowBlockConfigSchema)\<lparr>bk_workflowIds := string_field ''workflowId''\<rparr>,
      (simple_block ''join'' 1 joinBlockConfigSchema)\<lparr>bk_inputs := [(plain_port ''in'' True)\<lparr>bp_multiple := True\<rparr>]\<rparr>]"

definition workflowBlockRegistry :: "registered_block list" where
  "workflowBlockRegistry = (case register_all the_blocks [] of Inl _ \<Rightarrow> [] | Inr blocks \<Rightarrow> blocks)"

section \<open>Lemmas\<close>

text \<open>Every registration of the module succeeds, so loading it does not throw.\<close>

lemma registry_loads: "register_all the_blocks [] = Inr the_blocks"
  by (simp add: the_blocks_def agent_block_def simple_block_def plain_port_def register_def block_key_def ports_ok_def show_int_def
      show_nat.simps)

lemma registry_blocks [simp]: "workflowBlockRegistry = the_blocks"
  by (simp add: workflowBlockRegistry_def registry_loads)

end
