(* ===== verification/Workflow_Graph.thy ===== *)
theory Workflow_Graph
  imports Workflow_Blocks
begin

text \<open>
  The definition of a workflow and the validation of its graph: the second version of the schema in
  \<^verbatim>\<open>lib/workflow-definitions.ts\<close>.

  A definition that has the right shape is a record; the refinements of the schema collect issues, and a definition is accepted when
  there is none. An issue carries the index or the identifier its path names. A recursive search with a set of visited nodes is a
  loop over an explicit stack in the order of the visits; \<open>seen\<close> lists the visited nodes, the last one first. Reading a field of a
  configuration that is no object gives a missing value: the code then throws instead, but the block registry has refused the
  configuration already, and the definition is rejected either way.
\<close>

section \<open>Definitions\<close>

subsection \<open>Definitions of workflows\<close>

definition MAX_WORKFLOW_STEPS :: nat where "MAX_WORKFLOW_STEPS = 32"
definition MAX_STEP_EXECUTIONS :: nat where "MAX_STEP_EXECUTIONS = 128"
definition WORKFLOW_RUN_INPUT_MAX_LENGTH :: nat where "WORKFLOW_RUN_INPUT_MAX_LENGTH = 65536"

record workflow_node =
  wn_id :: string
  wn_blockType :: string
  wn_blockVersion :: int
  wn_config :: js_value

record workflow_edge =
  we_id :: string
  we_source :: string
  we_sourcePort :: "string option"
  we_target :: string
  we_targetPort :: "string option"

record workflow_definition =
  wd_id :: string
  wd_name :: string
  wd_description :: string
  wd_runInputTemplate :: "string option"
  wd_exposableAsBlock :: "bool option"
  wd_nodes :: "workflow_node list"
  wd_edges :: "workflow_edge list"
  wd_maxStepExecutions :: int

text \<open>An edge whose ports are resolved.\<close>

record graph_edge =
  ge_source :: string
  ge_sourcePort :: string
  ge_target :: string
  ge_targetPort :: string

datatype graph_issue =
    EdgeEndpointsMissing nat
  | EdgePortInvalid nat registry_error
  | DuplicateSemanticEdge nat
  | NotOneEntry
  | NotOneTerminal
  | ConditionInput string
  | ConditionRoutes string
  | JoinInputs string
  | JoinOutput string
  | JoinUnstructured string
  | ParallelMerge string
  | FanOutTooWide string
  | FanOutNotJoined string
  | ApprovalInFanOut string
  | PublishSource string
  | ContextSource string
  | ConversationSource string
  | ConversationCycle string
  | ConversationOrder string
  | TerminalType
  | Unreachable
  | LeadsNowhere
  | CycleWithoutCondition
  | CycleWithoutExit
  | DuplicateNodeId nat
  | InvalidBlock nat registry_error
  | DuplicateEdgeId nat

subsection \<open>Lookups\<close>

text \<open>\<^verbatim>\<open>byId\<close>: of two nodes with one identifier the later one is found.\<close>

definition node_at :: "workflow_node list \<Rightarrow> string \<Rightarrow> workflow_node option" where
  "node_at nodes i = js_find (\<lambda>n. wn_id n = i) (rev nodes)"

definition has_block :: "workflow_node list \<Rightarrow> string \<Rightarrow> string \<Rightarrow> bool" where
  "has_block nodes type i = (case node_at nodes i of None \<Rightarrow> False | Some n \<Rightarrow> wn_blockType n = type)"

definition node_ids :: "workflow_node list \<Rightarrow> string list" where
  "node_ids nodes = js_dedup (map wn_id nodes)"

definition outgoing :: "graph_edge list \<Rightarrow> string \<Rightarrow> graph_edge list" where
  "outgoing es i = filter (\<lambda>e. ge_source e = i) es"

definition incoming :: "graph_edge list \<Rightarrow> string \<Rightarrow> graph_edge list" where
  "incoming es i = filter (\<lambda>e. ge_target e = i) es"

definition successors :: "graph_edge list \<Rightarrow> string \<Rightarrow> string list" where
  "successors es i = map ge_target (outgoing es i)"

definition flip :: "graph_edge \<Rightarrow> graph_edge" where
  "flip e = e\<lparr>ge_source := ge_target e, ge_target := ge_source e\<rparr>"

subsection \<open>Edges\<close>

definition semantic_key :: "graph_edge \<Rightarrow> string" where
  "semantic_key e = ge_source e @ '':'' @ ge_sourcePort e @ ''->'' @ ge_target e @ '':'' @ ge_targetPort e"

definition resolve_edge :: "workflow_node list \<Rightarrow> nat \<Rightarrow> workflow_edge \<Rightarrow> graph_issue + graph_edge" where
  "resolve_edge nodes n e =
     (case (node_at nodes (we_source e), node_at nodes (we_target e)) of
        (Some s, Some t) \<Rightarrow>
          (case resolve_port workflowBlockRegistry (wn_blockType s) (wn_blockVersion s) Outputs (we_sourcePort e) of
             Inl err \<Rightarrow> Inl (EdgePortInvalid n err)
           | Inr sp \<Rightarrow>
               (case resolve_port workflowBlockRegistry (wn_blockType t) (wn_blockVersion t) Inputs (we_targetPort e) of
                  Inl err \<Rightarrow> Inl (EdgePortInvalid n err)
                | Inr tp \<Rightarrow> Inr \<lparr>ge_source = we_source e, ge_sourcePort = sp, ge_target = we_target e, ge_targetPort = tp\<rparr>))
      | _ \<Rightarrow> Inl (EdgeEndpointsMissing n))"

fun resolve_edges ::
  "workflow_node list \<Rightarrow> nat \<Rightarrow> string list \<Rightarrow> workflow_edge list \<Rightarrow> graph_edge list \<times> graph_issue list" where
  "resolve_edges nodes n semantic [] = ([], [])"
| "resolve_edges nodes n semantic (e # es) =
     (case resolve_edge nodes n e of
        Inl i \<Rightarrow> (let (gs, is) = resolve_edges nodes (Suc n) semantic es in (gs, i # is))
      | Inr g \<Rightarrow>
          (let (gs, is) = resolve_edges nodes (Suc n) (semantic_key g # semantic) es
           in (g # gs, (if semantic_key g \<in> set semantic then [DuplicateSemanticEdge n] else []) @ is)))"

subsection \<open>Searching\<close>

text \<open>
  The search all checks use: a node where \<open>hit\<close> holds ends it, a node where \<open>stop\<close> holds is passed over, and a node that is visited puts
  its successors before the rest of the stack.
\<close>

function walk :: "graph_edge list \<Rightarrow> (string \<Rightarrow> bool) \<Rightarrow> (string \<Rightarrow> bool) \<Rightarrow> string list \<Rightarrow> string list \<Rightarrow> bool \<times> string list" where
  "walk es hit stop [] seen = (False, seen)"
| "walk es hit stop (x # st) seen =
     (if hit x then (True, seen)
      else if x \<in> set seen \<or> stop x then walk es hit stop st seen
      else walk es hit stop (successors es x @ st) (x # seen))"
  by pat_completeness auto
termination
proof (relation "measures [\<lambda>(es, hit, stop, st, seen). card (ge_source ` set es - set seen), \<lambda>(es, hit, stop, st, seen). length st]", goal_cases)
  case (3 es hit stop x st seen)
  show ?case
  proof (cases "x \<in> ge_source ` set es")
    case True
    then have "ge_source ` set es - set (x # seen) \<subset> ge_source ` set es - set seen" using 3 by auto
    then have "card (ge_source ` set es - set (x # seen)) < card (ge_source ` set es - set seen)" by (intro psubset_card_mono) auto
    then show ?thesis by simp
  next
    case False
    then have "successors es x = []" by (auto simp: successors_def outgoing_def filter_empty_conv)
    moreover have "ge_source ` set es - insert x (set seen) = ge_source ` set es - set seen" using False by auto
    ultimately show ?thesis by simp
  qed
qed simp_all

definition found :: "graph_edge list \<Rightarrow> (string \<Rightarrow> bool) \<Rightarrow> (string \<Rightarrow> bool) \<Rightarrow> string \<Rightarrow> bool" where
  "found es hit stop start = fst (walk es hit stop [start] [])"

definition visited :: "graph_edge list \<Rightarrow> string \<Rightarrow> string list" where
  "visited es start = snd (walk es (\<lambda>_. False) (\<lambda>_. False) [start] [])"

definition canReach :: "graph_edge list \<Rightarrow> string \<Rightarrow> string \<Rightarrow> bool" where
  "canReach es source target = found es (\<lambda>x. x = target) (\<lambda>_. False) source"

text \<open>The search that carries along whether a Condition was passed.\<close>

function walk_marked ::
  "graph_edge list \<Rightarrow> (string \<Rightarrow> bool) \<Rightarrow> string \<Rightarrow> (string \<times> bool) list \<Rightarrow> string list \<Rightarrow> bool" where
  "walk_marked es cond goal [] seen = False"
| "walk_marked es cond goal ((x, marked) # st) seen =
     (if x = goal \<and> (marked \<or> cond x) then True
      else if x = goal \<or> x \<in> set seen then walk_marked es cond goal st seen
      else walk_marked es cond goal (map (\<lambda>y. (y, marked \<or> cond x)) (successors es x) @ st) (x # seen))"
  by pat_completeness auto
termination
proof (relation "measures [\<lambda>(es, cond, goal, st, seen). card (ge_source ` set es - set seen), \<lambda>(es, cond, goal, st, seen). length st]", goal_cases)
  case (3 es cond goal x marked st seen)
  show ?case
  proof (cases "x \<in> ge_source ` set es")
    case True
    then have "ge_source ` set es - set (x # seen) \<subset> ge_source ` set es - set seen" using 3 by auto
    then have "card (ge_source ` set es - set (x # seen)) < card (ge_source ` set es - set seen)" by (intro psubset_card_mono) auto
    then show ?thesis by simp
  next
    case False
    then have "successors es x = []" by (auto simp: successors_def outgoing_def filter_empty_conv)
    moreover have "ge_source ` set es - insert x (set seen) = ge_source ` set es - set seen" using False by auto
    ultimately show ?thesis by simp
  qed
qed simp_all

subsection \<open>Entry and terminal\<close>

definition graph_roots :: "workflow_node list \<Rightarrow> graph_edge list \<Rightarrow> string list" where
  "graph_roots nodes es = filter (\<lambda>i. incoming es i = []) (node_ids nodes)"

text \<open>The code walks the declared edges here: also one whose ports are wrong.\<close>

definition cycle_roots :: "workflow_node list \<Rightarrow> workflow_edge list \<Rightarrow> graph_edge list \<Rightarrow> string list" where
  "cycle_roots nodes declared es =
     map we_target (filter (\<lambda>e. has_block nodes ''condition'' (we_source e)
       \<and> found es (\<lambda>x. x = we_source e) (\<lambda>_. False) (we_target e)) declared)"

definition graph_entries :: "workflow_node list \<Rightarrow> workflow_edge list \<Rightarrow> graph_edge list \<Rightarrow> string list" where
  "graph_entries nodes declared es =
     (if graph_roots nodes es \<noteq> [] then graph_roots nodes es else js_dedup (cycle_roots nodes declared es))"

definition graph_terminals :: "workflow_node list \<Rightarrow> graph_edge list \<Rightarrow> string list" where
  "graph_terminals nodes es = filter (\<lambda>i. outgoing es i = []) (node_ids nodes)"

subsection \<open>The check of one node\<close>

definition issue_if :: "bool \<Rightarrow> graph_issue \<Rightarrow> graph_issue list" where
  "issue_if b i = (if b then [i] else [])"

definition condition_issues :: "graph_edge list \<Rightarrow> string \<Rightarrow> graph_issue list" where
  "condition_issues es i =
     issue_if (length (incoming es i) \<noteq> 1) (ConditionInput i)
     @ (let ports = map ge_sourcePort (outgoing es i) in
        issue_if (length ports \<noteq> 2 \<or> length (filter (\<lambda>p. p = ''true'') ports) \<noteq> 1 \<or> length (filter (\<lambda>p. p = ''false'') ports) \<noteq> 1)
          (ConditionRoutes i))"

definition origin_of :: "graph_edge list \<Rightarrow> string \<Rightarrow> string option" where
  "origin_of es i = (case incoming es i of [e] \<Rightarrow> Some (ge_source e) | _ \<Rightarrow> None)"

definition structured_join :: "workflow_node list \<Rightarrow> graph_edge list \<Rightarrow> string \<Rightarrow> bool" where
  "structured_join nodes es i =
     (let predecessors = map ge_source (incoming es i); origins = map (origin_of es) predecessors in
      case origins of
        Some origin # _ \<Rightarrow>
          origin \<noteq> [] \<and> list_all (\<lambda>v. v = Some origin) origins \<and> \<not> has_block nodes ''condition'' origin
          \<and> length (outgoing es origin) = length predecessors
          \<and> list_all (\<lambda>p. case outgoing es p of [e] \<Rightarrow> ge_target e = i | _ \<Rightarrow> False) predecessors
      | _ \<Rightarrow> False)"

definition join_issues :: "workflow_node list \<Rightarrow> graph_edge list \<Rightarrow> string \<Rightarrow> graph_issue list" where
  "join_issues nodes es i =
     issue_if (length (incoming es i) < 2) (JoinInputs i) @ issue_if (length (outgoing es i) \<noteq> 1) (JoinOutput i)
     @ issue_if (\<not> structured_join nodes es i) (JoinUnstructured i)"

definition controlled_cycle_merge :: "workflow_node list \<Rightarrow> graph_edge list \<Rightarrow> string \<Rightarrow> bool" where
  "controlled_cycle_merge nodes es i =
     list_ex (\<lambda>e. walk_marked es (has_block nodes ''condition'') (ge_source e) [(i, False)] []) (incoming es i)"

definition exclusive_merge :: "workflow_node list \<Rightarrow> graph_edge list \<Rightarrow> string \<Rightarrow> bool" where
  "exclusive_merge nodes es i =
     list_ex (\<lambda>c. has_block nodes ''condition'' c
       \<and> list_all (\<lambda>port.
           case js_find (\<lambda>e. ge_sourcePort e = port) (outgoing es c) of
             None \<Rightarrow> False
           | Some e \<Rightarrow> ge_target e \<noteq> [] \<and> found es (\<lambda>x. x \<in> ge_source ` set (incoming es i)) (\<lambda>x. x = i) (ge_target e))
         [''true'', ''false''])
       (node_ids nodes)"

definition merge_issues :: "workflow_node list \<Rightarrow> graph_edge list \<Rightarrow> string \<Rightarrow> graph_issue list" where
  "merge_issues nodes es i =
     issue_if (1 < length (incoming es i) \<and> \<not> exclusive_merge nodes es i \<and> \<not> controlled_cycle_merge nodes es i) (ParallelMerge i)"

text \<open>\<^verbatim>\<open>joinsFor\<close>: a Join is visited, but the search does not go on behind it.\<close>

definition joinsFor :: "workflow_node list \<Rightarrow> graph_edge list \<Rightarrow> string \<Rightarrow> string list" where
  "joinsFor nodes es start =
     filter (has_block nodes ''join'') (rev (visited (filter (\<lambda>e. \<not> has_block nodes ''join'' (ge_source e)) es) start))"

definition common_joins :: "workflow_node list \<Rightarrow> graph_edge list \<Rightarrow> string \<Rightarrow> string list" where
  "common_joins nodes es i =
     (case map (\<lambda>e. joinsFor nodes es (ge_target e)) (outgoing es i) of
        [] \<Rightarrow> []
      | js # rest \<Rightarrow> filter (\<lambda>j. list_all (\<lambda>s. j \<in> set s) (js # rest)) js)"

definition containsApproval :: "workflow_node list \<Rightarrow> graph_edge list \<Rightarrow> string \<Rightarrow> string \<Rightarrow> bool" where
  "containsApproval nodes es join start = found es (\<lambda>x. x \<noteq> join \<and> has_block nodes ''approval'' x) (\<lambda>x. x = join) start"

definition fan_out_issues :: "workflow_node list \<Rightarrow> graph_edge list \<Rightarrow> string \<Rightarrow> graph_issue list" where
  "fan_out_issues nodes es i =
     (if has_block nodes ''condition'' i then []
      else
        issue_if (3 < length (outgoing es i)) (FanOutTooWide i)
        @ (if length (outgoing es i) \<le> 1 then []
           else case common_joins nodes es i of
             [] \<Rightarrow> [FanOutNotJoined i]
           | join # _ \<Rightarrow> issue_if (list_ex (\<lambda>e. containsApproval nodes es join (ge_target e)) (outgoing es i)) (ApprovalInFanOut i)))"

definition node_issues :: "workflow_node list \<Rightarrow> graph_edge list \<Rightarrow> string \<Rightarrow> graph_issue list" where
  "node_issues nodes es i =
     (if has_block nodes ''condition'' i then condition_issues es i
      else if has_block nodes ''join'' i then join_issues nodes es i
      else merge_issues nodes es i)
     @ fan_out_issues nodes es i"

subsection \<open>References between blocks\<close>

definition publish_issues :: "workflow_node list \<Rightarrow> graph_edge list \<Rightarrow> workflow_node \<Rightarrow> graph_issue list" where
  "publish_issues nodes es n =
     (if wn_blockType n \<noteq> ''publish-github-pr'' then []
      else
        (let source = js_str (js_get (wn_config n) ''sourceNodeId'') in
         issue_if (\<not> (truthy source \<and> has_block nodes ''agent'' (the source)
             \<and> (case incoming es (wn_id n) of [e] \<Rightarrow> ge_source e = the source | _ \<Rightarrow> False)))
           (PublishSource (wn_id n))))"

definition context_agent :: "workflow_node \<Rightarrow> bool" where
  "context_agent n = (wn_blockType n = ''agent'' \<and> wn_blockVersion n \<in> {2, 3})"

definition context_of :: "workflow_node \<Rightarrow> js_value" where
  "context_of n = (case js_get (wn_config n) ''context'' of None \<Rightarrow> JNull | Some c \<Rightarrow> c)"

definition selected_outputs :: "workflow_node \<Rightarrow> string list" where
  "selected_outputs n =
     (case js_get (context_of n) ''includeNodeOutputs'' of
        Some (JArr xs) \<Rightarrow> map (\<lambda>x. case x of JStr s \<Rightarrow> s | _ \<Rightarrow> []) xs
      | _ \<Rightarrow> [])"

definition publishes_output :: "workflow_node \<Rightarrow> bool" where
  "publishes_output n = (js_get (context_of n) ''publishOutput'' = Some (JBool True))"

definition context_issues :: "workflow_node list \<Rightarrow> graph_edge list \<Rightarrow> workflow_node \<Rightarrow> graph_issue list" where
  "context_issues nodes es n =
     (if \<not> context_agent n then []
      else concat (map (\<lambda>sourceId.
        issue_if (sourceId = wn_id n
            \<or> (case node_at nodes sourceId of None \<Rightarrow> True | Some s \<Rightarrow> \<not> context_agent s \<or> \<not> publishes_output s)
            \<or> \<not> canReach es sourceId (wn_id n))
          (ContextSource (wn_id n))) (selected_outputs n)))"

definition conversation_source :: "workflow_node \<Rightarrow> string option" where
  "conversation_source n =
     (if wn_blockType n = ''agent'' \<and> wn_blockVersion n = 3
      then (case js_get (wn_config n) ''conversation'' of
              None \<Rightarrow> None
            | Some JNull \<Rightarrow> None
            | Some c \<Rightarrow> (case js_str (js_get c ''sourceNodeId'') of Some s \<Rightarrow> Some s | None \<Rightarrow> Some []))
      else None)"

definition conversation_nodes :: "workflow_node list \<Rightarrow> workflow_node list" where
  "conversation_nodes nodes = filter (\<lambda>n. conversation_source n \<noteq> None) nodes"

definition conversation_parent :: "workflow_node list \<Rightarrow> string \<Rightarrow> string option" where
  "conversation_parent nodes i =
     (case js_find (\<lambda>n. wn_id n = i) (rev (conversation_nodes nodes)) of None \<Rightarrow> None | Some n \<Rightarrow> conversation_source n)"

text \<open>
  The walk up the chain of sources: whether it meets a node twice, and the last node. Every step before a repetition is a new node of
  the list, so as many steps as there are nodes are enough (\<open>chain_enough\<close>); the code has no bound.
\<close>

fun chain_repeats :: "(string \<Rightarrow> string option) \<Rightarrow> nat \<Rightarrow> string list \<Rightarrow> string \<Rightarrow> bool" where
  "chain_repeats up 0 seen cursor = False"
| "chain_repeats up (Suc n) seen cursor =
     (case up cursor of
        None \<Rightarrow> False
      | Some next \<Rightarrow> cursor \<noteq> [] \<and> (cursor \<in> set seen \<or> chain_repeats up n (cursor # seen) next))"

fun chain_root :: "(string \<Rightarrow> string option) \<Rightarrow> nat \<Rightarrow> string list \<Rightarrow> string \<Rightarrow> string" where
  "chain_root up 0 seen v = v"
| "chain_root up (Suc n) seen v =
     (case up v of None \<Rightarrow> v | Some next \<Rightarrow> if v \<in> set seen then v else chain_root up n (v # seen) next)"

definition chain_limit :: "workflow_node list \<Rightarrow> nat" where
  "chain_limit nodes = Suc (Suc (length nodes))"

definition conversationRoot :: "workflow_node list \<Rightarrow> string \<Rightarrow> string" where
  "conversationRoot nodes i = chain_root (conversation_parent nodes) (chain_limit nodes) [] i"

definition conversation_issues :: "workflow_node list \<Rightarrow> graph_edge list \<Rightarrow> workflow_node \<Rightarrow> graph_issue list" where
  "conversation_issues nodes es n =
     (let sourceId = the (conversation_parent nodes (wn_id n)) in
      issue_if (sourceId = wn_id n \<or> \<not> has_block nodes ''agent'' sourceId \<or> \<not> canReach es sourceId (wn_id n)) (ConversationSource (wn_id n))
      @ issue_if (chain_repeats (conversation_parent nodes) (chain_limit nodes) [wn_id n] sourceId) (ConversationCycle (wn_id n)))"

fun lineage_issues :: "workflow_node list \<Rightarrow> graph_edge list \<Rightarrow> string list \<Rightarrow> graph_issue list" where
  "lineage_issues nodes es [] = []"
| "lineage_issues nodes es (a # rest) =
     concat (map (\<lambda>b. issue_if (conversationRoot nodes a = conversationRoot nodes b \<and> \<not> canReach es a b \<and> \<not> canReach es b a)
       (ConversationOrder b)) rest)
     @ lineage_issues nodes es rest"

subsection \<open>Strongly connected components\<close>

text \<open>
  The state of the depth-first numbering. \<^verbatim>\<open>onStack\<close> holds the elements of \<^verbatim>\<open>stack\<close>, so the stack, its top first, stands for both. The bound
  on the depth of the recursion is the number of nodes (\<open>strong_returns\<close>); the code has none.
\<close>

record numbering =
  nu_index :: nat
  nu_indexes :: "string \<rightharpoonup> nat"
  nu_low :: "string \<rightharpoonup> nat"
  nu_stack :: "string list"
  nu_components :: "string list list"

definition lower :: "string \<Rightarrow> nat \<Rightarrow> numbering \<Rightarrow> numbering" where
  "lower i n s = s\<lparr>nu_low := (nu_low s)(i \<mapsto> min (the (nu_low s i)) n)\<rparr>"

definition enter :: "string \<Rightarrow> numbering \<Rightarrow> numbering" where
  "enter i s =
     s\<lparr>nu_index := Suc (nu_index s), nu_indexes := (nu_indexes s)(i \<mapsto> nu_index s), nu_low := (nu_low s)(i \<mapsto> nu_index s),
       nu_stack := i # nu_stack s\<rparr>"

definition leave :: "string \<Rightarrow> numbering \<Rightarrow> numbering" where
  "leave i s =
     (if nu_low s i = nu_indexes s i
      then s\<lparr>nu_stack := tl (dropWhile (\<lambda>x. x \<noteq> i) (nu_stack s)),
             nu_components := nu_components s @ [takeWhile (\<lambda>x. x \<noteq> i) (nu_stack s) @ [i]]\<rparr>
      else s)"

function strong :: "graph_edge list \<Rightarrow> nat \<Rightarrow> string \<Rightarrow> numbering \<Rightarrow> numbering option"
  and strong_edges :: "graph_edge list \<Rightarrow> nat \<Rightarrow> string \<Rightarrow> string list \<Rightarrow> numbering \<Rightarrow> numbering option" where
  "strong es 0 i s = None"
| "strong es (Suc n) i s =
     (case strong_edges es n i (successors es i) (enter i s) of None \<Rightarrow> None | Some t \<Rightarrow> Some (leave i t))"
| "strong_edges es n i [] s = Some s"
| "strong_edges es n i (x # xs) s =
     (if nu_indexes s x = None
      then (case strong es n x s of None \<Rightarrow> None | Some t \<Rightarrow> strong_edges es n i xs (lower i (the (nu_low t x)) t))
      else if x \<in> set (nu_stack s) then strong_edges es n i xs (lower i (the (nu_indexes s x)) s)
      else strong_edges es n i xs s)"
  by pat_completeness auto
termination
  by (relation "inv_image (less_than <*lex*> less_than)
        (\<lambda>a. case a of Inl (es, n, i, s) \<Rightarrow> (n, 0) | Inr (es, n, i, xs, s) \<Rightarrow> (n, Suc (length xs)))") auto

fun strong_all :: "graph_edge list \<Rightarrow> nat \<Rightarrow> string list \<Rightarrow> numbering \<Rightarrow> numbering option" where
  "strong_all es n [] s = Some s"
| "strong_all es n (i # is) s =
     (if nu_indexes s i = None
      then (case strong es n i s of None \<Rightarrow> None | Some t \<Rightarrow> strong_all es n is t)
      else strong_all es n is s)"

definition unnumbered :: numbering where
  "unnumbered = \<lparr>nu_index = 0, nu_indexes = Map.empty, nu_low = Map.empty, nu_stack = [], nu_components = []\<rparr>"

definition components :: "workflow_node list \<Rightarrow> graph_edge list \<Rightarrow> string list list" where
  "components nodes es =
     (case strong_all es (Suc (length nodes)) (node_ids nodes) unnumbered of None \<Rightarrow> [] | Some s \<Rightarrow> nu_components s)"

definition cyclic_region :: "graph_edge list \<Rightarrow> string list \<Rightarrow> bool" where
  "cyclic_region es c = (1 < length c \<or> hd c \<in> set (successors es (hd c)))"

definition component_issues :: "workflow_node list \<Rightarrow> graph_edge list \<Rightarrow> string list \<Rightarrow> graph_issue list" where
  "component_issues nodes es c =
     (if \<not> cyclic_region es c then []
      else
        issue_if (\<not> list_ex (has_block nodes ''condition'') c) CycleWithoutCondition
        @ issue_if (\<not> list_ex (\<lambda>i. has_block nodes ''condition'' i \<and> list_ex (\<lambda>y. y \<notin> set c) (successors es i)) c) CycleWithoutExit)"

subsection \<open>The validation\<close>

definition terminal_type_ok :: "workflow_node list \<Rightarrow> string \<Rightarrow> bool" where
  "terminal_type_ok nodes i = list_ex (\<lambda>type. has_block nodes type i) [''agent'', ''subworkflow'', ''publish-github-pr'']"

definition reach_issues :: "workflow_node list \<Rightarrow> graph_edge list \<Rightarrow> string list \<Rightarrow> string list \<Rightarrow> graph_issue list" where
  "reach_issues nodes es entries terminals =
     (case terminals of [t] \<Rightarrow> issue_if (\<not> terminal_type_ok nodes t) TerminalType | _ \<Rightarrow> [])
     @ (case entries of [e] \<Rightarrow> issue_if (length (visited es e) \<noteq> length nodes) Unreachable | _ \<Rightarrow> [])
     @ (case terminals of [t] \<Rightarrow> issue_if (length (visited (map flip es) t) \<noteq> length nodes) LeadsNowhere | _ \<Rightarrow> [])"

definition validateGraphTopology :: "workflow_node list \<Rightarrow> workflow_edge list \<Rightarrow> graph_issue list" where
  "validateGraphTopology nodes declared =
     (let (es, edge_issues) = resolve_edges nodes 0 [] declared;
          entries = graph_entries nodes declared es;
          terminals = graph_terminals nodes es
      in edge_issues
         @ issue_if (length entries \<noteq> 1) NotOneEntry @ issue_if (length terminals \<noteq> 1) NotOneTerminal
         @ concat (map (node_issues nodes es) (node_ids nodes))
         @ concat (map (publish_issues nodes es) nodes)
         @ concat (map (context_issues nodes es) nodes)
         @ concat (map (conversation_issues nodes es) (conversation_nodes nodes))
         @ lineage_issues nodes es (map wn_id (conversation_nodes nodes))
         @ reach_issues nodes es entries terminals
         @ concat (map (component_issues nodes es) (components nodes es)))"

fun node_id_issues :: "nat \<Rightarrow> string list \<Rightarrow> workflow_node list \<Rightarrow> graph_issue list" where
  "node_id_issues k seen [] = []"
| "node_id_issues k seen (n # ns) =
     issue_if (wn_id n \<in> set seen) (DuplicateNodeId k)
     @ (case validate_block workflowBlockRegistry (wn_blockType n) (wn_blockVersion n) (wn_config n) of
          Inl e \<Rightarrow> [InvalidBlock k e] | Inr _ \<Rightarrow> [])
     @ node_id_issues (Suc k) (wn_id n # seen) ns"

fun edge_id_issues :: "nat \<Rightarrow> string list \<Rightarrow> workflow_edge list \<Rightarrow> graph_issue list" where
  "edge_id_issues k seen [] = []"
| "edge_id_issues k seen (e # es) = issue_if (we_id e \<in> set seen) (DuplicateEdgeId k) @ edge_id_issues (Suc k) (we_id e # seen) es"

text \<open>The shape of a definition, before the refinements: \<^verbatim>\<open>trim\<close> has been applied to the name and the block types.\<close>

definition opt_ok :: "('a \<Rightarrow> bool) \<Rightarrow> 'a option \<Rightarrow> bool" where
  "opt_ok P v = (case v of None \<Rightarrow> True | Some x \<Rightarrow> P x)"

definition node_shape :: "workflow_node \<Rightarrow> bool" where
  "node_shape n =
     (block_id_ok (wn_id n) \<and> 1 \<le> length (wn_blockType n) \<and> length (wn_blockType n) \<le> 80 \<and> js_trim (wn_blockType n) = wn_blockType n
      \<and> 0 < wn_blockVersion n)"

definition edge_shape :: "workflow_edge \<Rightarrow> bool" where
  "edge_shape e =
     (block_id_ok (we_id e) \<and> block_id_ok (we_source e) \<and> block_id_ok (we_target e)
      \<and> opt_ok block_id_ok (we_sourcePort e) \<and> opt_ok block_id_ok (we_targetPort e))"

definition workflow_shape :: "workflow_definition \<Rightarrow> bool" where
  "workflow_shape w =
     (block_id_ok (wd_id w) \<and> 1 \<le> length (wd_name w) \<and> length (wd_name w) \<le> 120 \<and> js_trim (wd_name w) = wd_name w
      \<and> length (wd_description w) \<le> 2000 \<and> opt_ok (\<lambda>t. length t \<le> WORKFLOW_RUN_INPUT_MAX_LENGTH) (wd_runInputTemplate w)
      \<and> wd_nodes w \<noteq> [] \<and> length (wd_nodes w) \<le> MAX_WORKFLOW_STEPS \<and> list_all node_shape (wd_nodes w)
      \<and> length (wd_edges w) \<le> MAX_STEP_EXECUTIONS \<and> list_all edge_shape (wd_edges w)
      \<and> 1 \<le> wd_maxStepExecutions w \<and> wd_maxStepExecutions w \<le> int MAX_STEP_EXECUTIONS)"

definition workflow_issues :: "workflow_definition \<Rightarrow> graph_issue list" where
  "workflow_issues w =
     node_id_issues 0 [] (wd_nodes w) @ edge_id_issues 0 [] (wd_edges w) @ validateGraphTopology (wd_nodes w) (wd_edges w)"

definition workflowDefinitionV2Schema :: "workflow_definition \<Rightarrow> bool" where
  "workflowDefinitionV2Schema w = (workflow_shape w \<and> workflow_issues w = [])"

end
