(* ===== verification/Workflow_Components.thy ===== *)
theory Workflow_Components
  imports Workflow_Graph
begin

text \<open>
  The numbering of \<^verbatim>\<open>validateGraphTopology\<close> finds the strongly connected components of the graph: the search returns, every node is in one
  component, and two nodes share one exactly when each can be reached from the other.
\<close>

definition links :: "graph_edge list \<Rightarrow> (string \<times> string) set" where
  "links es = {(x, y). y \<in> set (successors es x)}"

lemma links_iff: "(x, y) \<in> links es \<longleftrightarrow> y \<in> set (successors es x)"
  by (simp add: links_def)

section \<open>Invariants\<close>

definition idx :: "numbering \<Rightarrow> string \<Rightarrow> nat" where
  "idx s x = the (nu_indexes s x)"

definition low :: "numbering \<Rightarrow> string \<Rightarrow> nat" where
  "low s x = the (nu_low s x)"

definition emitted :: "numbering \<Rightarrow> string set" where
  "emitted s = set (concat (nu_components s))"

text \<open>The links of a component lead to that component or an earlier one.\<close>

definition closed_components :: "graph_edge list \<Rightarrow> string list list \<Rightarrow> bool" where
  "closed_components es cs \<longleftrightarrow>
     (\<forall>i < length cs. \<forall>x \<in> set (cs ! i). \<forall>y. (x, y) \<in> links es \<longrightarrow> (\<exists>j \<le> i. y \<in> set (cs ! j)))"

definition connected :: "graph_edge list \<Rightarrow> string list \<Rightarrow> bool" where
  "connected es c \<longleftrightarrow> (\<forall>x \<in> set c. \<forall>y \<in> set c. (x, y) \<in> (links es)\<^sup>*)"

definition numbered :: "graph_edge list \<Rightarrow> numbering \<Rightarrow> bool" where
  "numbered es s \<longleftrightarrow>
     distinct (concat (nu_components s) @ nu_stack s) \<and> dom (nu_indexes s) = emitted s \<union> set (nu_stack s)
     \<and> sorted_wrt (\<lambda>a b. idx s b < idx s a) (nu_stack s) \<and> (\<forall>x \<in> dom (nu_indexes s). idx s x < nu_index s)
     \<and> closed_components es (nu_components s) \<and> list_all (connected es) (nu_components s) \<and> [] \<notin> set (nu_components s)"

lemma numberedD:
  assumes "numbered es s"
  shows "distinct (concat (nu_components s) @ nu_stack s)" "dom (nu_indexes s) = emitted s \<union> set (nu_stack s)"
    "sorted_wrt (\<lambda>a b. idx s b < idx s a) (nu_stack s)" "\<And>x. x \<in> dom (nu_indexes s) \<Longrightarrow> idx s x < nu_index s"
    "closed_components es (nu_components s)" "list_all (connected es) (nu_components s)" "[] \<notin> set (nu_components s)"
  using assms by (auto simp: numbered_def)

lemma numberedI:
  assumes "distinct (concat (nu_components s) @ nu_stack s)" "dom (nu_indexes s) = emitted s \<union> set (nu_stack s)"
    "sorted_wrt (\<lambda>a b. idx s b < idx s a) (nu_stack s)" "\<And>x. x \<in> dom (nu_indexes s) \<Longrightarrow> idx s x < nu_index s"
    "closed_components es (nu_components s)" "list_all (connected es) (nu_components s)" "[] \<notin> set (nu_components s)"
  shows "numbered es s"
  using assms by (simp add: numbered_def)

text \<open>A link of a node that is done leads to a component or to a node of the stack that is not below \<open>b\<close>.\<close>

definition settled :: "numbering \<Rightarrow> nat \<Rightarrow> string \<Rightarrow> bool" where
  "settled s b y \<longleftrightarrow> y \<in> emitted s \<or> (y \<in> set (nu_stack s) \<and> b \<le> idx s y)"

text \<open>What a call leaves as it was.\<close>

definition extends_numbering :: "numbering \<Rightarrow> numbering \<Rightarrow> bool" where
  "extends_numbering s t \<longleftrightarrow>
     nu_indexes s \<subseteq>\<^sub>m nu_indexes t \<and> nu_index s \<le> nu_index t \<and> emitted s \<subseteq> emitted t
     \<and> (\<forall>x \<in> dom (nu_indexes s). nu_low t x = nu_low s x)"

lemma numbering_refl: "extends_numbering s s"
  by (simp add: extends_numbering_def)

lemma numbering_trans: "extends_numbering s t \<Longrightarrow> extends_numbering t u \<Longrightarrow> extends_numbering s u"
  unfolding extends_numbering_def by (fastforce simp: map_le_def dom_def)

lemma extends_idx: "extends_numbering s t \<Longrightarrow> x \<in> dom (nu_indexes s) \<Longrightarrow> nu_indexes t x = nu_indexes s x \<and> idx t x = idx s x"
  by (auto simp: extends_numbering_def map_le_def idx_def)

text \<open>What a call of \<^verbatim>\<open>strong\<close> has done when it returns: its component is complete, or what is left of it is on the stack above.\<close>

definition complete :: "numbering \<Rightarrow> string \<Rightarrow> numbering \<Rightarrow> bool" where
  "complete s i t \<longleftrightarrow> nu_stack t = nu_stack s \<and> i \<in> emitted t \<and> nu_index s \<le> low t i"

definition pending :: "graph_edge list \<Rightarrow> numbering \<Rightarrow> string \<Rightarrow> numbering \<Rightarrow> bool" where
  "pending es s i t \<longleftrightarrow>
     (\<exists>S. nu_stack t = S @ nu_stack s \<and> i \<in> set S
        \<and> (\<forall>x \<in> set S. (x, i) \<in> (links es)\<^sup>* \<and> (i, x) \<in> (links es)\<^sup>* \<and> (\<forall>y. (x, y) \<in> links es \<longrightarrow> settled t (low t i) y)))
     \<and> low t i < idx t i \<and> (\<exists>w \<in> set (nu_stack s). idx t w = low t i \<and> (i, w) \<in> (links es)\<^sup>*)"

definition returned :: "graph_edge list \<Rightarrow> numbering \<Rightarrow> string \<Rightarrow> numbering \<Rightarrow> bool" where
  "returned es s i t \<longleftrightarrow> numbered es t \<and> extends_numbering s t \<and> i \<in> dom (nu_indexes t) \<and> (complete s i t \<or> pending es s i t)"

text \<open>The loop over the links of a node: \<open>K\<close> is the stack below it, \<open>done\<close> are the links it has followed.\<close>

definition looping :: "graph_edge list \<Rightarrow> string \<Rightarrow> string list \<Rightarrow> string set \<Rightarrow> numbering \<Rightarrow> bool" where
  "looping es i K followed s \<longleftrightarrow>
     numbered es s \<and> (\<exists>S. nu_stack s = S @ i # K
        \<and> (\<forall>x \<in> set S. (x, i) \<in> (links es)\<^sup>* \<and> (i, x) \<in> (links es)\<^sup>* \<and> (\<forall>y. (x, y) \<in> links es \<longrightarrow> settled s (low s i) y)))
     \<and> (\<forall>y \<in> set K. (y, i) \<in> (links es)\<^sup>*) \<and> (\<forall>y \<in> followed. settled s (low s i) y) \<and> low s i \<le> idx s i
     \<and> (\<exists>w \<in> set (nu_stack s). idx s w = low s i \<and> (i, w) \<in> (links es)\<^sup>*) \<and> nu_low s i \<noteq> None"

section \<open>Single steps\<close>

lemma closed_snoc:
  assumes "closed_components es cs" and "\<And>x y. x \<in> set c \<Longrightarrow> (x, y) \<in> links es \<Longrightarrow> y \<in> set (concat cs) \<union> set c"
  shows "closed_components es (cs @ [c])"
  unfolding closed_components_def
proof (intro allI impI ballI)
  fix j x y assume j: "j < length (cs @ [c])" and x: "x \<in> set ((cs @ [c]) ! j)" and l: "(x, y) \<in> links es"
  show "\<exists>k \<le> j. y \<in> set ((cs @ [c]) ! k)"
  proof (cases "j < length cs")
    case True
    then have "x \<in> set (cs ! j)" using x by (simp add: nth_append)
    then obtain k where "k \<le> j" "y \<in> set (cs ! k)" using assms(1) True l unfolding closed_components_def by blast
    then show ?thesis using True by (intro exI [of _ k]) (simp add: nth_append)
  next
    case False
    then have j: "j = length cs" using j by simp
    then consider "y \<in> set c" | "y \<in> set (concat cs)" using assms(2) [of x y] x l by (auto simp: nth_append)
    then show ?thesis
    proof cases
      case 2
      then obtain k where "k < length cs" "y \<in> set (cs ! k)" by (auto simp: in_set_conv_nth) metis
      then show ?thesis using j by (intro exI [of _ k]) (simp add: nth_append)
    qed (use j in \<open>auto intro!: exI [of _ j]\<close>)
  qed
qed

lemma lower_simps [simp]:
  "nu_index (lower i n s) = nu_index s" "nu_indexes (lower i n s) = nu_indexes s" "nu_stack (lower i n s) = nu_stack s"
  "nu_components (lower i n s) = nu_components s" "idx (lower i n s) = idx s" "emitted (lower i n s) = emitted s"
  "low (lower i n s) i = min (low s i) n"
  by (simp_all add: lower_def idx_def low_def emitted_def fun_eq_iff)

lemma lower_numbered [simp]: "numbered es (lower i n s) = numbered es s"
  by (simp add: numbered_def)

lemma settled_lower [simp]: "settled (lower i n s) b y = settled s b y"
  by (simp add: settled_def)

lemma settled_mono: "settled s b y \<Longrightarrow> c \<le> b \<Longrightarrow> settled s c y"
  by (auto simp: settled_def)

lemma settled_extends:
  assumes "settled s b y" and "extends_numbering s t" and "numbered es s" and "set (nu_stack s) \<subseteq> set (nu_stack t)"
  shows "settled t b y"
  using assms extends_idx [OF assms(2), of y] numberedD(2) [OF assms(3)] by (auto simp: settled_def extends_numbering_def)

lemma enter_simps [simp]:
  "nu_index (enter i s) = Suc (nu_index s)" "nu_indexes (enter i s) = (nu_indexes s)(i \<mapsto> nu_index s)" "nu_stack (enter i s) = i # nu_stack s"
  "nu_components (enter i s) = nu_components s" "emitted (enter i s) = emitted s"
  "idx (enter i s) x = (if x = i then nu_index s else idx s x)" "low (enter i s) i = nu_index s" "nu_low (enter i s) i = Some (nu_index s)"
  by (simp_all add: enter_def idx_def low_def emitted_def)

lemma enter_numbered:
  assumes "numbered es s" and "nu_indexes s i = None"
  shows "numbered es (enter i s)"
proof -
  note D = numberedD [OF assms(1)]
  have new: "i \<notin> emitted s" "i \<notin> set (nu_stack s)" using D(2) assms(2) by auto
  have fresh: "idx s x < nu_index s" if "x \<in> set (nu_stack s)" for x using D(2,4) that by blast
  have "sorted_wrt (\<lambda>a b. idx (enter i s) b < idx (enter i s) a) (nu_stack s)"
    by (rule sorted_wrt_mono_rel [OF _ D(3)]) (use new(2) in auto)
  then have "sorted_wrt (\<lambda>a b. idx (enter i s) b < idx (enter i s) a) (nu_stack (enter i s))" using fresh new(2) by auto
  moreover have "distinct (concat (nu_components s) @ i # nu_stack s)" using D(1) new by (auto simp: emitted_def)
  moreover have "idx (enter i s) x < Suc (nu_index s)" if "x = i \<or> x \<in> dom (nu_indexes s)" for x using that D(4) by (auto simp: less_Suc_eq)
  ultimately show ?thesis using D(2,5,6,7) by (intro numberedI) (simp_all add: insert_commute)
qed

lemma enter_looping:
  assumes "numbered es s" and "nu_indexes s i = None" and "\<And>y. y \<in> set (nu_stack s) \<Longrightarrow> (y, i) \<in> (links es)\<^sup>*"
  shows "looping es i (nu_stack s) {} (enter i s)"
  using assms enter_numbered [OF assms(1,2)]
  by (auto simp: looping_def)

lemma enter_extends: "nu_indexes s i = None \<Longrightarrow> extends_numbering s (enter i s)"
  by (auto simp: extends_numbering_def enter_def emitted_def map_le_def)

lemma lower_extends: "nu_indexes s i = None \<Longrightarrow> extends_numbering s t \<Longrightarrow> extends_numbering s (lower i n t)"
  by (auto simp: extends_numbering_def lower_def emitted_def)

text \<open>The end of a call.\<close>

lemma leave_returned:
  assumes loop: "looping es i (nu_stack s) (set (successors es i)) t" and ext: "extends_numbering s t" and new: "nu_indexes s i = None"
    and at: "nu_indexes t i = Some (nu_index s)"
  shows "returned es s i (leave i t)"
proof -
  obtain S where S: "nu_stack t = S @ i # nu_stack s"
      "\<forall>x \<in> set S. (x, i) \<in> (links es)\<^sup>* \<and> (i, x) \<in> (links es)\<^sup>* \<and> (\<forall>y. (x, y) \<in> links es \<longrightarrow> settled t (low t i) y)"
    using loop by (auto simp: looping_def)
  have num: "numbered es t" and own: "\<And>y. (i, y) \<in> links es \<Longrightarrow> settled t (low t i) y" and le: "low t i \<le> idx t i"
    using loop by (auto simp: looping_def links_iff)
  obtain w where w: "w \<in> set (nu_stack t)" "idx t w = low t i" "(i, w) \<in> (links es)\<^sup>*" using loop by (auto simp: looping_def)
  have some: "nu_low t i = Some (low t i)" "nu_indexes t i = Some (idx t i)" using loop at by (auto simp: looping_def low_def idx_def)
  note D = numberedD [OF num]
  have order: "idx t x > idx t i" if "x \<in> set S" for x using D(3) that by (auto simp: S(1) sorted_wrt_append)
  have below: "idx t x < idx t i" if "x \<in> set (nu_stack s)" for x using D(3) that by (auto simp: S(1) sorted_wrt_append)
  show ?thesis
  proof (cases "low t i = idx t i")
    case False
    then have stay: "leave i t = t" by (simp add: leave_def some)
    have "w \<in> set (nu_stack s)" using w order le False by (auto simp: S(1)) (metis leD order_less_imp_le)
    moreover have "nu_stack t = (S @ [i]) @ nu_stack s" by (simp add: S(1))
    ultimately have "pending es s i t"
      unfolding pending_def using S(2) own w le False by (intro conjI exI [of _ "S @ [i]"] bexI [of _ w]) auto
    then show ?thesis using num ext at by (auto simp: returned_def stay)
  next
    case True
    let ?c = "S @ [i]"
    have notin: "i \<notin> set S" using D(1) by (auto simp: S(1))
    then have u: "leave i t = t\<lparr>nu_stack := nu_stack s, nu_components := nu_components t @ [?c]\<rparr>"
      using True by (auto simp: leave_def some S(1) dropWhile_append1 takeWhile_append)
    let ?u = "leave i t"
    have em: "emitted ?u = emitted t \<union> set ?c" by (auto simp: u emitted_def)
    have ix: "idx ?u = idx t" by (simp add: u idx_def fun_eq_iff)
    have target: "y \<in> emitted t \<union> set ?c" if "x \<in> set ?c" "(x, y) \<in> links es" for x y
    proof -
      have "settled t (low t i) y" using that S(2) own by auto
      then show ?thesis using below [of y] by (auto simp: settled_def S(1) True)
    qed
    have "closed_components es (nu_components ?u)"
      using closed_snoc [OF D(5), of ?c] target by (simp add: u emitted_def)
    moreover have "connected es ?c" using S(2) by (auto simp: connected_def intro: rtrancl_trans)
    moreover have "distinct (concat (nu_components t @ [?c]) @ nu_stack s)" using D(1) by (auto simp: S(1))
    moreover have "dom (nu_indexes ?u) = emitted ?u \<union> set (nu_stack ?u)" using D(2) by (auto simp: em) (auto simp: u S(1))
    moreover have "sorted_wrt (\<lambda>a b. idx ?u b < idx ?u a) (nu_stack ?u)" unfolding ix using D(3) by (simp add: u S(1) sorted_wrt_append)
    moreover have "idx ?u x < nu_index ?u" if "x \<in> dom (nu_indexes ?u)" for x unfolding ix using D(4) that by (simp add: u)
    ultimately have "numbered es ?u" using D(6,7) by (intro numberedI) (simp_all add: u)
    moreover have "extends_numbering s ?u" using ext em by (auto simp: extends_numbering_def u)
    moreover have "low ?u i = nu_index s" using True at by (simp add: u low_def idx_def)
    then have "complete s i ?u" unfolding complete_def em by (simp add: u)
    ultimately show ?thesis using at by (auto simp: returned_def u)
  qed
qed

text \<open>The three cases of the loop over the links.\<close>

lemma looping_reach:
  assumes "looping es i K F s" and "y \<in> set (nu_stack s)"
  shows "(y, i) \<in> (links es)\<^sup>*"
  using assms by (auto simp: looping_def)

lemma looping_in:
  assumes "looping es i K F s"
  shows "i \<in> dom (nu_indexes s) \<and> i \<in> set (nu_stack s)"
proof -
  have "numbered es s" "i \<in> set (nu_stack s)" using assms by (auto simp: looping_def)
  then show ?thesis using numberedD(2) [of es s] by blast
qed

lemma followed_stack:
  assumes "looping es i K F s" and "x \<in> set (nu_stack s)" and "(i, x) \<in> links es"
  shows "looping es i K (insert x F) (lower i (idx s x) s)"
proof -
  let ?u = "lower i (idx s x) s"
  have low: "low ?u i \<le> low s i" "low ?u i \<le> idx s x" by simp_all
  obtain w where w: "w \<in> set (nu_stack s)" "idx s w = low s i" "(i, w) \<in> (links es)\<^sup>*" using assms(1) by (auto simp: looping_def)
  have "\<exists>w \<in> set (nu_stack s). idx s w = min (low s i) (idx s x) \<and> (i, w) \<in> (links es)\<^sup>*"
    using w assms(2,3) by (cases "low s i \<le> idx s x") (auto simp: min_def)
  moreover have "settled s (low s i) y \<Longrightarrow> settled s (min (low s i) (idx s x)) y" for y by (erule settled_mono) simp
  moreover have "settled s (min (low s i) (idx s x)) x" using assms(2) by (simp add: settled_def)
  moreover have "nu_low ?u i \<noteq> None" by (simp add: lower_def)
  ultimately show ?thesis using assms(1) unfolding looping_def by (auto simp: min.coboundedI1)
qed

lemma followed_done:
  assumes "looping es i K F s" and "nu_indexes s x \<noteq> None" and "x \<notin> set (nu_stack s)"
  shows "looping es i K (insert x F) s"
proof -
  have "x \<in> emitted s" using assms numberedD(2) [of es s] by (auto simp: looping_def dom_def)
  then show ?thesis using assms(1) by (auto simp: looping_def settled_def)
qed

lemma followed_complete:
  assumes loop: "looping es i K F s" and ret: "returned es s x t" and all: "complete s x t"
  shows "looping es i K (insert x F) (lower i (low t x) t)"
proof -
  have num: "numbered es s" "numbered es t" and ext: "extends_numbering s t" using loop ret by (auto simp: looping_def returned_def)
  have st: "nu_stack t = nu_stack s" and x: "x \<in> emitted t" and ge: "nu_index s \<le> low t x" using all by (auto simp: complete_def)
  note i = looping_in [OF loop]
  have same: "low t i = low s i" "idx t i = idx s i" "nu_low t i = nu_low s i"
    using ext i extends_idx [OF ext] by (auto simp: extends_numbering_def low_def)
  have "low s i \<le> idx s i" "idx s i < nu_index s" using loop i numberedD(4) [OF num(1)] by (auto simp: looping_def)
  then have low: "min (low t i) (low t x) = low s i" using ge same by simp
  have sett: "settled s b y \<Longrightarrow> settled t b y" for b y using settled_extends [OF _ ext num(1)] st by auto
  have idx: "idx t w = idx s w" if "w \<in> set (nu_stack s)" for w using extends_idx [OF ext] that numberedD(2) [OF num(1)] by blast
  have "settled t b x" for b using x by (simp add: settled_def)
  moreover have "nu_low (lower i n t) i \<noteq> None" for n by (simp add: lower_def)
  ultimately show ?thesis using loop sett idx num(2) same low st unfolding looping_def by (auto simp: low)
qed

lemma followed_pending:
  assumes loop: "looping es i K F s" and ret: "returned es s x t" and part: "pending es s x t" and link: "(i, x) \<in> links es"
  shows "looping es i K (insert x F) (lower i (low t x) t)"
proof -
  have num: "numbered es s" "numbered es t" and ext: "extends_numbering s t" using loop ret by (auto simp: looping_def returned_def)
  obtain T where T: "nu_stack t = T @ nu_stack s" "x \<in> set T"
    "\<And>y. y \<in> set T \<Longrightarrow> (y, x) \<in> (links es)\<^sup>* \<and> (x, y) \<in> (links es)\<^sup>* \<and> (\<forall>z. (y, z) \<in> links es \<longrightarrow> settled t (low t x) z)"
    using part by (auto simp: pending_def)
  obtain v where v: "v \<in> set (nu_stack s)" "idx t v = low t x" "(x, v) \<in> (links es)\<^sup>*" and lt: "low t x < idx t x"
    using part by (auto simp: pending_def)
  obtain S where S: "nu_stack s = S @ i # K"
    "\<And>y. y \<in> set S \<Longrightarrow> (y, i) \<in> (links es)\<^sup>* \<and> (i, y) \<in> (links es)\<^sup>* \<and> (\<forall>z. (y, z) \<in> links es \<longrightarrow> settled s (low s i) z)"
    using loop by (auto simp: looping_def)
  obtain w where w: "w \<in> set (nu_stack s)" "idx s w = low s i" "(i, w) \<in> (links es)\<^sup>*" using loop by (auto simp: looping_def)
  note i = looping_in [OF loop]
  have same: "low t i = low s i" "idx t i = idx s i"
    using ext i extends_idx [OF ext] by (auto simp: extends_numbering_def low_def)
  have idx: "idx t y = idx s y" if "y \<in> set (nu_stack s)" for y using extends_idx [OF ext] that numberedD(2) [OF num(1)] by blast
  let ?m = "min (low t i) (low t x)"
  have sett: "settled t ?m y" if "settled s (low s i) y" for y
    using settled_mono [OF settled_extends [OF that ext num(1)]] T(1) same by simp
  have sett': "settled t ?m y" if "settled t (low t x) y" for y using settled_mono [OF that] by simp
  have "(y, i) \<in> (links es)\<^sup>* \<and> (i, y) \<in> (links es)\<^sup>*" if "y \<in> set T" for y
    using T(3) [OF that] v looping_reach [OF loop v(1)] link by (meson converse_rtrancl_into_rtrancl rtrancl_trans)
  then have upper: "\<forall>y \<in> set (T @ S). (y, i) \<in> (links es)\<^sup>* \<and> (i, y) \<in> (links es)\<^sup>* \<and> (\<forall>z. (y, z) \<in> links es \<longrightarrow> settled t ?m z)"
    using S(2) T(3) sett sett' by auto
  have "\<exists>u \<in> set (nu_stack t). idx t u = ?m \<and> (i, u) \<in> (links es)\<^sup>*"
  proof (cases "low t i \<le> low t x")
    case True
    then show ?thesis using w idx same T(1) by (intro bexI [of _ w]) auto
  next
    case False
    moreover have "(i, v) \<in> (links es)\<^sup>*" using v(3) link by (rule converse_rtrancl_into_rtrancl [rotated])
    ultimately show ?thesis using v T(1) by (intro bexI [of _ v]) auto
  qed
  moreover have "settled t ?m x" using T(1,2) lt by (auto simp: settled_def)
  moreover have "nu_low (lower i n t) i \<noteq> None" for n by (simp add: lower_def)
  moreover have "?m \<le> idx t i" using loop same by (simp add: looping_def min.coboundedI1)
  moreover have "nu_stack t = (T @ S) @ i # K" using T(1) S(1) by simp
  ultimately show ?thesis
    unfolding looping_def using num(2) upper loop sett by (auto simp: looping_def)
qed

section \<open>The whole search\<close>

lemma strong_correct:
  "strong es n i s = Some t \<Longrightarrow> numbered es s \<Longrightarrow> nu_indexes s i = None \<Longrightarrow> (\<And>y. y \<in> set (nu_stack s) \<Longrightarrow> (y, i) \<in> (links es)\<^sup>*) \<Longrightarrow>
     returned es s i t"
  "strong_edges es n i xs s = Some t \<Longrightarrow> looping es i K F s \<Longrightarrow> set xs \<subseteq> set (successors es i) \<Longrightarrow> extends_numbering r s \<Longrightarrow>
     nu_indexes r i = None \<Longrightarrow>
     looping es i K (F \<union> set xs) t \<and> extends_numbering r t \<and> nu_indexes t i = nu_indexes s i"
proof (induction es n i s and es n i xs s arbitrary: t and t F K r rule: strong_strong_edges.induct)
  case (2 es n i s)
  obtain u where u: "strong_edges es n i (successors es i) (enter i s) = Some u" "t = leave i u"
    using 2(2) by (auto split: option.split_asm)
  have loop: "looping es i (nu_stack s) {} (enter i s)" using enter_looping 2(3-5) by blast
  then have "looping es i (nu_stack s) (set (successors es i)) u \<and> extends_numbering s u \<and> nu_indexes u i = nu_indexes (enter i s) i"
    using 2(1) [OF u(1) loop subset_refl enter_extends [OF 2(4)] 2(4)] by simp
  then show ?case using leave_returned 2(4) by (simp add: u(2))
next
  case (4 es n i x xs s)
  have link: "(i, x) \<in> links es" and rest: "set xs \<subseteq> set (successors es i)" using 4(7) by (auto simp: links_iff)
  consider (new) u where "nu_indexes s x = None" "strong es n x s = Some u" "strong_edges es n i xs (lower i (the (nu_low u x)) u) = Some t"
    | (stack) "nu_indexes s x \<noteq> None" "x \<in> set (nu_stack s)" "strong_edges es n i xs (lower i (the (nu_indexes s x)) s) = Some t"
    | (passed) "nu_indexes s x \<noteq> None" "x \<notin> set (nu_stack s)" "strong_edges es n i xs s = Some t"
    using 4(5) by (auto split: if_split_asm option.split_asm)
  then show ?case
  proof cases
    case new
    have "(y, x) \<in> (links es)\<^sup>*" if "y \<in> set (nu_stack s)" for y using looping_reach [OF 4(6) that] link by (rule rtrancl_into_rtrancl)
    then have ret: "returned es s x u" using 4(1) [OF new(1,2)] 4(6) new(1) by (auto simp: looping_def)
    then have loop: "looping es i K (insert x F) (lower i (the (nu_low u x)) u)" unfolding low_def [symmetric]
      using followed_complete [OF 4(6) ret] followed_pending [OF 4(6) ret _ link] by (auto simp: returned_def)
    have ext: "extends_numbering s u" using ret by (simp add: returned_def)
    then have "extends_numbering r (lower i (the (nu_low u x)) u)" using 4(8,9) by (blast intro: lower_extends numbering_trans)
    then have "looping es i K (insert x F \<union> set xs) t \<and> extends_numbering r t \<and> nu_indexes t i = nu_indexes u i"
      using 4(2) [OF new(1,2) new(3) loop rest _ 4(9)] by simp
    then show ?thesis using extends_idx [OF ext, of i] looping_in [OF 4(6)] by simp
  next
    case stack
    then show ?thesis
      using 4(3) [OF stack followed_stack [OF 4(6) stack(2) link, unfolded idx_def] rest lower_extends [OF 4(9,8)] 4(9)] by simp
  next
    case passed
    then show ?thesis using 4(4) [OF passed followed_done [OF 4(6) passed(1,2)] rest 4(8,9)] by simp
  qed
qed simp_all

text \<open>The search returns: the depth is bounded by the number of nodes without a number.\<close>

lemma leave_indexes [simp]: "nu_indexes (leave i s) = nu_indexes s"
  by (simp add: leave_def)

lemma strong_returns:
  assumes "finite U" and "\<And>x. x \<in> U \<Longrightarrow> set (successors es x) \<subseteq> U"
  shows "i \<in> U \<Longrightarrow> nu_indexes s i = None \<Longrightarrow> dom (nu_indexes s) \<subseteq> U \<Longrightarrow> card (U - dom (nu_indexes s)) \<le> n \<Longrightarrow>
      \<exists>t. strong es n i s = Some t \<and> dom (nu_indexes s) \<subseteq> dom (nu_indexes t) \<and> dom (nu_indexes t) \<subseteq> U"
    and "set xs \<subseteq> U \<Longrightarrow> dom (nu_indexes s) \<subseteq> U \<Longrightarrow> card (U - dom (nu_indexes s)) \<le> n \<Longrightarrow>
      \<exists>t. strong_edges es n i xs s = Some t \<and> dom (nu_indexes s) \<subseteq> dom (nu_indexes t) \<and> dom (nu_indexes t) \<subseteq> U"
  using assms
proof (induction es n i s and es n i xs s rule: strong_strong_edges.induct)
  case (1 es i s)
  then have "i \<in> U - dom (nu_indexes s)" "finite (U - dom (nu_indexes s))" by auto
  then show ?case using 1(4) by (auto simp: card_gt_0_iff)
next
  case (2 es n i s)
  have "U - dom (nu_indexes (enter i s)) = (U - dom (nu_indexes s)) - {i}" by auto
  moreover have "i \<in> U - dom (nu_indexes s)" using 2(2,3) by auto
  ultimately have "card (U - dom (nu_indexes (enter i s))) \<le> n" using 2(5,6) by (simp add: card_Diff_singleton)
  moreover have "dom (nu_indexes (enter i s)) \<subseteq> U" using 2(2,4) by simp
  ultimately obtain t where "strong_edges es n i (successors es i) (enter i s) = Some t" "dom (nu_indexes (enter i s)) \<subseteq> dom (nu_indexes t)"
    "dom (nu_indexes t) \<subseteq> U" using 2(1) [OF 2(7) [OF 2(2)]] 2(6,7) by blast
  then show ?case by auto
next
  case (4 es n i x xs s)
  have xs: "set xs \<subseteq> U" using 4(5) by simp
  show ?case
  proof (cases "nu_indexes s x")
    case None
    then obtain t where t: "strong es n x s = Some t" "dom (nu_indexes s) \<subseteq> dom (nu_indexes t)" "dom (nu_indexes t) \<subseteq> U"
      using 4(1) [OF None] 4(5-) by auto
    have "card (U - dom (nu_indexes t)) \<le> card (U - dom (nu_indexes s))" using t(2) 4(8) by (intro card_mono) auto
    then show ?thesis using 4(2) [OF None t(1) xs] t None 4(7-) by fastforce
  next
    case (Some k)
    then have ne: "nu_indexes s x \<noteq> None" by simp
    show ?thesis
    proof (cases "x \<in> set (nu_stack s)")
      case True
      from 4(3) [OF ne True xs _ _ 4(8) 4(9)] 4(6,7) True Some show ?thesis by simp
    next
      case False
      from 4(4) [OF ne False xs 4(6,7,8) 4(9)] False Some show ?thesis by simp
    qed
  qed
qed auto

lemma strong_all_correct:
  assumes "finite U" and "\<And>x. x \<in> U \<Longrightarrow> set (successors es x) \<subseteq> U" and "card U \<le> n"
  shows "set is \<subseteq> U \<Longrightarrow> dom (nu_indexes s) \<subseteq> U \<Longrightarrow> numbered es s \<Longrightarrow> nu_stack s = [] \<Longrightarrow>
     \<exists>t. strong_all es n is s = Some t \<and> numbered es t \<and> nu_stack t = [] \<and> set is \<union> dom (nu_indexes s) \<subseteq> dom (nu_indexes t) \<and> dom (nu_indexes t) \<subseteq> U"
proof (induction "is" arbitrary: s)
  case (Cons i "is")
  show ?case
  proof (cases "nu_indexes s i")
    case None
    have "card (U - dom (nu_indexes s)) \<le> n" using assms(1,3) card_mono [OF assms(1), of "U - dom (nu_indexes s)"] by auto
    moreover have "i \<in> U" using Cons.prems(1) by simp
    ultimately obtain t where t: "strong es n i s = Some t" "dom (nu_indexes s) \<subseteq> dom (nu_indexes t)" "dom (nu_indexes t) \<subseteq> U"
      using strong_returns(1) [OF assms(1,2) _ None Cons.prems(2)] by blast
    then have "returned es s i t" using strong_correct(1) [OF t(1) Cons.prems(3) None] Cons.prems(4) by simp
    then have num: "numbered es t" "nu_stack t = []" and i: "i \<in> dom (nu_indexes t)"
      using Cons.prems(4) by (auto simp: returned_def complete_def pending_def)
    have "set is \<subseteq> U" using Cons.prems(1) by simp
    from Cons.IH [OF this t(3) num] obtain u where u: "strong_all es n is t = Some u" "numbered es u" "nu_stack u = []"
      "set is \<union> dom (nu_indexes t) \<subseteq> dom (nu_indexes u)" "dom (nu_indexes u) \<subseteq> U" by blast
    moreover have "set (i # is) \<union> dom (nu_indexes s) \<subseteq> dom (nu_indexes u)" using u(4) i t(2) unfolding list.set by blast
    ultimately show ?thesis using None t(1) by (intro exI [of _ u]) simp
  next
    case (Some k)
    then have i: "i \<in> dom (nu_indexes s)" by auto
    have "set is \<subseteq> U" using Cons.prems(1) by simp
    from Cons.IH [OF this Cons.prems(2-4)] obtain u where u: "strong_all es n is s = Some u" "numbered es u" "nu_stack u = []"
      "set is \<union> dom (nu_indexes s) \<subseteq> dom (nu_indexes u)" "dom (nu_indexes u) \<subseteq> U" by blast
    moreover have "set (i # is) \<union> dom (nu_indexes s) \<subseteq> dom (nu_indexes u)" using u(4) i unfolding list.set by blast
    ultimately show ?thesis using Some by (intro exI [of _ u]) simp
  qed
qed simp

lemma unnumbered_numbered: "numbered es unnumbered"
  by (simp add: numbered_def unnumbered_def emitted_def closed_components_def)

lemma closed_reach:
  assumes "closed_components es cs" and "(x, y) \<in> (links es)\<^sup>*" and "i < length cs" and "x \<in> set (cs ! i)"
  shows "\<exists>j \<le> i. y \<in> set (cs ! j)"
  using assms(2)
proof (induction rule: rtrancl_induct)
  case (step y z)
  then obtain j where "j \<le> i" "y \<in> set (cs ! j)" by blast
  then obtain k where "k \<le> j" "z \<in> set (cs ! k)" using assms(1,3) step(2) unfolding closed_components_def by (meson le_less_trans)
  then show ?case using \<open>j \<le> i\<close> le_trans by blast
qed (use assms(4) in blast)

lemma distinct_concat_index:
  "distinct (concat cs) \<Longrightarrow> i < length cs \<Longrightarrow> k < length cs \<Longrightarrow> x \<in> set (cs ! i) \<Longrightarrow> x \<in> set (cs ! k) \<Longrightarrow> i = k"
proof (induction cs arbitrary: i k)
  case (Cons c cs)
  show ?case
  proof (cases i; cases k)
    fix a b assume "i = Suc a" "k = Suc b"
    then show ?thesis using Cons by simp
  qed (use Cons.prems in \<open>auto dest: nth_mem\<close>)
qed simp

lemma components_exact:
  assumes "ge_target ` set es \<subseteq> wn_id ` set nodes"
  shows "set (concat (components nodes es)) = wn_id ` set nodes" (is ?all)
    and "[] \<notin> set (components nodes es)" (is ?ne)
    and "c \<in> set (components nodes es) \<Longrightarrow> x \<in> set c \<Longrightarrow> y \<in> set c \<longleftrightarrow> (x, y) \<in> (links es)\<^sup>* \<and> (y, x) \<in> (links es)\<^sup>*"
proof -
  let ?U = "wn_id ` set nodes"
  have ids: "set (node_ids nodes) = ?U" by (simp add: node_ids_def)
  have "set (successors es x) \<subseteq> ?U" for x using assms by (auto simp: successors_def outgoing_def)
  moreover have "card ?U \<le> Suc (length nodes)" by (metis card_image_le card_length finite_set le_SucI le_trans)
  ultimately obtain t where t: "strong_all es (Suc (length nodes)) (node_ids nodes) unnumbered = Some t" "numbered es t" "nu_stack t = []"
    "?U \<subseteq> dom (nu_indexes t)" "dom (nu_indexes t) \<subseteq> ?U"
    using strong_all_correct [of ?U es "Suc (length nodes)" "node_ids nodes" unnumbered] unnumbered_numbered
    by (auto simp: ids) (auto simp: unnumbered_def)
  have cs: "components nodes es = nu_components t" by (simp add: components_def t(1))
  note D = numberedD [OF t(2)]
  show ?all using D(2) t(3-5) by (auto simp: cs emitted_def)
  show ?ne using D(7) by (simp add: cs)
  assume c: "c \<in> set (components nodes es)" and x: "x \<in> set c"
  then obtain i where i: "i < length (nu_components t)" "nu_components t ! i = c" by (auto simp: cs in_set_conv_nth)
  show "y \<in> set c \<longleftrightarrow> (x, y) \<in> (links es)\<^sup>* \<and> (y, x) \<in> (links es)\<^sup>*"
  proof
    assume "y \<in> set c"
    then show "(x, y) \<in> (links es)\<^sup>* \<and> (y, x) \<in> (links es)\<^sup>*" using D(6) c x by (auto simp: cs list_all_iff connected_def)
  next
    assume r: "(x, y) \<in> (links es)\<^sup>* \<and> (y, x) \<in> (links es)\<^sup>*"
    obtain j where j: "j \<le> i" "y \<in> set (nu_components t ! j)" using closed_reach [OF D(5) _ i(1), of x y] r i x by auto
    then obtain k where k: "k \<le> j" "x \<in> set (nu_components t ! k)" using closed_reach [OF D(5), of y x j] r i(1) by auto
    have "distinct (concat (nu_components t))" using D(1) by simp
    then have "k = i" if "k < length (nu_components t)"
      using that i x k(2) distinct_concat_index [of "nu_components t" k i x] by simp
    then show "y \<in> set c" using j k i by auto
  qed
qed

text \<open>C32. The numbering computes the strongly connected components: for every graph whose links end at its nodes it returns, every node is in
  a component, and the component of a node consists of exactly the nodes that can be reached from it and from which it can be reached.\<close>

theorem components_are_exact:
  assumes "ge_target ` set es \<subseteq> wn_id ` set nodes"
  shows "set (concat (components nodes es)) = wn_id ` set nodes
    \<and> (\<forall>c \<in> set (components nodes es). \<forall>x \<in> set c. set c = {y. (x, y) \<in> (links es)\<^sup>* \<and> (y, x) \<in> (links es)\<^sup>*})"
  using components_exact(1) [OF assms] components_exact(3) [OF assms] by blast

end
