(* ===== verification/Workflow_Validation.thy ===== *)
theory Workflow_Validation
  imports Workflow_Components
begin

text \<open>
  What the validation of a workflow guarantees: the graph of an accepted definition is connected from its entry to its terminal, its
  cycles are controlled, and its conversations are well founded.
\<close>

section \<open>Searches\<close>

lemma successor_reach: "z \<in> set (successors es x) \<Longrightarrow> (z, y) \<in> (links es)\<^sup>* \<Longrightarrow> (x, y) \<in> (links es)\<^sup>*"
  by (simp add: links_iff [symmetric] converse_rtrancl_into_rtrancl)

lemma walk_sound: "walk es hit stop st seen = (True, v) \<Longrightarrow> \<exists>x \<in> set st. \<exists>y. (x, y) \<in> (links es)\<^sup>* \<and> hit y"
proof (induction es hit stop st seen rule: walk.induct)
  case (2 es hit stop x st seen)
  show ?case
  proof (cases "hit x \<or> x \<in> set seen \<or> stop x")
    case True
    then show ?thesis using 2 by (auto split: if_split_asm)
  next
    case False
    then obtain z y where "z \<in> set (successors es x @ st)" "(z, y) \<in> (links es)\<^sup>*" "hit y" using 2 by (auto simp del: set_append)
    then show ?thesis using successor_reach by fastforce
  qed
qed simp

text \<open>A search that ends without a hit has visited everything that can be reached, once.\<close>

definition swept :: "graph_edge list \<Rightarrow> (string \<Rightarrow> bool) \<Rightarrow> string set \<Rightarrow> string list \<Rightarrow> bool" where
  "swept es hit frontier seen \<longleftrightarrow>
     distinct seen \<and> (\<forall>x \<in> set seen. \<not> hit x \<and> set (successors es x) \<subseteq> set seen \<union> frontier)"

lemma walk_complete:
  "walk es hit stop st seen = (False, v) \<Longrightarrow> stop = (\<lambda>_. False) \<Longrightarrow> swept es hit (set st) seen \<Longrightarrow>
     swept es hit {} v \<and> set seen \<union> set st \<subseteq> set v \<and> (\<forall>y \<in> set v. y \<in> set seen \<or> (\<exists>x \<in> set st. (x, y) \<in> (links es)\<^sup>*))"
proof (induction es hit stop st seen rule: walk.induct)
  case (2 es hit stop x st seen)
  consider (known) "x \<in> set seen" | (new) "x \<notin> set seen" "\<not> hit x" using 2(3) by (auto split: if_split_asm)
  then show ?case
  proof cases
    case known
    have "swept es hit (set st) seen" using known 2(5) by (auto simp: swept_def)
    moreover have "\<not> hit x" using 2(3) by (auto split: if_split_asm)
    ultimately show ?thesis using 2(1) 2(3,4) known by (auto split: if_split_asm)
  next
    case new
    have "swept es hit (set (successors es x @ st)) (x # seen)" using new 2(5) by (auto simp: swept_def)
    then have IH: "swept es hit {} v" "set (x # seen) \<union> set (successors es x @ st) \<subseteq> set v"
      "\<forall>y \<in> set v. y \<in> set (x # seen) \<or> (\<exists>z \<in> set (successors es x @ st). (z, y) \<in> (links es)\<^sup>*)"
      using 2(2) [OF new(2)] new 2(3,4) by auto
    have "y \<in> set seen \<or> (\<exists>z \<in> set (x # st). (z, y) \<in> (links es)\<^sup>*)" if "y \<in> set v" for y
      using IH(3) that successor_reach by fastforce
    then show ?thesis using IH(1,2) by auto
  qed
qed simp

lemma swept_closed:
  assumes "swept es hit {} v" and "x \<in> set v" and "(x, y) \<in> (links es)\<^sup>*"
  shows "y \<in> set v"
  using assms(3,2) by induction (use assms(1) in \<open>auto simp: swept_def links_iff\<close>)

lemma canReach_iff: "canReach es a b \<longleftrightarrow> (a, b) \<in> (links es)\<^sup>*"
proof
  assume "canReach es a b"
  then obtain v where "walk es (\<lambda>x. x = b) (\<lambda>_. False) [a] [] = (True, v)" by (metis canReach_def found_def prod.collapse)
  from walk_sound [OF this] show "(a, b) \<in> (links es)\<^sup>*" by auto
next
  assume r: "(a, b) \<in> (links es)\<^sup>*"
  show "canReach es a b"
  proof (rule ccontr)
    assume "\<not> canReach es a b"
    then obtain v where "walk es (\<lambda>x. x = b) (\<lambda>_. False) [a] [] = (False, v)" by (metis (full_types) canReach_def found_def prod.collapse)
    from walk_complete [OF this refl] have "swept es (\<lambda>x. x = b) {} v" "a \<in> set v" by (auto simp: swept_def)
    with swept_closed [OF this r] show False by (auto simp: swept_def)
  qed
qed

lemma visited_exact: "distinct (visited es a) \<and> set (visited es a) = {y. (a, y) \<in> (links es)\<^sup>*}"
proof -
  obtain b v where w: "walk es (\<lambda>_. False) (\<lambda>_. False) [a] [] = (b, v)" by fastforce
  then have "\<not> b" using walk_sound [of es "\<lambda>_. False"] by (cases b) auto
  with w have v: "swept es (\<lambda>_. False) {} v" "a \<in> set v" "\<forall>y \<in> set v. (a, y) \<in> (links es)\<^sup>*"
    using walk_complete [of es "\<lambda>_. False" "\<lambda>_. False" "[a]" "[]" v] by (auto simp: swept_def)
  have "set v = {y. (a, y) \<in> (links es)\<^sup>*}" using swept_closed [OF v(1,2)] v(3) by blast
  moreover have "visited es a = v" unfolding visited_def w by simp
  ultimately show ?thesis using v(1) by (simp add: swept_def)
qed

lemma all_visited: "finite U \<Longrightarrow> distinct v \<Longrightarrow> set v \<subseteq> U \<Longrightarrow> length v = card U \<Longrightarrow> set v = U"
  by (simp add: card_subset_eq distinct_card)

section \<open>Edges and nodes\<close>

definition workflow_links :: "workflow_definition \<Rightarrow> (string \<times> string) set" where
  "workflow_links w = (\<lambda>e. (we_source e, we_target e)) ` set (wd_edges w)"

definition workflow_ids :: "workflow_definition \<Rightarrow> string set" where
  "workflow_ids w = wn_id ` set (wd_nodes w)"

definition workflow_graph :: "workflow_definition \<Rightarrow> graph_edge list" where
  "workflow_graph w = fst (resolve_edges (wd_nodes w) 0 [] (wd_edges w))"

lemma node_at_in: "node_at nodes i = Some n \<Longrightarrow> n \<in> set nodes \<and> wn_id n = i"
  unfolding node_at_def by (drule js_find_Some) auto

lemma node_at_id: "node_at nodes i = Some n \<Longrightarrow> i \<in> wn_id ` set nodes"
  using node_at_in by blast

lemma has_block_in: "has_block nodes type i \<Longrightarrow> i \<in> wn_id ` set nodes"
  by (auto simp: has_block_def split: option.split_asm dest: node_at_id)

lemma resolve_edge_ends:
  "resolve_edge nodes k e = Inr g \<Longrightarrow>
     ge_source g = we_source e \<and> ge_target g = we_target e \<and> we_source e \<in> wn_id ` set nodes \<and> we_target e \<in> wn_id ` set nodes"
  by (auto simp: resolve_edge_def split: option.split_asm sum.split_asm dest: node_at_id)

lemma resolved_edges:
  "snd (resolve_edges nodes k semantic ds) = [] \<Longrightarrow>
     (\<lambda>g. (ge_source g, ge_target g)) ` set (fst (resolve_edges nodes k semantic ds)) = (\<lambda>e. (we_source e, we_target e)) ` set ds
     \<and> (\<forall>e \<in> set ds. we_source e \<in> wn_id ` set nodes \<and> we_target e \<in> wn_id ` set nodes)"
proof (induction nodes k semantic ds rule: resolve_edges.induct)
  case (2 nodes k semantic e es)
  then show ?case
    using resolve_edge_ends [of nodes k e] by (auto simp: case_prod_beta Let_def split: sum.split_asm)
qed simp

lemma links_edges: "links es = (\<lambda>g. (ge_source g, ge_target g)) ` set es"
  by (auto simp: links_def successors_def outgoing_def)

lemma flipped_links: "links (map flip es) = (links es)\<inverse>"
  by (auto simp: links_edges flip_def image_iff)

lemma node_ids_distinct: "node_id_issues k seen ns = [] \<Longrightarrow> distinct (map wn_id ns) \<and> set seen \<inter> wn_id ` set ns = {}"
  by (induction k seen ns rule: node_id_issues.induct) (auto simp: issue_if_def split: if_split_asm)

lemma issue_if_Nil [simp]: "issue_if b i = [] \<longleftrightarrow> \<not> b"
  by (simp add: issue_if_def)

lemma accepted_facts:
  assumes "workflowDefinitionV2Schema w"
  shows "distinct (map wn_id (wd_nodes w))" "links (workflow_graph w) = workflow_links w"
    "workflow_links w \<subseteq> workflow_ids w \<times> workflow_ids w"
    "length (graph_entries (wd_nodes w) (wd_edges w) (workflow_graph w)) = 1" "length (graph_terminals (wd_nodes w) (workflow_graph w)) = 1"
    "reach_issues (wd_nodes w) (workflow_graph w) (graph_entries (wd_nodes w) (wd_edges w) (workflow_graph w))
       (graph_terminals (wd_nodes w) (workflow_graph w)) = []"
    "\<And>n. n \<in> set (conversation_nodes (wd_nodes w)) \<Longrightarrow> conversation_issues (wd_nodes w) (workflow_graph w) n = []"
    "\<And>c. c \<in> set (components (wd_nodes w) (workflow_graph w)) \<Longrightarrow> component_issues (wd_nodes w) (workflow_graph w) c = []"
    "\<And>i. i \<in> workflow_ids w \<Longrightarrow> node_issues (wd_nodes w) (workflow_graph w) i = []"
proof -
  have issues: "node_id_issues 0 [] (wd_nodes w) = []" "validateGraphTopology (wd_nodes w) (wd_edges w) = []"
    using assms by (simp_all add: workflowDefinitionV2Schema_def workflow_issues_def)
  obtain es bad where es: "resolve_edges (wd_nodes w) 0 [] (wd_edges w) = (es, bad)" by fastforce
  then have g: "workflow_graph w = es" by (simp add: workflow_graph_def)
  note all = issues(2) [unfolded validateGraphTopology_def es Let_def prod.case append_is_Nil_conv issue_if_Nil not_not concat_eq_Nil_conv]
  show "distinct (map wn_id (wd_nodes w))" using node_ids_distinct [OF issues(1)] by simp
  have "bad = []" using all by simp
  then have "links es = workflow_links w \<and> workflow_links w \<subseteq> workflow_ids w \<times> workflow_ids w"
    using resolved_edges [of "wd_nodes w" 0 "[]" "wd_edges w"] by (auto simp: es links_edges workflow_links_def workflow_ids_def)
  then show "links (workflow_graph w) = workflow_links w" "workflow_links w \<subseteq> workflow_ids w \<times> workflow_ids w" by (simp_all add: g)
  show "length (graph_entries (wd_nodes w) (wd_edges w) (workflow_graph w)) = 1" "length (graph_terminals (wd_nodes w) (workflow_graph w)) = 1"
    "reach_issues (wd_nodes w) (workflow_graph w) (graph_entries (wd_nodes w) (wd_edges w) (workflow_graph w))
       (graph_terminals (wd_nodes w) (workflow_graph w)) = []"
    "\<And>n. n \<in> set (conversation_nodes (wd_nodes w)) \<Longrightarrow> conversation_issues (wd_nodes w) (workflow_graph w) n = []"
    "\<And>c. c \<in> set (components (wd_nodes w) (workflow_graph w)) \<Longrightarrow> component_issues (wd_nodes w) (workflow_graph w) c = []"
    using all by (simp_all add: g)
  show "\<And>i. i \<in> workflow_ids w \<Longrightarrow> node_issues (wd_nodes w) (workflow_graph w) i = []"
    using all by (auto simp: g workflow_ids_def node_ids_def)
qed

section \<open>Properties\<close>

lemma accepted_connected:
  assumes "workflowDefinitionV2Schema w"
  shows "\<exists>entry terminal. graph_entries (wd_nodes w) (wd_edges w) (workflow_graph w) = [entry]
    \<and> graph_terminals (wd_nodes w) (workflow_graph w) = [terminal] \<and> {entry, terminal} \<subseteq> workflow_ids w
    \<and> (\<forall>i \<in> workflow_ids w. (entry, i) \<in> (workflow_links w)\<^sup>* \<and> (i, terminal) \<in> (workflow_links w)\<^sup>*)
    \<and> (\<forall>i \<in> workflow_ids w. (\<nexists>j. (i, j) \<in> workflow_links w) \<longleftrightarrow> i = terminal) \<and> terminal_type_ok (wd_nodes w) terminal"
proof -
  let ?es = "workflow_graph w" let ?ns = "wd_nodes w"
  note A = accepted_facts [OF assms]
  obtain e where e: "graph_entries ?ns (wd_edges w) ?es = [e]" using A(4) by (auto simp: length_Suc_conv)
  obtain t where t: "graph_terminals ?ns ?es = [t]" using A(5) by (auto simp: length_Suc_conv)
  have sizes: "length (visited ?es e) = length ?ns" "length (visited (map flip ?es) t) = length ?ns" and type: "terminal_type_ok ?ns t"
    using A(6) by (simp_all add: reach_issues_def e t)
  have ending: "(\<nexists>j. (i, j) \<in> workflow_links w) \<longleftrightarrow> i = t" if "i \<in> workflow_ids w" for i
  proof -
    have "set (graph_terminals ?ns ?es) = {i \<in> workflow_ids w. outgoing ?es i = []}" by (auto simp: graph_terminals_def node_ids_def workflow_ids_def)
    then show ?thesis using that t by (auto simp: A(2) [symmetric] links_def successors_def)
  qed
  have tin: "t \<in> workflow_ids w" using type has_block_in by (auto simp: terminal_type_ok_def workflow_ids_def)
  have card: "card (workflow_ids w) = length ?ns" using distinct_card [OF A(1)] by (simp add: workflow_ids_def)
  have fin: "finite (workflow_ids w)" by (simp add: workflow_ids_def)
  have stays: "y \<in> workflow_ids w" if "(x, y) \<in> (workflow_links w)\<^sup>*" "x \<in> workflow_ids w" for x y
    using that by induction (use A(3) in auto)
  have sources: "y \<in> workflow_ids w" if "(y, x) \<in> (workflow_links w)\<^sup>*" "x \<in> workflow_ids w" for x y
    using that by (induction rule: converse_rtrancl_induct) (use A(3) in auto)
  have ein: "e \<in> workflow_ids w"
  proof (cases "graph_roots ?ns ?es = []")
    case True
    then have "e \<in> set (js_dedup (cycle_roots ?ns (wd_edges w) ?es))" using e by (simp add: graph_entries_def)
    then obtain d where "d \<in> set (wd_edges w)" "e = we_target d" by (auto simp: cycle_roots_def)
    then have "(we_source d, e) \<in> workflow_links w" by (auto simp: workflow_links_def)
    then show ?thesis using A(3) by blast
  next
    case False
    then have "e \<in> set (graph_roots ?ns ?es)" using e by (simp add: graph_entries_def)
    then show ?thesis by (auto simp: graph_roots_def node_ids_def workflow_ids_def)
  qed
  have fwd: "set (visited ?es e) = {y. (e, y) \<in> (workflow_links w)\<^sup>*}" using visited_exact [of ?es e] by (simp add: A(2))
  have bwd: "set (visited (map flip ?es) t) = {y. (y, t) \<in> (workflow_links w)\<^sup>*}"
    using visited_exact [of "map flip ?es" t] by (simp add: A(2) flipped_links rtrancl_converse)
  have "set (visited ?es e) = workflow_ids w"
    by (rule all_visited [OF fin]) (use visited_exact [of ?es e] sizes(1) card stays [OF _ ein] fwd in simp_all, blast)
  moreover have "set (visited (map flip ?es) t) = workflow_ids w"
    by (rule all_visited [OF fin]) (use visited_exact [of "map flip ?es" t] sizes(2) card sources [OF _ tin] bwd in simp_all, blast)
  ultimately have "\<forall>i \<in> workflow_ids w. (e, i) \<in> (workflow_links w)\<^sup>* \<and> (i, t) \<in> (workflow_links w)\<^sup>*" using fwd bwd by blast
  moreover have "\<forall>i \<in> workflow_ids w. (\<nexists>j. (i, j) \<in> workflow_links w) \<longleftrightarrow> i = t" using ending by (rule ballI)
  moreover have "{e, t} \<subseteq> workflow_ids w" using ein tin by simp
  ultimately show ?thesis using type e t by (intro exI [of _ e] exI [of _ t] conjI)
qed

text \<open>C12. The graph of an accepted workflow is connected: there is one entry and one terminal, every node can be reached from the entry and
  leads to the terminal, the terminal is the only node without a link to follow, and it is a block that has a result.\<close>

theorem accepted_workflow_connected:
  assumes "workflowDefinitionV2Schema w"
  shows "\<exists>entry terminal. {entry, terminal} \<subseteq> workflow_ids w
    \<and> (\<forall>i \<in> workflow_ids w. (entry, i) \<in> (workflow_links w)\<^sup>* \<and> (i, terminal) \<in> (workflow_links w)\<^sup>*)
    \<and> (\<forall>i \<in> workflow_ids w. (\<nexists>j. (i, j) \<in> workflow_links w) \<longleftrightarrow> i = terminal) \<and> terminal_type_ok (wd_nodes w) terminal"
proof -
  obtain e t where "{e, t} \<subseteq> workflow_ids w" "\<forall>i \<in> workflow_ids w. (e, i) \<in> (workflow_links w)\<^sup>* \<and> (i, t) \<in> (workflow_links w)\<^sup>*"
    "\<forall>i \<in> workflow_ids w. (\<nexists>j. (i, j) \<in> workflow_links w) \<longleftrightarrow> i = t" "terminal_type_ok (wd_nodes w) t"
    using accepted_connected [OF assms] by (elim exE conjE)
  then show ?thesis by (intro exI [of _ e] exI [of _ t] conjI)
qed

text \<open>C11. Every cycle of an accepted workflow is in a region that a Condition controls: some Condition can be reached from the cycle and leads
  back to it, and one of its two routes leaves the region and never comes back.\<close>

theorem accepted_cycles_controlled:
  assumes "workflowDefinitionV2Schema w" and "(i, i) \<in> (workflow_links w)\<^sup>+"
  shows "\<exists>c d. has_block (wd_nodes w) ''condition'' c \<and> (i, c) \<in> (workflow_links w)\<^sup>* \<and> (c, i) \<in> (workflow_links w)\<^sup>*
    \<and> (c, d) \<in> workflow_links w \<and> (d, i) \<notin> (workflow_links w)\<^sup>*"
proof -
  let ?es = "workflow_graph w" let ?ns = "wd_nodes w"
  note A = accepted_facts [OF assms(1)]
  have "ge_target ` set ?es \<subseteq> wn_id ` set ?ns" using A(2,3) by (auto simp: links_edges workflow_ids_def)
  note comps = components_exact [OF this, unfolded A(2)]
  obtain j where j: "(i, j) \<in> workflow_links w" "(j, i) \<in> (workflow_links w)\<^sup>*" using tranclD [OF assms(2)] by blast
  then have "i \<in> workflow_ids w" using A(3) by blast
  then obtain c where c: "c \<in> set (components ?ns ?es)" "i \<in> set c" using comps(1) by (auto simp: workflow_ids_def)
  note region = comps(3) [OF c(1)]
  have "j \<in> set c" using region [OF c(2)] j by blast
  have "cyclic_region ?es c"
  proof (cases "length c \<le> 1")
    case True
    then have "c = [i]" using c(2) by (cases c) auto
    then show ?thesis using \<open>j \<in> set c\<close> j(1) A(2) by (auto simp: cyclic_region_def links_iff [symmetric])
  qed (simp add: cyclic_region_def)
  then obtain x d where x: "x \<in> set c" "has_block ?ns ''condition'' x" "d \<in> set (successors ?es x)" "d \<notin> set c"
    using A(8) [OF c(1)] by (auto simp: component_issues_def list_ex_iff)
  have link: "(x, d) \<in> workflow_links w" using x(3) A(2) by (auto simp: links_iff [symmetric])
  have "(i, x) \<in> (workflow_links w)\<^sup>*" "(x, i) \<in> (workflow_links w)\<^sup>*" using region [OF c(2), of x] x(1) by auto
  moreover have "(d, i) \<notin> (workflow_links w)\<^sup>*"
    using region [OF c(2), of d] x(4) link calculation(1) by (meson rtrancl_into_rtrancl)
  ultimately show ?thesis using x(2) link by blast
qed

subsection \<open>Conversations\<close>

definition parents :: "(string \<Rightarrow> string option) \<Rightarrow> (string \<times> string) set" where
  "parents up = {(i, j). up i = Some j}"

lemma chain_enough:
  assumes "finite (dom up)" and "[] \<notin> dom up"
  shows "\<not> chain_repeats up n seen c \<Longrightarrow> card (dom up - set seen) < n \<Longrightarrow> \<exists>z. (c, z) \<in> (parents up)\<^sup>* \<and> up z = None"
  using assms
proof (induction up n seen c rule: chain_repeats.induct)
  case (2 up n seen c)
  show ?case
  proof (cases "up c")
    case (Some p)
    then have c: "c \<in> dom up" "c \<noteq> []" using 2(5) by auto
    then have new: "c \<notin> set seen" "\<not> chain_repeats up n (c # seen) p" using 2(2) Some by auto
    have "dom up - set (c # seen) \<subset> dom up - set seen" using c new(1) by auto
    then have "card (dom up - set (c # seen)) < card (dom up - set seen)" using 2(4) by (intro psubset_card_mono) simp_all
    then have "card (dom up - set (c # seen)) < n" using 2(3) by simp
    then obtain z where "(p, z) \<in> (parents up)\<^sup>*" "up z = None" using 2(1) [OF Some] new(2) 2(4,5) by blast
    then show ?thesis using Some by (intro exI [of _ z]) (auto simp: parents_def intro: converse_rtrancl_into_rtrancl)
  qed blast
qed simp

lemma chain_cycle:
  assumes "(i, i) \<in> (parents up)\<^sup>+" and "(i, z) \<in> (parents up)\<^sup>*"
  shows "up z \<noteq> None"
proof -
  have "(z, i) \<in> (parents up)\<^sup>+" using assms(2)
  proof (induction rule: rtrancl_induct)
    case (step y z)
    obtain u where "(y, u) \<in> parents up" "(u, i) \<in> (parents up)\<^sup>*" using tranclD [OF step(3)] by blast
    moreover have "u = z" using step(2) calculation(1) by (simp add: parents_def)
    ultimately show ?case using assms(1) by (meson rtrancl_trancl_trancl)
  qed (rule assms(1))
  then show ?thesis by (auto simp: parents_def dest!: tranclD)
qed

lemma parent_node: "conversation_parent nodes i = Some j \<Longrightarrow> \<exists>n \<in> set (conversation_nodes nodes). wn_id n = i \<and> i \<in> wn_id ` set nodes"
  by (auto simp: conversation_parent_def conversation_nodes_def split: option.split_asm dest!: js_find_Some)

text \<open>C33. The conversations of an accepted workflow are well founded: following the sources of conversations never comes back to a node, and
  the source of a conversation is another Agent block from which the node can be reached.\<close>

theorem accepted_conversations_well_founded:
  assumes "workflowDefinitionV2Schema w"
  shows "acyclic {(i, j). conversation_parent (wd_nodes w) i = Some j}
    \<and> (\<forall>i j. conversation_parent (wd_nodes w) i = Some j \<longrightarrow>
         i \<noteq> j \<and> has_block (wd_nodes w) ''agent'' j \<and> (j, i) \<in> (workflow_links w)\<^sup>*)"
proof -
  let ?ns = "wd_nodes w" let ?up = "conversation_parent ?ns"
  note A = accepted_facts [OF assms]
  have ok: "conversation_issues ?ns (workflow_graph w) n = []" "wn_id n = i" if "?up i = Some j" "n \<in> set (conversation_nodes ?ns)" "wn_id n = i" for i j n
    using A(7) that by auto
  have issues: "i \<noteq> j \<and> has_block ?ns ''agent'' j \<and> canReach (workflow_graph w) j i \<and> \<not> chain_repeats ?up (chain_limit ?ns) [i] j"
    if up: "?up i = Some j" for i j
  proof -
    obtain n where "n \<in> set (conversation_nodes ?ns)" "wn_id n = i" using parent_node [OF up] by blast
    with ok [OF up] up show ?thesis by (auto simp: conversation_issues_def Let_def)
  qed
  have dom: "dom ?up \<subseteq> workflow_ids w" using parent_node by (fastforce simp: workflow_ids_def)
  moreover have "finite (workflow_ids w)" "card (workflow_ids w) \<le> length ?ns"
    by (auto simp: workflow_ids_def) (metis card_image_le card_length finite_set le_trans)
  ultimately have fin: "finite (dom ?up)" "card (dom ?up) \<le> length ?ns" by (auto intro: finite_subset) (meson card_mono le_trans)
  have "[] \<notin> workflow_ids w"
    using assms slug_pattern_not_Nil by (fastforce simp: workflowDefinitionV2Schema_def workflow_shape_def list_all_iff node_shape_def block_id_ok_def workflow_ids_def)
  then have ne: "[] \<notin> dom ?up" using dom by blast
  have "acyclic (parents ?up)"
  proof (rule acyclicI, intro allI notI)
    fix i assume cyc: "(i, i) \<in> (parents ?up)\<^sup>+"
    then obtain j where j: "(i, j) \<in> parents ?up" using tranclD by metis
    then have "?up i = Some j" by (simp add: parents_def)
    moreover have "card (dom ?up - set [i]) < chain_limit ?ns"
      using fin card_mono [OF fin(1), of "dom ?up - set [i]"] by (auto simp: chain_limit_def)
    ultimately obtain z where "(j, z) \<in> (parents ?up)\<^sup>*" "?up z = None" using chain_enough [OF fin(1) ne] issues by blast
    then show False using chain_cycle [OF cyc converse_rtrancl_into_rtrancl [OF j]] by blast
  qed
  then show ?thesis using issues by (auto simp: parents_def canReach_iff A(2))
qed

section \<open>Samples\<close>

definition agent_node :: "string \<Rightarrow> workflow_node" where
  "agent_node i = \<lparr>wn_id = i, wn_blockType = ''agent'', wn_blockVersion = 1, wn_config = JObj [(''agentId'', JStr ''a'')]\<rparr>"

definition condition_node :: "string \<Rightarrow> workflow_node" where
  "condition_node i =
     \<lparr>wn_id = i, wn_blockType = ''condition'', wn_blockVersion = 1,
      wn_config = JObj [(''operator'', JStr ''contains''), (''value'', JStr ''approved'')]\<rparr>"

definition simple_edge :: "string \<Rightarrow> string option \<Rightarrow> string \<Rightarrow> workflow_edge" where
  "simple_edge s p t = \<lparr>we_id = s @ ''-'' @ t, we_source = s, we_sourcePort = p, we_target = t, we_targetPort = None\<rparr>"

definition sample_definition :: "workflow_node list \<Rightarrow> workflow_edge list \<Rightarrow> workflow_definition" where
  "sample_definition ns es =
     \<lparr>wd_id = ''loop'', wd_name = ''Loop'', wd_description = [], wd_runInputTemplate = None, wd_exposableAsBlock = None, wd_nodes = ns,
      wd_edges = es, wd_maxStepExecutions = 2\<rparr>"

definition review_loop :: workflow_definition where
  "review_loop = sample_definition
     [agent_node ''draft'',
      (agent_node ''review'')\<lparr>wn_blockVersion := 3,
        wn_config := JObj [(''agentId'', JStr ''b''), (''conversation'', JObj [(''sourceNodeId'', JStr ''draft'')])]\<rparr>,
      condition_node ''condition'', agent_node ''finish'']
     [simple_edge ''draft'' None ''review'', simple_edge ''review'' None ''condition'', simple_edge ''condition'' (Some ''true'') ''finish'',
      simple_edge ''condition'' (Some ''false'') ''draft'']"

lemma review_loop_accepted: "workflowDefinitionV2Schema review_loop"
  by code_simp

lemma review_loop_links:
  "workflow_links review_loop = {(''draft'', ''review''), (''review'', ''condition''), (''condition'', ''finish''), (''condition'', ''draft'')}"
  by (simp add: workflow_links_def review_loop_def sample_definition_def simple_edge_def)

theorem accepted_workflow_connected_witness:
  "workflowDefinitionV2Schema review_loop \<and> (\<exists>entry terminal. {entry, terminal} \<subseteq> workflow_ids review_loop
     \<and> (entry, terminal) \<in> (workflow_links review_loop)\<^sup>* \<and> terminal_type_ok (wd_nodes review_loop) terminal)"
  using accepted_workflow_connected [OF review_loop_accepted] review_loop_accepted by blast

theorem accepted_cycles_controlled_witness:
  "(''draft'', ''draft'') \<in> (workflow_links review_loop)\<^sup>+
   \<and> (\<exists>c d. has_block (wd_nodes review_loop) ''condition'' c \<and> (c, d) \<in> workflow_links review_loop \<and> (d, ''draft'') \<notin> (workflow_links review_loop)\<^sup>*)"
proof -
  have "(''draft'', ''draft'') \<in> (workflow_links review_loop)\<^sup>+"
    unfolding review_loop_links by (rule trancl_into_trancl2 [where b = "''review''"], simp, rule trancl_into_trancl2 [where b = "''condition''"], simp, rule r_into_trancl) simp
  with accepted_cycles_controlled [OF review_loop_accepted this] show ?thesis by blast
qed

theorem accepted_conversations_well_founded_witness:
  "conversation_parent (wd_nodes review_loop) ''review'' = Some ''draft'' \<and> (''draft'', ''review'') \<in> (workflow_links review_loop)\<^sup>*"
proof -
  have "conversation_parent (wd_nodes review_loop) ''review'' = Some ''draft''" by code_simp
  with accepted_conversations_well_founded [OF review_loop_accepted] show ?thesis by blast
qed

text \<open>
  The message of the check says that every cycle contains a Condition, but the check is about the region. Here \<open>a\<close> and \<open>b\<close> start each
  other again without end: \<open>b\<close> fans out to \<open>a\<close> and to the Condition, and a Join far behind the Condition counts as the place where the two
  branches meet.
\<close>

definition unconditional_loop :: workflow_definition where
  "unconditional_loop = sample_definition
     [agent_node ''e'', agent_node ''a'', agent_node ''b'', condition_node ''c'', agent_node ''f'', agent_node ''x'', agent_node ''y'',
      (agent_node ''j'')\<lparr>wn_blockType := ''join'', wn_config := JObj []\<rparr>, agent_node ''t'']
     [simple_edge ''e'' None ''a'', simple_edge ''a'' None ''b'', simple_edge ''b'' None ''a'', simple_edge ''b'' None ''c'',
      simple_edge ''c'' (Some ''true'') ''a'', simple_edge ''c'' (Some ''false'') ''f'', simple_edge ''f'' None ''x'',
      simple_edge ''f'' None ''y'', simple_edge ''x'' None ''j'', simple_edge ''y'' None ''j'', simple_edge ''j'' None ''t'']"

theorem unconditional_cycle_accepted:
  "workflowDefinitionV2Schema unconditional_loop \<and> {(''a'', ''b''), (''b'', ''a'')} \<subseteq> workflow_links unconditional_loop
   \<and> \<not> has_block (wd_nodes unconditional_loop) ''condition'' ''a'' \<and> \<not> has_block (wd_nodes unconditional_loop) ''condition'' ''b''"
proof -
  have "workflowDefinitionV2Schema unconditional_loop" by code_simp
  moreover have "\<not> has_block (wd_nodes unconditional_loop) ''condition'' ''a''" "\<not> has_block (wd_nodes unconditional_loop) ''condition'' ''b''"
    by code_simp+
  moreover have "{(''a'', ''b''), (''b'', ''a'')} \<subseteq> workflow_links unconditional_loop"
    by (simp add: workflow_links_def unconditional_loop_def sample_definition_def simple_edge_def)
  ultimately show ?thesis by blast
qed

theorem components_are_exact_witness:
  "[''c'', ''b'', ''a''] \<in> set (components (wd_nodes unconditional_loop) (workflow_graph unconditional_loop))
   \<and> {''c'', ''b'', ''a''} = {y. (''a'', y) \<in> (links (workflow_graph unconditional_loop))\<^sup>* \<and> (y, ''a'') \<in> (links (workflow_graph unconditional_loop))\<^sup>*}"
proof -
  have "ge_target ` set (workflow_graph unconditional_loop) \<subseteq> wn_id ` set (wd_nodes unconditional_loop)" by code_simp
  note exact = components_are_exact [OF this]
  have c: "[''c'', ''b'', ''a''] \<in> set (components (wd_nodes unconditional_loop) (workflow_graph unconditional_loop))" by code_simp
  have "set [''c'', ''b'', ''a''] = {y. (''a'', y) \<in> (links (workflow_graph unconditional_loop))\<^sup>* \<and> (y, ''a'') \<in> (links (workflow_graph unconditional_loop))\<^sup>*}"
    using exact c by (elim conjE) (drule bspec, assumption, drule bspec [of _ _ "''a''"], simp_all only: list.set insert_iff simp_thms)
  with c show ?thesis by simp
qed

end
