(* ===== verification/Workflow_Plans.thy ===== *)
theory Workflow_Plans
  imports Workflow_Validation
begin

text \<open>
  Execution plans and the admission of a run: the rest of \<^verbatim>\<open>lib/workflow-definitions.ts\<close> except the composition of
  subworkflows, with the historical first version of the schema.

  A plan is checked by its own schema when it is compiled, as in the code; the schema of a block returns its configuration with
  trimmed texts and default values (\<open>parsed_config\<close>).
\<close>

section \<open>Definitions\<close>

subsection \<open>Agents\<close>

datatype agent_tool = ArtifactSearch | BuiltinArtifactSearch | McpTool string string

record agent_definition =
  ag_id :: string
  ag_connectionKey :: string
  ag_tools :: "agent_tool list option"
  ag_adapterOptions :: "js_value option"

record connection_identity =
  cn_key :: string
  cn_adapter :: string

definition tool_key :: "agent_tool \<Rightarrow> string" where
  "tool_key t =
     (case t of ArtifactSearch \<Rightarrow> ''artifact_search'' | BuiltinArtifactSearch \<Rightarrow> ''artifact_search''
      | McpTool s n \<Rightarrow> ''mcp:'' @ s @ '':'' @ n)"

definition tools_ok :: "agent_tool list \<Rightarrow> bool" where
  "tools_ok tools = (length tools \<le> 129 \<and> distinct (map tool_key tools))"

definition hasArtifactSearchGrant :: "agent_tool list option \<Rightarrow> bool" where
  "hasArtifactSearchGrant tools =
     (case tools of None \<Rightarrow> False | Some ts \<Rightarrow> list_ex (\<lambda>t. t = ArtifactSearch \<or> t = BuiltinArtifactSearch) ts)"

definition mcpToolGrants :: "agent_tool list option \<Rightarrow> agent_tool list" where
  "mcpToolGrants tools = (case tools of None \<Rightarrow> [] | Some ts \<Rightarrow> filter (\<lambda>t. case t of McpTool _ _ \<Rightarrow> True | _ \<Rightarrow> False) ts)"

text \<open>\<^verbatim>\<open>new Map(xs.map(x => [key(x), x]))\<close> and \<^verbatim>\<open>get\<close>: the last entry wins.\<close>

definition by_key :: "('a \<Rightarrow> string) \<Rightarrow> 'a list \<Rightarrow> string \<Rightarrow> 'a option" where
  "by_key key xs k = js_find (\<lambda>x. key x = k) (rev xs)"

subsection \<open>The first version of the schema\<close>

datatype step_input = RunInput | PreviousStep
datatype step_success = NextStep | CompleteRun

record workflow_step =
  ws_id :: string
  ws_name :: string
  ws_agentId :: string
  ws_input :: step_input
  ws_onSuccess :: step_success

record workflow_v1 =
  w1_id :: string
  w1_name :: string
  w1_description :: string
  w1_steps :: "workflow_step list"
  w1_resultStepId :: string
  w1_maxStepExecutions :: int

definition step_shape :: "workflow_step \<Rightarrow> bool" where
  "step_shape s =
     (block_id_ok (ws_id s) \<and> 1 \<le> length (ws_name s) \<and> length (ws_name s) \<le> 120 \<and> js_trim (ws_name s) = ws_name s \<and> block_id_ok (ws_agentId s))"

definition v1_shape :: "workflow_v1 \<Rightarrow> bool" where
  "v1_shape w =
     (block_id_ok (w1_id w) \<and> 1 \<le> length (w1_name w) \<and> length (w1_name w) \<le> 120 \<and> js_trim (w1_name w) = w1_name w
      \<and> length (w1_description w) \<le> 2000 \<and> w1_steps w \<noteq> [] \<and> length (w1_steps w) \<le> MAX_WORKFLOW_STEPS \<and> list_all step_shape (w1_steps w)
      \<and> block_id_ok (w1_resultStepId w) \<and> 1 \<le> w1_maxStepExecutions w \<and> w1_maxStepExecutions w \<le> int MAX_STEP_EXECUTIONS)"

fun steps_ok :: "nat \<Rightarrow> nat \<Rightarrow> string list \<Rightarrow> workflow_step list \<Rightarrow> bool" where
  "steps_ok n k ids [] = True"
| "steps_ok n k ids (s # ss) =
     (ws_id s \<notin> set ids \<and> ws_input s = (if k = 0 then RunInput else PreviousStep)
      \<and> ws_onSuccess s = (if k + 1 = n then CompleteRun else NextStep) \<and> steps_ok n (k + 1) (ws_id s # ids) ss)"

definition historicalWorkflowDefinitionV1Schema :: "workflow_v1 \<Rightarrow> bool" where
  "historicalWorkflowDefinitionV1Schema w =
     (v1_shape w \<and> steps_ok (length (w1_steps w)) 0 [] (w1_steps w) \<and> w1_resultStepId w \<in> ws_id ` set (w1_steps w)
      \<and> map_option ws_id (js_last (w1_steps w)) = Some (w1_resultStepId w) \<and> int (length (w1_steps w)) \<le> w1_maxStepExecutions w)"

definition validateTerminalCodexSteps :: "workflow_v1 \<Rightarrow> agent_definition list \<Rightarrow> (string \<Rightarrow> string option) \<Rightarrow> bool" where
  "validateTerminalCodexSteps w agents adapterForConnection =
     list_all (\<lambda>(k, s).
       case by_key ag_id agents (ws_agentId s) of
         None \<Rightarrow> True
       | Some a \<Rightarrow> adapterForConnection (ag_connectionKey a) \<noteq> Some ''codex-cloud'' \<or> k + 1 = length (w1_steps w))
       (enumerate 0 (w1_steps w))"

subsection \<open>References\<close>

definition node_references :: "workflow_node \<Rightarrow> registry_error + (string list \<times> string list)" where
  "node_references n = block_references workflowBlockRegistry (wn_blockType n) (wn_blockVersion n) (wn_config n)"

definition workflowAgentReferences :: "workflow_definition \<Rightarrow> registry_error + string list" where
  "workflowAgentReferences w = bindR (mapR node_references (wd_nodes w)) (\<lambda>rs. Inr (concat (map fst rs)))"

definition workflowSubworkflowReferences :: "workflow_definition \<Rightarrow> registry_error + string list" where
  "workflowSubworkflowReferences w = bindR (mapR node_references (wd_nodes w)) (\<lambda>rs. Inr (concat (map snd rs)))"

subsection \<open>Configurations as the schemas return them\<close>

definition value_or :: "js_value \<Rightarrow> js_value \<Rightarrow> string \<Rightarrow> js_value" where
  "value_or d v k = (case js_get v k of None \<Rightarrow> d | Some x \<Rightarrow> x)"

definition trimmed_value :: "js_value \<Rightarrow> js_value" where
  "trimmed_value v = (case v of JStr s \<Rightarrow> JStr (js_trim s) | _ \<Rightarrow> v)"

definition parsed_context :: "js_value \<Rightarrow> js_value" where
  "parsed_context c =
     JObj [(''publishOutput'', value_or (JBool False) c ''publishOutput''), (''includeRunInput'', value_or (JBool False) c ''includeRunInput''),
           (''includeNodeOutputs'', value_or (JArr []) c ''includeNodeOutputs'')]"

definition context_field :: "js_value \<Rightarrow> (string \<times> js_value) list" where
  "context_field v = (case js_get v ''context'' of None \<Rightarrow> [] | Some c \<Rightarrow> [(''context'', parsed_context c)])"

definition conversation_field :: "js_value \<Rightarrow> (string \<times> js_value) list" where
  "conversation_field v =
     (case js_get v ''conversation'' of None \<Rightarrow> []
      | Some c \<Rightarrow> [(''conversation'', JObj [(''sourceNodeId'', value_or JNull c ''sourceNodeId'')])])"

definition agent_field :: "js_value \<Rightarrow> string \<times> js_value" where
  "agent_field v = (''agentId'', value_or JNull v ''agentId'')"

definition parsed_config :: "string \<Rightarrow> int \<Rightarrow> js_value \<Rightarrow> js_value" where
  "parsed_config type version v =
     (if type = ''agent'' then
        JObj (agent_field v # (if version \<in> {2, 3} then context_field v else []) @ (if version = 3 then conversation_field v else []))
      else if type = ''condition'' then
        JObj [(''operator'', value_or JNull v ''operator''), (''value'', value_or JNull v ''value''),
              (''caseSensitive'', value_or (JBool False) v ''caseSensitive'')]
      else if type = ''approval'' then JObj [(''message'', trimmed_value (value_or JNull v ''message''))]
      else if type = ''publish-github-pr'' then
        JObj [(''sourceNodeId'', value_or JNull v ''sourceNodeId''), (''title'', trimmed_value (value_or JNull v ''title'')),
              (''body'', value_or JNull v ''body''), (''draft'', value_or JNull v ''draft'')]
      else if type = ''subworkflow'' then JObj [(''workflowId'', value_or JNull v ''workflowId'')]
      else JObj [])"

subsection \<open>Plans\<close>

record generic_plan =
  gp_nodes :: "workflow_node list"
  gp_edges :: "graph_edge list"
  gp_entryNodeId :: string
  gp_terminalNodeId :: string
  gp_maxStepExecutions :: int

datatype plan_error =
    WorkflowInvalid
  | MissingAgent string
  | AmbiguousEntry
  | PlanInvalid
  | ConnectionUnavailable string
  | ConversationSourceInvalid
  | ConversationSourceIncompatible
  | PublishSourceNotAgent
  | PublishSourceAgentMissing
  | PublishSourceNotCodexRunner
  | PublishSourceManagedGitRequired
  | PublishSourceEnvironmentRequired
  | PublishSourceUnavailable

definition plan_context :: "js_value \<Rightarrow> bool" where
  "plan_context v =
     (strict_object [''publishOutput'', ''includeRunInput'', ''includeNodeOutputs''] v \<and> field_ok is_bool v ''publishOutput''
      \<and> field_ok is_bool v ''includeRunInput'' \<and> field_ok (is_id_list 16) v ''includeNodeOutputs'')"

text \<open>\<^verbatim>\<open>genericPlanNode\<close>: there is no variant for subworkflows.\<close>

definition genericPlanNode :: "workflow_node \<Rightarrow> bool" where
  "genericPlanNode n =
     (let v = wn_config n; kind = (wn_blockType n, wn_blockVersion n) in
      block_id_ok (wn_id n) \<and>
      (if kind = (''agent'', 1) then strict_object [''agentId''] v \<and> field_ok is_id v ''agentId''
       else if kind = (''agent'', 2) then
         strict_object [''agentId'', ''context''] v \<and> field_ok is_id v ''agentId'' \<and> optional_ok plan_context v ''context''
       else if kind = (''agent'', 3) then
         strict_object [''agentId'', ''context'', ''conversation''] v \<and> field_ok is_id v ''agentId'' \<and> optional_ok plan_context v ''context''
         \<and> optional_ok agentConversationSchema v ''conversation''
       else if kind = (''condition'', 1) then
         strict_object [''operator'', ''value'', ''caseSensitive''] v \<and> field_ok (\<lambda>x. x = JStr ''contains'') v ''operator''
         \<and> field_ok (is_text 1 4096) v ''value'' \<and> field_ok is_bool v ''caseSensitive''
       else if kind = (''join'', 1) then strict_object [] v
       else if kind = (''approval'', 1) then strict_object [''message''] v \<and> field_ok (is_trimmed_text 2000) v ''message''
       else if kind = (''publish-github-pr'', 1) then publishGitHubPrBlockConfigSchema v
       else False))"

definition genericWorkflowExecutionPlanSchema :: "generic_plan \<Rightarrow> bool" where
  "genericWorkflowExecutionPlanSchema p =
     (gp_nodes p \<noteq> [] \<and> length (gp_nodes p) \<le> MAX_WORKFLOW_STEPS \<and> list_all genericPlanNode (gp_nodes p)
      \<and> length (gp_edges p) \<le> MAX_STEP_EXECUTIONS
      \<and> list_all (\<lambda>e. block_id_ok (ge_source e) \<and> block_id_ok (ge_sourcePort e) \<and> block_id_ok (ge_target e) \<and> block_id_ok (ge_targetPort e)) (gp_edges p)
      \<and> block_id_ok (gp_entryNodeId p) \<and> block_id_ok (gp_terminalNodeId p)
      \<and> 1 \<le> gp_maxStepExecutions p \<and> gp_maxStepExecutions p \<le> int MAX_STEP_EXECUTIONS)"

definition declared_graph :: "workflow_edge list \<Rightarrow> graph_edge list" where
  "declared_graph es = map (\<lambda>e. \<lparr>ge_source = we_source e, ge_sourcePort = [], ge_target = we_target e, ge_targetPort = []\<rparr>) es"

definition graphEntryNode :: "workflow_node list \<Rightarrow> workflow_edge list \<Rightarrow> plan_error + string" where
  "graphEntryNode nodes edges =
     (let g = declared_graph edges in
      case graph_roots nodes g of
        [r] \<Rightarrow> Inr r
      | _ \<Rightarrow> (case js_dedup (cycle_roots nodes edges g) of [c] \<Rightarrow> Inr c | _ \<Rightarrow> Inl AmbiguousEntry))"

definition js_true :: "js_value option \<Rightarrow> bool" where
  "js_true v = (v = Some (JBool True))"

definition active_context :: "js_value \<Rightarrow> bool" where
  "active_context config =
     (case js_get config ''context'' of
        None \<Rightarrow> False
      | Some c \<Rightarrow> js_true (js_get c ''publishOutput'') \<or> js_true (js_get c ''includeRunInput'')
          \<or> (case js_get c ''includeNodeOutputs'' of Some (JArr xs) \<Rightarrow> xs \<noteq> [] | _ \<Rightarrow> False))"

text \<open>An agent block without conversation and active context becomes the simplest one.\<close>

definition plain_agent :: "workflow_node \<Rightarrow> workflow_node" where
  "plain_agent n =
     (let v = wn_config n in
      if active_context v
      then n\<lparr>wn_blockVersion := 2, wn_config := JObj [agent_field v, (''context'', value_or JNull v ''context'')]\<rparr>
      else n\<lparr>wn_blockVersion := 1, wn_config := JObj [agent_field v]\<rparr>)"

definition compiled_node :: "workflow_node \<Rightarrow> workflow_node" where
  "compiled_node n =
     (let m = n\<lparr>wn_config := parsed_config (wn_blockType n) (wn_blockVersion n) (wn_config n)\<rparr> in
      if context_agent n
      then (if wn_blockVersion n = 3 \<and> js_get (wn_config m) ''conversation'' \<noteq> None then m else plain_agent m)
      else m)"

definition compileWorkflowV2ExecutionPlan :: "workflow_definition \<Rightarrow> agent_definition list \<Rightarrow> plan_error + generic_plan" where
  "compileWorkflowV2ExecutionPlan w agents =
     (if \<not> workflowDefinitionV2Schema w then Inl WorkflowInvalid
      else case workflowAgentReferences w of
        Inl _ \<Rightarrow> Inl WorkflowInvalid
      | Inr ids \<Rightarrow>
          (case js_find (\<lambda>i. i \<notin> ag_id ` set agents) ids of
             Some i \<Rightarrow> Inl (MissingAgent i)
           | None \<Rightarrow>
               bindR (graphEntryNode (wd_nodes w) (wd_edges w)) (\<lambda>entry.
                 let plan = \<lparr>gp_nodes = map compiled_node (wd_nodes w), gp_edges = workflow_graph w, gp_entryNodeId = entry,
                             gp_terminalNodeId = hd (graph_terminals (wd_nodes w) (declared_graph (wd_edges w))),
                             gp_maxStepExecutions = wd_maxStepExecutions w\<rparr>
                 in if genericWorkflowExecutionPlanSchema plan then Inr plan else Inl PlanInvalid)))"

definition projected_node :: "workflow_node \<Rightarrow> workflow_node" where
  "projected_node n = (if wn_blockType n = ''agent'' \<and> wn_blockVersion n = 3 then plain_agent n else n)"

definition projectExecutionPlanForRuntime :: "generic_plan \<Rightarrow> plan_error + generic_plan" where
  "projectExecutionPlanForRuntime p =
     (let q = p\<lparr>gp_nodes := map projected_node (gp_nodes p)\<rparr> in
      if genericWorkflowExecutionPlanSchema q then Inr q else Inl PlanInvalid)"

subsection \<open>Admission\<close>

fun connections_ok :: "agent_definition list \<Rightarrow> string set \<Rightarrow> string list \<Rightarrow> plan_error + unit" where
  "connections_ok agents available [] = Inr ()"
| "connections_ok agents available (i # is) =
     (case by_key ag_id agents i of
        None \<Rightarrow> Inl (MissingAgent i)
      | Some a \<Rightarrow>
          if ag_connectionKey a \<notin> available then Inl (ConnectionUnavailable (ag_connectionKey a))
          else connections_ok agents available is)"

definition validateWorkflowReferences :: "workflow_definition \<Rightarrow> agent_definition list \<Rightarrow> string set \<Rightarrow> plan_error + unit" where
  "validateWorkflowReferences w agents available =
     bindR (compileWorkflowV2ExecutionPlan w agents) (\<lambda>_.
       case workflowAgentReferences w of Inl _ \<Rightarrow> Inl WorkflowInvalid | Inr ids \<Rightarrow> connections_ok agents available ids)"

definition first_node :: "workflow_definition \<Rightarrow> string option \<Rightarrow> workflow_node option" where
  "first_node w i = js_find (\<lambda>n. Some (wn_id n) = i) (wd_nodes w)"

definition agent_of :: "agent_definition list \<Rightarrow> workflow_node \<Rightarrow> agent_definition option" where
  "agent_of agents n = (case js_str (js_get (wn_config n) ''agentId'') of None \<Rightarrow> None | Some i \<Rightarrow> by_key ag_id agents i)"

definition adapter_of :: "connection_identity list \<Rightarrow> agent_definition \<Rightarrow> string option" where
  "adapter_of connections a = map_option cn_adapter (by_key cn_key connections (ag_connectionKey a))"

definition option_field :: "agent_definition \<Rightarrow> string \<Rightarrow> js_value option" where
  "option_field a k = (case ag_adapterOptions a of None \<Rightarrow> None | Some v \<Rightarrow> js_get v k)"

definition js_truthy :: "js_value option \<Rightarrow> bool" where
  "js_truthy v =
     (case v of None \<Rightarrow> False | Some JNull \<Rightarrow> False | Some (JBool b) \<Rightarrow> b | Some (JNum n) \<Rightarrow> n \<noteq> 0 | Some (JStr s) \<Rightarrow> s \<noteq> [] | _ \<Rightarrow> True)"

definition conversation_ok :: "workflow_definition \<Rightarrow> agent_definition list \<Rightarrow> connection_identity list \<Rightarrow> workflow_node \<Rightarrow> plan_error + unit" where
  "conversation_ok w agents connections n =
     (if conversation_source n = None then Inr ()
      else
        (let source = first_node w (conversation_source n);
             targetAgent = agent_of agents n;
             sourceAgent = (case source of Some s \<Rightarrow> if wn_blockType s = ''agent'' then agent_of agents s else None | None \<Rightarrow> None)
         in case (targetAgent, sourceAgent) of
              (Some ta, Some sa) \<Rightarrow>
                if adapter_of connections ta \<noteq> Some ''codex-runner'' \<or> adapter_of connections sa \<noteq> Some ''codex-runner''
                   \<or> ag_connectionKey ta \<noteq> ag_connectionKey sa \<or> option_field ta ''environmentKey'' \<noteq> option_field sa ''environmentKey''
                   \<or> js_truthy (option_field ta ''managedGit'') \<noteq> js_truthy (option_field sa ''managedGit'')
                   \<or> js_truthy (option_field ta ''continueFrom'')
                then Inl ConversationSourceIncompatible else Inr ()
            | _ \<Rightarrow> Inl ConversationSourceInvalid))"

definition publish_ok :: "workflow_definition \<Rightarrow> agent_definition list \<Rightarrow> connection_identity list \<Rightarrow> workflow_node \<Rightarrow> plan_error + unit" where
  "publish_ok w agents connections n =
     (if wn_blockType n \<noteq> ''publish-github-pr'' then Inr ()
      else case first_node w (js_str (js_get (wn_config n) ''sourceNodeId'')) of
        None \<Rightarrow> Inl PublishSourceNotAgent
      | Some s \<Rightarrow>
          if wn_blockType s \<noteq> ''agent'' then Inl PublishSourceNotAgent
          else case agent_of agents s of
            None \<Rightarrow> Inl PublishSourceAgentMissing
          | Some a \<Rightarrow>
              if adapter_of connections a \<noteq> Some ''codex-runner'' then Inl PublishSourceNotCodexRunner
              else if option_field a ''managedGit'' \<noteq> Some (JBool True) then Inl PublishSourceManagedGitRequired
              else (case option_field a ''environmentKey'' of
                      Some (JStr k) \<Rightarrow> if js_trim k = [] then Inl PublishSourceEnvironmentRequired else Inr ()
                    | _ \<Rightarrow> Inl PublishSourceEnvironmentRequired))"

definition validatePublishGitHubPrAuthoringSources ::
  "workflow_definition \<Rightarrow> agent_definition list \<Rightarrow> connection_identity list \<Rightarrow> plan_error + unit" where
  "validatePublishGitHubPrAuthoringSources w agents connections =
     bindR (mapR (conversation_ok w agents connections) (wd_nodes w)) (\<lambda>_.
     bindR (mapR (publish_ok w agents connections) (wd_nodes w)) (\<lambda>_. Inr ()))"

definition environment_ok :: "workflow_definition \<Rightarrow> agent_definition list \<Rightarrow> string set \<Rightarrow> workflow_node \<Rightarrow> plan_error + unit" where
  "environment_ok w agents managed n =
     (if wn_blockType n \<noteq> ''publish-github-pr'' then Inr ()
      else
        (let a = the (agent_of agents (the (first_node w (js_str (js_get (wn_config n) ''sourceNodeId''))))) in
         if the (js_str (option_field a ''environmentKey'')) \<in> managed then Inr () else Inl PublishSourceUnavailable))"

definition validatePublishGitHubPrSources ::
  "workflow_definition \<Rightarrow> agent_definition list \<Rightarrow> connection_identity list \<Rightarrow> string set \<Rightarrow> plan_error + unit" where
  "validatePublishGitHubPrSources w agents connections managed =
     bindR (validatePublishGitHubPrAuthoringSources w agents connections) (\<lambda>_.
     bindR (mapR (environment_ok w agents managed) (wd_nodes w)) (\<lambda>_. Inr ()))"

definition validateWorkflowRunAdmissionSources ::
  "workflow_definition \<Rightarrow> agent_definition list \<Rightarrow> connection_identity list \<Rightarrow> string set \<Rightarrow> string set \<Rightarrow> plan_error + unit" where
  "validateWorkflowRunAdmissionSources w agents connections available managed =
     bindR (validatePublishGitHubPrSources w agents connections managed) (\<lambda>_. validateWorkflowReferences w agents available)"

section \<open>The blocks of a validated definition\<close>

lemma block_key_inject:
  assumes "block_key t v = block_key t' v'"
  shows "t = t' \<and> v = v'"
proof -
  have no: "CHR ''@'' \<notin> set (rev (show_int n))" for n by (auto simp: digit_def code_def dest: show_int_chars)
  have "rev (show_int v) @ CHR ''@'' # rev t = rev (show_int v') @ CHR ''@'' # rev t'"
    using arg_cong [OF assms, of rev] by (simp add: block_key_def)
  moreover have "takeWhile (\<lambda>c. c \<noteq> CHR ''@'') (rev (show_int n) @ CHR ''@'' # r) = rev (show_int n)"
    "dropWhile (\<lambda>c. c \<noteq> CHR ''@'') (rev (show_int n) @ CHR ''@'' # r) = CHR ''@'' # r" for n r
    using no [of n] by (simp_all add: takeWhile_append dropWhile_append)
  ultimately have "rev (show_int v) = rev (show_int v') \<and> rev t = rev t'" by (metis list.inject)
  then show ?thesis using show_int_inject by simp
qed

lemma key_iff: "block_key t v = block_key t' v' \<longleftrightarrow> t = t' \<and> v = v'"
  using block_key_inject by blast

lemma resolved_block: "resolve_block the_blocks t v = Inr b \<Longrightarrow> b \<in> set the_blocks \<and> bk_type b = t \<and> bk_version b = v"
  by (auto simp: resolve_block_def key_iff split: option.split_asm dest!: js_find_Some)

lemma validated_cases:
  assumes "validate_block the_blocks t v c = Inr ()"
  obtains "t = ''agent''" "v = 1" "agentBlockConfigSchema c" | "t = ''agent''" "v = 2" "agentBlockV2ConfigSchema c"
    | "t = ''agent''" "v = 3" "agentBlockV3ConfigSchema c" | "t = ''condition''" "v = 1" "conditionBlockConfigSchema c"
    | "t = ''approval''" "v = 1" "approvalBlockConfigSchema c" | "t = ''publish-github-pr''" "v = 1" "publishGitHubPrBlockConfigSchema c"
    | "t = ''subworkflow''" "v = 1" "subworkflowBlockConfigSchema c" | "t = ''join''" "v = 1" "joinBlockConfigSchema c"
proof -
  obtain b where b: "resolve_block the_blocks t v = Inr b" "bk_configSchema b c"
    using assms by (auto simp: validate_block_def bindR_Inr split: if_split_asm)
  from resolved_block [OF b(1)] have "b \<in> set the_blocks" "bk_type b = t" "bk_version b = v" by auto
  with b(2) that show ?thesis by (auto simp: the_blocks_def agent_block_def simple_block_def)
qed

lemmas schema_defs = agentBlockConfigSchema_def agentBlockV2ConfigSchema_def agentBlockV3ConfigSchema_def conditionBlockConfigSchema_def
  approvalBlockConfigSchema_def publishGitHubPrBlockConfigSchema_def joinBlockConfigSchema_def

lemma js_get_object: "js_get (JObj kvs) k = map_of (rev kvs) k"
  by (simp add: js_get_def)

lemma strict_object_list: "strict_object keys (JObj kvs) \<longleftrightarrow> fst ` set kvs \<subseteq> set keys"
  by (auto simp: strict_object_def js_is_object_def js_keys_def list_all_iff)

lemmas object_simps = js_get_object strict_object_list field_ok_def optional_ok_def value_or_def

lemma context_planned: "agentContextSchema c \<Longrightarrow> plan_context (parsed_context c)"
  by (auto simp: agentContextSchema_def plan_context_def parsed_context_def object_simps is_bool_def is_id_list_def MAX_AGENT_CONTEXT_SOURCES_def
      split: option.split_asm)

text \<open>An agent block as the compiler sees it: its identifier, its context and its conversation.\<close>

definition agent_config :: "js_value \<Rightarrow> js_value" where
  "agent_config v = JObj (agent_field v # context_field v @ conversation_field v)"

lemma agent_config_get:
  "js_get (agent_config v) ''agentId'' = Some (value_or JNull v ''agentId'')"
  "js_get (agent_config v) ''context'' = map_option parsed_context (js_get v ''context'')"
  "js_get (agent_config v) ''conversation'' = map_option (\<lambda>c. JObj [(''sourceNodeId'', value_or JNull c ''sourceNodeId'')]) (js_get v ''conversation'')"
  by (auto simp: agent_config_def js_get_object agent_field_def context_field_def conversation_field_def split: option.split)

lemma plain_agent_planned:
  assumes "wn_blockType n = ''agent''" and "block_id_ok (wn_id n)" and "field_ok is_id (wn_config n) ''agentId''"
    and "optional_ok plan_context (wn_config n) ''context''"
  shows "genericPlanNode (plain_agent n)"
  using assms
  by (auto simp: plain_agent_def Let_def genericPlanNode_def object_simps agent_field_def active_context_def split: option.split_asm option.split)

lemma agent_planned:
  assumes "wn_blockType n = ''agent''" and "wn_blockVersion n \<in> {2, 3}" and "block_id_ok (wn_id n)" and "field_ok is_id (wn_config n) ''agentId''"
    and "optional_ok agentContextSchema (wn_config n) ''context''"
    and "wn_blockVersion n = 3 \<longrightarrow> optional_ok agentConversationSchema (wn_config n) ''conversation''"
    and "wn_blockVersion n = 2 \<longrightarrow> js_get (wn_config n) ''conversation'' = None"
  shows "genericPlanNode (compiled_node n)"
proof -
  let ?v = "wn_config n" let ?m = "n\<lparr>wn_config := agent_config ?v\<rparr>"
  have cfg: "parsed_config (wn_blockType n) (wn_blockVersion n) ?v = agent_config ?v"
    using assms(1,2,7) by (auto simp: parsed_config_def agent_config_def conversation_field_def)
  have m: "field_ok is_id (agent_config ?v) ''agentId''" "optional_ok plan_context (agent_config ?v) ''context''"
    using assms(4,5) context_planned by (auto simp: field_ok_def optional_ok_def agent_config_get value_or_def split: option.split_asm option.split)
  have "genericPlanNode (plain_agent ?m)" using assms(1,3) m by (intro plain_agent_planned) simp_all
  moreover have "genericPlanNode ?m" if v: "wn_blockVersion n = 3" "js_get ?v ''conversation'' \<noteq> None"
  proof -
    have "optional_ok agentConversationSchema (agent_config ?v) ''conversation''"
      using assms(6) v by (auto simp: optional_ok_def agent_config_get agentConversationSchema_def object_simps split: option.split_asm option.split)
    moreover have "strict_object [''agentId'', ''context'', ''conversation''] (agent_config ?v)"
      by (auto simp: agent_config_def strict_object_list agent_field_def context_field_def conversation_field_def split: option.split_asm)
    ultimately show ?thesis using assms(1,3) m v(1) by (simp add: genericPlanNode_def Let_def)
  qed
  ultimately show ?thesis
    unfolding compiled_node_def cfg Let_def using assms(1,2) by (auto simp: context_agent_def agent_config_get)
qed

lemma strict_object_get: "strict_object keys v \<Longrightarrow> k \<notin> set keys \<Longrightarrow> js_get v k = None"
  by (cases v) (auto simp: strict_object_list js_get_object map_of_eq_None_iff, auto simp: js_get_def)

lemma compiled_planned:
  assumes "node_shape n" and "validate_block the_blocks (wn_blockType n) (wn_blockVersion n) (wn_config n) = Inr ()"
    and "wn_blockType n \<noteq> ''subworkflow''"
  shows "genericPlanNode (compiled_node n)"
proof -
  have i: "block_id_ok (wn_id n)" using assms(1) by (simp add: node_shape_def)
  note simps = compiled_node_def Let_def context_agent_def genericPlanNode_def parsed_config_def object_simps
  from assms(2) show ?thesis
  proof (cases rule: validated_cases)
    case 1
    then show ?thesis using i by (auto simp: simps agentBlockConfigSchema_def agent_field_def split: option.split_asm)
  next
    case 2
    then show ?thesis using i by (intro agent_planned) (auto simp: agentBlockV2ConfigSchema_def strict_object_get [of "[''agentId'', ''context'']"])
  next
    case 3
    then show ?thesis using i by (intro agent_planned) (auto simp: agentBlockV3ConfigSchema_def)
  next
    case 4
    then show ?thesis using i by (auto simp: simps conditionBlockConfigSchema_def is_bool_def split: option.split_asm)
  next
    case 5
    then show ?thesis using i
      by (auto simp: simps approvalBlockConfigSchema_def is_trimmed_text_def trimmed_value_def APPROVAL_MESSAGE_MAX_LENGTH_def
          split: option.split_asm js_value.split_asm)
  next
    case 6
    then show ?thesis using i
      by (auto simp: simps publishGitHubPrBlockConfigSchema_def is_trimmed_text_def trimmed_value_def split: option.split_asm js_value.split_asm)
  next
    case 7
    then show ?thesis using assms(3) by simp
  next
    case 8
    then show ?thesis using i by (auto simp: simps)
  qed
qed

lemma compiled_same: "wn_id (compiled_node n) = wn_id n" "wn_blockType (compiled_node n) = wn_blockType n"
  by (simp_all add: compiled_node_def plain_agent_def Let_def)

lemma ports_planned: "resolve_port the_blocks t v d p = Inr q \<Longrightarrow> block_id_ok q"
proof -
  assume "resolve_port the_blocks t v d p = Inr q"
  then obtain b where b: "resolve_block the_blocks t v = Inr b" "q \<in> bp_id ` set (block_ports b d)"
    by (auto simp: resolve_port_def bindR_Inr Let_def list_ex_iff split: if_split_asm) (metis image_eqI)
  have "list_all (\<lambda>b. list_all (\<lambda>x. block_id_ok (bp_id x)) (bk_inputs b @ bk_outputs b)) the_blocks"
    by (simp add: the_blocks_def agent_block_def simple_block_def plain_port_def block_id_ok_def slug_pattern_def lower_alnum_def lower_alpha_def
        digit_def code_def)
  then show ?thesis using b resolved_block [OF b(1)] by (cases d) (auto simp: list_all_iff block_ports_def)
qed

section \<open>Entry and terminal of the plan\<close>

lemma declared_links: "links (declared_graph es) = (\<lambda>e. (we_source e, we_target e)) ` set es"
  by (force simp: links_edges declared_graph_def)

lemma no_incoming: "incoming es i = [] \<longleftrightarrow> i \<notin> snd ` links es"
  by (force simp: incoming_def filter_empty_conv links_edges)

lemma no_outgoing: "outgoing es i = [] \<longleftrightarrow> i \<notin> fst ` links es"
  by (force simp: outgoing_def filter_empty_conv links_edges)

lemma same_links:
  assumes "links es = links es'"
  shows "graph_roots nodes es = graph_roots nodes es'" "graph_terminals nodes es = graph_terminals nodes es'"
    "cycle_roots nodes ds es = cycle_roots nodes ds es'"
  using assms by (simp_all add: graph_roots_def graph_terminals_def cycle_roots_def no_incoming no_outgoing canReach_iff canReach_def [symmetric])

lemma accepted_entry:
  assumes "workflowDefinitionV2Schema w" and "graph_entries (wd_nodes w) (wd_edges w) (workflow_graph w) = [e]"
    and "graph_terminals (wd_nodes w) (workflow_graph w) = [t]"
  shows "graphEntryNode (wd_nodes w) (wd_edges w) = Inr e" "hd (graph_terminals (wd_nodes w) (declared_graph (wd_edges w))) = t"
proof -
  have "links (declared_graph (wd_edges w)) = links (workflow_graph w)"
    using accepted_facts(2) [OF assms(1)] by (simp add: declared_links workflow_links_def)
  note same = same_links [OF this]
  show "graphEntryNode (wd_nodes w) (wd_edges w) = Inr e"
    using assms(2) by (auto simp: graphEntryNode_def Let_def same graph_entries_def split: if_split_asm)
  show "hd (graph_terminals (wd_nodes w) (declared_graph (wd_edges w))) = t" using assms(3) by (simp add: same)
qed

section \<open>Compilation\<close>

lemma resolved_from:
  "g \<in> set (fst (resolve_edges nodes k semantic ds)) \<Longrightarrow> \<exists>e \<in> set ds. \<exists>j. resolve_edge nodes j e = Inr g"
  by (induction nodes k semantic ds rule: resolve_edges.induct) (auto simp: case_prod_beta Let_def split: sum.split_asm)

lemma resolved_length: "length (fst (resolve_edges nodes k semantic ds)) \<le> length ds"
  by (induction nodes k semantic ds rule: resolve_edges.induct) (auto simp: case_prod_beta Let_def split: sum.split)

lemma resolved_ports: "resolve_edge nodes j e = Inr g \<Longrightarrow> block_id_ok (ge_sourcePort g) \<and> block_id_ok (ge_targetPort g)"
  by (auto simp: resolve_edge_def split: option.split_asm sum.split_asm dest: ports_planned)

lemma graph_planned:
  assumes "workflow_shape w" and "g \<in> set (workflow_graph w)"
  shows "block_id_ok (ge_source g) \<and> block_id_ok (ge_sourcePort g) \<and> block_id_ok (ge_target g) \<and> block_id_ok (ge_targetPort g)"
proof -
  obtain e j where e: "e \<in> set (wd_edges w)" "resolve_edge (wd_nodes w) j e = Inr g"
    using resolved_from assms(2) unfolding workflow_graph_def by blast
  moreover have "edge_shape e" using assms(1) e(1) by (simp add: workflow_shape_def list_all_iff)
  ultimately show ?thesis using resolve_edge_ends [OF e(2)] resolved_ports [OF e(2)] by (simp add: edge_shape_def)
qed

lemma validated_nodes:
  "node_id_issues k seen ns = [] \<Longrightarrow> n \<in> set ns \<Longrightarrow> validate_block the_blocks (wn_blockType n) (wn_blockVersion n) (wn_config n) = Inr ()"
  by (induction k seen ns rule: node_id_issues.induct) (auto split: sum.split_asm)

lemma projected_planned:
  assumes "genericPlanNode n"
  shows "genericPlanNode (projected_node n) \<and> \<not> (wn_blockType (projected_node n) = ''agent'' \<and> wn_blockVersion (projected_node n) = 3)"
proof (cases "wn_blockType n = ''agent'' \<and> wn_blockVersion n = 3")
  case True
  then have "genericPlanNode (plain_agent n)" using assms by (intro plain_agent_planned) (simp_all add: genericPlanNode_def Let_def)
  then show ?thesis using True by (simp add: projected_node_def plain_agent_def Let_def)
qed (use assms in \<open>auto simp: projected_node_def\<close>)

lemma project_planned:
  assumes "genericWorkflowExecutionPlanSchema p"
  shows "\<exists>q. projectExecutionPlanForRuntime p = Inr q \<and> list_all (\<lambda>n. \<not> (wn_blockType n = ''agent'' \<and> wn_blockVersion n = 3)) (gp_nodes q)"
proof -
  have "list_all genericPlanNode (gp_nodes p)" using assms by (simp add: genericWorkflowExecutionPlanSchema_def)
  then have "list_all genericPlanNode (map projected_node (gp_nodes p))"
    "list_all (\<lambda>n. \<not> (wn_blockType n = ''agent'' \<and> wn_blockVersion n = 3)) (map projected_node (gp_nodes p))"
    using projected_planned by (fastforce simp: list_all_iff)+
  then show ?thesis using assms by (simp add: projectExecutionPlanForRuntime_def Let_def genericWorkflowExecutionPlanSchema_def)
qed

text \<open>What a workflow without calls of other workflows and with known agents compiles to.\<close>

lemma plain_workflow_compiles:
  assumes "workflowDefinitionV2Schema w" and "list_all (\<lambda>n. wn_blockType n \<noteq> ''subworkflow'') (wd_nodes w)"
    and "workflowAgentReferences w = Inr ids" and "set ids \<subseteq> ag_id ` set agents"
  shows "\<exists>p q. compileWorkflowV2ExecutionPlan w agents = Inr p
    \<and> map wn_id (gp_nodes p) = map wn_id (wd_nodes w) \<and> map wn_blockType (gp_nodes p) = map wn_blockType (wd_nodes w)
    \<and> links (gp_edges p) = workflow_links w
    \<and> (\<forall>i \<in> workflow_ids w. (gp_entryNodeId p, i) \<in> (workflow_links w)\<^sup>* \<and> (i, gp_terminalNodeId p) \<in> (workflow_links w)\<^sup>*)
    \<and> projectExecutionPlanForRuntime p = Inr q \<and> list_all (\<lambda>n. \<not> (wn_blockType n = ''agent'' \<and> wn_blockVersion n = 3)) (gp_nodes q)"
proof -
  have shape: "workflow_shape w" and ids: "node_id_issues 0 [] (wd_nodes w) = []"
    using assms(1) by (simp_all add: workflowDefinitionV2Schema_def workflow_issues_def)
  obtain e t where et: "graph_entries (wd_nodes w) (wd_edges w) (workflow_graph w) = [e]" "graph_terminals (wd_nodes w) (workflow_graph w) = [t]"
    "{e, t} \<subseteq> workflow_ids w" "\<forall>i \<in> workflow_ids w. (e, i) \<in> (workflow_links w)\<^sup>* \<and> (i, t) \<in> (workflow_links w)\<^sup>*"
    using accepted_connected [OF assms(1)] by (elim exE conjE)
  define p where "p = \<lparr>gp_nodes = map compiled_node (wd_nodes w), gp_edges = workflow_graph w, gp_entryNodeId = e, gp_terminalNodeId = t,
    gp_maxStepExecutions = wd_maxStepExecutions w\<rparr>"
  have "genericPlanNode (compiled_node n)" if "n \<in> set (wd_nodes w)" for n
    using that shape assms(2) validated_nodes [OF ids that] by (intro compiled_planned) (simp_all add: workflow_shape_def list_all_iff)
  moreover have "block_id_ok i" if "i \<in> workflow_ids w" for i
    using that shape by (auto simp: workflow_ids_def workflow_shape_def list_all_iff node_shape_def)
  moreover have "length (workflow_graph w) \<le> MAX_STEP_EXECUTIONS"
    using resolved_length [of "wd_nodes w" 0 "[]" "wd_edges w"] shape by (simp add: workflow_graph_def workflow_shape_def)
  ultimately have plan: "genericWorkflowExecutionPlanSchema p"
    using shape et(3) graph_planned [OF shape] by (simp add: genericWorkflowExecutionPlanSchema_def p_def workflow_shape_def list_all_iff)
  have "js_find (\<lambda>i. i \<notin> ag_id ` set agents) ids = None" using assms(4) by (auto simp: js_find_None)
  then have "compileWorkflowV2ExecutionPlan w agents = Inr p"
    using assms(1,3) plan accepted_entry [OF assms(1) et(1,2)] by (simp add: compileWorkflowV2ExecutionPlan_def Let_def p_def)
  moreover obtain q where "projectExecutionPlanForRuntime p = Inr q"
    "list_all (\<lambda>n. \<not> (wn_blockType n = ''agent'' \<and> wn_blockVersion n = 3)) (gp_nodes q)" using project_planned [OF plan] by blast
  ultimately show ?thesis
    using et(4) accepted_facts(2) [OF assms(1)] by (intro exI [of _ p] exI [of _ q]) (simp add: p_def compiled_same comp_def)
qed

lemma compiled_subworkflow: "wn_blockType n = ''subworkflow'' \<Longrightarrow> \<not> genericPlanNode (compiled_node n)"
  by (simp add: compiled_node_def Let_def context_agent_def genericPlanNode_def)

lemma subworkflow_not_planned:
  assumes "n \<in> set (wd_nodes w)" and "wn_blockType n = ''subworkflow''"
  shows "compileWorkflowV2ExecutionPlan w agents \<noteq> Inr p"
proof
  assume "compileWorkflowV2ExecutionPlan w agents = Inr p"
  then have "list_all genericPlanNode (map compiled_node (wd_nodes w))"
    by (auto simp: compileWorkflowV2ExecutionPlan_def Let_def bindR_def genericWorkflowExecutionPlanSchema_def
        split: if_splits sum.splits option.splits)
  with assms compiled_subworkflow show False by (auto simp: list_all_iff)
qed

text \<open>C13. A workflow that passes the validation compiles exactly when its agents are known and it has no subworkflow blocks, which the
  composition removes beforehand. Otherwise the error names a missing agent, or the plan is invalid because of the subworkflow. The plan
  has the nodes and links of the workflow, starts at a node from which every other can be reached and ends at one that every other
  leads to; and it can be handed to the Runtime, without any conversation.\<close>

theorem accepted_workflow_compiles:
  assumes "workflowDefinitionV2Schema w" and "workflowAgentReferences w = Inr ids"
  shows "case compileWorkflowV2ExecutionPlan w agents of
      Inl e \<Rightarrow> (\<exists>i \<in> set ids. i \<notin> ag_id ` set agents \<and> e = MissingAgent i)
        \<or> set ids \<subseteq> ag_id ` set agents \<and> (\<exists>n \<in> set (wd_nodes w). wn_blockType n = ''subworkflow'') \<and> e = PlanInvalid
    | Inr p \<Rightarrow> set ids \<subseteq> ag_id ` set agents \<and> list_all (\<lambda>n. wn_blockType n \<noteq> ''subworkflow'') (wd_nodes w)
        \<and> map wn_id (gp_nodes p) = map wn_id (wd_nodes w) \<and> map wn_blockType (gp_nodes p) = map wn_blockType (wd_nodes w)
        \<and> links (gp_edges p) = workflow_links w
        \<and> (\<forall>i \<in> workflow_ids w. (gp_entryNodeId p, i) \<in> (workflow_links w)\<^sup>* \<and> (i, gp_terminalNodeId p) \<in> (workflow_links w)\<^sup>*)
        \<and> (\<exists>q. projectExecutionPlanForRuntime p = Inr q
             \<and> list_all (\<lambda>n. \<not> (wn_blockType n = ''agent'' \<and> wn_blockVersion n = 3)) (gp_nodes q))"
proof (cases "js_find (\<lambda>i. i \<notin> ag_id ` set agents) ids")
  case (Some i)
  with assms js_find_Some [OF Some] show ?thesis by (auto simp: compileWorkflowV2ExecutionPlan_def)
next
  case None
  then have known: "set ids \<subseteq> ag_id ` set agents" by (auto simp: js_find_None)
  show ?thesis
  proof (cases "list_all (\<lambda>n. wn_blockType n \<noteq> ''subworkflow'') (wd_nodes w)")
    case True
    from plain_workflow_compiles [OF assms(1) True assms(2) known] known True show ?thesis by auto
  next
    case False
    then obtain n where n: "n \<in> set (wd_nodes w)" "wn_blockType n = ''subworkflow''" by (auto simp: list_all_iff)
    obtain e t where "graph_entries (wd_nodes w) (wd_edges w) (workflow_graph w) = [e]" "graph_terminals (wd_nodes w) (workflow_graph w) = [t]"
      using accepted_connected [OF assms(1)] by (elim exE conjE)
    from accepted_entry [OF assms(1) this] have "compileWorkflowV2ExecutionPlan w agents = Inl PlanInvalid \<or> (\<exists>p. compileWorkflowV2ExecutionPlan w agents = Inr p)"
      using assms None by (auto simp: compileWorkflowV2ExecutionPlan_def Let_def bindR_def)
    with subworkflow_not_planned [OF n] known n show ?thesis by auto
  qed
qed

definition loop_agents :: "agent_definition list" where
  "loop_agents = [\<lparr>ag_id = ''a'', ag_connectionKey = ''k'', ag_tools = None, ag_adapterOptions = None\<rparr>,
     \<lparr>ag_id = ''b'', ag_connectionKey = ''k'', ag_tools = None, ag_adapterOptions = None\<rparr>]"

theorem accepted_workflow_compiles_witness:
  "(\<exists>p. compileWorkflowV2ExecutionPlan review_loop loop_agents = Inr p \<and> links (gp_edges p) = workflow_links review_loop
      \<and> map wn_id (gp_nodes p) = map wn_id (wd_nodes review_loop))
   \<and> (\<exists>i \<in> {''a'', ''b''}. compileWorkflowV2ExecutionPlan review_loop [] = Inl (MissingAgent i))"
proof -
  have refs: "workflowAgentReferences review_loop = Inr [''a'', ''b'', ''a'']" by code_simp
  have plain: "\<not> (\<exists>n \<in> set (wd_nodes review_loop). wn_blockType n = ''subworkflow'')" by code_simp
  note law = accepted_workflow_compiles [OF review_loop_accepted refs]
  from law [of loop_agents] plain have "\<exists>p. compileWorkflowV2ExecutionPlan review_loop loop_agents = Inr p
      \<and> links (gp_edges p) = workflow_links review_loop \<and> map wn_id (gp_nodes p) = map wn_id (wd_nodes review_loop)"
    by (auto simp: loop_agents_def split: sum.split_asm)
  moreover from law [of "[]"] have "\<exists>i \<in> {''a'', ''b''}. compileWorkflowV2ExecutionPlan review_loop [] = Inl (MissingAgent i)"
    by (auto split: sum.split_asm)
  ultimately show ?thesis by blast
qed

text \<open>A definition of the first version that is accepted is a chain of steps, within its limit of executions.\<close>

lemma steps_ok_chain:
  "steps_ok n k ids ss \<Longrightarrow> distinct (map ws_id ss) \<and> set ids \<inter> ws_id ` set ss = {}
     \<and> (\<forall>j < length ss. (ws_input (ss ! j) = RunInput \<longleftrightarrow> k + j = 0) \<and> (ws_onSuccess (ss ! j) = CompleteRun \<longleftrightarrow> k + j + 1 = n))"
proof (induction n k ids ss rule: steps_ok.induct)
  case (2 n k ids s ss)
  then have IH: "distinct (map ws_id ss)" "set (ws_id s # ids) \<inter> ws_id ` set ss = {}"
    "\<forall>j < length ss. (ws_input (ss ! j) = RunInput \<longleftrightarrow> k + 1 + j = 0) \<and> (ws_onSuccess (ss ! j) = CompleteRun \<longleftrightarrow> k + 1 + j + 1 = n)"
    by simp_all
  moreover have "ws_id s \<notin> set ids" "ws_input s = RunInput \<longleftrightarrow> k = 0" "ws_onSuccess s = CompleteRun \<longleftrightarrow> k + 1 = n"
    using 2(2) by (simp_all split: if_split_asm)
  ultimately show ?case by (auto simp: nth_Cons split: nat.split)
qed simp

lemma v1_chain:
  assumes "historicalWorkflowDefinitionV1Schema w"
  shows "distinct (map ws_id (w1_steps w)) \<and> ws_id (last (w1_steps w)) = w1_resultStepId w
    \<and> (\<forall>j < length (w1_steps w). (ws_input (w1_steps w ! j) = RunInput \<longleftrightarrow> j = 0)
         \<and> (ws_onSuccess (w1_steps w ! j) = CompleteRun \<longleftrightarrow> j + 1 = length (w1_steps w)))"
  using assms steps_ok_chain [of "length (w1_steps w)" 0 "[]" "w1_steps w"]
  by (auto simp: historicalWorkflowDefinitionV1Schema_def js_last_def split: if_split_asm)

end
