(* ===== verification/Workflow_Identity.thy ===== *)
theory Workflow_Identity
  imports Workflow_Blocks "HOL-Library.Word"
begin

text \<open>
  The identities of composed workflows in \<^verbatim>\<open>lib/workflow-definitions.ts\<close>: the key of a path, the digest over four
  32-bit hashes and the scoped identifiers. \<^verbatim>\<open>Math.imul\<close> and \<^verbatim>\<open>^\<close> work on 32-bit words; the digest reads the
  words unsigned. The lemmas show that a key determines its path and that a scoped identifier is an accepted
  identifier whatever the path is.
\<close>

unbundle bit_operations_syntax

section \<open>Definitions\<close>

definition key_segment :: "string \<Rightarrow> string" where
  "key_segment value = show_nat (utf8_length value) @ '':'' @ value"

definition pathKey :: "string list \<Rightarrow> string" where
  "pathKey segments = js_join ''|'' (map key_segment segments)"

definition hash_seeds :: "32 word list" where
  "hash_seeds = [2166136261, 2246822507, 3266489909, 668265263]"

definition hash_byte :: "nat \<Rightarrow> 32 word \<Rightarrow> 32 word" where
  "hash_byte byte hash = (hash XOR of_nat byte) * 16777619"

text \<open>\<^verbatim>\<open>(hash >>> 0).toString(16).padStart(8, "0")\<close>.\<close>

definition hex_word :: "32 word \<Rightarrow> string" where
  "hex_word hash = map (\<lambda>i. hex_digit (unat hash div 16 ^ i mod 16)) [7, 6, 5, 4, 3, 2, 1, 0]"

definition stableDigest :: "string \<Rightarrow> string" where
  "stableDigest value =
     (let bytes = concat (map utf8_bytes value)
      in concat (map (\<lambda>seed. hex_word (fold hash_byte bytes seed)) hash_seeds))"

definition scopedId :: "string \<Rightarrow> string list \<Rightarrow> string" where
  "scopedId kind segments = ''sw'' @ kind @ ''-'' @ stableDigest (pathKey segments)"

section \<open>Lemmas\<close>

subsection \<open>Keys\<close>

lemma utf8_length_append [simp]: "utf8_length (a @ b) = utf8_length a + utf8_length b"
  by (simp add: utf8_length_def)

lemma utf8_length_0: "utf8_length s = 0 \<longleftrightarrow> s = []"
  by (cases s) (auto simp: utf8_length_def)

lemma same_length_prefix:
  assumes "a @ x = b @ y" and "utf8_length a = utf8_length b"
  shows "a = b \<and> x = y"
  using assms by (auto simp: append_eq_append_conv2 utf8_length_0)

lemma colon_not_digit: "\<not> digit (CHR '':'')"
  by (simp add: digit_def code_def)

lemma split_at_colon:
  assumes "a @ CHR '':'' # x = b @ CHR '':'' # y" and "CHR '':'' \<notin> set a" and "CHR '':'' \<notin> set b"
  shows "a = b \<and> x = y"
  using assms by (induction a arbitrary: b) (auto simp: Cons_eq_append_conv)

lemma key_segment_inject:
  assumes "key_segment u @ x = key_segment v @ y"
  shows "u = v \<and> x = y"
proof -
  have digits: "CHR '':'' \<notin> set (show_nat n)" for n
    using show_nat_digits colon_not_digit by blast
  have "show_nat (utf8_length u) = show_nat (utf8_length v) \<and> u @ x = v @ y"
    using assms by (intro split_at_colon) (simp_all add: key_segment_def digits)
  then show ?thesis
    using same_length_prefix show_nat_inject by blast
qed

lemma key_segment_not_Nil [simp]: "key_segment v \<noteq> []"
  by (simp add: key_segment_def)

lemma pathKey_Cons: "pathKey (v # vs) = key_segment v @ (if vs = [] then [] else CHR ''|'' # pathKey vs)"
  by (cases vs) (simp_all add: pathKey_def)

lemma pathKey_Nil_iff: "pathKey vs = [] \<longleftrightarrow> vs = []"
proof (cases vs)
  case Nil
  then show ?thesis by (simp add: pathKey_def)
next
  case (Cons v vs')
  then show ?thesis by (simp add: pathKey_Cons)
qed

lemma pathKey_inject: "pathKey us = pathKey vs \<Longrightarrow> us = vs"
proof (induction us arbitrary: vs)
  case Nil
  then show ?case using pathKey_Nil_iff [of vs] by (simp add: pathKey_def)
next
  case (Cons u us)
  then have "vs \<noteq> []" by (auto simp: pathKey_Nil_iff [symmetric] pathKey_Cons)
  then obtain v vs' where vs: "vs = v # vs'" by (cases vs) auto
  from Cons.prems [unfolded vs pathKey_Cons] key_segment_inject
  have "u = v" and tail: "(if us = [] then [] else CHR ''|'' # pathKey us)
      = (if vs' = [] then [] else CHR ''|'' # pathKey vs')"
    by blast+
  from tail have "us = vs'"
    using Cons.IH [of vs'] by (cases "us = []"; cases "vs' = []") simp_all
  with \<open>u = v\<close> vs show ?case by simp
qed

subsection \<open>Digests\<close>

lemma length_stableDigest [simp]: "length (stableDigest value) = 32"
  by (simp add: stableDigest_def hash_seeds_def hex_word_def Let_def)

lemma stableDigest_hex: "list_all hex_lower (stableDigest value)"
  by (simp add: stableDigest_def hash_seeds_def hex_word_def Let_def hex_digit_lower)

lemma scoped_id_ok:
  assumes "kind = ''n'' \<or> kind = ''e''"
  shows "block_id_ok (scopedId kind segments)"
proof -
  have digest: "list_all lower_alnum (stableDigest v)" "stableDigest v \<noteq> []" for v
    using stableDigest_hex [of v] length_stableDigest [of v]
    by (auto simp: list_all_iff hex_lower_alnum simp del: length_stableDigest)
  have hyphen: "\<not> lower_alnum (CHR ''-'')"
    by (simp add: lower_alnum_def lower_alpha_def digit_def code_def)
  with digest have "CHR ''-'' \<notin> set (stableDigest v)" for v
    by (auto simp: list_all_iff)
  moreover have "list_all lower_alnum (''sw'' @ kind)" "CHR ''-'' \<notin> set (''sw'' @ kind)"
    using assms by (auto simp: lower_alnum_def lower_alpha_def code_def)
  ultimately show ?thesis
    using assms digest js_split_append_sep [of "CHR ''-''" "''sw'' @ kind" "stableDigest (pathKey segments)"]
    by (auto simp: block_id_ok_def slug_pattern_def scopedId_def js_split_plain)
qed

lemma scopedId_first: "scopedId kind segments = CHR ''s'' # CHR ''w'' # kind @ CHR ''-'' # stableDigest (pathKey segments)"
  by (simp add: scopedId_def)

end
