(* ===== verification/Workflow_Composition.thy ===== *)
theory Workflow_Composition
  imports Workflow_Plans Workflow_Identity Effect_Logic
begin

text \<open>
  The composition of workflows in \<^verbatim>\<open>lib/workflow-definitions.ts\<close>: reusable workflows are spliced into the graph of
  the root, their nodes and edges get scoped identifiers, and the provenance of every node is recorded; with the check
  that a change of a reusable workflow keeps its dependents composable.

  The state of a composition is the record \<open>composition_state\<close>: the dependencies in the order of their first use, the
  provenance and the claimed identifiers. Definitions have the second version of the schema, the only one of the type;
  the branches for other versions cannot be taken. The order of \<^verbatim>\<open>localeCompare\<close> is an argument.

  The recursion of \<open>expand\<close> ends because the stack of workflows grows and is bounded. The properties: the nodes of a
  composed workflow are exactly the nodes its provenance names, along acyclic paths of at most seven calls; and an
  update that is accepted leaves every transitive dependent composable.
\<close>

section \<open>Definitions\<close>

subsection \<open>Versions, provenance and errors\<close>

definition MAX_COMPOSITE_DEPTH :: nat where "MAX_COMPOSITE_DEPTH = 8"

record versioned_workflow =
  vr_definition :: workflow_definition
  vr_fileSha :: string

record invocation =
  iv_workflowId :: string
  iv_workflowName :: string
  iv_invocationNodeId :: string

record node_provenance =
  pv_executionNodeId :: string
  pv_rootNodeId :: string
  pv_workflowId :: string
  pv_workflowName :: string
  pv_semanticNodeId :: string
  pv_invocationPath :: "invocation list"
  pv_displayPath :: string

record composite_dependency =
  cd_workflowId :: string
  cd_revision :: string
  cd_definition :: workflow_definition
  cd_dependencyWorkflowIds :: "string list"

record composition_snapshot =
  sp_dependencies :: "composite_dependency list"
  sp_nodes :: "node_provenance list"

record composition_state =
  cm_used :: "(string \<times> composite_dependency) list"
  cm_provenance :: "node_provenance list"
  cm_claimed :: "(string \<times> string) list"

text \<open>\<open>DanglingEdge\<close> and \<open>NoTerminal\<close> are reads of a property of \<^verbatim>\<open>undefined\<close>.\<close>

datatype compose_error =
    BlockFailure registry_error
  | SubworkflowDepthExceeded
  | SubworkflowCycle "string list"
  | MissingSubworkflow string
  | SubworkflowNotExposed string
  | SubworkflowIdentityCollision
  | EntryFailure plan_error
  | NoTerminal
  | DanglingEdge
  | SubworkflowExpansionTooLarge
  | InvalidCompositeTerminal
  | CompositeRejected
  | SnapshotRejected
  | WorkflowDependencyIncompatible

type_synonym 'a composer = "(composition_state, compose_error, 'a) eff"

subsection \<open>Identities\<close>

definition claim :: "string \<Rightarrow> string \<Rightarrow> string \<Rightarrow> string composer" where
  "claim kind generated key =
     (let identity = kind @ '':'' @ generated
      in bnd (getS cm_claimed) (\<lambda>claimed.
         let previous = map_of claimed identity
         in if truthy previous \<and> previous \<noteq> Some key then throw SubworkflowIdentityCollision
            else bnd (modS (\<lambda>s. s\<lparr>cm_claimed := AList.update identity key (cm_claimed s)\<rparr>)) (\<lambda>_. ret generated)))"

definition semantic_path :: "invocation list \<Rightarrow> string \<Rightarrow> string \<Rightarrow> string list" where
  "semantic_path path workflowId semanticId =
     concat (map (\<lambda>i. [iv_workflowId i, iv_invocationNodeId i]) path) @ [workflowId, semanticId]"

definition executionId :: "invocation list \<Rightarrow> string \<Rightarrow> string \<Rightarrow> string" where
  "executionId path workflowId semanticId =
     (if path \<noteq> [] then scopedId ''n'' [pathKey (semantic_path path workflowId semanticId)] else semanticId)"

subsection \<open>Primitive nodes\<close>

definition js_update :: "string \<Rightarrow> (js_value \<Rightarrow> js_value) \<Rightarrow> js_value \<Rightarrow> js_value" where
  "js_update k f v =
     (case v of JObj kvs \<Rightarrow> JObj (map (\<lambda>(k', x). (k', if k' = k then f x else x)) kvs) | _ \<Rightarrow> v)"

definition remap_string :: "(string \<Rightarrow> string) \<Rightarrow> js_value \<Rightarrow> js_value" where
  "remap_string f v = (case v of JStr s \<Rightarrow> JStr (f s) | _ \<Rightarrow> v)"

definition remap_config :: "(string \<Rightarrow> string) \<Rightarrow> js_value \<Rightarrow> js_value" where
  "remap_config f config =
     js_update ''conversation'' (js_update ''sourceNodeId'' (remap_string f))
       (js_update ''context'' (js_update ''includeNodeOutputs''
          (\<lambda>v. case v of JArr xs \<Rightarrow> JArr (map (remap_string f) xs) | _ \<Rightarrow> v)) config)"

text \<open>The references of an Agent to other nodes follow the renaming.\<close>

definition execution_config :: "invocation list \<Rightarrow> string \<Rightarrow> workflow_node \<Rightarrow> js_value" where
  "execution_config path workflowId node =
     (if wn_blockType node = ''agent'' \<and> wn_blockVersion node \<in> {2, 3}
      then remap_config (executionId path workflowId) (wn_config node) else wn_config node)"

text \<open>The labels of the registered blocks; an Agent is shown by the identifier of its node.\<close>

definition block_label :: "workflow_node \<Rightarrow> string" where
  "block_label n =
     (if wn_blockType n = ''agent'' then wn_id n
      else if wn_blockType n = ''condition'' then ''Condition''
      else if wn_blockType n = ''approval'' then ''Approval''
      else if wn_blockType n = ''publish-github-pr'' then ''Publish GitHub PR''
      else if wn_blockType n = ''subworkflow'' then ''Reusable workflow''
      else ''Join'')"

definition provenance_of ::
  "workflow_definition \<Rightarrow> workflow_definition \<Rightarrow> invocation list \<Rightarrow> workflow_node \<Rightarrow> string \<Rightarrow> node_provenance" where
  "provenance_of root workflow path node executionNodeId =
     \<lparr>pv_executionNodeId = executionNodeId,
      pv_rootNodeId = (case path of [] \<Rightarrow> wn_id node | i # _ \<Rightarrow> iv_invocationNodeId i),
      pv_workflowId = wd_id workflow, pv_workflowName = wd_name workflow, pv_semanticNodeId = wn_id node,
      pv_invocationPath = path,
      pv_displayPath = js_join '' / '' (wd_name root # map iv_workflowName path @ [block_label node])\<rparr>"

text \<open>What the expansion of one node contributes: nodes, edges and the ends that replace the node.\<close>

record expansion_part =
  xp_nodes :: "workflow_node list"
  xp_edges :: "workflow_edge list"
  xp_replacement :: "(string \<times> string \<times> string) option"

definition primitive_node ::
  "workflow_definition \<Rightarrow> workflow_definition \<Rightarrow> invocation list \<Rightarrow> workflow_node \<Rightarrow> expansion_part composer" where
  "primitive_node root workflow path node =
     (let execution = executionId path (wd_id workflow);
          key = pathKey (semantic_path path (wd_id workflow) (wn_id node));
          config = execution_config path (wd_id workflow) node
      in bnd (claim ''n'' (execution (wn_id node)) key) (\<lambda>executionNodeId.
         bnd (modS (\<lambda>s. s\<lparr>cm_provenance := cm_provenance s @ [provenance_of root workflow path node executionNodeId]\<rparr>)) (\<lambda>_.
         ret \<lparr>xp_nodes = [node\<lparr>wn_id := executionNodeId, wn_config := config\<rparr>], xp_edges = [], xp_replacement = None\<rparr>)))"

subsection \<open>Calls of reusable workflows\<close>

definition lift_block :: "registry_error + 'a \<Rightarrow> compose_error + 'a" where
  "lift_block r = (case r of Inl e \<Rightarrow> Inl (BlockFailure e) | Inr x \<Rightarrow> Inr x)"

definition resolve_child ::
  "(string \<Rightarrow> versioned_workflow option) \<Rightarrow> string list \<Rightarrow> string \<Rightarrow> compose_error + versioned_workflow" where
  "resolve_child available stack childId =
     (if childId \<in> set stack then Inl (SubworkflowCycle (stack @ [childId]))
      else case available childId of
             None \<Rightarrow> Inl (MissingSubworkflow childId)
           | Some versioned \<Rightarrow>
               if wd_exposableAsBlock (vr_definition versioned) \<noteq> Some True then Inl (SubworkflowNotExposed childId)
               else Inr versioned)"

definition use_dependency :: "string \<Rightarrow> versioned_workflow \<Rightarrow> unit composer" where
  "use_dependency childId versioned =
     bnd (ofSum (lift_block (workflowSubworkflowReferences (vr_definition versioned)))) (\<lambda>references.
     modS (\<lambda>s. s\<lparr>cm_used := AList.update childId
       \<lparr>cd_workflowId = childId, cd_revision = vr_fileSha versioned, cd_definition = vr_definition versioned,
        cd_dependencyWorkflowIds = references\<rparr> (cm_used s)\<rparr>))"

definition terminal_node :: "workflow_definition \<Rightarrow> workflow_node option" where
  "terminal_node w = js_find (\<lambda>n. wn_id n \<notin> we_source ` set (wd_edges w)) (wd_nodes w)"

definition splice_child :: "workflow_node \<Rightarrow> workflow_definition \<Rightarrow> compose_error + expansion_part" where
  "splice_child node expanded =
     (case graphEntryNode (wd_nodes expanded) (wd_edges expanded) of
        Inl e \<Rightarrow> Inl (EntryFailure e)
      | Inr entry \<Rightarrow>
          (case terminal_node expanded of
             None \<Rightarrow> Inl NoTerminal
           | Some terminal \<Rightarrow>
               Inr \<lparr>xp_nodes = wd_nodes expanded, xp_edges = wd_edges expanded,
                    xp_replacement = Some (wn_id node, entry, wn_id terminal)\<rparr>))"

subsection \<open>Edges\<close>

definition replacements :: "expansion_part list \<Rightarrow> string \<Rightarrow> (string \<times> string) option" where
  "replacements parts nodeId = map_of (rev (List.map_filter xp_replacement parts)) nodeId"

definition edge_end ::
  "workflow_definition \<Rightarrow> invocation list \<Rightarrow> node_provenance list \<Rightarrow> string option \<Rightarrow> string \<Rightarrow> compose_error + string" where
  "edge_end workflow path provenance replaced nodeId =
     (case replaced of
        Some i \<Rightarrow> Inr i
      | None \<Rightarrow>
          if path = [] then Inr nodeId
          else case js_find (\<lambda>p. pv_workflowId p = wd_id workflow \<and> pv_semanticNodeId p = nodeId
                                 \<and> pv_invocationPath p = path) provenance of
                 None \<Rightarrow> Inl DanglingEdge
               | Some p \<Rightarrow> Inr (pv_executionNodeId p))"

definition expand_edge ::
  "workflow_definition \<Rightarrow> invocation list \<Rightarrow> (string \<Rightarrow> (string \<times> string) option) \<Rightarrow> workflow_edge \<Rightarrow> workflow_edge composer" where
  "expand_edge workflow path replaced edge =
     bnd (getS cm_provenance) (\<lambda>provenance.
     bnd (ofSum (edge_end workflow path provenance (map_option snd (replaced (we_source edge))) (we_source edge))) (\<lambda>source.
     bnd (ofSum (edge_end workflow path provenance (map_option fst (replaced (we_target edge))) (we_target edge))) (\<lambda>target.
     let key = pathKey (semantic_path path (wd_id workflow) (we_id edge))
     in bnd (if path \<noteq> [] then claim ''e'' (scopedId ''e'' [key]) key else claim ''e'' (we_id edge) key) (\<lambda>edgeId.
        ret (edge\<lparr>we_id := edgeId, we_source := source, we_target := target\<rparr>)))))"

subsection \<open>Expansion\<close>

function expand ::
  "workflow_definition \<Rightarrow> (string \<Rightarrow> versioned_workflow option) \<Rightarrow> workflow_definition \<Rightarrow> invocation list \<Rightarrow> string list \<Rightarrow>
     workflow_definition composer" where
  "expand root available workflow path stack =
     (if MAX_COMPOSITE_DEPTH < length stack then throw SubworkflowDepthExceeded
      else
        bnd (mapE (\<lambda>node.
               bnd (ofSum (lift_block (node_references node))) (\<lambda>references.
                 case snd references of
                   [] \<Rightarrow> primitive_node root workflow path node
                 | childId # _ \<Rightarrow>
                     bnd (ofSum (resolve_child available stack childId)) (\<lambda>versioned.
                     bnd (use_dependency childId versioned) (\<lambda>_.
                     bnd (expand root available (vr_definition versioned)
                            (path @ [\<lparr>iv_workflowId = wd_id (vr_definition versioned),
                                      iv_workflowName = wd_name (vr_definition versioned),
                                      iv_invocationNodeId = wn_id node\<rparr>])
                            (stack @ [childId])) (\<lambda>expanded.
                     ofSum (splice_child node expanded))))))
               (wd_nodes workflow)) (\<lambda>parts.
        bnd (mapE (expand_edge workflow path (replacements parts)) (wd_edges workflow)) (\<lambda>edges.
        ret (workflow\<lparr>wd_id := wd_id root, wd_exposableAsBlock := wd_exposableAsBlock root,
                      wd_nodes := concat (map xp_nodes parts), wd_edges := concat (map xp_edges parts) @ edges,
                      wd_maxStepExecutions := wd_maxStepExecutions root\<rparr>))))"
  by pat_completeness auto

termination expand
  by (relation "measure (\<lambda>(_, _, _, _, stack). Suc MAX_COMPOSITE_DEPTH - length stack)") auto

declare expand.simps [simp del]

subsection \<open>The composed workflow and its snapshot\<close>

definition invocation_ok :: "invocation \<Rightarrow> bool" where
  "invocation_ok i =
     (block_id_ok (iv_workflowId i) \<and> is_trimmed_text 120 (JStr (iv_workflowName i)) \<and> block_id_ok (iv_invocationNodeId i))"

definition compositeNodeProvenanceSchema :: "node_provenance \<Rightarrow> bool" where
  "compositeNodeProvenanceSchema p =
     (block_id_ok (pv_executionNodeId p) \<and> block_id_ok (pv_rootNodeId p) \<and> block_id_ok (pv_workflowId p)
      \<and> is_trimmed_text 120 (JStr (pv_workflowName p)) \<and> block_id_ok (pv_semanticNodeId p)
      \<and> length (pv_invocationPath p) \<le> 8 \<and> list_all invocation_ok (pv_invocationPath p)
      \<and> pv_displayPath p \<noteq> [] \<and> length (pv_displayPath p) \<le> 2000)"

definition compositeDependencySchema :: "composite_dependency \<Rightarrow> bool" where
  "compositeDependencySchema d =
     (block_id_ok (cd_workflowId d) \<and> cd_revision d \<noteq> [] \<and> length (cd_revision d) \<le> 100
      \<and> workflowDefinitionV2Schema (cd_definition d)
      \<and> length (cd_dependencyWorkflowIds d) \<le> MAX_WORKFLOW_STEPS \<and> list_all block_id_ok (cd_dependencyWorkflowIds d))"

definition workflowCompositionSnapshotSchema :: "composition_snapshot \<Rightarrow> bool" where
  "workflowCompositionSnapshotSchema s =
     (length (sp_dependencies s) \<le> MAX_WORKFLOW_STEPS \<and> list_all compositeDependencySchema (sp_dependencies s)
      \<and> sp_nodes s \<noteq> [] \<and> length (sp_nodes s) \<le> MAX_WORKFLOW_STEPS \<and> list_all compositeNodeProvenanceSchema (sp_nodes s)
      \<and> distinct (map cd_workflowId (sp_dependencies s)) \<and> distinct (map pv_executionNodeId (sp_nodes s)))"

definition available_versions :: "versioned_workflow list \<Rightarrow> string \<Rightarrow> versioned_workflow option" where
  "available_versions versions = by_key (\<lambda>v. wd_id (vr_definition v)) versions"

definition fresh_composition :: composition_state where
  "fresh_composition = \<lparr>cm_used = [], cm_provenance = [], cm_claimed = []\<rparr>"

definition composite_terminal_ok :: "workflow_definition \<Rightarrow> bool" where
  "composite_terminal_ok w =
     ((case terminal_node w of
         None \<Rightarrow> False | Some n \<Rightarrow> wn_blockType n = ''agent'' \<or> wn_blockType n = ''publish-github-pr'')
      \<and> \<not> list_ex (\<lambda>n. wn_blockType n = ''subworkflow'') (wd_nodes w))"

definition composeVersionedWorkflowV2 ::
  "(string \<Rightarrow> string \<Rightarrow> int) \<Rightarrow> versioned_workflow \<Rightarrow> versioned_workflow list \<Rightarrow>
     compose_error + (workflow_definition \<times> composition_snapshot)" where
  "composeVersionedWorkflowV2 localeCompare root versions =
     (let rootWorkflow = vr_definition root
      in case expand rootWorkflow (available_versions versions) rootWorkflow [] [wd_id rootWorkflow] fresh_composition of
           (Inl e, _) \<Rightarrow> Inl e
         | (Inr workflow, s) \<Rightarrow>
             if MAX_WORKFLOW_STEPS < length (wd_nodes workflow) \<or> MAX_STEP_EXECUTIONS < length (wd_edges workflow)
             then Inl SubworkflowExpansionTooLarge
             else if \<not> composite_terminal_ok workflow then Inl InvalidCompositeTerminal
             else if \<not> workflowDefinitionV2Schema workflow then Inl CompositeRejected
             else let snapshot = \<lparr>sp_dependencies = js_sort_by (\<lambda>a b. localeCompare (cd_workflowId a) (cd_workflowId b))
                                   (map snd (cm_used s)), sp_nodes = cm_provenance s\<rparr>
                  in if \<not> workflowCompositionSnapshotSchema snapshot then Inl SnapshotRejected
                     else Inr (workflow, snapshot))"

text \<open>\<open>dependencies\<close> are the values of the map.\<close>

definition composeWorkflowV2 ::
  "(string \<Rightarrow> string \<Rightarrow> int) \<Rightarrow> workflow_definition \<Rightarrow> workflow_definition list \<Rightarrow> compose_error + workflow_definition" where
  "composeWorkflowV2 localeCompare root dependencies =
     bindR (composeVersionedWorkflowV2 localeCompare \<lparr>vr_definition = root, vr_fileSha = ''root''\<rparr>
       (\<lparr>vr_definition = root, vr_fileSha = ''root''\<rparr>
        # map (\<lambda>d. \<lparr>vr_definition = d, vr_fileSha = ''revision-'' @ wd_id d\<rparr>) dependencies)) (\<lambda>r. Inr (fst r))"

definition validateAndComposeWorkflow ::
  "(string \<Rightarrow> string \<Rightarrow> int) \<Rightarrow> workflow_definition \<Rightarrow> workflow_definition list \<Rightarrow> compose_error + workflow_definition" where
  "validateAndComposeWorkflow localeCompare workflow definitions =
     bindR (composeVersionedWorkflowV2 localeCompare \<lparr>vr_definition = workflow, vr_fileSha = ''validation''\<rparr>
       (map (\<lambda>d. \<lparr>vr_definition = d, vr_fileSha = ''validation-'' @ wd_id d\<rparr>) definitions)) (\<lambda>r. Inr (fst r))"

subsection \<open>Changes of a reusable workflow\<close>

text \<open>One pass of the loop: the affected identifiers and whether one was added.\<close>

fun affected_pass :: "workflow_definition list \<Rightarrow> string list \<Rightarrow> bool \<Rightarrow> compose_error + string list \<times> bool" where
  "affected_pass [] affected changed = Inr (affected, changed)"
| "affected_pass (d # ds) affected changed =
     (if wd_id d \<in> set affected then affected_pass ds affected changed
      else bindR (lift_block (workflowSubworkflowReferences d)) (\<lambda>references.
             if list_ex (\<lambda>i. i \<in> set affected) references then affected_pass ds (affected @ [wd_id d]) True
             else affected_pass ds affected changed))"

lemma affected_pass_grows:
  "affected_pass ds affected changed = Inr (affected', changed') \<Longrightarrow>
     set affected \<subseteq> set affected' \<and> set affected' \<subseteq> set affected \<union> wd_id ` set ds
     \<and> (changed' \<longrightarrow> changed \<or> (\<exists>d \<in> set ds. wd_id d \<in> set affected' - set affected))"
proof (induction ds affected changed rule: affected_pass.induct)
  case (2 d ds affected changed)
  show ?case
  proof (cases "wd_id d \<in> set affected")
    case True
    with 2 show ?thesis by auto
  next
    case False
    with 2(4) obtain rs where "workflowSubworkflowReferences d = Inr rs"
      by (auto simp: bindR_def lift_block_def split: sum.splits)
    with False 2 show ?thesis
      by (cases "list_ex (\<lambda>i. i \<in> set affected) rs") (auto simp: bindR_def lift_block_def)
  qed
qed simp

function affected_closure :: "workflow_definition list \<Rightarrow> string list \<Rightarrow> compose_error + string list" where
  "affected_closure candidates affected =
     (case affected_pass candidates affected False of
        Inl e \<Rightarrow> Inl e
      | Inr (affected', changed) \<Rightarrow>
          if changed then affected_closure candidates affected' else Inr affected')"
  by pat_completeness auto

termination affected_closure
proof (relation "measure (\<lambda>(candidates, affected). card (wd_id ` set candidates - set affected))")
  fix candidates :: "workflow_definition list" and affected :: "string list" and r affected' :: "string list" and x changed
  assume "affected_pass candidates affected False = Inr x" "(affected', changed) = x" "changed"
  then have "set affected \<subseteq> set affected'" "\<exists>d \<in> set candidates. wd_id d \<in> set affected' - set affected"
    using affected_pass_grows [of candidates affected False affected' changed] by auto
  then have "wd_id ` set candidates - set affected' \<subset> wd_id ` set candidates - set affected" by blast
  then show "((candidates, affected'), candidates, affected)
      \<in> measure (\<lambda>(candidates, affected). card (wd_id ` set candidates - set affected))"
    by (simp add: psubset_card_mono)
qed simp

declare affected_closure.simps [simp del]

definition assertReusableWorkflowUpdateCompatible ::
  "(string \<Rightarrow> string \<Rightarrow> int) \<Rightarrow> workflow_definition \<Rightarrow> workflow_definition \<Rightarrow> workflow_definition list \<Rightarrow>
     compose_error + unit" where
  "assertReusableWorkflowUpdateCompatible localeCompare current proposed definitions =
     (let candidates = map (\<lambda>d. if wd_id d = wd_id current then proposed else d) definitions
      in bindR (affected_closure candidates [wd_id current]) (\<lambda>affected.
         if list_all (\<lambda>d. wd_id d = wd_id current \<or> wd_id d \<notin> set affected
                \<or> is_ok (validateAndComposeWorkflow localeCompare d candidates)) candidates
         then Inr () else Inl WorkflowDependencyIncompatible))"

section \<open>Lemmas\<close>

subsection \<open>Dependents\<close>

text \<open>The direct references among the candidates.\<close>

definition references_to :: "workflow_definition list \<Rightarrow> (string \<times> string) set" where
  "references_to candidates =
     {(wd_id d, i) | d i. d \<in> set candidates \<and> (\<exists>rs. workflowSubworkflowReferences d = Inr rs \<and> i \<in> set rs)}"

lemma affected_pass_stable:
  "affected_pass ds affected changed = Inr (affected', False) \<Longrightarrow>
     affected' = affected \<and> (\<forall>d \<in> set ds. wd_id d \<in> set affected \<or>
       (\<exists>rs. workflowSubworkflowReferences d = Inr rs \<and> set rs \<inter> set affected = {}))"
proof (induction ds affected changed rule: affected_pass.induct)
  case (2 d ds affected changed)
  show ?case
  proof (cases "wd_id d \<in> set affected")
    case True
    with 2 show ?thesis by auto
  next
    case False
    with 2(4) obtain rs where rs: "workflowSubworkflowReferences d = Inr rs"
      by (auto simp: bindR_def lift_block_def split: sum.splits)
    have "changed' = True" if "affected_pass ds a True = Inr (a', changed')" for a a' changed'
      using that
    proof (induction ds a "True" rule: affected_pass.induct)
      case (2 e es a)
      then show ?case
        by (cases "workflowSubworkflowReferences e") (auto simp: bindR_def lift_block_def split: if_splits)
    qed simp
    with rs False 2 show ?thesis
      by (cases "list_ex (\<lambda>i. i \<in> set affected) rs") (auto simp: bindR_def lift_block_def list_ex_iff)
  qed
qed simp

lemma affected_pass_sound:
  "affected_pass ds affected changed = Inr (affected', changed') \<Longrightarrow> set ds \<subseteq> set candidates \<Longrightarrow>
     x \<in> set affected' \<Longrightarrow> \<exists>y \<in> set affected. (x, y) \<in> (references_to candidates)\<^sup>*"
proof (induction ds affected changed rule: affected_pass.induct)
  case (2 d ds affected changed)
  show ?case
  proof (cases "wd_id d \<in> set affected")
    case True
    with 2 show ?thesis by auto
  next
    case False
    with 2(4) obtain rs where rs: "workflowSubworkflowReferences d = Inr rs"
      by (auto simp: bindR_def lift_block_def split: sum.splits)
    show ?thesis
    proof (cases "list_ex (\<lambda>i. i \<in> set affected) rs")
      case True
      with rs False 2(4) have "affected_pass ds (affected @ [wd_id d]) True = Inr (affected', changed')"
        by (simp add: bindR_def lift_block_def)
      from 2(2) [OF False True this] 2(5,6) obtain y
        where y: "y \<in> set (affected @ [wd_id d])" "(x, y) \<in> (references_to candidates)\<^sup>*" by auto
      from True obtain i where "i \<in> set rs" "i \<in> set affected" by (auto simp: list_ex_iff)
      with rs 2(5) have "(wd_id d, i) \<in> references_to candidates" by (auto simp: references_to_def)
      with y \<open>i \<in> set affected\<close> show ?thesis by (auto intro: rtrancl_into_rtrancl)
    next
      case False
      with rs \<open>wd_id d \<notin> set affected\<close> 2 show ?thesis by (auto simp: bindR_def lift_block_def)
    qed
  qed
qed auto

text \<open>The loop computes exactly the workflows that reach the changed one by references.\<close>

lemma affected_closure_exact:
  assumes "affected_closure candidates affected = Inr result"
  shows "set result = {x. \<exists>y \<in> set affected. (x, y) \<in> (references_to candidates)\<^sup>*}"
  using assms
proof (induction candidates affected rule: affected_closure.induct)
  case (1 candidates affected)
  let ?R = "references_to candidates"
  obtain affected' changed where pass: "affected_pass candidates affected False = Inr (affected', changed)"
    using 1(2) by (subst (asm) affected_closure.simps) (auto split: sum.splits)
  have grow: "set affected \<subseteq> set affected'" using affected_pass_grows [OF pass] by blast
  have sound: "\<exists>y \<in> set affected. (x, y) \<in> ?R\<^sup>*" if "x \<in> set affected'" for x
    using affected_pass_sound [OF pass order_refl that] .
  show ?case
  proof (cases changed)
    case True
    with 1 pass have "set result = {x. \<exists>y \<in> set affected'. (x, y) \<in> ?R\<^sup>*}"
      by (subst (asm) (2) affected_closure.simps) auto
    then show ?thesis using grow sound by (auto intro: rtrancl_trans) (meson rtrancl_trans sound)
  next
    case False
    with 1(2) pass have result: "result = affected'" by (subst (asm) affected_closure.simps) auto
    from pass False have stable: "affected' = affected"
      "\<And>d. d \<in> set candidates \<Longrightarrow> wd_id d \<in> set affected \<or>
        (\<exists>rs. workflowSubworkflowReferences d = Inr rs \<and> set rs \<inter> set affected = {})"
      using affected_pass_stable [of candidates affected False affected'] by auto
    have "x \<in> set affected" if "(x, y) \<in> ?R\<^sup>*" "y \<in> set affected" for x y
      using that
    proof (induction rule: converse_rtrancl_induct)
      case (step a b)
      then show ?case using stable(2) by (fastforce simp: references_to_def)
    qed
    with result stable(1) show ?thesis by auto
  qed
qed

subsection \<open>Provenance\<close>

interpretation provenance_kept: preorder_history "\<lambda>s t. cm_provenance t = cm_provenance s"
  by unfold_locales simp_all

lemma claim_keeps: "always (\<lambda>s t. cm_provenance t = cm_provenance s) (claim kind generated key)"
  by (auto simp: claim_def Let_def intro!: provenance_kept.always_bnd provenance_kept.always_modS)

lemma use_dependency_keeps: "always (\<lambda>s t. cm_provenance t = cm_provenance s) (use_dependency i v)"
  by (auto simp: use_dependency_def intro!: provenance_kept.always_bnd provenance_kept.always_modS)

lemma expand_edge_keeps: "always (\<lambda>s t. cm_provenance t = cm_provenance s) (expand_edge workflow path r edge)"
  by (auto simp: expand_edge_def Let_def intro!: provenance_kept.always_bnd claim_keeps)

lemma claim_Inr: "claim kind generated key s = (Inr i, t) \<Longrightarrow> i = generated"
  by (auto simp: claim_def Let_def eff_inv split: if_splits)

text \<open>The chain of workflows that are open at a path, and the definition that is expanded there.\<close>

definition calls :: "workflow_definition \<Rightarrow> invocation list \<Rightarrow> string list" where
  "calls root path = wd_id root # map iv_workflowId path"

definition at_path ::
  "workflow_definition \<Rightarrow> (string \<Rightarrow> versioned_workflow option) \<Rightarrow> invocation list \<Rightarrow> workflow_definition \<Rightarrow> bool" where
  "at_path root available path d =
     (if path = [] then d = root
      else wd_exposableAsBlock d = Some True \<and> wd_id d = iv_workflowId (last path)
        \<and> (\<exists>v. available (wd_id d) = Some v \<and> d = vr_definition v))"

text \<open>
  A node of the result and an entry of the provenance that belong together: the entry names a node of the definition
  at its path, with the same block and its renamed configuration, the path is free of cycles and at most seven calls long.
\<close>

definition traced ::
  "workflow_definition \<Rightarrow> (string \<Rightarrow> versioned_workflow option) \<Rightarrow> workflow_node \<Rightarrow> node_provenance \<Rightarrow> bool" where
  "traced root available n p =
     ((\<exists>d n0. at_path root available (pv_invocationPath p) d \<and> pv_workflowId p = wd_id d
         \<and> n0 \<in> set (wd_nodes d) \<and> wn_id n0 = pv_semanticNodeId p
         \<and> wn_blockType n = wn_blockType n0 \<and> wn_blockVersion n = wn_blockVersion n0
         \<and> wn_config n = execution_config (pv_invocationPath p) (wd_id d) n0)
      \<and> wn_id n = pv_executionNodeId p
      \<and> pv_executionNodeId p = executionId (pv_invocationPath p) (pv_workflowId p) (pv_semanticNodeId p)
      \<and> distinct (calls root (pv_invocationPath p)) \<and> length (pv_invocationPath p) < MAX_COMPOSITE_DEPTH)"

text \<open>A run that adds provenance for exactly the nodes it returns.\<close>

definition traces ::
  "(workflow_node \<Rightarrow> node_provenance \<Rightarrow> bool) \<Rightarrow> ('a \<Rightarrow> workflow_node list) \<Rightarrow> 'a composer \<Rightarrow> bool" where
  "traces T nodes m \<longleftrightarrow> (\<forall>s x t. m s = (Inr x, t) \<longrightarrow>
     (\<exists>ps. cm_provenance t = cm_provenance s @ ps \<and> list_all2 T (nodes x) ps))"

lemma traces_mapE:
  assumes "\<And>x. x \<in> set xs \<Longrightarrow> traces T nodes (f x)"
  shows "traces T (\<lambda>ys. concat (map nodes ys)) (mapE f xs)"
  using assms
proof (induction xs)
  case Nil
  then show ?case by (simp add: traces_def)
next
  case (Cons x xs)
  then have head: "traces T nodes (f x)" and tail: "traces T (\<lambda>ys. concat (map nodes ys)) (mapE f xs)" by simp_all
  show ?case
    unfolding traces_def
  proof (intro allI impI)
    fix s ys t
    assume "mapE f (x # xs) s = (Inr ys, t)"
    then obtain y u zs where run: "f x s = (Inr y, u)" "mapE f xs u = (Inr zs, t)" "ys = y # zs"
      by (auto simp: eff_inv)
    from head run(1) obtain ps where ps: "cm_provenance u = cm_provenance s @ ps" "list_all2 T (nodes y) ps"
      unfolding traces_def by blast
    from tail run(2) obtain qs where qs: "cm_provenance t = cm_provenance u @ qs" "list_all2 T (concat (map nodes zs)) qs"
      unfolding traces_def by blast
    from ps qs run(3) show "\<exists>ps. cm_provenance t = cm_provenance s @ ps \<and> list_all2 T (concat (map nodes ys)) ps"
      by (intro exI [of _ "ps @ qs"]) (simp add: list_all2_appendI)
  qed
qed

lemma traces_ofSum: "(\<And>x. v = Inr x \<Longrightarrow> traces T nodes (f x)) \<Longrightarrow> traces T nodes (bnd (ofSum v) f)"
  by (auto simp: traces_def bnd_Inr)

lemma traces_keep:
  assumes "always (\<lambda>s t. cm_provenance t = cm_provenance s) m" and "\<And>x. traces T nodes (f x)"
  shows "traces T nodes (bnd m f)"
  unfolding traces_def bnd_Inr
proof (intro allI impI, elim exE conjE)
  fix s x t y u
  assume m: "m s = (Inr y, u)" and f: "f y u = (Inr x, t)"
  from alwaysD [OF assms(1) m] have "cm_provenance u = cm_provenance s" .
  with assms(2) [of y, unfolded traces_def, rule_format, OF f]
  show "\<exists>ps. cm_provenance t = cm_provenance s @ ps \<and> list_all2 T (nodes x) ps" by simp
qed

lemma traces_result:
  assumes "traces T nodes m" and "\<And>x y. g x = Inr y \<Longrightarrow> nodes' y = nodes x"
  shows "traces T nodes' (bnd m (\<lambda>x. ofSum (g x)))"
  unfolding traces_def bnd_Inr ofSum_eq
proof (intro allI impI, elim exE conjE)
  fix s y t x u
  assume m: "m s = (Inr x, u)" and y: "g x = Inr y" and "t = u"
  with assms(1) have "\<exists>ps. cm_provenance t = cm_provenance s @ ps \<and> list_all2 T (nodes x) ps"
    by (auto simp: traces_def)
  with assms(2) [OF y] show "\<exists>ps. cm_provenance t = cm_provenance s @ ps \<and> list_all2 T (nodes' y) ps" by simp
qed

lemma primitive_node_traced:
  assumes "at_path root available path workflow" and "node \<in> set (wd_nodes workflow)"
    and "distinct (calls root path)" and "length path < MAX_COMPOSITE_DEPTH"
  shows "traces (traced root available) xp_nodes (primitive_node root workflow path node)"
  unfolding traces_def
proof (intro allI impI)
  fix s x t
  assume "primitive_node root workflow path node s = (Inr x, t)"
  then obtain i u where run: "claim ''n'' (executionId path (wd_id workflow) (wn_id node))
        (pathKey (semantic_path path (wd_id workflow) (wn_id node))) s = (Inr i, u)"
      and t: "t = u\<lparr>cm_provenance := cm_provenance u @ [provenance_of root workflow path node i]\<rparr>"
      and x: "xp_nodes x = [node\<lparr>wn_id := i, wn_config := execution_config path (wd_id workflow) node\<rparr>]"
    unfolding primitive_node_def Let_def bnd_Inr modS_eq ret_eq by auto
  from run have i: "i = executionId path (wd_id workflow) (wn_id node)" by (rule claim_Inr)
  from alwaysD [OF claim_keeps run] have "cm_provenance u = cm_provenance s" .
  moreover have "traced root available (node\<lparr>wn_id := i, wn_config := execution_config path (wd_id workflow) node\<rparr>)
      (provenance_of root workflow path node i)"
    unfolding traced_def provenance_of_def using assms i
    by (intro conjI exI [of _ workflow] exI [of _ node]) simp_all
  with x have "list_all2 (traced root available) (xp_nodes x) [provenance_of root workflow path node i]" by simp
  ultimately show "\<exists>ps. cm_provenance t = cm_provenance s @ ps \<and> list_all2 (traced root available) (xp_nodes x) ps"
    using t by auto
qed

lemma resolve_child_Inr:
  assumes "resolve_child available stack childId = Inr v"
  shows "childId \<notin> set stack" "available childId = Some v" "wd_exposableAsBlock (vr_definition v) = Some True"
  using assms by (auto simp: resolve_child_def split: if_splits option.splits)

lemma splice_nodes: "splice_child node expanded = Inr part \<Longrightarrow> xp_nodes part = wd_nodes expanded"
  by (auto simp: splice_child_def split: sum.splits option.splits)

lemma at_path_child:
  assumes "resolve_child available stack childId = Inr v" and "wd_id (vr_definition v) = childId"
  shows "at_path root available (path @ [\<lparr>iv_workflowId = wd_id (vr_definition v),
      iv_workflowName = wd_name (vr_definition v), iv_invocationNodeId = i\<rparr>]) (vr_definition v)"
  using resolve_child_Inr [OF assms(1)] assms(2) by (simp add: at_path_def)

lemma expand_traced:
  "(\<And>i v. available i = Some v \<Longrightarrow> wd_id (vr_definition v) = i) \<Longrightarrow> stack = calls root path \<Longrightarrow> distinct stack \<Longrightarrow>
     at_path root available path workflow \<Longrightarrow>
     traces (traced root available) wd_nodes (expand root available workflow path stack)"
proof (induction root available workflow path stack rule: expand.induct)
  case (1 root available workflow path stack)
  show ?case
  proof (cases "MAX_COMPOSITE_DEPTH < length stack")
    case True
    then show ?thesis by (simp add: expand.simps traces_def)
  next
    case False
    let ?step = "\<lambda>node.
               bnd (ofSum (lift_block (node_references node))) (\<lambda>references.
                 case snd references of
                   [] \<Rightarrow> primitive_node root workflow path node
                 | childId # _ \<Rightarrow>
                     bnd (ofSum (resolve_child available stack childId)) (\<lambda>versioned.
                     bnd (use_dependency childId versioned) (\<lambda>_.
                     bnd (expand root available (vr_definition versioned)
                            (path @ [\<lparr>iv_workflowId = wd_id (vr_definition versioned),
                                      iv_workflowName = wd_name (vr_definition versioned),
                                      iv_invocationNodeId = wn_id node\<rparr>])
                            (stack @ [childId])) (\<lambda>expanded.
                     ofSum (splice_child node expanded)))))"
    have step: "traces (traced root available) xp_nodes (?step node)" if node: "node \<in> set (wd_nodes workflow)" for node
    proof (rule traces_ofSum)
      fix references :: "string list \<times> string list"
      show "traces (traced root available) xp_nodes (case snd references of [] \<Rightarrow> primitive_node root workflow path node
            | childId # _ \<Rightarrow>
                bnd (ofSum (resolve_child available stack childId)) (\<lambda>versioned.
                bnd (use_dependency childId versioned) (\<lambda>_.
                bnd (expand root available (vr_definition versioned)
                       (path @ [\<lparr>iv_workflowId = wd_id (vr_definition versioned),
                                 iv_workflowName = wd_name (vr_definition versioned),
                                 iv_invocationNodeId = wn_id node\<rparr>])
                       (stack @ [childId])) (\<lambda>expanded.
                ofSum (splice_child node expanded)))))"
      proof (cases "snd references")
        case Nil
        moreover have "length path < MAX_COMPOSITE_DEPTH" using False 1(3) by (simp add: calls_def)
        ultimately show ?thesis
          using primitive_node_traced [OF 1(5) node] 1(3,4) by simp
      next
        case (Cons childId rest)
        have "traces (traced root available) wd_nodes (expand root available (vr_definition v)
            (path @ [\<lparr>iv_workflowId = wd_id (vr_definition v), iv_workflowName = wd_name (vr_definition v),
              iv_invocationNodeId = wn_id node\<rparr>]) (stack @ [childId]))"
          if v: "resolve_child available stack childId = Inr v" for v
        proof -
          note resolved = resolve_child_Inr [OF v]
          have id: "wd_id (vr_definition v) = childId" using 1(2) resolved(2) .
          show ?thesis
          proof (rule 1(1) [OF False Cons])
            show "at_path root available (path @ [\<lparr>iv_workflowId = wd_id (vr_definition v),
                iv_workflowName = wd_name (vr_definition v), iv_invocationNodeId = wn_id node\<rparr>]) (vr_definition v)"
              using v id by (rule at_path_child)
          qed (use 1(2,3,4) resolved(1) in \<open>auto simp: calls_def id\<close>)
        qed
        then show ?thesis
          unfolding Cons list.case
          by (intro traces_ofSum traces_keep [OF use_dependency_keeps] traces_result) (auto dest: splice_nodes)
      qed
    qed
    show ?thesis
      unfolding traces_def
    proof (intro allI impI)
      fix s w t
      assume "expand root available workflow path stack s = (Inr w, t)"
      with False obtain parts u edges where parts: "mapE ?step (wd_nodes workflow) s = (Inr parts, u)"
        and edges: "mapE (expand_edge workflow path (replacements parts)) (wd_edges workflow) u = (Inr edges, t)"
        and w: "wd_nodes w = concat (map xp_nodes parts)"
        by (subst (asm) expand.simps) (auto simp: bnd_Inr)
      from alwaysD [OF provenance_kept.always_mapE [OF expand_edge_keeps] edges] have "cm_provenance t = cm_provenance u" .
      with traces_mapE [OF step] parts w show
        "\<exists>ps. cm_provenance t = cm_provenance s @ ps \<and> list_all2 (traced root available) (wd_nodes w) ps"
        unfolding traces_def by fastforce
    qed
  qed
qed

lemma available_keyed: "available_versions versions i = Some v \<Longrightarrow> wd_id (vr_definition v) = i"
  by (auto simp: available_versions_def by_key_def dest: js_find_Some)

lemma expand_root_fields:
  "expand root available workflow path stack s = (Inr w, t) \<Longrightarrow>
     wd_id w = wd_id root \<and> wd_exposableAsBlock w = wd_exposableAsBlock root
     \<and> wd_maxStepExecutions w = wd_maxStepExecutions root \<and> wd_name w = wd_name workflow"
  by (subst (asm) expand.simps) (auto simp: bnd_Inr split: if_splits)

lemma compose_Inr:
  assumes "composeVersionedWorkflowV2 loc root versions = Inr (w, snapshot)"
  obtains s where "expand (vr_definition root) (available_versions versions) (vr_definition root) []
      [wd_id (vr_definition root)] fresh_composition = (Inr w, s)"
    "composite_terminal_ok w" "workflowDefinitionV2Schema w" "workflowCompositionSnapshotSchema snapshot"
    "sp_nodes snapshot = cm_provenance s" "set (sp_dependencies snapshot) = snd ` set (cm_used s)"
  using assms by (auto simp: composeVersionedWorkflowV2_def Let_def split: prod.splits sum.splits if_splits)

subsection \<open>Claimed identifiers\<close>

text \<open>The key of a path determines the called workflows, the calling nodes and the node.\<close>

lemma semantic_keys_identify:
  assumes "pathKey (semantic_path path workflowId semanticId) = pathKey (semantic_path path' workflowId' semanticId')"
  shows "workflowId = workflowId' \<and> semanticId = semanticId'
    \<and> map (\<lambda>i. (iv_workflowId i, iv_invocationNodeId i)) path = map (\<lambda>i. (iv_workflowId i, iv_invocationNodeId i)) path'"
proof -
  have pairs: "map (\<lambda>i. (iv_workflowId i, iv_invocationNodeId i)) p = map (\<lambda>i. (iv_workflowId i, iv_invocationNodeId i)) q"
    if "concat (map (\<lambda>i. [iv_workflowId i, iv_invocationNodeId i]) p) = concat (map (\<lambda>i. [iv_workflowId i, iv_invocationNodeId i]) q)"
    for p q :: "invocation list"
    using that
  proof (induction p arbitrary: q)
    case Nil
    then show ?case by (cases q) simp_all
  next
    case (Cons i p)
    then obtain j q' where q: "q = j # q'" by (cases q) simp_all
    with Cons.prems have "(iv_workflowId i, iv_invocationNodeId i) = (iv_workflowId j, iv_invocationNodeId j)"
      and "concat (map (\<lambda>i. [iv_workflowId i, iv_invocationNodeId i]) p)
        = concat (map (\<lambda>i. [iv_workflowId i, iv_invocationNodeId i]) q')" by simp_all
    with Cons.IH [of q'] show ?case unfolding q list.map by blast
  qed
  from pathKey_inject [OF assms]
  have "concat (map (\<lambda>i. [iv_workflowId i, iv_invocationNodeId i]) path)
      = concat (map (\<lambda>i. [iv_workflowId i, iv_invocationNodeId i]) path')
    \<and> [workflowId, semanticId] = [workflowId', semanticId']"
    unfolding semantic_path_def by (subst (asm) append_eq_append_conv) simp_all
  with pairs show ?thesis by blast
qed

lemma executionId_place:
  fixes path path' :: "invocation list"
  assumes "map (\<lambda>i. (iv_workflowId i, iv_invocationNodeId i)) path = map (\<lambda>i. (iv_workflowId i, iv_invocationNodeId i)) path'"
  shows "executionId path workflowId semanticId = executionId path' workflowId semanticId"
proof -
  have segments: "concat (map (\<lambda>i. [iv_workflowId i, iv_invocationNodeId i]) p)
      = concat (map (\<lambda>(a, b). [a, b]) (map (\<lambda>i. (iv_workflowId i, iv_invocationNodeId i)) p))" for p :: "invocation list"
    by (simp add: comp_def)
  have "path = [] \<longleftrightarrow> path' = []" using arg_cong [OF assms, of length] by auto
  then show ?thesis unfolding executionId_def semantic_path_def segments assms by simp
qed

text \<open>Every entry of the provenance has claimed its identifier with the key of its place, and no claim is lost.\<close>

definition identified :: "composition_state \<Rightarrow> bool" where
  "identified s \<longleftrightarrow> (\<forall>p \<in> set (cm_provenance s). map_of (cm_claimed s) (''n:'' @ pv_executionNodeId p)
       = Some (pathKey (semantic_path (pv_invocationPath p) (pv_workflowId p) (pv_semanticNodeId p)))
     \<and> pv_executionNodeId p = executionId (pv_invocationPath p) (pv_workflowId p) (pv_semanticNodeId p))"

definition claims_kept :: "composition_state \<Rightarrow> composition_state \<Rightarrow> bool" where
  "claims_kept s t \<longleftrightarrow> (\<forall>i k. map_of (cm_claimed s) i = Some k \<longrightarrow> k \<noteq> [] \<longrightarrow> map_of (cm_claimed t) i = Some k)
     \<and> (identified s \<longrightarrow> identified t)"

interpretation claims: preorder_history claims_kept
  by unfold_locales (auto simp: claims_kept_def)

lemma place_key: "pathKey (semantic_path path workflowId semanticId) \<noteq> []"
  by (simp add: pathKey_Nil_iff semantic_path_def)

lemma same_provenance:
  assumes "\<And>i k. map_of (cm_claimed s) i = Some k \<Longrightarrow> k \<noteq> [] \<Longrightarrow> map_of (cm_claimed t) i = Some k" and "cm_provenance t = cm_provenance s"
  shows "claims_kept s t"
  using assms place_key by (auto simp: claims_kept_def identified_def)

lemma claim_claims:
  assumes "claim kind generated key s = (r, t)"
  shows "claims_kept s t" and "is_ok r \<Longrightarrow> map_of (cm_claimed t) (kind @ '':'' @ generated) = Some key"
proof -
  let ?identity = "kind @ '':'' @ generated"
  let ?previous = "map_of (cm_claimed s) ?identity"
  have "claims_kept s t \<and> (is_ok r \<longrightarrow> map_of (cm_claimed t) ?identity = Some key)"
  proof (cases "truthy ?previous \<and> ?previous \<noteq> Some key")
    case True
    with assms have "t = s" "r = Inl SubworkflowIdentityCollision" by (auto simp: claim_def Let_def bnd_def getS_def throw_def)
    then show ?thesis by (simp add: claims.refl is_ok_def)
  next
    case False
    with assms have t: "t = s\<lparr>cm_claimed := AList.update ?identity key (cm_claimed s)\<rparr>"
      by (auto simp: claim_def Let_def bnd_def getS_def modS_def ret_def)
    have "map_of (cm_claimed t) i = Some k" if "map_of (cm_claimed s) i = Some k" "k \<noteq> []" for i k
      using that False unfolding t by (cases "i = ?identity") (auto simp: update_conv' truthy_def)
    then show ?thesis by (intro conjI same_provenance) (simp_all add: t update_conv')
  qed
  then show "claims_kept s t" "is_ok r \<Longrightarrow> map_of (cm_claimed t) ?identity = Some key" by blast+
qed

lemma primitive_node_claims: "always claims_kept (primitive_node root workflow path node)"
  unfolding always_def
proof (intro allI impI)
  fix s r t
  assume run: "primitive_node root workflow path node s = (r, t)"
  let ?key = "pathKey (semantic_path path (wd_id workflow) (wn_id node))"
  obtain q u where q: "claim ''n'' (executionId path (wd_id workflow) (wn_id node)) ?key s = (q, u)"
    by (cases "claim ''n'' (executionId path (wd_id workflow) (wn_id node)) ?key s")
  note made = claim_claims [OF q]
  show "claims_kept s t"
  proof (cases q)
    case (Inl e)
    with run q made(1) show ?thesis by (simp add: primitive_node_def Let_def bnd_def)
  next
    case (Inr i)
    then have i: "i = executionId path (wd_id workflow) (wn_id node)" using claim_Inr q by blast
    have t: "t = u\<lparr>cm_provenance := cm_provenance u @ [provenance_of root workflow path node i]\<rparr>"
      using run q Inr by (auto simp: primitive_node_def Let_def bnd_def modS_def ret_def)
    have "map_of (cm_claimed u) (''n:'' @ i) = Some ?key" using made(2) Inr i by (simp add: is_ok_def)
    then have "claims_kept u t" unfolding t using i by (auto simp: claims_kept_def identified_def provenance_of_def)
    with made(1) show ?thesis by (rule claims.trans)
  qed
qed

lemma expand_claims: "always claims_kept (expand root available workflow path stack)"
proof (induction root available workflow path stack rule: expand.induct)
  case (1 root available workflow path stack)
  have claim: "always claims_kept (claim kind generated key)" for kind generated key
    using claim_claims(1) by (auto simp: always_def)
  have edge: "always claims_kept (expand_edge workflow path r e)" for r e
    unfolding expand_edge_def Let_def by (auto intro!: claims.always_bnd claim)
  have use: "always claims_kept (use_dependency i v)" for i v
    unfolding use_dependency_def by (intro claims.always_bnd claims.always_modS) (auto intro: same_provenance)
  show ?case
  proof (cases "MAX_COMPOSITE_DEPTH < length stack")
    case False
    have child: "always claims_kept (expand root available (vr_definition v) (path @ [\<lparr>iv_workflowId = wd_id (vr_definition v),
        iv_workflowName = wd_name (vr_definition v), iv_invocationNodeId = wn_id node\<rparr>]) (stack @ [childId]))" for v :: versioned_workflow and node :: workflow_node and childId
      by (rule 1(1) [OF False snd_conv])
    show ?thesis
      by (subst expand.simps)
         (auto simp: False intro!: claims.always_bnd claims.always_mapE primitive_node_claims use edge child split: list.split)
  qed (simp add: expand.simps)
qed

section \<open>Properties\<close>

text \<open>C15. A composed workflow is accepted by the schema, has the identity and the limits of its root, contains no call of a
  reusable workflow, and its provenance lists its nodes one by one: each comes from a node with the same block of the
  root or of an exposed workflow, under the identifier its path determines, and no path of calls is cyclic or longer
  than seven.\<close>

theorem composed_workflow_traced:
  assumes run: "composeVersionedWorkflowV2 localeCompare root versions = Inr (w, snapshot)"
  shows "workflowDefinitionV2Schema w
    \<and> wd_id w = wd_id (vr_definition root) \<and> wd_maxStepExecutions w = wd_maxStepExecutions (vr_definition root)
    \<and> (\<forall>n \<in> set (wd_nodes w). wn_blockType n \<noteq> ''subworkflow'')
    \<and> distinct (map pv_executionNodeId (sp_nodes snapshot))
    \<and> list_all2 (traced (vr_definition root) (available_versions versions)) (wd_nodes w) (sp_nodes snapshot)"
proof -
  let ?root = "vr_definition root"
  from compose_Inr [OF run] obtain s where s: "expand ?root (available_versions versions) ?root [] [wd_id ?root] fresh_composition
        = (Inr w, s)" and ok: "composite_terminal_ok w" "workflowDefinitionV2Schema w"
      "workflowCompositionSnapshotSchema snapshot" and nodes: "sp_nodes snapshot = cm_provenance s"
    by metis
  have "traces (traced ?root (available_versions versions)) wd_nodes
      (expand ?root (available_versions versions) ?root [] [wd_id ?root])"
    by (rule expand_traced) (simp_all add: available_keyed calls_def at_path_def)
  with s obtain ps where "cm_provenance s = cm_provenance fresh_composition @ ps"
      "list_all2 (traced ?root (available_versions versions)) (wd_nodes w) ps"
    unfolding traces_def by blast
  then have "list_all2 (traced ?root (available_versions versions)) (wd_nodes w) (sp_nodes snapshot)"
    by (simp add: nodes fresh_composition_def)
  with expand_root_fields [OF s] ok show ?thesis
    by (auto simp: composite_terminal_ok_def list_ex_iff workflowCompositionSnapshotSchema_def)
qed

text \<open>C31. The generated identifiers of an expansion are unambiguous: two nodes of the provenance have the same identifier exactly when they
  stand at the same place, that is at the same node of the same workflow, reached through the same calls. A collision of digests, or of a
  digest with an identifier of the root, is never silent, because a claim with another key throws.\<close>

theorem claimed_identifiers_unambiguous:
  assumes "expand root available root [] [wd_id root] fresh_composition = (Inr w, s)"
    and "p \<in> set (cm_provenance s)" and "q \<in> set (cm_provenance s)"
  shows "pv_executionNodeId p = pv_executionNodeId q \<longleftrightarrow>
    pv_workflowId p = pv_workflowId q \<and> pv_semanticNodeId p = pv_semanticNodeId q
    \<and> map (\<lambda>i. (iv_workflowId i, iv_invocationNodeId i)) (pv_invocationPath p)
      = map (\<lambda>i. (iv_workflowId i, iv_invocationNodeId i)) (pv_invocationPath q)" (is "_ \<longleftrightarrow> ?place")
proof
  have "identified fresh_composition" by (simp add: identified_def fresh_composition_def)
  with alwaysD [OF expand_claims assms(1)] have s: "identified s" by (simp add: claims_kept_def)
  {
    assume "pv_executionNodeId p = pv_executionNodeId q"
    with s assms(2,3) have "pathKey (semantic_path (pv_invocationPath p) (pv_workflowId p) (pv_semanticNodeId p))
        = pathKey (semantic_path (pv_invocationPath q) (pv_workflowId q) (pv_semanticNodeId q))"
      unfolding identified_def by (metis option.inject)
    from semantic_keys_identify [OF this] show ?place by blast
  next
    assume ?place
    with executionId_place s assms(2,3) show "pv_executionNodeId p = pv_executionNodeId q" unfolding identified_def by metis
  }
qed

text \<open>C28. When an update of a reusable workflow is accepted, every other workflow that refers to it, directly or through
  others, can still be composed.\<close>

theorem accepted_update_keeps_dependents:
  assumes run: "assertReusableWorkflowUpdateCompatible localeCompare current proposed definitions = Inr ()"
    and candidates: "candidates = map (\<lambda>d. if wd_id d = wd_id current then proposed else d) definitions"
    and d: "d \<in> set candidates" "wd_id d \<noteq> wd_id current"
    and refers: "(wd_id d, wd_id current) \<in> (references_to candidates)\<^sup>+"
  shows "\<exists>w. validateAndComposeWorkflow localeCompare d candidates = Inr w"
proof -
  from run obtain affected where closure: "affected_closure candidates [wd_id current] = Inr affected"
    and ok: "list_all (\<lambda>d. wd_id d = wd_id current \<or> wd_id d \<notin> set affected
        \<or> is_ok (validateAndComposeWorkflow localeCompare d candidates)) candidates"
    by (auto simp: assertReusableWorkflowUpdateCompatible_def candidates Let_def bindR_def split: sum.splits if_splits)
  from affected_closure_exact [OF closure] refers have "wd_id d \<in> set affected"
    by (auto intro: trancl_into_rtrancl)
  with ok d have "is_ok (validateAndComposeWorkflow localeCompare d candidates)"
    by (auto simp: list_all_iff)
  then show ?thesis
    by (cases "validateAndComposeWorkflow localeCompare d candidates") (simp_all add: is_ok_def)
qed

section \<open>Samples\<close>

definition call_node :: "string \<Rightarrow> string \<Rightarrow> workflow_node" where
  "call_node i workflowId =
     \<lparr>wn_id = i, wn_blockType = ''subworkflow'', wn_blockVersion = 1, wn_config = JObj [(''workflowId'', JStr workflowId)]\<rparr>"

definition publish_node :: "string \<Rightarrow> string \<Rightarrow> workflow_node" where
  "publish_node i source =
     \<lparr>wn_id = i, wn_blockType = ''publish-github-pr'', wn_blockVersion = 1,
      wn_config = JObj [(''sourceNodeId'', JStr source), (''title'', JStr ''T''), (''body'', JStr []), (''draft'', JBool True)]\<rparr>"

definition reusable :: "workflow_node list \<Rightarrow> workflow_edge list \<Rightarrow> workflow_definition" where
  "reusable ns es = (sample_definition ns es)\<lparr>wd_id := ''child'', wd_exposableAsBlock := Some True\<rparr>"

definition child_workflow :: workflow_definition where
  "child_workflow = reusable [agent_node ''x''] []"

definition calling_workflow :: workflow_definition where
  "calling_workflow = sample_definition [agent_node ''a'', call_node ''c'' ''child''] [simple_edge ''a'' None ''c'']"

definition publishing_child :: workflow_definition where
  "publishing_child = reusable [agent_node ''x'', publish_node ''p'' ''x''] [simple_edge ''x'' None ''p'']"

end
