(* ===== verification/Composition_Samples.thy ===== *)
theory Composition_Samples
  imports Workflow_Composition
begin

text \<open>
  Compositions of small workflows. The digest of a scoped identifier is kept as a symbol: that it is an accepted
  identifier and differs from the identifiers of the root is all the runs need, so they are evaluated for every value
  the digest could have.
\<close>

section \<open>Definitions\<close>

text \<open>The call of the reusable workflow, and the identifiers its nodes get.\<close>

definition called :: invocation where
  "called = \<lparr>iv_workflowId = ''child'', iv_workflowName = ''Loop'', iv_invocationNodeId = ''c''\<rparr>"

definition called_id :: "string \<Rightarrow> string" where
  "called_id i = executionId [called] ''child'' i"

definition composite_edge :: "string \<Rightarrow> workflow_edge" where
  "composite_edge x = (simple_edge ''a'' None ''c'')\<lparr>we_target := x\<rparr>"

definition composite :: "string \<Rightarrow> workflow_definition" where
  "composite x = calling_workflow\<lparr>wd_nodes := [agent_node ''a'', agent_node x], wd_edges := [composite_edge x]\<rparr>"

section \<open>The composite is accepted\<close>

lemma agent_node_fields [simp]:
  "wn_id (agent_node i) = i" "wn_blockType (agent_node i) = ''agent''" "wn_blockVersion (agent_node i) = 1"
  "wn_config (agent_node i) = JObj [(''agentId'', JStr ''a'')]"
  by (simp_all add: agent_node_def)

lemma agent_block:
  "validate_block the_blocks ''agent'' 1 (JObj [(''agentId'', JStr ''a'')]) = Inr ()"
  "resolve_port the_blocks ''agent'' 1 Outputs None = Inr ''out''"
  "resolve_port the_blocks ''agent'' 1 Inputs None = Inr ''in''"
  by code_simp+

definition composite_arc :: "string \<Rightarrow> graph_edge" where
  "composite_arc x = \<lparr>ge_source = ''a'', ge_sourcePort = ''out'', ge_target = x, ge_targetPort = ''in''\<rparr>"

lemma composite_arc_fields [simp]: "ge_source (composite_arc x) = ''a''" "ge_target (composite_arc x) = x"
  by (simp_all add: composite_arc_def)

definition pair_nodes :: "string \<Rightarrow> workflow_node list" where
  "pair_nodes x = [agent_node ''a'', agent_node x]"

lemma pair_node_at:
  "x \<noteq> ''a'' \<Longrightarrow> node_at (pair_nodes x) ''a'' = Some (agent_node ''a'')"
  "x \<noteq> ''a'' \<Longrightarrow> node_at (pair_nodes x) x = Some (agent_node x)"
  by (auto simp: node_at_def pair_nodes_def js_find_def)

lemma pair_resolved: "resolve_edges (pair_nodes x) 0 [] [composite_edge x] = ([composite_arc x], [])"
  if "x \<noteq> ''a''"
proof -
  have "resolve_edge (pair_nodes x) 0 (composite_edge x) = Inr (composite_arc x)"
    using that
    by (simp add: resolve_edge_def pair_node_at composite_edge_def simple_edge_def agent_block bindR_def composite_arc_def)
  then show ?thesis by simp
qed

lemma pair_flow:
  "incoming [composite_arc x] x = [composite_arc x]" "outgoing [composite_arc x] ''a'' = [composite_arc x]"
  "successors [composite_arc x] ''a'' = [x]" "successors [flip (composite_arc x)] x = [''a'']"
  "x \<noteq> ''a'' \<Longrightarrow> incoming [composite_arc x] ''a'' = []" "x \<noteq> ''a'' \<Longrightarrow> outgoing [composite_arc x] x = []"
  "x \<noteq> ''a'' \<Longrightarrow> successors [composite_arc x] x = []" "x \<noteq> ''a'' \<Longrightarrow> successors [flip (composite_arc x)] ''a'' = []"
  by (auto simp: incoming_def outgoing_def successors_def flip_def)

lemma pair_ids: "x \<noteq> ''a'' \<Longrightarrow> node_ids (pair_nodes x) = [''a'', x]" "length (pair_nodes x) = 2"
  "map f (pair_nodes x) = [f (agent_node ''a''), f (agent_node x)]"
  by (simp_all add: node_ids_def pair_nodes_def js_dedup_def)

lemma pair_ends:
  "x \<noteq> ''a'' \<Longrightarrow> graph_entries (pair_nodes x) ds [composite_arc x] = [''a'']"
  "x \<noteq> ''a'' \<Longrightarrow> graph_terminals (pair_nodes x) [composite_arc x] = [x]"
  by (simp_all add: graph_entries_def graph_roots_def graph_terminals_def pair_ids pair_flow)

lemma pair_components: "x \<noteq> ''a'' \<Longrightarrow> components (pair_nodes x) [composite_arc x] = [[x], [''a'']]"
  by (simp add: components_def pair_ids unnumbered_def pair_flow enter_def leave_def lower_def numeral_2_eq_2)

lemma pair_has:
  "x \<noteq> ''a'' \<Longrightarrow> has_block (pair_nodes x) t ''a'' \<longleftrightarrow> t = ''agent''"
  "x \<noteq> ''a'' \<Longrightarrow> has_block (pair_nodes x) t x \<longleftrightarrow> t = ''agent''"
  by (auto simp: has_block_def pair_node_at)

lemma pair_issues:
  assumes "x \<noteq> ''a''"
  shows "node_issues (pair_nodes x) [composite_arc x] ''a'' = []" "node_issues (pair_nodes x) [composite_arc x] x = []"
    "component_issues (pair_nodes x) [composite_arc x] [x] = []"
    "component_issues (pair_nodes x) [composite_arc x] [''a''] = []"
    "reach_issues (pair_nodes x) [composite_arc x] [''a''] [x] = []"
  using assms
  by (simp_all add: node_issues_def pair_has pair_flow merge_issues_def fan_out_issues_def issue_if_def component_issues_def
      cyclic_region_def reach_issues_def terminal_type_ok_def visited_def pair_ids)

lemma agent_issues:
  "publish_issues ns es (agent_node i) = []" "context_issues ns es (agent_node i) = []"
  "conversation_nodes (pair_nodes x) = []"
  by (simp_all add: publish_issues_def context_issues_def context_agent_def conversation_nodes_def pair_nodes_def
      conversation_source_def)

lemma pair_topology: "x \<noteq> ''a'' \<Longrightarrow> validateGraphTopology (pair_nodes x) [composite_edge x] = []"
  unfolding validateGraphTopology_def
  by (simp add: pair_resolved Let_def pair_ids pair_ends pair_components pair_issues agent_issues issue_if_def
      del: resolve_edges.simps)

lemma composite_shape: "block_id_ok x \<Longrightarrow> workflow_shape (composite x)"
  apply (simp add: workflow_shape_def composite_def composite_edge_def calling_workflow_def sample_definition_def
      simple_edge_def node_shape_def edge_shape_def opt_ok_def MAX_WORKFLOW_STEPS_def MAX_STEP_EXECUTIONS_def)
  apply code_simp
  done

lemma composite_accepted:
  assumes "block_id_ok x" "x \<noteq> ''a''"
  shows "workflowDefinitionV2Schema (composite x)"
proof -
  have parts: "wd_nodes (composite x) = pair_nodes x" "wd_edges (composite x) = [composite_edge x]"
    by (simp_all add: composite_def pair_nodes_def)
  have "node_id_issues 0 [] (pair_nodes x) = []"
    using assms(2) by (simp add: pair_nodes_def issue_if_def agent_block)
  then show ?thesis
    using composite_shape [OF assms(1)] pair_topology [OF assms(2)]
    by (simp add: workflowDefinitionV2Schema_def workflow_issues_def parts issue_if_def)
qed

section \<open>The composition\<close>

lemma called_id_scoped: "called_id i = scopedId ''n'' [pathKey (semantic_path [called] ''child'' i)]"
  by (simp add: called_id_def executionId_def)

lemma called_id_ok: "block_id_ok (called_id i)"
  unfolding called_id_scoped by (rule scoped_id_ok) simp

lemma called_id_fresh: "called_id i \<noteq> [c]" "[c] \<noteq> called_id i"
  unfolding called_id_scoped by (simp_all add: scopedId_first)

lemma node_reference_facts:
  "node_references (agent_node i) = Inr ([''a''], [])"
  "node_references (call_node i ''child'') = Inr ([], [''child''])"
  "node_references (publish_node ''p'' ''x'') = Inr ([], [])"
  unfolding node_references_def agent_node_def call_node_def publish_node_def workflow_node.simps by code_simp+

lemma child_fields:
  "wd_id child_workflow = ''child''" "wd_exposableAsBlock child_workflow = Some True" "wd_name child_workflow = ''Loop''"
  "wd_nodes child_workflow = [agent_node ''x'']" "wd_edges child_workflow = []"
  "workflowSubworkflowReferences child_workflow = Inr []"
  by (simp_all add: child_workflow_def reusable_def sample_definition_def) code_simp

lemma calling_fields:
  "wd_id calling_workflow = ''loop''" "wd_nodes calling_workflow = [agent_node ''a'', call_node ''c'' ''child'']"
  "wd_edges calling_workflow = [simple_edge ''a'' None ''c'']" "wd_exposableAsBlock calling_workflow = None"
  by (simp_all add: calling_workflow_def sample_definition_def)

lemma node_copies:
  "execution_config path i (agent_node j) = JObj [(''agentId'', JStr ''a'')]"
  "(agent_node j)\<lparr>wn_id := i, wn_config := JObj [(''agentId'', JStr ''a'')]\<rparr> = agent_node i"
  "wn_id (call_node i w) = i" "executionId [] w i = i"
  by (simp_all add: execution_config_def agent_node_def call_node_def executionId_def)

lemmas run_simps = bnd_def ret_def throw_def ofSum_def getS_def modS_def primitive_node_def claim_def Let_def
  use_dependency_def resolve_child_def lift_block_def fresh_composition_def truthy_def MAX_COMPOSITE_DEPTH_def
  node_reference_facts node_copies

lemma child_run:
  assumes "map_of (cm_claimed s) (''n:'' @ called_id ''x'') = None"
  shows "expand root available child_workflow [called] [r, c] s =
    (Inr (child_workflow\<lparr>wd_id := wd_id root, wd_exposableAsBlock := wd_exposableAsBlock root,
        wd_nodes := [agent_node (called_id ''x'')], wd_edges := [], wd_maxStepExecutions := wd_maxStepExecutions root\<rparr>),
     s\<lparr>cm_claimed := AList.update (''n:'' @ called_id ''x'') (pathKey (semantic_path [called] ''child'' ''x'')) (cm_claimed s),
       cm_provenance := cm_provenance s @ [provenance_of root child_workflow [called] (agent_node ''x'') (called_id ''x'')]\<rparr>)"
  using assms by (subst expand.simps) (simp add: run_simps child_fields called_id_def [symmetric])

lemma splice_single:
  "wd_nodes w = [agent_node i] \<Longrightarrow> wd_edges w = [] \<Longrightarrow>
     splice_child n w = Inr \<lparr>xp_nodes = [agent_node i], xp_edges = [], xp_replacement = Some (wn_id n, i, i)\<rparr>"
  by (simp add: splice_child_def graphEntryNode_def declared_graph_def graph_roots_def incoming_def node_ids_def js_dedup_def
      terminal_node_def js_find_def)

definition child_dependency :: "string \<Rightarrow> composite_dependency" where
  "child_dependency revision = \<lparr>cd_workflowId = ''child'', cd_revision = revision, cd_definition = child_workflow,
     cd_dependencyWorkflowIds = []\<rparr>"

definition calling_provenance :: "node_provenance list" where
  "calling_provenance = [provenance_of calling_workflow calling_workflow [] (agent_node ''a'') ''a'',
     provenance_of calling_workflow child_workflow [called] (agent_node ''x'') (called_id ''x'')]"

lemma calling_run:
  assumes "available ''child'' = Some \<lparr>vr_definition = child_workflow, vr_fileSha = revision\<rparr>"
  shows "\<exists>claimed. expand calling_workflow available calling_workflow [] [''loop''] fresh_composition =
    (Inr (composite (called_id ''x'')), \<lparr>cm_used = [(''child'', child_dependency revision)],
       cm_provenance = calling_provenance, cm_claimed = claimed\<rparr>)"
  by (subst expand.simps)
    (simp add: assms run_simps calling_fields child_fields called_def [symmetric] child_run called_id_fresh splice_single
      expand_edge_def edge_end_def replacements_def List.map_filter_def simple_edge_def composite_def composite_edge_def
      child_dependency_def calling_provenance_def)

lemma calling_snapshot:
  assumes "revision \<noteq> []" "length revision \<le> 100"
  shows "workflowCompositionSnapshotSchema \<lparr>sp_dependencies = [child_dependency revision], sp_nodes = calling_provenance\<rparr>"
proof -
  have ids: "block_id_ok ''loop''" "block_id_ok ''child''" "block_id_ok ''a''" "block_id_ok ''c''" "block_id_ok ''x''"
      "is_trimmed_text 120 (JStr ''Loop'')" "workflowDefinitionV2Schema child_workflow" "wd_name calling_workflow = ''Loop''"
    by code_simp+
  then show ?thesis
    using assms called_id_ok [of "''x''"] called_id_fresh
    by (auto simp: workflowCompositionSnapshotSchema_def compositeDependencySchema_def compositeNodeProvenanceSchema_def
        invocation_ok_def child_dependency_def calling_provenance_def provenance_of_def called_def child_fields calling_fields
        block_label_def MAX_WORKFLOW_STEPS_def)
qed

lemma calling_composes:
  assumes "available_versions versions ''child'' = Some \<lparr>vr_definition = child_workflow, vr_fileSha = revision\<rparr>"
    and "revision \<noteq> []" "length revision \<le> 100"
  shows "composeVersionedWorkflowV2 localeCompare \<lparr>vr_definition = calling_workflow, vr_fileSha = r\<rparr> versions =
    Inr (composite (called_id ''x''), \<lparr>sp_dependencies = [child_dependency revision], sp_nodes = calling_provenance\<rparr>)"
proof -
  have "composite_terminal_ok (composite x)" "length (wd_nodes (composite x)) = 2" "length (wd_edges (composite x)) = 1"
    if "x \<noteq> ''a''" for x
    using that by (auto simp: composite_terminal_ok_def terminal_node_def composite_def composite_edge_def simple_edge_def js_find_def)
  then show ?thesis
    using calling_run [of "available_versions versions" revision] assms calling_snapshot [OF assms(2,3)]
      composite_accepted [OF called_id_ok called_id_fresh(1)] called_id_fresh
    by (auto simp: composeVersionedWorkflowV2_def calling_fields MAX_WORKFLOW_STEPS_def MAX_STEP_EXECUTIONS_def)
qed


section \<open>Instances\<close>

definition calling_result :: "workflow_definition \<times> composition_snapshot" where
  "calling_result = (composite (called_id ''x''), \<lparr>sp_dependencies = [child_dependency ''f''], sp_nodes = calling_provenance\<rparr>)"

lemma calling_result_composed:
  "composeVersionedWorkflowV2 (\<lambda>_ _. 0) \<lparr>vr_definition = calling_workflow, vr_fileSha = ''r''\<rparr>
     [\<lparr>vr_definition = child_workflow, vr_fileSha = ''f''\<rparr>] = Inr calling_result"
proof -
  have "available_versions [\<lparr>vr_definition = child_workflow, vr_fileSha = ''f''\<rparr>] ''child''
      = Some \<lparr>vr_definition = child_workflow, vr_fileSha = ''f''\<rparr>"
    by code_simp
  from calling_composes [OF this] show ?thesis by (simp add: calling_result_def)
qed

theorem composed_workflow_traced_witness:
  "workflowDefinitionV2Schema (fst calling_result) \<and> distinct (map pv_executionNodeId (sp_nodes (snd calling_result)))
   \<and> list_all2 (traced calling_workflow (available_versions [\<lparr>vr_definition = child_workflow, vr_fileSha = ''f''\<rparr>]))
       (wd_nodes (fst calling_result)) (sp_nodes (snd calling_result))"
proof -
  have run: "composeVersionedWorkflowV2 (\<lambda>_ _. 0) \<lparr>vr_definition = calling_workflow, vr_fileSha = ''r''\<rparr>
     [\<lparr>vr_definition = child_workflow, vr_fileSha = ''f''\<rparr>] = Inr (fst calling_result, snd calling_result)"
    by (simp add: calling_result_composed)
  from composed_workflow_traced [OF run] show ?thesis
    unfolding versioned_workflow.simps by blast
qed

theorem claimed_identifiers_unambiguous_witness:
  "\<exists>w s. expand calling_workflow (\<lambda>i. if i = ''child'' then Some \<lparr>vr_definition = child_workflow, vr_fileSha = ''f''\<rparr> else None)
      calling_workflow [] [wd_id calling_workflow] fresh_composition = (Inr w, s)
     \<and> cm_provenance s = calling_provenance
     \<and> pv_executionNodeId (calling_provenance ! 0) \<noteq> pv_executionNodeId (calling_provenance ! 1)"
proof -
  let ?available = "\<lambda>i. if i = ''child'' then Some \<lparr>vr_definition = child_workflow, vr_fileSha = ''f''\<rparr> else None"
  obtain claimed where run: "expand calling_workflow ?available calling_workflow [] [wd_id calling_workflow] fresh_composition =
      (Inr (composite (called_id ''x'')), \<lparr>cm_used = [(''child'', child_dependency ''f'')],
         cm_provenance = calling_provenance, cm_claimed = claimed\<rparr>)"
    using calling_run [of ?available "''f''"] by (auto simp: calling_fields)
  have entries: "calling_provenance ! 0 \<in> set calling_provenance" "calling_provenance ! 1 \<in> set calling_provenance"
    "pv_semanticNodeId (calling_provenance ! 0) \<noteq> pv_semanticNodeId (calling_provenance ! 1)"
    by (simp_all add: calling_provenance_def provenance_of_def agent_node_def)
  with claimed_identifiers_unambiguous [OF run, of "calling_provenance ! 0" "calling_provenance ! 1"] run show ?thesis by simp
qed

lemma calling_validates:
  "validateAndComposeWorkflow localeCompare calling_workflow [child_workflow, calling_workflow]
     = Inr (composite (called_id ''x''))"
proof -
  have "available_versions (map (\<lambda>d. \<lparr>vr_definition = d, vr_fileSha = ''validation-'' @ wd_id d\<rparr>) [child_workflow, calling_workflow])
      ''child'' = Some \<lparr>vr_definition = child_workflow, vr_fileSha = ''validation-child''\<rparr>"
    by code_simp
  from calling_composes [OF this] show ?thesis by (simp add: validateAndComposeWorkflow_def bindR_def)
qed

lemma calling_affected: "affected_closure [child_workflow, calling_workflow] [''child''] = Inr [''child'', ''loop'']"
  by (simp add: affected_closure.simps) code_simp

lemma calling_update_accepted:
  "assertReusableWorkflowUpdateCompatible localeCompare child_workflow child_workflow [child_workflow, calling_workflow] = Inr ()"
  by (simp add: assertReusableWorkflowUpdateCompatible_def child_fields calling_fields calling_affected bindR_def
      calling_validates is_ok_def)

theorem accepted_update_keeps_dependents_witness:
  "assertReusableWorkflowUpdateCompatible (\<lambda>_ _. 0) child_workflow child_workflow [child_workflow, calling_workflow] = Inr ()
   \<and> (\<exists>w. validateAndComposeWorkflow (\<lambda>_ _. 0) calling_workflow [child_workflow, calling_workflow] = Inr w)"
proof
  show run: "assertReusableWorkflowUpdateCompatible (\<lambda>_ _. 0) child_workflow child_workflow [child_workflow, calling_workflow] = Inr ()"
    by (rule calling_update_accepted)
  have "workflowSubworkflowReferences calling_workflow = Inr [''child'']" by code_simp
  then have refers: "(wd_id calling_workflow, wd_id child_workflow) \<in> (references_to [child_workflow, calling_workflow])\<^sup>+"
    by (intro r_into_trancl) (auto simp: references_to_def child_fields calling_fields intro!: exI [of _ calling_workflow])
  show "\<exists>w. validateAndComposeWorkflow (\<lambda>_ _. 0) calling_workflow [child_workflow, calling_workflow] = Inr w"
    using run by (rule accepted_update_keeps_dependents) (use refers in \<open>simp_all add: child_fields calling_fields\<close>)
qed

section \<open>A reusable workflow that publishes\<close>

lemma publishing_fields:
  "wd_id publishing_child = ''child''" "wd_exposableAsBlock publishing_child = Some True" "wd_name publishing_child = ''Loop''"
  "wd_nodes publishing_child = [agent_node ''x'', publish_node ''p'' ''x'']" "wd_edges publishing_child = [simple_edge ''x'' None ''p'']"
  by (simp_all add: publishing_child_def reusable_def sample_definition_def)

lemma publish_copies:
  "wn_id (publish_node i source) = i" "execution_config path w (publish_node i source) = wn_config (publish_node i source)"
  "(publish_node i source)\<lparr>wn_id := j, wn_config := wn_config (publish_node i source)\<rparr> = publish_node j source"
  by (simp_all add: publish_node_def execution_config_def)

lemma publishing_nodes:
  assumes "expand root available publishing_child [called] [r, c] s = (Inr w, t)"
  shows "wd_nodes w = [agent_node (called_id ''x''), publish_node (called_id ''p'') ''x'']"
  using assms
  by (subst (asm) expand.simps)
    (auto simp: MAX_COMPOSITE_DEPTH_def publishing_fields bnd_Inr node_reference_facts lift_block_def primitive_node_def Let_def
      node_copies publish_copies called_id_def dest!: claim_Inr)

lemma publishing_call_nodes:
  assumes child: "available ''child'' = Some v" "vr_definition v = publishing_child"
    and run: "expand calling_workflow available calling_workflow [] [''loop''] s = (Inr w, t)"
  shows "wd_nodes w = [agent_node ''a'', agent_node (called_id ''x''), publish_node (called_id ''p'') ''x'']"
  using run
  by (subst (asm) expand.simps)
    (auto simp: MAX_COMPOSITE_DEPTH_def calling_fields child publishing_fields bnd_Inr node_reference_facts lift_block_def
      primitive_node_def Let_def node_copies resolve_child_def called_def [symmetric] dest!: claim_Inr publishing_nodes splice_nodes)

lemma lost_source:
  "publish_issues [agent_node ''a'', agent_node (called_id ''x''), publish_node (called_id ''p'') ''x''] es
     (publish_node (called_id ''p'') ''x'') \<noteq> []"
  by (simp add: publish_issues_def has_block_def node_at_def js_find_def publish_node_def called_id_fresh issue_if_def js_get_def js_str_def)

text \<open>
  A reusable workflow whose terminal block publishes a pull request is accepted on its own, but no workflow that calls
  it composes: the expansion renames the nodes, while the source of the publication keeps the old identifier.
\<close>

theorem publishing_workflow_not_reusable:
  "workflowDefinitionV2Schema publishing_child \<and> wd_exposableAsBlock publishing_child = Some True
   \<and> (\<nexists>w. validateAndComposeWorkflow localeCompare calling_workflow [publishing_child, calling_workflow] = Inr w)"
proof (intro conjI notI)
  show "workflowDefinitionV2Schema publishing_child" by code_simp
  show "wd_exposableAsBlock publishing_child = Some True" by (simp add: publishing_fields)
  let ?versions = "map (\<lambda>d. \<lparr>vr_definition = d, vr_fileSha = ''validation-'' @ wd_id d\<rparr>) [publishing_child, calling_workflow]"
  assume "\<exists>w. validateAndComposeWorkflow localeCompare calling_workflow [publishing_child, calling_workflow] = Inr w"
  then obtain w snapshot where "composeVersionedWorkflowV2 localeCompare
      \<lparr>vr_definition = calling_workflow, vr_fileSha = ''validation''\<rparr> ?versions = Inr (w, snapshot)"
    by (auto simp: validateAndComposeWorkflow_def bindR_def split: sum.splits)
  then obtain s where run: "expand calling_workflow (available_versions ?versions) calling_workflow []
      [wd_id calling_workflow] fresh_composition = (Inr w, s)" and ok: "workflowDefinitionV2Schema w"
    by (elim compose_Inr) simp
  have "available_versions ?versions ''child'' = Some \<lparr>vr_definition = publishing_child, vr_fileSha = ''validation-child''\<rparr>"
    by code_simp
  then have nodes: "wd_nodes w = [agent_node ''a'', agent_node (called_id ''x''), publish_node (called_id ''p'') ''x'']"
    by (rule publishing_call_nodes) (use run in \<open>simp_all add: calling_fields\<close>)
  from ok have "\<exists>es. concat (map (publish_issues (wd_nodes w) es) (wd_nodes w)) = []"
    by (auto simp: workflowDefinitionV2Schema_def workflow_issues_def validateGraphTopology_def Let_def split: prod.splits)
  with lost_source show False unfolding nodes by simp
qed

end
