(* ===== verification/Repository_Diagnostics.thy ===== *)
theory Repository_Diagnostics
  imports Repository_Authorization Artifact_Catalogue Github_Repository
begin

text \<open>
  The report on the configured repository: the permission checks and the availability of a manual refresh
  (\<^verbatim>\<open>lib/diagnostics-model.ts\<close>), the overall state (\<^verbatim>\<open>lib/diagnostics-overall.ts\<close>), the report itself
  (\<^verbatim>\<open>lib/repository-diagnostics.ts\<close>) with the wrapper of the cache inspection (\<^verbatim>\<open>lib/artifacts.ts\<close>), and the
  texts of \<^verbatim>\<open>lib/diagnostics-presentation.ts\<close> with the list of what contributes to an unhealthy state.

  The requests of a report (the live authorization, the two installation credentials, the head revision, the
  inspection of the cache and the validation) are operations of the record \<open>diagnostics_env\<close> over a common world; the
  other theories model them one by one. The two credentials are requested concurrently in the code and one after the
  other here. Times are milliseconds; the log line is not modelled.

  The properties: a denied session gets a report without any repository request, an unhealthy report always says why,
  and an unsupported backend makes the report fail.
\<close>

section \<open>Definitions\<close>

subsection \<open>Permission checks\<close>

datatype permission_reason =
    PermGranted | PermMissing | PermInstallationMissing | PermAuthenticationFailed | PermCapabilityRejected
  | PermTemporarilyUnavailable | PermRateLimited | PermMalformedResponse | PermRequestFailed
  | PermPrerequisiteInvalid | PermNotChecked

text \<open>\<open>pk_effective\<close> is \<open>None\<close> for the answer \<^verbatim>\<open>unknown\<close>.\<close>

record permission_check =
  pk_effective :: "bool option"
  pk_reason :: permission_reason

definition unknownPermissionCheck :: "permission_reason \<Rightarrow> permission_check" where
  "unknownPermissionCheck reason = \<lparr>pk_effective = None, pk_reason = reason\<rparr>"

definition deniedPermissionCheck :: "permission_reason \<Rightarrow> permission_check" where
  "deniedPermissionCheck reason = \<lparr>pk_effective = Some False, pk_reason = reason\<rparr>"

record credential_failure =
  cf_status :: "int option"
  cf_category :: "permission_reason option"

text \<open>A settled credential request: rejected with a failure, or the permissions of the credential, if it has any.\<close>

definition classifyCapabilityResult ::
  "credential_failure + (string \<rightharpoonup> string) option \<Rightarrow> (string \<times> string list) list \<Rightarrow> permission_check" where
  "classifyCapabilityResult result required =
     (case result of
        Inl failure \<Rightarrow>
          (case cf_category failure of
             Some PermCapabilityRejected \<Rightarrow> deniedPermissionCheck PermCapabilityRejected
           | Some c \<Rightarrow> if c = PermInstallationMissing then deniedPermissionCheck c else unknownPermissionCheck c
           | None \<Rightarrow>
               (case cf_status failure of
                  None \<Rightarrow> unknownPermissionCheck PermTemporarilyUnavailable
                | Some status \<Rightarrow>
                    if status = 401 then unknownPermissionCheck PermAuthenticationFailed
                    else if status = 403 \<or> status = 404 then deniedPermissionCheck PermInstallationMissing
                    else if status = 429 then unknownPermissionCheck PermRateLimited
                    else if 500 \<le> status then unknownPermissionCheck PermTemporarilyUnavailable
                    else if status = 422 then deniedPermissionCheck PermCapabilityRejected
                    else unknownPermissionCheck PermRequestFailed))
      | Inr None \<Rightarrow> unknownPermissionCheck PermMalformedResponse
      | Inr (Some permissions) \<Rightarrow>
          let granted = list_all (\<lambda>(name, levels).
                          (case permissions name of Some p \<Rightarrow> p | None \<Rightarrow> []) \<in> set levels) required
          in \<lparr>pk_effective = Some granted, pk_reason = (if granted then PermGranted else PermMissing)\<rparr>)"

subsection \<open>The report\<close>

datatype setting_state = SettingConfigured | SettingMissing | SettingInvalid

record diagnostics_configuration =
  dc_backend :: public_backend
  dc_owner :: "string option"
  dc_repository :: "string option"
  dc_branch :: string
  dc_artifactRoot :: string
  dc_cacheBinding :: setting_state
  dc_authSecrets :: "(string \<times> setting_state) list"

datatype live_state = LiveAuthorized | LiveDenied | LiveTemporarilyUnavailable | LiveNotChecked

record diagnostics_authorization =
  da_lastCheckedAt :: int
  da_repositoryMatches :: "bool option"
  da_repositoryIdPresent :: bool
  da_installationIdPresent :: bool
  da_liveState :: live_state
  da_reason :: "denial_reason option"

datatype installation_state =
    InstallationDetected | InstallationMissing | InstallationUnavailable | InstallationUnknown

record diagnostics_installation =
  di_state :: installation_state
  di_repositoryId :: "int option"
  di_installationId :: "int option"

record diagnostics_permissions =
  dp_contentsRead :: permission_check
  dp_contentsWrite :: permission_check
  dp_checkedAt :: "int option"

datatype revision_report =
  HeadAvailable string | HeadUnavailable "string option" | HeadUnknown "string option"

datatype cache_status = CacheIsFresh | CacheIsStale | CacheIsMissing | CacheIsDegraded | CacheIsCorrupt | CacheIsUnavailable

record cache_report =
  cr_configured :: bool
  cr_state :: cache_status
  cr_revision :: "string option"
  cr_refreshedAt :: "int option"
  cr_ageSeconds :: "int option"
  cr_artifactCount :: "nat option"
  cr_currentRevisionMatches :: "bool option option"
  cr_reason :: "string option"

datatype validation_outcome =
  Validated validation_report | ValidationUnavailable string string | ValidationNotRun "string option"

datatype overall_state =
    OverallHealthy | OverallDegraded | OverallMisconfigured | OverallUnauthorized
  | OverallInvalidContent | OverallUnavailable

record repository_diagnostics =
  rg_generatedAt :: int
  rg_login :: string
  rg_githubId :: int
  rg_configuration :: diagnostics_configuration
  rg_authorization :: diagnostics_authorization
  rg_installation :: diagnostics_installation
  rg_permissions :: diagnostics_permissions
  rg_repositoryRevision :: revision_report
  rg_cache :: cache_report
  rg_validation :: validation_outcome
  rg_overall :: overall_state

subsection \<open>The overall state\<close>

definition content_invalid :: "validation_outcome \<Rightarrow> bool" where
  "content_invalid v = (case v of Validated r \<Rightarrow> rep_invalidCount r \<noteq> 0 | _ \<Rightarrow> False)"

definition validation_failed :: "validation_outcome \<Rightarrow> bool" where
  "validation_failed v = (case v of ValidationUnavailable _ _ \<Rightarrow> True | _ \<Rightarrow> False)"

definition head_unavailable :: "revision_report \<Rightarrow> bool" where
  "head_unavailable r = (case r of HeadUnavailable _ \<Rightarrow> True | _ \<Rightarrow> False)"

definition repository_misconfigured :: "diagnostics_configuration \<Rightarrow> bool" where
  "repository_misconfigured c =
     (dc_backend c = PublicInvalid
      \<or> (dc_backend c = PublicGithub \<and> (\<not> truthy (dc_owner c) \<or> \<not> truthy (dc_repository c))))"

definition deriveOverallDiagnosticsState ::
  "diagnostics_configuration \<Rightarrow> diagnostics_authorization \<Rightarrow> diagnostics_permissions \<Rightarrow> revision_report \<Rightarrow>
     cache_report \<Rightarrow> validation_outcome \<Rightarrow> overall_state" where
  "deriveOverallDiagnosticsState configuration authorization permissions revision cache validation =
     (if repository_misconfigured configuration \<or> list_ex (\<lambda>(_, s). s \<noteq> SettingConfigured) (dc_authSecrets configuration)
      then OverallMisconfigured
      else if da_repositoryMatches authorization = Some False \<or> da_liveState authorization = LiveDenied
      then OverallUnauthorized
      else if content_invalid validation then OverallInvalidContent
      else if pk_effective (dp_contentsRead permissions) = Some False then OverallUnauthorized
      else if head_unavailable revision \<or> cr_state cache = CacheIsDegraded \<or> cr_state cache = CacheIsUnavailable
      then OverallUnavailable
      else if pk_effective (dp_contentsRead permissions) = None
              \<or> pk_effective (dp_contentsWrite permissions) \<noteq> Some True
              \<or> da_liveState authorization = LiveTemporarilyUnavailable
              \<or> cr_state cache = CacheIsStale \<or> cr_state cache = CacheIsMissing \<or> cr_state cache = CacheIsCorrupt
              \<or> validation_failed validation
      then OverallDegraded
      else OverallHealthy)"

subsection \<open>The availability of a refresh\<close>

datatype refresh_unavailable =
    LocalBackend | CacheBindingMissing | RepositoryIdentityMissing | InstallationIdentityMissing
  | AuthorizationUnavailable | AuthenticationUnavailable | ReadPermissionMissing | ReadPermissionUnverified
  | ConfigurationInvalid

definition required_refresh_settings :: "string list" where
  "required_refresh_settings =
     [''GITHUB_APP_ID'', ''GITHUB_APP_CLIENT_ID'', ''GITHUB_APP_CLIENT_SECRET'', ''GITHUB_APP_PRIVATE_KEY'',
      ''GITHUB_TOKEN_ENCRYPTION_KEY'']"

text \<open>\<open>None\<close>: the refresh is available.\<close>

definition catalogueRefreshAvailability ::
  "diagnostics_configuration \<Rightarrow> diagnostics_authorization \<Rightarrow> diagnostics_permissions \<Rightarrow> refresh_unavailable option" where
  "catalogueRefreshAvailability configuration authorization permissions =
     (let readCheck = dp_contentsRead permissions
      in if dc_backend configuration = PublicFile then Some LocalBackend
         else if dc_backend configuration \<noteq> PublicGithub \<or> \<not> truthy (dc_owner configuration)
                 \<or> \<not> truthy (dc_repository configuration) \<or> dc_branch configuration = []
                 \<or> dc_artifactRoot configuration = [] then Some ConfigurationInvalid
         else if dc_cacheBinding configuration \<noteq> SettingConfigured then Some CacheBindingMissing
         else if list_ex (\<lambda>name. map_of (dc_authSecrets configuration) name \<noteq> Some SettingConfigured)
                   required_refresh_settings then Some ConfigurationInvalid
         else if \<not> da_repositoryIdPresent authorization then Some RepositoryIdentityMissing
         else if \<not> da_installationIdPresent authorization then Some InstallationIdentityMissing
         else if da_repositoryMatches authorization = Some False \<or> da_liveState authorization = LiveDenied
         then Some AuthorizationUnavailable
         else if pk_effective readCheck = Some False then Some ReadPermissionMissing
         else if pk_effective readCheck = Some True then None
         else if pk_reason readCheck = PermRateLimited \<or> pk_reason readCheck = PermTemporarilyUnavailable then None
         else if pk_reason readCheck = PermAuthenticationFailed then Some AuthenticationUnavailable
         else Some ReadPermissionUnverified)"

subsection \<open>Generating the report\<close>

text \<open>
  The platform context: \<open>None\<close> when it cannot be obtained, \<open>Some None\<close> when it has no environment, and otherwise
  whether the cache is bound.
\<close>

definition inspectCatalogueCacheBinding :: "bool option option \<Rightarrow> setting_state" where
  "inspectCatalogueCacheBinding context =
     (case context of
        None \<Rightarrow> SettingInvalid
      | Some None \<Rightarrow> SettingInvalid
      | Some (Some bound) \<Rightarrow> if bound then SettingConfigured else SettingMissing)"

datatype inspect_failure = CatalogueCacheUnavailableError | InspectFailure repo_error

record 'w diagnostics_env =
  dg_environment :: environment
  dg_importKey :: "nat list \<Rightarrow> unit option"
  dg_context :: "bool option option"
  dg_verify :: "github_app_config \<Rightarrow> session_record \<Rightarrow> ('w, github_error, authorization_status) eff"
  dg_credential :: "github_app_config \<Rightarrow> access_context \<Rightarrow> capability \<Rightarrow>
     ('w, credential_failure, (string \<rightharpoonup> string) option) eff"
  dg_baseRevision :: "access_context \<Rightarrow> ('w, repo_error, string) eff"
  dg_inspect :: "access_context \<Rightarrow> string option \<Rightarrow> ('w, inspect_failure, cache_diagnostic) eff"
  dg_validate :: "access_context \<Rightarrow> string \<Rightarrow> ('w, repo_error, validation_report option) eff"

definition presence :: "environment \<Rightarrow> string \<Rightarrow> setting_state" where
  "presence env name =
     (case env name of
        None \<Rightarrow> SettingMissing | Some v \<Rightarrow> if js_trim v = [] then SettingMissing else SettingConfigured)"

definition secret_names :: "string list" where
  "secret_names =
     [''GITHUB_APP_ID'', ''GITHUB_APP_CLIENT_ID'', ''GITHUB_APP_CLIENT_SECRET'', ''GITHUB_APP_PRIVATE_KEY'',
      ''GITHUB_TOKEN_ENCRYPTION_KEY'', ''SESSION_SECRET'']"

definition secret_state :: "'w diagnostics_env \<Rightarrow> string \<Rightarrow> setting_state" where
  "secret_state env name =
     (let state = presence (dg_environment env) name; value = the (dg_environment env name)
      in if state \<noteq> SettingConfigured then state
         else if name = ''SESSION_SECRET'' \<and> length (js_trim value) < 32 then SettingInvalid
         else if name = ''GITHUB_TOKEN_ENCRYPTION_KEY'' \<and> isl (validateTokenEncryptionKey value) then SettingInvalid
         else if name = ''GITHUB_APP_PRIVATE_KEY'' \<and> isl (validateGitHubAppPrivateKey (dg_importKey env) value)
         then SettingInvalid
         else state)"

definition safeConfiguration :: "'w diagnostics_env \<Rightarrow> diagnostics_configuration" where
  "safeConfiguration env =
     (let publicConfig = getPublicRepositoryConfiguration (dg_environment env)
      in \<lparr>dc_backend = pc_backend publicConfig, dc_owner = pc_owner publicConfig,
          dc_repository = pc_repository publicConfig, dc_branch = pc_branch publicConfig,
          dc_artifactRoot = pc_root publicConfig,
          dc_cacheBinding = inspectCatalogueCacheBinding (dg_context env),
          dc_authSecrets = map (\<lambda>name. (name, secret_state env name)) secret_names\<rparr>)"

text \<open>A settled request: its failure is a value.\<close>

definition settle_request :: "('s, 'e, 'a) eff \<Rightarrow> ('s, 'f, 'e + 'a) eff" where
  "settle_request m s = (case m s of (r, t) \<Rightarrow> (Inr r, t))"

definition empty_cache_report :: "bool \<Rightarrow> cache_status \<Rightarrow> string option \<Rightarrow> cache_report" where
  "empty_cache_report configured state reason =
     \<lparr>cr_configured = configured, cr_state = state, cr_revision = None, cr_refreshedAt = None, cr_ageSeconds = None,
      cr_artifactCount = None, cr_currentRevisionMatches = None, cr_reason = reason\<rparr>"

fun cache_report_of :: "cache_diagnostic \<Rightarrow> cache_report" where
  "cache_report_of DiagDegraded = empty_cache_report True CacheIsDegraded (Some ''cache_read_unavailable'')"
| "cache_report_of DiagCorrupt = empty_cache_report True CacheIsCorrupt (Some ''invalid_cache_snapshot'')"
| "cache_report_of DiagMissing = empty_cache_report True CacheIsMissing None"
| "cache_report_of DiagLocallyInvalidated = empty_cache_report True CacheIsCorrupt (Some ''locally_invalidated'')"
| "cache_report_of DiagGenerationMismatch = empty_cache_report True CacheIsCorrupt (Some ''generation_mismatch'')"
| "cache_report_of (DiagFresh revision refreshedAt age n matches) =
     \<lparr>cr_configured = True, cr_state = CacheIsFresh, cr_revision = Some revision, cr_refreshedAt = Some refreshedAt,
      cr_ageSeconds = Some age, cr_artifactCount = Some n, cr_currentRevisionMatches = Some matches, cr_reason = None\<rparr>"
| "cache_report_of (DiagStale revision refreshedAt age n matches mismatch) =
     \<lparr>cr_configured = True, cr_state = CacheIsStale, cr_revision = Some revision, cr_refreshedAt = Some refreshedAt,
      cr_ageSeconds = Some age, cr_artifactCount = Some n, cr_currentRevisionMatches = Some matches,
      cr_reason = Some (if mismatch then ''revision_mismatch'' else ''age'')\<rparr>"

definition inspectArtifactCatalogueCache ::
  "'w diagnostics_env \<Rightarrow> access_context \<Rightarrow> string option \<Rightarrow> ('w, repo_error, cache_report) eff" where
  "inspectArtifactCatalogueCache env access revision =
     (case getArtifactRepositoryBackend (dg_environment env ''ARTIFACT_REPOSITORY'') (dg_environment env ''NODE_ENV'') of
        Inl e \<Rightarrow> throw e
      | Inr FileBackend \<Rightarrow> ret (empty_cache_report False CacheIsMissing None)
      | Inr GithubBackend \<Rightarrow>
          bnd (settle_request (dg_inspect env access revision)) (\<lambda>r.
            case r of
              Inr d \<Rightarrow> ret (cache_report_of d)
            | Inl CatalogueCacheUnavailableError \<Rightarrow>
                ret (empty_cache_report False CacheIsUnavailable (Some ''cache_binding_missing''))
            | Inl (InspectFailure e) \<Rightarrow> throw e))"

definition present_id :: "int option \<Rightarrow> bool" where
  "present_id v = (v \<noteq> None \<and> v \<noteq> Some 0)"

definition live_state_of :: "authorization_status option \<Rightarrow> live_state" where
  "live_state_of live =
     (case live of
        None \<Rightarrow> LiveNotChecked
      | Some (AuthOk _) \<Rightarrow> LiveAuthorized
      | Some (AuthDenied reason) \<Rightarrow> if reason = DenyTemporary then LiveTemporarilyUnavailable else LiveDenied)"

definition definitive_denial :: "bool option \<Rightarrow> authorization_status option \<Rightarrow> bool" where
  "definitive_denial repositoryMatches live =
     (repositoryMatches = Some False
      \<or> (case live of Some (AuthDenied reason) \<Rightarrow> reason \<noteq> DenyTemporary | _ \<Rightarrow> False))"

definition live_check ::
  "'w diagnostics_env \<Rightarrow> session_record \<Rightarrow> bool option \<Rightarrow> github_app_config option \<Rightarrow> int \<Rightarrow>
     ('w, repo_error, authorization_status option) eff" where
  "live_check env session repositoryMatches config now =
     (case config of
        None \<Rightarrow> ret None
      | Some c \<Rightarrow>
          if repositoryMatches = Some True \<and> truthy (se_encryptedUserAccessToken session) \<and> truthy (se_tokenIv session)
             \<and> now < (case se_userAccessTokenExpiresAt session of Some t \<Rightarrow> t | None \<Rightarrow> 0)
          then bnd (settle_request (dg_verify env c session)) (\<lambda>r. ret (case r of Inr s \<Rightarrow> Some s | Inl _ \<Rightarrow> None))
          else ret None)"

definition diagnostics_access ::
  "session_record \<Rightarrow> bool option \<Rightarrow> github_app_config option \<Rightarrow> authorization_status option \<Rightarrow> access_context option" where
  "diagnostics_access session repositoryMatches config live =
     (let stored = se_authorization session
      in case live of
           Some (AuthOk access) \<Rightarrow> Some access
         | _ \<Rightarrow>
             if \<not> definitive_denial repositoryMatches live \<and> repositoryMatches = Some True \<and> config \<noteq> None
                \<and> present_id (au_repositoryId stored) \<and> present_id (au_installationId stored)
             then Some \<lparr>ac_owner = au_owner stored, ac_repo = au_repo stored, ac_login = se_login session,
                        ac_githubId = se_githubId session, ac_repositoryId = au_repositoryId stored,
                        ac_installationId = au_installationId stored, ac_checkedAt = au_checkedAt stored\<rparr>
             else None)"

definition read_required :: "(string \<times> string list) list" where
  "read_required = [(''contents'', [''read'', ''write'', ''admin''])]"

definition write_required :: "(string \<times> string list) list" where
  "write_required = [(''contents'', [''write'', ''admin''])]"

definition check_permissions ::
  "'w diagnostics_env \<Rightarrow> github_app_config option \<Rightarrow> access_context option \<Rightarrow> bool \<Rightarrow> int \<Rightarrow>
     ('w, repo_error, diagnostics_permissions) eff" where
  "check_permissions env config access definitiveDenial now =
     (case (access, config) of
        (Some a, Some c) \<Rightarrow>
          bnd (settle_request (dg_credential env c a CapRead)) (\<lambda>readResult.
          bnd (settle_request (dg_credential env c a CapWrite)) (\<lambda>writeResult.
          ret \<lparr>dp_contentsRead = classifyCapabilityResult readResult read_required,
               dp_contentsWrite = classifyCapabilityResult writeResult write_required, dp_checkedAt = Some now\<rparr>))
      | _ \<Rightarrow>
          let check = unknownPermissionCheck (if definitiveDenial then PermPrerequisiteInvalid else PermNotChecked)
          in ret \<lparr>dp_contentsRead = check, dp_contentsWrite = check, dp_checkedAt = None\<rparr>)"

definition revision_reason :: "repo_error \<Rightarrow> string" where
  "revision_reason e =
     (case e of
        ArtifactRepositoryAccessError \<Rightarrow> ''access_denied''
      | ArtifactRepositoryUnavailableError status \<Rightarrow>
          if status = Some 429 then ''rate_limited'' else ''temporarily_unavailable''
      | _ \<Rightarrow> ''repository_revision_unavailable'')"

definition base_revision ::
  "'w diagnostics_env \<Rightarrow> access_context option \<Rightarrow> diagnostics_permissions \<Rightarrow>
     ('w, repo_error, string option \<times> string option) eff" where
  "base_revision env access permissions =
     (case access of
        None \<Rightarrow> ret (None, None)
      | Some a \<Rightarrow>
          if pk_effective (dp_contentsRead permissions) = Some True
          then bnd (settle_request (dg_baseRevision env a)) (\<lambda>r.
                 ret (case r of Inr revision \<Rightarrow> (Some revision, None) | Inl e \<Rightarrow> (None, Some (revision_reason e))))
          else ret (None, None))"

definition cache_inspection ::
  "'w diagnostics_env \<Rightarrow> diagnostics_configuration \<Rightarrow> access_context option \<Rightarrow> bool \<Rightarrow> string option \<Rightarrow>
     ('w, repo_error, cache_report) eff" where
  "cache_inspection env configuration access definitiveDenial revision =
     (case access of
        Some a \<Rightarrow> if \<not> definitiveDenial then inspectArtifactCatalogueCache env a revision
                  else ret (empty_cache_report (dc_cacheBinding configuration = SettingConfigured) CacheIsUnavailable
                         (Some ''authorization_denied''))
      | None \<Rightarrow> ret (empty_cache_report (dc_cacheBinding configuration = SettingConfigured) CacheIsUnavailable
                  (Some (if definitiveDenial then ''authorization_denied'' else ''repository_identity_invalid''))))"

definition bind_cache :: "cache_report \<Rightarrow> diagnostics_configuration \<Rightarrow> diagnostics_configuration" where
  "bind_cache cache configuration =
     (if cr_configured cache then configuration\<lparr>dc_cacheBinding := SettingConfigured\<rparr>
      else if cr_reason cache = Some ''cache_binding_missing'' then configuration\<lparr>dc_cacheBinding := SettingMissing\<rparr>
      else configuration)"

definition validation_reason :: "repo_error \<Rightarrow> string" where
  "validation_reason e =
     (case e of
        ArtifactRepositoryUnavailableError status \<Rightarrow>
          if status = Some 429 then ''rate_limited'' else ''repository_unavailable''
      | ArtifactRepositoryAccessError \<Rightarrow> ''access_denied''
      | _ \<Rightarrow> ''repository_unavailable'')"

definition run_validation ::
  "'w diagnostics_env \<Rightarrow> bool \<Rightarrow> access_context option \<Rightarrow> bool \<Rightarrow> string option \<Rightarrow>
     ('w, repo_error, validation_outcome) eff" where
  "run_validation env includeValidation access definitiveDenial revision =
     (let notRun = ValidationNotRun (if definitiveDenial then Some ''authorization_denied'' else None)
      in case access of
           None \<Rightarrow> ret notRun
         | Some a \<Rightarrow>
             if includeValidation \<and> truthy revision \<and> \<not> definitiveDenial
             then bnd (settle_request (dg_validate env a (the revision))) (\<lambda>r.
                    ret (case r of
                           Inr (Some report) \<Rightarrow> Validated report
                         | Inr None \<Rightarrow> notRun
                         | Inl e \<Rightarrow> ValidationUnavailable (the revision) (validation_reason e)))
             else ret notRun)"

definition installation_of :: "authorization_status option \<Rightarrow> installation_state" where
  "installation_of live =
     (case live of
        Some (AuthOk _) \<Rightarrow> InstallationDetected
      | Some (AuthDenied reason) \<Rightarrow>
          if reason = DenyAppAccess then InstallationMissing
          else if reason = DenyTemporary then InstallationUnavailable else InstallationUnknown
      | None \<Rightarrow> InstallationUnknown)"

definition revision_report_of :: "access_context option \<Rightarrow> bool \<Rightarrow> string option \<times> string option \<Rightarrow> revision_report" where
  "revision_report_of access definitiveDenial r =
     (if truthy (fst r) then HeadAvailable (the (fst r))
      else if access \<noteq> None \<and> \<not> definitiveDenial then HeadUnavailable (snd r) else HeadUnknown (snd r))"

definition authorization_report ::
  "repository_authorization \<Rightarrow> bool option \<Rightarrow> authorization_status option \<Rightarrow> diagnostics_authorization" where
  "authorization_report stored repositoryMatches live =
     \<lparr>da_lastCheckedAt = au_checkedAt stored, da_repositoryMatches = repositoryMatches,
      da_repositoryIdPresent = present_id (au_repositoryId stored),
      da_installationIdPresent = present_id (au_installationId stored), da_liveState = live_state_of live,
      da_reason = (case live of Some (AuthDenied reason) \<Rightarrow> Some reason | _ \<Rightarrow> None)\<rparr>"

definition id_or :: "int option \<Rightarrow> int option \<Rightarrow> int option" where
  "id_or a b = (case a of Some x \<Rightarrow> Some x | None \<Rightarrow> b)"

definition installation_report ::
  "repository_authorization \<Rightarrow> authorization_status option \<Rightarrow> access_context option \<Rightarrow> diagnostics_installation" where
  "installation_report stored live access =
     \<lparr>di_state = installation_of live,
      di_repositoryId = id_or (Option.bind access ac_repositoryId) (au_repositoryId stored),
      di_installationId = id_or (Option.bind access ac_installationId) (au_installationId stored)\<rparr>"

definition generateRepositoryDiagnostics ::
  "'w diagnostics_env \<Rightarrow> session_record \<Rightarrow> bool \<Rightarrow> int \<Rightarrow> ('w, repo_error, repository_diagnostics) eff" where
  "generateRepositoryDiagnostics env session includeValidation now =
     (let stored = se_authorization session;
          configuration = safeConfiguration env;
          repositoryMatches = storedRepositoryMatchesPublicConfiguration (au_owner stored) (au_repo stored)
                                (getPublicRepositoryConfiguration (dg_environment env));
          config = (case getRepositoryAuthorizationConfig (dg_environment env) of Inr c \<Rightarrow> Some c | Inl _ \<Rightarrow> None)
      in bnd (live_check env session repositoryMatches config now) (\<lambda>live.
         let definitiveDenial = definitive_denial repositoryMatches live;
             access = diagnostics_access session repositoryMatches config live
         in bnd (check_permissions env config access definitiveDenial now) (\<lambda>permissions.
            bnd (base_revision env access permissions) (\<lambda>revision.
            bnd (cache_inspection env configuration access definitiveDenial (fst revision)) (\<lambda>cache.
            bnd (run_validation env includeValidation access definitiveDenial (fst revision)) (\<lambda>validation.
            let bound = bind_cache cache configuration;
                authorization = authorization_report stored repositoryMatches live;
                head = revision_report_of access definitiveDenial revision
            in ret \<lparr>rg_generatedAt = now, rg_login = se_login session, rg_githubId = se_githubId session,
                    rg_configuration = bound, rg_authorization = authorization,
                    rg_installation = installation_report stored live access, rg_permissions = permissions,
                    rg_repositoryRevision = head, rg_cache = cache, rg_validation = validation,
                    rg_overall = deriveOverallDiagnosticsState bound authorization permissions head cache validation\<rparr>))))))"

section \<open>Lemmas\<close>

subsection \<open>Permissions\<close>

text \<open>A permission is reported as granted exactly when the credential was issued with a sufficient level for each name.\<close>

lemma permission_granted_iff:
  "pk_effective (classifyCapabilityResult r required) = Some True \<longleftrightarrow>
     (\<exists>ps. r = Inr (Some ps) \<and> (\<forall>(name, levels) \<in> set required.
        (case ps name of Some p \<Rightarrow> p | None \<Rightarrow> []) \<in> set levels))"
proof (cases r)
  case (Inl failure)
  then show ?thesis
    by (auto simp: classifyCapabilityResult_def unknownPermissionCheck_def deniedPermissionCheck_def
        split: option.splits permission_reason.splits)
next
  case (Inr v)
  then show ?thesis
    by (cases v) (auto simp: classifyCapabilityResult_def unknownPermissionCheck_def Let_def list_all_iff)
qed

lemma write_permission_includes_read:
  assumes "pk_effective (classifyCapabilityResult r write_required) = Some True"
  shows "pk_effective (classifyCapabilityResult r read_required) = Some True"
  using assms unfolding permission_granted_iff by (auto simp: write_required_def read_required_def)

lemma refresh_prerequisites:
  assumes "catalogueRefreshAvailability c a p = None"
  shows "dc_backend c = PublicGithub" "dc_cacheBinding c = SettingConfigured"
    "\<And>name. name \<in> set required_refresh_settings \<Longrightarrow> map_of (dc_authSecrets c) name = Some SettingConfigured"
    "da_repositoryIdPresent a \<and> da_installationIdPresent a"
    "da_repositoryMatches a \<noteq> Some False \<and> da_liveState a \<noteq> LiveDenied"
    "pk_effective (dp_contentsRead p) \<noteq> Some False"
  using assms by (auto simp: catalogueRefreshAvailability_def Let_def list_ex_iff split: if_splits)

subsection \<open>Reports without access\<close>

lemma settle_request_eq [simp]: "settle_request m s = (Inr (fst (m s)), snd (m s))"
  by (simp add: settle_request_def split: prod.split)

named_theorems without_access "the steps of a report that has no access"

lemma check_permissions_None [without_access]:
  "check_permissions env config None denial now =
     ret \<lparr>dp_contentsRead = unknownPermissionCheck (if denial then PermPrerequisiteInvalid else PermNotChecked),
          dp_contentsWrite = unknownPermissionCheck (if denial then PermPrerequisiteInvalid else PermNotChecked),
          dp_checkedAt = None\<rparr>"
  by (simp add: check_permissions_def Let_def)

lemma base_revision_None [without_access]: "base_revision env None permissions = ret (None, None)"
  by (simp add: base_revision_def)

lemma cache_inspection_None [without_access]:
  "cache_inspection env configuration None denial revision =
     ret (empty_cache_report (dc_cacheBinding configuration = SettingConfigured) CacheIsUnavailable
       (Some (if denial then ''authorization_denied'' else ''repository_identity_invalid'')))"
  by (simp add: cache_inspection_def)

lemma run_validation_None [without_access]:
  "run_validation env inc None denial revision =
     ret (ValidationNotRun (if denial then Some ''authorization_denied'' else None))"
  by (simp add: run_validation_def Let_def)

lemma live_check_mismatch: "matches = Some False \<Longrightarrow> live_check env session matches config now = ret None"
  by (simp add: live_check_def split: option.split)

lemma live_denied_iff: "live_state_of live = LiveDenied \<longleftrightarrow> (\<exists>r. live = Some (AuthDenied r) \<and> r \<noteq> DenyTemporary)"
  by (auto simp: live_state_of_def split: option.splits authorization_status.splits)

lemma denied_access:
  assumes "matches = Some False \<and> live = None \<or> live_state_of live = LiveDenied"
  shows "diagnostics_access session matches config live = None" and "definitive_denial matches live"
  using assms
  by (auto simp: live_denied_iff diagnostics_access_def definitive_denial_def Let_def split: option.splits)

lemma kept_operations:
  "dg_environment (env\<lparr>dg_credential := c, dg_baseRevision := b, dg_inspect := i, dg_validate := v\<rparr>) = dg_environment env"
  "dg_importKey (env\<lparr>dg_credential := c, dg_baseRevision := b, dg_inspect := i, dg_validate := v\<rparr>) = dg_importKey env"
  "dg_context (env\<lparr>dg_credential := c, dg_baseRevision := b, dg_inspect := i, dg_validate := v\<rparr>) = dg_context env"
  "dg_verify (env\<lparr>dg_credential := c, dg_baseRevision := b, dg_inspect := i, dg_validate := v\<rparr>) = dg_verify env"
  by simp_all

lemma same_configuration:
  "safeConfiguration (env\<lparr>dg_credential := c, dg_baseRevision := b, dg_inspect := i, dg_validate := v\<rparr>)
     = safeConfiguration env"
  "live_check (env\<lparr>dg_credential := c, dg_baseRevision := b, dg_inspect := i, dg_validate := v\<rparr>) = live_check env"
  unfolding safeConfiguration_def secret_state_def live_check_def fun_eq_iff kept_operations by (rule refl, simp)

text \<open>The report of a denied session, as far as it depends on the live check.\<close>

definition denied_report ::
  "'w diagnostics_env \<Rightarrow> session_record \<Rightarrow> int \<Rightarrow> authorization_status option \<Rightarrow> repository_diagnostics" where
  "denied_report env session now live =
     (let stored = se_authorization session;
          configuration = safeConfiguration env;
          matches = storedRepositoryMatchesPublicConfiguration (au_owner stored) (au_repo stored)
                      (getPublicRepositoryConfiguration (dg_environment env));
          cache = empty_cache_report (dc_cacheBinding configuration = SettingConfigured) CacheIsUnavailable
                    (Some ''authorization_denied'');
          check = unknownPermissionCheck PermPrerequisiteInvalid;
          permissions = \<lparr>dp_contentsRead = check, dp_contentsWrite = check, dp_checkedAt = None\<rparr>;
          authorization = authorization_report stored matches live;
          validation = ValidationNotRun (Some ''authorization_denied'')
      in \<lparr>rg_generatedAt = now, rg_login = se_login session, rg_githubId = se_githubId session,
          rg_configuration = bind_cache cache configuration, rg_authorization = authorization,
          rg_installation = installation_report stored live None, rg_permissions = permissions,
          rg_repositoryRevision = HeadUnknown None, rg_cache = cache, rg_validation = validation,
          rg_overall = deriveOverallDiagnosticsState (bind_cache cache configuration) authorization permissions
             (HeadUnknown None) cache validation\<rparr>)"

lemma generate_denied:
  fixes env session now
  defines "matches \<equiv> storedRepositoryMatchesPublicConfiguration (au_owner (se_authorization session))
      (au_repo (se_authorization session)) (getPublicRepositoryConfiguration (dg_environment env))"
    and "config \<equiv> (case getRepositoryAuthorizationConfig (dg_environment env) of Inr c \<Rightarrow> Some c | Inl _ \<Rightarrow> None)"
  assumes live: "live_check env session matches config now w = (Inr live, w')"
    and denied: "matches = Some False \<or> live_state_of live = LiveDenied"
  shows "generateRepositoryDiagnostics env session inc now w = (Inr (denied_report env session now live), w')"
proof -
  have "matches = Some False \<and> live = None \<or> live_state_of live = LiveDenied"
    using live denied by (auto simp: live_check_mismatch ret_def)
  note access = denied_access [OF this]
  show ?thesis
    using live
    by (simp add: generateRepositoryDiagnostics_def denied_report_def bnd_def matches_def [symmetric]
        config_def [symmetric] access without_access Let_def revision_report_of_def truthy_def ret_def)
qed

lemma live_check_returns: "\<exists>live u. live_check env session matches config now w = (Inr live, u)"
  by (auto simp: live_check_def bnd_def ret_def split: option.splits prod.splits)

lemma generate_authorization:
  assumes "generateRepositoryDiagnostics env session inc now w = (Inr d, w')"
    and "live_check env session
      (storedRepositoryMatchesPublicConfiguration (au_owner (se_authorization session)) (au_repo (se_authorization session))
        (getPublicRepositoryConfiguration (dg_environment env)))
      (case getRepositoryAuthorizationConfig (dg_environment env) of Inr c \<Rightarrow> Some c | Inl _ \<Rightarrow> None) now w = (Inr live, u)"
  shows "rg_authorization d = authorization_report (se_authorization session)
      (storedRepositoryMatchesPublicConfiguration (au_owner (se_authorization session)) (au_repo (se_authorization session))
        (getPublicRepositoryConfiguration (dg_environment env))) live"
  using assms
  by (auto simp: generateRepositoryDiagnostics_def Let_def bnd_eq ret_def)

lemma overall_derived:
  assumes "generateRepositoryDiagnostics env session inc now w = (Inr d, w')"
  shows "rg_overall d = deriveOverallDiagnosticsState (rg_configuration d) (rg_authorization d) (rg_permissions d)
           (rg_repositoryRevision d) (rg_cache d) (rg_validation d)"
  using assms by (auto simp: generateRepositoryDiagnostics_def Let_def bnd_eq ret_def)

lemma same_denied_report:
  "denied_report (env\<lparr>dg_credential := c, dg_baseRevision := b, dg_inspect := i, dg_validate := v\<rparr>) = denied_report env"
  by (simp add: denied_report_def same_configuration kept_operations fun_eq_iff Let_def)

section \<open>Properties\<close>

text \<open>C16. A session whose repository does not match the configuration, or that GitHub denies, gets a report that makes no
  request to the repository: with any other credentials, head revision, cache and validator the same report and the
  same world result. Both permissions are unknown for lack of a prerequisite, nothing is said about head, cache and
  content, and the overall state is misconfigured or unauthorized.\<close>

theorem denied_report_requests_nothing:
  assumes run: "generateRepositoryDiagnostics env session inc now w = (Inr d, w')"
    and denied: "da_repositoryMatches (rg_authorization d) = Some False \<or> da_liveState (rg_authorization d) = LiveDenied"
  shows "generateRepositoryDiagnostics
           (env\<lparr>dg_credential := c, dg_baseRevision := b, dg_inspect := i, dg_validate := v\<rparr>) session inc now w
           = (Inr d, w')
    \<and> rg_permissions d = \<lparr>dp_contentsRead = unknownPermissionCheck PermPrerequisiteInvalid,
           dp_contentsWrite = unknownPermissionCheck PermPrerequisiteInvalid, dp_checkedAt = None\<rparr>
    \<and> rg_repositoryRevision d = HeadUnknown None
    \<and> cr_state (rg_cache d) = CacheIsUnavailable
    \<and> rg_validation d = ValidationNotRun (Some ''authorization_denied'')
    \<and> rg_overall d \<in> {OverallMisconfigured, OverallUnauthorized}"
proof -
  let ?env = "env\<lparr>dg_credential := c, dg_baseRevision := b, dg_inspect := i, dg_validate := v\<rparr>"
  let ?matches = "storedRepositoryMatchesPublicConfiguration (au_owner (se_authorization session))
      (au_repo (se_authorization session)) (getPublicRepositoryConfiguration (dg_environment env))"
  let ?config = "case getRepositoryAuthorizationConfig (dg_environment env) of Inr c \<Rightarrow> Some c | Inl _ \<Rightarrow> None"
  obtain live u where live: "live_check env session ?matches ?config now w = (Inr live, u)"
    using live_check_returns [of env session ?matches ?config now w] by blast
  with run have auth: "rg_authorization d = authorization_report (se_authorization session) ?matches live"
    by (rule generate_authorization)
  with denied have "?matches = Some False \<or> live_state_of live = LiveDenied"
    by (simp add: authorization_report_def)
  note report = generate_denied [of env session, OF live this]
  from run report have d: "d = denied_report env session now live" and u: "u = w'" by simp_all
  have "live_check ?env session ?matches ?config now w = (Inr live, u)"
    using live by (simp add: same_configuration)
  then have same: "generateRepositoryDiagnostics ?env session inc now w = (Inr d, w')"
    using generate_denied [of ?env session now w live u inc] \<open>?matches = Some False \<or> live_state_of live = LiveDenied\<close>
    by (simp add: d u same_denied_report)
  have "rg_overall d \<in> {OverallMisconfigured, OverallUnauthorized}"
    using denied by (auto simp: overall_derived [OF run] deriveOverallDiagnosticsState_def)
  with same show ?thesis
    by (simp add: d denied_report_def Let_def empty_cache_report_def)
qed

definition other_session :: session_record where
  "other_session =
     \<lparr>se_id = ''s1'', se_githubId = 7, se_login = ''octo'', se_name = None, se_avatarUrl = None, se_expiresAt = 1000,
      se_createdAt = None, se_revokedAt = None,
      se_authorization = \<lparr>au_state = Authorized, au_denialReason = None, au_owner = ''own'', au_repo = ''other'',
         au_repositoryId = Some 9, au_installationId = Some 8, au_login = ''octo'', au_githubId = 7, au_checkedAt = 5\<rparr>,
      se_encryptedUserAccessToken = None, se_userAccessTokenExpiresAt = None, se_tokenIv = None\<rparr>"

text \<open>An environment that counts the requests to the repository.\<close>

definition counting_env :: "nat diagnostics_env" where
  "counting_env =
     \<lparr>dg_environment = [''ARTIFACT_REPOSITORY'' \<mapsto> ''github'', ''GITHUB_ARTIFACT_REPOSITORY_OWNER'' \<mapsto> ''Own'',
         ''GITHUB_ARTIFACT_REPOSITORY_NAME'' \<mapsto> ''Lib''],
      dg_importKey = (\<lambda>_. Some ()), dg_context = Some (Some True),
      dg_verify = (\<lambda>_ _ n. (Inr (AuthDenied DenyTemporary), n)),
      dg_credential = (\<lambda>_ _ _ n. (Inr (Some [''contents'' \<mapsto> ''write'']), Suc n)),
      dg_baseRevision = (\<lambda>_ n. (Inr ''head'', Suc n)),
      dg_inspect = (\<lambda>_ _ n. (Inr DiagMissing, Suc n)),
      dg_validate = (\<lambda>_ _ n. (Inr None, Suc n))\<rparr>"

lemma counting_mismatch:
  "storedRepositoryMatchesPublicConfiguration (au_owner (se_authorization other_session))
     (au_repo (se_authorization other_session)) (getPublicRepositoryConfiguration (dg_environment counting_env)) = Some False"
  by code_simp

lemma counting_run:
  "generateRepositoryDiagnostics counting_env other_session True 10 0
     = (Inr (denied_report counting_env other_session 10 None), 0)"
  by (intro generate_denied) (simp_all add: counting_mismatch live_check_mismatch ret_def)

theorem denied_report_requests_nothing_witness:
  "\<exists>d. generateRepositoryDiagnostics counting_env other_session True 10 0 = (Inr d, 0)
     \<and> generateRepositoryDiagnostics (counting_env\<lparr>dg_credential := (\<lambda>_ _ _ n. (Inr None, n + 5)),
          dg_baseRevision := (\<lambda>_ n. (Inl PlainError, n)), dg_inspect := (\<lambda>_ _ n. (Inr DiagCorrupt, n)),
          dg_validate := (\<lambda>_ _ n. (Inl PlainError, n))\<rparr>) other_session True 10 0 = (Inr d, 0)
     \<and> rg_overall d \<in> {OverallMisconfigured, OverallUnauthorized}"
proof -
  have "da_repositoryMatches (rg_authorization (denied_report counting_env other_session 10 None)) = Some False"
    by (simp add: counting_mismatch denied_report_def authorization_report_def Let_def)
  with denied_report_requests_nothing [OF counting_run] counting_run show ?thesis by blast
qed

text \<open>
  A setting of the backend that is not supported is meant to be reported as an invalid configuration, but the
  inspection of the cache asks for the backend outside its \<^verbatim>\<open>try\<close> block: with an authorized session the whole report
  fails with the configuration error.
\<close>

theorem unsupported_backend_breaks_report:
  assumes backend: "getArtifactRepositoryBackend (dg_environment env ''ARTIFACT_REPOSITORY'')
      (dg_environment env ''NODE_ENV'') = Inl e"
    and config: "getRepositoryAuthorizationConfig (dg_environment env) = Inr config"
    and matches: "storedRepositoryMatchesPublicConfiguration (au_owner (se_authorization session))
      (au_repo (se_authorization session)) (getPublicRepositoryConfiguration (dg_environment env)) = Some True"
    and ids: "present_id (au_repositoryId (se_authorization session))" "present_id (au_installationId (se_authorization session))"
    and expired: "\<not> truthy (se_encryptedUserAccessToken session)"
  shows "fst (generateRepositoryDiagnostics env session inc now w) = Inl e"
proof -
  have "live_check env session (Some True) (Some config) now = ret None"
    using expired by (simp add: live_check_def)
  moreover from ids obtain a where "diagnostics_access session (Some True) (Some config) None = Some a"
    by (simp add: diagnostics_access_def definitive_denial_def Let_def)
  ultimately show ?thesis
    by (simp add: generateRepositoryDiagnostics_def Let_def matches config bnd_def ret_def definitive_denial_def
        check_permissions_def base_revision_def cache_inspection_def inspectArtifactCatalogueCache_def backend throw_def)
qed

end
