(* ===== verification/Diagnostics_Presentation.thy ===== *)
theory Diagnostics_Presentation
  imports Repository_Diagnostics
begin

text \<open>
  \<^verbatim>\<open>lib/diagnostics-presentation.ts\<close>: the label, the tone and the description of every state of a repository report,
  and the list of what contributes to a state that is not healthy. The property: a report that is not healthy always
  names a contributor, each one once, and the number of the omitted ones is exact.
\<close>

section \<open>Definitions\<close>

subsection \<open>States as they are shown\<close>

datatype tone = Positive | Warning | Negative | Neutral

record presentation =
  pr_label :: string
  pr_tone :: tone
  pr_description :: "string option"

definition presented :: "string \<Rightarrow> tone \<Rightarrow> presentation" where
  "presented label tone = \<lparr>pr_label = label, pr_tone = tone, pr_description = None\<rparr>"

definition described :: "string \<Rightarrow> tone \<Rightarrow> string \<Rightarrow> presentation" where
  "described label tone description =
     \<lparr>pr_label = label, pr_tone = tone, pr_description = (if description = [] then None else Some description)\<rparr>"

fun overallStatusPresentation :: "overall_state \<Rightarrow> presentation" where
  "overallStatusPresentation OverallHealthy = described ''Healthy'' Positive
     ''All required repository, permission, cache, and validation checks completed successfully.''"
| "overallStatusPresentation OverallDegraded = described ''Degraded'' Warning
     ''The application is usable, but one or more capabilities are impaired or could not be verified.''"
| "overallStatusPresentation OverallMisconfigured = described ''Misconfigured'' Negative
     ''Required application or repository configuration is missing or invalid.''"
| "overallStatusPresentation OverallUnauthorized = described ''Unauthorized'' Negative
     ''The current GitHub identity or App installation does not have the required repository access.''"
| "overallStatusPresentation OverallInvalidContent = described ''Invalid content'' Negative
     ''Repository access is available, but one or more artifacts do not satisfy the artifact contract.''"
| "overallStatusPresentation OverallUnavailable = described ''Unavailable'' Negative
     ''A required repository or catalogue service is currently unavailable.''"

definition configurationStatusPresentation :: "setting_state \<Rightarrow> presentation" where
  "configurationStatusPresentation state =
     (if state = SettingConfigured then presented ''Configured'' Positive
      else presented (if state = SettingMissing then ''Missing'' else ''Invalid'') Negative)"

fun authorizationStatusPresentation :: "live_state \<Rightarrow> presentation" where
  "authorizationStatusPresentation LiveAuthorized = presented ''Authorized'' Positive"
| "authorizationStatusPresentation LiveDenied = presented ''Denied'' Negative"
| "authorizationStatusPresentation LiveTemporarilyUnavailable = presented ''Temporarily unavailable'' Warning"
| "authorizationStatusPresentation LiveNotChecked = presented ''Not checked'' Warning"

definition repositoryMatchPresentation :: "bool option \<Rightarrow> presentation" where
  "repositoryMatchPresentation state =
     (case state of
        Some True \<Rightarrow> presented ''Match'' Positive
      | Some False \<Rightarrow> presented ''Mismatch'' Negative
      | None \<Rightarrow> presented ''Unknown'' Warning)"

fun installationStatusPresentation :: "installation_state \<Rightarrow> presentation" where
  "installationStatusPresentation InstallationDetected = presented ''Detected'' Positive"
| "installationStatusPresentation InstallationMissing = presented ''Missing'' Negative"
| "installationStatusPresentation InstallationUnavailable = presented ''Unavailable'' Warning"
| "installationStatusPresentation InstallationUnknown = presented ''Unknown'' Warning"

fun permissionDescription :: "permission_reason \<Rightarrow> string" where
  "permissionDescription PermCapabilityRejected =
     ''The GitHub App installation could not mint the required proposal credential. Verify that Contents write and Pull requests write are granted to the App and approved for this repository.''"
| "permissionDescription PermMissing =
     ''The required permission is not granted to the GitHub App installation for this repository.''"
| "permissionDescription PermMalformedResponse =
     ''GitHub returned an unexpected credential response. Retry once; if it persists, inspect application logs using the safe diagnostic category.''"
| "permissionDescription PermTemporarilyUnavailable =
     ''GitHub could not complete the permission check. Retry later.''"
| "permissionDescription PermRateLimited = ''GitHub rate limited the permission check. Retry later.''"
| "permissionDescription PermAuthenticationFailed =
     ''GitHub App authentication failed; verify the App configuration.''"
| "permissionDescription PermInstallationMissing =
     ''The GitHub App installation is not available for this repository.''"
| "permissionDescription PermRequestFailed =
     ''GitHub rejected the credential request. Retry and verify the GitHub App configuration.''"
| "permissionDescription PermPrerequisiteInvalid = ''A prerequisite repository or authorization check failed.''"
| "permissionDescription PermNotChecked = ''This permission has not been checked.''"
| "permissionDescription PermGranted = []"

definition permissionStatusPresentation :: "permission_check \<Rightarrow> presentation" where
  "permissionStatusPresentation check =
     (case pk_effective check of
        Some True \<Rightarrow> presented ''Granted'' Positive
      | Some False \<Rightarrow> described ''Denied'' Negative (permissionDescription (pk_reason check))
      | None \<Rightarrow>
          let label = (if pk_reason check = PermTemporarilyUnavailable then ''Temporarily unavailable''
                       else if pk_reason check = PermRateLimited then ''Rate limited''
                       else if pk_reason check = PermAuthenticationFailed then ''Authentication failed''
                       else ''Unknown'');
              tone = (if pk_reason check = PermAuthenticationFailed then Negative else Warning)
          in described label tone (permissionDescription (pk_reason check)))"

fun revisionStatusPresentation :: "revision_report \<Rightarrow> presentation" where
  "revisionStatusPresentation (HeadAvailable _) = presented ''Available'' Positive"
| "revisionStatusPresentation (HeadUnknown _) = presented ''Unknown'' Warning"
| "revisionStatusPresentation (HeadUnavailable _) = presented ''Unavailable'' Negative"

fun cacheStatusPresentation :: "cache_status \<Rightarrow> presentation" where
  "cacheStatusPresentation CacheIsFresh = presented ''Fresh'' Positive"
| "cacheStatusPresentation CacheIsStale = presented ''Stale'' Warning"
| "cacheStatusPresentation CacheIsMissing = presented ''Missing'' Warning"
| "cacheStatusPresentation CacheIsDegraded = presented ''Degraded'' Warning"
| "cacheStatusPresentation CacheIsCorrupt = presented ''Corrupt'' Negative"
| "cacheStatusPresentation CacheIsUnavailable = presented ''Unavailable'' Negative"

fun validationStatusPresentation :: "validation_outcome \<Rightarrow> presentation" where
  "validationStatusPresentation (Validated report) =
     (if rep_invalidCount report = 0 then presented ''Valid'' Positive else presented ''Invalid'' Negative)"
| "validationStatusPresentation (ValidationNotRun _) = presented ''Not run'' Warning"
| "validationStatusPresentation (ValidationUnavailable _ _) = presented ''Unavailable'' Warning"

subsection \<open>Contributors\<close>

record contributor =
  cb_id :: string
  cb_message :: string
  cb_href :: string

definition contributor_at :: "string \<Rightarrow> string \<Rightarrow> string \<Rightarrow> contributor" where
  "contributor_at i message anchor = \<lparr>cb_id = i, cb_message = message, cb_href = CHR ''#'' # anchor\<rparr>"

text \<open>\<^verbatim>\<open>add\<close> keeps the first contributor of each identifier.\<close>

definition add_contributor :: "contributor \<Rightarrow> contributor list \<Rightarrow> contributor list" where
  "add_contributor c all = (if cb_id c \<in> cb_id ` set all then all else all @ [c])"

definition app_prefix :: string where
  "app_prefix = ''GITHUB_APP_''"

definition setting_contributors :: "diagnostics_configuration \<Rightarrow> contributor list" where
  "setting_contributors configuration =
     (let invalidSettings = map fst (filter (\<lambda>(_, value). value \<noteq> SettingConfigured) (dc_authSecrets configuration));
          anchor = ''repository-configuration''
      in (if list_ex (prefix app_prefix) invalidSettings
          then [contributor_at ''github-app-configuration'' ''A required GitHub App setting is missing or invalid.'' anchor]
          else [])
       @ (if ''GITHUB_TOKEN_ENCRYPTION_KEY'' \<in> set invalidSettings
          then [contributor_at ''token-encryption-configuration''
                  ''The token-encryption configuration is missing or invalid.'' anchor] else [])
       @ (if ''SESSION_SECRET'' \<in> set invalidSettings
          then [contributor_at ''session-configuration'' ''The session configuration is missing or invalid.'' anchor] else [])
       @ (if list_ex (\<lambda>name. \<not> prefix app_prefix name \<and> name \<noteq> ''GITHUB_TOKEN_ENCRYPTION_KEY''
                             \<and> name \<noteq> ''SESSION_SECRET'') invalidSettings
          then [contributor_at ''application-configuration'' ''A required application setting is missing or invalid.'' anchor]
          else []))"

definition authorization_contributors :: "diagnostics_authorization \<Rightarrow> contributor list" where
  "authorization_contributors authorization =
     (let note_that = (\<lambda>message. contributor_at ''authorization'' message ''authorization'')
      in (case da_repositoryMatches authorization of
            Some False \<Rightarrow> [note_that ''The configured repository does not match the stored authorization.'']
          | None \<Rightarrow> [note_that ''The repository authorization match could not be verified.'']
          | Some True \<Rightarrow> [])
       @ (if da_liveState authorization = LiveDenied then [note_that ''Live repository authorization was denied.'']
          else if da_liveState authorization = LiveTemporarilyUnavailable
          then [note_that ''Live repository authorization is temporarily unavailable.''] else []))"

definition permission_contributors :: "string \<Rightarrow> string \<Rightarrow> permission_check \<Rightarrow> contributor list" where
  "permission_contributors i permission check =
     (case pk_effective check of
        Some False \<Rightarrow> [contributor_at i (permission @ '' permission is not granted.'') i]
      | None \<Rightarrow> [contributor_at i (permission @ '' permission could not be verified.'') i]
      | Some True \<Rightarrow> [])"

fun revision_contributors :: "revision_report \<Rightarrow> contributor list" where
  "revision_contributors (HeadAvailable _) = []"
| "revision_contributors (HeadUnknown _) =
     [contributor_at ''repository-revision'' ''The repository revision was not checked.'' ''repository-revision'']"
| "revision_contributors (HeadUnavailable _) =
     [contributor_at ''repository-revision'' ''The repository revision is unavailable.'' ''repository-revision'']"

fun cache_message :: "cache_status \<Rightarrow> string option" where
  "cache_message CacheIsStale = Some ''Catalogue data is stale.''"
| "cache_message CacheIsMissing = Some ''The catalogue snapshot is missing.''"
| "cache_message CacheIsDegraded =
     Some ''Catalogue content is fresh, but cache persistence is temporarily unavailable.''"
| "cache_message CacheIsCorrupt = Some ''The catalogue snapshot is invalid or corrupt.''"
| "cache_message CacheIsUnavailable = Some ''Catalogue data is currently unavailable.''"
| "cache_message CacheIsFresh = None"

fun validation_message :: "validation_outcome \<Rightarrow> string option" where
  "validation_message (Validated report) =
     (if rep_invalidCount report = 0 then None else Some ''One or more artifacts are invalid.'')"
| "validation_message (ValidationUnavailable _ _) = Some ''Repository validation is temporarily unavailable.''"
| "validation_message (ValidationNotRun _) = Some ''Repository validation was not completed.''"

definition message_at :: "string \<Rightarrow> string option \<Rightarrow> contributor list" where
  "message_at i message = (case message of None \<Rightarrow> [] | Some m \<Rightarrow> [contributor_at i m i])"

definition candidate_contributors :: "repository_diagnostics \<Rightarrow> contributor list" where
  "candidate_contributors d =
     (if repository_misconfigured (rg_configuration d)
      then [contributor_at ''repository-configuration'' ''Required repository configuration is missing or invalid.''
              ''repository-configuration''] else [])
     @ setting_contributors (rg_configuration d)
     @ authorization_contributors (rg_authorization d)
     @ permission_contributors ''permissions'' ''Contents read'' (dp_contentsRead (rg_permissions d))
     @ permission_contributors ''permissions-write'' ''Contents write'' (dp_contentsWrite (rg_permissions d))
     @ revision_contributors (rg_repositoryRevision d)
     @ message_at ''catalogue-cache'' (cache_message (cr_state (rg_cache d)))
     @ message_at ''artifact-validation'' (validation_message (rg_validation d))"

text \<open>The contributors that are shown and the number of the omitted ones. \<open>limit\<close> is not negative.\<close>

definition diagnosticContributors :: "repository_diagnostics \<Rightarrow> nat \<Rightarrow> contributor list \<times> nat" where
  "diagnosticContributors d limit =
     (if rg_overall d = OverallHealthy then ([], 0)
      else let all = fold add_contributor (candidate_contributors d) []
           in (take limit all, length all - limit))"

section \<open>Lemmas\<close>

lemma fold_add_contributor_ids:
  "cb_id ` set (fold add_contributor cs all) = cb_id ` set all \<union> cb_id ` set cs"
  by (induction cs arbitrary: all) (auto simp: add_contributor_def)

lemma fold_add_contributor_distinct:
  "distinct (map cb_id all) \<Longrightarrow> distinct (map cb_id (fold add_contributor cs all))"
  by (induction cs arbitrary: all) (auto simp: add_contributor_def)

lemma fold_add_contributor_subset: "set (fold add_contributor cs all) \<subseteq> set all \<union> set cs"
proof (induction cs arbitrary: all)
  case (Cons c cs)
  from Cons [of "add_contributor c all"] show ?case by (auto simp: add_contributor_def split: if_splits)
qed simp

lemma fold_add_contributor_empty: "fold add_contributor cs [] = [] \<longleftrightarrow> cs = []"
  using fold_add_contributor_ids [of cs "[]"] by auto

lemma some_kind_of_setting:
  "name \<in> set xs \<Longrightarrow>
     list_ex P xs \<or> a \<in> set xs \<or> b \<in> set xs \<or> list_ex (\<lambda>x. \<not> P x \<and> x \<noteq> a \<and> x \<noteq> b) xs"
  by (auto simp: list_ex_iff)

lemma setting_contributors_complete:
  assumes "list_ex (\<lambda>(_, s). s \<noteq> SettingConfigured) (dc_authSecrets c)"
  shows "setting_contributors c \<noteq> []"
proof -
  from assms obtain name where "name \<in> set (map fst (filter (\<lambda>(_, value). value \<noteq> SettingConfigured) (dc_authSecrets c)))"
    by (force simp: list_ex_iff)
  from some_kind_of_setting [OF this, of "prefix app_prefix" "''GITHUB_TOKEN_ENCRYPTION_KEY''" "''SESSION_SECRET''"]
  show ?thesis
    by (elim disjE) (simp_all only: setting_contributors_def Let_def if_True append_is_Nil_conv list.distinct simp_thms)
qed

text \<open>Every reason for an overall state that is not healthy has a contributor.\<close>

lemma unhealthy_candidates:
  assumes "deriveOverallDiagnosticsState (rg_configuration d) (rg_authorization d) (rg_permissions d)
             (rg_repositoryRevision d) (rg_cache d) (rg_validation d) \<noteq> OverallHealthy"
  shows "candidate_contributors d \<noteq> []"
proof
  assume none: "candidate_contributors d = []"
  then have config: "\<not> repository_misconfigured (rg_configuration d)"
    and settings: "\<not> list_ex (\<lambda>(_, s). s \<noteq> SettingConfigured) (dc_authSecrets (rg_configuration d))"
    using setting_contributors_complete [of "rg_configuration d"]
    by (auto simp: candidate_contributors_def split: if_splits)
  from none have "authorization_contributors (rg_authorization d) = []"
    "permission_contributors ''permissions'' ''Contents read'' (dp_contentsRead (rg_permissions d)) = []"
    "permission_contributors ''permissions-write'' ''Contents write'' (dp_contentsWrite (rg_permissions d)) = []"
    "revision_contributors (rg_repositoryRevision d) = []"
    "cache_message (cr_state (rg_cache d)) = None" "validation_message (rg_validation d) = None"
    by (auto simp: candidate_contributors_def message_at_def split: option.splits)
  then have "da_repositoryMatches (rg_authorization d) = Some True" "da_liveState (rg_authorization d) \<noteq> LiveDenied"
    "da_liveState (rg_authorization d) \<noteq> LiveTemporarilyUnavailable"
    "pk_effective (dp_contentsRead (rg_permissions d)) = Some True"
    "pk_effective (dp_contentsWrite (rg_permissions d)) = Some True"
    "\<not> head_unavailable (rg_repositoryRevision d)" "cr_state (rg_cache d) = CacheIsFresh"
    "\<not> content_invalid (rg_validation d)" "\<not> validation_failed (rg_validation d)"
    by (auto simp: authorization_contributors_def permission_contributors_def head_unavailable_def content_invalid_def
        validation_failed_def Let_def split: option.splits if_splits bool.splits
        elim!: revision_contributors.elims cache_message.elims validation_message.elims)
  with config settings assms show False
    by (simp add: deriveOverallDiagnosticsState_def)
qed

section \<open>Properties\<close>

text \<open>A generated report that is not healthy names at least one contributor, with distinct identifiers and no more than
  the limit, and the omitted count is exactly what is left out; a healthy report names none.\<close>

theorem unhealthy_report_explained:
  assumes run: "generateRepositoryDiagnostics env session inc now w = (Inr d, w')" and limit: "0 < limit"
  shows "(fst (diagnosticContributors d limit) = [] \<longleftrightarrow> rg_overall d = OverallHealthy)
    \<and> distinct (map cb_id (fst (diagnosticContributors d limit)))
    \<and> length (fst (diagnosticContributors d limit)) \<le> limit
    \<and> (rg_overall d \<noteq> OverallHealthy \<longrightarrow>
         length (fst (diagnosticContributors d limit)) + snd (diagnosticContributors d limit)
           = card (cb_id ` set (candidate_contributors d)))"
proof (cases "rg_overall d = OverallHealthy")
  case True
  then show ?thesis by (simp add: diagnosticContributors_def)
next
  case False
  let ?all = "fold add_contributor (candidate_contributors d) []"
  from False overall_derived [OF run] have "candidate_contributors d \<noteq> []"
    using unhealthy_candidates [of d] by simp
  then have "?all \<noteq> []" by (simp add: fold_add_contributor_empty)
  moreover have d: "distinct (map cb_id ?all)" by (rule fold_add_contributor_distinct) simp
  moreover from d have "length ?all = card (cb_id ` set ?all)"
    by (metis distinct_card length_map set_map)
  moreover have "distinct (map cb_id (take limit ?all))"
    using d by (metis distinct_take take_map)
  ultimately show ?thesis
    using False limit fold_add_contributor_ids [of "candidate_contributors d" "[]"]
    by (simp add: diagnosticContributors_def Let_def)
qed

theorem unhealthy_report_explained_witness:
  "\<exists>d. generateRepositoryDiagnostics counting_env other_session True 10 0 = (Inr d, 0)
     \<and> length (fst (diagnosticContributors d 5)) \<le> 5
     \<and> (fst (diagnosticContributors d 5) = [] \<longleftrightarrow> rg_overall d = OverallHealthy)"
proof -
  have "(0::nat) < 5" by simp
  from unhealthy_report_explained [OF counting_run this] counting_run show ?thesis by blast
qed

end
