(* ===== verification/Runner_Status.thy ===== *)
theory Runner_Status
  imports Js_Values
begin

text \<open>
  The observation of the Codex Runner: its configuration (\<^verbatim>\<open>lib/codex-runner-client.ts\<close>), the comparison of its
  release with the expected one (\<^verbatim>\<open>lib/codex-runner-compatibility.ts\<close>), the status of the connection
  (\<^verbatim>\<open>lib/codex-runner-status.ts\<close>), and the two collections of diagnostics (\<^verbatim>\<open>lib/codex-runner-diagnostics.ts\<close>).

  A client is the record of the answers its operations give during one collection, a failure or a value; every
  operation is called at most once (for each environment). The expected release is read from a file of the build and
  is an argument, with the validation of that file (\<^verbatim>\<open>lib/codex-runner-release.ts\<close>). Times, and the contents of records that no decision reads, are kept as the code has them.

  The lemmas show that the collection of essential diagnostics sees what the full collection sees, and that the
  status of the connection agrees with the one derived by the collections.
\<close>

section \<open>Definitions\<close>

subsection \<open>Failures and configuration\<close>

datatype runner_error_category =
    RunnerConfigurationMissing | RunnerUnavailable | RunnerAccessDenied | RunnerUnauthorized
  | RunnerUpdateRequired | RunnerInvalidResponse

datatype transport_reason = TransportTimeout | TransportFetchError

text \<open>\<open>CodexRunnerError\<close> with its category and transport, or any other value that is thrown.\<close>

datatype runner_failure = CodexRunnerError runner_error_category "transport_reason option" | OtherFailure

record runner_configuration =
  rcf_baseUrl :: string
  rcf_accessClientId :: string
  rcf_accessClientSecret :: string
  rcf_sharedSecret :: string
  rcf_production :: bool

definition readCodexRunnerConfiguration :: "(string \<rightharpoonup> string) \<Rightarrow> runner_failure + runner_configuration" where
  "readCodexRunnerConfiguration environment =
     (let values = map environment [''CODEX_RUNNER_BASE_URL'', ''CODEX_RUNNER_ACCESS_CLIENT_ID'',
                                    ''CODEX_RUNNER_ACCESS_CLIENT_SECRET'', ''CODEX_RUNNER_SHARED_SECRET''];
          absent = (\<lambda>v. v = None \<or> v = Some [])
      in if list_all absent values then Inl (CodexRunnerError RunnerConfigurationMissing None)
         else if list_ex absent values then Inl (CodexRunnerError RunnerConfigurationMissing None)
         else Inr \<lparr>rcf_baseUrl = the (values ! 0), rcf_accessClientId = the (values ! 1),
                   rcf_accessClientSecret = the (values ! 2), rcf_sharedSecret = the (values ! 3),
                   rcf_production = (environment ''NODE_ENV'' = Some ''production'')\<rparr>)"

subsection \<open>What a Runner answers\<close>

datatype release_metadata = LegacyRelease | CurrentRelease int string

record runner_capabilities =
  cap_protocolVersion :: int
  cap_runnerVersion :: string
  cap_codexAvailable :: bool
  cap_deviceAuth :: bool
  cap_jobExecution :: bool
  cap_conversationContinuation :: "bool option"
  cap_release :: release_metadata

record runner_auth_status =
  ras_connected :: bool
  ras_authMode :: "string option"
  ras_planType :: "string option"

datatype sandbox_mode = ReadOnlySandbox | WorkspaceWriteSandbox

record runner_environment =
  re_key :: string
  re_name :: string
  re_enabled :: bool
  re_ready :: bool
  re_sandbox :: sandbox_mode
  re_managedRepository :: bool

record workspace_diagnostics =
  wsd_environmentKey :: string
  wsd_filesystemReady :: bool
  wsd_gitAvailable :: bool
  wsd_gitRepository :: bool
  wsd_headCommit :: "string option"
  wsd_dirty :: "bool option"

datatype sandbox_status = SandboxAvailable | SandboxUnavailable | SandboxUnknown

record sandbox_diagnostics =
  sbd_environmentKey :: string
  sbd_status :: sandbox_status
  sbd_backend :: string
  sbd_reason :: string

record executor_activity =
  ex_category :: string
  ex_count :: int

record runner_executor =
  rx_healthy :: bool
  rx_generation :: string
  rx_activeExecutionId :: "string option"
  rx_activity :: "executor_activity option"

datatype runner_role = IntegratedRole | ControllerRole

record runner_control =
  ctl_emergencyStopped :: bool
  ctl_stoppedGeneration :: "string option"
  ctl_updatedAt :: string
  ctl_restartAttempted :: bool
  ctl_restartSucceeded :: bool
  ctl_role :: runner_role
  ctl_executor :: "runner_executor option"

record runner_job =
  job_jobId :: string
  job_environmentKey :: string
  job_state :: string

record runner_jobs =
  jl_activeJobId :: "string option"
  jl_jobs :: "runner_job list"

subsection \<open>Releases\<close>

record version_facts =
  vf_protocolVersion :: "int option"
  vf_runnerRevision :: "int option"
  vf_codexVersion :: "string option"
  vf_runnerVersion :: "string option"

record expected_release =
  er_protocolVersion :: int
  er_runnerRevision :: int
  er_codexVersion :: string

definition MAX_RUNNER_RELEASE_INTEGER :: int where "MAX_RUNNER_RELEASE_INTEGER = 1000000"

definition release_number :: "js_value option \<Rightarrow> bool" where
  "release_number v = (case v of Some (JNum n) \<Rightarrow> 1 \<le> n \<and> n \<le> MAX_RUNNER_RELEASE_INTEGER | _ \<Rightarrow> False)"

definition STRICT_RUNNER_SEMVER :: "string \<Rightarrow> bool" where
  "STRICT_RUNNER_SEMVER v =
     (let parts = js_split (CHR ''.'') v
      in length parts = 3
         \<and> list_all (\<lambda>p. p = ''0'' \<or> (p \<noteq> [] \<and> hd p \<noteq> CHR ''0'' \<and> list_all digit p)) parts)"

text \<open>\<open>None\<close> is the error \<^verbatim>\<open>invalid_runner_release\<close>.\<close>

definition validateExpectedRunnerRelease :: "js_value \<Rightarrow> expected_release option" where
  "validateExpectedRunnerRelease v =
     (case v of
        JObj _ \<Rightarrow>
          (let keys = [''protocolVersion'', ''runnerRevision'', ''codexVersion'']
           in if length (js_keys v) \<noteq> length keys \<or> list_ex (\<lambda>k. k \<notin> set keys) (js_keys v)
                 \<or> \<not> release_number (js_get v ''protocolVersion'') \<or> \<not> release_number (js_get v ''runnerRevision'')
              then None
              else case (js_get v ''protocolVersion'', js_get v ''runnerRevision'', js_get v ''codexVersion'') of
                     (Some (JNum p), Some (JNum r), Some (JStr c)) \<Rightarrow>
                       if 32 < length c \<or> \<not> STRICT_RUNNER_SEMVER c then None
                       else Some \<lparr>er_protocolVersion = p, er_runnerRevision = r, er_codexVersion = c\<rparr>
                   | _ \<Rightarrow> None)
      | _ \<Rightarrow> None)"

datatype protocol_status = ProtocolCompatible | ProtocolIncompatible | ProtocolUnknown
datatype revision_status = RevisionCurrent | UpdateAvailable | RunnerNewer | RevisionUnknown
datatype version_status = VersionCurrent | VersionMismatch | VersionUnknown

record runner_compatibility =
  co_protocol :: protocol_status
  co_runnerRevision :: revision_status
  co_codexVersion :: version_status

definition evaluateRunnerCompatibility :: "version_facts option \<Rightarrow> expected_release \<Rightarrow> runner_compatibility" where
  "evaluateRunnerCompatibility installed expected =
     (case installed of
        None \<Rightarrow> \<lparr>co_protocol = ProtocolUnknown, co_runnerRevision = RevisionUnknown, co_codexVersion = VersionUnknown\<rparr>
      | Some v \<Rightarrow>
          \<lparr>co_protocol = (case vf_protocolVersion v of
                            None \<Rightarrow> ProtocolUnknown
                          | Some p \<Rightarrow> if p = er_protocolVersion expected then ProtocolCompatible else ProtocolIncompatible),
           co_runnerRevision = (case vf_runnerRevision v of
                            None \<Rightarrow> RevisionUnknown
                          | Some r \<Rightarrow> if r = er_runnerRevision expected then RevisionCurrent
                                      else if r < er_runnerRevision expected then UpdateAvailable else RunnerNewer),
           co_codexVersion = (case vf_codexVersion v of
                            None \<Rightarrow> VersionUnknown
                          | Some c \<Rightarrow> if c = er_codexVersion expected then VersionCurrent else VersionMismatch)\<rparr>)"

datatype release_state = ReleaseCurrent | ReleaseSuperseded | ReleaseUnknown

definition runnerReleaseFreshness ::
  "version_facts option \<Rightarrow> expected_release \<Rightarrow> release_state \<times> string option" where
  "runnerReleaseFreshness installed expected =
     (let build = (case installed of
                     None \<Rightarrow> None
                   | Some v \<Rightarrow> (case vf_runnerVersion v of
                                  None \<Rightarrow> None
                                | Some s \<Rightarrow> if length s = 40 \<and> list_all hex_any s then Some (js_lower s) else None))
      in case build of
           None \<Rightarrow> (ReleaseUnknown, None)
         | Some b \<Rightarrow>
             ((case co_runnerRevision (evaluateRunnerCompatibility installed expected) of
                 RevisionCurrent \<Rightarrow> ReleaseCurrent
               | UpdateAvailable \<Rightarrow> ReleaseSuperseded
               | _ \<Rightarrow> ReleaseUnknown), Some b))"

text \<open>The capabilities as version facts: a legacy Runner has no revision and no Codex version.\<close>

definition capability_facts :: "runner_capabilities \<Rightarrow> version_facts" where
  "capability_facts c =
     \<lparr>vf_protocolVersion = Some (cap_protocolVersion c),
      vf_runnerRevision = (case cap_release c of LegacyRelease \<Rightarrow> None | CurrentRelease r _ \<Rightarrow> Some r),
      vf_codexVersion = (case cap_release c of LegacyRelease \<Rightarrow> None | CurrentRelease _ v \<Rightarrow> Some v),
      vf_runnerVersion = Some (cap_runnerVersion c)\<rparr>"

subsection \<open>The status of the connection\<close>

datatype connection_state =
    ConnectionConfigurationMissing | ConnectionUnavailable | ConnectionUpdateRequired
  | ConnectionDisconnected | ConnectionWaiting | ConnectionConnected

text \<open>The labels shown to the operator.\<close>

datatype connection_label =
    LabelConfigurationMissing | LabelUnavailable | LabelUpdateRequired | LabelAuthenticationUnavailable
  | LabelConnected | LabelReadyNotConnected

record connection_status =
  cs_state :: connection_state
  cs_label :: connection_label
  cs_capabilities :: "runner_capabilities option"
  cs_compatibility :: "runner_compatibility option"
  cs_auth :: "runner_auth_status option"

definition plain_status :: "connection_state \<Rightarrow> connection_label \<Rightarrow> connection_status" where
  "plain_status s l =
     \<lparr>cs_state = s, cs_label = l, cs_capabilities = None, cs_compatibility = None, cs_auth = None\<rparr>"

definition safeFailureStatus :: "runner_failure \<Rightarrow> connection_status" where
  "safeFailureStatus e =
     (case e of
        CodexRunnerError RunnerConfigurationMissing _ \<Rightarrow> plain_status ConnectionConfigurationMissing LabelConfigurationMissing
      | CodexRunnerError RunnerUpdateRequired _ \<Rightarrow> plain_status ConnectionUpdateRequired LabelUpdateRequired
      | _ \<Rightarrow> plain_status ConnectionUnavailable LabelUnavailable)"

record runner_client =
  cl_capabilities :: "runner_failure + runner_capabilities"
  cl_authStatus :: "runner_failure + runner_auth_status"
  cl_controlStatus :: "runner_failure + runner_control"
  cl_environments :: "runner_failure + runner_environment list"
  cl_workspaceDiagnostics :: "string \<Rightarrow> runner_failure + workspace_diagnostics"
  cl_sandboxDiagnostics :: "string \<Rightarrow> runner_failure + sandbox_diagnostics option"
  cl_jobs :: "nat \<Rightarrow> runner_failure + runner_jobs"

definition with_capabilities ::
  "connection_state \<Rightarrow> connection_label \<Rightarrow> expected_release \<Rightarrow> runner_capabilities \<Rightarrow> runner_auth_status option \<Rightarrow>
     connection_status" where
  "with_capabilities s l expected c auth =
     \<lparr>cs_state = s, cs_label = l, cs_capabilities = Some c,
      cs_compatibility = Some (evaluateRunnerCompatibility (Some (capability_facts c)) expected), cs_auth = auth\<rparr>"

definition getSafeCodexConnectionStatus ::
  "expected_release \<Rightarrow> runner_failure + runner_client \<Rightarrow> connection_status" where
  "getSafeCodexConnectionStatus expected clientFactory =
     (case clientFactory of
        Inl e \<Rightarrow> safeFailureStatus e
      | Inr client \<Rightarrow>
          (case cl_capabilities client of
             Inl e \<Rightarrow> safeFailureStatus e
           | Inr c \<Rightarrow>
               if \<not> cap_codexAvailable c then with_capabilities ConnectionUnavailable LabelUnavailable expected c None
               else if \<not> cap_deviceAuth c then with_capabilities ConnectionUpdateRequired LabelUpdateRequired expected c None
               else case cl_authStatus client of
                      Inl e \<Rightarrow> safeFailureStatus e
                    | Inr auth \<Rightarrow>
                        if ras_connected auth
                        then with_capabilities ConnectionConnected LabelConnected expected c (Some auth)
                        else with_capabilities ConnectionDisconnected LabelReadyNotConnected expected c (Some auth)))"

subsection \<open>Observations\<close>

datatype 'a observation = Observed 'a | Unobservable | NotObserved

datatype capability_failure =
    CapUnreachable | CapAccessDenied | CapUpdateRequired | CapInvalidResponse | CapUnknown

datatype capability_observation = CapabilitiesSeen runner_capabilities | CapabilitiesFailed capability_failure

record environment_diagnostic =
  ed_environment :: runner_environment
  ed_workspace :: "workspace_diagnostics observation"
  ed_sandbox :: "sandbox_diagnostics option observation"

datatype connectivity = ConnectivityOk | ConnectivityTimeout | ConnectivityFailed | ConnectivityUnavailable
datatype custom_ca_source = NoCustomCa | CodexCaCertificate | SslCertFile

text \<open>The fields of the authentication environment that the diagnostics read.\<close>

record auth_environment =
  aen_codexAppServerReady :: bool
  aen_codexVersionMatchesExpected :: bool
  aen_customCaSource :: custom_ca_source
  aen_customCaFileReadable :: "bool option"
  aen_systemCaBundlePresent :: bool
  aen_systemCaBundleReadable :: bool
  aen_systemCaBundleNonEmpty :: bool
  aen_ipv4TlsConnectivity :: connectivity
  aen_ipv6TlsConnectivity :: connectivity
  aen_routeResponseReceived :: bool
  aen_codexHomeReadable :: bool
  aen_codexHomeWritable :: bool

record runner_diagnostics =
  rd_connection :: connection_status
  rd_capabilities :: capability_observation
  rd_authentication :: "runner_auth_status observation"
  rd_control :: "runner_control observation"
  rd_environments :: "environment_diagnostic list observation"
  rd_jobs :: "runner_jobs observation"
  rd_authEnvironment :: "auth_environment observation"

fun observation_of :: "runner_failure + 'a \<Rightarrow> 'a observation" where
  "observation_of (Inr v) = Observed v"
| "observation_of (Inl _) = Unobservable"

fun capabilityFailure :: "runner_failure \<Rightarrow> capability_failure" where
  "capabilityFailure OtherFailure = CapUnknown"
| "capabilityFailure (CodexRunnerError category transport) =
     (if category = RunnerUpdateRequired then CapUpdateRequired
      else if category = RunnerAccessDenied \<or> category = RunnerUnauthorized then CapAccessDenied
      else if category = RunnerInvalidResponse then CapInvalidResponse
      else if category = RunnerUnavailable \<and> transport \<noteq> None then CapUnreachable
      else CapUnknown)"

definition collectEnvironmentDiagnostics ::
  "runner_client \<Rightarrow> runner_environment list \<Rightarrow> bool \<Rightarrow> environment_diagnostic list" where
  "collectEnvironmentDiagnostics client environments integrated =
     map (\<lambda>environment.
       if \<not> re_enabled environment
       then \<lparr>ed_environment = environment, ed_workspace = NotObserved, ed_sandbox = NotObserved\<rparr>
       else \<lparr>ed_environment = environment,
             ed_workspace = observation_of (cl_workspaceDiagnostics client (re_key environment)),
             ed_sandbox = (if integrated then observation_of (cl_sandboxDiagnostics client (re_key environment))
                           else NotObserved)\<rparr>) environments"

definition connectionFrom ::
  "expected_release \<Rightarrow> capability_observation \<Rightarrow> runner_auth_status observation \<Rightarrow> connection_status" where
  "connectionFrom expected capabilities authentication =
     (case capabilities of
        CapabilitiesFailed reason \<Rightarrow>
          if reason = CapUpdateRequired then plain_status ConnectionUpdateRequired LabelUpdateRequired
          else plain_status ConnectionUnavailable LabelUnavailable
      | CapabilitiesSeen c \<Rightarrow>
          if \<not> cap_codexAvailable c then with_capabilities ConnectionUnavailable LabelUnavailable expected c None
          else if \<not> cap_deviceAuth c then with_capabilities ConnectionUpdateRequired LabelUpdateRequired expected c None
          else case authentication of
                 Observed auth \<Rightarrow>
                   if ras_connected auth
                   then with_capabilities ConnectionConnected LabelConnected expected c (Some auth)
                   else with_capabilities ConnectionDisconnected LabelReadyNotConnected expected c (Some auth)
               | _ \<Rightarrow> with_capabilities ConnectionUnavailable LabelAuthenticationUnavailable expected c None)"

text \<open>The result when the client cannot be made: the two collections differ in the observation of the jobs.\<close>

definition factory_failed :: "runner_jobs observation \<Rightarrow> runner_failure \<Rightarrow> runner_diagnostics" where
  "factory_failed jobs e =
     \<lparr>rd_connection = (case e of
                         CodexRunnerError RunnerConfigurationMissing _ \<Rightarrow>
                           plain_status ConnectionConfigurationMissing LabelConfigurationMissing
                       | _ \<Rightarrow> plain_status ConnectionUnavailable LabelUnavailable),
      rd_capabilities = CapabilitiesFailed CapUnknown, rd_authentication = Unobservable, rd_control = Unobservable,
      rd_environments = Unobservable, rd_jobs = jobs, rd_authEnvironment = NotObserved\<rparr>"

fun capability_observation_of :: "runner_failure + runner_capabilities \<Rightarrow> capability_observation" where
  "capability_observation_of (Inr c) = CapabilitiesSeen c"
| "capability_observation_of (Inl e) = CapabilitiesFailed (capabilityFailure e)"

definition capabilities_missing ::
  "expected_release \<Rightarrow> runner_jobs observation \<Rightarrow> capability_observation \<Rightarrow> runner_diagnostics" where
  "capabilities_missing expected jobs capabilities =
     \<lparr>rd_connection = connectionFrom expected capabilities Unobservable, rd_capabilities = capabilities,
      rd_authentication = Unobservable, rd_control = Unobservable, rd_environments = Unobservable,
      rd_jobs = jobs, rd_authEnvironment = NotObserved\<rparr>"

definition collectSafeRunnerDiagnostics ::
  "expected_release \<Rightarrow> runner_failure + runner_client \<Rightarrow> runner_diagnostics" where
  "collectSafeRunnerDiagnostics expected clientFactory =
     (case clientFactory of
        Inl e \<Rightarrow> factory_failed Unobservable e
      | Inr client \<Rightarrow>
          let capabilities = capability_observation_of (cl_capabilities client)
          in case capabilities of
               CapabilitiesFailed _ \<Rightarrow> capabilities_missing expected Unobservable capabilities
             | CapabilitiesSeen _ \<Rightarrow>
                 let authentication = observation_of (cl_authStatus client);
                     control = observation_of (cl_controlStatus client);
                     integrated = (case control of Observed c \<Rightarrow> ctl_role c = IntegratedRole | _ \<Rightarrow> False)
                 in \<lparr>rd_connection = connectionFrom expected capabilities authentication,
                     rd_capabilities = capabilities, rd_authentication = authentication, rd_control = control,
                     rd_environments = (case cl_environments client of
                                          Inl _ \<Rightarrow> Unobservable
                                        | Inr es \<Rightarrow> Observed (collectEnvironmentDiagnostics client es integrated)),
                     rd_jobs = observation_of (cl_jobs client 5), rd_authEnvironment = NotObserved\<rparr>)"

definition collectEssentialRunnerDiagnostics ::
  "expected_release \<Rightarrow> runner_failure + runner_client \<Rightarrow> runner_diagnostics" where
  "collectEssentialRunnerDiagnostics expected clientFactory =
     (case clientFactory of
        Inl e \<Rightarrow> factory_failed NotObserved e
      | Inr client \<Rightarrow>
          let capabilities = capability_observation_of (cl_capabilities client)
          in case capabilities of
               CapabilitiesFailed _ \<Rightarrow> capabilities_missing expected NotObserved capabilities
             | CapabilitiesSeen _ \<Rightarrow>
                 let authentication = observation_of (cl_authStatus client)
                 in \<lparr>rd_connection = connectionFrom expected capabilities authentication,
                     rd_capabilities = capabilities, rd_authentication = authentication,
                     rd_control = observation_of (cl_controlStatus client),
                     rd_environments = (case cl_environments client of
                                          Inl _ \<Rightarrow> Unobservable
                                        | Inr es \<Rightarrow> Observed (map (\<lambda>e. \<lparr>ed_environment = e, ed_workspace = NotObserved,
                                                                        ed_sandbox = NotObserved\<rparr>) es)),
                     rd_jobs = NotObserved, rd_authEnvironment = NotObserved\<rparr>)"

section \<open>Lemmas\<close>

definition environments_seen :: "runner_diagnostics \<Rightarrow> runner_environment list observation" where
  "environments_seen d = (case rd_environments d of
      Observed es \<Rightarrow> Observed (map ed_environment es) | Unobservable \<Rightarrow> Unobservable | NotObserved \<Rightarrow> NotObserved)"

lemma validated_release:
  assumes "validateExpectedRunnerRelease v = Some r"
  shows "1 \<le> er_protocolVersion r \<and> er_protocolVersion r \<le> MAX_RUNNER_RELEASE_INTEGER"
    "1 \<le> er_runnerRevision r \<and> er_runnerRevision r \<le> MAX_RUNNER_RELEASE_INTEGER"
    "STRICT_RUNNER_SEMVER (er_codexVersion r) \<and> length (er_codexVersion r) \<le> 32"
  using assms
  by (auto simp: validateExpectedRunnerRelease_def release_number_def Let_def
      split: js_value.splits if_splits option.splits)

lemma collected_environments [simp]:
  "map ed_environment (collectEnvironmentDiagnostics client es integrated) = es"
  by (auto simp: collectEnvironmentDiagnostics_def intro!: map_idI)

lemma essential_agrees:
  "rd_connection (collectEssentialRunnerDiagnostics r f) = rd_connection (collectSafeRunnerDiagnostics r f)"
  "rd_capabilities (collectEssentialRunnerDiagnostics r f) = rd_capabilities (collectSafeRunnerDiagnostics r f)"
  "rd_authentication (collectEssentialRunnerDiagnostics r f) = rd_authentication (collectSafeRunnerDiagnostics r f)"
  "rd_control (collectEssentialRunnerDiagnostics r f) = rd_control (collectSafeRunnerDiagnostics r f)"
  "environments_seen (collectEssentialRunnerDiagnostics r f) = environments_seen (collectSafeRunnerDiagnostics r f)"
  by (simp_all add: collectEssentialRunnerDiagnostics_def collectSafeRunnerDiagnostics_def factory_failed_def
      capabilities_missing_def environments_seen_def Let_def comp_def
      split: sum.splits capability_observation.splits)

lemma essential_passive:
  "rd_jobs (collectEssentialRunnerDiagnostics r f) = NotObserved"
  "rd_authEnvironment (collectEssentialRunnerDiagnostics r f) = NotObserved"
  "rd_environments (collectEssentialRunnerDiagnostics r f) = Observed es \<Longrightarrow> e \<in> set es \<Longrightarrow>
     ed_workspace e = NotObserved \<and> ed_sandbox e = NotObserved"
  by (auto simp: collectEssentialRunnerDiagnostics_def factory_failed_def capabilities_missing_def Let_def
      split: sum.splits capability_observation.splits)

lemma safe_auth_environment [simp]:
  "rd_authEnvironment (collectSafeRunnerDiagnostics r f) = NotObserved"
  by (simp add: collectSafeRunnerDiagnostics_def factory_failed_def capabilities_missing_def Let_def
      split: sum.splits capability_observation.splits)

text \<open>A Runner is reported connected by the status and by the collections in the same cases.\<close>

lemma connection_status_agrees:
  "cs_state (getSafeCodexConnectionStatus r f) = ConnectionConnected \<longleftrightarrow>
     cs_state (rd_connection (collectSafeRunnerDiagnostics r f)) = ConnectionConnected"
  by (auto simp: getSafeCodexConnectionStatus_def collectSafeRunnerDiagnostics_def factory_failed_def
      capabilities_missing_def connectionFrom_def safeFailureStatus_def plain_status_def with_capabilities_def Let_def
      split: sum.splits capability_observation.splits runner_failure.splits runner_error_category.splits if_splits)

text \<open>A connected Runner has answered with capabilities that include Codex and device authentication.\<close>

lemma connected_runner:
  assumes "cs_state (rd_connection (collectSafeRunnerDiagnostics r f)) = ConnectionConnected"
  shows "\<exists>client c a. f = Inr client \<and> cl_capabilities client = Inr c \<and> cap_codexAvailable c \<and> cap_deviceAuth c
           \<and> cl_authStatus client = Inr a \<and> ras_connected a"
proof (cases f)
  case (Inl e)
  with assms show ?thesis
    by (simp add: collectSafeRunnerDiagnostics_def factory_failed_def plain_status_def
        split: runner_failure.splits runner_error_category.splits)
next
  case (Inr client)
  with assms show ?thesis
    by (cases "cl_capabilities client"; cases "cl_authStatus client")
      (auto simp: collectSafeRunnerDiagnostics_def capabilities_missing_def connectionFrom_def plain_status_def
        with_capabilities_def Let_def split: if_splits)
qed

lemma freshness_known:
  "fst (runnerReleaseFreshness v r) = ReleaseCurrent \<Longrightarrow>
     \<exists>i. v = Some i \<and> vf_runnerRevision i = Some (er_runnerRevision r)"
  by (auto simp: runnerReleaseFreshness_def evaluateRunnerCompatibility_def Let_def
      split: option.splits if_splits revision_status.splits)

end
