(* ===== verification/Operational_Diagnostics.thy ===== *)
theory Operational_Diagnostics
  imports Diagnostics_Presentation Runner_Status
begin

text \<open>
  \<^verbatim>\<open>lib/operational-diagnostics.ts\<close>: the checks of the five domains (authentication, artifact library, control plane,
  ADT Runtime, Codex Runner), their roll-up to the state of a domain and to the overall state, and the contributors
  that are listed. The properties: the overall state is healthy exactly when no contributor is listed, and the
  essential observation of the Runner never shows a worse state than the full one.
\<close>

section \<open>Definitions\<close>

subsection \<open>Checks and domains\<close>

datatype domain_key =
  AuthenticationAccess | ArtifactLibrary | ApplicationControlPlane | AdtRuntime | CodexRunner

datatype domain_state = DomainHealthy | DomainDegraded | DomainFailed | DomainNotConfigured

text \<open>\<open>ck_contributes\<close> is false for a check with \<^verbatim>\<open>contributes: false\<close>.\<close>

record diagnostic_check =
  ck_id :: string
  ck_label :: string
  ck_status :: presentation
  ck_value :: "string option"
  ck_guidance :: "string option"
  ck_contributes :: bool

record diagnostic_domain =
  dd_key :: domain_key
  dd_title :: string
  dd_state :: domain_state
  dd_checks :: "diagnostic_check list"

definition check_of :: "string \<Rightarrow> string \<Rightarrow> presentation \<Rightarrow> diagnostic_check" where
  "check_of i label status =
     \<lparr>ck_id = i, ck_label = label, ck_status = status, ck_value = None, ck_guidance = None, ck_contributes = True\<rparr>"

definition with_value :: "string option \<Rightarrow> diagnostic_check \<Rightarrow> diagnostic_check" where
  "with_value v c = c\<lparr>ck_value := v\<rparr>"

definition passive_if :: "bool \<Rightarrow> diagnostic_check \<Rightarrow> diagnostic_check" where
  "passive_if b c = c\<lparr>ck_contributes := (if b then False else ck_contributes c)\<rparr>"

definition check_tone :: "diagnostic_check \<Rightarrow> tone" where
  "check_tone c = pr_tone (ck_status c)"

definition checkState :: "diagnostic_check list \<Rightarrow> domain_state" where
  "checkState checks =
     (if list_ex (\<lambda>c. ck_contributes c \<and> check_tone c = Negative) checks then DomainFailed
      else if list_ex (\<lambda>c. ck_contributes c \<and> (check_tone c = Warning \<or> check_tone c = Neutral)) checks
      then DomainDegraded else DomainHealthy)"

text \<open>The middle dot between spaces.\<close>

definition mid_dot :: string where
  "mid_dot = [CHR '' '', CHR 0xB7, CHR '' '']"

subsection \<open>Authentication and the artifact library\<close>

definition groupedConfiguration :: "repository_diagnostics \<Rightarrow> string list \<Rightarrow> presentation" where
  "groupedConfiguration d names =
     (let states = map (map_of (dc_authSecrets (rg_configuration d))) names
      in configurationStatusPresentation
           (if Some SettingInvalid \<in> set states then SettingInvalid
            else if Some SettingMissing \<in> set states then SettingMissing else SettingConfigured))"

definition authenticationDiagnosticChecks :: "repository_diagnostics \<Rightarrow> diagnostic_check list" where
  "authenticationDiagnosticChecks d =
     [with_value (Some (CHR ''@'' # rg_login d @ mid_dot @ ''GitHub ID '' @ show_int (rg_githubId d)))
        (check_of ''session'' ''Signed-in session'' (presented ''Valid'' Positive)),
      check_of ''repository-match'' ''Configured/stored repository''
        (repositoryMatchPresentation (da_repositoryMatches (rg_authorization d))),
      check_of ''authorization'' ''Live repository authorisation''
        (authorizationStatusPresentation (da_liveState (rg_authorization d))),
      check_of ''installation'' ''GitHub App installation'' (installationStatusPresentation (di_state (rg_installation d))),
      check_of ''permissions'' ''Contents read'' (permissionStatusPresentation (dp_contentsRead (rg_permissions d))),
      check_of ''permissions-write'' ''Contents write'' (permissionStatusPresentation (dp_contentsWrite (rg_permissions d))),
      check_of ''github-app-configuration'' ''GitHub App configuration''
        (groupedConfiguration d [''GITHUB_APP_ID'', ''GITHUB_APP_CLIENT_ID'', ''GITHUB_APP_CLIENT_SECRET'',
                                 ''GITHUB_APP_PRIVATE_KEY'']),
      check_of ''session-configuration'' ''Session configuration'' (groupedConfiguration d [''SESSION_SECRET'']),
      check_of ''token-encryption-configuration'' ''Token-encryption configuration''
        (groupedConfiguration d [''GITHUB_TOKEN_ENCRYPTION_KEY''])]"

definition artifactLibraryDiagnosticChecks :: "repository_diagnostics \<Rightarrow> diagnostic_check list" where
  "artifactLibraryDiagnosticChecks d =
     [check_of ''artifact-repository'' ''Artifact repository''
        (if repository_misconfigured (rg_configuration d) then presented ''Invalid'' Negative
         else presented ''Configured'' Positive),
      with_value (case rg_repositoryRevision d of HeadAvailable v \<Rightarrow> Some (take 12 v) | _ \<Rightarrow> None)
        (check_of ''repository-revision'' ''Repository revision'' (revisionStatusPresentation (rg_repositoryRevision d))),
      check_of ''cache-binding'' ''Cache binding''
        (configurationStatusPresentation (dc_cacheBinding (rg_configuration d))),
      check_of ''catalogue-cache'' ''Catalogue/cache'' (cacheStatusPresentation (cr_state (rg_cache d))),
      passive_if (case rg_validation d of ValidationNotRun _ \<Rightarrow> True | _ \<Rightarrow> False)
        (check_of ''artifact-validation'' ''Content validation'' (validationStatusPresentation (rg_validation d)))]"

subsection \<open>The ADT Runtime\<close>

record runtime_diagnostic =
  rt_configured :: bool
  rt_reachable :: bool
  rt_authenticationAccepted :: "bool option"
  rt_protocolCompatible :: bool
  rt_capabilityAvailable :: bool
  rt_graphCapabilityAvailable :: bool
  rt_adrianSecurityCapabilityAvailable :: bool
  rt_adrianSecurityTestCapabilityAvailable :: bool
  rt_wrappingKeyMatches :: bool
  rt_runtimeFreshness :: "release_state option"
  rt_runtimeRevision :: "string option"
  rt_runtimeReleaseRevision :: "int option"
  rt_expectedRuntimeReleaseRevision :: "int option"
  rt_httpStatus :: "int option"
  rt_elapsedMs :: int

definition not_verified :: "string \<Rightarrow> string \<Rightarrow> diagnostic_check" where
  "not_verified i label =
     check_of i label (described ''Not verified'' Warning ''A prerequisite check did not complete successfully.'')"

definition nonzero :: "int option \<Rightarrow> int option" where
  "nonzero v = (if v = Some 0 then None else v)"

definition runtime_reachability_check :: "runtime_diagnostic \<Rightarrow> diagnostic_check" where
  "runtime_reachability_check runtime =
     with_value (map_option (\<lambda>n. ''HTTP '' @ show_int n) (nonzero (rt_httpStatus runtime)))
       (check_of ''runtime-reachability'' ''Reachability''
          (if rt_reachable runtime then presented ''Available'' Positive
           else described ''Unavailable'' Negative ''The Runtime readiness endpoint could not be reached.''))"

definition runtime_authentication_check :: "runtime_diagnostic \<Rightarrow> diagnostic_check" where
  "runtime_authentication_check runtime =
     check_of ''runtime-authentication'' ''Request authentication''
       (if rt_authenticationAccepted runtime = Some True then presented ''Accepted'' Positive
        else described ''Rejected'' Negative
               ''Verify the independently configured application-to-Runtime authentication boundary.'')"

definition runtime_protocol_check :: "runtime_diagnostic \<Rightarrow> diagnostic_check" where
  "runtime_protocol_check runtime =
     check_of ''runtime-protocol'' ''Protocol compatibility''
       (if rt_protocolCompatible runtime then presented ''Compatible'' Positive
        else described ''Incompatible'' Negative ''Deploy a Runtime version compatible with this application.'')"

definition unverified_capabilities :: "diagnostic_check list" where
  "unverified_capabilities =
     [not_verified ''runtime-capability'' ''openai-agents capability'',
      not_verified ''runtime-graph-capability'' ''langgraph:graph capability'',
      not_verified ''runtime-wrapping-key'' ''Wrapping-key compatibility'']"

definition runtime_freshness_value :: "runtime_diagnostic \<Rightarrow> string option" where
  "runtime_freshness_value runtime =
     (let parts = (if truthy (rt_runtimeRevision runtime)
                   then [''Build '' @ take 12 (the (rt_runtimeRevision runtime))] else [])
                @ [case nonzero (rt_runtimeReleaseRevision runtime) of
                     Some n \<Rightarrow> ''Release '' @ show_int n | None \<Rightarrow> ''Release unavailable'']
                @ (case nonzero (rt_expectedRuntimeReleaseRevision runtime) of
                     Some n \<Rightarrow> [''Expected '' @ show_int n] | None \<Rightarrow> []);
          value = js_join mid_dot parts
      in if value = [] then None else Some value)"

definition runtime_freshness_check :: "runtime_diagnostic \<Rightarrow> diagnostic_check" where
  "runtime_freshness_check runtime =
     (let freshness = (case rt_runtimeFreshness runtime of Some f \<Rightarrow> f | None \<Rightarrow> ReleaseUnknown)
      in \<lparr>ck_id = ''runtime-freshness'', ck_label = ''Runtime version'',
          ck_status = (if freshness = ReleaseCurrent then presented ''Current'' Positive
                       else if freshness = ReleaseSuperseded
                       then described ''Update required'' Warning ''A newer Runtime-impacting change exists.''
                       else described ''Not verified'' Warning ''Runtime component freshness could not be established.''),
          ck_value = runtime_freshness_value runtime,
          ck_guidance = (if freshness = ReleaseSuperseded
                         then Some ''Deploy the latest applicable ADT Runtime image.'' else None),
          ck_contributes = False\<rparr>)"

definition runtime_capability_checks :: "runtime_diagnostic \<Rightarrow> diagnostic_check list" where
  "runtime_capability_checks runtime =
     [check_of ''runtime-capability'' ''openai-agents capability''
        (if rt_capabilityAvailable runtime then presented ''Available'' Positive
         else described ''Unavailable'' Negative ''The deployed Runtime does not advertise openai-agents.''),
      check_of ''runtime-graph-capability'' ''langgraph:graph capability''
        (if rt_graphCapabilityAvailable runtime then presented ''Available'' Positive
         else described ''Unavailable'' Negative ''Current Workflow execution requires the generic graph capability.''),
      passive_if True (check_of ''runtime-adrian-capability'' ''Adrian enforcement capability''
        (if rt_adrianSecurityCapabilityAvailable runtime then presented ''Available'' Positive
         else described ''Not advertised'' Neutral ''Secured Agents require this optional capability.'')),
      passive_if True (check_of ''runtime-adrian-test-capability'' ''Adrian profile-test capability''
        (if rt_adrianSecurityTestCapabilityAvailable runtime then presented ''Available'' Positive
         else described ''Not advertised'' Neutral ''Security Profile testing requires this optional capability.'')),
      check_of ''runtime-wrapping-key'' ''Wrapping-key compatibility''
        (if rt_wrappingKeyMatches runtime then presented ''Compatible'' Positive
         else described ''Mismatch'' Negative ''The application and Runtime wrapping-key configuration do not match.''),
      runtime_freshness_check runtime,
      with_value (Some (show_int (rt_elapsedMs runtime) @ '' ms''))
        (check_of ''runtime-elapsed'' ''Readiness elapsed time'' (presented ''Observed'' Positive))]"

definition runtimeDiagnosticChecks :: "runtime_diagnostic \<Rightarrow> diagnostic_check list" where
  "runtimeDiagnosticChecks runtime =
     (if \<not> rt_configured runtime
      then [check_of ''runtime-configuration'' ''Configuration''
              (described ''Missing'' Negative ''Workflow execution requires the independently deployed ADT Runtime.'')]
      else let reached = [check_of ''runtime-configuration'' ''Configuration'' (presented ''Configured'' Positive),
                          runtime_reachability_check runtime];
               accepted = reached @ [runtime_authentication_check runtime];
               compatible = accepted @ [runtime_protocol_check runtime]
           in if \<not> rt_reachable runtime
              then reached @ [not_verified ''runtime-authentication'' ''Request authentication'',
                              not_verified ''runtime-protocol'' ''Protocol compatibility''] @ unverified_capabilities
              else if rt_authenticationAccepted runtime \<noteq> Some True
              then accepted @ [not_verified ''runtime-protocol'' ''Protocol compatibility''] @ unverified_capabilities
              else if \<not> rt_protocolCompatible runtime then compatible @ unverified_capabilities
              else compatible @ runtime_capability_checks runtime)"

subsection \<open>The Codex Runner\<close>

definition tls_ready :: "auth_environment \<Rightarrow> bool" where
  "tls_ready auth =
     (aen_ipv4TlsConnectivity auth = ConnectivityOk \<or> aen_ipv6TlsConnectivity auth = ConnectivityOk)"

definition authEnvironmentStatusPresentation :: "auth_environment \<Rightarrow> presentation" where
  "authEnvironmentStatusPresentation auth =
     (let customCaReady = (aen_customCaSource auth = NoCustomCa \<or> aen_customCaFileReadable auth = Some True);
          ready = (aen_codexAppServerReady auth \<and> aen_codexVersionMatchesExpected auth
                   \<and> aen_systemCaBundlePresent auth \<and> aen_systemCaBundleReadable auth \<and> aen_systemCaBundleNonEmpty auth
                   \<and> customCaReady \<and> aen_codexHomeReadable auth \<and> aen_codexHomeWritable auth \<and> tls_ready auth)
      in if ready then presented ''Ready'' Positive
         else described ''Needs attention'' Negative
           ''One or more bounded Codex authentication, CA, DNS, or TLS-path prerequisites are unavailable.'')"

fun workspaceStatus :: "workspace_diagnostics observation \<Rightarrow> presentation" where
  "workspaceStatus NotObserved = presented ''Not observed'' Neutral"
| "workspaceStatus Unobservable = presented ''Unavailable'' Negative"
| "workspaceStatus (Observed v) =
     (if wsd_filesystemReady v then presented ''Ready'' Positive else presented ''Unavailable'' Negative)"

fun sandboxStatus :: "sandbox_diagnostics option observation \<Rightarrow> presentation" where
  "sandboxStatus NotObserved =
     described ''Not observed'' Neutral ''Passive diagnostics do not run the split execution-boundary probe.''"
| "sandboxStatus Unobservable = presented ''Unknown'' Warning"
| "sandboxStatus (Observed None) = presented ''Unsupported'' Warning"
| "sandboxStatus (Observed (Some v)) =
     (case sbd_status v of
        SandboxAvailable \<Rightarrow> presented ''Available'' Positive
      | SandboxUnavailable \<Rightarrow> described ''Unavailable'' Negative (''Safe reason: '' @ sbd_reason v @ ''.'')
      | SandboxUnknown \<Rightarrow> presented ''Unknown'' Warning)"

definition failed_capability_checks :: "capability_failure \<Rightarrow> diagnostic_check list" where
  "failed_capability_checks reason =
     [check_of ''runner-reachability'' ''Reachability''
        (if reason = CapUpdateRequired \<or> reason = CapAccessDenied \<or> reason = CapInvalidResponse
         then presented ''Available'' Positive
         else if reason = CapUnreachable
         then described ''Unavailable'' Negative ''Runner capabilities could not be reached.''
         else presented ''Unknown'' Warning),
      check_of ''runner-protocol'' ''Protocol compatibility''
        (if reason = CapUpdateRequired then presented ''Update required'' Negative else presented ''Unknown'' Warning),
      check_of ''runner-revision'' ''Runner revision'' (presented ''Not verified'' Warning),
      check_of ''runner-codex-cli'' ''Codex CLI'' (presented ''Not verified'' Warning),
      check_of ''runner-device-auth'' ''Device authentication'' (presented ''Not verified'' Warning),
      check_of ''runner-job-execution'' ''Job execution'' (presented ''Not verified'' Warning)]"

definition seen_capability_checks ::
  "runner_capabilities \<Rightarrow> runner_compatibility option \<Rightarrow> diagnostic_check list" where
  "seen_capability_checks c compatibility =
     (let protocol = map_option co_protocol compatibility;
          revision = map_option co_runnerRevision compatibility;
          version = map_option co_codexVersion compatibility
      in [check_of ''runner-reachability'' ''Reachability'' (presented ''Available'' Positive),
          check_of ''runner-protocol'' ''Protocol compatibility''
            (if protocol = Some ProtocolCompatible then presented ''Compatible'' Positive
             else if protocol = Some ProtocolIncompatible then presented ''Incompatible'' Negative
             else presented ''Unknown'' Warning),
          with_value (case cap_release c of CurrentRelease r _ \<Rightarrow> Some (show_int r) | LegacyRelease \<Rightarrow> None)
            (check_of ''runner-revision'' ''Runner revision''
              (if revision = Some RevisionCurrent then presented ''Current'' Positive
               else if revision = Some UpdateAvailable then presented ''Update required'' Negative
               else if revision = Some RunnerNewer
               then described ''Runner newer than ADT'' Warning
                      ''Release compatibility is uncertain until ADT recognizes this Runner release.''
               else presented ''Unknown'' Warning)),
          with_value (case cap_release c of CurrentRelease _ v \<Rightarrow> Some v | LegacyRelease \<Rightarrow> None)
            (check_of ''runner-codex-cli'' ''Codex CLI''
              (if \<not> cap_codexAvailable c then presented ''Unavailable'' Negative
               else if version = Some VersionCurrent then presented ''Compatible'' Positive
               else if version = Some VersionMismatch then presented ''Version mismatch'' Negative
               else presented ''Unknown'' Warning)),
          check_of ''runner-device-auth'' ''Device authentication''
            (if cap_deviceAuth c then presented ''Available'' Positive else presented ''Unavailable'' Negative),
          check_of ''runner-job-execution'' ''Job execution''
            (if cap_jobExecution c then presented ''Available'' Positive else presented ''Unavailable'' Negative)])"

definition runner_authentication_check :: "runner_auth_status observation \<Rightarrow> diagnostic_check" where
  "runner_authentication_check authentication =
     check_of ''runner-authentication'' ''Codex authentication''
       (case authentication of
          Observed a \<Rightarrow>
            if ras_connected a then presented ''Connected'' Positive
            else described ''Disconnected'' Warning
                   ''Connect the Runner to ChatGPT from the existing connection interface.''
        | _ \<Rightarrow> presented ''Unknown'' Warning)"

definition control_checks :: "runner_control observation \<Rightarrow> diagnostic_check list" where
  "control_checks observed =
     (case observed of
        Observed control \<Rightarrow>
          [check_of ''runner-emergency-stop'' ''Emergency-stop latch''
             (if ctl_emergencyStopped control then presented ''Active'' Negative else presented ''Clear'' Positive),
           check_of ''runner-boundary'' ''Execution boundary''
             (presented (if ctl_role control = ControllerRole then ''Split'' else ''Integrated'') Positive)]
          @ (case ctl_executor control of
               None \<Rightarrow> []
             | Some x \<Rightarrow>
                 [with_value (Some (case rx_activity x of
                                      Some a \<Rightarrow> ex_category a @ '' activity'' @ mid_dot @ show_int (ex_count a)
                                    | None \<Rightarrow> ''No active execution''))
                    (check_of ''runner-executor'' ''Executor health''
                      (if rx_healthy x then presented ''Healthy'' Positive else presented ''Unhealthy'' Negative))])
          @ (if \<not> ctl_restartAttempted control then []
             else let historicalFailure = (\<not> ctl_restartSucceeded control \<and> \<not> ctl_emergencyStopped control
                         \<and> (case ctl_executor control of None \<Rightarrow> True | Some x \<Rightarrow> rx_healthy x))
                  in [check_of ''runner-hard-restart'' ''Last hard restart''
                        (if ctl_restartSucceeded control then presented ''Succeeded'' Positive
                         else if historicalFailure
                         then described ''Historical failure'' Warning
                                ''The current execution boundary has recovered since the retained restart result.''
                         else presented ''Failed'' Negative)])
      | _ \<Rightarrow> [check_of ''runner-control'' ''Execution boundary'' (presented ''Unknown'' Warning)])"

definition workspace_value :: "workspace_diagnostics observation \<Rightarrow> string option" where
  "workspace_value w =
     (case w of
        Observed v \<Rightarrow>
          if truthy (wsd_headCommit v)
          then Some (take 12 (the (wsd_headCommit v)) @ mid_dot
                     @ (case wsd_dirty v of Some True \<Rightarrow> ''Modified'' | Some False \<Rightarrow> ''Clean'' | None \<Rightarrow> ''State unknown''))
          else None
      | _ \<Rightarrow> None)"

definition environment_checks :: "environment_diagnostic \<Rightarrow> diagnostic_check list" where
  "environment_checks item =
     (let e = ed_environment item; identifier = ''runner-environment-'' @ re_key e
      in [with_value (Some (re_key e)) (check_of identifier (re_name e)
            (if re_ready e then presented ''Ready'' Positive else presented ''Unavailable'' Negative)),
          with_value (workspace_value (ed_workspace item))
            (passive_if (ed_workspace item = NotObserved)
              (check_of (identifier @ ''-workspace'') (re_name e @ '' workspace'') (workspaceStatus (ed_workspace item)))),
          with_value (case ed_sandbox item of Observed (Some v) \<Rightarrow> Some (sbd_backend v) | _ \<Rightarrow> None)
            (passive_if (ed_sandbox item = NotObserved)
              (check_of (identifier @ ''-sandbox'') (re_name e @ '' sandbox'') (sandboxStatus (ed_sandbox item))))])"

definition environments_check :: "runner_environment list \<Rightarrow> diagnostic_check" where
  "environments_check environments =
     (let enabled = filter re_enabled environments; ready = filter re_ready enabled
      in with_value (Some (show_nat (length ready) @ '' ready'' @ mid_dot @ show_nat (length enabled) @ '' enabled''))
           (check_of ''runner-environments'' ''Environment catalogue''
             (if ready \<noteq> [] then presented ''Ready'' Positive
              else presented (if enabled \<noteq> [] then ''No ready environments'' else ''No enabled environments'') Negative)))"

definition environment_catalogue_checks :: "environment_diagnostic list observation \<Rightarrow> diagnostic_check list" where
  "environment_catalogue_checks observed =
     (case observed of
        Observed items \<Rightarrow>
          environments_check (map ed_environment items)
          # concat (map environment_checks (filter (re_enabled \<circ> ed_environment) items))
      | _ \<Rightarrow> [check_of ''runner-environments'' ''Environment catalogue'' (presented ''Unknown'' Warning)])"

definition operations_check :: "runner_jobs observation \<Rightarrow> diagnostic_check" where
  "operations_check observed =
     (case observed of
        NotObserved \<Rightarrow>
          passive_if True (check_of ''runner-operations'' ''Current operations''
            (described ''Not queried'' Neutral ''Query recent jobs before making a retry decision.''))
      | Unobservable \<Rightarrow>
          check_of ''runner-operations'' ''Current operations''
            (described ''Unknown'' Warning ''The latest job observation failed; idle cannot be inferred.'')
      | Observed jobs \<Rightarrow>
          let active = (if truthy (jl_activeJobId jobs)
                        then find (\<lambda>j. job_jobId j = the (jl_activeJobId jobs)) (jl_jobs jobs) else None)
          in with_value (Some (case active of
                                 Some j \<Rightarrow> job_state j @ mid_dot @ job_environmentKey j
                               | None \<Rightarrow> show_nat (length (jl_jobs jobs)) @ '' recent job(s)''))
               (check_of ''runner-operations'' ''Current operations''
                 (presented (if active \<noteq> None then ''Active'' else ''Idle'') Positive)))"

definition auth_environment_value :: "auth_environment \<Rightarrow> string" where
  "auth_environment_value auth =
     ''App Server '' @ (if aen_codexAppServerReady auth then ''ready'' else ''unavailable'')
     @ mid_dot @ ''TLS '' @ (if tls_ready auth then ''verified'' else ''unavailable'')
     @ mid_dot @ ''Route '' @ (if aen_routeResponseReceived auth then ''observed'' else ''unavailable'')
     @ mid_dot @ ''CA '' @ (if aen_systemCaBundleReadable auth \<and> aen_systemCaBundleNonEmpty auth
           \<and> (aen_customCaSource auth = NoCustomCa \<or> aen_customCaFileReadable auth = Some True)
         then ''ready'' else ''unavailable'')"

definition auth_environment_checks :: "auth_environment observation \<Rightarrow> diagnostic_check list" where
  "auth_environment_checks observed =
     (case observed of
        Unobservable \<Rightarrow> [check_of ''runner-auth-environment'' ''Auth environment'' (presented ''Unknown'' Warning)]
      | NotObserved \<Rightarrow> []
      | Observed auth \<Rightarrow>
          [with_value (Some (auth_environment_value auth))
             (check_of ''runner-auth-environment'' ''Auth environment'' (authEnvironmentStatusPresentation auth))])"

definition runnerDiagnosticChecks :: "runner_diagnostics \<Rightarrow> diagnostic_check list" where
  "runnerDiagnosticChecks runner =
     (if cs_state (rd_connection runner) = ConnectionConfigurationMissing
      then [check_of ''runner-configuration'' ''Configuration''
              (described ''Not configured'' Neutral ''Codex Runner is an optional execution provider until configured.'')]
      else [check_of ''runner-configuration'' ''Configuration'' (presented ''Configured'' Positive)]
           @ (case rd_capabilities runner of
                CapabilitiesFailed reason \<Rightarrow> failed_capability_checks reason
              | CapabilitiesSeen c \<Rightarrow> seen_capability_checks c (cs_compatibility (rd_connection runner)))
           @ [runner_authentication_check (rd_authentication runner)]
           @ control_checks (rd_control runner)
           @ environment_catalogue_checks (rd_environments runner)
           @ [operations_check (rd_jobs runner)]
           @ auth_environment_checks (rd_authEnvironment runner))"

subsection \<open>Domains and the overall state\<close>

definition unavailable_check :: "string \<Rightarrow> string \<Rightarrow> diagnostic_check" where
  "unavailable_check i label =
     check_of i label (described ''Unavailable'' Negative ''This domain could not be evaluated safely.'')"

definition deriveOperationalDomains ::
  "repository_diagnostics option \<Rightarrow> runtime_diagnostic \<Rightarrow> runner_diagnostics \<Rightarrow> bool \<Rightarrow> diagnostic_domain list" where
  "deriveOperationalDomains report runtime runner deploymentConfigured =
     (let authChecks = (case report of
                          Some d \<Rightarrow> authenticationDiagnosticChecks d
                        | None \<Rightarrow> [unavailable_check ''authentication-diagnostics'' ''Authentication diagnostics'']);
          artifactChecks = (case report of
                          Some d \<Rightarrow> artifactLibraryDiagnosticChecks d
                        | None \<Rightarrow> [unavailable_check ''artifact-library-diagnostics'' ''Artifact Library diagnostics'']);
          runtimeChecks = runtimeDiagnosticChecks runtime;
          runnerChecks = runnerDiagnosticChecks runner
      in [\<lparr>dd_key = AuthenticationAccess, dd_title = ''Authentication & access'', dd_state = checkState authChecks,
           dd_checks = authChecks\<rparr>,
          \<lparr>dd_key = ArtifactLibrary, dd_title = ''Artifact Library'', dd_state = checkState artifactChecks,
           dd_checks = artifactChecks\<rparr>,
          \<lparr>dd_key = ApplicationControlPlane, dd_title = ''Application / control plane'', dd_state = DomainHealthy,
           dd_checks = [check_of ''deployment-identity'' ''Deployment identity''
             (if deploymentConfigured then presented ''Available'' Positive else presented ''Development build'' Neutral)]\<rparr>,
          \<lparr>dd_key = AdtRuntime, dd_title = ''ADT Runtime'', dd_state = checkState runtimeChecks,
           dd_checks = runtimeChecks\<rparr>,
          \<lparr>dd_key = CodexRunner, dd_title = ''Codex Runner'',
           dd_state = (if cs_state (rd_connection runner) = ConnectionConfigurationMissing then DomainNotConfigured
                       else checkState runnerChecks),
           dd_checks = runnerChecks\<rparr>])"

definition operationalOverall :: "diagnostic_domain list \<Rightarrow> domain_state \<times> presentation" where
  "operationalOverall domains =
     (let applicable = filter (\<lambda>d. dd_state d \<noteq> DomainNotConfigured) domains;
          state = (if list_ex (\<lambda>d. dd_state d = DomainFailed) applicable then DomainFailed
                   else if list_ex (\<lambda>d. dd_state d = DomainDegraded) applicable then DomainDegraded
                   else DomainHealthy)
      in (state,
          if state = DomainHealthy
          then described ''Healthy'' Positive ''All applicable operational domains are healthy.''
          else if state = DomainDegraded
          then described ''Degraded'' Warning
                 ''One or more applicable domains require attention or could not be verified.''
          else described ''Needs attention'' Negative
                 ''One or more applicable operational domains are unavailable or unhealthy.''))"

fun domain_key_name :: "domain_key \<Rightarrow> string" where
  "domain_key_name AuthenticationAccess = ''authentication-access''"
| "domain_key_name ArtifactLibrary = ''artifact-library''"
| "domain_key_name ApplicationControlPlane = ''application-control-plane''"
| "domain_key_name AdtRuntime = ''adt-runtime''"
| "domain_key_name CodexRunner = ''codex-runner''"

definition reported_checks :: "diagnostic_domain \<Rightarrow> diagnostic_check list" where
  "reported_checks domain =
     (if dd_state domain = DomainNotConfigured then []
      else filter (\<lambda>c. ck_contributes c \<and> (check_tone c = Negative \<or> check_tone c = Warning)) (dd_checks domain))"

definition domain_contributors :: "diagnostic_domain \<Rightarrow> contributor list" where
  "domain_contributors domain =
     map (\<lambda>c. \<lparr>cb_id = domain_key_name (dd_key domain) @ ''-'' @ ck_id c,
               cb_message = dd_title domain @ '': '' @ ck_label c @ '' is '' @ js_lower (pr_label (ck_status c)) @ ''.'',
               cb_href = CHR ''#'' # ck_id c\<rparr>) (reported_checks domain)"

definition operationalContributors :: "diagnostic_domain list \<Rightarrow> int \<Rightarrow> contributor list \<times> nat" where
  "operationalContributors domains limit =
     (let all = concat (map domain_contributors domains); n = nat (max 0 limit)
      in (take n all, length all - n))"

section \<open>Lemmas\<close>

subsection \<open>Tones\<close>

lemma tone_presented [simp]: "pr_tone (presented l t) = t" "pr_tone (described l t d) = t"
  by (simp_all add: presented_def described_def)

lemma check_projections [simp]:
  "check_tone (check_of i l s) = pr_tone s" "check_tone (with_value v c) = check_tone c"
  "check_tone (passive_if b c) = check_tone c" "ck_contributes (check_of i l s)"
  "ck_contributes (with_value v c) = ck_contributes c" "ck_contributes (passive_if b c) \<longleftrightarrow> \<not> b \<and> ck_contributes c"
  by (simp_all add: check_tone_def check_of_def with_value_def passive_if_def)

text \<open>A check that contributes is never neutral.\<close>

definition judged :: "diagnostic_check \<Rightarrow> bool" where
  "judged c = (ck_contributes c \<longrightarrow> check_tone c \<noteq> Neutral)"

lemma repository_tones [simp]:
  "pr_tone (configurationStatusPresentation s) \<noteq> Neutral" "pr_tone (authorizationStatusPresentation l) \<noteq> Neutral"
  "pr_tone (repositoryMatchPresentation m) \<noteq> Neutral" "pr_tone (installationStatusPresentation i) \<noteq> Neutral"
  "pr_tone (permissionStatusPresentation p) \<noteq> Neutral" "pr_tone (revisionStatusPresentation r) \<noteq> Neutral"
  "pr_tone (cacheStatusPresentation c) \<noteq> Neutral" "pr_tone (validationStatusPresentation v) \<noteq> Neutral"
  "pr_tone (groupedConfiguration d names) \<noteq> Neutral" "pr_tone (authEnvironmentStatusPresentation auth) \<noteq> Neutral"
          apply (simp add: configurationStatusPresentation_def)
         apply (cases l; simp)
        apply (simp add: repositoryMatchPresentation_def split: option.split bool.split)
       apply (cases i; simp)
      apply (simp add: permissionStatusPresentation_def Let_def split: option.split bool.split)
     apply (cases r; simp)
    apply (cases c; simp)
   apply (cases v; simp)
  apply (simp add: groupedConfiguration_def Let_def configurationStatusPresentation_def)
  apply (simp add: authEnvironmentStatusPresentation_def Let_def)
  done

lemma tone_if [simp]: "pr_tone (if b then x else y) = (if b then pr_tone x else pr_tone y)"
  by simp

lemma judged_simps [simp]:
  "judged (check_of i l s) \<longleftrightarrow> pr_tone s \<noteq> Neutral" "judged (with_value v c) = judged c"
  "judged (passive_if b c) \<longleftrightarrow> b \<or> judged c" "judged (not_verified i l)" "judged (unavailable_check i l)"
  by (auto simp: judged_def not_verified_def unavailable_check_def)

lemma judged_repository:
  "list_all judged (authenticationDiagnosticChecks d)" "list_all judged (artifactLibraryDiagnosticChecks d)"
  by (simp_all add: authenticationDiagnosticChecks_def artifactLibraryDiagnosticChecks_def)

lemma judged_capabilities:
  "list_all judged unverified_capabilities" "list_all judged (runtime_capability_checks rt)"
  by (simp_all add: unverified_capabilities_def runtime_capability_checks_def)
    (simp add: runtime_freshness_check_def judged_def Let_def)

lemma judged_runtime: "list_all judged (runtimeDiagnosticChecks rt)"
  by (simp add: runtimeDiagnosticChecks_def Let_def judged_capabilities runtime_reachability_check_def
      runtime_authentication_check_def runtime_protocol_check_def)

lemma workspace_tone: "w \<noteq> NotObserved \<Longrightarrow> pr_tone (workspaceStatus w) \<noteq> Neutral"
  by (cases w) simp_all

lemma sandbox_tone: "x \<noteq> NotObserved \<Longrightarrow> pr_tone (sandboxStatus x) \<noteq> Neutral"
  by (cases x rule: sandboxStatus.cases) (simp_all split: sandbox_status.split)

lemma judged_environment: "list_all judged (environment_checks e)"
  by (simp add: environment_checks_def Let_def) (metis workspace_tone sandbox_tone)

lemma judged_environments: "list_all judged (environment_catalogue_checks es)"
  using judged_environment
  by (auto simp: environment_catalogue_checks_def environments_check_def Let_def list_all_iff split: observation.split)

lemma judged_runner_parts:
  "list_all judged (failed_capability_checks reason)" "list_all judged (seen_capability_checks c cc)"
  "judged (runner_authentication_check a)" "list_all judged (control_checks ctl)" "judged (operations_check j)"
  "list_all judged (auth_environment_checks x)"
  by (simp_all add: failed_capability_checks_def seen_capability_checks_def runner_authentication_check_def
      control_checks_def operations_check_def auth_environment_checks_def Let_def split: observation.split option.split)

lemma judged_runner:
  "cs_state (rd_connection r) \<noteq> ConnectionConfigurationMissing \<Longrightarrow> list_all judged (runnerDiagnosticChecks r)"
  by (simp add: runnerDiagnosticChecks_def judged_runner_parts judged_environments split: capability_observation.split)

subsection \<open>The roll-up\<close>

lemma healthy_checks:
  "list_all judged cs \<Longrightarrow> checkState cs = DomainHealthy \<longleftrightarrow>
    (\<forall>c \<in> set cs. \<not> (ck_contributes c \<and> (check_tone c = Negative \<or> check_tone c = Warning)))"
  by (auto simp: checkState_def judged_def list_ex_iff list_all_iff)

text \<open>A domain whose state is healthy exactly when it reports nothing.\<close>

definition explained :: "diagnostic_domain \<Rightarrow> bool" where
  "explained d = (dd_state d = DomainNotConfigured \<or> (dd_state d = DomainHealthy \<longleftrightarrow> reported_checks d = []))"

lemma explained_checks:
  "list_all judged cs \<Longrightarrow> explained \<lparr>dd_key = k, dd_title = t, dd_state = checkState cs, dd_checks = cs\<rparr>"
  using healthy_checks [of cs] by (auto simp: explained_def reported_checks_def filter_empty_conv)

lemma explained_runner:
  "explained \<lparr>dd_key = k, dd_title = t,
      dd_state = (if cs_state (rd_connection runner) = ConnectionConfigurationMissing then DomainNotConfigured
                  else checkState (runnerDiagnosticChecks runner)), dd_checks = runnerDiagnosticChecks runner\<rparr>"
  using explained_checks [OF judged_runner, of runner k t] by (simp add: explained_def)

lemma explained_control_plane:
  "explained \<lparr>dd_key = k, dd_title = t, dd_state = DomainHealthy, dd_checks = [check_of i l
      (if deployed then presented x Positive else presented y Neutral)]\<rparr>"
  by (simp add: explained_def reported_checks_def)

lemma derived_domains_explained: "list_all explained (deriveOperationalDomains report runtime runner deployed)"
  unfolding deriveOperationalDomains_def Let_def list.pred_inject
  by (intro conjI explained_checks explained_runner explained_control_plane judged_runtime TrueI)
    (simp_all add: judged_repository split: option.split)

lemma overall_healthy_iff:
  "fst (operationalOverall ds) = DomainHealthy \<longleftrightarrow>
     (\<forall>d \<in> set ds. dd_state d = DomainHealthy \<or> dd_state d = DomainNotConfigured)"
proof -
  have "dd_state d = DomainHealthy \<or> dd_state d = DomainNotConfigured \<longleftrightarrow>
     \<not> (dd_state d \<noteq> DomainNotConfigured \<and> (dd_state d = DomainFailed \<or> dd_state d = DomainDegraded))" for d
    by (cases "dd_state d") auto
  then show ?thesis
    by (auto simp: operationalOverall_def Let_def list_ex_iff)
qed

lemma no_contributors_iff:
  "concat (map domain_contributors ds) = [] \<longleftrightarrow> (\<forall>d \<in> set ds. reported_checks d = [])"
  by (auto simp: domain_contributors_def)

subsection \<open>The essential observation\<close>

fun severity :: "domain_state \<Rightarrow> nat" where
  "severity DomainHealthy = 0"
| "severity DomainNotConfigured = 0"
| "severity DomainDegraded = 1"
| "severity DomainFailed = 2"

lemma checkState_mono:
  assumes "\<And>c. c \<in> set cs \<Longrightarrow> ck_contributes c \<Longrightarrow> c \<in> set cs'"
  shows "severity (checkState cs) \<le> severity (checkState cs')"
  using assms by (auto simp: checkState_def list_ex_iff)

lemma passive_environment_check:
  assumes "c \<in> set (environment_checks \<lparr>ed_environment = e, ed_workspace = NotObserved, ed_sandbox = NotObserved\<rparr>)"
    and "ck_contributes c" and "ed_environment item = e"
  shows "c \<in> set (environment_checks item)"
  using assms by (auto simp: environment_checks_def Let_def)

lemma essential_environment_checks:
  assumes "c \<in> set (environment_catalogue_checks (rd_environments (collectEssentialRunnerDiagnostics r f)))"
    and "ck_contributes c"
  shows "c \<in> set (environment_catalogue_checks (rd_environments (collectSafeRunnerDiagnostics r f)))"
proof (cases "rd_environments (collectEssentialRunnerDiagnostics r f)")
  case (Observed es)
  with essential_agrees(5) [of r f] obtain items
    where items: "rd_environments (collectSafeRunnerDiagnostics r f) = Observed items"
      and same: "map ed_environment items = map ed_environment es"
    by (auto simp: environments_seen_def split: observation.splits)
  show ?thesis
  proof (cases "c = environments_check (map ed_environment es)")
    case True
    with items same show ?thesis by (simp add: environment_catalogue_checks_def)
  next
    case False
    with assms(1) Observed obtain e where e: "e \<in> set es" "re_enabled (ed_environment e)" "c \<in> set (environment_checks e)"
      by (auto simp: environment_catalogue_checks_def)
    from essential_passive(3) [OF Observed e(1)] have
      "e = \<lparr>ed_environment = ed_environment e, ed_workspace = NotObserved, ed_sandbox = NotObserved\<rparr>" by simp
    moreover from e(1) same obtain item where "item \<in> set items" "ed_environment item = ed_environment e"
      by (metis image_iff set_map)
    ultimately show ?thesis
      using e items passive_environment_check [of c "ed_environment e" item] assms(2)
      by (auto simp: environment_catalogue_checks_def)
  qed
next
  case Unobservable
  with essential_agrees(5) [of r f] assms(1) show ?thesis
    by (auto simp: environments_seen_def split: observation.splits)
next
  case NotObserved
  with essential_agrees(5) [of r f] assms(1) show ?thesis
    by (auto simp: environments_seen_def split: observation.splits)
qed

lemma essential_runner_checks:
  assumes "c \<in> set (runnerDiagnosticChecks (collectEssentialRunnerDiagnostics r f))" and "ck_contributes c"
  shows "c \<in> set (runnerDiagnosticChecks (collectSafeRunnerDiagnostics r f))"
proof -
  have "\<not> ck_contributes (operations_check NotObserved)" by (simp add: operations_check_def)
  with assms essential_environment_checks [OF _ assms(2), of r f] show ?thesis
    unfolding runnerDiagnosticChecks_def essential_agrees(1-4) essential_passive(1,2)
    by (auto simp: auth_environment_checks_def split: if_splits)
qed

lemma overall_mono:
  assumes "list_all2 (\<lambda>d d'. severity (dd_state d) \<le> severity (dd_state d')) ds ds'"
  shows "severity (fst (operationalOverall ds)) \<le> severity (fst (operationalOverall ds'))"
proof -
  have overall: "severity (fst (operationalOverall ds)) = Max (insert 0 (severity ` dd_state ` set ds))" for ds
  proof (induction ds)
    case Nil
    then show ?case by (simp add: operationalOverall_def)
  next
    case (Cons d ds)
    have "severity (fst (operationalOverall (d # ds))) = max (severity (dd_state d)) (severity (fst (operationalOverall ds)))"
      by (cases "dd_state d") (auto simp: operationalOverall_def Let_def)
    with Cons show ?case by (simp add: insert_commute [of 0] Max_insert)
  qed
  show ?thesis
    unfolding overall using assms
    by (induction rule: list_all2_induct) (auto simp: insert_commute [of 0] intro: max.mono)
qed

section \<open>Properties\<close>

text \<open>C29. Whatever the repository, the Runtime and the Runner report: the overall state is healthy exactly when no
  contributor is listed, and the listed contributors together with the omitted count are all the contributing checks
  that warn or fail in the applicable domains.\<close>

theorem operational_state_explained:
  assumes "0 < limit"
  shows "(fst (operationalOverall (deriveOperationalDomains report runtime runner deployed)) = DomainHealthy \<longleftrightarrow>
          fst (operationalContributors (deriveOperationalDomains report runtime runner deployed) limit) = [])
    \<and> length (fst (operationalContributors (deriveOperationalDomains report runtime runner deployed) limit))
        + snd (operationalContributors (deriveOperationalDomains report runtime runner deployed) limit)
      = length (concat (map reported_checks (deriveOperationalDomains report runtime runner deployed)))"
proof -
  let ?ds = "deriveOperationalDomains report runtime runner deployed"
  have "reported_checks d = [] \<longleftrightarrow> dd_state d = DomainHealthy \<or> dd_state d = DomainNotConfigured" if "d \<in> set ?ds" for d
    using derived_domains_explained [of report runtime runner deployed] that
    by (auto simp: list_all_iff explained_def reported_checks_def)
  then have "fst (operationalOverall ?ds) = DomainHealthy \<longleftrightarrow> concat (map domain_contributors ?ds) = []"
    unfolding overall_healthy_iff no_contributors_iff by blast
  moreover have "length (concat (map domain_contributors ds)) = length (concat (map reported_checks ds))" for ds
    by (induction ds) (simp_all add: domain_contributors_def)
  ultimately show ?thesis
    using assms by (simp add: operationalContributors_def Let_def)
qed

definition silent_runtime :: runtime_diagnostic where
  "silent_runtime =
     \<lparr>rt_configured = True, rt_reachable = False, rt_authenticationAccepted = None, rt_protocolCompatible = False,
      rt_capabilityAvailable = False, rt_graphCapabilityAvailable = False, rt_adrianSecurityCapabilityAvailable = False,
      rt_adrianSecurityTestCapabilityAvailable = False, rt_wrappingKeyMatches = False, rt_runtimeFreshness = None,
      rt_runtimeRevision = None, rt_runtimeReleaseRevision = None, rt_expectedRuntimeReleaseRevision = None,
      rt_httpStatus = None, rt_elapsedMs = 12\<rparr>"

definition no_runner :: runner_diagnostics where
  "no_runner = factory_failed NotObserved (CodexRunnerError RunnerConfigurationMissing None)"

theorem operational_state_explained_witness:
  "(0::int) < 2 \<and> length (fst (operationalContributors (deriveOperationalDomains None silent_runtime no_runner True) 2)) = 2
    \<and> fst (operationalOverall (deriveOperationalDomains None silent_runtime no_runner True)) \<noteq> DomainHealthy"
proof -
  have two: "length (fst (operationalContributors (deriveOperationalDomains None silent_runtime no_runner True) 2)) = 2"
    by code_simp
  have "(0::int) < 2" by simp
  from operational_state_explained [OF this, of None silent_runtime no_runner True] two show ?thesis by auto
qed

text \<open>C30. The essential observation of the Runner, which runs no probe of workspaces, sandboxes or jobs, never raises more
  alarm than the full one: the overall state is not worse, and the items it lists under some limit are listed by the full one under the
  same limit too, unless the full list is cut and counts the items it omits.\<close>

theorem essential_observation_conservative:
  "(set (fst (operationalContributors (deriveOperationalDomains report runtime
            (collectEssentialRunnerDiagnostics release clientFactory) deployed) limit))
       \<subseteq> set (fst (operationalContributors (deriveOperationalDomains report runtime
            (collectSafeRunnerDiagnostics release clientFactory) deployed) limit))
      \<or> 0 < snd (operationalContributors (deriveOperationalDomains report runtime
            (collectSafeRunnerDiagnostics release clientFactory) deployed) limit))
   \<and> severity (fst (operationalOverall (deriveOperationalDomains report runtime
       (collectEssentialRunnerDiagnostics release clientFactory) deployed)))
     \<le> severity (fst (operationalOverall (deriveOperationalDomains report runtime
       (collectSafeRunnerDiagnostics release clientFactory) deployed)))"
proof -
  let ?e = "collectEssentialRunnerDiagnostics release clientFactory"
  let ?s = "collectSafeRunnerDiagnostics release clientFactory"
  have worse: "severity (checkState (runnerDiagnosticChecks ?e)) \<le> severity (checkState (runnerDiagnosticChecks ?s))"
    by (rule checkState_mono) (rule essential_runner_checks)
  have "checkState cs \<noteq> DomainNotConfigured" for cs by (simp add: checkState_def)
  with essential_runner_checks [of _ release clientFactory]
  have all: "set (concat (map domain_contributors (deriveOperationalDomains report runtime ?e deployed)))
     \<subseteq> set (concat (map domain_contributors (deriveOperationalDomains report runtime ?s deployed)))"
    by (auto simp: deriveOperationalDomains_def Let_def domain_contributors_def reported_checks_def
        essential_agrees(1) [of release clientFactory])
  have cut: "set (take n xs) \<subseteq> set (take n ys) \<or> 0 < length ys - n" if "set xs \<subseteq> set ys" for xs ys :: "contributor list" and n
    using that set_take_subset [of n xs] by (cases "length ys \<le> n") auto
  have "severity (fst (operationalOverall (deriveOperationalDomains report runtime ?e deployed)))
     \<le> severity (fst (operationalOverall (deriveOperationalDomains report runtime ?s deployed)))"
    using worse
    by (intro overall_mono) (simp add: deriveOperationalDomains_def Let_def essential_agrees(1) [of release clientFactory])
  with cut [OF all, of "nat (max 0 limit)"] show ?thesis
    unfolding operationalContributors_def Let_def fst_conv snd_conv by blast
qed

end
