(* ===== verification/Spec2Isabelle.thy ===== *)
theory Spec2Isabelle
  imports Concurrent_Map Github_Writes File_Repository Auth_Flow Change_Policy Sqlite_Modes Vault_Bindings Workflow_Machine
    Feature_Issues Runtime_Publication Catalogue_Round_Trip Search_Tags Composition_Samples
    Operational_Diagnostics
begin

text \<open>
  A verification library for the artifact development toolkit: a web application that keeps prompts, snippets and templates as
  Markdown files in a GitHub repository, lets signed-in owners edit them, and runs workflows of agents over them; beside it, a runner
  service that keeps Codex sessions in SQLite files, and the scripts that classify, merge and publish changes of the repository itself.

  \<^bold>\<open>Conventions.\<close> Code that cannot fail is a HOL function; code that may throw returns a value of a sum type, with the error on the
  left; code that reads or writes state, sends requests or asks a clock is a function from the state to an outcome and a new state
  (\<open>eff\<close> in \<open>Adt_Prelude\<close>), built with \<open>bnd\<close>, \<open>handle\<close> and \<open>finallyE\<close> the way the code awaits, catches and cleans up. What is outside
  the repository (fetch, git, docker, the crypto primitives, zod's date format, YAML, the collation of \<^verbatim>\<open>localeCompare\<close>, the database
  engine, the operating system) is an argument of the definitions; where a theorem needs a law of it, the law is a named hypothesis and
  the witness instantiates it. Strings are Latin-1, integers are unbounded where the code stays within safe integers, and
  bytes are natural numbers below 256. Texts of messages and log lines are kept only where the code reads them again.

  \<^bold>\<open>Shared theories.\<close> \<open>Adt_Prelude\<close> has the effects, the string and array methods of the language and their lemmas; \<open>Js_Values\<close> dynamic
  values, regular expressions, encodings and dates; \<open>Effect_Logic\<close> a logic of triples for effects and the locale
  \<open>preorder_history\<close>: a relation between states that every step respects is respected by whole operations. It is interpreted once per
  kind of history, and the safety theorems below rest on its facts. \<open>Artifact_Store\<close> is the contract of a store of artifacts as a locale, interpreted on
  the file store and the GitHub store; \<open>session_store\<close> and \<open>catalogue_repository\<close> are the contracts the sign-in and the cache rely on.

  \<^bold>\<open>Artifacts.\<close>
  \<^item> \<open>Repository_Layout\<close> (\<^verbatim>\<open>lib/repository-layout.ts\<close>, \<^verbatim>\<open>artifact-id.ts\<close>, \<^verbatim>\<open>definition-id.ts\<close>): paths and identifiers; a path that is written is
    canonical, stays in its directory and determines the artifact.
  \<^item> \<open>Artifact_Contract\<close> (\<^verbatim>\<open>lib/artifact-contract.ts\<close>) and \<open>Artifact_Writes\<close> (the first half of \<^verbatim>\<open>lib/artifact-repository.ts\<close>): front matter,
    the preparation of a write with the secret patterns; what is prepared is well formed, free of secrets and reads back.
  \<^item> \<open>Github_App\<close> (\<^verbatim>\<open>lib/github-app.ts\<close>), \<open>Github_Repository\<close>, \<open>Github_Requests\<close>, \<open>Github_Writes\<close>, \<open>File_Repository\<close>, \<open>Concurrent_Map\<close> (the rest
    of \<^verbatim>\<open>lib/artifact-repository.ts\<close>): tokens, requests with retries, every operation of both stores, and the concurrent map as a step
    relation. A write is the last of its requests, carries the revision the caller saw and is sent only after the reads of the same run showed it;
    retries and waits are bounded; every schedule of the map that settles without a rejection ends with the results in input order.
  \<^item> \<open>Artifact_Catalogue\<close>, \<open>Catalogue_Guarantees\<close>, \<open>Catalogue_Round_Trip\<close> (\<^verbatim>\<open>lib/artifact-catalogue.ts\<close>): the shared cache of the catalogue,
    with other processes that change it at any time and accesses that fail. Only valid catalogues are served, an invalidation makes
    the next load ask the repository, and while the cache works undisturbed a published catalogue is read back.
  \<^item> \<open>Search_Tags\<close> (\<^verbatim>\<open>lib/search.ts\<close>, \<^verbatim>\<open>lib/tag-suggestions.ts\<close>): a search is the conjunction of its words; suggestions have exact counts.

  \<^bold>\<open>Sign-in.\<close>
  \<^item> \<open>Auth_Core\<close>, \<open>Auth_Configuration\<close>, \<open>Session_Store\<close>, \<open>Repository_Authorization\<close>, \<open>Auth_Flow\<close> (\<^verbatim>\<open>lib/auth-core.ts\<close>, \<^verbatim>\<open>auth-configuration.ts\<close>,
    \<^verbatim>\<open>auth-session-store.ts\<close>, \<^verbatim>\<open>repository-authorization.ts\<close>, \<^verbatim>\<open>auth.ts\<close>, \<^verbatim>\<open>oauth-route-handlers.ts\<close>): the OAuth exchange, the table of
    sessions as a map of rows, the decision who may use the repository. Revocation is final over all sequences of statements, access needs a current
    decision, a callback needs a state that is used once.

  \<^bold>\<open>Credentials.\<close> \<open>Credential_Vault\<close>, \<open>Vault_Refinement\<close>, \<open>Vault_Bindings\<close> (\<^verbatim>\<open>lib/provider-credential-vault.ts\<close>,
  \<^verbatim>\<open>provider-credential-vault-crypto.ts\<close>): envelopes, secrets and bindings over tables whose statements may fail or lose their reply. The vault refines a
  map; a revision has one winner until its secret is deleted; a credential is released only for the endpoint it was bound to.

  \<^bold>\<open>Workflows.\<close>
  \<^item> \<open>Workflow_Blocks\<close>, \<open>Workflow_Graph\<close>, \<open>Workflow_Components\<close>, \<open>Workflow_Validation\<close>, \<open>Workflow_Plans\<close> (\<^verbatim>\<open>lib/workflow-block-registry.ts\<close>,
    \<^verbatim>\<open>lib/workflow-definitions.ts\<close>): the registry of blocks, the validation of a graph, its compilation and the admission of a run. The
    depth-first numbering computes the strongly connected components; the graph of an accepted workflow is connected from its one
    entry to its one terminal, its cycles have a Condition with a way out, its conversations are well founded, and it compiles exactly when
    its agents are known and it has no calls of other workflows.
  \<^item> \<open>Workflow_Identity\<close>, \<open>Workflow_Composition\<close>, \<open>Composition_Samples\<close> (the second half of \<^verbatim>\<open>lib/workflow-definitions.ts\<close>): path keys, the digest
    over 32-bit words, and the expansion of reusable workflows. A key determines its path, and a generated identifier its place; every node of a composed workflow is traced to the
    node it comes from, along acyclic calls of bounded depth; an accepted update leaves all transitive dependents composable.
  \<^item> \<open>Workflow_Runs\<close>, \<open>Workflow_Machine\<close> (\<^verbatim>\<open>lib/workflow-storage.ts\<close>): the store of runs and step attempts and its histories. An attempt is
    claimed once, attempts keep their identity, a finished run stays finished, an active run can succeed.

  \<^bold>\<open>Diagnostics.\<close>
  \<^item> \<open>Repository_Diagnostics\<close>, \<open>Diagnostics_Presentation\<close> (\<^verbatim>\<open>lib/diagnostics-model.ts\<close>, \<^verbatim>\<open>diagnostics-overall.ts\<close>, \<^verbatim>\<open>repository-diagnostics.ts\<close>,
    \<^verbatim>\<open>diagnostics-presentation.ts\<close>): the report on a session and its presentation. A denied session causes no request to the repository; a
    report that is not healthy names its reasons.
  \<^item> \<open>Runner_Status\<close>, \<open>Operational_Diagnostics\<close> (\<^verbatim>\<open>lib/codex-runner-status.ts\<close>, \<^verbatim>\<open>codex-runner-diagnostics.ts\<close>, \<^verbatim>\<open>codex-runner-compatibility.ts\<close>,
    \<^verbatim>\<open>codex-runner-release.ts\<close>, \<^verbatim>\<open>operational-diagnostics.ts\<close>): what is observed of the Runner and the domains derived from it. The overall state is
    explained by the listed checks, and the passive observation never raises more alarm than the full one, up to the limit of the list.

  \<^bold>\<open>Runner storage.\<close> \<open>Sqlite_Storage\<close>, \<open>Sqlite_Restore\<close>, \<open>Sqlite_Guarantees\<close>, \<open>Sqlite_Removals\<close>, \<open>Sqlite_Manifest\<close>, \<open>Sqlite_Modes\<close>
  (\<^verbatim>\<open>codex-runner/src/sqlite-storage.ts\<close>): backups and restores over a file system in which every call may fail. A restore ends with
  the databases of the backup, with the original ones, or with a manager that refuses further work and every original file kept, unless a recursive
  removal of the run fails half-way; the backups stay as they are in any case. Once manual recovery is required it stays so.

  \<^bold>\<open>Repository automation.\<close>
  \<^item> \<open>Change_Policy\<close> (\<^verbatim>\<open>scripts/change-policy.mjs\<close>, \<^verbatim>\<open>classify-changes.mjs\<close>, \<^verbatim>\<open>auto-merge-eligibility.mjs\<close>, \<^verbatim>\<open>auto-merge-orchestration.mjs\<close>,
    \<^verbatim>\<open>evaluate-deployment-freshness.mjs\<close>, \<^verbatim>\<open>lib/deployment-component-impact.js\<close>): which paths need review, which component they touch, and when a
    queued deployment is superseded.
  \<^item> \<open>Feature_Requests\<close>, \<open>Feature_Issues\<close> (the scripts that turn feature requests into issues): rendering, validation, selection, creation;
    validation is rendering after four checks, and creating issues is idempotent as far as the search of the tracker finds what was created.
  \<^item> \<open>Runtime_Publication\<close> (\<^verbatim>\<open>scripts/reconcile-runtime-publication.mjs\<close>, \<^verbatim>\<open>validate-runtime-revision.mjs\<close>, \<^verbatim>\<open>adrian-publication-plan.mjs\<close>): the plan
    for the tags of an image and its reconciliation with the registry, which never goes backwards.

  \<^bold>\<open>Bounds and fuel.\<close> Loops of the code are structural recursions or functions with a termination proof, with these exceptions. The
  attempts of a request are bounded by the constant of the code. The recursion of \<open>strong\<close> has the number of nodes as its depth, and
  \<open>strong_returns\<close> shows that it is enough; the chains of conversations have two more steps than there are nodes, and \<open>chain_enough\<close> shows
  that this is enough. The expansion of a composition ends because the stack of open workflows grows up to the depth the code allows, the closure of
  affected workflows because every round adds an identifier of a candidate. The matcher of regular expressions is recursive on the expression and the text.

  \<^bold>\<open>Findings.\<close> \<open>variation_identifier\<close>, \<open>safe_return_to_open_redirect\<close>, \<open>partial_removal_loses_database\<close>, \<open>failed_cleanup_stays_busy\<close>,
  \<open>refused_endpoint_leaves_secret\<close>, \<open>cancelled_run_revived\<close>, \<open>claim_withdraws_cancellation\<close>, \<open>unconditional_cycle_accepted\<close>, \<open>up_skips_last\<close>,
  \<open>publishing_workflow_not_reusable\<close> and \<open>unsupported_backend_breaks_report\<close> show where the code does not do what it means to.

  \<^bold>\<open>Not modelled.\<close> React components, pages and thin API routes (presentation); the clients and services around third-party agent
  SDKs (\<^verbatim>\<open>adt-runtime/\<close>, the HTTP part of \<^verbatim>\<open>codex-runner/\<close>, provider adapters), whose behaviour is that of the packages they call; the launch of
  workflows and the D1 twin of the run store (\<^verbatim>\<open>lib/workflow-launch.ts\<close>, \<^verbatim>\<open>lib/workflow-d1-storage.ts\<close>); deployment metadata
  (presentation of records of the build); the sharing of one cache load by concurrent callers; message texts of schema errors.
\<close>

end
